(* ===== verification/Errors.thy ===== *)
theory Errors
  imports Prelude
begin

text \<open>
  \<^verbatim>\<open>src/src/errors.rs\<close>: the error enum of the service, the constructor that
  classifies an upstream message, the HTTP status of an error and its response body.
  The foreign error types wrapped by \<open>Io\<close>, \<open>Json\<close>, \<open>Yaml\<close> and \<open>Reqwest\<close> are
  represented by their display string, \<open>Reqwest\<close> also by the answer of its
  \<open>is_timeout\<close>.
\<close>

datatype gail_error =
    BadRequest string
  | Unauthorized
  | NotFound string
  | InvalidConfig string
  | Multipart string
  | Upstream (ue_provider: string) (ue_message: string) (ue_status: "nat option")
      (ue_quota: bool) (ue_timeout: bool)
  | IoError string
  | JsonError string
  | YamlError string
  | ReqwestError string bool

definition message_indicates_quota :: "string \<Rightarrow> bool" where
  "message_indicates_quota message =
     (let lowered = to_ascii_lowercase message;
          compact = filter (\<lambda>c. \<not> is_ascii_whitespace c) lowered
      in str_contains lowered ''quota''
         \<or> str_contains lowered ''rate limit''
         \<or> str_contains lowered ''rate_limit''
         \<or> str_contains lowered ''too many requests''
         \<or> str_contains compact ''status\":429''
         \<or> str_contains compact ''status:429''
         \<or> str_contains lowered ''status 429''
         \<or> str_contains lowered ''http 429'')"

definition upstream :: "string \<Rightarrow> nat option \<Rightarrow> string \<Rightarrow> gail_error" where
  "upstream provider status message =
     (let quota = (status = Some 429 \<or> message_indicates_quota message);
          lowered = to_ascii_lowercase message;
          timeout = (str_contains lowered ''timeout'' \<or> str_contains lowered ''timed out'')
      in Upstream provider message status quota timeout)"

fun is_quota :: "gail_error \<Rightarrow> bool" where
  "is_quota (Upstream _ _ _ quota _) = quota"
| "is_quota _ = False"

fun is_timeout :: "gail_error \<Rightarrow> bool" where
  "is_timeout (Upstream _ _ _ _ timeout) = timeout"
| "is_timeout (ReqwestError _ timeout) = timeout"
| "is_timeout _ = False"

fun status_code :: "gail_error \<Rightarrow> nat" where
  "status_code (BadRequest _) = 400"
| "status_code (Multipart _) = 400"
| "status_code Unauthorized = 401"
| "status_code (NotFound _) = 404"
| "status_code (InvalidConfig _) = 500"
| "status_code (Upstream _ _ status quota timeout) =
     (if quota then 429
      else if timeout then 504
      else case status of Some s \<Rightarrow> s | None \<Rightarrow> 502)"
| "status_code (IoError _) = 500"
| "status_code (JsonError _) = 500"
| "status_code (YamlError _) = 500"
| "status_code (ReqwestError _ _) = 500"

fun error_display :: "gail_error \<Rightarrow> string" where
  "error_display (BadRequest m) = m"
| "error_display Unauthorized = ''unauthorized''"
| "error_display (NotFound m) = m"
| "error_display (InvalidConfig m) = m"
| "error_display (Multipart m) = ''multipart error: '' @ m"
| "error_display (Upstream p m _ _ _) = p @ '' upstream error: '' @ m"
| "error_display (IoError m) = m"
| "error_display (JsonError m) = m"
| "error_display (YamlError m) = m"
| "error_display (ReqwestError m _) = m"

record error_body =
  eb_error :: string
  eb_message :: string
  eb_provider :: "string option"
  eb_quota :: bool
  eb_timeout :: bool

definition plain_body :: "string \<Rightarrow> string \<Rightarrow> error_body" where
  "plain_body kind message =
     \<lparr>eb_error = kind, eb_message = message, eb_provider = None, eb_quota = False,
      eb_timeout = False\<rparr>"

fun into_response :: "gail_error \<Rightarrow> nat \<times> error_body" where
  "into_response Unauthorized = (401, plain_body ''unauthorized'' (error_display Unauthorized))"
| "into_response (Upstream provider message status quota timeout) =
     (status_code (Upstream provider message status quota timeout),
      \<lparr>eb_error = ''upstream_error'', eb_message = message, eb_provider = Some provider,
       eb_quota = quota, eb_timeout = timeout\<rparr>)"
| "into_response (BadRequest message) = (400, plain_body ''request_error'' message)"
| "into_response (NotFound message) = (404, plain_body ''request_error'' message)"
| "into_response (InvalidConfig message) = (500, plain_body ''request_error'' message)"
| "into_response (Multipart message) = (400, plain_body ''multipart_error'' message)"
| "into_response e = (status_code e, plain_body ''internal_error'' (error_display e))"

lemma into_response_status: "fst (into_response e) = status_code e"
  by (cases e) simp_all

lemma ascii_lower_idem [simp]: "ascii_lower (ascii_lower c) = ascii_lower c"
  by (simp add: ascii_lower_def code_point_def Let_def)

lemma to_ascii_lowercase_idem [simp]:
  "to_ascii_lowercase (to_ascii_lowercase s) = to_ascii_lowercase s"
  by (simp add: to_ascii_lowercase_def)

lemma message_indicates_quota_case:
  "eq_ignore_ascii_case a b \<Longrightarrow> message_indicates_quota a = message_indicates_quota b"
  by (simp add: message_indicates_quota_def eq_ignore_ascii_case_def)

text \<open>The HTTP status of an upstream failure: 429 when the provider answered 429 or its message
  speaks of a quota; else 504 when the message speaks of a timeout; else the provider's own
  status, or 502 when it gave none.\<close>

theorem upstream_response:
  "fst (into_response (upstream provider status message)) =
     (if status = Some 429 \<or> message_indicates_quota message then 429
      else if str_contains (to_ascii_lowercase message) ''timeout''
              \<or> str_contains (to_ascii_lowercase message) ''timed out'' then 504
      else case status of Some s \<Rightarrow> s | None \<Rightarrow> 502)"
  by (simp add: upstream_def Let_def)

end
