(* ===== verification/Aer.thy ===== *)
theory Aer
  imports Errors
begin

text \<open>
  \<^verbatim>\<open>src/src/aer.rs\<close>: the \<open>AER1\<close> binary codec for spike events. Bytes are
  \<open>8 word\<close>, time stamps \<open>64 word\<close>, addresses \<open>32 word\<close>. The encoder's loops append
  to the output vector; here they return the appended bytes. The decoder works on an
  index into the payload, as the code does, so a read past the end is the code's error
  branch and never an unspecified list access.
\<close>

section \<open>Model\<close>

record aer_event =
  ts_us :: u64
  addr :: u32
  event_value :: u8

definition aer_magic :: "u8 list" where
  "aer_magic = [65, 69, 82, 49]"

definition max_dense_spikes :: usize where
  "max_dense_spikes = 16 * 1024 * 1024"

function write_varint :: "u64 \<Rightarrow> u8 list" where
  "write_varint current =
     (if 0x80 \<le> current
      then ((ucast current AND 0x7f) OR 0x80) # write_varint (drop_bit 7 current)
      else [ucast current AND 0x7f])"
  by pat_completeness auto
termination
proof (relation "measure unat")
  fix current :: u64
  assume "0x80 \<le> current"
  then have "128 \<le> unat current" by (simp add: word_le_nat_alt)
  then show "(drop_bit 7 current, current) \<in> measure unat"
    by (simp add: drop_bit_eq_div unat_div)
qed simp

function read_varint_loop ::
  "u8 list \<Rightarrow> u64 \<Rightarrow> nat \<Rightarrow> nat \<Rightarrow> gail_error + (u64 \<times> nat)" where
  "read_varint_loop payload result shift index =
     (if index < length payload then
        (let byte = payload ! index;
             result = result OR push_bit shift (ucast (byte AND 0x7f) :: u64);
             index = index + 1
         in if byte AND 0x80 = 0 then Inr (result, index)
            else let shift = shift + 7
                 in if 64 \<le> shift then Inl (BadRequest ''AER varint overflow'')
                    else read_varint_loop payload result shift index)
      else Inl (BadRequest ''AER payload truncated''))"
  by pat_completeness auto
termination by (relation "measure (\<lambda>(p, r, s, i). length p - i)") auto

declare write_varint.simps [simp del] read_varint_loop.simps [simp del]

definition read_varint :: "u8 list \<Rightarrow> nat \<Rightarrow> gail_error + (u64 \<times> nat)" where
  "read_varint payload start = read_varint_loop payload 0 0 start"

definition to_le_bytes :: "u64 \<Rightarrow> u8 list" where
  "to_le_bytes w = map (\<lambda>i. ucast (drop_bit (8 * i) w)) [0..<8]"

definition from_le_bytes :: "u8 list \<Rightarrow> u64" where
  "from_le_bytes bs = foldr (\<lambda>b acc. (ucast b :: u64) OR push_bit 8 acc) bs 0"

fun encode_loop :: "u64 \<Rightarrow> aer_event list \<Rightarrow> u8 list" where
  "encode_loop previous_ts [] = []"
| "encode_loop previous_ts (event # rest) =
     (let delta = sat_sub (ts_us event) previous_ts
      in write_varint delta @ write_varint (ucast (addr event))
         @ write_varint (ucast (event_value event)) @ encode_loop (ts_us event) rest)"

definition encode_events :: "aer_event list \<Rightarrow> u8 list" where
  "encode_events events =
     (if events = [] then []
      else let ordered = sort_key ts_us events;
               base_ts = ts_us (hd ordered)
           in aer_magic @ to_le_bytes base_ts @ encode_loop base_ts ordered)"

lemma read_varint_loop_advances:
  "read_varint_loop payload result shift index = Inr (v, next_index) \<Longrightarrow>
     index < next_index \<and> next_index \<le> length payload"
proof (induction payload result shift index rule: read_varint_loop.induct)
  case (1 payload result shift index)
  then show ?case
    by (subst (asm) (2) read_varint_loop.simps)
      (force simp: Let_def split: if_splits)
qed

lemma read_varint_advances:
  "read_varint payload index = Inr (v, next_index) \<Longrightarrow>
     index < next_index \<and> next_index \<le> length payload"
  unfolding read_varint_def by (rule read_varint_loop_advances)

definition read_triple ::
  "u8 list \<Rightarrow> nat \<Rightarrow> gail_error + ((u64 \<times> u64 \<times> u64) \<times> nat)" where
  "read_triple payload index =
     (case read_varint payload index of Inl e \<Rightarrow> Inl e
      | Inr (delta, index1) \<Rightarrow>
        (case read_varint payload index1 of Inl e \<Rightarrow> Inl e
         | Inr (a, index2) \<Rightarrow>
           (case read_varint payload index2 of Inl e \<Rightarrow> Inl e
            | Inr (v, index3) \<Rightarrow> Inr ((delta, a, v), index3))))"

lemma read_triple_advances:
  "read_triple payload index = Inr (t, next_index) \<Longrightarrow>
     index < next_index \<and> next_index \<le> length payload"
  by (auto simp: read_triple_def split: sum.splits dest!: read_varint_advances)

function decode_loop ::
  "u8 list \<Rightarrow> u64 \<Rightarrow> nat \<Rightarrow> aer_event list \<Rightarrow> gail_error + aer_event list" where
  "decode_loop payload previous_ts index events =
     (if index < length payload then
        (case read_triple payload index of Inl e \<Rightarrow> Inl e
         | Inr ((delta, a, v), next_index) \<Rightarrow>
             let previous_ts = sat_add previous_ts delta
             in decode_loop payload previous_ts next_index
                  (events @ [\<lparr>ts_us = previous_ts, addr = ucast a, event_value = ucast v\<rparr>]))
      else Inr events)"
  by pat_completeness auto
termination
  by (relation "measure (\<lambda>(p, t, i, es). length p - i)")
    (auto dest!: read_triple_advances)

declare decode_loop.simps [simp del]

definition decode_events :: "u8 list \<Rightarrow> gail_error + aer_event list" where
  "decode_events payload =
     (if payload = [] then Inr []
      else if length payload < 12 then Inl (BadRequest ''AER payload truncated'')
      else if take 4 payload \<noteq> aer_magic then Inl (BadRequest ''AER payload magic mismatch'')
      else let base_ts = from_le_bytes (take 8 (drop 4 payload))
           in decode_loop payload base_ts 12 [])"

definition spikes_to_events :: "u64 \<Rightarrow> u32 \<Rightarrow> u8 list \<Rightarrow> aer_event list" where
  "spikes_to_events ts base_addr spikes =
     map (\<lambda>(i, spike). \<lparr>ts_us = ts, addr = base_addr + of_nat i, event_value = 1\<rparr>)
       (filter (\<lambda>(i, spike). spike \<noteq> 0) (enumerate 0 spikes))"

definition encode_spikes :: "u64 \<Rightarrow> u32 \<Rightarrow> u8 list \<Rightarrow> u8 list" where
  "encode_spikes ts base_addr spikes = encode_events (spikes_to_events ts base_addr spikes)"

definition event_index :: "u32 \<Rightarrow> aer_event \<Rightarrow> nat" where
  "event_index base_addr event = unat (sat_sub (addr event) base_addr)"

fun apply_events_to_spikes :: "aer_event list \<Rightarrow> u32 \<Rightarrow> u8 list \<Rightarrow> u8 list \<times> nat" where
  "apply_events_to_spikes [] base_addr destination = (destination, 0)"
| "apply_events_to_spikes (event # events) base_addr destination =
     (if event_value event = 0 then apply_events_to_spikes events base_addr destination
      else let i = event_index base_addr event
           in if i < length destination
              then let (d, count) = apply_events_to_spikes events base_addr (destination[i := 1])
                   in (d, count + 1)
              else apply_events_to_spikes events base_addr destination)"

definition validate_dense_length :: "usize \<Rightarrow> gail_error + unit" where
  "validate_dense_length len =
     (if max_dense_spikes < len
      then Inl (BadRequest ''AER dense output exceeds the 16 MiB limit'') else Inr ())"

definition decode_spikes :: "u8 list \<Rightarrow> u32 \<Rightarrow> usize \<Rightarrow> gail_error + u8 list" where
  "decode_spikes payload base_addr len =
     (case validate_dense_length len of Inl e \<Rightarrow> Inl e
      | Inr _ \<Rightarrow>
        (case decode_events payload of Inl e \<Rightarrow> Inl e
         | Inr events \<Rightarrow>
             Inr (fst (apply_events_to_spikes events base_addr (replicate len 0)))))"

definition decode_spikes_auto :: "u8 list \<Rightarrow> u32 \<Rightarrow> gail_error + u8 list" where
  "decode_spikes_auto payload base_addr =
     (case decode_events payload of Inl e \<Rightarrow> Inl e
      | Inr events \<Rightarrow>
          let max_index = (if events = [] then 0
                           else Max (set (map (event_index base_addr) events)));
              len = usize_sat_add max_index 1
          in (case validate_dense_length len of Inl e \<Rightarrow> Inl e
              | Inr _ \<Rightarrow>
                  Inr (fst (apply_events_to_spikes events base_addr (replicate len 0)))))"


section \<open>The codec\<close>

lemma low_mask: "(0x7f :: 'a::len word) = mask 7"
  by (simp add: mask_eq_exp_minus_1)

lemma flag_bit: "(0x80 :: 'a::len word) = push_bit 7 1"
  by (simp add: push_bit_eq_mult)

lemma varint_byte_low:
  "(ucast ((ucast v :: u8) AND 0x7f) :: u64) = v AND 0x7f"
  "(ucast ((((ucast v :: u8) AND 0x7f) OR 0x80) AND 0x7f) :: u64) = v AND 0x7f"
  for v :: u64
  unfolding low_mask flag_bit
  by (auto simp add: bit_eq_iff bit_simps simp del: push_bit_of_1)

lemma varint_byte_flag:
  "((x AND 0x7f) AND 0x80 :: u8) = 0"
  "((x AND 0x7f) OR 0x80) AND 0x80 \<noteq> (0 :: u8)"
  unfolding low_mask flag_bit
  by (auto simp add: bit_eq_iff bit_simps simp del: push_bit_of_1 intro: exI [of _ 7])

lemma varint_join:
  "push_bit s (v AND 0x7f) OR push_bit (s + 7) (drop_bit 7 v) = push_bit s (v :: u64)"
  unfolding low_mask
proof (rule bit_word_eqI)
  fix n
  assume "n < LENGTH(64)"
  then show "bit (push_bit s (v AND mask 7) OR push_bit (s + 7) (drop_bit 7 v)) n
      = bit (push_bit s v) n"
    by (cases "s + 7 \<le> n") (auto simp: bit_simps)
qed

lemma read_varint_loop_write:
  assumes "s < 64" and "unat v < 2 ^ (64 - s)"
  shows "read_varint_loop (pre @ write_varint v @ post) r s (length pre)
           = Inr (r OR push_bit s v, length pre + length (write_varint v))"
  using assms
proof (induction v arbitrary: pre r s rule: write_varint.induct)
  case (1 v)
  show ?case
  proof (cases "0x80 \<le> v")
    case True
    define b where "b = ((ucast v AND 0x7f) OR 0x80 :: u8)"
    have w: "write_varint v = b # write_varint (drop_bit 7 v)"
      using True by (simp add: write_varint.simps [of v] b_def)
    have "128 \<le> unat v" using True by (simp add: word_le_nat_alt)
    then have "(2::nat) ^ 7 < 2 ^ (64 - s)" using "1.prems"(2) by simp
    then have s: "7 < 64 - s" by (simp only: power_strict_increasing_iff)
    then have "(2::nat) ^ (64 - s) = 2 ^ 7 * 2 ^ (64 - (s + 7))"
      by (subst power_add [symmetric]) simp
    then have small: "unat (drop_bit 7 v) < 2 ^ (64 - (s + 7))"
      using "1.prems"(2) by (simp add: drop_bit_eq_div unat_div less_mult_imp_div_less mult.commute)
    have IH: "read_varint_loop ((pre @ [b]) @ write_varint (drop_bit 7 v) @ post)
        (r OR push_bit s (v AND 0x7f)) (s + 7) (length (pre @ [b]))
      = Inr ((r OR push_bit s (v AND 0x7f)) OR push_bit (s + 7) (drop_bit 7 v),
             length (pre @ [b]) + length (write_varint (drop_bit 7 v)))"
      using s by (intro "1.IH" [OF True _ small]) simp
    have b: "(ucast (b AND 0x7f) :: u64) = v AND 0x7f" "b AND 0x80 \<noteq> 0"
      unfolding b_def by (rule varint_byte_low varint_byte_flag)+
    have "read_varint_loop (pre @ write_varint v @ post) r s (length pre)
        = read_varint_loop ((pre @ [b]) @ write_varint (drop_bit 7 v) @ post)
            (r OR push_bit s (v AND 0x7f)) (s + 7) (length (pre @ [b]))"
      using s b by (simp add: w read_varint_loop.simps [of "pre @ b # _"] Let_def)
    also note IH
    finally show ?thesis
      using varint_join [of s v] by (simp add: w or.assoc)
  next
    case False
    then have "v AND 0x7f = v"
      by (simp add: low_mask flip: take_bit_eq_mask)
         (simp add: word_unat_eq_iff unsigned_take_bit_eq take_bit_nat_eq_self word_less_nat_alt not_le)
    with False show ?thesis
      by (simp add: write_varint.simps [of v] read_varint_loop.simps [of "pre @ _ # _"]
          varint_byte_low varint_byte_flag)
  qed
qed


lemma read_varint_write:
  "read_varint (pre @ write_varint v @ post) (length pre)
     = Inr (v, length pre + length (write_varint v))"
  using read_varint_loop_write [of 0 v pre post 0] unsigned_less [of v]
  by (simp add: read_varint_def)

lemma write_varint_nonempty: "write_varint v \<noteq> []"
  by (subst write_varint.simps) simp

interpretation varint: prefix_codec write_varint read_varint
  by unfold_locales (rule read_varint_write write_varint_nonempty)+

definition write_triple :: "u64 \<times> u64 \<times> u64 \<Rightarrow> u8 list" where
  "write_triple t = (case t of (d, a, v) \<Rightarrow> write_varint d @ write_varint a @ write_varint v)"

interpretation event_codec: prefix_codec write_triple read_triple
proof
  fix pre post :: "u8 list" and t :: "u64 \<times> u64 \<times> u64"
  obtain d a v where t: "t = (d, a, v)" by (cases t)
  let ?p = "pre @ write_varint d @ write_varint a @ write_varint v @ post"
  have "read_varint ?p (length pre) = Inr (d, length pre + length (write_varint d))"
    by (rule varint.dec_enc)
  moreover have "read_varint ?p (length (pre @ write_varint d))
      = Inr (a, length (pre @ write_varint d) + length (write_varint a))"
    using varint.dec_enc [of "pre @ write_varint d"] by (simp only: append_assoc)
  moreover have "read_varint ?p (length (pre @ write_varint d @ write_varint a))
      = Inr (v, length (pre @ write_varint d @ write_varint a) + length (write_varint v))"
    using varint.dec_enc [of "pre @ write_varint d @ write_varint a"] by (simp only: append_assoc)
  ultimately show "read_triple (pre @ write_triple t @ post) (length pre)
      = Inr (t, length pre + length (write_triple t))"
    by (simp add: read_triple_def write_triple_def t add.assoc)
  show "write_triple t \<noteq> []"
    by (simp add: write_triple_def t write_varint_nonempty)
qed

lemma encode_loop_Cons:
  "encode_loop t (e # es)
     = write_triple (sat_sub (ts_us e) t, ucast (addr e), ucast (event_value e))
       @ encode_loop (ts_us e) es"
  by (simp add: write_triple_def)

lemma ucast_event_fields:
  "(ucast (ucast a :: u64) :: u32) = a" "(ucast (ucast v :: u64) :: u8) = v"
  for a :: u32 and v :: u8
  by (auto simp: bit_eq_iff bit_simps)

lemma aer_event_eta: "\<lparr>ts_us = ts_us e, addr = addr e, event_value = event_value e\<rparr> = e"
  by simp

lemma decode_loop_encode_loop:
  assumes "sorted (map ts_us es)" and "\<forall>e\<in>set es. t \<le> ts_us e"
  shows "decode_loop (pre @ encode_loop t es) t (length pre) acc = Inr (acc @ es)"
  using assms
proof (induction es arbitrary: t pre acc)
  case Nil
  then show ?case by (simp add: decode_loop.simps)
next
  case (Cons e es)
  define w where "w = write_triple (sat_sub (ts_us e) t, ucast (addr e), ucast (event_value e))"
  have enc: "encode_loop t (e # es) = w @ encode_loop (ts_us e) es"
    by (simp only: encode_loop_Cons w_def)
  have read: "read_triple (pre @ w @ encode_loop (ts_us e) es) (length pre)
     = Inr ((sat_sub (ts_us e) t, ucast (addr e), ucast (event_value e)), length (pre @ w))"
    unfolding w_def by (simp only: event_codec.dec_enc length_append)
  have ts: "sat_add t (sat_sub (ts_us e) t) = ts_us e"
    using Cons.prems by (simp add: sat_add_sat_sub_cancel)
  have "w \<noteq> []" unfolding w_def by (rule event_codec.enc_nonempty)
  then have "decode_loop (pre @ encode_loop t (e # es)) t (length pre) acc
      = decode_loop ((pre @ w) @ encode_loop (ts_us e) es) (ts_us e) (length (pre @ w)) (acc @ [e])"
    by (simp add: enc decode_loop.simps [of "pre @ w @ _" t "length pre" acc] read ts Let_def
        ucast_event_fields aer_event_eta del: encode_loop.simps)
  also have "\<dots> = Inr ((acc @ [e]) @ es)"
    using Cons.prems by (intro Cons.IH) auto
  finally show ?case by simp
qed

lemma le_byte_join:
  "(ucast (ucast x :: u8) :: u64) OR push_bit 8 (drop_bit 8 x) = x" for x :: u64
proof (rule bit_word_eqI)
  fix n
  assume "n < LENGTH(64)"
  then show "bit ((ucast (ucast x :: u8) :: u64) OR push_bit 8 (drop_bit 8 x)) n = bit x n"
    by (cases "8 \<le> n") (auto simp: bit_simps)
qed

lemma from_le_bytes_upt:
  "from_le_bytes (map (\<lambda>i. ucast (drop_bit (8 * i) w)) [k..<k + m])
     = (if m = 0 then 0 else drop_bit (8 * k) w)" if "k + m = 8"
  using that
proof (induction m arbitrary: k)
  case 0
  then show ?case by (simp add: from_le_bytes_def)
next
  case (Suc m)
  have "[k..<k + Suc m] = k # [Suc k..<Suc k + m]" by (simp add: upt_conv_Cons)
  then have "from_le_bytes (map (\<lambda>i. ucast (drop_bit (8 * i) w)) [k..<k + Suc m])
    = ucast (ucast (drop_bit (8 * k) w) :: u8)
      OR push_bit 8 (from_le_bytes (map (\<lambda>i. ucast (drop_bit (8 * i) w)) [Suc k..<Suc k + m]))"
    by (simp add: from_le_bytes_def)
  also have "from_le_bytes (map (\<lambda>i. ucast (drop_bit (8 * i) w)) [Suc k..<Suc k + m])
      = drop_bit 8 (drop_bit (8 * k) w)"
  proof (cases "m = 0")
    case True
    with Suc.prems have "k = 7" by simp
    moreover have "drop_bit 8 (drop_bit (8 * 7) w) = 0"
      by (auto simp: bit_eq_iff bit_simps dest: bit_imp_le_length)
    ultimately have "drop_bit 8 (drop_bit (8 * k) w) = 0" by simp
    with True show ?thesis using Suc.IH [of "Suc k"] Suc.prems by simp
  next
    case False
    moreover have "Suc k + m = 8" using Suc.prems by simp
    ultimately show ?thesis
      using Suc.IH [of "Suc k"] by (simp only: if_False drop_bit_drop_bit mult_Suc_right)
  qed
  finally show ?case by (simp only: le_byte_join nat.simps if_False)
qed

lemma from_to_le_bytes: "from_le_bytes (to_le_bytes w) = w"
  using from_le_bytes_upt [of 0 8 w] by (simp add: to_le_bytes_def)

lemma decode_encode_events: "decode_events (encode_events es) = Inr (sort_key ts_us es)"
proof (cases "es = []")
  case True
  then show ?thesis by (simp add: encode_events_def decode_events_def)
next
  case False
  define os where "os = sort_key ts_us es"
  define t where "t = ts_us (hd os)"
  have "os \<noteq> []" using False by (metis os_def length_0_conv length_sort)
  have srt: "sorted (map ts_us os)" by (simp add: os_def)
  have min: "\<forall>e\<in>set os. t \<le> ts_us e"
    using srt \<open>os \<noteq> []\<close> by (cases os) (auto simp: t_def)
  have len: "length (aer_magic @ to_le_bytes t) = 12"
    by (simp add: aer_magic_def to_le_bytes_def)
  have enc: "encode_events es = (aer_magic @ to_le_bytes t) @ encode_loop t os"
    using False by (simp add: encode_events_def os_def t_def Let_def)
  have "decode_loop ((aer_magic @ to_le_bytes t) @ encode_loop t os) t 12 [] = Inr ([] @ os)"
    using decode_loop_encode_loop [OF srt min, of "aer_magic @ to_le_bytes t" "[]"] len by simp
  moreover have "take 4 (encode_events es) = aer_magic"
    and "take 8 (drop 4 (encode_events es)) = to_le_bytes t"
    by (simp_all add: enc aer_magic_def to_le_bytes_def)
  ultimately show ?thesis
    using len by (simp add: decode_events_def enc from_to_le_bytes Let_def os_def aer_magic_def)
qed

text \<open>C29: The AER wire format is lossless: decoding the encoding of any list of events, in any
  order and with any 64-bit timestamps, gives the events sorted by timestamp, with events of
  equal timestamp in their original order.\<close>

theorem aer_roundtrip: "decode_events (encode_events es) = Inr (sort_key ts_us es)"
  by (rule decode_encode_events)

section \<open>Spikes\<close>

lemma decode_loop_sorted:
  "decode_loop payload t i acc = Inr es \<Longrightarrow> sorted (map ts_us acc) \<Longrightarrow> \<forall>e\<in>set acc. ts_us e \<le> t \<Longrightarrow>
     sorted (map ts_us es)"
proof (induction payload t i acc rule: decode_loop.induct)
  case (1 payload t i acc)
  show ?case
  proof (cases "i < length payload")
    case False
    with "1.prems" show ?thesis by (simp add: decode_loop.simps [of payload t i acc])
  next
    case True
    with "1.prems"(1) obtain d a v j where r: "read_triple payload i = Inr ((d, a, v), j)"
      by (subst (asm) decode_loop.simps) (auto split: sum.splits)
    have le: "t \<le> sat_add t d"
      using unsigned_less [of t, where 'a = nat] by (simp add: word_le_nat_alt unat_sat_add)
    show ?thesis
      using "1.IH" [OF True r refl refl refl refl] "1.prems" True r le
      by (auto simp: decode_loop.simps [of payload t i acc] Let_def sorted_append
          intro: order_trans)
  qed
qed

text \<open>Any payload that decodes, also one the encoder never wrote, decodes to events in
  order of their timestamps: the sum of deltas saturates and never wraps.\<close>

theorem decode_events_sorted:
  assumes "decode_events payload = Inr es"
  shows "sorted (map ts_us es)"
  using assms
  by (auto simp: decode_events_def Let_def split: if_splits intro: decode_loop_sorted)

theorem decode_events_sorted_witness:
  "sorted (map ts_us (sort_key ts_us [\<lparr>ts_us = 9, addr = 1, event_value = 1\<rparr>,
     \<lparr>ts_us = 4, addr = 2, event_value = 0\<rparr>]))"
  by (rule decode_events_sorted [OF decode_encode_events])

lemma apply_length: "length (fst (apply_events_to_spikes es b d)) = length d"
  by (induction es b d rule: apply_events_to_spikes.induct)
    (auto simp: Let_def split: prod.splits)

lemma apply_events_nth:
  "fst (apply_events_to_spikes es b d)
     = map (\<lambda>i. if \<exists>e\<in>set es. event_value e \<noteq> 0 \<and> event_index b e = i then 1 else d ! i)
         [0..<length d]"
proof (induction es b d rule: apply_events_to_spikes.induct)
  case (1 b d)
  then show ?case by (simp add: map_nth)
next
  case (2 e es b d)
  then show ?case
    by (auto simp: Let_def nth_list_update split: prod.splits)
qed

lemma apply_events_count:
  "snd (apply_events_to_spikes es b d)
     = length (filter (\<lambda>e. event_value e \<noteq> 0 \<and> event_index b e < length d) es)"
  by (induction es b d rule: apply_events_to_spikes.induct)
    (auto simp: Let_def split: prod.splits)

lemma decode_spikes_length:
  "decode_spikes payload b len = Inr xs \<Longrightarrow> length xs = len \<and> len \<le> max_dense_spikes"
  by (auto simp: decode_spikes_def validate_dense_length_def apply_length
      split: sum.splits if_splits)

text \<open>The self-sizing decoder never allocates beyond the dense limit: a payload that decodes
  gives a nonempty vector of at most \<open>max_dense_spikes\<close> entries, whatever address it names.\<close>

theorem decode_spikes_auto_bounded:
  assumes "decode_spikes_auto payload b = Inr xs"
  shows "0 < length xs \<and> length xs \<le> max_dense_spikes"
proof -
  from assms obtain es m where "xs = fst (apply_events_to_spikes es b (replicate (usize_sat_add m 1) 0))"
    and "usize_sat_add m 1 \<le> max_dense_spikes"
    by (auto simp: decode_spikes_auto_def Let_def validate_dense_length_def
        simp del: apply_events_to_spikes.simps split: sum.splits if_splits)
  then show ?thesis by (simp add: apply_length usize_sat_add_def usize_max_def)
qed

theorem decode_spikes_auto_bounded_witness:
  "\<exists>xs. decode_spikes_auto (encode_events [\<lparr>ts_us = 9, addr = 3, event_value = 1\<rparr>]) 0 = Inr xs
     \<and> 0 < length xs \<and> length xs \<le> max_dense_spikes"
proof -
  have "decode_events (encode_events [\<lparr>ts_us = 9, addr = 3, event_value = 1\<rparr>])
      = Inr [\<lparr>ts_us = 9, addr = 3, event_value = 1\<rparr>]"
    by (simp add: decode_encode_events)
  then obtain xs where
    "decode_spikes_auto (encode_events [\<lparr>ts_us = 9, addr = 3, event_value = 1\<rparr>]) 0 = Inr xs"
    by (auto simp: decode_spikes_auto_def Let_def validate_dense_length_def max_dense_spikes_def
        event_index_def sat_sub_def usize_sat_add_def usize_max_def split: sum.splits)
  then show ?thesis using decode_spikes_auto_bounded by blast
qed

lemma sort_key_const: "(\<And>x. x \<in> set xs \<Longrightarrow> f x = c) \<Longrightarrow> sort_key f xs = xs"
  by (induction xs) (auto simp: insort_is_Cons)

text \<open>Dense spike vectors survive the wire: encoding a vector from base address \<open>b\<close> and
  decoding it into as many entries gives back which entries were nonzero, provided that the
  addresses fit in 32 bits and the vector is within the dense limit.\<close>

theorem spikes_roundtrip:
  assumes "unat b + length spikes \<le> 2 ^ 32" and "length spikes \<le> max_dense_spikes"
  shows "decode_spikes (encode_spikes t b spikes) b (length spikes)
           = Inr (map (\<lambda>s. if s = 0 then 0 else 1) spikes)"
proof -
  let ?es = "spikes_to_events t b spikes"
  have "sort_key ts_us ?es = ?es"
    by (rule sort_key_const) (auto simp: spikes_to_events_def)
  then have dec: "decode_events (encode_spikes t b spikes) = Inr ?es"
    by (simp add: encode_spikes_def decode_encode_events)
  have idx: "unat (sat_sub (b + of_nat i) b) = i" if "i < length spikes" for i
  proof -
    have "unat (of_nat i :: u32) = i" 
      using that assms(1) by (simp add: unat_of_nat)
    then show ?thesis using that assms(1)
      by (simp add: unat_sat_sub unat_word_ariths)
  qed
  have "(\<exists>e\<in>set ?es. event_value e \<noteq> 0 \<and> event_index b e = i) \<longleftrightarrow> spikes ! i \<noteq> 0"
    if "i < length spikes" for i
    using that idx by (force simp: spikes_to_events_def event_index_def in_set_enumerate_eq)
  then have "fst (apply_events_to_spikes ?es b (replicate (length spikes) 0))
      = map (\<lambda>s. if s = 0 then 0 else 1) spikes"
    by (intro nth_equalityI) (auto simp: apply_events_nth)
  with dec assms(2) show ?thesis
    by (simp add: decode_spikes_def validate_dense_length_def)
qed

theorem spikes_roundtrip_witness:
  "decode_spikes (encode_spikes 5 100 [1, 0, 7]) 100 3 = Inr [1, 0, 1]"
  using spikes_roundtrip [of 100 "[1, 0, 7]" 5] by (simp add: max_dense_spikes_def numeral_3_eq_3)

theorem below_base_aliases:
  assumes "addr e < b" and "event_value e \<noteq> 0" and "d \<noteq> []"
  shows "fst (apply_events_to_spikes [e] b d) = d[0 := 1]"
  using assms by (cases d) (auto simp: event_index_def sat_sub_def Let_def)

theorem varint_excess_bits_accepted:
  "read_varint (replicate 9 0xff @ [0x7f]) 0 = Inr (- 1, 10)
   \<and> read_varint (replicate 9 0xff @ [0x01]) 0 = Inr (- 1, 10)"
proof -
  have r: "replicate 9 (0xff :: u8) = [0xff, 0xff, 0xff, 0xff, 0xff, 0xff, 0xff, 0xff, 0xff]"
    by (simp add: numeral_eq_Suc)
  show ?thesis unfolding r by (simp add: read_varint_def read_varint_loop.simps)
qed

end
