(* ===== verification/Float64.thy ===== *)
theory Float64
  imports Complex_Main Prelude "HOL-Library.Log_Nat"
begin

text \<open>
  Rust's \<open>f64\<close> as a datatype: not-a-number, the infinities, and finite values as exact
  rationals. Arithmetic computes the exact rational result and rounds it to the nearest
  IEEE 754 binary64 value, ties to even (\<open>rnd\<close>), overflowing to an infinity and
  keeping subnormals. Comparisons are IEEE's: every comparison with \<open>NaN\<close> is false, and
  \<open>total_cmp\<close> is the total order of the standard library. The two zeros are one value and
  all not-a-numbers are one value, placed above \<open>PInf\<close> in the total order, as a NaN with a
  clear sign bit is; no modelled code divides by a zero whose sign could matter.
\<close>

section \<open>Values, comparisons\<close>

datatype f64 = NInf | Fin rat | PInf | NaN

fun is_finite :: "f64 \<Rightarrow> bool" where
  "is_finite (Fin _) = True"
| "is_finite _ = False"

fun is_nan :: "f64 \<Rightarrow> bool" where
  "is_nan NaN = True"
| "is_nan _ = False"

fun f_le :: "f64 \<Rightarrow> f64 \<Rightarrow> bool" where
  "f_le NaN _ = False"
| "f_le _ NaN = False"
| "f_le NInf _ = True"
| "f_le _ PInf = True"
| "f_le (Fin a) (Fin b) = (a \<le> b)"
| "f_le _ _ = False"

fun f_lt :: "f64 \<Rightarrow> f64 \<Rightarrow> bool" where
  "f_lt NaN _ = False"
| "f_lt _ NaN = False"
| "f_lt NInf y = (y \<noteq> NInf)"
| "f_lt x PInf = (x \<noteq> PInf)"
| "f_lt (Fin a) (Fin b) = (a < b)"
| "f_lt _ _ = False"

definition f_eq :: "f64 \<Rightarrow> f64 \<Rightarrow> bool" where
  "f_eq x y = (x = y \<and> x \<noteq> NaN)"

text \<open>\<open>f64::total_cmp\<close>, as the \<open>\<le>\<close> of a linear order: \<open>NInf\<close>, finite, \<open>PInf\<close>, \<open>NaN\<close>.\<close>

fun f_rank :: "f64 \<Rightarrow> nat" where
  "f_rank NInf = 0"
| "f_rank (Fin _) = 1"
| "f_rank PInf = 2"
| "f_rank NaN = 3"

fun f_fin :: "f64 \<Rightarrow> rat" where
  "f_fin (Fin a) = a"
| "f_fin _ = 0"

instantiation f64 :: linorder
begin

definition less_eq_f64 :: "f64 \<Rightarrow> f64 \<Rightarrow> bool" where
  "less_eq_f64 x y \<longleftrightarrow> f_rank x < f_rank y \<or> f_rank x = f_rank y \<and> f_fin x \<le> f_fin y"

definition less_f64 :: "f64 \<Rightarrow> f64 \<Rightarrow> bool" where
  "less_f64 x y \<longleftrightarrow> f_rank x < f_rank y \<or> f_rank x = f_rank y \<and> f_fin x < f_fin y"

instance
proof
  fix x y z :: f64
  show "x < y \<longleftrightarrow> x \<le> y \<and> \<not> y \<le> x" by (auto simp: less_eq_f64_def less_f64_def)
  show "x \<le> x" by (simp add: less_eq_f64_def)
  show "x \<le> y \<Longrightarrow> y \<le> z \<Longrightarrow> x \<le> z" by (auto simp: less_eq_f64_def)
  show "x \<le> y \<Longrightarrow> y \<le> x \<Longrightarrow> x = y" by (cases x; cases y) (auto simp: less_eq_f64_def)
  show "x \<le> y \<or> y \<le> x" by (auto simp: less_eq_f64_def)
qed

end

lemma f_le_Fin [simp]: "Fin a \<le> Fin b \<longleftrightarrow> a \<le> b" by (simp add: less_eq_f64_def)

lemma f_le_iff: "f_le x y \<longleftrightarrow> x \<noteq> NaN \<and> y \<noteq> NaN \<and> x \<le> y"
  by (cases x; cases y) (simp_all add: less_eq_f64_def)

lemma f_lt_iff: "f_lt x y \<longleftrightarrow> x \<noteq> NaN \<and> y \<noteq> NaN \<and> x < y"
  by (cases x; cases y) (simp_all add: less_f64_def)

lemma is_finite_iff: "is_finite x \<longleftrightarrow> (\<exists>a. x = Fin a)" by (cases x) simp_all

section \<open>Minimum, maximum, clamp\<close>

definition f_max :: "f64 \<Rightarrow> f64 \<Rightarrow> f64" where
  "f_max x y = (if is_nan x then y else if is_nan y then x else max x y)"

definition f_min :: "f64 \<Rightarrow> f64 \<Rightarrow> f64" where
  "f_min x y = (if is_nan x then y else if is_nan y then x else min x y)"

text \<open>\<open>f64::clamp\<close>; the code calls it with ordered, finite bounds only (it panics otherwise).\<close>

definition f_clamp :: "f64 \<Rightarrow> f64 \<Rightarrow> f64 \<Rightarrow> f64" where
  "f_clamp x lo hi = (if f_lt x lo then lo else if f_lt hi x then hi else x)"

definition f_abs :: "f64 \<Rightarrow> f64" where
  "f_abs x = (case x of Fin a \<Rightarrow> Fin \<bar>a\<bar> | NInf \<Rightarrow> PInf | PInf \<Rightarrow> PInf | NaN \<Rightarrow> NaN)"

definition f_neg :: "f64 \<Rightarrow> f64" where
  "f_neg x = (case x of Fin a \<Rightarrow> Fin (- a) | NInf \<Rightarrow> PInf | PInf \<Rightarrow> NInf | NaN \<Rightarrow> NaN)"

lemma f_clamp_range: "f_le lo hi \<Longrightarrow> x \<noteq> NaN \<Longrightarrow> f_le lo (f_clamp x lo hi) \<and> f_le (f_clamp x lo hi) hi"
  by (auto simp: f_clamp_def f_le_iff f_lt_iff)

lemma f_clamp_finite: "x \<noteq> NaN \<Longrightarrow> is_finite lo \<Longrightarrow> is_finite hi \<Longrightarrow> is_finite (f_clamp x lo hi)"
  by (cases x; cases lo; cases hi) (auto simp: f_clamp_def)

section \<open>Rounding and arithmetic\<close>

definition pow2 :: "int \<Rightarrow> rat" where
  "pow2 e = 2 powi e"

text \<open>The exponent of a positive rational: \<open>pow2 (ilog2 q) \<le> q < pow2 (ilog2 q + 1)\<close>.\<close>

definition ilog2 :: "rat \<Rightarrow> int" where
  "ilog2 q = (let (a, b) = quotient_of q; l = bitlen a - bitlen b
              in if pow2 l \<le> q then l else l - 1)"

definition round_half_even :: "rat \<Rightarrow> int" where
  "round_half_even q =
     (let f = \<lfloor>q\<rfloor>; d = q - of_int f
      in if d < 1 / 2 then f else if 1 / 2 < d then f + 1 else if even f then f else f + 1)"

definition rnd :: "rat \<Rightarrow> f64" where
  "rnd q =
     (if q = 0 then Fin 0
      else let e = max (ilog2 \<bar>q\<bar> - 52) (- 1074);
               v = of_int (round_half_even (\<bar>q\<bar> / pow2 e)) * pow2 e
           in if pow2 1024 \<le> v then (if 0 < q then PInf else NInf) else Fin (sgn q * v))"

fun f_add :: "f64 \<Rightarrow> f64 \<Rightarrow> f64" where
  "f_add NaN _ = NaN"
| "f_add _ NaN = NaN"
| "f_add (Fin a) (Fin b) = rnd (a + b)"
| "f_add PInf NInf = NaN"
| "f_add NInf PInf = NaN"
| "f_add PInf _ = PInf"
| "f_add _ PInf = PInf"
| "f_add NInf _ = NInf"
| "f_add _ NInf = NInf"

definition f_sub :: "f64 \<Rightarrow> f64 \<Rightarrow> f64" where
  "f_sub x y = f_add x (f_neg y)"

fun f_sign :: "f64 \<Rightarrow> rat" where
  "f_sign NInf = - 1"
| "f_sign PInf = 1"
| "f_sign (Fin a) = sgn a"
| "f_sign NaN = 0"

definition f_inf :: "rat \<Rightarrow> f64" where
  "f_inf s = (if 0 < s then PInf else if s < 0 then NInf else NaN)"

definition f_mul :: "f64 \<Rightarrow> f64 \<Rightarrow> f64" where
  "f_mul x y =
     (case (x, y) of
        (Fin a, Fin b) \<Rightarrow> rnd (a * b)
      | _ \<Rightarrow> if is_nan x \<or> is_nan y then NaN else f_inf (f_sign x * f_sign y))"

text \<open>Division by a zero takes the zero as positive.\<close>

definition f_div :: "f64 \<Rightarrow> f64 \<Rightarrow> f64" where
  "f_div x y =
     (case (x, y) of
        (Fin a, Fin b) \<Rightarrow> if b = 0 then f_inf (sgn a) else rnd (a / b)
      | (Fin a, _) \<Rightarrow> if is_nan y then NaN else Fin 0
      | (_, Fin b) \<Rightarrow> if is_nan x then NaN else f_inf (f_sign x * (if b = 0 then 1 else sgn b))
      | _ \<Rightarrow> NaN)"

definition f_of_nat :: "nat \<Rightarrow> f64" where
  "f_of_nat n = rnd (of_nat n)"

text \<open>A decimal literal of the source is the nearest binary64 value.\<close>

abbreviation lit :: "rat \<Rightarrow> f64" where
  "lit q \<equiv> rnd q"

definition f_epsilon :: f64 where
  "f_epsilon = Fin (1 / 2 ^ 52)"


section \<open>Rounding is monotone and exact on representable values\<close>

lemma pow2_pos [simp]: "0 < pow2 e"
  by (simp add: pow2_def)

lemma pow2_ne [simp]: "pow2 e \<noteq> 0"
  by (simp add: pow2_def)

lemma pow2_add: "pow2 (a + b) = pow2 a * pow2 b"
  by (simp add: pow2_def power_int_add)

lemma pow2_le_iff [simp]: "pow2 a \<le> pow2 b \<longleftrightarrow> a \<le> b"
proof
  show "a \<le> b \<Longrightarrow> pow2 a \<le> pow2 b" by (simp add: pow2_def power_int_increasing)
  show "pow2 a \<le> pow2 b \<Longrightarrow> a \<le> b"
    by (rule ccontr) (simp add: pow2_def not_le power_int_strict_increasing flip: not_less)
qed

lemma pow2_less_iff [simp]: "pow2 a < pow2 b \<longleftrightarrow> a < b"
  using pow2_le_iff [of b a] by (simp del: pow2_le_iff add: not_le [symmetric])

lemma pow2_nat: "0 \<le> e \<Longrightarrow> pow2 e = of_int (2 ^ nat e)"
  by (simp add: pow2_def power_int_def)

lemma pow2_of_nat: "pow2 (int n) = 2 ^ n"
  by (simp add: pow2_def)

lemma ilog2_bounds:
  assumes "0 < q"
  shows "pow2 (ilog2 q) \<le> q" and "q < pow2 (ilog2 q + 1)"
proof -
  obtain a b where ab: "quotient_of q = (a, b)" by (cases "quotient_of q")
  then have b: "0 < b" and q: "q = of_int a / of_int b"
    by (simp_all add: quotient_of_denom_pos quotient_of_div)
  with assms have a: "0 < a" by (simp add: zero_less_divide_iff)
  define la lb where "la = bitlen a" and "lb = bitlen b"
  have pos: "0 < la" "0 < lb" using a b by (simp_all add: la_def lb_def bitlen_def floorlog_def add_pos_nonneg)
  have A: "pow2 (la - 1) \<le> of_int a" "of_int a < pow2 la"
    using bitlen_bounds [OF a] pos unfolding la_def [symmetric]
    by (simp_all add: pow2_nat of_int_less_iff of_int_le_iff del: of_int_power)
  have B: "pow2 (lb - 1) \<le> of_int b" "of_int b < pow2 lb"
    using bitlen_bounds [OF b] pos unfolding lb_def [symmetric]
    by (simp_all add: pow2_nat of_int_less_iff of_int_le_iff del: of_int_power)
  have b': "0 < (of_int b :: rat)" using b by simp
  have "pow2 (la - lb - 1) * of_int b < pow2 (la - lb - 1) * pow2 lb"
    using B(2) by simp
  also have "\<dots> = pow2 (la - 1)" by (simp flip: pow2_add)
  also have "\<dots> \<le> of_int a" by (rule A)
  finally have lo: "pow2 (la - lb - 1) < q" using b' by (simp add: q less_divide_eq)
  have "of_int a < pow2 la" by (rule A)
  also have "\<dots> = pow2 (la - lb + 1) * pow2 (lb - 1)" by (simp flip: pow2_add)
  also have "\<dots> \<le> pow2 (la - lb + 1) * of_int b" using B(1) by simp
  finally have hi: "q < pow2 (la - lb + 1)" using b' by (simp add: q divide_less_eq)
  have "ilog2 q = (if pow2 (la - lb) \<le> q then la - lb else la - lb - 1)"
    by (simp add: ilog2_def ab la_def lb_def Let_def)
  with lo hi show "pow2 (ilog2 q) \<le> q" and "q < pow2 (ilog2 q + 1)"
    by (auto split: if_splits)
qed

lemma ilog2_mono: "0 < q \<Longrightarrow> q \<le> r \<Longrightarrow> ilog2 q \<le> ilog2 r"
proof -
  assume "0 < q" and "q \<le> r"
  then have "pow2 (ilog2 q) < pow2 (ilog2 r + 1)"
    using ilog2_bounds(1) [of q] ilog2_bounds(2) [of r] by linarith
  then show ?thesis by (simp only: pow2_less_iff)
qed

lemma round_half_even_bounds: "\<lfloor>x\<rfloor> \<le> round_half_even x" "round_half_even x \<le> \<lfloor>x\<rfloor> + 1"
  by (simp_all add: round_half_even_def Let_def)

lemma round_half_even_of_int [simp]: "round_half_even (of_int n) = n"
  by (simp add: round_half_even_def)

lemma round_half_even_mono: "x \<le> y \<Longrightarrow> round_half_even x \<le> round_half_even y"
proof (cases "\<lfloor>x\<rfloor> < \<lfloor>y\<rfloor>")
  case True
  then show ?thesis using round_half_even_bounds [of x] round_half_even_bounds [of y] by linarith
next
  case False
  assume "x \<le> y"
  with False have "\<lfloor>x\<rfloor> = \<lfloor>y\<rfloor>" by (simp add: floor_mono order_antisym)
  with \<open>x \<le> y\<close> show ?thesis by (auto simp: round_half_even_def Let_def)
qed

definition mag_exp :: "rat \<Rightarrow> int" where
  "mag_exp q = max (ilog2 q - 52) (- 1074)"

definition mag :: "rat \<Rightarrow> rat" where
  "mag q = of_int (round_half_even (q / pow2 (mag_exp q))) * pow2 (mag_exp q)"

lemma mag_mono:
  assumes "0 < q" and "q \<le> r"
  shows "mag q \<le> mag r"
proof (cases "mag_exp q = mag_exp r")
  case True
  have "q / pow2 (mag_exp r) \<le> r / pow2 (mag_exp r)"
    using assms by (simp add: divide_right_mono less_imp_le)
  then have "round_half_even (q / pow2 (mag_exp r)) \<le> round_half_even (r / pow2 (mag_exp r))"
    by (rule round_half_even_mono)
  then show ?thesis by (simp add: mag_def True mult_right_mono less_imp_le)
next
  case False
  have "mag_exp q \<le> mag_exp r" using ilog2_mono [OF assms] by (simp add: mag_exp_def)
  with False have lt: "mag_exp q + 1 \<le> mag_exp r" by simp
  then have er: "ilog2 r = mag_exp r + 52" by (simp add: mag_exp_def split: if_splits)
  have "q < pow2 (ilog2 q + 1)" using assms by (simp add: ilog2_bounds)
  also have "\<dots> \<le> pow2 (53 + mag_exp q)" by (simp add: mag_exp_def)
  finally have "q / pow2 (mag_exp q) \<le> of_int (2 ^ 53)"
    by (simp add: pow2_add divide_le_eq) (simp add: pow2_def)
  then have "round_half_even (q / pow2 (mag_exp q)) \<le> 2 ^ 53"
    using round_half_even_mono round_half_even_of_int by metis
  then have "mag q \<le> of_int (2 ^ 53) * pow2 (mag_exp q)"
    unfolding mag_def by (intro mult_right_mono) (simp_all only: of_int_le_iff less_imp_le [OF pow2_pos])
  also have "\<dots> = of_int (2 ^ 52) * pow2 (mag_exp q + 1)"
    by (simp add: pow2_add) (simp add: pow2_def)
  also have "\<dots> \<le> of_int (2 ^ 52) * pow2 (mag_exp r)" using lt by simp
  also have "\<dots> \<le> mag r"
  proof -
    have "pow2 (52 + mag_exp r) \<le> r" using ilog2_bounds(1) [of r] assms er by (simp add: add.commute)
    then have "of_int (2 ^ 52) \<le> r / pow2 (mag_exp r)"
      by (simp add: pow2_add le_divide_eq) (simp add: pow2_def)
    then have "2 ^ 52 \<le> round_half_even (r / pow2 (mag_exp r))"
      using round_half_even_mono round_half_even_of_int by metis
    then show ?thesis
      unfolding mag_def by (intro mult_right_mono) (simp_all only: of_int_le_iff less_imp_le [OF pow2_pos])
  qed
  finally show ?thesis .
qed

lemma mag_nonneg: "0 < q \<Longrightarrow> 0 \<le> mag q"
proof -
  assume "0 < q"
  then have "(of_int 0 :: rat) \<le> q / pow2 (mag_exp q)" by (simp add: less_imp_le)
  then have "0 \<le> round_half_even (q / pow2 (mag_exp q))"
    using round_half_even_mono round_half_even_of_int by metis
  then show ?thesis
    unfolding mag_def by (intro mult_nonneg_nonneg) (simp_all add: less_imp_le)
qed

lemma mag_exact:
  assumes "q = of_int m * pow2 e" and "0 < m" and "m < 2 ^ 53" and "- 1074 \<le> e"
  shows "mag q = q"
proof -
  have q: "0 < q" using assms by simp
  have "of_int m < (of_int (2 ^ 53) :: rat)" using assms(3) by (simp only: of_int_less_iff)
  then have "q < pow2 (53 + e)" by (simp add: assms(1) pow2_add) (simp add: pow2_def)
  then have "pow2 (ilog2 q) < pow2 (53 + e)" using ilog2_bounds(1) [OF q] by linarith
  then have le: "mag_exp q \<le> e" using assms(4) by (simp add: mag_exp_def)
  have "q / pow2 (mag_exp q) = of_int (m * 2 ^ nat (e - mag_exp q))"
  proof -
    have "q / pow2 (mag_exp q) = of_int m * (pow2 e / pow2 (mag_exp q))" by (simp add: assms(1))
    also have "pow2 e / pow2 (mag_exp q) = pow2 (e - mag_exp q)"
      by (simp add: pow2_def power_int_diff)
    finally have "q / pow2 (mag_exp q) = of_int m * pow2 (e - mag_exp q)" .
    then show ?thesis using le by (simp add: pow2_nat)
  qed
  then show ?thesis by (simp add: mag_def del: of_int_mult)  (simp add: field_simps)
qed

lemma rnd_mag: "rnd q = (if q = 0 then Fin 0 else if pow2 1024 \<le> mag \<bar>q\<bar>
     then (if 0 < q then PInf else NInf) else Fin (sgn q * mag \<bar>q\<bar>))"
  by (simp add: rnd_def mag_def mag_exp_def Let_def)

lemma rnd_mono: "q \<le> r \<Longrightarrow> rnd q \<le> rnd r"
proof -
  assume le: "q \<le> r"
  consider "0 < q" | "r < 0" | "q \<le> 0" "0 \<le> r" using le by linarith
  then show ?thesis
  proof cases
    case 1
    then have "mag q \<le> mag r" using le by (rule mag_mono)
    with 1 le show ?thesis by (simp add: rnd_mag less_eq_f64_def)
  next
    case 2
    then have "mag (- r) \<le> mag (- q)" using le by (intro mag_mono) simp_all
    with 2 le show ?thesis by (simp add: rnd_mag less_eq_f64_def)
  next
    case 3
    have "rnd q \<le> Fin 0" using 3(1) mag_nonneg [of "- q"]
      by (cases "q = 0") (auto simp: rnd_mag less_eq_f64_def sgn_if)
    moreover have "Fin 0 \<le> rnd r" using 3(2) mag_nonneg [of r]
      by (cases "r = 0") (auto simp: rnd_mag less_eq_f64_def sgn_if)
    ultimately show ?thesis by (rule order_trans)
  qed
qed

lemma rnd_exact:
  assumes "q = of_int m * pow2 e" and "\<bar>m\<bar> < 2 ^ 53" and "- 1074 \<le> e" and "\<bar>q\<bar> < pow2 1024"
  shows "rnd q = Fin q"
proof (cases "q = 0")
  case False
  have "\<bar>q\<bar> = of_int \<bar>m\<bar> * pow2 e" by (simp add: assms(1) abs_mult less_imp_le)
  moreover from False assms(1) have "0 < \<bar>m\<bar>" by auto
  ultimately have "mag \<bar>q\<bar> = \<bar>q\<bar>" using assms by (intro mag_exact)
  with assms(4) False show ?thesis by (simp add: rnd_mag) (simp add: sgn_mult_abs)
qed (simp add: rnd_mag)

lemma rnd_of_int: "\<bar>n\<bar> < 2 ^ 53 \<Longrightarrow> rnd (of_int n) = Fin (of_int n)"
proof (rule rnd_exact [where m = n and e = 0])
  assume n: "\<bar>n\<bar> < 2 ^ 53"
  have "(of_int \<bar>n\<bar> :: rat) < of_int (2 ^ 53)" using n by (simp only: of_int_less_iff)
  also have "\<dots> = pow2 53" by (simp add: pow2_def)
  also have "\<dots> < pow2 1024" by simp
  finally show "\<bar>of_int n :: rat\<bar> < pow2 1024" by simp
qed (simp_all add: pow2_def)

lemma rnd_not_nan [simp]: "rnd q \<noteq> NaN" by (simp add: rnd_mag)


end
