(* ===== verification/ElmConfig.thy ===== *)
theory ElmConfig
  imports Errors Float64
begin

text \<open>
  \<^verbatim>\<open>src/src/elm_config.rs\<close>: the configuration of the ELM capability, its
  environment overrides, its validation and the restrictive precedence of its modes.
  Configured seconds, counts and sizes are only compared here and are \<open>nat\<close>.
  The environment is a parameter \<open>env\<close>, the YAML reader of the mode a parameter
  \<open>parse_mode\<close> (it belongs to \<open>serde_yaml\<close>), and \<open>feature\<close> says whether the binary was
  built with the \<open>elm\<close> feature.
\<close>

section \<open>Modes and stages\<close>

datatype elm_mode = Mode_Off | Mode_Collect | Mode_Shadow | Mode_Auto

datatype model_stage =
  Stage_Candidate | Stage_Trained | Stage_Evaluated | Stage_Qualified | Stage_Shadow
| Stage_Canary | Stage_Active

fun mode_rank :: "elm_mode \<Rightarrow> nat" where
  "mode_rank Mode_Off = 0"
| "mode_rank Mode_Collect = 1"
| "mode_rank Mode_Shadow = 2"
| "mode_rank Mode_Auto = 3"

fun stage_rank :: "model_stage \<Rightarrow> nat" where
  "stage_rank Stage_Candidate = 0"
| "stage_rank Stage_Trained = 1"
| "stage_rank Stage_Evaluated = 2"
| "stage_rank Stage_Qualified = 3"
| "stage_rank Stage_Shadow = 4"
| "stage_rank Stage_Canary = 5"
| "stage_rank Stage_Active = 6"

lemma mode_rank_inj: "mode_rank a = mode_rank b \<Longrightarrow> a = b"
  by (cases a; cases b) simp_all

lemma stage_rank_inj: "stage_rank a = stage_rank b \<Longrightarrow> a = b"
  by (cases a; cases b) simp_all

instantiation elm_mode :: linorder
begin

definition less_eq_elm_mode :: "elm_mode \<Rightarrow> elm_mode \<Rightarrow> bool" where
  "less_eq_elm_mode a b \<longleftrightarrow> mode_rank a \<le> mode_rank b"

definition less_elm_mode :: "elm_mode \<Rightarrow> elm_mode \<Rightarrow> bool" where
  "less_elm_mode a b \<longleftrightarrow> mode_rank a < mode_rank b"

instance
  by standard (auto simp: less_eq_elm_mode_def less_elm_mode_def dest: mode_rank_inj)

end

instantiation model_stage :: linorder
begin

definition less_eq_model_stage :: "model_stage \<Rightarrow> model_stage \<Rightarrow> bool" where
  "less_eq_model_stage a b \<longleftrightarrow> stage_rank a \<le> stage_rank b"

definition less_model_stage :: "model_stage \<Rightarrow> model_stage \<Rightarrow> bool" where
  "less_model_stage a b \<longleftrightarrow> stage_rank a < stage_rank b"

instance
  by standard (auto simp: less_eq_model_stage_def less_model_stage_def dest: stage_rank_inj)

end

section \<open>Records\<close>

record feature_schema =
  fs_id :: string
  fs_version :: u32
  fs_names :: "string list"
  fs_units :: "string list"

record elm_task_config =
  tc_mode :: "elm_mode option"
  tc_max_stage :: model_stage
  tc_promotion_policy :: string
  tc_allowed :: bool
  tc_tenant_scope :: string
  tc_rollout_fraction :: f64
  tc_influence_cap :: f64

definition default_task_config :: elm_task_config where
  "default_task_config =
     \<lparr>tc_mode = None, tc_max_stage = Stage_Shadow, tc_promotion_policy = ''unconfigured'',
      tc_allowed = False, tc_tenant_scope = ''local'', tc_rollout_fraction = Fin 0,
      tc_influence_cap = Fin 0\<rparr>"

record elm_budgets =
  bu_max_training_jobs :: usize
  bu_max_training_threads :: usize
  bu_max_training_memory_mb :: usize
  bu_max_training_seconds :: nat
  bu_max_training_retries :: usize
  bu_max_inference_queue :: usize
  bu_max_hidden_units :: usize
  bu_max_samples :: usize
  bu_max_features :: usize
  bu_inference_deadline_ms :: nat

definition default_budgets :: elm_budgets where
  "default_budgets =
     \<lparr>bu_max_training_jobs = 1, bu_max_training_threads = 2, bu_max_training_memory_mb = 512,
      bu_max_training_seconds = 900, bu_max_training_retries = 3, bu_max_inference_queue = 128,
      bu_max_hidden_units = 512, bu_max_samples = 100000, bu_max_features = 2048,
      bu_inference_deadline_ms = 5\<rparr>"

definition budgets_validate :: "elm_budgets \<Rightarrow> gail_error + unit" where
  "budgets_validate b =
     (if \<not> (1 \<le> bu_max_training_jobs b \<and> bu_max_training_jobs b \<le> 32)
         \<or> \<not> (1 \<le> bu_max_training_threads b \<and> bu_max_training_threads b \<le> 64)
         \<or> \<not> (64 \<le> bu_max_training_memory_mb b \<and> bu_max_training_memory_mb b \<le> 65536)
         \<or> \<not> (1 \<le> bu_max_training_seconds b \<and> bu_max_training_seconds b \<le> 86400)
         \<or> \<not> bu_max_training_retries b \<le> 10
         \<or> \<not> (1 \<le> bu_max_inference_queue b \<and> bu_max_inference_queue b \<le> 65536)
         \<or> \<not> (1 \<le> bu_max_hidden_units b \<and> bu_max_hidden_units b \<le> 512)
         \<or> \<not> (1 \<le> bu_max_samples b \<and> bu_max_samples b \<le> 1000000)
         \<or> \<not> (1 \<le> bu_max_features b \<and> bu_max_features b \<le> 16384)
         \<or> \<not> (1 \<le> bu_inference_deadline_ms b \<and> bu_inference_deadline_ms b \<le> 60000)
      then Inl (InvalidConfig
        ''one or more elm.budgets values fall outside supported bounds'')
      else Inr ())"

record elm_lifecycle_config =
  lc_automatic_training :: bool
  lc_automatic_promotion :: bool
  lc_automatic_rollback :: bool
  lc_online_updates :: bool
  lc_minimum_dwell_seconds :: nat
  lc_cooldown_seconds :: nat
  lc_artifact_max_bytes :: usize
  lc_lease_seconds :: nat

definition default_lifecycle_config :: elm_lifecycle_config where
  "default_lifecycle_config =
     \<lparr>lc_automatic_training = False, lc_automatic_promotion = False,
      lc_automatic_rollback = True, lc_online_updates = False,
      lc_minimum_dwell_seconds = 3600, lc_cooldown_seconds = 3600,
      lc_artifact_max_bytes = 16 * 1024 * 1024, lc_lease_seconds = 60\<rparr>"

record elm_trading_config =
  et_allow_live_influence :: bool
  et_maximum_influence :: f64

definition default_trading_config :: elm_trading_config where
  "default_trading_config = \<lparr>et_allow_live_influence = False, et_maximum_influence = Fin 0\<rparr>"

definition effective_influence_cap :: "elm_trading_config \<Rightarrow> f64 \<Rightarrow> bool \<Rightarrow> f64" where
  "effective_influence_cap t requested live_execution =
     (if \<not> is_finite requested
         \<or> f_le requested (Fin 0)
         \<or> \<not> is_finite (et_maximum_influence t)
         \<or> f_le (et_maximum_influence t) (Fin 0)
         \<or> (live_execution \<and> \<not> et_allow_live_influence t)
      then Fin 0
      else f_clamp (f_min requested (et_maximum_influence t)) (Fin 0) (Fin 1))"

record elm_data_config =
  dc_allow_raw_text :: bool
  dc_allow_cross_tenant_training :: bool
  dc_minimum_label_age_seconds :: nat
  dc_maximum_feature_age_seconds :: nat

definition default_data_config :: elm_data_config where
  "default_data_config =
     \<lparr>dc_allow_raw_text = False, dc_allow_cross_tenant_training = False,
      dc_minimum_label_age_seconds = 0, dc_maximum_feature_age_seconds = 300\<rparr>"

datatype metric_direction = Higher | Lower

record promotion_policy =
  pp_task_objective :: "string option"
  pp_direction :: "metric_direction option"
  pp_baseline :: "string option"
  pp_minimum_effective_samples :: "usize option"
  pp_minimum_subgroup_samples :: "usize option"
  pp_minimum_observation_seconds :: "nat option"
  pp_confidence_level :: "f64 option"
  pp_minimum_practical_improvement :: "f64 option"
  pp_non_inferiority_tolerance :: "f64 option"
  pp_maximum_calibration_error :: "f64 option"
  pp_minimum_interval_coverage :: "f64 option"
  pp_maximum_p95_overhead_ms :: "f64 option"
  pp_maximum_p99_overhead_ms :: "f64 option"
  pp_maximum_input_age_seconds :: "nat option"
  pp_maximum_label_age_seconds :: "nat option"
  pp_maximum_drift_score :: "f64 option"
  pp_maximum_ood_score :: "f64 option"
  pp_canary_fraction :: "f64 option"
  pp_canary_max_decisions :: "usize option"
  pp_expiry_seconds :: "nat option"
  pp_rollback_regression :: "f64 option"
  pp_cooldown_seconds :: "nat option"
  pp_retrain_budget_per_day :: "usize option"
  pp_authorised_influence :: "f64 option"

definition default_promotion_policy :: promotion_policy where
  "default_promotion_policy =
     \<lparr>pp_task_objective = None, pp_direction = None, pp_baseline = None,
      pp_minimum_effective_samples = None, pp_minimum_subgroup_samples = None,
      pp_minimum_observation_seconds = None, pp_confidence_level = None,
      pp_minimum_practical_improvement = None, pp_non_inferiority_tolerance = None,
      pp_maximum_calibration_error = None, pp_minimum_interval_coverage = None,
      pp_maximum_p95_overhead_ms = None, pp_maximum_p99_overhead_ms = None,
      pp_maximum_input_age_seconds = None, pp_maximum_label_age_seconds = None,
      pp_maximum_drift_score = None, pp_maximum_ood_score = None, pp_canary_fraction = None,
      pp_canary_max_decisions = None, pp_expiry_seconds = None, pp_rollback_regression = None,
      pp_cooldown_seconds = None, pp_retrain_budget_per_day = None,
      pp_authorised_influence = None\<rparr>"

text \<open>\<open>Option::is_some_and\<close> and \<open>Option::is_none_or\<close>.\<close>

definition is_some_and :: "('a \<Rightarrow> bool) \<Rightarrow> 'a option \<Rightarrow> bool" where
  "is_some_and p x = (case x of None \<Rightarrow> False | Some a \<Rightarrow> p a)"

definition is_none_or :: "('a \<Rightarrow> bool) \<Rightarrow> 'a option \<Rightarrow> bool" where
  "is_none_or p x = (case x of None \<Rightarrow> True | Some a \<Rightarrow> p a)"

definition unwrap_or :: "'a \<Rightarrow> 'a option \<Rightarrow> 'a" where
  "unwrap_or d x = (case x of None \<Rightarrow> d | Some a \<Rightarrow> a)"

lemma option_conv_simps [simp]:
  "is_some_and p None = False" "is_some_and p (Some a) = p a"
  "is_none_or p None = True" "is_none_or p (Some a) = p a"
  "unwrap_or d None = d" "unwrap_or d (Some a) = a"
  by (simp_all add: is_some_and_def is_none_or_def unwrap_or_def)

definition is_complete :: "promotion_policy \<Rightarrow> bool" where
  "is_complete p \<longleftrightarrow>
     is_some_and (\<lambda>x. trim x \<noteq> []) (pp_task_objective p)
     \<and> pp_direction p \<noteq> None
     \<and> is_some_and (\<lambda>x. trim x \<noteq> []) (pp_baseline p)
     \<and> is_some_and (\<lambda>x. 0 < x) (pp_minimum_effective_samples p)
     \<and> is_some_and (\<lambda>x. 0 < x) (pp_minimum_subgroup_samples p)
     \<and> is_some_and (\<lambda>x. 0 < x) (pp_minimum_observation_seconds p)
     \<and> pp_confidence_level p \<noteq> None
     \<and> pp_minimum_practical_improvement p \<noteq> None
     \<and> pp_non_inferiority_tolerance p \<noteq> None
     \<and> pp_maximum_calibration_error p \<noteq> None
     \<and> pp_minimum_interval_coverage p \<noteq> None
     \<and> pp_maximum_p95_overhead_ms p \<noteq> None
     \<and> pp_maximum_p99_overhead_ms p \<noteq> None
     \<and> pp_maximum_input_age_seconds p \<noteq> None
     \<and> pp_maximum_label_age_seconds p \<noteq> None
     \<and> pp_maximum_drift_score p \<noteq> None
     \<and> pp_maximum_ood_score p \<noteq> None
     \<and> pp_canary_fraction p \<noteq> None
     \<and> pp_canary_max_decisions p \<noteq> None
     \<and> pp_expiry_seconds p \<noteq> None
     \<and> pp_rollback_regression p \<noteq> None
     \<and> pp_cooldown_seconds p \<noteq> None
     \<and> pp_retrain_budget_per_day p \<noteq> None
     \<and> pp_authorised_influence p \<noteq> None"

definition in_unit :: "f64 \<Rightarrow> bool" where
  "in_unit v \<longleftrightarrow> is_finite v \<and> f_le (Fin 0) v \<and> f_le v (Fin 1)"

text \<open>\<open>[a, b, ...].into_iter().flatten()\<close>: the values that are present.\<close>

definition flatten_options :: "'a option list \<Rightarrow> 'a list" where
  "flatten_options xs = List.map_filter id xs"

text \<open>\<open>Option<f64>\<close> comparison: an absent value is below every present one.\<close>

fun opt_gt :: "f64 option \<Rightarrow> f64 option \<Rightarrow> bool" where
  "opt_gt None _ = False"
| "opt_gt (Some _) None = True"
| "opt_gt (Some a) (Some b) = f_lt b a"

definition policy_validate :: "promotion_policy \<Rightarrow> string \<Rightarrow> gail_error + unit" where
  "policy_validate p name =
     (let scope = ''elm.promotion_policies.'' @ name in
      if \<exists>v\<in>set (flatten_options [pp_confidence_level p, pp_canary_fraction p,
            pp_minimum_interval_coverage p, pp_authorised_influence p]). \<not> in_unit v
      then Inl (InvalidConfig (scope @ '' contains a value outside [0, 1]''))
      else if is_some_and (\<lambda>v. f_le v (Fin (1 / 2)) \<or> f_le (Fin 1) v) (pp_confidence_level p)
         \<or> is_some_and (\<lambda>v. f_lt (Fin 1) v) (pp_maximum_calibration_error p)
         \<or> pp_minimum_effective_samples p = Some 0
         \<or> pp_minimum_subgroup_samples p = Some 0
         \<or> pp_minimum_observation_seconds p = Some 0
         \<or> pp_canary_max_decisions p = Some 0
         \<or> pp_expiry_seconds p = Some 0
         \<or> pp_retrain_budget_per_day p = Some 0
      then Inl (InvalidConfig
        (scope @ '' has invalid confidence or a zero support/budget value''))
      else if \<exists>v\<in>set (flatten_options [pp_minimum_practical_improvement p,
            pp_non_inferiority_tolerance p, pp_maximum_calibration_error p,
            pp_maximum_p95_overhead_ms p, pp_maximum_p99_overhead_ms p,
            pp_maximum_drift_score p, pp_maximum_ood_score p, pp_rollback_regression p]).
            \<not> is_finite v \<or> f_lt v (Fin 0)
      then Inl (InvalidConfig (scope @ '' contains a negative or non-finite threshold''))
      else if is_complete p
              \<and> opt_gt (pp_maximum_p95_overhead_ms p) (pp_maximum_p99_overhead_ms p)
      then Inl (InvalidConfig (scope @ '' p95 overhead budget must not exceed p99''))
      else Inr ())"

record elm_config =
  ec_mode :: elm_mode
  ec_registry_path :: string
  ec_dataset_manifest :: "string option"
  ec_tasks :: "elm_task_config btree"
  ec_promotion_policies :: "promotion_policy btree"
  ec_budgets :: elm_budgets
  ec_lifecycle :: elm_lifecycle_config
  ec_trading :: elm_trading_config
  ec_data :: elm_data_config

definition default_elm_config :: elm_config where
  "default_elm_config =
     \<lparr>ec_mode = Mode_Off, ec_registry_path = ''data/elm'', ec_dataset_manifest = None,
      ec_tasks = [], ec_promotion_policies = [], ec_budgets = default_budgets,
      ec_lifecycle = default_lifecycle_config, ec_trading = default_trading_config,
      ec_data = default_data_config\<rparr>"

definition enabled :: "elm_config \<Rightarrow> bool" where
  "enabled c = (ec_mode c \<noteq> Mode_Off)"

definition get_task :: "elm_config \<Rightarrow> string \<Rightarrow> elm_task_config option" where
  "get_task c name = map_of (ec_tasks c) name"

definition get_policy :: "elm_config \<Rightarrow> string \<Rightarrow> promotion_policy option" where
  "get_policy c name = map_of (ec_promotion_policies c) name"

definition effective_mode :: "elm_config \<Rightarrow> string \<Rightarrow> elm_mode" where
  "effective_mode c task_name =
     (let task_mode = unwrap_or (ec_mode c) (Option.bind (get_task c task_name) tc_mode)
      in min (ec_mode c) task_mode)"

definition config_max_stage :: "elm_config \<Rightarrow> string \<Rightarrow> model_stage" where
  "config_max_stage c task_name =
     unwrap_or Stage_Shadow (map_option tc_max_stage (get_task c task_name))"

definition known_tasks :: "string list" where
  "known_tasks =
     [''compute_demand'', ''job_duration'', ''routing_candidate_utility'', ''quant_net_edge'',
      ''trading_advisory'', ''training_resource_estimate'', ''mirror_priority'',
      ''aarnn_activity_readout'']"

section \<open>Environment overrides\<close>

text \<open>The standard library's \<open>FromStr\<close> for the types of the overridden fields.\<close>

definition digit_value :: "char \<Rightarrow> nat option" where
  "digit_value c = (let n = code_point c in if 48 \<le> n \<and> n \<le> 57 then Some (n - 48) else None)"

fun parse_digits :: "nat \<Rightarrow> nat \<Rightarrow> string \<Rightarrow> string + nat" where
  "parse_digits bound acc [] = Inr acc"
| "parse_digits bound acc (c # cs) =
     (case digit_value c of
        None \<Rightarrow> Inl ''invalid digit found in string''
      | Some d \<Rightarrow>
          if bound < acc * 10 + d then Inl ''number too large to fit in target type''
          else parse_digits bound (acc * 10 + d) cs)"

definition parse_unsigned :: "nat \<Rightarrow> string \<Rightarrow> string + nat" where
  "parse_unsigned bound raw =
     (case raw of
        [] \<Rightarrow> Inl ''cannot parse integer from empty string''
      | c # cs \<Rightarrow>
          if cs = [] \<and> (c = CHR ''+'' \<or> c = CHR ''-'') then Inl ''invalid digit found in string''
          else if c = CHR ''+'' then parse_digits bound 0 cs
          else parse_digits bound 0 raw)"

definition parse_bool_str :: "string \<Rightarrow> string + bool" where
  "parse_bool_str raw =
     (if raw = ''true'' then Inr True else if raw = ''false'' then Inr False
      else Inl ''provided string was not `true` or `false`'')"

definition apply_env_override ::
  "(string \<Rightarrow> string option) \<Rightarrow> string \<Rightarrow> (string \<Rightarrow> string + 'v) \<Rightarrow> 'v \<Rightarrow> gail_error + 'v" where
  "apply_env_override env name parse field =
     (case env name of
        None \<Rightarrow> Inr field
      | Some raw \<Rightarrow>
          (case parse raw of
             Inl e \<Rightarrow> Inl (InvalidConfig (name @ '' has an invalid value: '' @ e))
           | Inr v \<Rightarrow> Inr v))"

definition override_budget ::
  "(string \<Rightarrow> string option) \<Rightarrow> string \<Rightarrow> (elm_budgets \<Rightarrow> nat) \<Rightarrow>
     ((nat \<Rightarrow> nat) \<Rightarrow> elm_budgets \<Rightarrow> elm_budgets) \<Rightarrow> elm_config \<Rightarrow> gail_error + elm_config" where
  "override_budget env name get_field update_field c =
     and_then (apply_env_override env name (parse_unsigned usize_max) (get_field (ec_budgets c)))
       (\<lambda>v. Inr (c\<lparr>ec_budgets := update_field (\<lambda>_. v) (ec_budgets c)\<rparr>))"

definition apply_overrides :: "(string \<Rightarrow> string option) \<Rightarrow> elm_config \<Rightarrow> gail_error + elm_config" where
  "apply_overrides env c0 =
     and_then (apply_env_override env ''GAIL_ELM_REGISTRY_PATH'' Inr (ec_registry_path c0))
       (\<lambda>path. let c1 = c0\<lparr>ec_registry_path := path\<rparr>;
                   c2 = (case env ''GAIL_ELM_DATASET_MANIFEST'' of
                           None \<Rightarrow> c1 | Some raw \<Rightarrow> c1\<lparr>ec_dataset_manifest := Some raw\<rparr>) in
     and_then (override_budget env ''GAIL_ELM_MAX_TRAINING_JOBS''
         bu_max_training_jobs bu_max_training_jobs_update c2)
       (\<lambda>c3.
     and_then (override_budget env ''GAIL_ELM_MAX_TRAINING_THREADS''
         bu_max_training_threads bu_max_training_threads_update c3)
       (\<lambda>c4.
     and_then (override_budget env ''GAIL_ELM_MAX_TRAINING_MEMORY_MB''
         bu_max_training_memory_mb bu_max_training_memory_mb_update c4)
       (\<lambda>c5.
     and_then (override_budget env ''GAIL_ELM_MAX_TRAINING_SECONDS''
         bu_max_training_seconds bu_max_training_seconds_update c5)
       (\<lambda>c6.
     and_then (override_budget env ''GAIL_ELM_MAX_INFERENCE_QUEUE''
         bu_max_inference_queue bu_max_inference_queue_update c6)
       (\<lambda>c7.
     and_then (override_budget env ''GAIL_ELM_MAX_HIDDEN_UNITS''
         bu_max_hidden_units bu_max_hidden_units_update c7)
       (\<lambda>c8.
     and_then (override_budget env ''GAIL_ELM_INFERENCE_DEADLINE_MS''
         bu_inference_deadline_ms bu_inference_deadline_ms_update c8)
       (\<lambda>c9.
     and_then (apply_env_override env ''GAIL_ELM_ALLOW_LIVE_INFLUENCE'' parse_bool_str
         (et_allow_live_influence (ec_trading c9)))
       (\<lambda>live. let c10 = c9\<lparr>ec_trading := (ec_trading c9)\<lparr>et_allow_live_influence := live\<rparr>\<rparr> in
     and_then (apply_env_override env ''GAIL_ELM_ALLOW_RAW_TEXT'' parse_bool_str
         (dc_allow_raw_text (ec_data c10)))
       (\<lambda>raw. let c11 = c10\<lparr>ec_data := (ec_data c10)\<lparr>dc_allow_raw_text := raw\<rparr>\<rparr> in
     and_then (apply_env_override env ''GAIL_ELM_ALLOW_CROSS_TENANT_TRAINING'' parse_bool_str
         (dc_allow_cross_tenant_training (ec_data c11)))
       (\<lambda>cross. Inr (c11\<lparr>ec_data := (ec_data c11)\<lparr>dc_allow_cross_tenant_training := cross\<rparr>\<rparr>)
       )))))))))))"

section \<open>Validation\<close>

fun validate_tasks :: "elm_task_config btree \<Rightarrow> gail_error + unit" where
  "validate_tasks [] = Inr ()"
| "validate_tasks ((name, task) # rest) =
     (if name \<notin> set known_tasks
      then Inl (InvalidConfig (''unknown ELM task `'' @ name @ ''`''))
      else if trim (tc_promotion_policy task) = []
      then Inl (InvalidConfig (''elm.tasks.'' @ name @ ''.promotion_policy must not be empty''))
      else if \<not> in_unit (tc_rollout_fraction task) \<or> \<not> in_unit (tc_influence_cap task)
      then Inl (InvalidConfig (''elm.tasks.'' @ name
        @ '' rollout_fraction and influence_cap must be finite values in [0, 1]''))
      else validate_tasks rest)"

fun validate_policies :: "promotion_policy btree \<Rightarrow> gail_error + unit" where
  "validate_policies [] = Inr ()"
| "validate_policies ((name, policy) # rest) =
     (if trim name = []
      then Inl (InvalidConfig ''ELM promotion policy names must not be empty'')
      else and_then (policy_validate policy name) (\<lambda>_. validate_policies rest))"

definition lifecycle_in_bounds :: "elm_lifecycle_config \<Rightarrow> bool" where
  "lifecycle_in_bounds l \<longleftrightarrow>
     1 \<le> lc_lease_seconds l \<and> lc_lease_seconds l \<le> 86400
     \<and> 1 \<le> lc_cooldown_seconds l \<and> lc_cooldown_seconds l \<le> 31536000
     \<and> lc_minimum_dwell_seconds l \<le> 31536000
     \<and> 1048576 \<le> lc_artifact_max_bytes l \<and> lc_artifact_max_bytes l \<le> 1073741824"

definition normalize_mode ::
  "(string \<Rightarrow> string option) \<Rightarrow> (string \<Rightarrow> elm_mode option) \<Rightarrow> elm_config \<Rightarrow>
     gail_error + elm_config" where
  "normalize_mode env parse_mode c =
     (if ec_registry_path c = []
      then Inl (InvalidConfig ''elm.registry_path must not be empty'')
      else case env ''GAIL_ELM_MODE'' of
             None \<Rightarrow> Inr c
           | Some raw \<Rightarrow>
               (case parse_mode raw of
                  None \<Rightarrow> Inl (InvalidConfig
                    ''GAIL_ELM_MODE must be off, collect, shadow, auto, or on'')
                | Some m \<Rightarrow> Inr (c\<lparr>ec_mode := m\<rparr>)))"

definition validate_config :: "bool \<Rightarrow> elm_config \<Rightarrow> gail_error + unit" where
  "validate_config feature c =
     and_then (validate_tasks (ec_tasks c)) (\<lambda>_.
     and_then (budgets_validate (ec_budgets c)) (\<lambda>_.
     if \<not> lifecycle_in_bounds (ec_lifecycle c)
     then Inl (InvalidConfig ''elm.lifecycle values fall outside supported bounds'')
     else if \<not> in_unit (et_maximum_influence (ec_trading c))
        \<or> 604800 < dc_maximum_feature_age_seconds (ec_data c)
        \<or> 31536000 < dc_minimum_label_age_seconds (ec_data c)
     then Inl (InvalidConfig ''elm.trading or elm.data values fall outside supported bounds'')
     else and_then (validate_policies (ec_promotion_policies c)) (\<lambda>_.
     if lc_online_updates (ec_lifecycle c)
     then Inl (InvalidConfig
       ''elm.lifecycle.online_updates is a deferred extension and must remain false'')
     else if enabled c \<and> \<not> feature
     then Inl (InvalidConfig
       ''ELM is enabled in configuration but this Gail binary was built without the `elm` Cargo feature'')
     else Inr ())))"

definition normalize ::
  "(string \<Rightarrow> string option) \<Rightarrow> (string \<Rightarrow> elm_mode option) \<Rightarrow> bool \<Rightarrow> elm_config \<Rightarrow>
     gail_error + elm_config" where
  "normalize env parse_mode feature c =
     and_then (apply_overrides env c) (\<lambda>c'.
     and_then (normalize_mode env parse_mode c') (\<lambda>c''.
     and_then (validate_config feature c'') (\<lambda>_. Inr c'')))"

end
