(* ===== verification/ElmArtifact.thy ===== *)
theory ElmArtifact
  imports ElmConfig
begin

text \<open>
  The data of the ELM subsystem: \<^verbatim>\<open>src/src/elm/mod.rs\<close> (errors),
  \<^verbatim>\<open>src/src/elm/model.rs\<close> (feature schema, preprocessor, estimator, artifact and its
  verification), \<^verbatim>\<open>src/src/elm/math.rs\<close> (matrix validation) and the report types of
  \<^verbatim>\<open>src/src/elm/data.rs\<close>. The SHA-256 digest of the artifact's JSON text is a
  parameter \<open>content_hash\<close>, a function of the artifact whose digest field is cleared.
\<close>

datatype elm_error =
    InvalidInput string
  | Numerical string
  | ArtifactError string
  | SchemaMismatch
  | Uncalibrated
  | QueueFull
  | RevisionConflict

section \<open>Matrices\<close>

definition max_matrix_cells :: usize where
  "max_matrix_cells = 16000000"

definition validate_matrix :: "f64 list list \<Rightarrow> string \<Rightarrow> elm_error + (usize \<times> usize)" where
  "validate_matrix matrix name =
     (case matrix of
        [] \<Rightarrow> Inl (InvalidInput (name @ '' must not be empty''))
      | first # _ \<Rightarrow>
          if first = [] then Inl (InvalidInput (name @ '' must not be empty''))
          else let cols = length first
               in if usize_max < length matrix * cols
                  then Inl (InvalidInput (name @ '' dimensions overflow''))
                  else if max_matrix_cells < length matrix * cols
                          \<or> (\<exists>row\<in>set matrix. length row \<noteq> cols)
                  then Inl (InvalidInput (name @ '' is ragged or exceeds the matrix cell limit''))
                  else if \<exists>row\<in>set matrix. \<exists>v\<in>set row. \<not> is_finite v
                  then Inl (InvalidInput (name @ '' contains non-finite values''))
                  else Inr (length matrix, cols))"

section \<open>Feature schema and preprocessor\<close>

definition schema_validate :: "feature_schema \<Rightarrow> elm_error + unit" where
  "schema_validate s =
     (if trim (fs_id s) = [] \<or> fs_version s = 0 \<or> fs_names s = []
         \<or> length (fs_names s) \<noteq> length (fs_units s)
         \<or> (\<exists>name\<in>set (fs_names s). trim name = [])
      then Inl (InvalidInput
        ''feature schema needs an ID, version, unique named features and one unit per feature'')
      else if length (remdups_adj (sort (fs_names s))) \<noteq> length (fs_names s)
      then Inl (InvalidInput ''feature names must be unique'')
      else Inr ())"

record preprocessor =
  pre_means :: "f64 list"
  pre_scales :: "f64 list"
  pre_fit_partition :: string

definition transform :: "preprocessor \<Rightarrow> f64 list list \<Rightarrow> elm_error + f64 list list" where
  "transform p rows =
     (if pre_means p = [] \<or> length (pre_means p) \<noteq> length (pre_scales p)
         \<or> (\<exists>v\<in>set (pre_scales p). \<not> is_finite v \<or> f_le v (Fin 0))
      then Inl (ArtifactError ''invalid fitted preprocessor'')
      else and_then (validate_matrix rows ''features'') (\<lambda>(count, dimensions).
        if dimensions \<noteq> length (pre_means p) then Inl SchemaMismatch
        else Inr (map (\<lambda>row. map (\<lambda>column.
               f_div (f_sub (rows ! row ! column) (pre_means p ! column)) (pre_scales p ! column))
             [0..<dimensions]) [0..<count])))"

section \<open>Artifacts\<close>

datatype task_kind = Regression | Classification

datatype algorithm_family = Elm | Ridge | Logistic

datatype estimator =
    EstElm (est_input_weights: "f64 list list") (est_biases: "f64 list")
      (est_output_weights: "f64 list list")
  | EstLinear (est_weights: "f64 list list") (est_intercepts: "f64 list")
  | EstLogistic (est_weights: "f64 list list") (est_intercepts: "f64 list")

record calibration =
  cal_identity :: string
  cal_temperature :: f64
  cal_residual_radius :: "f64 option"
  cal_fitted_on :: string

record model_metadata =
  mm_model_id :: string
  mm_task_id :: string
  mm_algorithm :: algorithm_family
  mm_algorithm_version :: u32
  mm_source_revision :: string
  mm_seed :: u64
  mm_prng :: string
  mm_hidden_units :: usize
  mm_target_names :: "string list"
  mm_target_units :: "string list"
  mm_class_mapping :: "string list"
  mm_training_cutoff :: f64
  mm_dataset_digest :: string
  mm_tenant_scope :: string
  mm_domain_scope :: string
  mm_horizon_seconds :: "nat option"
  mm_expiry_unix_seconds :: "nat option"
  mm_fixture_only :: bool

record evaluation_summary =
  es_partition :: string
  es_sample_count :: usize
  es_effective_sample_count :: f64
  es_mse :: "f64 option"
  es_brier_score :: "f64 option"
  es_log_loss :: "f64 option"
  es_accuracy :: "f64 option"
  es_calibration_error :: "f64 option"
  es_residual_coverage :: "f64 option"
  es_inference_p95_ms :: "f64 option"
  es_inference_p99_ms :: "f64 option"

record solver_diagnostics =
  sd_solver :: string
  sd_regularisation :: f64
  sd_diagonal_condition_estimate :: f64
  sd_relative_residual :: f64
  sd_retries :: usize

record elm_artifact =
  ea_format_version :: u32
  ea_metadata :: model_metadata
  ea_feature_schema :: feature_schema
  ea_target_schema_id :: string
  ea_task_kind :: task_kind
  ea_preprocessor :: preprocessor
  ea_estimator :: estimator
  ea_calibration :: "calibration option"
  ea_solver :: solver_diagnostics
  ea_evaluation :: "evaluation_summary option"
  ea_content_sha256 :: string

definition validate_baseline ::
  "f64 list list \<Rightarrow> f64 list \<Rightarrow> usize \<Rightarrow> elm_error + unit" where
  "validate_baseline weights intercepts dimensions =
     and_then (validate_matrix weights ''baseline weights'') (\<lambda>(_, outputs).
       if length weights \<noteq> dimensions \<or> length intercepts \<noteq> outputs
       then Inl (ArtifactError ''artifact baseline dimensions do not match'')
       else Inr ())"

fun validate_estimator :: "estimator \<Rightarrow> usize \<Rightarrow> elm_error + unit" where
  "validate_estimator (EstElm input_weights biases output_weights) dimensions =
     and_then (validate_matrix input_weights ''projection weights'') (\<lambda>(input_dims, hidden).
     and_then (validate_matrix output_weights ''output weights'') (\<lambda>(_, outputs).
       if input_dims \<noteq> dimensions \<or> hidden \<noteq> length biases
          \<or> length output_weights \<noteq> hidden \<or> outputs = 0
       then Inl (ArtifactError ''artifact estimator dimensions do not match'')
       else Inr ()))"
| "validate_estimator (EstLinear weights intercepts) dimensions =
     validate_baseline weights intercepts dimensions"
| "validate_estimator (EstLogistic weights intercepts) dimensions =
     validate_baseline weights intercepts dimensions"

definition verify :: "(elm_artifact \<Rightarrow> string) \<Rightarrow> elm_artifact \<Rightarrow> elm_error + unit" where
  "verify content_hash a =
     (if ea_format_version a \<noteq> 1
      then Inl (ArtifactError ''unsupported artifact format version'')
      else if mm_prng (ea_metadata a) \<noteq> ''splitmix64-v1''
              \<or> \<not> is_ok (schema_validate (ea_feature_schema a))
      then Inl (ArtifactError ''artifact provenance or feature schema is invalid'')
      else let expected = ea_content_sha256 a;
               actual = content_hash (a\<lparr>ea_content_sha256 := []\<rparr>)
           in if actual \<noteq> expected
              then Inl (ArtifactError (''artifact content digest mismatch (expected '' @ expected
                     @ '', computed '' @ actual @ '')''))
              else validate_estimator (ea_estimator a) (length (fs_names (ea_feature_schema a))))"

section \<open>Reports\<close>

record data_quality_report =
  dq_dataset_id :: string
  dq_dataset_digest :: string
  dq_eligible_samples :: usize
  dq_excluded_samples :: usize
  dq_group_count :: usize
  dq_subgroup_group_counts :: "usize btree"
  dq_class_balance :: "usize btree"
  dq_training_cutoff :: f64
  dq_tuning_cutoff :: f64
  dq_calibration_cutoff :: f64
  dq_final_cutoff :: f64
  dq_fixture_only :: bool

record training_evaluation_report =
  tr_report_version :: u32
  tr_task_id :: string
  tr_dataset_id :: string
  tr_dataset_digest :: string
  tr_fixture_only :: bool
  tr_selected_algorithm :: algorithm_family
  tr_baseline_algorithm :: algorithm_family
  tr_attempted_configurations :: "string list"
  tr_tuning_metrics :: "f64 btree"
  tr_final_candidate :: evaluation_summary
  tr_final_baseline :: evaluation_summary
  tr_quality :: data_quality_report
  tr_final_independent_groups :: usize
  tr_minimum_final_subgroup_group_support :: usize
  tr_observed_window_seconds :: nat
  tr_maximum_input_age_seconds :: "nat option"
  tr_maximum_label_delay_seconds :: "nat option"
  tr_drift_score :: "f64 option"
  tr_maximum_ood_score :: "f64 option"
  tr_paired_improvement :: "f64 option"
  tr_lower_confidence_bound :: "f64 option"
  tr_confidence_level :: f64
  tr_calibrated :: bool
  tr_qualified :: bool
  tr_qualification_reasons :: "string list"
  tr_report_sha256 :: string

section \<open>Lemmas\<close>

lemma validate_matrix_ok:
  "validate_matrix m name = Inr (r, c) \<longleftrightarrow>
     m \<noteq> [] \<and> r = length m \<and> 0 < c \<and> r * c \<le> max_matrix_cells
     \<and> (\<forall>row\<in>set m. length row = c \<and> (\<forall>v\<in>set row. is_finite v))"
proof (cases m)
  case Nil
  then show ?thesis by (simp add: validate_matrix_def)
next
  case (Cons f m')
  then show ?thesis
    by (auto simp: validate_matrix_def Let_def usize_max_def max_matrix_cells_def not_less
        split: if_splits)
qed

lemma remdups_adj_sort_distinct:
  "length (remdups_adj (sort xs)) = length xs \<longleftrightarrow> distinct xs"
  for xs :: "'a::linorder list"
proof -
  have "length (remdups_adj (sort xs)) = card (set xs)"
    using distinct_card [OF distinct_remdups_adj [OF sorted_sort, of xs]] by simp
  then show ?thesis by (metis card_distinct distinct_card)
qed

lemma schema_validate_ok:
  "is_ok (schema_validate s) \<longleftrightarrow>
     trim (fs_id s) \<noteq> [] \<and> fs_version s \<noteq> 0 \<and> fs_names s \<noteq> []
     \<and> length (fs_names s) = length (fs_units s) \<and> (\<forall>n\<in>set (fs_names s). trim n \<noteq> [])
     \<and> distinct (fs_names s)"
  using remdups_adj_sort_distinct [of "fs_names s"] by (auto simp: schema_validate_def)

end
