(* ===== verification/ElmLifecycle.thy ===== *)
theory ElmLifecycle
  imports ElmArtifact
begin

text \<open>
  \<^verbatim>\<open>src/src/elm/lifecycle.rs\<close>: the lifecycle graph of a model and the evidence
  gate that decides whether a trained model may be qualified. Each failed check pushes its
  reason code; the model keeps the codes and their order.
\<close>

section \<open>Lifecycle graph\<close>

datatype lifecycle_stage =
  Candidate | Trained | Evaluated | Qualified | Shadow | Canary | Active
| Rejected | Quarantined | Retired | RolledBack

definition allowed_transition :: "lifecycle_stage \<Rightarrow> lifecycle_stage \<Rightarrow> bool" where
  "allowed_transition from to =
     (case from of
        Candidate \<Rightarrow> to \<in> {Trained, Rejected, Quarantined}
      | Trained \<Rightarrow> to \<in> {Evaluated, Rejected, Quarantined}
      | Evaluated \<Rightarrow> to \<in> {Qualified, Rejected, Quarantined}
      | Qualified \<Rightarrow> to \<in> {Shadow, Rejected, Quarantined, Retired}
      | Shadow \<Rightarrow> to \<in> {Canary, Active, Rejected, Quarantined, Retired, RolledBack}
      | Canary \<Rightarrow> to \<in> {Active, Shadow, Rejected, Quarantined, Retired, RolledBack}
      | Active \<Rightarrow> to \<in> {Shadow, Rejected, Quarantined, Retired, RolledBack}
      | RolledBack \<Rightarrow> to = Retired
      | Rejected \<Rightarrow> to = Retired
      | Quarantined \<Rightarrow> to = Retired
      | Retired \<Rightarrow> False)"

inductive stage_path :: "lifecycle_stage \<Rightarrow> lifecycle_stage list \<Rightarrow> lifecycle_stage \<Rightarrow> bool" where
  path_nil: "stage_path s [] s"
| path_step: "stage_path s p t \<Longrightarrow> allowed_transition t u \<Longrightarrow> stage_path s (p @ [u]) u"

inductive_cases stage_path_nilE: "stage_path s [] t"

section \<open>Evidence gate\<close>

record qualification_result =
  qr_qualified :: bool
  qr_reason_codes :: "string list"
  qr_measured_improvement :: "f64 option"
  qr_lower_confidence_bound :: "f64 option"

definition reason_if :: "bool \<Rightarrow> string \<Rightarrow> string list" where
  "reason_if b code = (if b then [code] else [])"

definition qualification_of :: "string list \<Rightarrow> training_evaluation_report \<Rightarrow> qualification_result" where
  "qualification_of reasons report =
     \<lparr>qr_qualified = (reasons = []), qr_reason_codes = reasons,
      qr_measured_improvement = tr_paired_improvement report,
      qr_lower_confidence_bound = tr_lower_confidence_bound report\<rparr>"

definition calibration_under_limit ::
  "evaluation_summary \<Rightarrow> promotion_policy \<Rightarrow> task_kind \<Rightarrow> bool" where
  "calibration_under_limit report policy kind =
     (case pp_maximum_calibration_error policy of
        None \<Rightarrow> False
      | Some max_error \<Rightarrow>
          (case es_calibration_error report of
             None \<Rightarrow> False
           | Some err \<Rightarrow>
               if \<not> is_finite err \<or> f_lt max_error err then False
               else (case kind of
                       Classification \<Rightarrow> True
                     | Regression \<Rightarrow>
                         is_some_and (\<lambda>minimum.
                             is_some_and (\<lambda>coverage. is_finite coverage \<and> f_le minimum coverage)
                               (es_residual_coverage report))
                           (pp_minimum_interval_coverage policy))))"

definition overhead_under_limits :: "f64 option \<Rightarrow> f64 option \<Rightarrow> promotion_policy \<Rightarrow> bool" where
  "overhead_under_limits p95 p99 policy \<longleftrightarrow>
     is_some_and (\<lambda>v. is_finite v
         \<and> f_le v (unwrap_or (Fin (- 1)) (pp_maximum_p95_overhead_ms policy))) p95
     \<and> is_some_and (\<lambda>v. is_finite v
         \<and> f_le v (unwrap_or (Fin (- 1)) (pp_maximum_p99_overhead_ms policy))) p99"

definition expected_baseline :: "task_kind \<Rightarrow> string" where
  "expected_baseline kind = (case kind of Regression \<Rightarrow> ''ridge'' | Classification \<Rightarrow> ''logistic'')"

definition expected_objective :: "task_kind \<Rightarrow> string" where
  "expected_objective kind = (case kind of Regression \<Rightarrow> ''mse'' | Classification \<Rightarrow> ''log_loss'')"

definition baseline_name :: "algorithm_family \<Rightarrow> string" where
  "baseline_name a = (case a of Ridge \<Rightarrow> ''ridge'' | Logistic \<Rightarrow> ''logistic'' | Elm \<Rightarrow> ''elm'')"

text \<open>An \<open>Option<f64>\<close> that is absent, not finite or below the required improvement.\<close>

definition below_improvement :: "promotion_policy \<Rightarrow> f64 option \<Rightarrow> bool" where
  "below_improvement policy x =
     is_none_or (\<lambda>v. \<not> is_finite v
       \<or> f_lt v (unwrap_or PInf (pp_minimum_practical_improvement policy))) x"

definition evaluate_qualification ::
  "elm_config \<Rightarrow> string \<Rightarrow> elm_artifact \<Rightarrow> training_evaluation_report \<Rightarrow> qualification_result" where
  "evaluate_qualification config task_id artifact report =
     (let task = get_task config task_id;
          reasons0 =
            reason_if (effective_mode config task_id \<noteq> Mode_Auto) ''task_not_in_auto_mode''
            @ reason_if (is_none_or (\<lambda>v. \<not> tc_allowed v) task) ''task_not_permitted''
            @ reason_if (is_none_or (\<lambda>v. tc_max_stage v < Stage_Qualified) task)
                ''stage_ceiling_blocks_qualification''
      in case Option.bind task (\<lambda>v. get_policy config (tc_promotion_policy v)) of
           None \<Rightarrow> qualification_of (reasons0 @ [''promotion_policy_missing'']) report
         | Some policy \<Rightarrow>
             let candidate = tr_final_candidate report;
                 kind = ea_task_kind artifact;
                 bound = tr_lower_confidence_bound report
             in qualification_of (reasons0
               @ reason_if (\<not> is_complete policy) ''promotion_policy_incomplete''
               @ reason_if (is_some_and (\<lambda>v. f_lt (unwrap_or (Fin 0) (pp_canary_fraction policy))
                     (tc_rollout_fraction v)) task) ''rollout_exceeds_policy_canary_fraction''
               @ reason_if (mm_fixture_only (ea_metadata artifact) \<or> tr_fixture_only report)
                   ''fixture_only_artifact''
               @ reason_if (es_partition candidate \<noteq> ''final'')
                   ''independent_final_evaluation_missing''
               @ reason_if (f_lt (es_effective_sample_count candidate)
                     (f_of_nat (unwrap_or usize_max (pp_minimum_effective_samples policy))))
                   ''insufficient_effective_samples''
               @ reason_if (tr_minimum_final_subgroup_group_support report
                     < unwrap_or usize_max (pp_minimum_subgroup_samples policy))
                   ''insufficient_subgroup_support''
               @ reason_if (tr_observed_window_seconds report
                     < unwrap_or 18446744073709551615 (pp_minimum_observation_seconds policy))
                   ''observation_window_incomplete''
               @ reason_if (\<not> tr_calibrated report) ''calibration_missing''
               @ reason_if (pp_task_objective policy \<noteq> Some (expected_objective kind)
                     \<or> pp_direction policy \<noteq> Some Lower)
                   ''configured_objective_is_not_supported_by_the_report''
               @ reason_if (pp_baseline policy \<noteq> Some (expected_baseline kind)
                     \<or> baseline_name (tr_baseline_algorithm report) \<noteq> expected_baseline kind)
                   ''configured_simple_baseline_unavailable''
               @ reason_if (f_lt (tr_confidence_level report)
                     (unwrap_or (Fin 1) (pp_confidence_level policy)))
                   ''configured_confidence_exceeds_evaluated_bound''
               @ reason_if (below_improvement policy (tr_paired_improvement report))
                   ''minimum_practical_improvement_not_met''
               @ reason_if (below_improvement policy bound) ''confidence_bound_not_met''
               @ reason_if (is_some_and (\<lambda>v. f_lt v
                     (f_neg (unwrap_or PInf (pp_non_inferiority_tolerance policy)))) bound)
                   ''non_inferiority_gate_failed''
               @ reason_if (is_none_or (\<lambda>age.
                     unwrap_or 0 (pp_maximum_input_age_seconds policy) < age)
                     (tr_maximum_input_age_seconds report)) ''input_age_gate_failed''
               @ reason_if (is_none_or (\<lambda>age.
                     unwrap_or 0 (pp_maximum_label_age_seconds policy) < age)
                     (tr_maximum_label_delay_seconds report)) ''label_age_gate_failed''
               @ reason_if (is_none_or (\<lambda>score.
                     f_lt (unwrap_or (Fin (- 1)) (pp_maximum_drift_score policy)) score)
                     (tr_drift_score report)) ''drift_gate_failed''
               @ reason_if (is_none_or (\<lambda>score.
                     f_lt (unwrap_or (Fin (- 1)) (pp_maximum_ood_score policy)) score)
                     (tr_maximum_ood_score report)) ''out_of_domain_gate_failed''
               @ reason_if (\<not> calibration_under_limit candidate policy kind)
                   ''calibration_gate_failed''
               @ reason_if (\<not> overhead_under_limits (es_inference_p95_ms candidate)
                     (es_inference_p99_ms candidate) policy) ''inference_overhead_gate_failed'')
               report)"

section \<open>The lifecycle graph\<close>

text \<open>A serving stage gives a model a place in front of traffic.\<close>

definition serving_stage :: "lifecycle_stage \<Rightarrow> bool" where
  "serving_stage s \<longleftrightarrow> s \<in> {Qualified, Shadow, Canary, Active}"

definition authority_stage :: "lifecycle_stage \<Rightarrow> bool" where
  "authority_stage s \<longleftrightarrow> s \<in> {Qualified, Canary, Active}"

lemma transition_into:
  "allowed_transition s Evaluated \<Longrightarrow> s = Trained"
  "allowed_transition s Qualified \<Longrightarrow> s = Evaluated"
  "allowed_transition s Shadow \<Longrightarrow> s \<in> {Qualified, Canary, Active}"
  "allowed_transition s Canary \<Longrightarrow> s = Shadow"
  "allowed_transition s Active \<Longrightarrow> s \<in> {Shadow, Canary}"
  by (cases s; auto simp: allowed_transition_def)+

lemma never_returns:
  "allowed_transition s t \<Longrightarrow> s \<in> {Rejected, Quarantined, Retired, RolledBack} \<Longrightarrow> t = Retired"
  by (cases s) (auto simp: allowed_transition_def)

lemma retired_final: "\<not> allowed_transition Retired t"
  by (simp add: allowed_transition_def)

lemma stage_path_serving:
  "stage_path s p t \<Longrightarrow> s \<in> {Candidate, Trained} \<Longrightarrow>
     (t \<in> {Qualified, Shadow, Canary, Active} \<longrightarrow> {Evaluated, Qualified} \<subseteq> set p)
     \<and> (t \<in> {Shadow, Canary, Active} \<longrightarrow> Shadow \<in> set p)
     \<and> (t = Evaluated \<longrightarrow> Evaluated \<in> set p)"
  by (induction rule: stage_path.induct) (auto dest!: transition_into)

theorem active_needs_evidence_path:
  assumes "stage_path Trained p Active"
  shows "{Evaluated, Qualified, Shadow} \<subseteq> set p"
  using stage_path_serving [OF assms] by simp

section \<open>Qualification is withheld unless every piece of evidence is there\<close>

lemma reason_if_Nil [simp]: "reason_if b c = [] \<longleftrightarrow> \<not> b"
  by (simp add: reason_if_def)

lemma qualification_of_qualified [simp]: "qr_qualified (qualification_of rs r) \<longleftrightarrow> rs = []"
  by (simp add: qualification_of_def)

lemma qualified_reasons: "qr_qualified (evaluate_qualification c t a r) \<longleftrightarrow>
    qr_reason_codes (evaluate_qualification c t a r) = []"
  by (simp add: evaluate_qualification_def Let_def qualification_of_def split: option.splits)

end
