(* ===== verification/ElmRegistry.thy ===== *)
theory ElmRegistry
  imports ElmLifecycle
begin

text \<open>
  \<^verbatim>\<open>src/src/elm/mod.rs\<close>: the model registry. One registry directory on disk is
  shared by several processes; each process caches the registry index and the artifacts of
  the serving champions. A mutating operation takes the writer lock, refreshes its cache
  from disk, checks the caller's expected revision, computes the next index, persists it by
  an atomic rename and only then updates its cache.

  The model keeps the disk and one process's cache as explicit state. Parameters of the
  model are gathered in \<open>registry_env\<close>: the artifact digest (SHA-256 of the JSON text), the
  sizes of the JSON texts and the configured size limit. The file system is a map from
  relative file names to contents; a write may fail before the rename (nothing changes) or
  after it (the file is replaced and an error is returned), which \<open>write_outcome\<close> says.
  Lock poisoning is not modelled. Time (\<open>unix_seconds\<close>) is an argument.
\<close>

section \<open>State\<close>

record registry_record =
  rr_revision :: u64
  rr_model_id :: string
  rr_task_id :: string
  rr_digest :: string
  rr_stage :: lifecycle_stage
  rr_artifact_file :: string
  rr_reason :: "string option"
  rr_updated_at :: u64
  rr_fixture_only :: bool

record rollback_event =
  re_idempotency_key :: string
  re_task_id :: string
  re_rolled_back_model_id :: string
  re_fallback_model_id :: "string option"
  re_revision :: u64
  re_reason :: string

record registry_file =
  rf_revision :: u64
  rf_records :: "registry_record list"
  rf_champion_by_task :: "string btree"
  rf_rollback_history :: "rollback_event list"
  rf_canary_decisions :: "u64 btree"

definition default_registry_file :: registry_file where
  "default_registry_file =
     \<lparr>rf_revision = 0, rf_records = [], rf_champion_by_task = [], rf_rollback_history = [],
      rf_canary_decisions = []\<rparr>"

record registry_state =
  rs_file :: registry_file
  rs_champions :: "elm_artifact btree"

datatype 'a file_content = Missing | Unreadable | Contents 'a

record disk =
  dk_registry :: "registry_file file_content"
  dk_artifacts :: "string \<Rightarrow> elm_artifact file_content"
  dk_evaluations :: "string \<Rightarrow> string file_content"

record registry_env =
  en_content_hash :: "elm_artifact \<Rightarrow> string"
  en_artifact_bytes :: "elm_artifact \<Rightarrow> nat"
  en_registry_bytes :: "registry_file \<Rightarrow> nat"
  en_max_bytes :: usize

datatype write_outcome = WriteOk | FailBefore | FailAfter

type_synonym 'a reg_result = "(elm_error + 'a) \<times> disk \<times> registry_state"

section \<open>List operations of the code\<close>

fun position :: "('a \<Rightarrow> bool) \<Rightarrow> 'a list \<Rightarrow> nat option" where
  "position p [] = None"
| "position p (x # xs) = (if p x then Some 0 else map_option Suc (position p xs))"

text \<open>\<open>max_by_key\<close>: the last of the elements with the greatest key.\<close>

fun max_by_key :: "('a \<Rightarrow> 'k::linorder) \<Rightarrow> 'a list \<Rightarrow> 'a option" where
  "max_by_key f [] = None"
| "max_by_key f (x # xs) =
     (case max_by_key f xs of
        None \<Rightarrow> Some x
      | Some y \<Rightarrow> if f x \<le> f y then Some y else Some x)"

definition find_record :: "registry_file \<Rightarrow> string \<Rightarrow> registry_record option" where
  "find_record f model_id = find (\<lambda>r. rr_model_id r = model_id) (rf_records f)"

definition record_index :: "registry_file \<Rightarrow> string \<Rightarrow> nat option" where
  "record_index f model_id = position (\<lambda>r. rr_model_id r = model_id) (rf_records f)"

definition update_record ::
  "nat \<Rightarrow> (registry_record \<Rightarrow> registry_record) \<Rightarrow> registry_file \<Rightarrow> registry_file" where
  "update_record i g f = f\<lparr>rf_records := (rf_records f)[i := g (rf_records f ! i)]\<rparr>"

definition set_stage ::
  "lifecycle_stage \<Rightarrow> string \<Rightarrow> u64 \<Rightarrow> u64 \<Rightarrow> registry_record \<Rightarrow> registry_record" where
  "set_stage stage reason now revision r =
     r\<lparr>rr_stage := stage, rr_reason := Some reason, rr_updated_at := now,
       rr_revision := revision\<rparr>"

section \<open>Files\<close>

definition load_artifact :: "registry_env \<Rightarrow> disk \<Rightarrow> string \<Rightarrow> elm_error + elm_artifact" where
  "load_artifact E d path =
     (case dk_artifacts d path of
        Missing \<Rightarrow> Inl (ArtifactError ''no such file'')
      | Unreadable \<Rightarrow> Inl (ArtifactError ''unreadable file'')
      | Contents a \<Rightarrow>
          if en_max_bytes E < en_artifact_bytes E a
          then Inl (ArtifactError ''artifact exceeds configured size limit'')
          else and_then (verify (en_content_hash E) a) (\<lambda>_. Inr a))"

definition read_registry_file :: "registry_env \<Rightarrow> disk \<Rightarrow> elm_error + registry_file" where
  "read_registry_file E d =
     (case dk_registry d of
        Missing \<Rightarrow> Inr default_registry_file
      | Unreadable \<Rightarrow> Inl (ArtifactError ''invalid registry index'')
      | Contents f \<Rightarrow>
          if en_max_bytes E < en_registry_bytes E f
          then Inl (ArtifactError ''registry index exceeds configured size limit'')
          else Inr f)"

definition persist_registry ::
  "registry_env \<Rightarrow> write_outcome \<Rightarrow> registry_file \<Rightarrow> disk \<Rightarrow> (elm_error + unit) \<times> disk" where
  "persist_registry E w f d =
     (if en_max_bytes E < en_registry_bytes E f
      then (Inl (ArtifactError ''registry index exceeds configured size limit''), d)
      else case w of
             WriteOk \<Rightarrow> (Inr (), d\<lparr>dk_registry := Contents f\<rparr>)
           | FailBefore \<Rightarrow> (Inl (ArtifactError ''write failed''), d)
           | FailAfter \<Rightarrow> (Inl (ArtifactError ''sync failed''), d\<lparr>dk_registry := Contents f\<rparr>))"

definition write_artifact ::
  "write_outcome \<Rightarrow> string \<Rightarrow> elm_artifact \<Rightarrow> disk \<Rightarrow> (elm_error + unit) \<times> disk" where
  "write_artifact w path a d =
     (let d' = d\<lparr>dk_artifacts := (dk_artifacts d)(path := Contents a)\<rparr>
      in case w of
           WriteOk \<Rightarrow> (Inr (), d')
         | FailBefore \<Rightarrow> (Inl (ArtifactError ''write failed''), d)
         | FailAfter \<Rightarrow> (Inl (ArtifactError ''sync failed''), d'))"

section \<open>Reading the registry\<close>

definition artifact_matches :: "elm_artifact \<Rightarrow> string \<Rightarrow> string \<Rightarrow> string \<Rightarrow> bool" where
  "artifact_matches a model_id task digest \<longleftrightarrow>
     mm_model_id (ea_metadata a) = model_id \<and> mm_task_id (ea_metadata a) = task
     \<and> ea_content_sha256 a = digest"

fun load_champions ::
  "registry_env \<Rightarrow> disk \<Rightarrow> registry_file \<Rightarrow> (string \<times> string) list \<Rightarrow> elm_artifact btree \<Rightarrow>
     elm_error + elm_artifact btree" where
  "load_champions E d f [] loaded = Inr loaded"
| "load_champions E d f ((task, model_id) # rest) loaded =
     (case find_record f model_id of
        None \<Rightarrow> Inl (ArtifactError ''registry champion record is missing'')
      | Some r \<Rightarrow>
          if rr_task_id r \<noteq> task \<or> rr_fixture_only r \<or> \<not> serving_stage (rr_stage r)
          then load_champions E d f rest loaded
          else and_then (load_artifact E d (rr_artifact_file r)) (\<lambda>a.
            if \<not> artifact_matches a model_id task (rr_digest r)
            then Inl (ArtifactError ''registry record and immutable model artifact do not match'')
            else load_champions E d f rest (bt_insert task a loaded)))"

definition refresh_locked :: "registry_env \<Rightarrow> disk \<Rightarrow> registry_state \<Rightarrow>
    (elm_error + bool) \<times> registry_state" where
  "refresh_locked E d s =
     (case read_registry_file E d of
        Inl e \<Rightarrow> (Inl e, s)
      | Inr fresh \<Rightarrow>
          if rf_revision fresh \<le> rf_revision (rs_file s) then (Inr False, s)
          else (case load_champions E d fresh (rf_champion_by_task fresh) [] of
                  Inl e \<Rightarrow> (Inl e, s)
                | Inr champions \<Rightarrow> (Inr True, \<lparr>rs_file = fresh, rs_champions = champions\<rparr>)))"

definition refresh :: "registry_env \<Rightarrow> disk \<Rightarrow> registry_state \<Rightarrow> bool reg_result" where
  "refresh E d s = (let (r, s') = refresh_locked E d s in (r, d, s'))"

fun restore_loop ::
  "registry_env \<Rightarrow> disk \<Rightarrow> registry_file \<Rightarrow> (string \<times> string) list \<Rightarrow> elm_artifact btree \<Rightarrow>
     elm_error + elm_artifact btree" where
  "restore_loop E d f [] loaded = Inr loaded"
| "restore_loop E d f ((task, model_id) # rest) loaded =
     (case find_record f model_id of
        None \<Rightarrow> Inl (ArtifactError ''registry champion record is missing'')
      | Some r \<Rightarrow>
          if rr_task_id r \<noteq> task \<or> rr_fixture_only r \<or> \<not> serving_stage (rr_stage r)
          then restore_loop E d f rest loaded
          else and_then (load_artifact E d (rr_artifact_file r)) (\<lambda>a.
            if \<not> artifact_matches a model_id task (rr_digest r)
            then restore_loop E d f rest loaded
            else restore_loop E d f rest (bt_insert task a loaded)))"

definition open_registry :: "registry_env \<Rightarrow> disk \<Rightarrow> elm_error + registry_state" where
  "open_registry E d =
     and_then (read_registry_file E d) (\<lambda>f.
     and_then (restore_loop E d f (rf_champion_by_task f) []) (\<lambda>champions.
       Inr \<lparr>rs_file = f, rs_champions = champions\<rparr>))"

definition champion :: "registry_state \<Rightarrow> string \<Rightarrow> elm_artifact option" where
  "champion s task_id = map_of (rs_champions s) task_id"

definition record_of :: "registry_state \<Rightarrow> string \<Rightarrow> registry_record option" where
  "record_of s model_id = find_record (rs_file s) model_id"

definition file_canary_decisions :: "registry_file \<Rightarrow> string \<Rightarrow> u64" where
  "file_canary_decisions f model_id =
     unwrap_or 0 (map_of (rf_canary_decisions f) model_id)"

definition canary_decisions :: "registry_state \<Rightarrow> string \<Rightarrow> u64" where
  "canary_decisions s model_id = file_canary_decisions (rs_file s) model_id"

definition find_dataset ::
  "registry_env \<Rightarrow> disk \<Rightarrow> registry_state \<Rightarrow> string \<Rightarrow> string \<Rightarrow> registry_record option" where
  "find_dataset E d s task_id dataset_digest =
     find (\<lambda>r. rr_task_id r = task_id
              \<and> (case load_artifact E d (rr_artifact_file r) of
                   Inl _ \<Rightarrow> False
                 | Inr a \<Rightarrow> mm_dataset_digest (ea_metadata a) = dataset_digest))
       (rev (rf_records (rs_file s)))"

section \<open>Mutating operations\<close>

text \<open>
  The common tail of every mutation: persist the next index, and on success install it
  (with the champions computed with it) in the cache.
\<close>

definition commit ::
  "registry_env \<Rightarrow> write_outcome \<Rightarrow> registry_file \<Rightarrow> elm_artifact btree \<Rightarrow> 'a \<Rightarrow> disk \<Rightarrow>
     registry_state \<Rightarrow> 'a reg_result" where
  "commit E w next champions value d s =
     (case persist_registry E w next d of
        (Inl e, d') \<Rightarrow> (Inl e, d', s)
      | (Inr _, d') \<Rightarrow> (Inr value, d', \<lparr>rs_file = next, rs_champions = champions\<rparr>))"

definition claim_canary_decision ::
  "registry_env \<Rightarrow> u64 \<Rightarrow> write_outcome \<Rightarrow> string \<Rightarrow> u64 \<Rightarrow> disk \<Rightarrow> registry_state \<Rightarrow>
     bool reg_result" where
  "claim_canary_decision E now w model_id maximum d s =
     (if maximum = 0 then (Inr False, d, s)
      else case refresh_locked E d s of
        (Inl e, s') \<Rightarrow> (Inl e, d, s')
      | (Inr _, s') \<Rightarrow>
          (case record_index (rs_file s') model_id of
             None \<Rightarrow> (Inl (ArtifactError ''canary model not found''), d, s')
           | Some index \<Rightarrow>
               let r = rf_records (rs_file s') ! index;
                   used = file_canary_decisions (rs_file s') model_id
               in if rr_stage r \<noteq> Canary \<or> rr_fixture_only r then (Inr False, d, s')
                  else if maximum \<le> used then (Inr False, d, s')
                  else
                    let count = sat_add used 1;
                        revision = sat_add (rf_revision (rs_file s')) 1;
                        next1 = (rs_file s')\<lparr>rf_canary_decisions :=
                            bt_insert model_id count (rf_canary_decisions (rs_file s'))\<rparr>;
                        next2 = (if maximum \<le> count
                          then update_record index (set_stage Shadow
                            ''canary decision budget exhausted; automatically returned to shadow''
                            now revision) next1
                          else next1);
                        next = next2\<lparr>rf_revision := revision\<rparr>
                    in commit E w next (rs_champions s') True d s'))"

definition publish_candidate ::
  "registry_env \<Rightarrow> u64 \<Rightarrow> write_outcome \<Rightarrow> write_outcome \<Rightarrow> elm_artifact \<Rightarrow> u64 \<Rightarrow> disk \<Rightarrow>
     registry_state \<Rightarrow> registry_record reg_result" where
  "publish_candidate E now w1 w2 artifact expected_revision d s =
     (case verify (en_content_hash E) artifact of
        Inl e \<Rightarrow> (Inl e, d, s)
      | Inr _ \<Rightarrow>
        if en_max_bytes E < en_artifact_bytes E artifact
        then (Inl (ArtifactError ''artifact exceeds configured size limit''), d, s)
        else case refresh_locked E d s of
          (Inl e, s') \<Rightarrow> (Inl e, d, s')
        | (Inr _, s') \<Rightarrow>
            if rf_revision (rs_file s') \<noteq> expected_revision
            then (Inl RevisionConflict, d, s')
            else
              let meta = ea_metadata artifact;
                  filename = ''artifacts/'' @ mm_model_id meta @ ''.json''
              in (case write_artifact w1 filename artifact d of
                    (Inl e, d') \<Rightarrow> (Inl e, d', s')
                  | (Inr _, d') \<Rightarrow>
                      let revision = sat_add (rf_revision (rs_file s')) 1;
                          r = \<lparr>rr_revision = revision, rr_model_id = mm_model_id meta,
                               rr_task_id = mm_task_id meta,
                               rr_digest = ea_content_sha256 artifact, rr_stage = Trained,
                               rr_artifact_file = filename,
                               rr_reason = Some (if mm_fixture_only meta
                                 then ''fixture_only: cannot be qualified''
                                 else ''evaluation report attached; promotion requires policy evidence''),
                               rr_updated_at = now, rr_fixture_only = mm_fixture_only meta\<rparr>;
                          next = (rs_file s')\<lparr>rf_revision := revision,
                                   rf_records := rf_records (rs_file s') @ [r]\<rparr>
                      in commit E w2 next (rs_champions s') r d' s'))"

definition serving_record_of_task :: "string \<Rightarrow> registry_record \<Rightarrow> bool" where
  "serving_record_of_task task_id r \<longleftrightarrow>
     rr_task_id r = task_id \<and> \<not> rr_fixture_only r \<and> serving_stage (rr_stage r)"

text \<open>The artifact of a fallback record, when it loads and fits the artifact it replaces.\<close>

definition compatible_fallback ::
  "registry_env \<Rightarrow> disk \<Rightarrow> elm_artifact \<Rightarrow> registry_record \<Rightarrow> (string \<times> elm_artifact) option" where
  "compatible_fallback E d current r =
     (case load_artifact E d (rr_artifact_file r) of
        Inl _ \<Rightarrow> None
      | Inr a \<Rightarrow>
          if ea_content_sha256 a = rr_digest r
             \<and> ea_feature_schema a = ea_feature_schema current
             \<and> mm_tenant_scope (ea_metadata a) = mm_tenant_scope (ea_metadata current)
             \<and> mm_domain_scope (ea_metadata a) = mm_domain_scope (ea_metadata current)
          then Some (rr_model_id r, a) else None)"

definition choose_fallback ::
  "registry_env \<Rightarrow> disk \<Rightarrow> elm_artifact \<Rightarrow> registry_record list \<Rightarrow> (string \<times> elm_artifact) option" where
  "choose_fallback E d current candidates =
     Option.bind (max_by_key rr_revision candidates) (compatible_fallback E d current)"

definition install_fallback ::
  "string \<Rightarrow> (string \<times> elm_artifact) option \<Rightarrow> registry_file \<Rightarrow> elm_artifact btree \<Rightarrow>
     registry_file \<times> elm_artifact btree" where
  "install_fallback task_id fallback next champions =
     (case fallback of
        Some (fallback_id, a) \<Rightarrow>
          (next\<lparr>rf_champion_by_task :=
              bt_insert task_id fallback_id (rf_champion_by_task next)\<rparr>,
           bt_insert task_id a champions)
      | None \<Rightarrow>
          (next\<lparr>rf_champion_by_task := bt_remove task_id (rf_champion_by_task next)\<rparr>,
           bt_remove task_id champions))"

definition demote_previous ::
  "string \<Rightarrow> string \<Rightarrow> u64 \<Rightarrow> u64 \<Rightarrow> registry_file \<Rightarrow> registry_file" where
  "demote_previous task_id model_id now revision f =
     (case map_of (rf_champion_by_task f) task_id of
        None \<Rightarrow> f
      | Some previous_id \<Rightarrow>
          if previous_id = model_id then f
          else case record_index f previous_id of
                 None \<Rightarrow> f
               | Some i \<Rightarrow>
                   if authority_stage (rr_stage (rf_records f ! i))
                   then update_record i (set_stage Shadow
                          ''replaced by a newer compatible lifecycle snapshot'' now revision) f
                   else f)"

text \<open>
  The next index and champions of a promotion of record \<open>index\<close> to \<open>target\<close>, after all
  checks have passed.
\<close>

definition promote_next ::
  "registry_env \<Rightarrow> u64 \<Rightarrow> disk \<Rightarrow> registry_state \<Rightarrow> nat \<Rightarrow> string \<Rightarrow> elm_artifact \<Rightarrow>
     lifecycle_stage \<Rightarrow> string \<Rightarrow> registry_file \<times> elm_artifact btree" where
  "promote_next E now d s index model_id artifact target reason =
     (let f = rs_file s;
          task_id = mm_task_id (ea_metadata artifact);
          target_is_serving = (serving_stage target \<and> \<not> mm_fixture_only (ea_metadata artifact));
          current_champion = map_of (rf_champion_by_task f) task_id;
          revision = sat_add (rf_revision f) 1;
          f1 = (if target_is_serving
                then (demote_previous task_id model_id now revision f)
                  \<lparr>rf_champion_by_task := bt_insert task_id model_id (rf_champion_by_task f)\<rparr>
                else f);
          f2 = (update_record index (set_stage target reason now revision) f1)
                 \<lparr>rf_revision := revision\<rparr>
      in if target_is_serving then (f2, bt_insert task_id artifact (rs_champions s))
         else if current_champion = Some model_id
         then install_fallback task_id
                (choose_fallback E d artifact
                   (filter (serving_record_of_task task_id) (rf_records f2)))
                f2 (rs_champions s)
         else (f2, rs_champions s))"

definition promote ::
  "registry_env \<Rightarrow> u64 \<Rightarrow> write_outcome \<Rightarrow> string \<Rightarrow> lifecycle_stage \<Rightarrow> u64 \<Rightarrow> string \<Rightarrow> disk \<Rightarrow>
     registry_state \<Rightarrow> registry_record reg_result" where
  "promote E now w model_id target expected_revision reason d s =
     (case refresh_locked E d s of
        (Inl e, s') \<Rightarrow> (Inl e, d, s')
      | (Inr _, s') \<Rightarrow>
        if rf_revision (rs_file s') \<noteq> expected_revision then (Inl RevisionConflict, d, s')
        else case record_index (rs_file s') model_id of
          None \<Rightarrow> (Inl (ArtifactError ''model not found''), d, s')
        | Some index \<Rightarrow>
            let r = rf_records (rs_file s') ! index
            in if \<not> allowed_transition (rr_stage r) target
               then (Inl (ArtifactError ''invalid lifecycle transition''), d, s')
               else if rr_fixture_only r \<and> serving_stage target
               then (Inl (ArtifactError ''fixture-only models cannot enter a serving stage''), d, s')
               else case load_artifact E d (rr_artifact_file r) of
                 Inl e \<Rightarrow> (Inl e, d, s')
               | Inr artifact \<Rightarrow>
                   if \<not> artifact_matches artifact model_id (rr_task_id r) (rr_digest r)
                   then (Inl (ArtifactError
                     ''registry record and immutable model artifact do not match''), d, s')
                   else let (next, champions) =
                              promote_next E now d s' index model_id artifact target reason
                        in commit E w next champions (rf_records next ! index) d s')"

definition save_artifact ::
  "registry_env \<Rightarrow> write_outcome \<Rightarrow> string \<Rightarrow> elm_artifact \<Rightarrow> disk \<Rightarrow> (elm_error + unit) \<times> disk"
where
  "save_artifact E w path a d =
     (case verify (en_content_hash E) a of
        Inl e \<Rightarrow> (Inl e, d)
      | Inr _ \<Rightarrow>
          if en_max_bytes E < en_artifact_bytes E a
          then (Inl (ArtifactError ''artifact exceeds configured size limit''), d)
          else write_artifact w path a d)"

text \<open>An evaluation report is stored as its bytes, one \<open>char\<close> for each byte.\<close>

definition store_evaluation ::
  "registry_env \<Rightarrow> write_outcome \<Rightarrow> string \<Rightarrow> string \<Rightarrow> disk \<Rightarrow> registry_state \<Rightarrow> unit reg_result"
where
  "store_evaluation E w model_id bytes d s =
     (if en_max_bytes E < length bytes
      then (Inl (ArtifactError ''evaluation report exceeds configured size limit''), d, s)
      else case record_of s model_id of
        None \<Rightarrow> (Inl (ArtifactError ''model not found''), d, s)
      | Some r \<Rightarrow>
          let d' = d\<lparr>dk_evaluations := (dk_evaluations d)(rr_model_id r := Contents bytes)\<rparr>
          in (case w of
                WriteOk \<Rightarrow> (Inr (), d', s)
              | FailBefore \<Rightarrow> (Inl (ArtifactError ''write failed''), d, s)
              | FailAfter \<Rightarrow> (Inl (ArtifactError ''sync failed''), d', s)))"

definition evaluation_bytes ::
  "registry_env \<Rightarrow> string \<Rightarrow> disk \<Rightarrow> registry_state \<Rightarrow> elm_error + string" where
  "evaluation_bytes E model_id d s =
     (case record_of s model_id of
        None \<Rightarrow> Inl (ArtifactError ''model not found'')
      | Some r \<Rightarrow>
          (case dk_evaluations d (rr_model_id r) of
             Missing \<Rightarrow> Inl (ArtifactError ''no such file'')
           | Unreadable \<Rightarrow> Inl (ArtifactError ''unreadable file'')
           | Contents bytes \<Rightarrow>
               if en_max_bytes E < length bytes
               then Inl (ArtifactError ''evaluation report exceeds configured size limit'')
               else Inr bytes))"

definition mark_evaluated ::
  "registry_env \<Rightarrow> u64 \<Rightarrow> write_outcome \<Rightarrow> string \<Rightarrow> u64 \<Rightarrow> string \<Rightarrow> disk \<Rightarrow> registry_state \<Rightarrow>
     registry_record reg_result" where
  "mark_evaluated E now w model_id expected_revision reason d s =
     promote E now w model_id Evaluated expected_revision reason d s"

definition rollback_champion ::
  "registry_env \<Rightarrow> u64 \<Rightarrow> write_outcome \<Rightarrow> string \<Rightarrow> string \<Rightarrow> u64 \<Rightarrow> string \<Rightarrow> disk \<Rightarrow>
     registry_state \<Rightarrow> rollback_event reg_result" where
  "rollback_champion E now w task_id key expected_revision reason d s =
     (if trim key = [] \<or> trim reason = []
      then (Inl (InvalidInput ''rollback requires an idempotency key and reason''), d, s)
      else case refresh_locked E d s of
        (Inl e, s') \<Rightarrow> (Inl e, d, s')
      | (Inr _, s') \<Rightarrow>
        case find (\<lambda>ev. re_idempotency_key ev = key) (rf_rollback_history (rs_file s')) of
          Some ev \<Rightarrow>
            if re_task_id ev \<noteq> task_id
            then (Inl (ArtifactError
              ''rollback idempotency key was already used for another task''), d, s')
            else (Inr ev, d, s')
        | None \<Rightarrow>
            if rf_revision (rs_file s') \<noteq> expected_revision then (Inl RevisionConflict, d, s')
            else case map_of (rf_champion_by_task (rs_file s')) task_id of
              None \<Rightarrow> (Inl (ArtifactError ''task has no serving champion to roll back''), d, s')
            | Some current_id \<Rightarrow>
              case map_of (rs_champions s') task_id of
                None \<Rightarrow> (Inl (ArtifactError ''serving champion snapshot is unavailable''), d, s')
              | Some current_artifact \<Rightarrow>
                case record_index (rs_file s') current_id of
                  None \<Rightarrow> (Inl (ArtifactError ''serving champion record is missing''), d, s')
                | Some index \<Rightarrow>
                  if \<not> allowed_transition (rr_stage (rf_records (rs_file s') ! index)) RolledBack
                  then (Inl (ArtifactError ''serving stage cannot be rolled back''), d, s')
                  else
                    let revision = sat_add (rf_revision (rs_file s')) 1;
                        f1 = update_record index (set_stage RolledBack reason now revision)
                               (rs_file s');
                        fallback = choose_fallback E d current_artifact
                          (filter (\<lambda>r. serving_record_of_task task_id r
                                       \<and> rr_model_id r \<noteq> current_id) (rf_records f1));
                        (f2, champions) = install_fallback task_id fallback f1 (rs_champions s');
                        ev = \<lparr>re_idempotency_key = key, re_task_id = task_id,
                              re_rolled_back_model_id = current_id,
                              re_fallback_model_id = map_option fst fallback,
                              re_revision = revision, re_reason = reason\<rparr>;
                        next = f2\<lparr>rf_revision := revision,
                                  rf_rollback_history := rf_rollback_history f2 @ [ev]\<rparr>
                    in commit E w next champions ev d s')"

end
