(* ===== verification/ElmRegistryEffects.thy ===== *)
theory ElmRegistryEffects
  imports ElmRegistry
begin

text \<open>
  The effect of every registry operation in one shape: it either leaves the index on disk
  alone (its cache unchanged or refreshed), or refreshes and then replaces the index by the
  result of one \<open>file_step\<close> of the refreshed index.
\<close>

section \<open>Effects of the operations\<close>

inductive file_step ::
  "registry_env \<Rightarrow> disk \<Rightarrow> registry_state \<Rightarrow> registry_file \<Rightarrow> elm_artifact btree \<Rightarrow> bool"
  for E :: registry_env and d :: disk and s :: registry_state where
  step_claim:
    "\<lbrakk>record_index (rs_file s) model_id = Some i; r = rf_records (rs_file s) ! i;
      rr_stage r = Canary; \<not> rr_fixture_only r;
      used = file_canary_decisions (rs_file s) model_id; used < maximum;
      cnt = sat_add used 1; revision = sat_add (rf_revision (rs_file s)) 1;
      f1 = (rs_file s)\<lparr>rf_canary_decisions :=
              bt_insert model_id cnt (rf_canary_decisions (rs_file s))\<rparr>;
      f2 = (if maximum \<le> cnt then update_record i (set_stage Shadow reason now revision) f1
            else f1)\<rbrakk>
     \<Longrightarrow> file_step E d s (f2\<lparr>rf_revision := revision\<rparr>) (rs_champions s)"
| step_publish:
    "\<lbrakk>verify (en_content_hash E) a = Inr (); rr_model_id r = mm_model_id (ea_metadata a);
      rr_task_id r = mm_task_id (ea_metadata a); rr_digest r = ea_content_sha256 a;
      rr_stage r = Trained; rr_fixture_only r = mm_fixture_only (ea_metadata a);
      revision = sat_add (rf_revision (rs_file s)) 1\<rbrakk>
     \<Longrightarrow> file_step E d s
           ((rs_file s)\<lparr>rf_revision := revision, rf_records := rf_records (rs_file s) @ [r]\<rparr>)
           (rs_champions s)"
| step_promote:
    "\<lbrakk>record_index (rs_file s) model_id = Some i; r = rf_records (rs_file s) ! i;
      allowed_transition (rr_stage r) target; \<not> (rr_fixture_only r \<and> serving_stage target);
      load_artifact E d (rr_artifact_file r) = Inr a;
      artifact_matches a model_id (rr_task_id r) (rr_digest r);
      promote_next E now d s i model_id a target reason = (next, champions)\<rbrakk>
     \<Longrightarrow> file_step E d s next champions"
| step_rollback:
    "\<lbrakk>map_of (rf_champion_by_task (rs_file s)) task_id = Some current_id;
      map_of (rs_champions s) task_id = Some current;
      record_index (rs_file s) current_id = Some i;
      allowed_transition (rr_stage (rf_records (rs_file s) ! i)) RolledBack;
      revision = sat_add (rf_revision (rs_file s)) 1;
      f1 = update_record i (set_stage RolledBack reason now revision) (rs_file s);
      fallback = choose_fallback E d current
        (filter (\<lambda>r. serving_record_of_task task_id r \<and> rr_model_id r \<noteq> current_id)
          (rf_records f1));
      install_fallback task_id fallback f1 (rs_champions s) = (f2, champions);
      re_idempotency_key ev \<notin> re_idempotency_key ` set (rf_rollback_history (rs_file s))\<rbrakk>
     \<Longrightarrow> file_step E d s
           (f2\<lparr>rf_revision := revision,
               rf_rollback_history := rf_rollback_history f2 @ [ev]\<rparr>) champions"

definition op_effect :: "registry_env \<Rightarrow> disk \<Rightarrow> registry_state \<Rightarrow> disk \<Rightarrow> registry_state \<Rightarrow> bool" where
  "op_effect E d s d' s' \<longleftrightarrow>
     dk_registry d' = dk_registry d
       \<and> (s' = s \<or> (\<exists>r. refresh_locked E d s = (r, s')))
     \<or> (\<exists>b sR next champions. refresh_locked E d s = (Inr b, sR)
          \<and> file_step E d sR next champions \<and> dk_registry d' = Contents next
          \<and> (s' = sR \<or> s' = \<lparr>rs_file = next, rs_champions = champions\<rparr>))"

lemma op_effect_same: "op_effect E d s d s"
  by (simp add: op_effect_def)

lemma op_effect_refreshed: "refresh_locked E d s = (r, s') \<Longrightarrow> op_effect E d s d s'"
  by (auto simp: op_effect_def)

lemma op_effect_write:
  "refresh_locked E d s = (r, s') \<Longrightarrow> dk_registry d' = dk_registry d \<Longrightarrow> op_effect E d s d' s'"
  by (auto simp: op_effect_def)

lemma commit_effect:
  assumes "refresh_locked E d s = (Inr b, sR)"
    and "file_step E d sR next champions" and "dk_registry d1 = dk_registry d"
    and "commit E w next champions v d1 sR = (res, d', s')"
  shows "op_effect E d s d' s'"
  using assms
  by (auto simp: commit_def persist_registry_def op_effect_def
      split: if_splits write_outcome.splits) 

lemma write_artifact_registry: "write_artifact w p a d = (r, d') \<Longrightarrow> dk_registry d' = dk_registry d"
  by (auto simp: write_artifact_def Let_def split: write_outcome.splits)

lemma claim_effect:
  assumes "claim_canary_decision E now w model_id maximum d s = (res, d', s')"
  shows "op_effect E d s d' s'"
proof -
  obtain q sR where q: "refresh_locked E d s = (q, sR)" by (cases "refresh_locked E d s")
  show ?thesis
    using assms q
    by (auto simp: claim_canary_decision_def Let_def op_effect_same op_effect_refreshed not_le
        split: if_splits sum.splits option.splits
        elim!: commit_effect [OF _ _ refl, rotated -1] intro!: step_claim)
qed


lemma refresh_effect:
  assumes "refresh E d s = (res, d', s')"
  shows "op_effect E d s d' s'"
  using assms by (auto simp: refresh_def op_effect_refreshed split: prod.splits)

lemma publish_effect:
  assumes "publish_candidate E now w1 w2 a expected d s = (res, d', s')"
  shows "op_effect E d s d' s'"
proof -
  obtain q sR where q: "refresh_locked E d s = (q, sR)" by (cases "refresh_locked E d s")
  show ?thesis
    using assms q
    by (auto simp: publish_candidate_def Let_def op_effect_same op_effect_refreshed
        split: if_splits sum.splits prod.splits
        dest: write_artifact_registry
        elim!: commit_effect [OF _ _ _, rotated -1] intro: step_publish op_effect_write)
qed

lemma promote_effect:
  assumes "promote E now w model_id target expected reason d s = (res, d', s')"
  shows "op_effect E d s d' s'"
proof -
  obtain q sR where q: "refresh_locked E d s = (q, sR)" by (cases "refresh_locked E d s")
  show ?thesis
    using assms q
    by (auto simp: promote_def Let_def op_effect_same op_effect_refreshed
        split: if_splits sum.splits option.splits prod.splits
        elim!: commit_effect [OF _ _ refl, rotated -1] intro: step_promote)
qed

lemma rollback_effect:
  assumes "rollback_champion E now w task_id key expected reason d s = (res, d', s')"
  shows "op_effect E d s d' s'"
proof -
  obtain q sR where q: "refresh_locked E d s = (q, sR)" by (cases "refresh_locked E d s")
  have fresh: "k \<notin> re_idempotency_key ` set h"
    if "find (\<lambda>ev. re_idempotency_key ev = k) h = None" for k h
    using that by (auto simp: find_None_iff)
  show ?thesis
    using assms q
    by (auto simp: rollback_champion_def Let_def op_effect_same op_effect_refreshed
        split: if_splits sum.splits option.splits prod.splits
        elim!: commit_effect [OF _ _ refl, rotated -1]
        intro!: step_rollback dest: fresh)
qed

end
