(* ===== verification/ElmRegistryInvariants.thy ===== *)
theory ElmRegistryInvariants
  imports ElmRegistryEffects
begin

text \<open>
  Invariants of the registry: what a step does to the records of an index
  (\<open>records_advance\<close>), the well-formed indexes (\<open>wf_file\<close>) and cached champions
  (\<open>wf_champions\<close>), and their preservation by every operation (\<open>op_effect_wf\<close>).
\<close>

section \<open>Positions and updates\<close>

lemma position_Some:
  "position p xs = Some i \<Longrightarrow> i < length xs \<and> p (xs ! i) \<and> (\<forall>j<i. \<not> p (xs ! j))"
proof (induction xs arbitrary: i)
  case (Cons x xs)
  show ?case
  proof (cases "p x")
    case False
    then obtain k where "position p xs = Some k" "i = Suc k" using Cons.prems by auto
    then show ?thesis using Cons.IH [of k] False by (auto simp: nth_Cons split: nat.splits)
  qed (use Cons.prems in auto)
qed simp

lemma position_None: "position p xs = None \<longleftrightarrow> (\<forall>x\<in>set xs. \<not> p x)"
  by (induction xs) auto

lemma position_find: "find p xs = map_option ((!) xs) (position p xs)"
  by (induction xs) (auto simp: option.map_comp comp_def split: option.splits)

lemma position_append:
  "position p (xs @ ys) =
     (case position p xs of Some i \<Rightarrow> Some i
      | None \<Rightarrow> map_option (\<lambda>i. length xs + i) (position p ys))"
proof (induction xs)
  case Nil
  then show ?case by (cases "position p ys") auto
next
  case (Cons x xs)
  then show ?case by (cases "position p xs"; cases "position p ys") auto
qed

lemma position_map_cong:
  "length xs = length ys \<Longrightarrow> (\<And>i. i < length xs \<Longrightarrow> p (xs ! i) = p (ys ! i)) \<Longrightarrow>
     position p xs = position p ys"
proof (induction xs ys rule: list_induct2)
  case (Cons x xs y ys)
  from Cons.prems [of 0] Cons.prems [of "Suc i" for i] Cons.IH show ?case by fastforce
qed simp

definition id_at :: "registry_file \<Rightarrow> nat \<Rightarrow> string" where
  "id_at f i = rr_model_id (rf_records f ! i)"

definition stage_at :: "registry_file \<Rightarrow> nat \<Rightarrow> lifecycle_stage" where
  "stage_at f i = rr_stage (rf_records f ! i)"

lemma record_index_Some:
  "record_index f m = Some i \<Longrightarrow> i < length (rf_records f) \<and> rr_model_id (rf_records f ! i) = m"
  by (auto simp: record_index_def dest: position_Some)

lemma find_record_index: "find_record f m = map_option ((!) (rf_records f)) (record_index f m)"
  by (simp add: find_record_def record_index_def position_find)

lemma record_index_cong:
  assumes "length (rf_records f) = length (rf_records g)"
    and "\<And>i. i < length (rf_records f) \<Longrightarrow>
           rr_model_id (rf_records f ! i) = rr_model_id (rf_records g ! i)"
  shows "record_index f m = record_index g m"
  unfolding record_index_def using assms by (intro position_map_cong) auto

lemma record_index_append:
  "rf_records g = rf_records f @ [r] \<Longrightarrow> record_index f m = Some i \<Longrightarrow> record_index g m = Some i"
  by (simp add: record_index_def position_append)

lemma record_index_append_None:
  "rf_records g = rf_records f @ [r] \<Longrightarrow> record_index f m = None \<Longrightarrow> rr_model_id r = m \<Longrightarrow>
     record_index g m = Some (length (rf_records f))"
  by (auto simp: record_index_def position_append dest: position_Some split: option.split)

section \<open>Stages of a file\<close>

text \<open>
  What every operation does to the records: no record is dropped, none changes its
  identity, and a record's stage moves along the lifecycle graph or stays.
\<close>

definition same_identity :: "registry_record \<Rightarrow> registry_record \<Rightarrow> bool" where
  "same_identity r r' \<longleftrightarrow>
     rr_model_id r' = rr_model_id r \<and> rr_task_id r' = rr_task_id r
     \<and> rr_digest r' = rr_digest r \<and> rr_fixture_only r' = rr_fixture_only r
     \<and> rr_artifact_file r' = rr_artifact_file r"

definition records_advance :: "registry_file \<Rightarrow> registry_file \<Rightarrow> bool" where
  "records_advance f g \<longleftrightarrow>
     length (rf_records f) \<le> length (rf_records g)
     \<and> (\<forall>i<length (rf_records f).
          same_identity (rf_records f ! i) (rf_records g ! i)
          \<and> (stage_at g i = stage_at f i \<or> allowed_transition (stage_at f i) (stage_at g i)))
     \<and> (\<forall>i<length (rf_records g). length (rf_records f) \<le> i \<longrightarrow> stage_at g i = Trained)"

lemma same_identity_refl [simp]: "same_identity r r"
  by (simp add: same_identity_def)

lemma same_identity_set_stage [simp]: "same_identity r (set_stage st reason now revision r)"
  by (simp add: same_identity_def set_stage_def)

lemma set_stage_stage [simp]: "rr_stage (set_stage st reason now revision r) = st"
  by (simp add: set_stage_def)

lemma same_identity_trans:
  "same_identity a b \<Longrightarrow> same_identity b c \<Longrightarrow> same_identity a c"
  by (simp add: same_identity_def)

lemma update_record_simps [simp]:
  "rf_revision (update_record i g f) = rf_revision f"
  "rf_champion_by_task (update_record i g f) = rf_champion_by_task f"
  "rf_canary_decisions (update_record i g f) = rf_canary_decisions f"
  "rf_rollback_history (update_record i g f) = rf_rollback_history f"
  "rf_records (update_record i g f) = (rf_records f)[i := g (rf_records f ! i)]"
  by (simp_all add: update_record_def)

lemma install_fallback_file:
  "rf_records (fst (install_fallback t fb f c)) = rf_records f"
  "rf_revision (fst (install_fallback t fb f c)) = rf_revision f"
  "rf_canary_decisions (fst (install_fallback t fb f c)) = rf_canary_decisions f"
  "rf_rollback_history (fst (install_fallback t fb f c)) = rf_rollback_history f"
  by (auto simp: install_fallback_def split: option.splits)

definition demoted :: "registry_file \<Rightarrow> string \<Rightarrow> string \<Rightarrow> nat option" where
  "demoted f task_id model_id =
     (case map_of (rf_champion_by_task f) task_id of
        None \<Rightarrow> None
      | Some p \<Rightarrow> if p = model_id then None
                  else case record_index f p of
                         None \<Rightarrow> None
                       | Some i \<Rightarrow> if authority_stage (stage_at f i) then Some i else None)"

lemma demote_previous_demoted:
  "demote_previous t m now revision f =
     (case demoted f t m of None \<Rightarrow> f
      | Some i \<Rightarrow> update_record i (set_stage Shadow
                    ''replaced by a newer compatible lifecycle snapshot'' now revision) f)"
  by (auto simp: demote_previous_def demoted_def stage_at_def split: option.splits)

lemma demoted_Some:
  assumes "demoted f t m = Some i"
  shows "i < length (rf_records f)" "authority_stage (stage_at f i)" "id_at f i \<noteq> m"
    "record_index f (id_at f i) = Some i" "map_of (rf_champion_by_task f) t = Some (id_at f i)"
  using assms
  by (auto simp: demoted_def id_at_def split: option.splits if_splits dest: record_index_Some)

lemma authority_to_shadow: "authority_stage st \<Longrightarrow> allowed_transition st Shadow"
  by (auto simp: authority_stage_def allowed_transition_def)


lemma records_advance_update:
  assumes "i < length (rf_records f)" "allowed_transition (stage_at f i) st"
    and "rf_records g = (rf_records f)[i := set_stage st reason now revision (rf_records f ! i)]"
  shows "records_advance f g"
  using assms by (auto simp: records_advance_def stage_at_def nth_list_update)

lemma records_advance_same: "rf_records g = rf_records f \<Longrightarrow> records_advance f g"
  by (auto simp: records_advance_def stage_at_def)

lemma records_advance_append:
  assumes "rf_records g = rf_records f @ [r]" "rr_stage r = Trained"
  shows "records_advance f g"
proof -
  have "i = length (rf_records f)" if "\<not> i < length (rf_records f)" "i < Suc (length (rf_records f))"
    for i using that by simp
  with assms show ?thesis
    by (auto simp: records_advance_def stage_at_def nth_append)
qed

lemma promote_next_records:
  assumes "promote_next E now d s i model_id a target reason = (next, champions)"
    and "record_index (rs_file s) model_id = Some i"
  shows "rf_records next =
     (let f = rs_file s; t = mm_task_id (ea_metadata a); revision = sat_add (rf_revision f) 1;
          g = set_stage target reason now revision
      in if serving_stage target \<and> \<not> mm_fixture_only (ea_metadata a)
         then case demoted f t model_id of
                None \<Rightarrow> (rf_records f)[i := g (rf_records f ! i)]
              | Some j \<Rightarrow> (rf_records f)[j := set_stage Shadow
                    ''replaced by a newer compatible lifecycle snapshot'' now revision
                    (rf_records f ! j), i := g (rf_records f ! i)]
         else (rf_records f)[i := g (rf_records f ! i)])"
proof -
  have "j \<noteq> i" if "demoted (rs_file s) t model_id = Some j" for j t
    using demoted_Some [OF that] record_index_Some [OF assms(2)] by (auto simp: id_at_def)
  then show ?thesis
    using assms(1) install_fallback_file(1)
    by (auto simp: promote_next_def Let_def demote_previous_demoted
        split: if_splits option.splits dest!: arg_cong [where f = fst])
qed

lemma file_step_records:
  assumes "file_step E d s next champions"
  shows "records_advance (rs_file s) next"
  using assms
proof cases
  case (step_claim model_id i r used maximum cnt revision f1 f2 reason now)
  then have "i < length (rf_records (rs_file s))" "allowed_transition (stage_at (rs_file s) i) Shadow"
    by (auto simp: stage_at_def allowed_transition_def dest: record_index_Some)
  then show ?thesis
    using step_claim
    by (cases "maximum \<le> cnt")
       (auto intro: records_advance_update [where st = Shadow] records_advance_same)
next
  case (step_publish a r revision)
  then show ?thesis by (intro records_advance_append) auto
next
  case (step_promote model_id i r target a now reason)
  let ?f = "rs_file s"
  have i: "i < length (rf_records ?f)" "allowed_transition (stage_at ?f i) target"
    using step_promote by (auto simp: stage_at_def dest: record_index_Some)
  have other: "j < length (rf_records ?f)" "j \<noteq> i" "allowed_transition (stage_at ?f j) Shadow"
    if "demoted ?f t model_id = Some j" for j t
    using demoted_Some [OF that] record_index_Some [OF step_promote(1)]
    by (auto simp: id_at_def authority_to_shadow)
  note recs = promote_next_records [OF step_promote(7) step_promote(1)]
  show ?thesis
    using i other
    by (auto simp: recs records_advance_def Let_def stage_at_def nth_list_update
        split: option.splits)
next
  case (step_rollback task_id current_id current i revision f1 reason now fallback f2 ev)
  have "rf_records f2 = rf_records f1"
    using step_rollback(9) install_fallback_file(1) [of task_id fallback f1 "rs_champions s"] by simp
  then show ?thesis
    using step_rollback record_index_Some [OF step_rollback(4)]
    by (intro records_advance_update [where i = i and st = RolledBack]) (auto simp: stage_at_def)
qed


section \<open>Well-formed registry files\<close>

text \<open>
  A record in a serving stage is the one its id finds and no fixture; a record with
  authority is the champion of its task; a champion entry names a serving record of its
  task; the digest of a record is the digest of an artifact that verified.
\<close>

definition digest_known :: "registry_env \<Rightarrow> registry_record \<Rightarrow> bool" where
  "digest_known E r \<longleftrightarrow>
     (\<exists>a. verify (en_content_hash E) a = Inr () \<and> ea_content_sha256 a = rr_digest r
        \<and> mm_fixture_only (ea_metadata a) = rr_fixture_only r)"

definition wf_file :: "registry_env \<Rightarrow> registry_file \<Rightarrow> bool" where
  "wf_file E f \<longleftrightarrow>
     (\<forall>i<length (rf_records f).
        digest_known E (rf_records f ! i)
        \<and> (serving_stage (stage_at f i) \<longrightarrow>
             record_index f (id_at f i) = Some i \<and> \<not> rr_fixture_only (rf_records f ! i))
        \<and> (authority_stage (stage_at f i) \<longrightarrow>
             map_of (rf_champion_by_task f) (rr_task_id (rf_records f ! i)) = Some (id_at f i)))
     \<and> (\<forall>t m. map_of (rf_champion_by_task f) t = Some m \<longrightarrow>
          (\<exists>i. record_index f m = Some i \<and> rr_task_id (rf_records f ! i) = t
             \<and> serving_stage (stage_at f i)))"

definition hash_binds :: "registry_env \<Rightarrow> bool" where
  "hash_binds E \<longleftrightarrow>
     (\<forall>a b. en_content_hash E a = en_content_hash E b \<longrightarrow>
        mm_fixture_only (ea_metadata a) = mm_fixture_only (ea_metadata b))"

lemma wf_file_record:
  assumes "wf_file E f" "i < length (rf_records f)"
  shows "digest_known E (rf_records f ! i)"
    and "serving_stage (stage_at f i) \<Longrightarrow> record_index f (id_at f i) = Some i"
    and "serving_stage (stage_at f i) \<Longrightarrow> \<not> rr_fixture_only (rf_records f ! i)"
    and "authority_stage (stage_at f i) \<Longrightarrow>
           map_of (rf_champion_by_task f) (rr_task_id (rf_records f ! i)) = Some (id_at f i)"
  using assms by (auto simp: wf_file_def)

lemma wf_file_champion:
  assumes "wf_file E f" "map_of (rf_champion_by_task f) t = Some m"
  obtains i where "record_index f m = Some i" "i < length (rf_records f)" "id_at f i = m"
    "rr_task_id (rf_records f ! i) = t" "serving_stage (stage_at f i)"
proof -
  from assms obtain i where "record_index f m = Some i" "rr_task_id (rf_records f ! i) = t"
      "serving_stage (stage_at f i)"
    unfolding wf_file_def by blast
  with that record_index_Some [of f m i] show thesis by (auto simp: id_at_def)
qed

lemma wf_fileI:
  assumes "\<And>i. i < length (rf_records f) \<Longrightarrow> digest_known E (rf_records f ! i)"
    and "\<And>i. i < length (rf_records f) \<Longrightarrow> serving_stage (stage_at f i) \<Longrightarrow>
           record_index f (id_at f i) = Some i \<and> \<not> rr_fixture_only (rf_records f ! i)"
    and "\<And>i. i < length (rf_records f) \<Longrightarrow> authority_stage (stage_at f i) \<Longrightarrow>
           map_of (rf_champion_by_task f) (rr_task_id (rf_records f ! i)) = Some (id_at f i)"
    and "\<And>t m. map_of (rf_champion_by_task f) t = Some m \<Longrightarrow>
           \<exists>i. record_index f m = Some i \<and> rr_task_id (rf_records f ! i) = t
             \<and> serving_stage (stage_at f i)"
  shows "wf_file E f"
  using assms by (simp add: wf_file_def)

lemma authority_serving: "authority_stage st \<Longrightarrow> serving_stage st"
  by (auto simp: authority_stage_def serving_stage_def)

lemma wf_default_file: "wf_file E default_registry_file"
  by (simp add: wf_file_def default_registry_file_def)

lemma verify_digest:
  "verify h a = Inr u \<Longrightarrow> h (a\<lparr>ea_content_sha256 := []\<rparr>) = ea_content_sha256 a"
  by (simp add: verify_def Let_def split: if_splits)

lemma hash_binds_fixture:
  assumes "hash_binds E" "digest_known E r" "verify (en_content_hash E) a = Inr ()"
    and "ea_content_sha256 a = rr_digest r"
  shows "mm_fixture_only (ea_metadata a) = rr_fixture_only r"
proof -
  from assms(2) obtain b where b: "verify (en_content_hash E) b = Inr ()"
      "ea_content_sha256 b = rr_digest r" "mm_fixture_only (ea_metadata b) = rr_fixture_only r"
    by (auto simp: digest_known_def)
  have "en_content_hash E (a\<lparr>ea_content_sha256 := []\<rparr>)
      = en_content_hash E (b\<lparr>ea_content_sha256 := []\<rparr>)"
    using verify_digest [OF b(1)] verify_digest [OF assms(3)] b(2) assms(4) by simp
  then have "mm_fixture_only (ea_metadata (a\<lparr>ea_content_sha256 := []\<rparr>))
      = mm_fixture_only (ea_metadata (b\<lparr>ea_content_sha256 := []\<rparr>))"
    using assms(1) unfolding hash_binds_def by blast
  then have "mm_fixture_only (ea_metadata a) = mm_fixture_only (ea_metadata b)"
    by simp
  with b(3) show ?thesis by simp
qed

text \<open>The records after a step, seen as a per-index change of stages only.\<close>

definition same_records :: "registry_file \<Rightarrow> registry_file \<Rightarrow> bool" where
  "same_records f g \<longleftrightarrow>
     length (rf_records g) = length (rf_records f)
     \<and> (\<forall>i<length (rf_records f). same_identity (rf_records f ! i) (rf_records g ! i))"

lemma same_records_at:
  assumes "same_records f g" "i < length (rf_records f)"
  shows "id_at g i = id_at f i" "rr_task_id (rf_records g ! i) = rr_task_id (rf_records f ! i)"
    "rr_fixture_only (rf_records g ! i) = rr_fixture_only (rf_records f ! i)"
    "rr_digest (rf_records g ! i) = rr_digest (rf_records f ! i)"
  using assms by (auto simp: same_records_def same_identity_def id_at_def)

lemma same_records_digest:
  "same_records f g \<Longrightarrow> i < length (rf_records f) \<Longrightarrow>
     digest_known E (rf_records g ! i) = digest_known E (rf_records f ! i)"
  by (simp add: digest_known_def same_records_at)

lemma same_records_index: "same_records f g \<Longrightarrow> record_index g m = record_index f m"
  by (rule record_index_cong) (auto simp: same_records_def same_identity_def)

lemma same_records_length: "same_records f g \<Longrightarrow> length (rf_records g) = length (rf_records f)"
  by (simp add: same_records_def)

lemma advance_same_records:
  "records_advance f g \<Longrightarrow> length (rf_records g) = length (rf_records f) \<Longrightarrow> same_records f g"
  by (simp add: records_advance_def same_records_def)

lemmas same_records_facts =
  same_records_at same_records_digest same_records_index same_records_length

text \<open>
  A file whose records keep their identity is well formed when every record that serves
  served before, or is the one found by its id and no fixture; and the champion entries
  agree with the authorities and servers of the new file.
\<close>

lemma wf_same_records:
  assumes wf: "wf_file E f" and same: "same_records f g"
    and serving: "\<And>i. i < length (rf_records f) \<Longrightarrow> serving_stage (stage_at g i) \<Longrightarrow>
       serving_stage (stage_at f i)
       \<or> record_index f (id_at f i) = Some i \<and> \<not> rr_fixture_only (rf_records f ! i)"
    and authority: "\<And>i. i < length (rf_records f) \<Longrightarrow> authority_stage (stage_at g i) \<Longrightarrow>
       map_of (rf_champion_by_task g) (rr_task_id (rf_records f ! i)) = Some (id_at f i)"
    and champions: "\<And>t m. map_of (rf_champion_by_task g) t = Some m \<Longrightarrow>
       \<exists>i. record_index f m = Some i \<and> rr_task_id (rf_records f ! i) = t
         \<and> serving_stage (stage_at g i)"
  shows "wf_file E g"
proof (rule wf_fileI)
  fix i assume i: "i < length (rf_records g)"
  then have i': "i < length (rf_records f)" using same by (simp add: same_records_length)
  show "digest_known E (rf_records g ! i)"
    using wf_file_record(1) [OF wf i'] same i' by (simp add: same_records_digest)
  show "serving_stage (stage_at g i) \<Longrightarrow>
      record_index g (id_at g i) = Some i \<and> \<not> rr_fixture_only (rf_records g ! i)"
    using serving [OF i'] wf_file_record(2,3) [OF wf i'] same i'
    by (auto simp: same_records_facts)
  show "authority_stage (stage_at g i) \<Longrightarrow>
      map_of (rf_champion_by_task g) (rr_task_id (rf_records g ! i)) = Some (id_at g i)"
    using authority [OF i'] same i' by (simp add: same_records_facts)
next
  fix t m assume "map_of (rf_champion_by_task g) t = Some m"
  from champions [OF this] obtain i where i: "record_index f m = Some i"
      "rr_task_id (rf_records f ! i) = t" "serving_stage (stage_at g i)"
    by blast
  then have "i < length (rf_records f)" by (simp add: record_index_Some)
  with i same show "\<exists>i. record_index g m = Some i \<and> rr_task_id (rf_records g ! i) = t
      \<and> serving_stage (stage_at g i)"
    by (auto simp: same_records_facts)
qed

lemma wf_append:
  assumes wf: "wf_file E f" and recs: "rf_records g = rf_records f @ [r]"
    and "rr_stage r = Trained" "digest_known E r"
    and champs: "rf_champion_by_task g = rf_champion_by_task f"
  shows "wf_file E g"
proof (rule wf_fileI)
  fix i assume "i < length (rf_records g)"
  then have i: "i < Suc (length (rf_records f))" using recs by simp
  have at: "rf_records g ! i = (if i < length (rf_records f) then rf_records f ! i else r)"
    using recs i by (cases "i = length (rf_records f)") (auto simp: nth_append)
  have new: "\<not> serving_stage (stage_at g i)" if "\<not> i < length (rf_records f)"
    using that assms(3) at by (simp add: stage_at_def serving_stage_def)
  show "digest_known E (rf_records g ! i)"
    using at wf_file_record(1) [OF wf, of i] assms(4) by simp
  have old: "stage_at g i = stage_at f i" "id_at g i = id_at f i" if "i < length (rf_records f)"
    using that at by (auto simp: stage_at_def id_at_def)
  show "serving_stage (stage_at g i) \<Longrightarrow>
      record_index g (id_at g i) = Some i \<and> \<not> rr_fixture_only (rf_records g ! i)"
    using new old wf_file_record(2,3) [OF wf, of i] at record_index_append [OF recs] by auto
  show "authority_stage (stage_at g i) \<Longrightarrow>
      map_of (rf_champion_by_task g) (rr_task_id (rf_records g ! i)) = Some (id_at g i)"
    using new old wf_file_record(4) [OF wf, of i] at champs
    by (auto dest: authority_serving)
next
  fix t m assume "map_of (rf_champion_by_task g) t = Some m"
  then obtain i where "record_index f m = Some i" "i < length (rf_records f)"
      "rr_task_id (rf_records f ! i) = t" "serving_stage (stage_at f i)"
    using wf_file_champion [OF wf] champs by metis
  then show "\<exists>i. record_index g m = Some i \<and> rr_task_id (rf_records g ! i) = t
      \<and> serving_stage (stage_at g i)"
    using recs record_index_append [OF recs] by (auto simp: stage_at_def nth_append)
qed


section \<open>Every step keeps a file well formed\<close>

lemma max_by_key_in: "max_by_key k xs = Some x \<Longrightarrow> x \<in> set xs"
  by (induction xs arbitrary: x) (auto split: option.splits if_splits)

lemma choose_fallback_Some:
  assumes "choose_fallback E d current candidates = Some (m, a)"
  obtains r where "r \<in> set candidates" "rr_model_id r = m" "load_artifact E d (rr_artifact_file r) = Inr a"
    "ea_content_sha256 a = rr_digest r"
proof -
  from assms obtain r where "max_by_key rr_revision candidates = Some r"
      "compatible_fallback E d current r = Some (m, a)"
    by (auto simp: choose_fallback_def Option.bind_eq_Some_conv)
  then show thesis
    by (intro that [of r])
       (auto simp: compatible_fallback_def max_by_key_in split: sum.splits if_splits)
qed

lemma load_artifact_verified:
  "load_artifact E d p = Inr a \<Longrightarrow> verify (en_content_hash E) a = Inr ()"
  by (auto simp: load_artifact_def and_then_def split: file_content.splits if_splits sum.splits)

lemma install_fallback_champions:
  "map_of (rf_champion_by_task (fst (install_fallback t fb f c))) =
     (map_of (rf_champion_by_task f))(t := map_option fst fb)"
  by (auto simp: install_fallback_def split: option.splits)

text \<open>A champion leaves the serving stages; a serving record of its task may follow it.\<close>

lemma wf_withdraw:
  assumes wf: "wf_file E f" and champ: "map_of (rf_champion_by_task f) t = Some m"
    and i: "record_index f m = Some i" and st: "\<not> serving_stage st"
    and recs: "rf_records g = (rf_records f)[i := set_stage st reason now revision (rf_records f ! i)]"
    and champs: "map_of (rf_champion_by_task g) = (map_of (rf_champion_by_task f))(t := fb)"
    and fb: "\<And>m'. fb = Some m' \<Longrightarrow>
      \<exists>r\<in>set (rf_records g). serving_record_of_task t r \<and> rr_model_id r = m'"
  shows "wf_file E g"
proof -
  have il: "i < length (rf_records f)" and idi: "id_at f i = m"
    using record_index_Some [OF i] by (auto simp: id_at_def)
  have same: "same_records f g"
    using il by (auto simp: same_records_def recs nth_list_update)
  have stage: "stage_at g k = (if k = i then st else stage_at f k)" if "k < length (rf_records f)" for k
    using that by (simp add: stage_at_def recs nth_list_update)
  have taski: "rr_task_id (rf_records f ! i) = t"
    using wf_file_champion [OF wf champ] i by fastforce
  show ?thesis
  proof (rule wf_same_records [OF wf same])
    fix k assume k: "k < length (rf_records f)"
    then show "serving_stage (stage_at g k) \<Longrightarrow> serving_stage (stage_at f k) \<or>
        record_index f (id_at f k) = Some k \<and> \<not> rr_fixture_only (rf_records f ! k)"
      using stage st by (simp split: if_splits)
    assume auth: "authority_stage (stage_at g k)"
    then have ki: "k \<noteq> i" "authority_stage (stage_at f k)"
      using stage [OF k] st authority_serving by (auto split: if_splits)
    have ck: "map_of (rf_champion_by_task f) (rr_task_id (rf_records f ! k)) = Some (id_at f k)"
      using wf_file_record(4) [OF wf k] ki by simp
    have "record_index f (id_at f k) = Some k"
      using wf_file_record(2) [OF wf k] ki authority_serving by blast
    then have "id_at f k \<noteq> m" using i ki by auto
    then have "rr_task_id (rf_records f ! k) \<noteq> t" using ck champ by auto
    then show "map_of (rf_champion_by_task g) (rr_task_id (rf_records f ! k)) = Some (id_at f k)"
      using ck champs by simp
  next
    fix t' m' assume c: "map_of (rf_champion_by_task g) t' = Some m'"
    show "\<exists>k. record_index f m' = Some k \<and> rr_task_id (rf_records f ! k) = t' \<and>
        serving_stage (stage_at g k)"
    proof (cases "t' = t")
      case True
      then have "fb = Some m'" using c champs by simp
      from fb [OF this] obtain k where k: "k < length (rf_records g)"
          "serving_record_of_task t (rf_records g ! k)" "id_at g k = m'"
        by (auto simp: in_set_conv_nth id_at_def)
      then have kl: "k < length (rf_records f)" using same by (simp add: same_records_length)
      have "serving_stage (stage_at g k)" and tk: "rr_task_id (rf_records f ! k) = t"
        using k(2) same_records_at [OF same kl] by (auto simp: serving_record_of_task_def stage_at_def)
      moreover from this have "serving_stage (stage_at f k)" using stage [OF kl] st by (auto split: if_splits)
      then have "record_index f (id_at f k) = Some k" using wf_file_record(2) [OF wf kl] by simp
      ultimately show ?thesis
        using True k(3) same_records_at(1) [OF same kl] by auto
    next
      case False
      then have "map_of (rf_champion_by_task f) t' = Some m'" using c champs by simp
      then obtain k where k: "record_index f m' = Some k" "k < length (rf_records f)"
          "rr_task_id (rf_records f ! k) = t'" "serving_stage (stage_at f k)"
        using wf_file_champion [OF wf] by metis
      then have "k \<noteq> i" using taski False by auto
      then show ?thesis using k stage by auto
    qed
  qed
qed

lemma wf_step_claim:
  assumes wf: "wf_file E f" and i: "record_index f m = Some i" and "stage_at f i = Canary"
    and recs: "rf_records g = rf_records f \<or>
      rf_records g = (rf_records f)[i := set_stage Shadow reason now revision (rf_records f ! i)]"
    and champs: "rf_champion_by_task g = rf_champion_by_task f"
  shows "wf_file E g"
proof -
  have same: "same_records f g"
    using recs record_index_Some [OF i] by (auto simp: same_records_def nth_list_update)
  have stage: "stage_at g k = stage_at f k \<or> stage_at g k = Shadow \<and> k = i \<and> stage_at f k = Canary"
    if "k < length (rf_records f)" for k
    using that recs assms(3) by (cases "k = i") (auto simp: stage_at_def)
  show ?thesis
  proof (rule wf_same_records [OF wf same])
    fix k assume k: "k < length (rf_records f)"
    show "serving_stage (stage_at g k) \<Longrightarrow> serving_stage (stage_at f k) \<or>
        record_index f (id_at f k) = Some k \<and> \<not> rr_fixture_only (rf_records f ! k)"
      using stage [OF k] by (auto simp: serving_stage_def)
    assume "authority_stage (stage_at g k)"
    then have "authority_stage (stage_at f k)" using stage [OF k] by (auto simp: authority_stage_def)
    then show "map_of (rf_champion_by_task g) (rr_task_id (rf_records f ! k)) = Some (id_at f k)"
      using wf_file_record(4) [OF wf k] champs by simp
  next
    fix t' m' assume "map_of (rf_champion_by_task g) t' = Some m'"
    then obtain k where "record_index f m' = Some k" "k < length (rf_records f)"
        "rr_task_id (rf_records f ! k) = t'" "serving_stage (stage_at f k)"
      using wf_file_champion [OF wf] champs by metis
    then show "\<exists>k. record_index f m' = Some k \<and> rr_task_id (rf_records f ! k) = t' \<and>
        serving_stage (stage_at g k)"
      using stage by (metis serving_stage_def insertI1 insertI2)
  qed
qed


lemma wf_step_serve:
  assumes wf: "wf_file E f" and i: "record_index f m = Some i"
    and task: "rr_task_id (rf_records f ! i) = t" and st: "serving_stage target"
    and fixture: "\<not> rr_fixture_only (rf_records f ! i)"
    and same: "same_records f g"
    and stage: "\<And>k. k < length (rf_records f) \<Longrightarrow> stage_at g k =
      (if k = i then target else if demoted f t m = Some k then Shadow else stage_at f k)"
    and champs: "map_of (rf_champion_by_task g) = (map_of (rf_champion_by_task f))(t \<mapsto> m)"
  shows "wf_file E g"
proof (rule wf_same_records [OF wf same])
  have idi: "id_at f i = m" using record_index_Some [OF i] by (simp add: id_at_def)
  fix k assume k: "k < length (rf_records f)"
  show "serving_stage (stage_at g k) \<Longrightarrow> serving_stage (stage_at f k) \<or>
      record_index f (id_at f k) = Some k \<and> \<not> rr_fixture_only (rf_records f ! k)"
    using stage [OF k] i fixture idi demoted_Some(2) [of f t m k]
    by (auto split: if_splits dest: authority_serving)
  assume auth: "authority_stage (stage_at g k)"
  show "map_of (rf_champion_by_task g) (rr_task_id (rf_records f ! k)) = Some (id_at f k)"
  proof (cases "k = i")
    case True
    then show ?thesis using champs task idi by simp
  next
    case False
    then have a: "authority_stage (stage_at f k)" and nd: "demoted f t m \<noteq> Some k"
      using auth stage [OF k] by (auto simp: authority_stage_def split: if_splits)
    have c: "map_of (rf_champion_by_task f) (rr_task_id (rf_records f ! k)) = Some (id_at f k)"
      using wf_file_record(4) [OF wf k] a by simp
    have x: "record_index f (id_at f k) = Some k"
      using wf_file_record(2) [OF wf k] a authority_serving by blast
    then have "id_at f k \<noteq> m" using i False by auto
    then have "rr_task_id (rf_records f ! k) \<noteq> t"
      using c x a nd by (auto simp: demoted_def)
    then show ?thesis using c champs by simp
  qed
next
  fix t' m' assume c: "map_of (rf_champion_by_task g) t' = Some m'"
  show "\<exists>k. record_index f m' = Some k \<and> rr_task_id (rf_records f ! k) = t' \<and>
      serving_stage (stage_at g k)"
  proof (cases "t' = t")
    case True
    then show ?thesis
      using c champs i task stage st record_index_Some [OF i] by auto
  next
    case False
    then obtain k where "record_index f m' = Some k" "k < length (rf_records f)"
        "rr_task_id (rf_records f ! k) = t'" "serving_stage (stage_at f k)"
      using wf_file_champion [OF wf] c champs by (metis fun_upd_apply)
    then show ?thesis using stage st by (auto simp: serving_stage_def)
  qed
qed

lemma wf_step_drop:
  assumes wf: "wf_file E f" and i: "record_index f m = Some i"
    and task: "rr_task_id (rf_records f ! i) = t"
    and nochamp: "map_of (rf_champion_by_task f) t \<noteq> Some m" and st: "\<not> serving_stage st"
    and recs: "rf_records g = (rf_records f)[i := set_stage st reason now revision (rf_records f ! i)]"
    and champs: "rf_champion_by_task g = rf_champion_by_task f"
  shows "wf_file E g"
proof -
  have same: "same_records f g"
    using record_index_Some [OF i] by (auto simp: same_records_def recs nth_list_update)
  have stage: "stage_at g k = (if k = i then st else stage_at f k)"
    if "k < length (rf_records f)" for k
    using that by (simp add: stage_at_def recs nth_list_update)
  show ?thesis
  proof (rule wf_same_records [OF wf same])
    fix k assume k: "k < length (rf_records f)"
    show "serving_stage (stage_at g k) \<Longrightarrow> serving_stage (stage_at f k) \<or>
        record_index f (id_at f k) = Some k \<and> \<not> rr_fixture_only (rf_records f ! k)"
      using stage [OF k] st by (auto split: if_splits)
    show "authority_stage (stage_at g k) \<Longrightarrow>
        map_of (rf_champion_by_task g) (rr_task_id (rf_records f ! k)) = Some (id_at f k)"
      using stage [OF k] st wf_file_record(4) [OF wf k] champs
      by (auto dest: authority_serving split: if_splits)
  next
    fix t' m' assume c: "map_of (rf_champion_by_task g) t' = Some m'"
    then obtain k where k: "record_index f m' = Some k" "k < length (rf_records f)"
        "id_at f k = m'" "rr_task_id (rf_records f ! k) = t'" "serving_stage (stage_at f k)"
      using wf_file_champion [OF wf] champs by metis
    have "k \<noteq> i"
      using k task nochamp c champs record_index_Some [OF i] by (auto simp: id_at_def)
    then show "\<exists>k. record_index f m' = Some k \<and> rr_task_id (rf_records f ! k) = t' \<and>
        serving_stage (stage_at g k)"
      using k stage by auto
  qed
qed

lemma wf_step_promote:
  assumes bind: "hash_binds E" and wf: "wf_file E (rs_file s)"
    and adv: "records_advance (rs_file s) next"
    and i: "record_index (rs_file s) m = Some i" and r: "r = rf_records (rs_file s) ! i"
    and fix_ok: "\<not> (rr_fixture_only r \<and> serving_stage target)"
    and load: "load_artifact E d (rr_artifact_file r) = Inr a"
    and matches: "artifact_matches a m (rr_task_id r) (rr_digest r)"
    and step: "promote_next E now d s i m a target reason = (next, champions)"
  shows "wf_file E next"
proof -
  let ?f = "rs_file s"
  let ?t = "mm_task_id (ea_metadata a)"
  have il: "i < length (rf_records ?f)" using record_index_Some [OF i] by simp
  have task: "rr_task_id (rf_records ?f ! i) = ?t" and dig: "ea_content_sha256 a = rr_digest r"
    using r matches by (auto simp: artifact_matches_def)
  have fixture: "mm_fixture_only (ea_metadata a) = rr_fixture_only r"
    using hash_binds_fixture [OF bind _ load_artifact_verified [OF load] dig]
      wf_file_record(1) [OF wf il] r by simp
  note recs = promote_next_records [OF step i]
  show ?thesis
  proof (cases "serving_stage target")
    case True
    have nfix: "\<not> rr_fixture_only r" using fix_ok True by simp
    have len: "length (rf_records next) = length (rf_records ?f)"
      using recs by (auto simp: Let_def split: option.splits)
    have champs: "map_of (rf_champion_by_task next) = (map_of (rf_champion_by_task ?f))(?t \<mapsto> m)"
      using step True nfix fixture by (auto simp: promote_next_def Let_def)
    have dem: "j < length (rf_records ?f) \<and> j \<noteq> i" if "demoted ?f ?t m = Some j" for j
      using demoted_Some [OF that] record_index_Some [OF i] by (auto simp: id_at_def)
    have stage: "stage_at next k =
        (if k = i then target else if demoted ?f ?t m = Some k then Shadow else stage_at ?f k)"
      if "k < length (rf_records ?f)" for k
      using that recs True nfix fixture il dem
      by (auto simp: stage_at_def Let_def nth_list_update split: option.splits)
    show ?thesis
      using wf_step_serve [OF wf i task True _ advance_same_records [OF adv len] stage champs]
        nfix r by simp
  next
    case False
    then have recs': "rf_records next = (rf_records ?f)[i := set_stage target reason now
        (sat_add (rf_revision ?f) 1) (rf_records ?f ! i)]"
      using recs by (simp add: Let_def)
    show ?thesis
    proof (cases "map_of (rf_champion_by_task ?f) ?t = Some m")
      case True
      define f2 where "f2 = (update_record i (set_stage target reason now
        (sat_add (rf_revision ?f) 1)) ?f)\<lparr>rf_revision := sat_add (rf_revision ?f) 1\<rparr>"
      define fb where "fb = choose_fallback E d a
        (filter (serving_record_of_task ?t) (rf_records f2))"
      have "next = fst (install_fallback ?t fb f2 (rs_champions s))"
        using step False True
        by (simp add: promote_next_def Let_def f2_def fb_def)
      then have champs: "map_of (rf_champion_by_task next)
          = (map_of (rf_champion_by_task ?f))(?t := map_option fst fb)"
        by (simp add: install_fallback_champions) (simp add: f2_def)
      have "rf_records next = rf_records f2" using recs' by (simp add: f2_def)
      then have fbr: "\<exists>r\<in>set (rf_records next). serving_record_of_task ?t r \<and> rr_model_id r = m'"
        if "map_option fst fb = Some m'" for m'
        using that unfolding fb_def by (auto elim!: choose_fallback_Some)
      show ?thesis
        by (rule wf_withdraw [OF wf True i False recs' champs fbr])
    next
      case nochamp: False
      then have champs: "rf_champion_by_task next = rf_champion_by_task ?f"
        using step False by (auto simp: promote_next_def Let_def)
      show ?thesis
        by (rule wf_step_drop [OF wf i task nochamp False recs' champs])
    qed
  qed
qed

lemma file_step_wf:
  assumes "file_step E d s next champions" and bind: "hash_binds E" and wf: "wf_file E (rs_file s)"
  shows "wf_file E next"
  using assms(1)
proof cases
  case (step_claim model_id i r used maximum cnt revision f1 f2 reason now)
  then show ?thesis
    by (intro wf_step_claim [OF wf, where m = model_id and i = i and reason = reason and now = now
          and revision = revision])
       (auto simp: stage_at_def)
next
  case (step_publish a r revision)
  then have "digest_known E r" unfolding digest_known_def by auto
  then show ?thesis using step_publish by (intro wf_append [OF wf, where r = r]) auto
next
  case (step_promote m i r target a now reason)
  then show ?thesis
    by (intro wf_step_promote [OF bind wf file_step_records [OF assms(1)]])
next
  case (step_rollback t m current i revision f1 reason now fb f2 ev)
  let ?f = "rs_file s"
  have f2: "f2 = fst (install_fallback t fb f1 (rs_champions s))" using step_rollback by simp
  have recs: "rf_records next = (rf_records ?f)[i := set_stage RolledBack reason now revision
      (rf_records ?f ! i)]"
    using step_rollback(1,7) f2 by (simp add: install_fallback_file)
  have champs: "map_of (rf_champion_by_task next)
      = (map_of (rf_champion_by_task ?f))(t := map_option fst fb)"
    using step_rollback(1,7) f2 by (simp add: install_fallback_champions)
  have "rf_records next = rf_records f1" using recs step_rollback(7) by simp
  then have fbr: "\<exists>r\<in>set (rf_records next). serving_record_of_task t r \<and> rr_model_id r = m'"
    if "map_option fst fb = Some m'" for m'
    using that step_rollback(8) by (auto elim!: choose_fallback_Some)
  have ns: "\<not> serving_stage RolledBack" by (simp add: serving_stage_def)
  show ?thesis
    by (rule wf_withdraw [OF wf step_rollback(2) step_rollback(4) ns recs champs fbr])
qed


section \<open>The cached champions\<close>

text \<open>
  Every artifact a process serves is verified, and its digest is the one recorded for the
  champion of its task in the process's own index.
\<close>

definition wf_champions :: "registry_env \<Rightarrow> registry_file \<Rightarrow> elm_artifact btree \<Rightarrow> bool" where
  "wf_champions E f champions \<longleftrightarrow>
     (\<forall>t a. map_of champions t = Some a \<longrightarrow>
        verify (en_content_hash E) a = Inr ()
        \<and> (\<exists>m i. map_of (rf_champion_by_task f) t = Some m \<and> record_index f m = Some i
             \<and> rr_digest (rf_records f ! i) = ea_content_sha256 a))"

definition wf_state :: "registry_env \<Rightarrow> registry_state \<Rightarrow> bool" where
  "wf_state E s \<longleftrightarrow> wf_file E (rs_file s) \<and> bt_wf (rf_champion_by_task (rs_file s))
     \<and> wf_champions E (rs_file s) (rs_champions s)"

lemma records_advance_index:
  assumes "records_advance f g" "record_index f m = Some i"
  shows "record_index g m = Some i" "rr_digest (rf_records g ! i) = rr_digest (rf_records f ! i)"
proof -
  have ids: "\<And>k. k < length (rf_records f) \<Longrightarrow>
      same_identity (rf_records f ! k) (rf_records g ! k)"
    and len: "length (rf_records f) \<le> length (rf_records g)"
    using assms(1) by (auto simp: records_advance_def)
  have il: "i < length (rf_records f)" using record_index_Some [OF assms(2)] by simp
  then show "rr_digest (rf_records g ! i) = rr_digest (rf_records f ! i)"
    using ids by (simp add: same_identity_def)
  let ?p = "\<lambda>r. rr_model_id r = m"
  have "position ?p (take (length (rf_records f)) (rf_records g)) = position ?p (rf_records f)"
    using ids len by (intro position_map_cong) (auto simp: same_identity_def)
  then have "position ?p (take (length (rf_records f)) (rf_records g)
      @ drop (length (rf_records f)) (rf_records g)) = Some i"
    using assms(2) unfolding position_append record_index_def by simp
  then show "record_index g m = Some i" by (simp add: record_index_def)
qed

lemma wf_champions_keep:
  assumes "wf_champions E f c" "records_advance f g"
    and "\<And>t a. map_of c' t = Some a \<Longrightarrow>
      map_of c t = Some a \<and> map_of (rf_champion_by_task g) t = map_of (rf_champion_by_task f) t
      \<or> verify (en_content_hash E) a = Inr ()
        \<and> (\<exists>m i. map_of (rf_champion_by_task g) t = Some m \<and> record_index g m = Some i
             \<and> rr_digest (rf_records g ! i) = ea_content_sha256 a)"
  shows "wf_champions E g c'"
  unfolding wf_champions_def
proof (intro allI impI)
  fix t a assume c: "map_of c' t = Some a"
  show "verify (en_content_hash E) a = Inr ()
        \<and> (\<exists>m i. map_of (rf_champion_by_task g) t = Some m \<and> record_index g m = Some i
             \<and> rr_digest (rf_records g ! i) = ea_content_sha256 a)"
    using assms(3) [OF c]
  proof
    assume kept: "map_of c t = Some a \<and>
      map_of (rf_champion_by_task g) t = map_of (rf_champion_by_task f) t"
    then obtain m i where "verify (en_content_hash E) a = Inr ()"
        and m: "map_of (rf_champion_by_task f) t = Some m" "record_index f m = Some i"
          "rr_digest (rf_records f ! i) = ea_content_sha256 a"
      using assms(1) unfolding wf_champions_def by blast
    with kept show ?thesis using records_advance_index [OF assms(2) m(2)] by simp
  qed
qed

lemma fallback_champions:
  assumes wf: "wf_file E g" and recs: "rf_records f2 = rf_records g"
    and champs: "rf_champion_by_task g = rf_champion_by_task (fst (install_fallback t fb f2 c))"
    and fb: "fb = choose_fallback E d cur (filter P (rf_records g))"
    and P: "\<And>r. P r \<Longrightarrow> serving_record_of_task t r"
    and c': "c' = snd (install_fallback t fb f2 c)" and a: "map_of c' t' = Some a"
  shows "map_of c t' = Some a \<and> map_of (rf_champion_by_task g) t' = map_of (rf_champion_by_task f2) t'
      \<or> verify (en_content_hash E) a = Inr ()
        \<and> (\<exists>m i. map_of (rf_champion_by_task g) t' = Some m \<and> record_index g m = Some i
             \<and> rr_digest (rf_records g ! i) = ea_content_sha256 a)"
proof (cases fb)
  case None
  then show ?thesis using a c' champs by (auto simp: install_fallback_def split: if_splits)
next
  case (Some p)
  obtain m b where p: "p = (m, b)" by (cases p)
  have "choose_fallback E d cur (filter P (rf_records g)) = Some (m, b)" using Some p fb by simp
  then obtain r where r: "r \<in> set (rf_records g)" "P r" "rr_model_id r = m"
      "load_artifact E d (rr_artifact_file r) = Inr b" "ea_content_sha256 b = rr_digest r"
    by (rule choose_fallback_Some) auto
  then obtain i where i: "i < length (rf_records g)" "rf_records g ! i = r"
    by (auto simp: in_set_conv_nth)
  have "record_index g m = Some i"
    using wf_file_record(2) [OF wf i(1)] i(2) r(3) P [OF r(2)]
    by (simp add: stage_at_def id_at_def serving_record_of_task_def)
  then show ?thesis
    using a c' champs Some p r i load_artifact_verified [OF r(4)]
    by (auto simp: install_fallback_def split: if_splits)
qed


lemma champions_step_promote:
  assumes wf: "wf_file E next" and adv: "records_advance (rs_file s) next"
    and i: "record_index (rs_file s) m = Some i" and r: "r = rf_records (rs_file s) ! i"
    and load: "load_artifact E d (rr_artifact_file r) = Inr a"
    and matches: "artifact_matches a m (rr_task_id r) (rr_digest r)"
    and step: "promote_next E now d s i m a target reason = (next, champions)"
    and b: "map_of champions t' = Some b"
  shows "map_of (rs_champions s) t' = Some b
      \<and> map_of (rf_champion_by_task next) t' = map_of (rf_champion_by_task (rs_file s)) t'
    \<or> verify (en_content_hash E) b = Inr ()
      \<and> (\<exists>m i. map_of (rf_champion_by_task next) t' = Some m \<and> record_index next m = Some i
           \<and> rr_digest (rf_records next ! i) = ea_content_sha256 b)"
proof -
  let ?f = "rs_file s"
  let ?t = "mm_task_id (ea_metadata a)"
  have "record_index next m = Some i" "rr_digest (rf_records next ! i) = ea_content_sha256 a"
    using records_advance_index [OF adv i] r matches
    by (auto simp: artifact_matches_def)
  note serve = this load_artifact_verified [OF load]
  show ?thesis
  proof (cases "serving_stage target \<and> \<not> mm_fixture_only (ea_metadata a)")
    case True
    then show ?thesis
      using b step serve by (auto simp: promote_next_def Let_def split: if_splits)
  next
    case target: False
    show ?thesis
    proof (cases "map_of (rf_champion_by_task ?f) ?t = Some m")
      case True
      define f2 where "f2 = (update_record i (set_stage target reason now
        (sat_add (rf_revision ?f) 1)) ?f)\<lparr>rf_revision := sat_add (rf_revision ?f) 1\<rparr>"
      have pair: "(next, champions) = install_fallback ?t (choose_fallback E d a
          (filter (serving_record_of_task ?t) (rf_records f2))) f2 (rs_champions s)"
        using step target True by (auto simp: promote_next_def Let_def f2_def)
      then have n: "next = fst (install_fallback ?t (choose_fallback E d a
          (filter (serving_record_of_task ?t) (rf_records f2))) f2 (rs_champions s))"
        and ch: "champions = snd (install_fallback ?t (choose_fallback E d a
          (filter (serving_record_of_task ?t) (rf_records f2))) f2 (rs_champions s))"
        by (metis fst_conv, metis snd_conv)
      have recs: "rf_records f2 = rf_records next" using n by (simp add: install_fallback_file)
      have champ_f2: "rf_champion_by_task f2 = rf_champion_by_task ?f" by (simp add: f2_def)
      from n have "rf_champion_by_task next = rf_champion_by_task (fst (install_fallback ?t
          (choose_fallback E d a (filter (serving_record_of_task ?t) (rf_records f2))) f2
          (rs_champions s)))" by simp
      from fallback_champions [OF wf recs this _ _ ch b, of d a "serving_record_of_task ?t"]
      show ?thesis using recs champ_f2 by simp
    next
      case False
      then show ?thesis
        using b step target by (auto simp: promote_next_def Let_def split: if_splits)
    qed
  qed
qed

lemma file_step_champions:
  assumes step: "file_step E d s next champions" and wf: "wf_file E next"
    and c: "wf_champions E (rs_file s) (rs_champions s)"
  shows "wf_champions E next champions"
  using step
proof cases
  case (step_claim model_id i r used maximum cnt revision f1 f2 reason now)
  then show ?thesis by (intro wf_champions_keep [OF c file_step_records [OF step]]) auto
next
  case (step_publish a r revision)
  then show ?thesis by (intro wf_champions_keep [OF c file_step_records [OF step]]) auto
next
  case (step_promote m i r target a now reason)
  show ?thesis
    by (rule wf_champions_keep [OF c file_step_records [OF step]])
       (rule champions_step_promote [OF wf file_step_records [OF step] step_promote(1,2,5,6,7)])
next
  case (step_rollback t m current i revision f1 reason now fb f2 ev)
  show ?thesis
  proof (rule wf_champions_keep [OF c file_step_records [OF step]])
    fix t' b assume b: "map_of champions t' = Some b"
    have n: "f2 = fst (install_fallback t fb f1 (rs_champions s))"
      and ch: "champions = snd (install_fallback t fb f1 (rs_champions s))"
      using step_rollback(9) by simp_all
    have recs: "rf_records f1 = rf_records next"
      using step_rollback(1) n by (simp add: install_fallback_file)
    have "rf_champion_by_task next = rf_champion_by_task (fst (install_fallback t fb f1
        (rs_champions s)))" using step_rollback(1) n by simp
    from fallback_champions [OF wf recs this _ _ ch b, of d current
        "\<lambda>r. serving_record_of_task t r \<and> rr_model_id r \<noteq> m"]
    show "map_of (rs_champions s) t' = Some b
        \<and> map_of (rf_champion_by_task next) t' = map_of (rf_champion_by_task (rs_file s)) t'
      \<or> verify (en_content_hash E) b = Inr ()
        \<and> (\<exists>m i. map_of (rf_champion_by_task next) t' = Some m \<and> record_index next m = Some i
             \<and> rr_digest (rf_records next ! i) = ea_content_sha256 b)"
      using recs step_rollback(7,8) by simp
  qed
qed

lemma file_step_bt_wf:
  assumes "file_step E d s next champions" "bt_wf (rf_champion_by_task (rs_file s))"
  shows "bt_wf (rf_champion_by_task next)"
  using assms
  by cases
     (auto simp: promote_next_def install_fallback_def Let_def bt_wf_insert bt_wf_remove
       demote_previous_demoted split: if_splits option.splits)

section \<open>Loading\<close>

lemma wf_champions_insert:
  assumes "wf_champions E f c" "map_of (rf_champion_by_task f) t = Some m"
    and "record_index f m = Some i" "ea_content_sha256 a = rr_digest (rf_records f ! i)"
    and "load_artifact E d p = Inr a"
  shows "wf_champions E f (bt_insert t a c)"
  using assms load_artifact_verified [OF assms(5)] by (auto simp: wf_champions_def)

lemma load_champions_wf:
  assumes "load_champions E d f entries loaded = Inr c"
    and "distinct (map fst entries)" "set entries \<subseteq> set (rf_champion_by_task f)"
    and "bt_wf (rf_champion_by_task f)" "wf_champions E f loaded"
  shows "wf_champions E f c"
  using assms
proof (induction E d f entries loaded rule: load_champions.induct)
  case (2 E d f task model_id rest loaded)
  have m: "map_of (rf_champion_by_task f) task = Some model_id"
    using "2.prems"(3,4) by (auto simp: bt_wf_def strict_sorted_iff intro: map_of_is_SomeI)
  show ?case
    using "2.prems" "2.IH" m wf_champions_insert [OF "2.prems"(5) m]
    by (auto simp: find_record_index and_then_def artifact_matches_def
        split: option.splits if_splits sum.splits)
qed simp

lemma restore_loop_wf:
  assumes "restore_loop E d f entries loaded = Inr c"
    and "distinct (map fst entries)" "set entries \<subseteq> set (rf_champion_by_task f)"
    and "bt_wf (rf_champion_by_task f)" "wf_champions E f loaded"
  shows "wf_champions E f c"
  using assms
proof (induction E d f entries loaded rule: restore_loop.induct)
  case (2 E d f task model_id rest loaded)
  have m: "map_of (rf_champion_by_task f) task = Some model_id"
    using "2.prems"(3,4) by (auto simp: bt_wf_def strict_sorted_iff intro: map_of_is_SomeI)
  show ?case
    using "2.prems" "2.IH" m wf_champions_insert [OF "2.prems"(5) m]
    by (auto simp: find_record_index and_then_def artifact_matches_def
        split: option.splits if_splits sum.splits)
qed simp

definition wf_disk :: "registry_env \<Rightarrow> disk \<Rightarrow> bool" where
  "wf_disk E d \<longleftrightarrow>
     (\<forall>f. dk_registry d = Contents f \<longrightarrow> wf_file E f \<and> bt_wf (rf_champion_by_task f))"

lemma read_registry_wf:
  assumes "read_registry_file E d = Inr f" "wf_disk E d"
  shows "wf_file E f" "bt_wf (rf_champion_by_task f)"
  using assms wf_default_file
  by (auto simp: read_registry_file_def wf_disk_def default_registry_file_def bt_wf_def
      split: file_content.splits if_splits)

lemma bt_wf_distinct: "bt_wf m \<Longrightarrow> distinct (map fst m)"
  by (simp add: bt_wf_def strict_sorted_iff)

lemma wf_champions_Nil: "wf_champions E f []"
  by (simp add: wf_champions_def)

lemma refresh_locked_wf:
  assumes "refresh_locked E d s = (r, s')" "wf_disk E d" "wf_state E s"
  shows "wf_state E s'"
proof -
  have "wf_state E \<lparr>rs_file = f, rs_champions = c\<rparr>"
    if "read_registry_file E d = Inr f" "load_champions E d f (rf_champion_by_task f) [] = Inr c" for f c
    using read_registry_wf [OF that(1) assms(2)] load_champions_wf [OF that(2)]
    by (simp add: wf_state_def bt_wf_distinct wf_champions_Nil)
  then show ?thesis
    using assms by (auto simp: refresh_locked_def split: sum.splits if_splits)
qed

lemma open_registry_wf:
  assumes "open_registry E d = Inr s" "wf_disk E d"
  shows "wf_state E s"
  using assms read_registry_wf [OF _ assms(2)] restore_loop_wf
  by (fastforce simp: open_registry_def and_then_def wf_state_def bt_wf_distinct wf_champions_Nil
      split: sum.splits)

lemma op_effect_wf:
  assumes "op_effect E d s d' s'" "hash_binds E" "wf_disk E d" "wf_state E s"
  shows "wf_disk E d'" "wf_state E s'"
proof -
  from assms(1) consider
      (quiet) "dk_registry d' = dk_registry d" "s' = s \<or> (\<exists>r. refresh_locked E d s = (r, s'))"
    | (step) b sR n c where "refresh_locked E d s = (Inr b, sR)" "file_step E d sR n c"
        "dk_registry d' = Contents n" "s' = sR \<or> s' = \<lparr>rs_file = n, rs_champions = c\<rparr>"
    unfolding op_effect_def by blast
  then have "wf_disk E d' \<and> wf_state E s'"
  proof cases
    case quiet
    then show ?thesis using assms refresh_locked_wf by (auto simp: wf_disk_def)
  next
    case (step b sR n c)
    have wfR: "wf_state E sR" by (rule refresh_locked_wf [OF step(1) assms(3,4)])
    then have n: "wf_file E n" "bt_wf (rf_champion_by_task n)"
      using file_step_wf [OF step(2) assms(2)] file_step_bt_wf [OF step(2)]
      by (auto simp: wf_state_def)
    moreover have "wf_champions E n c"
      using file_step_champions [OF step(2) n(1)] wfR by (simp add: wf_state_def)
    ultimately show ?thesis using wfR step(3,4) by (auto simp: wf_state_def wf_disk_def)
  qed
  then show "wf_disk E d'" "wf_state E s'" by auto
qed

end
