(* ===== verification/ElmRegistryContract.thy ===== *)
theory ElmRegistryContract
  imports ElmRegistryInvariants
begin

text \<open>
  Caches and the index on disk: coherence of a process's cache, the step from one index on
  disk to the next, and the contract \<open>registry_operation\<close> that every operation meets.
\<close>

section \<open>Caches and the index on disk\<close>

definition disk_file :: "disk \<Rightarrow> registry_file" where
  "disk_file d = (case dk_registry d of Contents f \<Rightarrow> f | _ \<Rightarrow> default_registry_file)"

text \<open>A cache is never ahead of the disk, and at the disk's revision it is the disk's index.\<close>

definition coherent :: "disk \<Rightarrow> registry_state \<Rightarrow> bool" where
  "coherent d s \<longleftrightarrow>
     rf_revision (rs_file s) \<le> rf_revision (disk_file d)
     \<and> (rf_revision (rs_file s) = rf_revision (disk_file d) \<longrightarrow> rs_file s = disk_file d)"

lemma read_registry_disk_file: "read_registry_file E d = Inr f \<Longrightarrow> f = disk_file d"
  by (auto simp: read_registry_file_def disk_file_def split: file_content.splits if_splits)

lemma refresh_current:
  assumes "refresh_locked E d s = (Inr b, s')" "coherent d s"
  shows "rs_file s' = disk_file d"
  using assms read_registry_disk_file [of E d]
  by (auto simp: refresh_locked_def coherent_def split: sum.splits if_splits)

lemma refresh_coherent:
  assumes "refresh_locked E d s = (r, s')" "coherent d s"
  shows "coherent d s'"
  using assms read_registry_disk_file [of E d]
  by (auto simp: refresh_locked_def coherent_def split: sum.splits if_splits)

lemma open_coherent: "open_registry E d = Inr s \<Longrightarrow> coherent d s"
  using read_registry_disk_file [of E d]
  by (auto simp: open_registry_def and_then_def coherent_def split: sum.splits)

lemma file_step_revision:
  "file_step E d s next c \<Longrightarrow> rf_revision next = sat_add (rf_revision (rs_file s)) 1"
  by (erule file_step.cases)
     (auto simp: promote_next_def install_fallback_def Let_def demote_previous_demoted
       split: if_splits option.splits)

definition unsaturated :: "disk \<Rightarrow> bool" where
  "unsaturated d \<longleftrightarrow> unat (rf_revision (disk_file d)) < 2 ^ 64 - 1"

lemma sat_add_unsaturated:
  "unat (x :: u64) < 2 ^ 64 - 1 \<Longrightarrow> unat (sat_add x 1) = Suc (unat x)"
  by (simp add: unat_sat_add)

lemma disk_file_cong: "dk_registry d' = dk_registry d \<Longrightarrow> disk_file d' = disk_file d"
  by (simp add: disk_file_def)

text \<open>
  What one operation of one process does to the index on disk, given a coherent cache: at
  most one revision is added, and then the new index is a step from the one on disk.
\<close>

definition disk_advance :: "registry_env \<Rightarrow> disk \<Rightarrow> disk \<Rightarrow> bool" where
  "disk_advance E d d' \<longleftrightarrow>
     disk_file d' = disk_file d
     \<or> (\<exists>s c. rs_file s = disk_file d \<and> file_step E d s (disk_file d') c
          \<and> unat (rf_revision (disk_file d')) = Suc (unat (rf_revision (disk_file d))))"

lemma op_effect_disk:
  assumes "op_effect E d s d' s'" "coherent d s" "unsaturated d"
  shows "disk_advance E d d'" "coherent d' s'"
    and "\<And>t. coherent d t \<Longrightarrow> coherent d' t"
proof -
  from assms(1) consider
      (quiet) "dk_registry d' = dk_registry d" "s' = s \<or> (\<exists>r. refresh_locked E d s = (r, s'))"
    | (step) b sR n c where "refresh_locked E d s = (Inr b, sR)" "file_step E d sR n c"
        "dk_registry d' = Contents n" "s' = sR \<or> s' = \<lparr>rs_file = n, rs_champions = c\<rparr>"
    unfolding op_effect_def by blast
  then have "disk_advance E d d' \<and> coherent d' s' \<and> (\<forall>t. coherent d t \<longrightarrow> coherent d' t)"
  proof cases
    case quiet
    then show ?thesis
      using assms(2) refresh_coherent disk_file_cong [of d' d]
      by (auto simp: disk_advance_def coherent_def)
  next
    case (step b sR n c)
    have n: "disk_file d' = n" using step(3) by (simp add: disk_file_def)
    have sR: "rs_file sR = disk_file d" by (rule refresh_current [OF step(1) assms(2)])
    then have rev: "unat (rf_revision n) = Suc (unat (rf_revision (disk_file d)))"
      using file_step_revision [OF step(2)] assms(3) by (simp add: sat_add_unsaturated unsaturated_def)
    then have lt: "rf_revision (disk_file d) < rf_revision n" by (simp add: word_less_nat_alt)
    have "disk_advance E d d'" unfolding disk_advance_def using n sR rev step(2) by blast
    moreover have "coherent d' s'" using step(4) sR n lt by (auto simp: coherent_def)
    moreover have "coherent d' t" if "coherent d t" for t
      using that lt n by (auto simp: coherent_def)
    ultimately show ?thesis by blast
  qed
  then show "disk_advance E d d'" "coherent d' s'" "\<And>t. coherent d t \<Longrightarrow> coherent d' t" by auto
qed

section \<open>The contract of an operation\<close>

locale registry_operation =
  fixes E :: registry_env and opn :: "disk \<Rightarrow> registry_state \<Rightarrow> 'a reg_result"
  assumes effect: "opn d s = (r, d', s') \<Longrightarrow> op_effect E d s d' s'"
begin

lemma keeps_wf:
  assumes "opn d s = (r, d', s')" "hash_binds E" "wf_disk E d" "wf_state E s"
  shows "wf_disk E d'" "wf_state E s'"
  using op_effect_wf [OF effect [OF assms(1)]] assms by auto

lemma advances_disk:
  assumes "opn d s = (r, d', s')" "coherent d s" "unsaturated d"
  shows "disk_advance E d d'" "coherent d' s'"
  using op_effect_disk [OF effect [OF assms(1)]] assms by auto

lemma records_kept:
  assumes "opn d s = (r, d', s')" "coherent d s" "unsaturated d"
  shows "records_advance (disk_file d) (disk_file d')"
  using advances_disk(1) [OF assms]
  by (auto simp: disk_advance_def records_advance_same dest: file_step_records)

end

interpretation op_refresh: registry_operation E "refresh E" for E
  by unfold_locales (rule refresh_effect)

interpretation op_claim: registry_operation E "claim_canary_decision E now w m maximum"
  for E now w m maximum
  by unfold_locales (rule claim_effect)

interpretation op_publish: registry_operation E "publish_candidate E now w1 w2 a expected"
  for E now w1 w2 a expected
  by unfold_locales (rule publish_effect)

interpretation op_promote: registry_operation E "promote E now w m target expected reason"
  for E now w m target expected reason
  by unfold_locales (rule promote_effect)

interpretation op_rollback: registry_operation E "rollback_champion E now w t key expected reason"
  for E now w t key expected reason
  by unfold_locales (rule rollback_effect)

interpretation op_mark: registry_operation E "mark_evaluated E now w m expected reason"
  for E now w m expected reason
  by unfold_locales (simp add: mark_evaluated_def promote_effect)

end
