(* ===== verification/ElmRegistryRuns.thy ===== *)
theory ElmRegistryRuns
  imports ElmRegistryContract
begin

text \<open>
  The system: operations as data, their execution on the shared disk and one process's
  cache, and runs of several processes; the invariants hold after every run.
\<close>

section \<open>Several processes sharing one registry\<close>

datatype reg_op =
  DoOpen
| DoRefresh
| DoClaim u64 write_outcome string u64
| DoPublish u64 write_outcome write_outcome elm_artifact u64
| DoPromote u64 write_outcome string lifecycle_stage u64 string
| DoRollback u64 write_outcome string string u64 string
| DoTamper "string \<Rightarrow> elm_artifact file_content"

datatype reply =
  Refused elm_error
| Opened
| Refreshed bool
| Claimed bool
| Recorded registry_record
| RolledBackTo rollback_event
| Tampered

definition reply_of :: "('a \<Rightarrow> reply) \<Rightarrow> 'a reg_result \<Rightarrow> reply \<times> disk \<times> registry_state" where
  "reply_of ok res = (case fst res of Inl e \<Rightarrow> Refused e | Inr x \<Rightarrow> ok x, snd res)"

fun exec_op :: "registry_env \<Rightarrow> reg_op \<Rightarrow> disk \<Rightarrow> registry_state \<Rightarrow> reply \<times> disk \<times> registry_state" where
  "exec_op E DoOpen d s =
     (case open_registry E d of Inl e \<Rightarrow> (Refused e, d, s) | Inr s' \<Rightarrow> (Opened, d, s'))"
| "exec_op E DoRefresh d s = reply_of Refreshed (refresh E d s)"
| "exec_op E (DoClaim now w m maximum) d s =
     reply_of Claimed (claim_canary_decision E now w m maximum d s)"
| "exec_op E (DoPublish now w1 w2 a expected) d s =
     reply_of Recorded (publish_candidate E now w1 w2 a expected d s)"
| "exec_op E (DoPromote now w m target expected reason) d s =
     reply_of Recorded (promote E now w m target expected reason d s)"
| "exec_op E (DoRollback now w t key expected reason) d s =
     reply_of RolledBackTo (rollback_champion E now w t key expected reason d s)"
| "exec_op E (DoTamper artifacts) d s = (Tampered, d\<lparr>dk_artifacts := artifacts\<rparr>, s)"

record world =
  wd_disk :: disk
  wd_procs :: "nat \<Rightarrow> registry_state"

definition world_step :: "registry_env \<Rightarrow> nat \<times> reg_op \<Rightarrow> world \<Rightarrow> reply \<times> world" where
  "world_step E pop w =
     (case exec_op E (snd pop) (wd_disk w) (wd_procs w (fst pop)) of
        (rep, d', s') \<Rightarrow>
          (rep, \<lparr>wd_disk = d', wd_procs = (wd_procs w)(fst pop := s')\<rparr>))"

fun run :: "registry_env \<Rightarrow> (nat \<times> reg_op) list \<Rightarrow> world \<Rightarrow> reply list \<times> world" where
  "run E [] w = ([], w)"
| "run E (x # xs) w =
     (let (rep, w1) = world_step E x w; (reps, w2) = run E xs w1 in (rep # reps, w2))"

definition empty_disk :: disk where
  "empty_disk = \<lparr>dk_registry = Missing, dk_artifacts = (\<lambda>_. Missing), dk_evaluations = (\<lambda>_. Missing)\<rparr>"

definition start_world :: world where
  "start_world = \<lparr>wd_disk = empty_disk,
     wd_procs = (\<lambda>_. \<lparr>rs_file = default_registry_file, rs_champions = []\<rparr>)\<rparr>"

definition after :: "registry_env \<Rightarrow> (nat \<times> reg_op) list \<Rightarrow> world" where
  "after E ops = snd (run E ops start_world)"

section \<open>One step of the system\<close>

text \<open>Every operation but opening has the contract of the registry.\<close>

lemma exec_effect:
  assumes "exec_op E opn d s = (rep, d', s')"
  shows "op_effect E d s d' s' \<or> opn = DoOpen \<and> d' = d \<and> (s' = s \<or> open_registry E d = Inr s')"
proof (cases opn)
  case DoOpen
  then show ?thesis using assms by (auto split: sum.splits)
next
  case DoRefresh
  then show ?thesis
    using assms op_refresh.effect [of E d s] by (auto simp: reply_of_def prod_eq_iff)
next
  case (DoClaim now w m maximum)
  then show ?thesis
    using assms op_claim.effect [of E now w m maximum d s] by (auto simp: reply_of_def prod_eq_iff)
next
  case (DoPublish now w1 w2 a expected)
  then show ?thesis
    using assms op_publish.effect [of E now w1 w2 a expected d s]
    by (auto simp: reply_of_def prod_eq_iff)
next
  case (DoPromote now w m target expected reason)
  then show ?thesis
    using assms op_promote.effect [of E now w m target expected reason d s]
    by (auto simp: reply_of_def prod_eq_iff)
next
  case (DoRollback now w t key expected reason)
  then show ?thesis
    using assms op_rollback.effect [of E now w t key expected reason d s]
    by (auto simp: reply_of_def prod_eq_iff)
next
  case (DoTamper artifacts)
  then show ?thesis using assms by (auto simp: op_effect_def)
qed

definition wf_world :: "registry_env \<Rightarrow> world \<Rightarrow> bool" where
  "wf_world E w \<longleftrightarrow> wf_disk E (wd_disk w) \<and> (\<forall>p. wf_state E (wd_procs w p))"

definition coherent_world :: "world \<Rightarrow> bool" where
  "coherent_world w \<longleftrightarrow> (\<forall>p. coherent (wd_disk w) (wd_procs w p))"

lemma world_step_wf:
  assumes "world_step E x w = (rep, w')" "hash_binds E" "wf_world E w"
  shows "wf_world E w'"
proof -
  obtain d' s' where ex: "exec_op E (snd x) (wd_disk w) (wd_procs w (fst x)) = (rep, d', s')"
      and w': "w' = \<lparr>wd_disk = d', wd_procs = (wd_procs w)(fst x := s')\<rparr>"
    using assms(1) by (auto simp: world_step_def split: prod.splits)
  have "wf_disk E d' \<and> wf_state E s'"
    using exec_effect [OF ex] op_effect_wf [OF _ assms(2)] open_registry_wf assms(3)
    unfolding wf_world_def by metis
  then show ?thesis using assms(3) w' by (simp add: wf_world_def)
qed

lemma world_step_disk:
  assumes "world_step E x w = (rep, w')" "coherent_world w" "unsaturated (wd_disk w)"
  shows "disk_advance E (wd_disk w) (wd_disk w')" "coherent_world w'"
proof -
  obtain d' s' where ex: "exec_op E (snd x) (wd_disk w) (wd_procs w (fst x)) = (rep, d', s')"
      and w': "w' = \<lparr>wd_disk = d', wd_procs = (wd_procs w)(fst x := s')\<rparr>"
    using assms(1) by (auto simp: world_step_def split: prod.splits)
  have c: "\<And>p. coherent (wd_disk w) (wd_procs w p)" using assms(2) by (simp add: coherent_world_def)
  have "disk_advance E (wd_disk w) d' \<and> coherent d' s' \<and> (\<forall>t. coherent (wd_disk w) t \<longrightarrow> coherent d' t)"
    using exec_effect [OF ex]
  proof
    assume "op_effect E (wd_disk w) (wd_procs w (fst x)) d' s'"
    then show ?thesis using op_effect_disk c assms(3) by metis
  next
    assume "snd x = DoOpen \<and> d' = wd_disk w \<and>
      (s' = wd_procs w (fst x) \<or> open_registry E (wd_disk w) = Inr s')"
    then show ?thesis using c open_coherent by (auto simp: disk_advance_def)
  qed
  then show "disk_advance E (wd_disk w) (wd_disk w')" "coherent_world w'"
    using w' c by (auto simp: coherent_world_def)
qed

section \<open>Runs\<close>

lemma run_append:
  "run E (xs @ ys) w =
     (let (r1, w1) = run E xs w; (r2, w2) = run E ys w1 in (r1 @ r2, w2))"
  by (induction xs arbitrary: w) (auto simp: Let_def split: prod.splits)

lemma run_length: "length (fst (run E ops w)) = length ops"
  by (induction ops arbitrary: w) (auto simp: Let_def split: prod.splits, metis fst_conv)

lemma after_Nil [simp]: "after E [] = start_world"
  by (simp add: after_def)

lemma after_snoc: "after E (ops @ [x]) = snd (world_step E x (after E ops))"
  by (simp add: after_def run_append Let_def split: prod.splits)

definition revision_of :: "world \<Rightarrow> nat" where
  "revision_of w = unat (rf_revision (disk_file (wd_disk w)))"

lemma start_world_ok: "wf_world E start_world" "coherent_world start_world" "revision_of start_world = 0"
  by (simp_all add: wf_world_def start_world_def wf_disk_def wf_state_def wf_default_file
      wf_champions_Nil empty_disk_def coherent_world_def coherent_def disk_file_def revision_of_def)
     (simp_all add: default_registry_file_def bt_wf_def)

lemma after_wf: "hash_binds E \<Longrightarrow> wf_world E (after E ops)"
proof (induction ops rule: rev_induct)
  case (snoc x xs)
  then show ?case
    using world_step_wf [of E x "after E xs"] by (simp add: after_snoc prod_eq_iff)
qed (simp add: start_world_ok)

lemma disk_advance_revision:
  "disk_advance E d d' \<Longrightarrow> unat (rf_revision (disk_file d')) \<le> Suc (unat (rf_revision (disk_file d)))"
  by (auto simp: disk_advance_def)

lemma after_coherent:
  "length ops < 2 ^ 64 \<Longrightarrow> coherent_world (after E ops) \<and> revision_of (after E ops) \<le> length ops"
proof (induction ops rule: rev_induct)
  case (snoc x xs)
  then have IH: "coherent_world (after E xs)" "revision_of (after E xs) \<le> length xs" by auto
  then have "unsaturated (wd_disk (after E xs))"
    using snoc.prems by (simp add: unsaturated_def revision_of_def)
  from world_step_disk [of E x "after E xs", OF _ IH(1) this] IH(2)
  show ?case
    by (auto simp: after_snoc revision_of_def prod_eq_iff dest!: disk_advance_revision)
qed (simp add: start_world_ok)

lemma after_step:
  assumes "length ops < 2 ^ 64 - 1"
  shows "disk_advance E (wd_disk (after E ops)) (wd_disk (after E (ops @ [x])))"
proof -
  from after_coherent [of ops E] assms
  have "coherent_world (after E ops)" "unsaturated (wd_disk (after E ops))"
    by (auto simp: unsaturated_def revision_of_def)
  from world_step_disk(1) [of E x "after E ops", OF _ this] show ?thesis
    by (simp add: after_snoc prod_eq_iff)
qed

end
