(* ===== verification/ElmRegistryHistory.thy ===== *)
theory ElmRegistryHistory
  imports ElmRegistryRuns
begin

text \<open>
  Along a run: the stages a record went through, the canary decisions counted for a model
  and the revisions a successful write expected.
\<close>

section \<open>Stages along a run\<close>

lemma disk_advance_records: "disk_advance E d d' \<Longrightarrow> records_advance (disk_file d) (disk_file d')"
  by (auto simp: disk_advance_def records_advance_same dest: file_step_records)

definition index_after :: "registry_env \<Rightarrow> (nat \<times> reg_op) list \<Rightarrow> registry_file" where
  "index_after E ops = disk_file (wd_disk (after E ops))"

lemma index_after_step:
  "length ops < 2 ^ 64 - 1 \<Longrightarrow> records_advance (index_after E ops) (index_after E (ops @ [x]))"
  unfolding index_after_def by (rule disk_advance_records [OF after_step])

lemma index_after_Nil: "rf_records (index_after E []) = []"
  by (simp add: index_after_def start_world_def empty_disk_def disk_file_def default_registry_file_def)

definition withdrawn :: "lifecycle_stage \<Rightarrow> bool" where
  "withdrawn st \<longleftrightarrow> st \<in> {Rejected, Quarantined, Retired, RolledBack}"

lemma withdrawn_step:
  "records_advance f g \<Longrightarrow> i < length (rf_records f) \<Longrightarrow> withdrawn (stage_at f i) \<Longrightarrow>
     i < length (rf_records g) \<and> withdrawn (stage_at g i)"
  by (force simp: records_advance_def withdrawn_def dest: never_returns)

lemma withdrawn_forever:
  assumes "length (ops @ later) < 2 ^ 64" "i < length (rf_records (index_after E ops))"
    and "withdrawn (stage_at (index_after E ops) i)"
  shows "i < length (rf_records (index_after E (ops @ later)))
     \<and> withdrawn (stage_at (index_after E (ops @ later)) i)"
  using assms(1)
proof (induction later rule: rev_induct)
  case (snoc x xs)
  then show ?case
    using withdrawn_step [OF index_after_step [of "ops @ xs" E x]] by simp
qed (simp add: assms)

text \<open>A record was in stage \<open>st\<close> on disk after the first \<open>k\<close> operations.\<close>

definition was_at :: "registry_env \<Rightarrow> (nat \<times> reg_op) list \<Rightarrow> nat \<Rightarrow> nat \<Rightarrow> lifecycle_stage \<Rightarrow> bool" where
  "was_at E ops i k st \<longleftrightarrow> i < length (rf_records (index_after E (take k ops)))
     \<and> stage_at (index_after E (take k ops)) i = st"

text \<open>A record was in the stages \<open>sts\<close>, one after the other, within the run.\<close>

definition visited ::
  "registry_env \<Rightarrow> (nat \<times> reg_op) list \<Rightarrow> nat \<Rightarrow> lifecycle_stage list \<Rightarrow> bool" where
  "visited E ops i sts \<longleftrightarrow>
     (\<exists>ks. sorted_wrt (<) ks \<and> (\<forall>k\<in>set ks. k \<le> length ops) \<and> list_all2 (was_at E ops i) ks sts)"

definition evidence_trail :: "registry_env \<Rightarrow> (nat \<times> reg_op) list \<Rightarrow> nat \<Rightarrow> lifecycle_stage \<Rightarrow> bool" where
  "evidence_trail E ops i st \<longleftrightarrow>
     (st = Qualified \<longrightarrow> visited E ops i [Evaluated, Qualified])
     \<and> (st \<in> {Shadow, Canary, Active} \<longrightarrow> visited E ops i [Evaluated, Qualified, Shadow])"

lemma was_at_snoc: "k \<le> length ops \<Longrightarrow> was_at E (ops @ [x]) i k st = was_at E ops i k st"
  by (simp add: was_at_def)

lemma visited_mono:
  assumes "visited E ops i sts"
  shows "visited E (ops @ [x]) i sts"
proof -
  from assms obtain ks where ks: "sorted_wrt (<) ks" "\<forall>k\<in>set ks. k \<le> length ops"
      "list_all2 (was_at E ops i) ks sts"
    by (auto simp: visited_def)
  then have "list_all2 (was_at E (ops @ [x]) i) ks sts"
    by (auto simp: list_all2_conv_all_nth was_at_snoc)
  with ks show ?thesis by (fastforce simp: visited_def)
qed

lemma visited_step:
  assumes "visited E ops i sts" "was_at E (ops @ [x]) i (length (ops @ [x])) st"
  shows "visited E (ops @ [x]) i (sts @ [st])"
proof -
  from assms(1) obtain ks where ks: "sorted_wrt (<) ks" "\<forall>k\<in>set ks. k \<le> length ops"
      "list_all2 (was_at E ops i) ks sts"
    by (auto simp: visited_def)
  then have "list_all2 (was_at E (ops @ [x]) i) (ks @ [length (ops @ [x])]) (sts @ [st])"
    using assms(2) by (intro list_all2_appendI) (auto simp: list_all2_conv_all_nth was_at_snoc)
  moreover have "sorted_wrt (<) (ks @ [length (ops @ [x])])"
    using ks by (auto simp: sorted_wrt_append)
  ultimately show ?thesis
    using ks(2) unfolding visited_def by (intro exI [of _ "ks @ [length (ops @ [x])]"]) auto
qed

lemma visited_now: "was_at E ops i (length ops) st \<Longrightarrow> visited E ops i [st]"
  unfolding visited_def by (intro exI [of _ "[length ops]"]) simp

lemma evidence_trail_mono: "evidence_trail E ops i st \<Longrightarrow> evidence_trail E (ops @ [x]) i st"
  by (auto simp: evidence_trail_def visited_mono)

lemma evidence_trail_step:
  assumes IH: "evidence_trail E xs i s" and step: "allowed_transition s t"
    and before: "was_at E xs i (length xs) s"
    and now: "was_at E (xs @ [x]) i (length (xs @ [x])) t"
  shows "evidence_trail E (xs @ [x]) i t"
proof -
  consider (to_qualified) "t = Qualified" "s = Evaluated" | (to_shadow) "t = Shadow" "s = Qualified"
    | (serving) "t \<in> {Shadow, Canary, Active}" "s \<in> {Shadow, Canary, Active}"
    | (other) "t \<notin> {Qualified, Shadow, Canary, Active}"
    using step transition_into [of s] by auto
  then show ?thesis
  proof cases
    case to_qualified
    then show ?thesis
      using visited_step [OF visited_now now] before by (simp add: evidence_trail_def)
  next
    case to_shadow
    then show ?thesis
      using visited_step [OF _ now, of "[Evaluated, Qualified]"] IH by (simp add: evidence_trail_def)
  next
    case serving
    then show ?thesis using evidence_trail_mono [OF IH, of x] by (auto simp: evidence_trail_def)
  qed (simp add: evidence_trail_def)
qed

lemma evidence_trail_all:
  assumes "length ops < 2 ^ 64"
  shows "i < length (rf_records (index_after E ops)) \<Longrightarrow>
     evidence_trail E ops i (stage_at (index_after E ops) i)"
  using assms
proof (induction ops rule: rev_induct)
  case Nil
  then show ?case by (simp add: index_after_Nil)
next
  case (snoc x xs)
  let ?f = "index_after E xs" and ?g = "index_after E (xs @ [x])"
  have adv: "records_advance ?f ?g" using snoc.prems by (intro index_after_step) simp
  have now: "was_at E (xs @ [x]) i (length (xs @ [x])) (stage_at ?g i)"
    using snoc.prems by (simp add: was_at_def)
  show ?case
  proof (cases "i < length (rf_records ?f)")
    case False
    then have "stage_at ?g i = Trained" using adv snoc.prems by (auto simp: records_advance_def)
    then show ?thesis by (simp add: evidence_trail_def)
  next
    case True
    with snoc have IH: "evidence_trail E xs i (stage_at ?f i)" by simp
    have before: "was_at E xs i (length xs) (stage_at ?f i)"
      using True by (simp add: was_at_def)
    from adv True consider "stage_at ?g i = stage_at ?f i"
      | "allowed_transition (stage_at ?f i) (stage_at ?g i)"
      by (auto simp: records_advance_def)
    then show ?thesis
    proof cases
      case 1
      then show ?thesis using evidence_trail_mono [OF IH] by simp
    next
      case 2
      then show ?thesis
        using evidence_trail_step [OF IH _ before now] by simp
    qed
  qed
qed


section \<open>Canary claims\<close>

text \<open>The decisions counted for a model never fall, and a granted claim adds one.\<close>

definition decisions_of :: "registry_file \<Rightarrow> string \<Rightarrow> nat" where
  "decisions_of f m = unat (file_canary_decisions f m)"

lemma sat_add_one: "(x :: u64) < y \<Longrightarrow> unat (sat_add x 1) = Suc (unat x)"
  by (simp add: unat_sat_add word_less_nat_alt) (use unsigned_less [of y, where 'a = nat] in simp)

lemma file_step_decisions:
  assumes "file_step E d s next c"
  shows "decisions_of (rs_file s) m \<le> decisions_of next m"
  using assms
proof cases
  case (step_claim model_id i r used maximum cnt revision f1 f2 reason now)
  then show ?thesis
    using sat_add_one [of used maximum]
    by (auto simp: decisions_of_def file_canary_decisions_def unwrap_or_def split: if_splits)
next
  case (step_promote model_id i r target a now reason)
  then have "rf_canary_decisions next = rf_canary_decisions (rs_file s)"
    by (auto simp: promote_next_def install_fallback_def Let_def demote_previous_demoted
        split: if_splits option.splits)
  then show ?thesis by (simp add: decisions_of_def file_canary_decisions_def)
next
  case (step_rollback task_id current_id current i revision f1 reason now fallback f2 ev)
  then have "rf_canary_decisions next = rf_canary_decisions (rs_file s)"
    by (auto simp: install_fallback_def split: option.splits)
  then show ?thesis by (simp add: decisions_of_def file_canary_decisions_def)
qed (simp add: decisions_of_def file_canary_decisions_def)

lemma index_after_decisions:
  "length ops < 2 ^ 64 - 1 \<Longrightarrow>
     decisions_of (index_after E ops) m \<le> decisions_of (index_after E (ops @ [x])) m"
  using after_step [of ops E x] unfolding disk_advance_def index_after_def
  by (metis file_step_decisions order_refl)

lemma claim_granted:
  assumes "claim_canary_decision E now w m maximum d s = (Inr True, d', s')" "coherent d s"
  shows "decisions_of (disk_file d') m = Suc (decisions_of (disk_file d) m)"
    "decisions_of (disk_file d') m \<le> unat maximum"
proof -
  obtain q sR where q: "refresh_locked E d s = (q, sR)" by (cases "refresh_locked E d s")
  with assms(1) have "\<exists>b. q = Inr b"
    by (auto simp: claim_canary_decision_def split: if_splits sum.splits)
  then have sR: "rs_file sR = disk_file d" using q refresh_current assms(2) by auto
  let ?used = "file_canary_decisions (disk_file d) m"
  from assms(1) q have used: "?used < maximum"
      and new: "file_canary_decisions (disk_file d') m = sat_add ?used 1"
    unfolding sR [symmetric]
    by (auto simp: claim_canary_decision_def Let_def commit_def persist_registry_def disk_file_def
        file_canary_decisions_def unwrap_or_def not_le
        split: if_splits sum.splits option.splits write_outcome.splits)
  then show "decisions_of (disk_file d') m = Suc (decisions_of (disk_file d) m)"
    "decisions_of (disk_file d') m \<le> unat maximum"
    using sat_add_one [OF used] used by (auto simp: decisions_of_def word_less_nat_alt)
qed

definition replies :: "registry_env \<Rightarrow> (nat \<times> reg_op) list \<Rightarrow> reply list" where
  "replies E ops = fst (run E ops start_world)"

lemma replies_snoc: "replies E (ops @ [x]) = replies E ops @ [fst (world_step E x (after E ops))]"
  by (simp add: replies_def after_def run_append Let_def split: prod.splits)

lemma replies_length [simp]: "length (replies E ops) = length ops"
  by (simp add: replies_def run_length)

fun granted :: "string \<Rightarrow> (nat \<times> reg_op) \<times> reply \<Rightarrow> bool" where
  "granted m ((p, DoClaim now w m' maximum), Claimed True) \<longleftrightarrow> m' = m"
| "granted m _ \<longleftrightarrow> False"

definition grants :: "string \<Rightarrow> (nat \<times> reg_op) list \<Rightarrow> reply list \<Rightarrow> nat" where
  "grants m ops reps = length (filter (granted m) (zip ops reps))"

fun claims_at_most :: "string \<Rightarrow> u64 \<Rightarrow> reg_op \<Rightarrow> bool" where
  "claims_at_most m M (DoClaim now w m' maximum) \<longleftrightarrow> (m' = m \<longrightarrow> maximum \<le> M)"
| "claims_at_most m M _ \<longleftrightarrow> True"

lemma grantedE:
  assumes "granted m (x, rep)"
  obtains now w maximum where "snd x = DoClaim now w m maximum" "rep = Claimed True"
  using assms by (cases "(m, (x, rep))" rule: granted.cases) auto

lemma world_step_claim:
  assumes "world_step E (p, DoClaim now w m maximum) wd = (Claimed True, wd')"
  obtains s' where "claim_canary_decision E now w m maximum (wd_disk wd) (wd_procs wd p)
      = (Inr True, wd_disk wd', s')"
proof (cases "claim_canary_decision E now w m maximum (wd_disk wd) (wd_procs wd p)")
  case (fields r d' s')
  with assms show thesis
    by (intro that [of s']) (auto simp: world_step_def reply_of_def split: sum.splits)
qed

lemma grants_bounded:
  assumes "length ops < 2 ^ 64" "\<forall>x\<in>set ops. claims_at_most m M (snd x)"
  shows "grants m ops (replies E ops) \<le> decisions_of (index_after E ops) m
     \<and> grants m ops (replies E ops) \<le> unat M"
  using assms
proof (induction ops rule: rev_induct)
  case Nil
  then show ?case by (simp add: grants_def)
next
  case (snoc x xs)
  then have IH: "grants m xs (replies E xs) \<le> decisions_of (index_after E xs) m"
      "grants m xs (replies E xs) \<le> unat M" and len: "length xs < 2 ^ 64 - 1" by auto
  let ?rep = "fst (world_step E x (after E xs))"
  have g: "grants m (xs @ [x]) (replies E (xs @ [x])) =
      grants m xs (replies E xs) + (if granted m (x, ?rep) then 1 else 0)"
    by (simp add: grants_def replies_snoc)
  show ?case
  proof (cases "granted m (x, ?rep)")
    case False
    then show ?thesis using IH g index_after_decisions [OF len, of E m x] by simp
  next
    case True
    then obtain now w maximum where x: "snd x = DoClaim now w m maximum" and r: "?rep = Claimed True"
      by (rule grantedE)
    obtain p where xp: "x = (p, DoClaim now w m maximum)" using x by (cases x) auto
    have "world_step E (p, DoClaim now w m maximum) (after E xs) = (Claimed True, after E (xs @ [x]))"
      using r unfolding xp by (subst after_snoc) (metis prod.collapse)
    then obtain s' where claim: "claim_canary_decision E now w m maximum (wd_disk (after E xs))
        (wd_procs (after E xs) p) = (Inr True, wd_disk (after E (xs @ [x])), s')"
      by (rule world_step_claim)
    have "coherent (wd_disk (after E xs)) (wd_procs (after E xs) p)"
      using after_coherent [of xs E] len by (simp add: coherent_world_def)
    from claim_granted [OF claim this] have
      "decisions_of (index_after E (xs @ [x])) m = Suc (decisions_of (index_after E xs) m)"
      "decisions_of (index_after E (xs @ [x])) m \<le> unat maximum"
      by (simp_all add: index_after_def)
    moreover have "unat maximum \<le> unat M"
      using snoc.prems(2) x by (simp add: word_le_nat_alt)
    ultimately show ?thesis using g True IH by simp
  qed
qed

section \<open>Expected revisions\<close>

text \<open>A publish or promote that succeeds moves the index from the revision it expected.\<close>

fun expected_revision :: "reg_op \<Rightarrow> u64 option" where
  "expected_revision (DoPublish now w1 w2 a expected) = Some expected"
| "expected_revision (DoPromote now w m target expected reason) = Some expected"
| "expected_revision _ = None"

lemma commit_ok:
  "commit E w next c v d s = (Inr x, d', s') \<Longrightarrow> disk_file d' = next"
  by (auto simp: commit_def persist_registry_def disk_file_def
      split: if_splits write_outcome.splits)

lemma publish_expected:
  assumes "publish_candidate E now w1 w2 a expected d s = (Inr r, d', s')" "coherent d s"
  shows "rf_revision (disk_file d) = expected" "rf_revision (disk_file d') = sat_add expected 1"
proof -
  obtain q sR where q: "refresh_locked E d s = (q, sR)" by (cases "refresh_locked E d s")
  with assms(1) have "\<exists>b. q = Inr b"
    by (auto simp: publish_candidate_def split: if_splits sum.splits)
  then have sR: "rs_file sR = disk_file d" using q refresh_current assms(2) by auto
  show "rf_revision (disk_file d) = expected" "rf_revision (disk_file d') = sat_add expected 1"
    using assms(1) q unfolding sR [symmetric]
    by (auto simp: publish_candidate_def Let_def split: if_splits sum.splits prod.splits
        dest!: commit_ok)
qed

lemma promote_next_revision:
  "promote_next E now d s i m a target reason = (next, c) \<Longrightarrow>
     rf_revision next = sat_add (rf_revision (rs_file s)) 1"
  by (auto simp: promote_next_def install_fallback_def Let_def demote_previous_demoted
      split: if_splits option.splits)

lemma promote_expected:
  assumes "promote E now w m target expected reason d s = (Inr r, d', s')" "coherent d s"
  shows "rf_revision (disk_file d) = expected" "rf_revision (disk_file d') = sat_add expected 1"
proof -
  obtain q sR where q: "refresh_locked E d s = (q, sR)" by (cases "refresh_locked E d s")
  with assms(1) have "\<exists>b. q = Inr b"
    by (auto simp: promote_def split: if_splits sum.splits)
  then have sR: "rs_file sR = disk_file d" using q refresh_current assms(2) by auto
  show "rf_revision (disk_file d) = expected" "rf_revision (disk_file d') = sat_add expected 1"
    using assms(1) q unfolding sR [symmetric]
    by (auto simp: promote_def Let_def split: if_splits sum.splits prod.splits option.splits
        dest!: commit_ok promote_next_revision)
qed

end
