(* ===== verification/ElmRegistryReplies.thy ===== *)
theory ElmRegistryReplies
  imports ElmRegistryHistory
begin

text \<open>
  The replies of a run by position: what a successful reply says of the index before and
  after it, the order of successful writes, and the recorded rollback events.
\<close>

section \<open>Positions of a run\<close>

lemma reply_at:
  assumes "k < length ops"
  shows "replies E ops ! k = fst (world_step E (ops ! k) (after E (take k ops)))"
proof -
  have "ops = take k ops @ [ops ! k] @ drop (Suc k) ops"
    using assms by (simp add: Cons_nth_drop_Suc)
  then have "replies E ops = replies E (take k ops @ [ops ! k] @ drop (Suc k) ops)" by simp
  also have "\<dots> = replies E (take k ops @ [ops ! k])
      @ fst (run E (drop (Suc k) ops) (after E (take k ops @ [ops ! k])))"
    by (simp add: replies_def after_def run_append Let_def split: prod.splits)
  also have "\<dots> ! k = fst (world_step E (ops ! k) (after E (take k ops)))"
    using assms by (simp add: replies_snoc nth_append)
  finally show ?thesis .
qed

lemma after_take_Suc:
  "k < length ops \<Longrightarrow>
     after E (take (Suc k) ops) = snd (world_step E (ops ! k) (after E (take k ops)))"
  by (simp add: take_Suc_conv_app_nth after_snoc)

lemma revision_mono_step:
  "length ops < 2 ^ 64 - 1 \<Longrightarrow>
     rf_revision (index_after E ops) \<le> rf_revision (index_after E (ops @ [x]))"
  using after_step [of ops E x]
  by (auto simp: disk_advance_def index_after_def word_le_nat_alt)

text \<open>A quantity that no operation decreases does not decrease along a run.\<close>

lemma run_monotone:
  assumes "length ops < 2 ^ 64" "k \<le> l" "l \<le> length ops"
    and "\<And>f. R f f" "\<And>f g h. R f g \<Longrightarrow> R g h \<Longrightarrow> R f h"
    and "\<And>ops x. length ops < 2 ^ 64 - 1 \<Longrightarrow> R (index_after E ops) (index_after E (ops @ [x]))"
  shows "R (index_after E (take k ops)) (index_after E (take l ops))"
  using assms(2,3)
proof (induction rule: dec_induct)
  case (step n)
  then have "R (index_after E (take n ops)) (index_after E (take (Suc n) ops))"
    using assms(1) assms(6) [of "take n ops" "ops ! n"] assms(3)
    by (simp add: take_Suc_conv_app_nth)
  with step assms(5) show ?case by (meson Suc_leD)
qed (rule assms(4))

lemma revision_mono:
  assumes "length ops < 2 ^ 64" "k \<le> l" "l \<le> length ops"
  shows "rf_revision (index_after E (take k ops)) \<le> rf_revision (index_after E (take l ops))"
  using run_monotone [OF assms, where R = "\<lambda>f g. rf_revision f \<le> rf_revision g"] revision_mono_step
  by (meson order_refl order_trans)

lemma coherent_at:
  "length ops < 2 ^ 64 \<Longrightarrow> coherent (wd_disk (after E (take k ops))) (wd_procs (after E (take k ops)) p)"
  using after_coherent [of "take k ops" E] by (simp add: coherent_world_def)

lemma exec_expected:
  assumes "exec_op E opn d s = (Recorded r, d', s')" "expected_revision opn = Some e" "coherent d s"
  shows "rf_revision (disk_file d) = e" "rf_revision (disk_file d') = sat_add e 1"
proof -
  have "rf_revision (disk_file d) = e \<and> rf_revision (disk_file d') = sat_add e 1"
  proof (cases opn)
    case (DoPublish now w1 w2 a expected)
    then show ?thesis
      using assms publish_expected [of E now w1 w2 a expected d s]
      by (cases "publish_candidate E now w1 w2 a expected d s")
         (auto simp: reply_of_def split: sum.splits)
  next
    case (DoPromote now w m target expected reason)
    then show ?thesis
      using assms promote_expected [of E now w m target expected reason d s]
      by (cases "promote E now w m target expected reason d s")
         (auto simp: reply_of_def split: sum.splits)
  qed (use assms in auto)
  then show "rf_revision (disk_file d) = e" "rf_revision (disk_file d') = sat_add e 1" by auto
qed

lemma world_step_exec:
  assumes "world_step E x w = (rep, w')"
  obtains s' where "exec_op E (snd x) (wd_disk w) (wd_procs w (fst x)) = (rep, wd_disk w', s')"
  using assms by (auto simp: world_step_def split: prod.splits)

lemma recorded_at:
  assumes "length ops < 2 ^ 64" "k < length ops" "expected_revision (snd (ops ! k)) = Some e"
    and "replies E ops ! k = Recorded r"
  shows "rf_revision (index_after E (take k ops)) = e"
    "rf_revision (index_after E (take (Suc k) ops)) = sat_add e 1"
proof -
  have "world_step E (ops ! k) (after E (take k ops)) = (Recorded r, after E (take (Suc k) ops))"
    using assms(2,4) by (simp add: reply_at after_take_Suc prod_eq_iff)
  then obtain s' where "exec_op E (snd (ops ! k)) (wd_disk (after E (take k ops)))
      (wd_procs (after E (take k ops)) (fst (ops ! k)))
      = (Recorded r, wd_disk (after E (take (Suc k) ops)), s')"
    by (rule world_step_exec)
  from exec_expected [OF this assms(3) coherent_at [OF assms(1)]]
  show "rf_revision (index_after E (take k ops)) = e"
    "rf_revision (index_after E (take (Suc k) ops)) = sat_add e 1"
    by (simp_all add: index_after_def)
qed

lemma recorded_order:
  assumes len: "length ops < 2 ^ 64" and "i < j" "j < length ops"
    and "expected_revision (snd (ops ! i)) = Some e1" "replies E ops ! i = Recorded r1"
    and "expected_revision (snd (ops ! j)) = Some e2" "replies E ops ! j = Recorded r2"
  shows "e1 < e2"
proof -
  have i: "rf_revision (index_after E (take i ops)) = e1"
      "rf_revision (index_after E (take (Suc i) ops)) = sat_add e1 1"
    using recorded_at [OF len _ assms(4,5)] assms(2,3) by auto
  have j: "rf_revision (index_after E (take j ops)) = e2"
    using recorded_at [OF len assms(3,6,7)] by auto
  have "unat e1 \<le> i"
    using after_coherent [of "take i ops" E] len i(1) assms(2,3)
    by (simp add: revision_of_def index_after_def)
  then have "unat (sat_add e1 1) = Suc (unat e1)"
    using len assms(2,3) by (intro sat_add_unsaturated) simp
  moreover have "sat_add e1 1 \<le> e2"
    using revision_mono [OF len, of "Suc i" j E] assms(2,3) i(2) j by simp
  ultimately show ?thesis by (simp add: word_less_nat_alt word_le_nat_alt)
qed

section \<open>Rollback events\<close>

definition history_extends :: "registry_file \<Rightarrow> registry_file \<Rightarrow> bool" where
  "history_extends f g \<longleftrightarrow>
     (distinct (map re_idempotency_key (rf_rollback_history f)) \<longrightarrow>
        distinct (map re_idempotency_key (rf_rollback_history g)))
     \<and> set (rf_rollback_history f) \<subseteq> set (rf_rollback_history g)"

lemma file_step_history: "file_step E d s next c \<Longrightarrow> history_extends (rs_file s) next"
  by (erule file_step.cases)
     (auto simp: history_extends_def promote_next_def install_fallback_def Let_def
       demote_previous_demoted split: if_splits option.splits)

lemma history_step:
  "length ops < 2 ^ 64 - 1 \<Longrightarrow> history_extends (index_after E ops) (index_after E (ops @ [x]))"
  using after_step [of ops E x] unfolding disk_advance_def index_after_def
  by (metis file_step_history history_extends_def order_refl)

lemma history_mono:
  assumes "length ops < 2 ^ 64" "k \<le> l" "l \<le> length ops"
  shows "history_extends (index_after E (take k ops)) (index_after E (take l ops))"
  by (rule run_monotone [OF assms, where R = history_extends])
     (auto simp: history_step, auto simp: history_extends_def)

lemma history_distinct:
  assumes "length ops < 2 ^ 64"
  shows "distinct (map re_idempotency_key (rf_rollback_history (index_after E ops)))"
  using history_mono [OF assms, of 0 "length ops" E]
  by (simp add: history_extends_def)
     (simp add: index_after_def start_world_def empty_disk_def disk_file_def default_registry_file_def)

lemma commit_value:
  "commit E w next c v d s = (Inr x, d', s') \<Longrightarrow> x = v \<and> disk_file d' = next"
  by (auto simp: commit_def persist_registry_def disk_file_def
      split: if_splits write_outcome.splits)

lemma rollback_recorded:
  assumes "rollback_champion E now w t key expected reason d s = (Inr ev, d', s')" "coherent d s"
  shows "ev \<in> set (rf_rollback_history (disk_file d'))" "re_idempotency_key ev = key"
proof -
  obtain q sR where q: "refresh_locked E d s = (q, sR)" by (cases "refresh_locked E d s")
  with assms(1) have "\<exists>b. q = Inr b"
    by (auto simp: rollback_champion_def split: if_splits sum.splits)
  then have sR: "rs_file sR = disk_file d" using q refresh_current assms(2) by auto
  have "ev \<in> set (rf_rollback_history (disk_file d')) \<and> re_idempotency_key ev = key"
    using assms(1) q sR
    by (auto simp: rollback_champion_def Let_def find_Some_iff
        split: if_splits sum.splits prod.splits option.splits dest!: commit_value)
  then show "ev \<in> set (rf_rollback_history (disk_file d'))" "re_idempotency_key ev = key" by auto
qed


lemma exec_rolled_back:
  assumes "exec_op E (DoRollback now w t key expected reason) d s = (RolledBackTo ev, d', s')"
    and "coherent d s"
  shows "ev \<in> set (rf_rollback_history (disk_file d'))" "re_idempotency_key ev = key"
  using assms rollback_recorded [of E now w t key expected reason d s]
  by (cases "rollback_champion E now w t key expected reason d s";
      auto simp: reply_of_def split: sum.splits)+

lemma rolled_back_at:
  assumes len: "length ops < 2 ^ 64" and k: "k < length ops"
    and opn: "snd (ops ! k) = DoRollback now w t key expected reason"
    and rep: "replies E ops ! k = RolledBackTo ev"
  shows "ev \<in> set (rf_rollback_history (index_after E ops)) \<and> re_idempotency_key ev = key"
proof -
  have "world_step E (ops ! k) (after E (take k ops)) = (RolledBackTo ev, after E (take (Suc k) ops))"
    using k rep by (simp add: reply_at after_take_Suc prod_eq_iff)
  then obtain s' where "exec_op E (DoRollback now w t key expected reason)
      (wd_disk (after E (take k ops))) (wd_procs (after E (take k ops)) (fst (ops ! k)))
      = (RolledBackTo ev, wd_disk (after E (take (Suc k) ops)), s')"
    by (rule world_step_exec) (simp add: opn)
  from exec_rolled_back [OF this coherent_at [OF len]]
  have "ev \<in> set (rf_rollback_history (index_after E (take (Suc k) ops)))"
      "re_idempotency_key ev = key"
    by (simp_all add: index_after_def)
  then show ?thesis
    using history_mono [OF len, of "Suc k" "length ops" E] k
    by (auto simp: history_extends_def)
qed

lemma same_key_same_event:
  assumes "distinct (map k xs)" "x \<in> set xs" "y \<in> set xs" "k x = k y"
  shows "x = y"
  using assms by (auto simp: distinct_map inj_on_def)

section \<open>Well-formed indexes at run time\<close>

definition authority_records :: "string \<Rightarrow> registry_file \<Rightarrow> registry_record list" where
  "authority_records t f =
     filter (\<lambda>r. authority_stage (rr_stage r) \<and> rr_task_id r = t) (rf_records f)"

lemma filter_at_most_one:
  assumes "\<And>i j. i < length xs \<Longrightarrow> j < length xs \<Longrightarrow> P (xs ! i) \<Longrightarrow> P (xs ! j) \<Longrightarrow> i = j"
  shows "length (filter P xs) \<le> 1"
proof -
  have "card {i. i < length xs \<and> P (xs ! i)} \<le> Suc 0"
    using assms by (subst card_le_Suc0_iff_eq) auto
  then show ?thesis by (simp add: length_filter_conv_card)
qed

lemma wf_file_one_authority:
  assumes "wf_file E f"
  shows "length (authority_records t f) \<le> 1"
  unfolding authority_records_def
proof (rule filter_at_most_one)
  fix i j
  assume i: "i < length (rf_records f)"
    "authority_stage (rr_stage (rf_records f ! i)) \<and> rr_task_id (rf_records f ! i) = t"
    and j: "j < length (rf_records f)"
    "authority_stage (rr_stage (rf_records f ! j)) \<and> rr_task_id (rf_records f ! j) = t"
  have si: "authority_stage (stage_at f i)" "authority_stage (stage_at f j)"
    using i(2) j(2) by (simp_all add: stage_at_def)
  have tasks: "rr_task_id (rf_records f ! i) = rr_task_id (rf_records f ! j)" using i(2) j(2) by simp
  have same: "id_at f i = id_at f j"
    using wf_file_record(4) [OF assms i(1) si(1)] wf_file_record(4) [OF assms j(1) si(2)]
    unfolding tasks by simp
  have "record_index f (id_at f j) = Some i"
    using wf_file_record(2) [OF assms i(1) authority_serving [OF si(1)]] unfolding same .
  moreover have "record_index f (id_at f j) = Some j"
    using wf_file_record(2) [OF assms j(1) authority_serving [OF si(2)]] .
  ultimately show "i = j" by simp
qed

lemma wf_world_disk_file:
  assumes "wf_world E w"
  shows "wf_file E (disk_file (wd_disk w))"
  using assms wf_default_file
  by (auto simp: wf_world_def wf_disk_def disk_file_def split: file_content.splits)

lemma wf_state_champion:
  assumes "wf_state E s" "hash_binds E" "champion s t = Some a"
  shows "verify (en_content_hash E) a = Inr () \<and> \<not> mm_fixture_only (ea_metadata a)
    \<and> (\<exists>m r. map_of (rf_champion_by_task (rs_file s)) t = Some m \<and> record_of s m = Some r
         \<and> rr_task_id r = t \<and> serving_stage (rr_stage r) \<and> rr_digest r = ea_content_sha256 a)"
proof -
  have wf: "wf_file E (rs_file s)" and ch: "wf_champions E (rs_file s) (rs_champions s)"
    using assms(1) by (auto simp: wf_state_def)
  obtain m i where v: "verify (en_content_hash E) a = Inr ()"
      and m: "map_of (rf_champion_by_task (rs_file s)) t = Some m" "record_index (rs_file s) m = Some i"
        "rr_digest (rf_records (rs_file s) ! i) = ea_content_sha256 a"
    using ch assms(3) unfolding wf_champions_def champion_def by blast
  from wf_file_champion [OF wf m(1)] m(2)
  have i: "i < length (rf_records (rs_file s))" "rr_task_id (rf_records (rs_file s) ! i) = t"
      "serving_stage (stage_at (rs_file s) i)"
    by fastforce+
  have "\<not> rr_fixture_only (rf_records (rs_file s) ! i)"
    using wf_file_record(3) [OF wf i(1) i(3)] .
  then have "\<not> mm_fixture_only (ea_metadata a)"
    using hash_binds_fixture [OF assms(2) wf_file_record(1) [OF wf i(1)] v] m(3) by simp
  then show ?thesis
    using v m i by (auto simp: record_of_def find_record_index stage_at_def)
qed

end
