(* ===== verification/ElmRegistrySafety.thy ===== *)
theory ElmRegistrySafety
  imports ElmRegistryReplies
begin

text \<open>
  What the registry promises to its callers, over every run of several processes, with
  instances on a concrete registry: a single authority for each task, serving only what is
  recorded, the global canary budget, no lost updates, no return of withdrawn models, the
  evidence trail, idempotent rollbacks and failed operations that leave no trace.
\<close>

section \<open>A concrete registry\<close>

definition sample_env :: registry_env where
  "sample_env = \<lparr>en_content_hash = (\<lambda>a. if mm_fixture_only (ea_metadata a) then ''fx'' else ''ok''),
     en_artifact_bytes = (\<lambda>_. 1), en_registry_bytes = (\<lambda>_. 1), en_max_bytes = 8\<rparr>"

definition sample_metadata :: "string \<Rightarrow> bool \<Rightarrow> model_metadata" where
  "sample_metadata m fixture =
     \<lparr>mm_model_id = m, mm_task_id = ''t'', mm_algorithm = Ridge, mm_algorithm_version = 1,
      mm_source_revision = ''r'', mm_seed = 7, mm_prng = ''splitmix64-v1'', mm_hidden_units = 0,
      mm_target_names = [''y''], mm_target_units = [''s''], mm_class_mapping = [],
      mm_training_cutoff = Fin 0, mm_dataset_digest = ''d'', mm_tenant_scope = ''a'',
      mm_domain_scope = ''b'', mm_horizon_seconds = None, mm_expiry_unix_seconds = None,
      mm_fixture_only = fixture\<rparr>"

definition sample_artifact :: "string \<Rightarrow> bool \<Rightarrow> elm_artifact" where
  "sample_artifact m fixture =
     \<lparr>ea_format_version = 1, ea_metadata = sample_metadata m fixture,
      ea_feature_schema = \<lparr>fs_id = ''f'', fs_version = 1, fs_names = [''x''], fs_units = [''s'']\<rparr>,
      ea_target_schema_id = ''q'', ea_task_kind = Regression,
      ea_preprocessor = \<lparr>pre_means = [Fin 0], pre_scales = [Fin 1], pre_fit_partition = ''p''\<rparr>,
      ea_estimator = EstLinear [[Fin 1]] [Fin 0], ea_calibration = None,
      ea_solver = \<lparr>sd_solver = ''c'', sd_regularisation = Fin 1,
        sd_diagonal_condition_estimate = Fin 1, sd_relative_residual = Fin 0, sd_retries = 0\<rparr>,
      ea_evaluation = None, ea_content_sha256 = (if fixture then ''fx'' else ''ok'')\<rparr>"

lemma sample_hash_binds: "hash_binds sample_env"
  by (simp add: hash_binds_def sample_env_def)

definition sample_run :: "(nat \<times> reg_op) list" where
  "sample_run =
     [(0, DoPublish 1 WriteOk WriteOk (sample_artifact ''m'' False) 0),
      (1, DoPromote 2 WriteOk ''m'' Evaluated 1 ''e''),
      (0, DoPromote 3 WriteOk ''m'' Qualified 2 ''q''),
      (1, DoPromote 4 WriteOk ''m'' Shadow 3 ''s'')]"

definition claim_run :: "(nat \<times> reg_op) list" where
  "claim_run = sample_run @
     [(1, DoPromote 5 WriteOk ''m'' Canary 4 ''c''),
      (0, DoClaim 6 WriteOk ''m'' 1),
      (1, DoClaim 7 WriteOk ''m'' 1)]"

definition rollback_run :: "(nat \<times> reg_op) list" where
  "rollback_run = sample_run @
     [(0, DoRollback 10 WriteOk ''t'' ''k'' 4 ''bad''),
      (1, DoRollback 11 WriteOk ''t'' ''k'' 4 ''bad'')]"

fun recorded :: "reply \<Rightarrow> bool" where
  "recorded (Recorded r) = True"
| "recorded _ = False"

fun rolled_back_to :: "reply \<Rightarrow> rollback_event option" where
  "rolled_back_to (RolledBackTo ev) = Some ev"
| "rolled_back_to _ = None"

section \<open>Properties\<close>

text \<open>C3: At most one model has authority over a task. Whatever several processes sharing
  one registry directory do (open, refresh, publish, promote, claim, roll back, with writes
  that fail before or after the rename, and artifact files altered at will in between), the
  index on disk, and every process's cached index, holds for each task at most one record in
  a stage with authority (Qualified, Canary, Active). The digest is assumed to tell fixture
  artifacts from others.\<close>

theorem one_authority_per_task:
  assumes "hash_binds E"
  shows "length (authority_records t (index_after E ops)) \<le> 1
    \<and> length (authority_records t (rs_file (wd_procs (after E ops) p))) \<le> 1"
proof -
  have wf: "wf_world E (after E ops)" by (rule after_wf [OF assms])
  then have "wf_file E (rs_file (wd_procs (after E ops) p))"
    by (simp add: wf_world_def wf_state_def)
  then show ?thesis
    using wf_file_one_authority [OF wf_world_disk_file [OF wf]] wf_file_one_authority
    by (simp add: index_after_def)
qed

theorem one_authority_per_task_witness:
  "length (authority_records ''t'' (index_after sample_env sample_run)) \<le> 1
    \<and> length (authority_records ''t'' (rs_file (wd_procs (after sample_env sample_run) 1))) \<le> 1"
  by (rule one_authority_per_task [OF sample_hash_binds])

text \<open>What a process serves is backed by its index: the cached champion of a task is an
  artifact that passes verification, is no fixture, and has the digest of the record that the
  process's own index names as champion; that record belongs to the task and is in a serving
  stage.\<close>

theorem served_champion_is_recorded:
  assumes "hash_binds E" "champion (wd_procs (after E ops) p) t = Some a"
  shows "verify (en_content_hash E) a = Inr () \<and> \<not> mm_fixture_only (ea_metadata a)
    \<and> (\<exists>m r. map_of (rf_champion_by_task (rs_file (wd_procs (after E ops) p))) t = Some m
         \<and> record_of (wd_procs (after E ops) p) m = Some r
         \<and> rr_task_id r = t \<and> serving_stage (rr_stage r) \<and> rr_digest r = ea_content_sha256 a)"
  by (rule wf_state_champion [OF _ assms]) (use after_wf [OF assms(1)] in \<open>simp add: wf_world_def\<close>)

lemma sample_champion:
  "champion (wd_procs (after sample_env (take 3 sample_run)) 0) ''t'' = Some (sample_artifact ''m'' False)"
  by code_simp

theorem served_champion_is_recorded_witness:
  "verify (en_content_hash sample_env) (sample_artifact ''m'' False) = Inr ()
     \<and> \<not> mm_fixture_only (ea_metadata (sample_artifact ''m'' False))"
  using served_champion_is_recorded [OF sample_hash_binds sample_champion] by simp

text \<open>C6: The canary budget holds over all processes: when every claim for a model passes a
  maximum of at most \<open>M\<close>, the claims that answer yes number at most \<open>M\<close>, however the
  processes interleave and however their writes fail (over fewer than \<open>2 ^ 64\<close> operations).\<close>

theorem canary_budget_is_global:
  assumes "length ops < 2 ^ 64" "\<forall>x\<in>set ops. claims_at_most m M (snd x)"
  shows "grants m ops (replies E ops) \<le> unat M"
  using grants_bounded [OF assms] by simp

theorem canary_budget_is_global_witness:
  "grants ''m'' claim_run (replies sample_env claim_run) \<le> 1"
  using canary_budget_is_global [of claim_run "''m''" 1 sample_env]
  by (simp add: claim_run_def sample_run_def)

text \<open>C7: No lost update: of two publications or promotions that both succeed in a run, the
  later one was called with a strictly greater expected revision. So at most one caller that
  read a given revision can write on top of it.\<close>

theorem expected_revisions_increase:
  assumes "length ops < 2 ^ 64" "i < j" "j < length ops"
    and "expected_revision (snd (ops ! i)) = Some e1" "recorded (replies E ops ! i)"
    and "expected_revision (snd (ops ! j)) = Some e2" "recorded (replies E ops ! j)"
  shows "e1 < e2"
  using recorded_order [OF assms(1-4) _ assms(6)] assms(5,7)
  by (metis recorded.elims(2))

lemma sample_recorded: "map recorded (replies sample_env (take 2 sample_run)) = [True, True]"
  by code_simp

theorem expected_revisions_increase_witness: "(0 :: u64) < 1"
proof (rule expected_revisions_increase [where ops = "take 2 sample_run" and i = 0 and j = 1
      and E = sample_env])
  show "recorded (replies sample_env (take 2 sample_run) ! 0)"
    "recorded (replies sample_env (take 2 sample_run) ! 1)"
    using arg_cong [OF sample_recorded, of "\<lambda>xs. xs ! 0"] arg_cong [OF sample_recorded, of "\<lambda>xs. xs ! 1"]
    by (auto simp: sample_run_def)
qed (simp_all add: sample_run_def)

text \<open>A model that was rejected, quarantined, retired or rolled back never comes back: once
  its record is in such a stage on disk, it is in such a stage after any further operations.\<close>

theorem withdrawn_stays_withdrawn:
  assumes "length (ops @ later) < 2 ^ 64" "i < length (rf_records (index_after E ops))"
    and "withdrawn (stage_at (index_after E ops) i)"
  shows "\<not> serving_stage (stage_at (index_after E (ops @ later)) i)"
  using withdrawn_forever [OF assms] by (auto simp: withdrawn_def serving_stage_def)

definition reject_run :: "(nat \<times> reg_op) list" where
  "reject_run = take 1 sample_run @ [(1, DoPromote 2 WriteOk ''m'' Rejected 1 ''no'')]"

lemma reject_run_stage:
  "map rr_stage (rf_records (index_after sample_env reject_run)) = [Rejected]"
  by code_simp

theorem withdrawn_stays_withdrawn_witness:
  "\<not> serving_stage (stage_at (index_after sample_env (reject_run @ sample_run)) 0)"
proof (rule withdrawn_stays_withdrawn)
  have len: "length (rf_records (index_after sample_env reject_run)) = 1"
    using arg_cong [OF reject_run_stage, of length] by simp
  then show "0 < length (rf_records (index_after sample_env reject_run))" by simp
  show "withdrawn (stage_at (index_after sample_env reject_run) 0)"
    using arg_cong [OF reject_run_stage, of "\<lambda>xs. xs ! 0"] len
    by (simp add: stage_at_def withdrawn_def)
qed (simp add: reject_run_def sample_run_def)

text \<open>C8: No model reaches live traffic without its evidence: a record that is in Shadow,
  Canary or Active on disk was, earlier in the run and in this order, in Evaluated, in
  Qualified and in Shadow.\<close>

theorem live_models_passed_evaluation:
  assumes "length ops < 2 ^ 64" "i < length (rf_records (index_after E ops))"
    and "stage_at (index_after E ops) i \<in> {Shadow, Canary, Active}"
  shows "visited E ops i [Evaluated, Qualified, Shadow]"
  using evidence_trail_all [OF assms(1,2)] assms(3) by (auto simp: evidence_trail_def)

lemma sample_run_stage: "map rr_stage (rf_records (index_after sample_env sample_run)) = [Shadow]"
  by code_simp

theorem live_models_passed_evaluation_witness:
  "visited sample_env sample_run 0 [Evaluated, Qualified, Shadow]"
proof (rule live_models_passed_evaluation)
  have len: "length (rf_records (index_after sample_env sample_run)) = 1"
    using arg_cong [OF sample_run_stage, of length] by simp
  then show "0 < length (rf_records (index_after sample_env sample_run))" by simp
  show "stage_at (index_after sample_env sample_run) 0 \<in> {Shadow, Canary, Active}"
    using arg_cong [OF sample_run_stage, of "\<lambda>xs. xs ! 0"] len by (simp add: stage_at_def)
qed (simp add: sample_run_def)

text \<open>A rollback is idempotent by its key, across processes: two rollbacks of a run that
  were called with the same idempotency key and answered, answered the same event.\<close>

theorem rollback_is_idempotent:
  assumes "length ops < 2 ^ 64" "i < length ops" "j < length ops"
    and "snd (ops ! i) = DoRollback now w t key expected reason"
    and "snd (ops ! j) = DoRollback now' w' t' key expected' reason'"
    and "rolled_back_to (replies E ops ! i) = Some ev" "rolled_back_to (replies E ops ! j) = Some ev'"
  shows "ev = ev'"
proof -
  have "replies E ops ! i = RolledBackTo ev" "replies E ops ! j = RolledBackTo ev'"
    using assms(6,7) by (auto elim: rolled_back_to.elims)
  with rolled_back_at [OF assms(1,2,4)] rolled_back_at [OF assms(1,3,5)]
  show ?thesis
    using same_key_same_event [OF history_distinct [OF assms(1)]] by metis
qed

lemma rollback_run_events:
  "map (map_option re_fallback_model_id \<circ> rolled_back_to) (replies sample_env rollback_run)
     = [None, None, None, None, Some None, Some None]"
  by code_simp

theorem rollback_is_idempotent_witness:
  "\<exists>ev. rolled_back_to (replies sample_env rollback_run ! 4) = Some ev
     \<and> rolled_back_to (replies sample_env rollback_run ! 5) = Some ev"
proof -
  have len: "length (replies sample_env rollback_run) = 6"
    by (simp add: rollback_run_def sample_run_def)
  obtain ev ev' where evs: "rolled_back_to (replies sample_env rollback_run ! 4) = Some ev"
      "rolled_back_to (replies sample_env rollback_run ! 5) = Some ev'"
    using arg_cong [OF rollback_run_events, of "\<lambda>xs. xs ! 4"]
      arg_cong [OF rollback_run_events, of "\<lambda>xs. xs ! 5"] len by auto
  have "ev = ev'"
    by (rule rollback_is_idempotent [where ops = rollback_run and i = 4 and j = 5, OF _ _ _ _ _ evs])
       (simp_all add: rollback_run_def sample_run_def)
  with evs show ?thesis by blast
qed

section \<open>Failed operations\<close>

fun clean_write :: "reg_op \<Rightarrow> bool" where
  "clean_write (DoClaim now w m maximum) = (w \<noteq> FailAfter)"
| "clean_write (DoPublish now w1 w2 a expected) = (w2 \<noteq> FailAfter)"
| "clean_write (DoPromote now w m target expected reason) = (w \<noteq> FailAfter)"
| "clean_write (DoRollback now w t key expected reason) = (w \<noteq> FailAfter)"
| "clean_write _ = True"

lemma commit_refused:
  "commit E w next c v d s = (Inl e, d', s') \<Longrightarrow> w \<noteq> FailAfter \<Longrightarrow> d' = d \<and> s' = s"
  by (auto simp: commit_def persist_registry_def split: if_splits write_outcome.splits)

lemma claim_refused:
  "claim_canary_decision E now w m maximum d s = (Inl e, d', s') \<Longrightarrow> w \<noteq> FailAfter \<Longrightarrow> d' = d"
  by (auto simp: claim_canary_decision_def Let_def split: if_splits sum.splits option.splits
      prod.splits dest: commit_refused)

lemma publish_refused:
  "publish_candidate E now w1 w2 a expected d s = (Inl e, d', s') \<Longrightarrow> w2 \<noteq> FailAfter \<Longrightarrow>
     dk_registry d' = dk_registry d"
  by (auto simp: publish_candidate_def Let_def split: if_splits sum.splits
      prod.splits dest: commit_refused write_artifact_registry)

lemma promote_refused:
  "promote E now w m target expected reason d s = (Inl e, d', s') \<Longrightarrow> w \<noteq> FailAfter \<Longrightarrow> d' = d"
  by (auto simp: promote_def Let_def split: if_splits sum.splits option.splits
      prod.splits dest: commit_refused)

lemma rollback_refused:
  "rollback_champion E now w t key expected reason d s = (Inl e, d', s') \<Longrightarrow> w \<noteq> FailAfter \<Longrightarrow>
     d' = d"
  by (auto simp: rollback_champion_def Let_def split: if_splits sum.splits option.splits
      prod.splits dest: commit_refused)

lemma reply_of_Refused:
  "reply_of ok res = (Refused e, rest) \<Longrightarrow> (\<And>x. ok x \<noteq> Refused e) \<Longrightarrow> res = (Inl e, rest)"
  by (cases res) (auto simp: reply_of_def split: sum.splits)

text \<open>A refused operation writes nothing to the index: whatever the reason (a stale
  revision, a forbidden stage change, a fixture, a missing or altered artifact, a size limit, a
  write that failed before its rename), the index on disk is what it was.\<close>

theorem refused_operation_leaves_index:
  assumes "exec_op E opn d s = (Refused e, d', s')" "clean_write opn"
  shows "dk_registry d' = dk_registry d"
proof (cases opn)
  case (DoClaim now w m maximum)
  then show ?thesis
    using assms claim_refused [of E now w m maximum d s] by (auto dest!: reply_of_Refused)
next
  case (DoPublish now w1 w2 a expected)
  then show ?thesis
    using assms publish_refused [of E now w1 w2 a expected d s] by (auto dest!: reply_of_Refused)
next
  case (DoPromote now w m target expected reason)
  then show ?thesis
    using assms promote_refused [of E now w m target expected reason d s]
    by (auto dest!: reply_of_Refused)
next
  case (DoRollback now w t key expected reason)
  then show ?thesis
    using assms rollback_refused [of E now w t key expected reason d s]
    by (auto dest!: reply_of_Refused)
qed (use assms in \<open>auto simp: refresh_def reply_of_def split: sum.splits prod.splits\<close>)

theorem refused_operation_leaves_index_witness:
  "dk_registry (fst (snd (exec_op sample_env (DoPromote 1 WriteOk ''m'' Active 0 ''x'') empty_disk
     (wd_procs start_world 0)))) = Missing"
proof -
  have "fst (exec_op sample_env (DoPromote 1 WriteOk ''m'' Active 0 ''x'') empty_disk
      (wd_procs start_world 0)) = Refused (ArtifactError ''model not found'')"
    by (simp add: start_world_def empty_disk_def reply_of_def promote_def refresh_locked_def
        read_registry_file_def default_registry_file_def record_index_def)
  then have "exec_op sample_env (DoPromote 1 WriteOk ''m'' Active 0 ''x'') empty_disk
      (wd_procs start_world 0) = (Refused (ArtifactError ''model not found''),
        fst (snd (exec_op sample_env (DoPromote 1 WriteOk ''m'' Active 0 ''x'') empty_disk
          (wd_procs start_world 0))),
        snd (snd (exec_op sample_env (DoPromote 1 WriteOk ''m'' Active 0 ''x'') empty_disk
          (wd_procs start_world 0))))"
    by (metis prod.collapse)
  from refused_operation_leaves_index [OF this] show ?thesis by (simp add: empty_disk_def)
qed

section \<open>Which fallback a rollback takes\<close>

lemma max_by_key_greatest: "max_by_key k xs = Some x \<Longrightarrow> \<forall>y\<in>set xs. k y \<le> k x"
proof (induction xs arbitrary: x)
  case (Cons a xs)
  then show ?case
  proof (cases "max_by_key k xs")
    case None
    then have "xs = []" by (cases xs) (auto split: option.splits if_splits)
    then show ?thesis using Cons.prems by auto
  next
    case (Some y)
    then show ?thesis
      using Cons.IH [OF Some] Cons.prems by (auto split: if_splits dest: order_trans)
  qed
qed simp

lemma compatible_fallback_Some:
  assumes "compatible_fallback E d current r = Some (m, a)"
  shows "rr_model_id r = m" "load_artifact E d (rr_artifact_file r) = Inr a"
    "ea_content_sha256 a = rr_digest r" "ea_feature_schema a = ea_feature_schema current"
    "mm_tenant_scope (ea_metadata a) = mm_tenant_scope (ea_metadata current)"
    "mm_domain_scope (ea_metadata a) = mm_domain_scope (ea_metadata current)"
  using assms by (auto simp: compatible_fallback_def split: sum.splits if_splits)

text \<open>C21: A fallback that is chosen fits the artifact it replaces: it is a candidate of the
  greatest revision, its artifact loads and verifies, and has the recorded digest and the same
  feature schema, tenant and domain.\<close>

theorem fallback_is_newest_and_fits:
  assumes "choose_fallback E d current candidates = Some (m, a)"
  shows "\<exists>r\<in>set candidates. rr_model_id r = m \<and> (\<forall>q\<in>set candidates. rr_revision q \<le> rr_revision r)
    \<and> verify (en_content_hash E) a = Inr () \<and> ea_content_sha256 a = rr_digest r
    \<and> ea_feature_schema a = ea_feature_schema current
    \<and> mm_tenant_scope (ea_metadata a) = mm_tenant_scope (ea_metadata current)
    \<and> mm_domain_scope (ea_metadata a) = mm_domain_scope (ea_metadata current)"
proof -
  from assms obtain r where r: "max_by_key rr_revision candidates = Some r"
      "compatible_fallback E d current r = Some (m, a)"
    by (auto simp: choose_fallback_def Option.bind_eq_Some_conv)
  then show ?thesis
    using max_by_key_in [OF r(1)] max_by_key_greatest [OF r(1)] compatible_fallback_Some [OF r(2)]
      load_artifact_verified by auto
qed

definition sample_record :: "u64 \<Rightarrow> string \<Rightarrow> registry_record" where
  "sample_record revision m =
     \<lparr>rr_revision = revision, rr_model_id = m, rr_task_id = ''t'', rr_digest = ''ok'',
      rr_stage = Shadow, rr_artifact_file = m, rr_reason = None, rr_updated_at = 0,
      rr_fixture_only = False\<rparr>"

definition sample_disk :: disk where
  "sample_disk = empty_disk\<lparr>dk_artifacts := (\<lambda>_. Missing)
     (''old'' := Contents (sample_artifact ''old'' False),
      ''new'' := Contents ((sample_artifact ''new'' False)\<lparr>ea_feature_schema :=
        \<lparr>fs_id = ''g'', fs_version = 2, fs_names = [''x''], fs_units = [''s'']\<rparr>\<rparr>))\<rparr>"

lemma sample_fallback:
  "choose_fallback sample_env sample_disk (sample_artifact ''m'' False) [sample_record 1 ''old'']
     = Some (''old'', sample_artifact ''old'' False)"
  by code_simp

theorem fallback_is_newest_and_fits_witness:
  "\<exists>r\<in>set [sample_record 1 ''old'']. rr_model_id r = ''old''"
  using fallback_is_newest_and_fits [OF sample_fallback] by blast

text \<open>An older predecessor that fits is not tried when the newest does not: with a
  compatible snapshot of revision 1 and a snapshot of revision 2 of another feature schema,
  no fallback is chosen and the task is left without a champion.\<close>

theorem older_fitting_fallback_is_skipped:
  "compatible_fallback sample_env sample_disk (sample_artifact ''m'' False) (sample_record 1 ''old'')
     = Some (''old'', sample_artifact ''old'' False)
   \<and> choose_fallback sample_env sample_disk (sample_artifact ''m'' False)
       [sample_record 1 ''old'', sample_record 2 ''new''] = None"
  by code_simp

end
