(* ===== verification/ElmPolicies.thy ===== *)
theory ElmPolicies
  imports ElmLifecycle
begin

text \<open>
  What the configuration and the evidence gate guarantee: a configuration that is accepted is
  within its bounds, modes and influence are restrictive, and a model that qualifies has every
  piece of evidence the policy asks for.
\<close>

section \<open>Influence and modes\<close>

text \<open>The influence of a model on trading is bounded whatever is asked for: it is finite and
  in [0, 1], never above the configured maximum or the request when it is positive, and zero on
  live execution unless live influence is allowed; NaN and infinite inputs give zero.\<close>

theorem influence_is_bounded:
  "in_unit (effective_influence_cap t requested live)
     \<and> (effective_influence_cap t requested live = Fin 0
        \<or> f_le (effective_influence_cap t requested live) requested
          \<and> f_le (effective_influence_cap t requested live) (et_maximum_influence t)
          \<and> (live \<longrightarrow> et_allow_live_influence t))"
proof -
  have "in_unit (f_clamp (f_min requested m) (Fin 0) (Fin 1))
      \<and> f_le (f_clamp (f_min requested m) (Fin 0) (Fin 1)) requested
      \<and> f_le (f_clamp (f_min requested m) (Fin 0) (Fin 1)) m"
    if "is_finite requested" "\<not> f_le requested (Fin 0)" "is_finite m" "\<not> f_le m (Fin 0)" for m
    using that by (cases requested; cases m)
      (auto simp: in_unit_def f_clamp_def f_min_def min_def less_eq_f64_def)
  then show ?thesis
    by (auto simp: effective_influence_cap_def in_unit_def)
qed

theorem influence_is_bounded_witness:
  "in_unit (effective_influence_cap default_trading_config (Fin 1) True)"
  using influence_is_bounded [of default_trading_config "Fin 1" True] by blast

text \<open>Modes only restrict: the mode of a task is at most the global mode and at most the
  task's own mode, so a global Off turns every task off.\<close>

theorem effective_mode_restricts:
  "effective_mode c task_name \<le> ec_mode c
     \<and> is_none_or (\<lambda>m. effective_mode c task_name \<le> m) (Option.bind (get_task c task_name) tc_mode)
     \<and> (ec_mode c = Mode_Off \<longrightarrow> effective_mode c task_name = Mode_Off)"
proof -
  have off: "min Mode_Off m = Mode_Off" for m
    by (rule min_absorb1) (cases m; simp add: less_eq_elm_mode_def)
  have "is_none_or (\<lambda>m. effective_mode c task_name \<le> m)
      (Option.bind (get_task c task_name) tc_mode)"
  proof (cases "Option.bind (get_task c task_name) tc_mode")
    case (Some m)
    then show ?thesis unfolding effective_mode_def Let_def Some by simp
  qed simp
  moreover have "effective_mode c task_name \<le> ec_mode c"
    unfolding effective_mode_def Let_def by (rule min.cobounded1)
  moreover have "effective_mode c task_name = Mode_Off" if "ec_mode c = Mode_Off"
    unfolding effective_mode_def Let_def that by (rule off)
  ultimately show ?thesis by blast
qed

theorem effective_mode_restricts_witness:
  "effective_mode default_elm_config ''compute_demand'' = Mode_Off"
  using effective_mode_restricts [of default_elm_config "''compute_demand''"]
  by (simp add: default_elm_config_def)

section \<open>Accepted configurations\<close>

declare and_then_Inr [simp]

lemma validate_tasks_ok:
  "validate_tasks ts = Inr u \<Longrightarrow> (name, task) \<in> set ts \<Longrightarrow>
     name \<in> set known_tasks \<and> trim (tc_promotion_policy task) \<noteq> []
     \<and> in_unit (tc_rollout_fraction task) \<and> in_unit (tc_influence_cap task)"
  by (induction ts rule: validate_tasks.induct) (auto split: if_splits)

lemma validate_policies_ok:
  "validate_policies ps = Inr u \<Longrightarrow> (name, policy) \<in> set ps \<Longrightarrow>
     trim name \<noteq> [] \<and> is_ok (policy_validate policy name)"
  by (induction ps rule: validate_policies.induct) (auto simp: is_ok_def split: if_splits)

definition budgets_in_bounds :: "elm_budgets \<Rightarrow> bool" where
  "budgets_in_bounds b \<longleftrightarrow>
     bu_max_training_jobs b \<in> {1..32} \<and> bu_max_training_threads b \<in> {1..64}
     \<and> bu_max_training_memory_mb b \<in> {64..65536} \<and> bu_max_training_seconds b \<in> {1..86400}
     \<and> bu_max_training_retries b \<le> 10 \<and> bu_max_inference_queue b \<in> {1..65536}
     \<and> bu_max_hidden_units b \<in> {1..512} \<and> bu_max_samples b \<in> {1..1000000}
     \<and> bu_max_features b \<in> {1..16384} \<and> bu_inference_deadline_ms b \<in> {1..60000}"

lemma budgets_validate_ok: "budgets_validate b = Inr u \<Longrightarrow> budgets_in_bounds b"
  by (auto simp: budgets_validate_def budgets_in_bounds_def split: if_splits)

text \<open>A configuration that \<open>normalize\<close> accepts, after all environment overrides, is safe to
  run: tasks are known and their fractions in [0, 1], every budget is within its bounds, the
  influence maximum is in [0, 1], every promotion policy is valid, online updates are off, and
  ELM is enabled only in a binary built with it.\<close>

theorem normalize_accepts_only_safe:
  assumes "normalize env parse_mode feature c = Inr c'"
  shows "(\<forall>(name, task)\<in>set (ec_tasks c'). name \<in> set known_tasks
            \<and> in_unit (tc_rollout_fraction task) \<and> in_unit (tc_influence_cap task))
     \<and> (\<forall>(name, policy)\<in>set (ec_promotion_policies c'). is_ok (policy_validate policy name))
     \<and> budgets_in_bounds (ec_budgets c') \<and> lifecycle_in_bounds (ec_lifecycle c')
     \<and> in_unit (et_maximum_influence (ec_trading c'))
     \<and> \<not> lc_online_updates (ec_lifecycle c') \<and> (enabled c' \<longrightarrow> feature)"
proof -
  from assms have v: "validate_config feature c' = Inr ()"
    by (auto simp: normalize_def)
  then obtain u where t: "validate_tasks (ec_tasks c') = Inr u" "budgets_validate (ec_budgets c') = Inr u"
      "validate_policies (ec_promotion_policies c') = Inr u"
    and r: "lifecycle_in_bounds (ec_lifecycle c')" "in_unit (et_maximum_influence (ec_trading c'))"
      "\<not> lc_online_updates (ec_lifecycle c')" "enabled c' \<longrightarrow> feature"
    by (auto simp: validate_config_def split: if_splits)
  show ?thesis
    using validate_tasks_ok [OF t(1)] validate_policies_ok [OF t(3)] budgets_validate_ok [OF t(2)] r
    by auto
qed

lemma default_normalizes:
  "normalize (\<lambda>_. None) (\<lambda>_. None) False default_elm_config = Inr default_elm_config"
  by code_simp

theorem normalize_accepts_only_safe_witness:
  "budgets_in_bounds (ec_budgets default_elm_config) \<and> \<not> lc_online_updates (ec_lifecycle default_elm_config)"
  using normalize_accepts_only_safe [OF default_normalizes] by blast

section \<open>Qualification\<close>

text \<open>A model qualifies only with its evidence: the task is allowed and in automatic mode,
  a complete policy covers it, neither artifact nor report is a fixture, the evaluation is the
  final one and calibrated, and the measured improvement and its lower confidence bound are
  finite and reach the policy's minimum; the reported overheads are within its limits.\<close>

theorem qualification_needs_evidence:
  assumes "qr_qualified (evaluate_qualification config task_id artifact report)"
  shows "\<exists>task policy. get_task config task_id = Some task \<and> tc_allowed task
     \<and> Stage_Qualified \<le> tc_max_stage task
     \<and> effective_mode config task_id = Mode_Auto
     \<and> get_policy config (tc_promotion_policy task) = Some policy \<and> is_complete policy
     \<and> \<not> mm_fixture_only (ea_metadata artifact) \<and> \<not> tr_fixture_only report
     \<and> es_partition (tr_final_candidate report) = ''final'' \<and> tr_calibrated report
     \<and> \<not> below_improvement policy (tr_paired_improvement report)
     \<and> \<not> below_improvement policy (tr_lower_confidence_bound report)
     \<and> the (pp_minimum_observation_seconds policy) \<le> tr_observed_window_seconds report
     \<and> calibration_under_limit (tr_final_candidate report) policy (ea_task_kind artifact)
     \<and> overhead_under_limits (es_inference_p95_ms (tr_final_candidate report))
         (es_inference_p99_ms (tr_final_candidate report)) policy"
proof -
  obtain task where task: "get_task config task_id = Some task"
    using assms by (cases "get_task config task_id")
      (auto simp: evaluate_qualification_def Let_def)
  obtain policy where policy: "get_policy config (tc_promotion_policy task) = Some policy"
    using assms task by (cases "get_policy config (tc_promotion_policy task)")
      (auto simp: evaluate_qualification_def Let_def)
  have complete: "is_complete policy"
    using assms task policy by (simp add: evaluate_qualification_def Let_def)
  then obtain n where n: "pp_minimum_observation_seconds policy = Some n"
    by (auto simp: is_complete_def is_some_and_def split: option.splits)
  show ?thesis
    using assms task policy complete n
    by (simp add: evaluate_qualification_def Let_def not_less)
qed


definition sample_policy :: promotion_policy where
  "sample_policy =
     \<lparr>pp_task_objective = Some ''mse'', pp_direction = Some Lower, pp_baseline = Some ''ridge'',
      pp_minimum_effective_samples = Some 2, pp_minimum_subgroup_samples = Some 1,
      pp_minimum_observation_seconds = Some 10, pp_confidence_level = Some (Fin (9 / 10)),
      pp_minimum_practical_improvement = Some (Fin 0),
      pp_non_inferiority_tolerance = Some (Fin 0), pp_maximum_calibration_error = Some (Fin 1),
      pp_minimum_interval_coverage = Some (Fin (1 / 2)), pp_maximum_p95_overhead_ms = Some (Fin 5),
      pp_maximum_p99_overhead_ms = Some (Fin 9), pp_maximum_input_age_seconds = Some 60,
      pp_maximum_label_age_seconds = Some 60, pp_maximum_drift_score = Some (Fin 1),
      pp_maximum_ood_score = Some (Fin 1), pp_canary_fraction = Some (Fin 1),
      pp_canary_max_decisions = Some 5, pp_expiry_seconds = Some 60,
      pp_rollback_regression = Some (Fin 0), pp_cooldown_seconds = Some 60,
      pp_retrain_budget_per_day = Some 1, pp_authorised_influence = Some (Fin 0)\<rparr>"

definition sample_config :: elm_config where
  "sample_config = default_elm_config\<lparr>ec_mode := Mode_Auto,
     ec_tasks := [(''job_duration'', default_task_config\<lparr>tc_max_stage := Stage_Active,
       tc_promotion_policy := ''p'', tc_allowed := True\<rparr>)],
     ec_promotion_policies := [(''p'', sample_policy)]\<rparr>"

definition sample_summary :: evaluation_summary where
  "sample_summary =
     \<lparr>es_partition = ''final'', es_sample_count = 4, es_effective_sample_count = Fin 4,
      es_mse = Some (Fin 1), es_brier_score = None, es_log_loss = None, es_accuracy = None,
      es_calibration_error = Some (Fin 0), es_residual_coverage = Some (Fin (3 / 4)),
      es_inference_p95_ms = Some (Fin 1), es_inference_p99_ms = Some (Fin 2)\<rparr>"

definition sample_report :: "f64 \<Rightarrow> training_evaluation_report" where
  "sample_report drift =
     \<lparr>tr_report_version = 1, tr_task_id = ''job_duration'', tr_dataset_id = ''d'',
      tr_dataset_digest = ''d'', tr_fixture_only = False, tr_selected_algorithm = Ridge,
      tr_baseline_algorithm = Ridge, tr_attempted_configurations = [], tr_tuning_metrics = [],
      tr_final_candidate = sample_summary, tr_final_baseline = sample_summary,
      tr_quality = \<lparr>dq_dataset_id = ''d'', dq_dataset_digest = ''d'', dq_eligible_samples = 4,
        dq_excluded_samples = 0, dq_group_count = 4, dq_subgroup_group_counts = [],
        dq_class_balance = [], dq_training_cutoff = Fin 0, dq_tuning_cutoff = Fin 1,
        dq_calibration_cutoff = Fin 2, dq_final_cutoff = Fin 3, dq_fixture_only = False\<rparr>,
      tr_final_independent_groups = 4, tr_minimum_final_subgroup_group_support = 2,
      tr_observed_window_seconds = 20, tr_maximum_input_age_seconds = Some 1,
      tr_maximum_label_delay_seconds = Some 1, tr_drift_score = Some drift,
      tr_maximum_ood_score = Some (Fin 0), tr_paired_improvement = Some (Fin 1),
      tr_lower_confidence_bound = Some (Fin 1), tr_confidence_level = Fin (19 / 20),
      tr_calibrated = True, tr_qualified = False, tr_qualification_reasons = [],
      tr_report_sha256 = []\<rparr>"

definition sample_model :: elm_artifact where
  "sample_model =
     \<lparr>ea_format_version = 1,
      ea_metadata = \<lparr>mm_model_id = ''m'', mm_task_id = ''job_duration'', mm_algorithm = Ridge,
        mm_algorithm_version = 1, mm_source_revision = ''r'', mm_seed = 7,
        mm_prng = ''splitmix64-v1'', mm_hidden_units = 0, mm_target_names = [''y''],
        mm_target_units = [''s''], mm_class_mapping = [], mm_training_cutoff = Fin 0,
        mm_dataset_digest = ''d'', mm_tenant_scope = ''a'', mm_domain_scope = ''b'',
        mm_horizon_seconds = None, mm_expiry_unix_seconds = None, mm_fixture_only = False\<rparr>,
      ea_feature_schema = \<lparr>fs_id = ''f'', fs_version = 1, fs_names = [''x''], fs_units = [''s'']\<rparr>,
      ea_target_schema_id = ''q'', ea_task_kind = Regression,
      ea_preprocessor = \<lparr>pre_means = [Fin 0], pre_scales = [Fin 1], pre_fit_partition = ''p''\<rparr>,
      ea_estimator = EstLinear [[Fin 1]] [Fin 0], ea_calibration = None,
      ea_solver = \<lparr>sd_solver = ''c'', sd_regularisation = Fin 1,
        sd_diagonal_condition_estimate = Fin 1, sd_relative_residual = Fin 0, sd_retries = 0\<rparr>,
      ea_evaluation = None, ea_content_sha256 = ''ok''\<rparr>"

lemma sample_qualifies:
  "qr_qualified (evaluate_qualification sample_config ''job_duration'' sample_model
     (sample_report (Fin 0)))"
proof -
  have two: "f_of_nat 2 = Fin 2" using rnd_of_int [of 2] by (simp add: f_of_nat_def)
  have task: "get_task sample_config ''job_duration'' = Some (default_task_config
      \<lparr>tc_max_stage := Stage_Active, tc_promotion_policy := ''p'', tc_allowed := True\<rparr>)"
    by (simp add: get_task_def sample_config_def)
  have policy: "get_policy sample_config ''p'' = Some sample_policy"
    by (simp add: get_policy_def sample_config_def)
  have mode: "effective_mode sample_config ''job_duration'' = Mode_Auto"
    by (simp add: effective_mode_def task) (simp add: default_task_config_def sample_config_def)
  have complete: "is_complete sample_policy" by code_simp
  show ?thesis
    by (simp add: evaluate_qualification_def Let_def task policy mode complete default_task_config_def
        less_model_stage_def)
       (simp add: sample_report_def sample_summary_def sample_policy_def sample_model_def two
        expected_objective_def expected_baseline_def baseline_name_def below_improvement_def
        f_neg_def calibration_under_limit_def overhead_under_limits_def)
qed

theorem qualification_needs_evidence_witness:
  "effective_mode sample_config ''job_duration'' = Mode_Auto
     \<and> \<not> tr_fixture_only (sample_report (Fin 0))"
  using qualification_needs_evidence [OF sample_qualifies] by blast

end
