(* ===== verification/ElmGates.thy ===== *)
theory ElmGates
  imports ElmRegistry
begin

text \<open>
  \<^verbatim>\<open>src/src/elm/gates.rs\<close>: the gates every learned decision passes, in the
  order of the code, and the audit entry of a decision that was skipped. \<open>feature\<close> says
  whether the binary was built with the \<open>elm\<close> feature.
\<close>

section \<open>Reasons, context, result\<close>

datatype decision_outcome =
  Applied | Shadowed | Abstained | Skipped | DecisionFailed | BaselineSelected

datatype gate_reason =
  Disabled | CollectOnly | TaskDisallowed | BuildUnsupported | ModelMissing | ModelUnqualified
| ModelExpired | ArtifactInvalid | GateSchemaMismatch | TenantMismatch | StaleInput | MissingInput
| LowSupport | OutOfDomain | Drift | GateUncalibrated | InsufficientMargin | ResourcePressure
| Deadline | InferenceError | RolloutExcluded | CanaryBudgetExhausted | HardPolicyRejection
| FeatureOff | BaselineAvailable | QualifiedModelUnavailable | TradingInfluenceDisabled

record decision_audit =
  da_decision_id :: string
  da_task_id :: string
  da_outcome :: decision_outcome
  da_reason :: "gate_reason option"
  da_model_digest :: "string option"
  da_model_stage :: "lifecycle_stage option"
  da_active_gate_processes :: "string list"
  da_policy_version :: string
  da_feature_schema :: "string option"
  da_model_called :: bool
  da_baseline_decision :: "string option"
  da_learned_proposal :: "string option"
  da_actual_action :: "string option"
  da_influence_cap :: f64
  da_elapsed_ms :: f64

definition active_gate_processes :: "string \<Rightarrow> string list" where
  "active_gate_processes task_id =
     [''build_feature_support'', ''global_and_task_mode'', ''task_permission_and_scope'',
      ''model_integrity_and_lifecycle_qualification'',
      ''feature_schema_calibration_freshness_and_ood'', ''rollout_and_influence_caps'',
      ''bounded_inference_queue_and_deadline'', ''baseline_fallback'']
     @ (if task_id = ''routing_candidate_utility''
        then [''provider_eligibility_and_admission_recheck'']
        else if task_id = ''quant_net_edge'' \<or> task_id = ''trading_advisory''
        then [''live_trading_influence_authority'', ''composite_paper_qualification'',
              ''economics_risk_and_execution_recheck'']
        else if task_id = ''mirror_priority'' \<or> task_id = ''aarnn_activity_readout''
        then [''required_mirror_delivery_and_acknowledgement'']
        else [''existing_domain_scheduler_and_authority''])"

record decision_context =
  cx_decision_id :: string
  cx_task_id :: string
  cx_tenant_scope :: string
  cx_feature_schema :: feature_schema
  cx_feature_values :: "f64 list"
  cx_feature_timestamp :: u64
  cx_now :: u64
  cx_remaining_deadline_ms :: u64
  cx_baseline_decision :: "string option"
  cx_hard_policy_eligible :: bool
  cx_resource_available :: bool
  cx_rollout_bucket :: u64

record gated_model =
  gm_artifact :: "elm_artifact option"
  gm_reason :: "gate_reason option"
  gm_influence_cap :: f64
  gm_mode :: elm_mode
  gm_shadow :: bool

section \<open>Gates\<close>

text \<open>The cast \<open>f64 as u64\<close>: truncation, saturating at both ends, zero for NaN.\<close>

fun f_to_u64 :: "f64 \<Rightarrow> nat" where
  "f_to_u64 (Fin q) = min (nat \<lfloor>q\<rfloor>) (2 ^ 64 - 1)"
| "f_to_u64 PInf = 2 ^ 64 - 1"
| "f_to_u64 _ = 0"

definition uncalibrated :: "elm_artifact \<Rightarrow> bool" where
  "uncalibrated a =
     is_none_or (\<lambda>v. if ea_task_kind a = Regression then cal_residual_radius v = None
                     else \<not> is_finite (cal_temperature v) \<or> f_le (cal_temperature v) (Fin 0))
       (ea_calibration a)"

definition rollout_excluded :: "elm_task_config \<Rightarrow> u64 \<Rightarrow> bool" where
  "rollout_excluded task bucket \<longleftrightarrow>
     f_lt (tc_rollout_fraction task) (Fin 1)
     \<and> f_le (tc_rollout_fraction task)
         (f_div (f_of_nat (unat bucket)) (f_of_nat (2 ^ 64 - 1)))"

definition stage_authorised :: "elm_task_config \<Rightarrow> lifecycle_stage \<Rightarrow> bool" where
  "stage_authorised task stage =
     (case stage of
        Canary \<Rightarrow> Stage_Canary \<le> tc_max_stage task
      | Active \<Rightarrow> Stage_Active \<le> tc_max_stage task
      | _ \<Rightarrow> False)"

text \<open>The greatest absolute value of the transformed features.\<close>

definition domain_distance :: "elm_artifact \<Rightarrow> f64 list \<Rightarrow> f64 option" where
  "domain_distance a values =
     (case transform (ea_preprocessor a) [values] of
        Inl _ \<Rightarrow> None
      | Inr rows \<Rightarrow> Some (fold (\<lambda>v acc. f_max acc v) (map f_abs (rows ! 0)) (Fin 0)))"

text \<open>The gates on the request itself, before any model is looked up.\<close>

definition request_gate ::
  "bool \<Rightarrow> elm_config \<Rightarrow> decision_context \<Rightarrow> gate_reason option" where
  "request_gate feature config cx =
     (let mode = effective_mode config (cx_task_id cx) in
      if \<not> feature then Some BuildUnsupported
      else if mode = Mode_Off then Some Disabled
      else if mode = Mode_Collect then Some CollectOnly
      else case get_task config (cx_task_id cx) of
        None \<Rightarrow> Some TaskDisallowed
      | Some task \<Rightarrow>
          if \<not> tc_allowed task then Some TaskDisallowed
          else if \<not> cx_hard_policy_eligible cx then Some HardPolicyRejection
          else if \<not> cx_resource_available cx then Some ResourcePressure
          else if cx_remaining_deadline_ms cx = 0 then Some Deadline
          else if cx_now cx < cx_feature_timestamp cx
             \<or> dc_maximum_feature_age_seconds (ec_data config)
                 < unat (sat_sub (cx_now cx) (cx_feature_timestamp cx)) then Some StaleInput
          else if cx_feature_values cx = [] \<or> (\<exists>v\<in>set (cx_feature_values cx). \<not> is_finite v)
          then Some MissingInput
          else None)"

text \<open>The gates on the champion and its record.\<close>

definition model_gate ::
  "elm_config \<Rightarrow> registry_state \<Rightarrow> decision_context \<Rightarrow> elm_task_config \<Rightarrow> elm_artifact \<Rightarrow>
     gate_reason + (registry_record \<times> promotion_policy)" where
  "model_gate config s cx task artifact =
     (let meta = ea_metadata artifact in
      case record_of s (mm_model_id meta) of
        None \<Rightarrow> Inl ModelUnqualified
      | Some r \<Rightarrow>
          if rr_stage r \<notin> {Qualified, Shadow, Canary, Active} then Inl ModelUnqualified
          else if mm_fixture_only meta then Inl ModelUnqualified
          else if is_some_and (\<lambda>expiry. expiry < unat (cx_now cx)) (mm_expiry_unix_seconds meta)
          then Inl ModelExpired
          else if ea_feature_schema artifact \<noteq> cx_feature_schema cx
             \<or> length (fs_names (ea_feature_schema artifact)) \<noteq> length (cx_feature_values cx)
          then Inl GateSchemaMismatch
          else if mm_tenant_scope meta \<noteq> cx_tenant_scope cx then Inl TenantMismatch
          else case get_policy config (tc_promotion_policy task) of
            None \<Rightarrow> Inl ModelUnqualified
          | Some policy \<Rightarrow>
              if \<not> is_complete policy then Inl ModelUnqualified
              else if rr_stage r = Canary
                 \<and> unwrap_or 0 (pp_canary_max_decisions policy)
                     \<le> unat (canary_decisions s (mm_model_id meta))
              then Inl CanaryBudgetExhausted
              else (case domain_distance artifact (cx_feature_values cx) of
                      None \<Rightarrow> Inl GateSchemaMismatch
                    | Some distance \<Rightarrow>
                        if f_lt (unwrap_or (Fin 0) (pp_maximum_ood_score policy)) distance
                        then Inl OutOfDomain
                        else if uncalibrated artifact then Inl GateUncalibrated
                        else if unat (cx_now cx) < f_to_u64 (mm_training_cutoff meta)
                        then Inl ModelExpired
                        else if rollout_excluded task (cx_rollout_bucket cx)
                        then Inl RolloutExcluded
                        else Inr (r, policy)))"

definition admit ::
  "bool \<Rightarrow> elm_config \<Rightarrow> registry_state \<Rightarrow> decision_context \<Rightarrow> gated_model" where
  "admit feature config s cx =
     (let mode = effective_mode config (cx_task_id cx);
          influence = (case get_task config (cx_task_id cx) of
              None \<Rightarrow> Fin 0 | Some task \<Rightarrow> f_clamp (tc_influence_cap task) (Fin 0) (Fin 1));
          fail = (\<lambda>reason. \<lparr>gm_artifact = None, gm_reason = Some reason,
              gm_influence_cap = Fin 0, gm_mode = mode, gm_shadow = (mode = Mode_Shadow)\<rparr>)
      in case request_gate feature config cx of
           Some reason \<Rightarrow> fail reason
         | None \<Rightarrow>
             (case champion s (cx_task_id cx) of
                None \<Rightarrow> fail QualifiedModelUnavailable
              | Some artifact \<Rightarrow>
                  let task = unwrap_or default_task_config (get_task config (cx_task_id cx))
                  in case model_gate config s cx task artifact of
                       Inl reason \<Rightarrow> fail reason
                     | Inr (r, policy) \<Rightarrow>
                         let auto_authorised = (mode = Mode_Auto
                               \<and> stage_authorised task (rr_stage r)
                               \<and> f_lt (Fin 0) influence
                               \<and> is_some_and (\<lambda>cap. f_lt (Fin 0) cap) (pp_authorised_influence policy))
                         in \<lparr>gm_artifact = Some artifact, gm_reason = None,
                             gm_influence_cap = (if auto_authorised
                               then f_min influence (unwrap_or (Fin 0) (pp_authorised_influence policy))
                               else Fin 0),
                             gm_mode = mode, gm_shadow = (\<not> auto_authorised)\<rparr>))"

definition audit_skipped ::
  "string \<Rightarrow> string \<Rightarrow> gate_reason \<Rightarrow> string option \<Rightarrow> decision_audit" where
  "audit_skipped decision_id task_id reason baseline =
     \<lparr>da_decision_id = decision_id, da_task_id = task_id, da_outcome = BaselineSelected,
      da_reason = Some reason, da_model_digest = None, da_model_stage = None,
      da_active_gate_processes = active_gate_processes task_id,
      da_policy_version = ''elm-policy-v1'', da_feature_schema = None, da_model_called = False,
      da_baseline_decision = baseline, da_learned_proposal = None, da_actual_action = baseline,
      da_influence_cap = Fin 0, da_elapsed_ms = Fin 0\<rparr>"

section \<open>What the gates let through\<close>

lemma request_gate_None:
  assumes "request_gate feature config cx = None"
  obtains task where "get_task config (cx_task_id cx) = Some task" "tc_allowed task"
    "cx_hard_policy_eligible cx" "cx_resource_available cx" "feature"
    "\<forall>v\<in>set (cx_feature_values cx). is_finite v"
  using assms by (auto simp: request_gate_def Let_def split: if_splits option.splits)

lemma model_gate_Inr:
  assumes "model_gate config s cx task artifact = Inr (r, policy)"
  shows "record_of s (mm_model_id (ea_metadata artifact)) = Some r"
    "rr_stage r \<in> {Qualified, Shadow, Canary, Active}"
    "\<not> mm_fixture_only (ea_metadata artifact)"
    "ea_feature_schema artifact = cx_feature_schema cx"
    "mm_tenant_scope (ea_metadata artifact) = cx_tenant_scope cx"
    "get_policy config (tc_promotion_policy task) = Some policy" "is_complete policy"
    "rr_stage r = Canary \<longrightarrow> unat (canary_decisions s (mm_model_id (ea_metadata artifact)))
       < unwrap_or 0 (pp_canary_max_decisions policy)"
  using assms
  by (auto simp: model_gate_def Let_def not_le split: if_splits option.splits)

end
