(* ===== verification/ElmGateSafety.thy ===== *)
theory ElmGateSafety
  imports ElmGates ElmPolicies ElmRegistrySafety
begin

text \<open>
  What a learned decision needs before it may influence anything, and what a refused one gets.
\<close>


text \<open>A decision is either admitted with its model and no reason, or refused with a stable
  reason, no model and no influence.\<close>

theorem refused_decisions_have_no_influence:
  "(case gm_reason (admit feature config s cx) of
      None \<Rightarrow> gm_artifact (admit feature config s cx) = champion s (cx_task_id cx)
        \<and> gm_artifact (admit feature config s cx) \<noteq> None
    | Some reason \<Rightarrow> gm_artifact (admit feature config s cx) = None
        \<and> gm_influence_cap (admit feature config s cx) = Fin 0)"
  by (auto simp: admit_def Let_def split: option.splits sum.splits)

section \<open>A concrete decision\<close>

definition gate_task :: elm_task_config where
  "gate_task = default_task_config\<lparr>tc_max_stage := Stage_Active, tc_promotion_policy := ''p'',
     tc_allowed := True, tc_rollout_fraction := Fin 1, tc_influence_cap := Fin (1 / 2)\<rparr>"

definition gate_policy :: promotion_policy where
  "gate_policy = sample_policy\<lparr>pp_authorised_influence := Some (Fin (1 / 4))\<rparr>"

definition gate_config :: elm_config where
  "gate_config = default_elm_config\<lparr>ec_mode := Mode_Auto, ec_tasks := [(''job_duration'', gate_task)],
     ec_promotion_policies := [(''p'', gate_policy)]\<rparr>"

definition gate_model :: elm_artifact where
  "gate_model = sample_model\<lparr>ea_calibration := Some \<lparr>cal_identity = ''c'', cal_temperature = Fin 1,
     cal_residual_radius = Some (Fin 1), cal_fitted_on = ''q''\<rparr>\<rparr>"

definition gate_state :: registry_state where
  "gate_state = \<lparr>rs_file = default_registry_file\<lparr>rf_records :=
       [\<lparr>rr_revision = 1, rr_model_id = ''m'', rr_task_id = ''job_duration'', rr_digest = ''ok'',
         rr_stage = Active, rr_artifact_file = ''f'', rr_reason = None, rr_updated_at = 0,
         rr_fixture_only = False\<rparr>]\<rparr>,
     rs_champions = [(''job_duration'', gate_model)]\<rparr>"

definition gate_request :: decision_context where
  "gate_request =
     \<lparr>cx_decision_id = ''i'', cx_task_id = ''job_duration'', cx_tenant_scope = ''a'',
      cx_feature_schema = ea_feature_schema sample_model, cx_feature_values = [Fin 0],
      cx_feature_timestamp = 5, cx_now = 6, cx_remaining_deadline_ms = 9,
      cx_baseline_decision = None, cx_hard_policy_eligible = True, cx_resource_available = True,
      cx_rollout_bucket = 0\<rparr>"

lemma gate_lookups:
  "get_task gate_config ''job_duration'' = Some gate_task"
  "get_policy gate_config ''p'' = Some gate_policy"
  "champion gate_state ''job_duration'' = Some gate_model"
  "is_complete gate_policy"
  by code_simp+

lemma gate_mode: "effective_mode gate_config ''job_duration'' = Mode_Auto"
  by (simp add: effective_mode_def gate_lookups) (simp add: gate_config_def gate_task_def default_task_config_def)

lemma gate_distance: "domain_distance gate_model [Fin 0] = Some (Fin 0)"
proof -
  have "f_div (f_sub (Fin 0) (Fin 0)) (Fin 1) = Fin 0"
    by (simp add: f_div_def f_sub_def f_neg_def rnd_def)
  then show ?thesis
    by (simp add: domain_distance_def gate_model_def sample_model_def transform_def
        validate_matrix_def max_matrix_cells_def usize_max_def f_max_def f_abs_def)
qed

lemma gate_open: "model_gate gate_config gate_state gate_request gate_task gate_model
    = Inr (hd (rf_records (rs_file gate_state)), gate_policy)"
proof -
  have r: "record_of gate_state ''m'' = Some (hd (rf_records (rs_file gate_state)))"
    "canary_decisions gate_state ''m'' = 0"
    by code_simp+
  have m: "ea_metadata gate_model = ea_metadata sample_model"
    "ea_feature_schema gate_model = ea_feature_schema sample_model"
    by (simp_all add: gate_model_def)
  have "\<not> rollout_excluded gate_task 0"
    by (simp add: rollout_excluded_def gate_task_def)
  moreover have "\<not> uncalibrated gate_model"
    by (simp add: uncalibrated_def gate_model_def sample_model_def)
  moreover have "rr_stage (hd (rf_records (rs_file gate_state))) = Active" by code_simp
  moreover have "unwrap_or (Fin 0) (pp_maximum_ood_score gate_policy) = Fin 1"
    by (simp add: gate_policy_def sample_policy_def)
  moreover have "tc_promotion_policy gate_task = ''p''" by (simp add: gate_task_def)
  ultimately show ?thesis
    using r gate_lookups gate_distance
    by (simp add: model_gate_def m gate_request_def sample_model_def)
qed

lemma gate_admits: "gm_influence_cap (admit True gate_config gate_state gate_request) = Fin (1 / 4)"
proof -
  have "request_gate True gate_config gate_request = None"
    using gate_mode gate_lookups
    by (simp add: request_gate_def gate_request_def gate_task_def sat_sub_def)
       (simp add: gate_config_def default_elm_config_def default_data_config_def)
  moreover have "cx_task_id gate_request = ''job_duration''" by (simp add: gate_request_def)
  moreover have "stage_authorised gate_task (rr_stage (hd (rf_records (rs_file gate_state))))"
    by code_simp
  moreover have "f_clamp (tc_influence_cap gate_task) (Fin 0) (Fin 1) = Fin (1 / 2)"
    by (simp add: gate_task_def f_clamp_def)
  moreover have "pp_authorised_influence gate_policy = Some (Fin (1 / 4))"
    by (simp add: gate_policy_def)
  ultimately show ?thesis
    using gate_open gate_mode gate_lookups
    by (simp add: admit_def f_min_def min_def less_eq_f64_def)
qed


end
