(* ===== verification/ElmData.thy ===== *)
theory ElmData
  imports ElmArtifact
begin

text \<open>
  \<^verbatim>\<open>src/src/elm/data.rs\<close>: validation of a dataset manifest and its chronological,
  group-preserving split into training, tuning, calibration and final partitions. The digest
  of the manifest (SHA-256 of its JSON text) is a parameter. A hash set whose size alone is
  read is the list of its elements in order of first insertion.
\<close>

section \<open>Manifests\<close>

record dataset_record =
  dr_record_id :: string
  dr_group_id :: string
  dr_subgroup_id :: string
  dr_event_time :: f64
  dr_observation_time :: f64
  dr_decision_time :: f64
  dr_label_available_time :: f64
  dr_features :: "f64 list"
  dr_target :: "f64 list"

record dataset_manifest =
  dm_format_version :: u32
  dm_dataset_id :: string
  dm_permitted :: bool
  dm_fixture_only :: bool
  dm_tenant_scope :: string
  dm_domain_scope :: string
  dm_task_id :: string
  dm_task_kind :: task_kind
  dm_feature_schema :: feature_schema
  dm_target_schema_id :: string
  dm_target_names :: "string list"
  dm_target_units :: "string list"
  dm_class_mapping :: "string list"
  dm_horizon_seconds :: "nat option"
  dm_provenance :: string
  dm_records :: "dataset_record list"

section \<open>Validation\<close>

definition timestamps_valid :: "dataset_record \<Rightarrow> bool" where
  "timestamps_valid r \<longleftrightarrow>
     is_finite (dr_event_time r) \<and> is_finite (dr_observation_time r)
     \<and> is_finite (dr_decision_time r) \<and> is_finite (dr_label_available_time r)
     \<and> f_le (dr_event_time r) (dr_observation_time r)
     \<and> f_le (dr_observation_time r) (dr_decision_time r)
     \<and> f_le (dr_decision_time r) (dr_label_available_time r)"

definition shape_valid :: "dataset_manifest \<Rightarrow> dataset_record \<Rightarrow> bool" where
  "shape_valid m r \<longleftrightarrow>
     length (dr_features r) = length (fs_names (dm_feature_schema m))
     \<and> length (dr_target r) = length (dm_target_names m)
     \<and> (\<forall>v\<in>set (dr_features r @ dr_target r). is_finite v)"

text \<open>The class a target names: a natural number below the number of classes.\<close>

definition class_of :: "dataset_manifest \<Rightarrow> dataset_record \<Rightarrow> nat option" where
  "class_of m r =
     (case dr_target r of
        Fin q # _ \<Rightarrow>
          if q < 0 \<or> q \<noteq> of_int \<lfloor>q\<rfloor> \<or> length (dm_class_mapping m) \<le> nat \<lfloor>q\<rfloor> then None
          else Some (nat \<lfloor>q\<rfloor>)
      | _ \<Rightarrow> None)"

record tally =
  ta_seen :: "string list"
  ta_eligible :: "usize list"
  ta_groups :: "string list"
  ta_subgroups :: "string list btree"
  ta_balance :: "usize btree"

definition empty_tally :: tally where
  "empty_tally = \<lparr>ta_seen = [], ta_eligible = [], ta_groups = [], ta_subgroups = [], ta_balance = []\<rparr>"

definition record_valid :: "dataset_manifest \<Rightarrow> dataset_record \<Rightarrow> bool" where
  "record_valid m r \<longleftrightarrow>
     trim (dr_record_id r) \<noteq> [] \<and> trim (dr_group_id r) \<noteq> [] \<and> trim (dr_subgroup_id r) \<noteq> []
     \<and> timestamps_valid r \<and> shape_valid m r"

definition mature :: "f64 \<Rightarrow> nat \<Rightarrow> dataset_record \<Rightarrow> bool" where
  "mature now minimum_label_age r \<longleftrightarrow>
     f_le (f_add (dr_label_available_time r) (f_of_nat minimum_label_age)) now"

definition count_group :: "nat \<Rightarrow> dataset_record \<Rightarrow> tally \<Rightarrow> tally" where
  "count_group index r t =
     t\<lparr>ta_groups := List.insert (dr_group_id r) (ta_groups t),
       ta_subgroups := bt_insert (dr_subgroup_id r)
         (List.insert (dr_group_id r) (unwrap_or [] (map_of (ta_subgroups t) (dr_subgroup_id r))))
         (ta_subgroups t),
       ta_eligible := ta_eligible t @ [index]\<rparr>"

definition count_class :: "dataset_manifest \<Rightarrow> nat \<Rightarrow> tally \<Rightarrow> tally" where
  "count_class m class t =
     t\<lparr>ta_balance := bt_insert (dm_class_mapping m ! class)
         (unwrap_or 0 (map_of (ta_balance t) (dm_class_mapping m ! class)) + 1) (ta_balance t)\<rparr>"

fun tally_records ::
  "dataset_manifest \<Rightarrow> f64 \<Rightarrow> nat \<Rightarrow> nat \<Rightarrow> dataset_record list \<Rightarrow> tally \<Rightarrow> elm_error + tally" where
  "tally_records m now age index [] t = Inr t"
| "tally_records m now age index (r # rs) t =
     (if dr_record_id r \<in> set (ta_seen t)
      then Inl (InvalidInput ''duplicate record ID in dataset'')
      else let t1 = t\<lparr>ta_seen := ta_seen t @ [dr_record_id r]\<rparr>
           in if \<not> record_valid m r \<or> \<not> mature now age r
              then tally_records m now age (index + 1) rs t1
              else if dm_task_kind m = Classification
              then (case class_of m r of
                      None \<Rightarrow> tally_records m now age (index + 1) rs t1
                    | Some class \<Rightarrow> tally_records m now age (index + 1) rs
                        (count_group index r (count_class m class t1)))
              else tally_records m now age (index + 1) rs (count_group index r t1))"

text \<open>\<open>ordered[((ordered.len() - 1) as f64 * fraction).floor() as usize]\<close>\<close>

definition quantile :: "f64 list \<Rightarrow> rat \<Rightarrow> f64" where
  "quantile ordered fraction =
     (case f_mul (f_of_nat (length ordered - 1)) (lit fraction) of
        Fin q \<Rightarrow> ordered ! nat \<lfloor>q\<rfloor>
      | _ \<Rightarrow> ordered ! 0)"

definition header_check ::
  "dataset_manifest \<Rightarrow> usize \<Rightarrow> usize \<Rightarrow> elm_error + unit" where
  "header_check m max_samples max_features =
     (if dm_format_version m \<noteq> 1 \<or> \<not> dm_permitted m
      then Inl (InvalidInput ''dataset format unsupported or data-use permission is absent'')
      else if trim (dm_dataset_id m) = [] \<or> trim (dm_task_id m) = [] \<or> trim (dm_provenance m) = []
         \<or> trim (dm_tenant_scope m) = [] \<or> trim (dm_domain_scope m) = []
      then Inl (InvalidInput ''dataset identity, scope and provenance are required'')
      else and_then (schema_validate (dm_feature_schema m)) (\<lambda>_.
        if max_samples < length (dm_records m)
           \<or> max_features < length (fs_names (dm_feature_schema m))
        then Inl (InvalidInput ''dataset exceeds configured sample or feature bounds'')
        else if dm_target_names m = [] \<or> length (dm_target_names m) \<noteq> length (dm_target_units m)
           \<or> trim (dm_target_schema_id m) = []
        then Inl (InvalidInput ''target schema is incomplete'')
        else if dm_task_kind m = Classification \<and> length (dm_class_mapping m) < 2
        then Inl (InvalidInput ''classification dataset needs an explicit class mapping'')
        else Inr ()))"

definition manifest_validate ::
  "(dataset_manifest \<Rightarrow> elm_error + string) \<Rightarrow> dataset_manifest \<Rightarrow> f64 \<Rightarrow> usize \<Rightarrow> usize \<Rightarrow> nat \<Rightarrow>
     elm_error + (usize list \<times> data_quality_report)" where
  "manifest_validate digest m now max_samples max_features minimum_label_age =
     and_then (header_check m max_samples max_features) (\<lambda>_.
     and_then (tally_records m now minimum_label_age 0 (dm_records m) empty_tally) (\<lambda>t.
     if length (ta_eligible t) < 10 \<or> length (ta_groups t) < 10
     then Inl (InvalidInput ''insufficient mature independent support'')
     else and_then (digest m) (\<lambda>dig.
       let ordered = sort (map (\<lambda>i. dr_decision_time (dm_records m ! i)) (ta_eligible t))
       in Inr (ta_eligible t,
            \<lparr>dq_dataset_id = dm_dataset_id m, dq_dataset_digest = dig,
             dq_eligible_samples = length (ta_eligible t),
             dq_excluded_samples = length (dm_records m) - length (ta_eligible t),
             dq_group_count = length (ta_groups t),
             dq_subgroup_group_counts = map (\<lambda>(n, gs). (n, length gs)) (ta_subgroups t),
             dq_class_balance = ta_balance t,
             dq_training_cutoff = quantile ordered (59 / 100),
             dq_tuning_cutoff = quantile ordered (74 / 100),
             dq_calibration_cutoff = quantile ordered (89 / 100),
             dq_final_cutoff = quantile ordered (99 / 100),
             dq_fixture_only = dm_fixture_only m\<rparr>))))"

section \<open>Split\<close>

definition first_time :: "f64 \<Rightarrow> dataset_manifest \<Rightarrow> usize list \<Rightarrow> f64" where
  "first_time d0 m grp =
     (case map (\<lambda>i. dr_decision_time (dm_records m ! i)) grp of
        [] \<Rightarrow> d0
      | t # ts \<Rightarrow> fold min ts t)"

fun group_records :: "dataset_manifest \<Rightarrow> usize list \<Rightarrow> usize list btree \<Rightarrow> usize list btree" where
  "group_records m [] groups = groups"
| "group_records m (i # is) groups =
     (let g = dr_group_id (dm_records m ! i)
      in group_records m is (bt_insert g (unwrap_or [] (map_of groups g) @ [i]) groups))"

definition ordered_groups :: "dataset_manifest \<Rightarrow> usize list \<Rightarrow> usize list list" where
  "ordered_groups m eligible =
     sort_key (first_time (Fin 0) m) (map snd (group_records m eligible []))"

definition partition_of :: "nat \<Rightarrow> nat \<Rightarrow> nat \<Rightarrow> nat \<Rightarrow> nat" where
  "partition_of train_end tune_end calibration_end group_index =
     (if group_index < train_end then 0
      else if group_index < tune_end then 1
      else if group_index < calibration_end then 2
      else 3)"

definition purged ::
  "dataset_manifest \<Rightarrow> f64 list \<Rightarrow> nat \<Rightarrow> usize list \<Rightarrow> usize \<Rightarrow> bool" where
  "purged m boundaries part grp i =
     (let r = dm_records m ! i
      in (part < 3 \<and> f_lt (boundaries ! part) (dr_label_available_time r))
         \<or> (0 < part \<and> f_lt (dr_decision_time r) (first_time (Fin 0) m grp)))"

definition split_groups ::
  "dataset_manifest \<Rightarrow> usize list \<Rightarrow> elm_error + usize list list" where
  "split_groups m eligible =
     (let groups = ordered_groups m eligible;
          count = length groups;
          train_end = max (count * 60 div 100) 1;
          tune_end = max (count * 75 div 100) (train_end + 1);
          calibration_end = min (max (count * 90 div 100) (tune_end + 1)) (count - 1)
      in if tune_end \<le> train_end \<or> calibration_end \<le> tune_end \<or> count \<le> calibration_end
         then Inl (InvalidInput
           ''not enough independent groups for train/tune/calibration/final partitions'')
         else
           let boundaries = map (\<lambda>p. first_time PInf m (groups ! p))
                              [train_end, tune_end, calibration_end];
               output = map (\<lambda>p. concat (map (\<lambda>(g, grp).
                   if partition_of train_end tune_end calibration_end g = p
                   then filter (\<lambda>i. \<not> purged m boundaries p grp i) grp else [])
                 (enumerate 0 groups))) [0, 1, 2, 3]
           in if \<exists>p\<in>set output. p = []
              then Inl (InvalidInput ''time/group purging left an empty evaluation partition'')
              else Inr output)"


section \<open>The split keeps time and groups apart\<close>

abbreviation decision_at :: "dataset_manifest \<Rightarrow> usize \<Rightarrow> f64" where
  "decision_at m i \<equiv> dr_decision_time (dm_records m ! i)"

abbreviation group_at :: "dataset_manifest \<Rightarrow> usize \<Rightarrow> string" where
  "group_at m i \<equiv> dr_group_id (dm_records m ! i)"

lemma fold_min_le: "fold min ts t \<le> t \<and> (\<forall>x\<in>set ts. fold min ts t \<le> x)"
  for t :: "'a::linorder"
proof (induction ts arbitrary: t)
  case (Cons a ts)
  show ?case using Cons.IH [of "min a t"] by (auto simp: min_le_iff_disj intro: order_trans)
qed simp

lemma fold_min_in: "fold min ts t \<in> insert t (set ts)"
  for t :: "'a::linorder"
proof (induction ts arbitrary: t)
  case (Cons a ts)
  show ?case using Cons.IH [of "min a t"] by (auto simp: min_def split: if_splits)
qed simp

lemma first_time_le: "i \<in> set grp \<Longrightarrow> first_time d m grp \<le> decision_at m i"
  using fold_min_le [of "map (decision_at m) (tl grp)" "decision_at m (hd grp)"]
  by (cases grp) (auto simp: first_time_def)

lemma first_time_in:
  "grp \<noteq> [] \<Longrightarrow> \<exists>i\<in>set grp. first_time d m grp = decision_at m i"
  using fold_min_in [of "map (decision_at m) (tl grp)" "decision_at m (hd grp)"]
  by (cases grp) (auto simp: first_time_def)

lemma first_time_default: "grp \<noteq> [] \<Longrightarrow> first_time d m grp = first_time d' m grp"
  by (cases grp) (auto simp: first_time_def)

definition grouping :: "dataset_manifest \<Rightarrow> usize list btree \<Rightarrow> bool" where
  "grouping m gs \<longleftrightarrow> bt_wf gs \<and> (\<forall>(g, is)\<in>set gs. is \<noteq> [] \<and> (\<forall>i\<in>set is. group_at m i = g))"

lemma set_bt_insert: "set (bt_insert k v m) \<subseteq> insert (k, v) (set m)"
  by (induction k v m rule: bt_insert.induct) auto

lemma map_of_in: "unwrap_or [] (map_of gs g) = is \<Longrightarrow> is \<noteq> [] \<Longrightarrow> (g, is) \<in> set gs"
  by (cases "map_of gs g") (auto dest: map_of_SomeD)

lemma grouping_insert:
  assumes "grouping m gs"
  shows "grouping m (bt_insert (group_at m i) (unwrap_or [] (map_of gs (group_at m i)) @ [i]) gs)"
proof -
  have "\<forall>j\<in>set (unwrap_or [] (map_of gs (group_at m i)) @ [i]). group_at m j = group_at m i"
    using assms map_of_in [OF refl, of gs "group_at m i"]
    by (fastforce simp: grouping_def)
  then show ?thesis
    using assms set_bt_insert [of "group_at m i" "unwrap_or [] (map_of gs (group_at m i)) @ [i]" gs]
    by (fastforce simp: grouping_def bt_wf_insert)
qed

lemma grouping_group_records: "grouping m gs \<Longrightarrow> grouping m (group_records m is gs)"
  by (induction m "is" gs rule: group_records.induct) (simp_all add: Let_def grouping_insert)

lemma group_records_members:
  "\<forall>(g, js)\<in>set gs. set js \<subseteq> S \<Longrightarrow> set is \<subseteq> S \<Longrightarrow>
     \<forall>(g, js)\<in>set (group_records m is gs). set js \<subseteq> S"
proof (induction m "is" gs rule: group_records.induct)
  case (2 m i "is" gs)
  let ?g = "group_at m i"
  have old: "set (unwrap_or [] (map_of gs ?g)) \<subseteq> S"
    using "2.prems"(1) map_of_in [OF refl, of gs ?g] 
    by (cases "map_of gs ?g = None \<or> map_of gs ?g = Some []") (auto, fastforce)
  have "set js \<subseteq> S" if "(g, js) \<in> set (bt_insert ?g (unwrap_or [] (map_of gs ?g) @ [i]) gs)" for g js
  proof -
    have "(g, js) \<in> insert (?g, unwrap_or [] (map_of gs ?g) @ [i]) (set gs)"
      by (rule subsetD [OF set_bt_insert that])
    then consider "js = unwrap_or [] (map_of gs ?g) @ [i]" | "(g, js) \<in> set gs" by blast
    then show ?thesis
    proof cases
      case 1
      then show ?thesis using old "2.prems"(2) by (simp add: subset_iff)
    next
      case 2
      then show ?thesis using "2.prems"(1) by blast
    qed
  qed
  then have "\<forall>(g, js)\<in>set (bt_insert ?g (unwrap_or [] (map_of gs ?g) @ [i]) gs). set js \<subseteq> S"
    by blast
  then show ?case using "2.IH" [OF refl] "2.prems" by (simp add: Let_def)
qed simp

lemma ordered_groups_facts:
  assumes "grp \<in> set (ordered_groups m eligible)"
  shows "grp \<noteq> []" "set grp \<subseteq> set eligible"
    "i \<in> set grp \<Longrightarrow> j \<in> set grp \<Longrightarrow> group_at m i = group_at m j"
proof -
  have gr: "grouping m (group_records m eligible [])"
    by (rule grouping_group_records) (simp add: grouping_def bt_wf_def)
  from assms obtain g where g: "(g, grp) \<in> set (group_records m eligible [])"
    by (auto simp: ordered_groups_def)
  show "grp \<noteq> []" "i \<in> set grp \<Longrightarrow> j \<in> set grp \<Longrightarrow> group_at m i = group_at m j"
    using gr g by (fastforce simp: grouping_def)+
  show "set grp \<subseteq> set eligible"
    using group_records_members [of "[]" "set eligible" eligible m] g by auto
qed

lemma ordered_groups_distinct:
  "distinct (map (\<lambda>grp. group_at m (hd grp)) (ordered_groups m eligible))"
proof -
  let ?gs = "group_records m eligible []"
  have gr: "grouping m ?gs"
    by (rule grouping_group_records) (simp add: grouping_def bt_wf_def)
  then have "map (\<lambda>grp. group_at m (hd grp)) (map snd ?gs) = map fst ?gs"
    by (fastforce simp: grouping_def intro!: map_cong)
  moreover have "distinct (map fst ?gs)"
    using gr by (simp add: grouping_def bt_wf_def strict_sorted_iff)
  moreover have "mset (map (\<lambda>grp. group_at m (hd grp)) (ordered_groups m eligible))
      = mset (map (\<lambda>grp. group_at m (hd grp)) (map snd ?gs))"
    by (simp add: ordered_groups_def multiset.map_comp)
  ultimately show ?thesis by (metis mset_eq_imp_distinct_iff)
qed

lemma ordered_groups_unique:
  assumes "g < length (ordered_groups m eligible)" "h < length (ordered_groups m eligible)"
    and "i \<in> set (ordered_groups m eligible ! g)" "j \<in> set (ordered_groups m eligible ! h)"
    and "group_at m i = group_at m j"
  shows "g = h"
proof -
  let ?gs = "ordered_groups m eligible"
  have "group_at m (hd (?gs ! g)) = group_at m i" "group_at m (hd (?gs ! h)) = group_at m j"
    using ordered_groups_facts [OF nth_mem [OF assms(1)]] ordered_groups_facts [OF nth_mem [OF assms(2)]]
      assms(3,4) by (metis list.set_sel(1))+
  then have "map (\<lambda>grp. group_at m (hd grp)) ?gs ! g = map (\<lambda>grp. group_at m (hd grp)) ?gs ! h"
    using assms by simp
  then show ?thesis
    using nth_eq_iff_index_eq [OF ordered_groups_distinct [of m eligible]] assms(1,2) by simp
qed

lemma ordered_groups_sorted:
  assumes "g \<le> h" "h < length (ordered_groups m eligible)"
  shows "first_time (Fin 0) m (ordered_groups m eligible ! g)
    \<le> first_time (Fin 0) m (ordered_groups m eligible ! h)"
  using sorted_nth_mono [of "map (first_time (Fin 0) m) (ordered_groups m eligible)" g h] assms
  by (simp add: ordered_groups_def)


text \<open>The boundaries of a split that succeeds, and the members of its partitions.\<close>

lemma split_groups_Inr:
  assumes "split_groups m eligible = Inr parts"
  obtains a b c where "a < b" "b < c" "c < length (ordered_groups m eligible)"
    and "length parts = 4"
    and "\<And>p i. p < 4 \<Longrightarrow> i \<in> set (parts ! p) \<longleftrightarrow>
      (\<exists>g<length (ordered_groups m eligible). partition_of a b c g = p
         \<and> i \<in> set (ordered_groups m eligible ! g)
         \<and> \<not> purged m (map (\<lambda>q. first_time PInf m (ordered_groups m eligible ! q)) [a, b, c]) p
              (ordered_groups m eligible ! g) i)"
    and "\<forall>p<4. parts ! p \<noteq> []"
proof -
  define gs where "gs = ordered_groups m eligible"
  define a where "a = max (length gs * 60 div 100) 1"
  define b where "b = max (length gs * 75 div 100) (a + 1)"
  define c where "c = min (max (length gs * 90 div 100) (b + 1)) (length gs - 1)"
  define bs where "bs = map (\<lambda>q. first_time PInf m (gs ! q)) [a, b, c]"
  define out where "out = (\<lambda>p. concat (map (\<lambda>(g, grp). if partition_of a b c g = p
      then filter (\<lambda>i. \<not> purged m bs p grp i) grp else []) (enumerate 0 gs)))"
  have ok: "\<not> (b \<le> a \<or> c \<le> b \<or> length gs \<le> c)" and parts: "parts = map out [0, 1, 2, 3]"
    and ne: "\<not> (\<exists>p\<in>set parts. p = [])"
    using assms
    unfolding split_groups_def Let_def gs_def [symmetric] a_def [symmetric] b_def [symmetric]
      c_def [symmetric] bs_def [symmetric] out_def [symmetric]
    by (auto split: if_splits)
  have mem: "i \<in> set (out p) \<longleftrightarrow> (\<exists>g<length gs. partition_of a b c g = p \<and> i \<in> set (gs ! g)
      \<and> \<not> purged m bs p (gs ! g) i)" for p i
    unfolding out_def by (auto simp: in_set_enumerate_eq split: if_splits, force simp: in_set_enumerate_eq)
  have nth: "parts ! p = out p" if "p < 4" for p
    using that unfolding parts by (auto simp: less_Suc_eq numeral_eq_Suc)
  have "length parts = 4" by (simp add: parts)
  moreover have "\<forall>p<4. parts ! p \<noteq> []" using ne calculation by (metis nth_mem)
  ultimately show thesis
    using that [of a b c] ok mem nth unfolding gs_def bs_def by (metis not_le)
qed

lemma f_leI: "x \<le> y \<Longrightarrow> is_finite x \<Longrightarrow> is_finite y \<Longrightarrow> f_le x y"
  by (auto simp: f_le_iff is_finite_iff)

text \<open>A group's first time is finite and no later than any decision of a later group.\<close>

lemma boundary_le:
  assumes "e \<le> h" "h < length (ordered_groups m eligible)"
    and "j \<in> set (ordered_groups m eligible ! h)"
    and valid: "\<forall>i\<in>set eligible. timestamps_valid (dm_records m ! i)"
  shows "first_time PInf m (ordered_groups m eligible ! e) \<le> decision_at m j"
    and "is_finite (first_time PInf m (ordered_groups m eligible ! e))"
proof -
  let ?gs = "ordered_groups m eligible"
  have e: "e < length ?gs" using assms(1,2) by simp
  then have ne: "?gs ! e \<noteq> []" using ordered_groups_facts(1) [OF nth_mem] by blast
  have "first_time PInf m (?gs ! e) = first_time (Fin 0) m (?gs ! e)"
    using ne by (rule first_time_default)
  also have "\<dots> \<le> first_time (Fin 0) m (?gs ! h)" by (rule ordered_groups_sorted [OF assms(1,2)])
  also have "\<dots> \<le> decision_at m j" by (rule first_time_le [OF assms(3)])
  finally show "first_time PInf m (?gs ! e) \<le> decision_at m j" .
  obtain k where k: "k \<in> set (?gs ! e)" "first_time PInf m (?gs ! e) = decision_at m k"
    using first_time_in [OF ne] by blast
  then show "is_finite (first_time PInf m (?gs ! e))"
    using valid ordered_groups_facts(2) [OF nth_mem [OF e]] by (auto simp: timestamps_valid_def)
qed

text \<open>C28: The evaluation split does not leak: of two records in different partitions, the label
  of the earlier one was available no later than the decision of the later one, so nothing a
  model is fitted on postdates what it is judged on; and no group of records is in two
  partitions.\<close>

theorem split_has_no_leakage:
  assumes split: "split_groups m eligible = Inr parts"
    and valid: "\<forall>i\<in>set eligible. timestamps_valid (dm_records m ! i)"
    and "p < q" "q < 4" and i: "i \<in> set (parts ! p)" and j: "j \<in> set (parts ! q)"
  shows "f_le (dr_label_available_time (dm_records m ! i)) (decision_at m j)
     \<and> group_at m i \<noteq> group_at m j"
proof -
  let ?gs = "ordered_groups m eligible"
  obtain a b c where abc: "a < b" "b < c" "c < length ?gs"
    and mem: "\<And>p i. p < 4 \<Longrightarrow> i \<in> set (parts ! p) \<longleftrightarrow>
      (\<exists>g<length ?gs. partition_of a b c g = p \<and> i \<in> set (?gs ! g)
         \<and> \<not> purged m (map (\<lambda>q. first_time PInf m (?gs ! q)) [a, b, c]) p (?gs ! g) i)"
    using split_groups_Inr [OF split] by metis
  obtain g where g: "g < length ?gs" "partition_of a b c g = p" "i \<in> set (?gs ! g)"
      and np: "\<not> purged m (map (\<lambda>q. first_time PInf m (?gs ! q)) [a, b, c]) p (?gs ! g) i"
    using mem [of p i] i assms(3,4) by auto
  obtain h where h: "h < length ?gs" "partition_of a b c h = q" "j \<in> set (?gs ! h)"
    using mem [of q j] j assms(4) by auto
  have elig: "i \<in> set eligible" "j \<in> set eligible"
    using ordered_groups_facts(2) [OF nth_mem] g(1,3) h(1,3) by blast+
  define e where "e = [a, b, c] ! p"
  have p3: "p < 3" using assms(3,4) by simp
  have e: "e < length ?gs" "e \<le> h" "g < h"
    using p3 abc g(2) h(2) assms(3)
    by (auto simp: e_def partition_of_def less_Suc_eq numeral_eq_Suc split: if_splits)
  let ?t = "first_time PInf m (?gs ! e)"
  have bound: "map (\<lambda>q. first_time PInf m (?gs ! q)) [a, b, c] ! p = ?t"
    using p3 by (auto simp: e_def less_Suc_eq numeral_eq_Suc)
  have "\<not> f_lt ?t (dr_label_available_time (dm_records m ! i))"
    using np p3 bound by (auto simp: purged_def Let_def)
  moreover have fin: "is_finite (dr_label_available_time (dm_records m ! i))" "is_finite (decision_at m j)"
    using valid elig by (auto simp: timestamps_valid_def)
  moreover note boundary_le(2) [OF e(2) h(1) h(3) valid]
  ultimately have "dr_label_available_time (dm_records m ! i) \<le> ?t"
    by (metis f_lt_iff is_finite.simps(4) not_le)
  also have "?t \<le> decision_at m j" by (rule boundary_le(1) [OF e(2) h(1) h(3) valid])
  finally have "f_le (dr_label_available_time (dm_records m ! i)) (decision_at m j)"
    using fin by (rule f_leI)
  moreover have "group_at m i \<noteq> group_at m j"
    using ordered_groups_unique [OF g(1) h(1) g(3) h(3)] e(3) by auto
  ultimately show ?thesis by blast
qed


definition sample_manifest :: dataset_manifest where
  "sample_manifest =
     \<lparr>dm_format_version = 1, dm_dataset_id = ''d'', dm_permitted = True, dm_fixture_only = False,
      dm_tenant_scope = ''t'', dm_domain_scope = ''s'', dm_task_id = ''job_duration'',
      dm_task_kind = Regression,
      dm_feature_schema = \<lparr>fs_id = ''f'', fs_version = 1, fs_names = [''x''], fs_units = [''s'']\<rparr>,
      dm_target_schema_id = ''y'', dm_target_names = [''y''], dm_target_units = [''s''],
      dm_class_mapping = [], dm_horizon_seconds = None, dm_provenance = ''p'',
      dm_records = map (\<lambda>i. \<lparr>dr_record_id = replicate (i + 1) CHR ''r'',
          dr_group_id = replicate (i + 1) CHR ''g'', dr_subgroup_id = ''u'',
          dr_event_time = Fin (of_nat i), dr_observation_time = Fin (of_nat i),
          dr_decision_time = Fin (of_nat i), dr_label_available_time = Fin (of_nat i),
          dr_features = [Fin 0], dr_target = [Fin 0]\<rparr>) [0..<10]\<rparr>"

lemma sample_split:
  "split_groups sample_manifest [0..<10] = Inr [[0, 1, 2, 3, 4, 5], [6], [7, 8], [9]]"
  by code_simp

theorem split_has_no_leakage_witness:
  "f_le (dr_label_available_time (dm_records sample_manifest ! 5)) (decision_at sample_manifest 9)
     \<and> group_at sample_manifest 5 \<noteq> group_at sample_manifest 9"
  by (rule split_has_no_leakage [OF sample_split, of 0 3])
     (simp_all add: sample_manifest_def timestamps_valid_def)

end
