(* ===== verification/PromptBudget.thy ===== *)
theory PromptBudget
  imports Prelude ElmConfig
begin

text \<open>
  \<^verbatim>\<open>src/src/prompt_budget.rs\<close> with the message types of
  \<^verbatim>\<open>src/src/models.rs\<close>: the compaction of a provider request that would not fit
  the context window. A request that is changed in place is returned. Sizes are character
  counts of strings in memory, so their sums do not overflow; the products and differences
  saturate as in the code. The ellipsis of the truncation marker (U+2026) lies outside HOL's
  256 characters and is written as the control character 0x1A: only its count matters.
\<close>

section \<open>Messages\<close>

datatype content_part = PartText string | PartImage string

datatype message_content = ContentText string | ContentParts "content_part list"

record chat_message =
  cm_role :: string
  cm_content :: message_content

record provider_request =
  pr_provider :: string
  pr_model :: "string option"
  pr_api_key :: "string option"
  pr_access_token :: "string option"
  pr_base_url :: "string option"
  pr_messages :: "chat_message list"
  pr_system :: "string option"
  pr_max_tokens :: "u32 option"
  pr_temperature :: "f64 option"
  pr_timeout_seconds :: "nat option"
  pr_reasoning_effort :: "string option"
  pr_request_category :: "string option"
  pr_workflow :: "string option"
  pr_role :: "string option"
  pr_min_model_size_b :: "f64 option"
  pr_strict_no_downgrade :: "bool option"
  pr_source :: "string option"
  pr_request_profile :: "string option"

fun part_text :: "content_part \<Rightarrow> string" where
  "part_text (PartText t) = t"
| "part_text (PartImage u) = u"

fun flattened_text :: "message_content \<Rightarrow> string" where
  "flattened_text (ContentText t) = t"
| "flattened_text (ContentParts ps) = join_with [CHR 0x0A] (map part_text ps)"

fun image_data_urls :: "message_content \<Rightarrow> string list" where
  "image_data_urls (ContentText t) = []"
| "image_data_urls (ContentParts ps) =
     List.map_filter (\<lambda>p. case p of PartImage u \<Rightarrow> Some u | PartText _ \<Rightarrow> None) ps"

section \<open>Sizes\<close>

definition min_context_window_tokens :: nat where "min_context_window_tokens = 1024"
definition min_input_budget_tokens :: nat where "min_input_budget_tokens = 2048"
definition marker_budget_chars :: nat where "marker_budget_chars = 512"
definition min_user_query_chars :: nat where "min_user_query_chars = 64"

lemmas budget_constants = min_context_window_tokens_def min_input_budget_tokens_def
  marker_budget_chars_def min_user_query_chars_def

definition estimate_tokens :: "nat \<Rightarrow> nat \<Rightarrow> nat" where
  "estimate_tokens chars chars_per_token =
     (let d = max chars_per_token 1 in (chars + (d - 1)) div d)"

definition truncation_marker :: string where
  "truncation_marker = [CHR 0x0A, CHR 0x1A] @ ''[middle omitted by Gail]'' @ [CHR 0x1A, CHR 0x0A]"

definition truncate_middle :: "string \<Rightarrow> nat \<Rightarrow> string" where
  "truncate_middle value max_chars =
     (if length value \<le> max_chars then value
      else if max_chars = 0 then []
      else let marker_chars = length truncation_marker
           in if max_chars \<le> marker_chars + 2 then take max_chars value
              else let content_budget = max_chars - marker_chars;
                       head_chars = content_budget div 2;
                       tail_chars = content_budget - head_chars
                   in take head_chars value @ truncation_marker
                      @ rev (take tail_chars (rev value)))"

definition message_char_count :: "chat_message \<Rightarrow> nat" where
  "message_char_count m = length (flattened_text (cm_content m))"

definition request_char_count :: "provider_request \<Rightarrow> nat" where
  "request_char_count r =
     (case pr_system r of None \<Rightarrow> 0 | Some s \<Rightarrow> length s)
     + sum_list (map message_char_count (pr_messages r))"

fun compact_parts :: "content_part list \<Rightarrow> nat \<Rightarrow> content_part list" where
  "compact_parts [] remaining = []"
| "compact_parts (PartText t # ps) remaining =
     (let c = truncate_middle t remaining
      in PartText c # compact_parts ps (remaining - length c))"
| "compact_parts (PartImage u # ps) remaining = PartImage u # compact_parts ps remaining"

definition compact_message :: "chat_message \<Rightarrow> nat \<Rightarrow> chat_message" where
  "compact_message m max_chars =
     \<lparr>cm_role = cm_role m,
      cm_content = (case cm_content m of
          ContentText t \<Rightarrow> ContentText (truncate_middle t max_chars)
        | ContentParts ps \<Rightarrow> ContentParts (compact_parts ps max_chars))\<rparr>"

fun decimal :: "nat \<Rightarrow> string" where
  "decimal n = (if n < 10 then [char_of (48 + n)]
                else decimal (n div 10) @ [char_of (48 + n mod 10)])"

declare decimal.simps [simp del]

fun count_roles :: "chat_message list \<Rightarrow> nat btree \<Rightarrow> nat btree" where
  "count_roles [] roles = roles"
| "count_roles (m # ms) roles =
     (let k = to_ascii_lowercase (cm_role m)
      in count_roles ms (bt_insert k (unwrap_or 0 (map_of roles k) + 1) roles))"

definition compaction_summary :: "chat_message list \<Rightarrow> nat \<Rightarrow> nat \<Rightarrow> string" where
  "compaction_summary omitted omitted_chars chars_per_token =
     (let roles = join_with '', '' (map (\<lambda>(role, n). role @ '':'' @ decimal n) (count_roles omitted []))
      in ''[GAIL CONTEXT COMPACTION] '' @ decimal (length omitted) @ '' older message(s) (~''
         @ decimal (estimate_tokens omitted_chars chars_per_token)
         @ '' tokens) were omitted to fit the provider context window. Omitted roles: '' @ roles
         @ ''. System instructions and the newest context are retained; re-query source data when omitted detail is required.'')"

section \<open>Budgets\<close>

record compaction_report =
  cr_context_window_tokens :: nat
  cr_input_budget_tokens :: nat
  cr_estimated_tokens_before :: nat
  cr_estimated_tokens_after :: nat
  cr_omitted_messages :: nat
  cr_omitted_chars :: nat

record budget_plan =
  bp_context :: nat
  bp_margin :: nat
  bp_output :: nat
  bp_maximum_output :: nat
  bp_input :: nat

definition plan_budget :: "u32 option \<Rightarrow> nat \<Rightarrow> nat \<Rightarrow> budget_plan" where
  "plan_budget max_tokens context_window_tokens safety_margin_tokens =
     (let context = max context_window_tokens min_context_window_tokens;
          requested = (case max_tokens of None \<Rightarrow> 16384 | Some t \<Rightarrow> unat t);
          margin = min safety_margin_tokens (context div 4);
          available = context - margin;
          floor_tokens = max (min min_input_budget_tokens available) 1;
          maximum_output = max (context - margin - floor_tokens) 1;
          output_tokens = min requested maximum_output
      in \<lparr>bp_context = context, bp_margin = margin, bp_output = output_tokens,
          bp_maximum_output = maximum_output,
          bp_input = min (max (context - output_tokens - margin) floor_tokens) (max available 1)\<rparr>)"

definition requested_output :: "u32 option \<Rightarrow> nat" where
  "requested_output max_tokens = (case max_tokens of None \<Rightarrow> 16384 | Some t \<Rightarrow> unat t)"

definition is_user_turn :: "chat_message \<Rightarrow> bool" where
  "is_user_turn m \<longleftrightarrow> eq_ignore_ascii_case (cm_role m) ''user''
     \<and> trim (flattened_text (cm_content m)) \<noteq> []"

section \<open>Compaction\<close>

text \<open>
  The pass over the messages, newest first: the messages kept so far (newest last), their
  characters and the messages left out (newest first).
\<close>

fun retain_messages ::
  "nat \<Rightarrow> chat_message list \<Rightarrow> chat_message list \<Rightarrow> nat \<Rightarrow> chat_message list \<Rightarrow>
     chat_message list \<times> chat_message list" where
  "retain_messages budget [] retained chars omitted = (retained, omitted)"
| "retain_messages budget (m # older) retained chars omitted =
     (let n = message_char_count m; remaining = budget - chars
      in if n \<le> remaining
         then retain_messages budget older (m # retained) (chars + n) omitted
         else if retained = [] \<and> 0 < remaining
         then retain_messages budget older (compact_message m remaining # retained) budget omitted
         else retain_messages budget older retained chars (omitted @ [m]))"

definition system_budget :: "nat \<Rightarrow> nat" where
  "system_budget input_chars =
     min (input_chars - marker_budget_chars - min_user_query_chars) (input_chars div 3)"

definition add_marker :: "chat_message list \<Rightarrow> nat \<Rightarrow> chat_message list \<Rightarrow> chat_message list" where
  "add_marker omitted chars_per_token retained =
     (if omitted = [] then retained
      else \<lparr>cm_role = ''system'', cm_content = ContentText (truncate_middle
              (compaction_summary omitted (sum_list (map message_char_count omitted)) chars_per_token)
              marker_budget_chars)\<rparr> # retained)"

definition keep_user_turn ::
  "chat_message option \<Rightarrow> nat \<Rightarrow> chat_message list \<Rightarrow> chat_message list" where
  "keep_user_turn newest message_budget messages =
     (if \<exists>m\<in>set messages. is_user_turn m then messages
      else case newest of
             None \<Rightarrow> messages
           | Some m \<Rightarrow> messages @ [compact_message m
               (min min_user_query_chars (max message_budget min_user_query_chars))])"

definition final_cap :: "nat \<Rightarrow> nat \<Rightarrow> chat_message list \<Rightarrow> chat_message list" where
  "final_cap total_chars input_chars messages =
     (if input_chars < total_chars \<and> messages \<noteq> []
      then let m = last messages;
               target = (if eq_ignore_ascii_case (cm_role m) ''user'' then min_user_query_chars
                         else message_char_count m - (total_chars - input_chars))
           in butlast messages @ [compact_message m target]
      else messages)"

definition compact_provider_request ::
  "provider_request \<Rightarrow> nat \<Rightarrow> nat \<Rightarrow> nat \<Rightarrow> compaction_report option \<times> provider_request" where
  "compact_provider_request request context_window_tokens chars_per_token0 safety_margin_tokens =
     (let plan = plan_budget (pr_max_tokens request) context_window_tokens safety_margin_tokens;
          chars_per_token = max chars_per_token0 1;
          request1 = (if bp_maximum_output plan < requested_output (pr_max_tokens request)
                      then request\<lparr>pr_max_tokens := Some (of_nat (min (bp_maximum_output plan) (2 ^ 32 - 1)))\<rparr>
                      else request);
          input_chars = usize_sat_mul (bp_input plan) chars_per_token;
          before = request_char_count request1
      in if before \<le> input_chars then (None, request1)
         else
           let system = map_option (\<lambda>s. if system_budget input_chars < length s
                            then truncate_middle s (system_budget input_chars) else s)
                          (pr_system request1);
               message_budget = input_chars - (case system of None \<Rightarrow> 0 | Some s \<Rightarrow> length s)
                                  - marker_budget_chars;
               newest = find is_user_turn (rev (pr_messages request1));
               (retained, omitted) = retain_messages message_budget (rev (pr_messages request1)) [] 0 [];
               messages1 = keep_user_turn newest message_budget (add_marker omitted chars_per_token retained);
               request2 = request1\<lparr>pr_system := system, pr_messages := messages1\<rparr>;
               request3 = request2\<lparr>pr_messages :=
                  final_cap (request_char_count request2) input_chars messages1\<rparr>
           in (Some \<lparr>cr_context_window_tokens = bp_context plan, cr_input_budget_tokens = bp_input plan,
                     cr_estimated_tokens_before = estimate_tokens before chars_per_token,
                     cr_estimated_tokens_after =
                       estimate_tokens (request_char_count request3) chars_per_token,
                     cr_omitted_messages = length omitted,
                     cr_omitted_chars = sum_list (map message_char_count omitted)\<rparr>, request3))"

section \<open>Truncation\<close>

lemma marker_length: "length truncation_marker = 28"
  by (simp add: truncation_marker_def)

lemma truncate_length: "length (truncate_middle v n) = min (length v) n"
  by (auto simp: truncate_middle_def Let_def marker_length)

lemma truncate_id: "length v \<le> n \<Longrightarrow> truncate_middle v n = v"
  by (simp add: truncate_middle_def)

lemma compact_text_count:
  "cm_content m = ContentText t \<Longrightarrow> message_char_count (compact_message m n) = min (length t) n"
  by (simp add: message_char_count_def compact_message_def truncate_length)


section \<open>Sizes after compaction\<close>

lemmas compaction_simps = plan_budget_def Let_def budget_constants

lemma plan_input_bounds:
  fixes max_tokens window margin
  defines "plan \<equiv> plan_budget max_tokens window margin"
  shows "768 \<le> bp_input plan" "bp_input plan + bp_margin plan \<le> bp_context plan"
proof -
  define c where "c = max window 1024"
  define s where "s = min margin (c div 4)"
  have "1024 \<le> c" "s \<le> c div 4" by (simp_all add: c_def s_def)
  then have a: "768 \<le> c - s" "s \<le> c" by linarith+
  define f where "f = max (min 2048 (c - s)) 1"
  have f: "768 \<le> f" using a by (simp add: f_def)
  have x: "bp_input plan = min (max (c - bp_output plan - s) f) (max (c - s) 1)"
      "bp_margin plan = s" "bp_context plan = c"
    unfolding plan_def plan_budget_def Let_def budget_constants c_def s_def f_def
    by (simp_all only: budget_plan.select_convs)
  have "768 \<le> max (c - bp_output plan - s) f" "768 \<le> max (c - s) 1" "max (c - s) 1 = c - s"
    using f a by (auto simp: max_def)
  then show "768 \<le> bp_input plan" and "bp_input plan + bp_margin plan \<le> bp_context plan"
    using x(2,3) a min.cobounded2 [of "max (c - bp_output plan - s) f" "max (c - s) 1"]
    unfolding x(1) by (simp_all only: min.bounded_iff, linarith)
qed

definition text_only :: "chat_message list \<Rightarrow> bool" where
  "text_only ms \<longleftrightarrow> (\<forall>m\<in>set ms. \<exists>t. cm_content m = ContentText t)"

definition total_count :: "chat_message list \<Rightarrow> nat" where
  "total_count ms = sum_list (map message_char_count ms)"

lemma total_count_simps [simp]:
  "total_count [] = 0" "total_count (m # ms) = message_char_count m + total_count ms"
  "total_count (ms @ ms') = total_count ms + total_count ms'"
  by (simp_all add: total_count_def)

lemma text_only_simps [simp]:
  "text_only []" "text_only (m # ms) \<longleftrightarrow> (\<exists>t. cm_content m = ContentText t) \<and> text_only ms"
  "text_only (ms @ ms') \<longleftrightarrow> text_only ms \<and> text_only ms'" "text_only (rev ms) = text_only ms"
  by (auto simp: text_only_def)

lemma compact_message_role [simp]: "cm_role (compact_message m n) = cm_role m"
  by (simp add: compact_message_def)

lemma compact_text:
  "cm_content m = ContentText t \<Longrightarrow> cm_content (compact_message m n) = ContentText (truncate_middle t n)"
  by (simp add: compact_message_def)

lemma compact_count_le:
  assumes "\<exists>t. cm_content m = ContentText t"
  shows "message_char_count (compact_message m n) = min (message_char_count m) n"
  using assms compact_text_count by (fastforce simp: message_char_count_def)

lemma retain_bound:
  assumes "retain_messages budget ms retained chars omitted = (ret, om)"
    and "total_count retained \<le> chars" "chars \<le> budget" "text_only ms" "text_only retained"
  shows "total_count ret \<le> budget \<and> text_only ret"
  using assms
proof (induction budget ms retained chars omitted rule: retain_messages.induct)
  case (2 budget m older retained chars omitted)
  then show ?case
    by (auto simp: Let_def compact_count_le compact_text split: if_splits)
qed simp

lemma add_marker_bound:
  "text_only ret \<Longrightarrow> total_count (add_marker om cpt ret) \<le> 512 + total_count ret \<and> text_only (add_marker om cpt ret)"
  by (auto simp: add_marker_def message_char_count_def truncate_length marker_budget_chars_def)

lemma keep_user_bound:
  assumes "text_only ms" "\<forall>m. newest = Some m \<longrightarrow> (\<exists>t. cm_content m = ContentText t)"
  shows "total_count (keep_user_turn newest budget ms) \<le> total_count ms + 64
    \<and> text_only (keep_user_turn newest budget ms)"
  using assms
  by (auto simp: keep_user_turn_def compact_count_le compact_text min_user_query_chars_def
      split: option.splits)

lemma final_cap_bound:
  assumes "text_only ms"
  shows "total_count (final_cap n k ms) \<le> total_count ms"
proof (cases "k < n \<and> ms \<noteq> []")
  case True
  obtain us m where ms: "ms = us @ [m]" using True by (metis append_butlast_last_id)
  then show ?thesis
    using True assms by (simp add: final_cap_def Let_def compact_count_le)
qed (auto simp: final_cap_def)

text \<open>The intermediate results of a compaction that changes the request.\<close>

definition input_chars_of :: "provider_request \<Rightarrow> nat \<Rightarrow> nat \<Rightarrow> nat \<Rightarrow> nat" where
  "input_chars_of request window cpt margin =
     usize_sat_mul (bp_input (plan_budget (pr_max_tokens request) window margin)) (max cpt 1)"

definition capped_system :: "nat \<Rightarrow> string option \<Rightarrow> string option" where
  "capped_system input_chars system =
     map_option (\<lambda>s. if system_budget input_chars < length s
        then truncate_middle s (system_budget input_chars) else s) system"

definition capped_messages ::
  "nat \<Rightarrow> nat \<Rightarrow> string option \<Rightarrow> chat_message list \<Rightarrow> chat_message list" where
  "capped_messages input_chars cpt system messages =
     (let budget = input_chars - (case system of None \<Rightarrow> 0 | Some s \<Rightarrow> length s) - marker_budget_chars;
          (retained, omitted) = retain_messages budget (rev messages) [] 0 []
      in keep_user_turn (find is_user_turn (rev messages)) budget (add_marker omitted cpt retained))"

lemma compact_request_cases:
  assumes "compact_provider_request r window cpt margin = (rep, r')"
  defines "n \<equiv> input_chars_of r window cpt margin"
  shows "(rep = None \<longrightarrow> request_char_count r \<le> n \<and> pr_messages r' = pr_messages r
            \<and> pr_system r' = pr_system r)
    \<and> (rep \<noteq> None \<longrightarrow> n < request_char_count r \<and> pr_system r' = capped_system n (pr_system r)
        \<and> (\<exists>total. pr_messages r' = final_cap total n
             (capped_messages n (max cpt 1) (capped_system n (pr_system r)) (pr_messages r))))"
proof -
  have same: "request_char_count (r\<lparr>pr_max_tokens := x\<rparr>) = request_char_count r" for x
    by (simp add: request_char_count_def)
  show ?thesis
    using assms(1)
    by (auto simp: compact_provider_request_def Let_def n_def input_chars_of_def same
        capped_system_def capped_messages_def not_le split: if_splits prod.splits)
qed

lemma input_chars_bound: "768 \<le> input_chars_of r window cpt margin"
proof -
  have "768 \<le> bp_input (plan_budget (pr_max_tokens r) window margin)" by (rule plan_input_bounds)
  then have "768 \<le> bp_input (plan_budget (pr_max_tokens r) window margin) * max cpt 1"
    by (metis max.cobounded2 mult.right_neutral mult_le_mono)
  then show ?thesis by (simp add: input_chars_of_def usize_sat_mul_def usize_max_def)
qed

lemma capped_system_length:
  "(case capped_system n system of None \<Rightarrow> 0 | Some s \<Rightarrow> length s) \<le> system_budget n"
  by (cases system) (auto simp: capped_system_def truncate_length)

lemma capped_messages_bound:
  assumes "text_only ms"
  shows "total_count (capped_messages n cpt sys ms)
       \<le> (n - (case sys of None \<Rightarrow> 0 | Some s \<Rightarrow> length s) - 512) + 512 + 64
    \<and> text_only (capped_messages n cpt sys ms)"
proof -
  define budget where "budget = n - (case sys of None \<Rightarrow> 0 | Some s \<Rightarrow> length s) - marker_budget_chars"
  obtain ret om where ro: "retain_messages budget (rev ms) [] 0 [] = (ret, om)" by force
  have r: "total_count ret \<le> budget \<and> text_only ret"
    using retain_bound [OF ro] assms by simp
  have newest: "\<forall>m. find is_user_turn (rev ms) = Some m \<longrightarrow> (\<exists>t. cm_content m = ContentText t)"
    using assms by (auto simp: find_Some_iff text_only_def rev_nth)
  have "capped_messages n cpt sys ms
      = keep_user_turn (find is_user_turn (rev ms)) budget (add_marker om cpt ret)"
    unfolding capped_messages_def Let_def budget_def [symmetric] ro by simp
  then show ?thesis
    using r add_marker_bound [of ret om cpt] keep_user_bound [OF _ newest, of "add_marker om cpt ret" budget]
    by (auto simp: budget_def marker_budget_chars_def)
qed


lemma compacted_size:
  assumes "compact_provider_request r window cpt margin = (rep, r')" "text_only (pr_messages r)"
  shows "request_char_count r' \<le> input_chars_of r window cpt margin + 64"
proof (cases rep)
  case None
  then have "request_char_count r' = request_char_count r"
    using compact_request_cases [OF assms(1)] by (simp add: request_char_count_def)
  then show ?thesis using None compact_request_cases [OF assms(1)] by simp
next
  case (Some x)
  let ?n = "input_chars_of r window cpt margin"
  let ?sys = "capped_system ?n (pr_system r)"
  let ?len = "case ?sys of None \<Rightarrow> 0 | Some s \<Rightarrow> length s"
  let ?ms = "capped_messages ?n (max cpt 1) ?sys (pr_messages r)"
  obtain k where r': "pr_system r' = ?sys" "pr_messages r' = final_cap k ?n ?ms"
    using compact_request_cases [OF assms(1)] Some by auto
  have "?len \<le> system_budget ?n" by (rule capped_system_length)
  also have "\<dots> \<le> ?n - 512"
    by (simp add: system_budget_def marker_budget_chars_def min_user_query_chars_def)
  finally have "?len + 512 \<le> ?n" using input_chars_bound [of r window cpt margin] by linarith
  moreover have "total_count (final_cap k ?n ?ms) \<le> (?n - ?len - 512) + 512 + 64"
    using capped_messages_bound [OF assms(2)] final_cap_bound order_trans by blast
  ultimately have "?len + total_count (final_cap k ?n ?ms) \<le> ?n + 64" by linarith
  then show ?thesis by (simp add: request_char_count_def r' total_count_def)
qed

section \<open>The user's turn\<close>

lemma trim_Nil_iff: "trim s = [] \<longleftrightarrow> (\<forall>c\<in>set s. is_whitespace c)"
proof -
  have "trim s = [] \<longleftrightarrow> (\<forall>c\<in>set (dropWhile is_whitespace s). is_whitespace c)"
    by (auto simp: trim_def trim_end_by_def dropWhile_eq_Nil_conv)
  also have "\<dots> \<longleftrightarrow> (\<forall>c\<in>set s. is_whitespace c)"
    by (metis dropWhile_eq_Nil_conv hd_dropWhile hd_in_set set_dropWhileD)
  finally show ?thesis .
qed

lemma marker_not_blank: "CHR ''['' \<in> set truncation_marker" "\<not> is_whitespace (CHR ''['')"
  by (simp_all add: truncation_marker_def is_whitespace_def code_point_def)

lemma truncate_not_blank:
  assumes "trim t \<noteq> []" "64 \<le> n"
  shows "trim (truncate_middle t n) \<noteq> []"
proof (cases "length t \<le> n")
  case False
  then have "CHR ''['' \<in> set (truncate_middle t n)"
    using assms(2) marker_not_blank(1) by (auto simp: truncate_middle_def Let_def marker_length)
  then show ?thesis using marker_not_blank(2) unfolding trim_Nil_iff by blast
qed (use assms in \<open>simp add: truncate_id\<close>)

lemma compact_user_turn:
  assumes "is_user_turn m" "\<exists>t. cm_content m = ContentText t" "64 \<le> n"
  shows "is_user_turn (compact_message m n)"
  using assms truncate_not_blank by (auto simp: is_user_turn_def compact_text)

lemma final_cap_user_turn:
  assumes "\<exists>m\<in>set ms. is_user_turn m" "text_only ms"
  shows "\<exists>m\<in>set (final_cap k n ms). is_user_turn m"
proof (cases "n < k \<and> ms \<noteq> []")
  case True
  obtain us l where ms: "ms = us @ [l]" using True by (metis append_butlast_last_id)
  show ?thesis
  proof (cases "is_user_turn l")
    case True
    then have "eq_ignore_ascii_case (cm_role l) ''user''" by (simp add: is_user_turn_def)
    then show ?thesis
      using assms True ms compact_user_turn [OF True, of 64]
      by (auto simp: final_cap_def Let_def min_user_query_chars_def)
  next
    case False
    then show ?thesis using assms ms by (auto simp: final_cap_def Let_def)
  qed
qed (use assms in \<open>auto simp: final_cap_def\<close>)

lemma keep_user_turn_ok:
  assumes "is_user_turn m" "\<exists>t. cm_content m = ContentText t"
  shows "\<exists>x\<in>set (keep_user_turn (Some m) b us). is_user_turn x"
proof -
  have "min min_user_query_chars (max b min_user_query_chars) = 64"
    by (simp add: min_user_query_chars_def)
  then show ?thesis
    using compact_user_turn [OF assms, of 64] by (auto simp: keep_user_turn_def)
qed

lemma capped_user_turn:
  assumes "\<exists>m\<in>set ms. is_user_turn m" "text_only ms"
  shows "\<exists>m\<in>set (capped_messages n cpt sys ms). is_user_turn m"
proof -
  obtain m where m: "find is_user_turn (rev ms) = Some m"
    using assms(1) by (cases "find is_user_turn (rev ms)") (auto simp: find_None_iff)
  then have "is_user_turn m" "\<exists>t. cm_content m = ContentText t"
    using assms(2) by (auto simp: find_Some_iff text_only_def rev_nth)
  then have kept: "\<exists>x\<in>set (keep_user_turn (Some m) b us). is_user_turn x" for b us
    by (rule keep_user_turn_ok)
  obtain ret om where ro: "retain_messages
      (n - (case sys of None \<Rightarrow> 0 | Some s \<Rightarrow> length s) - marker_budget_chars) (rev ms) [] 0 []
      = (ret, om)" by force
  show ?thesis unfolding capped_messages_def Let_def ro prod.case m by (rule kept)
qed

section \<open>Properties\<close>

text \<open>A conversation whose newest message is longer than the smallest window.\<close>

definition sample_request :: provider_request where
  "sample_request =
     \<lparr>pr_provider = ''p'', pr_model = None, pr_api_key = None, pr_access_token = None,
      pr_base_url = None,
      pr_messages = [\<lparr>cm_role = ''user'', cm_content = ContentText (replicate 4000 CHR ''a'')\<rparr>],
      pr_system = Some ''be brief'', pr_max_tokens = Some 128, pr_temperature = None,
      pr_timeout_seconds = None, pr_reasoning_effort = None, pr_request_category = None,
      pr_workflow = None, pr_role = None, pr_min_model_size_b = None,
      pr_strict_no_downgrade = None, pr_source = None, pr_request_profile = None\<rparr>"



text \<open>Compaction never loses the user: when a conversation of text messages has a user turn
  that is not blank, so has what is sent.\<close>

theorem compaction_keeps_a_user_turn:
  assumes "\<exists>m\<in>set (pr_messages request). is_user_turn m" "text_only (pr_messages request)"
  shows "\<exists>m\<in>set (pr_messages (snd (compact_provider_request request window cpt margin))). is_user_turn m"
proof -
  obtain rep r' where c: "compact_provider_request request window cpt margin = (rep, r')" by force
  let ?n = "input_chars_of request window cpt margin"
  let ?ms = "capped_messages ?n (max cpt 1) (capped_system ?n (pr_system request)) (pr_messages request)"
  from compact_request_cases [OF c] consider "pr_messages r' = pr_messages request"
    | k where "pr_messages r' = final_cap k ?n ?ms"
    by (cases rep) auto
  then show ?thesis
    using assms c final_cap_user_turn [OF capped_user_turn [OF assms]] capped_messages_bound [OF assms(2)]
    by cases auto
qed

theorem compaction_keeps_a_user_turn_witness:
  "\<exists>m\<in>set (pr_messages (snd (compact_provider_request sample_request 1024 1 256))). is_user_turn m"
proof (rule compaction_keeps_a_user_turn)
  have "\<not> (\<forall>c\<in>set (replicate 4000 CHR ''a''). is_whitespace c)"
    by (simp add: is_whitespace_def code_point_def)
  then show "\<exists>m\<in>set (pr_messages sample_request). is_user_turn m"
    unfolding is_user_turn_def trim_Nil_iff
    by (simp add: sample_request_def eq_ignore_ascii_case_def)
qed (simp add: sample_request_def)

lemma plan_shares_window:
  fixes max_tokens window margin
  defines "plan \<equiv> plan_budget max_tokens window margin"
  shows "bp_output plan + bp_margin plan + bp_input plan
     \<le> bp_context plan + (if bp_context plan - bp_margin plan \<le> 2048 then 1 else 0)"
proof -
  define c where "c = max window 1024"
  define s where "s = min margin (c div 4)"
  define f where "f = max (min 2048 (c - s)) 1"
  define g where "g = max (c - s - f) 1"
  define out where "out = min (requested_output max_tokens) g"
  have "1024 \<le> c" "s \<le> c div 4" by (simp_all add: c_def s_def)
  then have a: "768 \<le> c - s" "s \<le> c" by linarith+
  have x: "bp_input plan = min (max (c - out - s) f) (max (c - s) 1)"
      "bp_margin plan = s" "bp_context plan = c" "bp_output plan = out"
    unfolding plan_def plan_budget_def Let_def budget_constants c_def s_def f_def g_def out_def
      requested_output_def
    by (simp_all only: budget_plan.select_convs)
  have out: "out \<le> g" by (simp add: out_def)
  show ?thesis
  proof (cases "c - s \<le> 2048")
    case True
    then have "g = 1" using a by (simp add: g_def f_def)
    moreover have "bp_input plan \<le> c - s" using a unfolding x(1) by (simp add: min_le_iff_disj)
    ultimately show ?thesis using out a True unfolding x(2-4) by simp
  next
    case False
    then have "f = 2048" "g = c - s - 2048" by (simp_all add: f_def g_def)
    then have "max (c - out - s) f \<le> c - s - out" using out False by simp
    then have "bp_input plan \<le> c - s - out" unfolding x(1) by (simp add: min_le_iff_disj)
    then show ?thesis using out a \<open>g = c - s - 2048\<close> False unfolding x(2-4) by simp
  qed
qed

text \<open>The reserved output and the input budget share the context window with the safety
  margin: together they are at most the window, unless the window less the margin is at most
  2048 tokens, when the one output token that is always allowed comes on top of it.\<close>

theorem output_and_input_share_the_window:
  "(let plan = plan_budget max_tokens window margin
    in bp_output plan + bp_margin plan + bp_input plan
       \<le> bp_context plan + (if bp_context plan - bp_margin plan \<le> 2048 then 1 else 0))"
  using plan_shares_window by (simp add: Let_def)

text \<open>A window of 1024 tokens with a margin of 256 is planned one token over: 768 tokens of
  input, one of output and the margin are 1025.\<close>

theorem small_window_is_overcommitted:
  "(let plan = plan_budget (Some 16) 1024 256
    in (bp_output plan + bp_margin plan + bp_input plan, bp_context plan)) = (1025, 1024)"
  by code_simp

end
