(* ===== verification/Redaction.thy ===== *)
theory Redaction
  imports Prelude
begin

text \<open>
  \<^verbatim>\<open>src/src/redaction.rs\<close>: removal of credential-shaped properties from JSON
  shown to operators. A JSON object is the list of its properties in the map's order, a
  number is its text.
\<close>

datatype json =
  JNull
| JBool bool
| JNumber string
| JString string
| JArray "json list"
| JObject "(string \<times> json) list"

definition sensitive_key_parts :: "string list" where
  "sensitive_key_parts =
     [''access_token'', ''api_key'', ''authorization'', ''bearer'', ''credential'', ''password'',
      ''private_key'', ''secret'', ''token'']"

definition is_sensitive_key :: "string \<Rightarrow> bool" where
  "is_sensitive_key key =
     (let normalized = map (\<lambda>c. if c = CHR ''-'' then CHR ''_'' else c)
                         (to_ascii_lowercase (trim key))
      in \<exists>part\<in>set sensitive_key_parts.
           normalized = part \<or> ends_with normalized (CHR ''_'' # part))"

function redact_sensitive_json :: "json \<Rightarrow> json" where
  "redact_sensitive_json (JObject members) =
     JObject (map (\<lambda>(key, child). (key, redact_sensitive_json child))
       (filter (\<lambda>(key, child). \<not> is_sensitive_key key) members))"
| "redact_sensitive_json (JArray values) = JArray (map redact_sensitive_json values)"
| "redact_sensitive_json JNull = JNull"
| "redact_sensitive_json (JBool b) = JBool b"
| "redact_sensitive_json (JNumber n) = JNumber n"
| "redact_sensitive_json (JString s) = JString s"
  by pat_completeness auto

lemma size_member: "(key, child) \<in> set members \<Longrightarrow> size child < size (JObject members)"
  by (induction members) auto

lemma size_element: "v \<in> set values \<Longrightarrow> size v < size (JArray values)"
  by (induction "values") auto

termination redact_sensitive_json
  by (relation "measure size") (auto dest: size_member size_element)

text \<open>The keys a value discloses, at any depth, and the leaves reached by a path of keys.\<close>

fun keys_of :: "json \<Rightarrow> string set" where
  "keys_of (JObject members) = (\<Union>(key, child)\<in>set members. insert key (keys_of child))"
| "keys_of (JArray values) = (\<Union>v\<in>set values. keys_of v)"
| "keys_of _ = {}"

text \<open>\<open>reaches path v w\<close>: the value \<open>w\<close> lies in \<open>v\<close> behind the object keys of \<open>path\<close>.\<close>

inductive reaches :: "string list \<Rightarrow> json \<Rightarrow> json \<Rightarrow> bool" where
  reaches_here: "reaches [] v v"
| reaches_member: "(key, child) \<in> set members \<Longrightarrow> reaches path child w \<Longrightarrow>
     reaches (key # path) (JObject members) w"
| reaches_element: "v \<in> set values \<Longrightarrow> reaches path v w \<Longrightarrow> reaches path (JArray values) w"

inductive_cases reaches_objectE: "reaches path (JObject members) w"

lemma redact_keys: "\<forall>key\<in>keys_of (redact_sensitive_json v). \<not> is_sensitive_key key"
  by (induction v rule: redact_sensitive_json.induct) fastforce+

lemma redact_same: "\<forall>key\<in>keys_of v. \<not> is_sensitive_key key \<Longrightarrow> redact_sensitive_json v = v"
proof (induction v rule: redact_sensitive_json.induct)
  case (1 members)
  have "filter (\<lambda>(key, child). \<not> is_sensitive_key key) members = members"
    using "1.prems" by (fastforce simp: filter_id_conv)
  moreover have "map (\<lambda>(key, child). (key, redact_sensitive_json child)) members = members"
    using "1.prems" "1.IH" by (intro map_idI) fastforce
  ultimately show ?case by simp
qed (auto intro: map_idI)

lemma reaches_redacted:
  "reaches path v w \<Longrightarrow> \<forall>key\<in>set path. \<not> is_sensitive_key key \<Longrightarrow>
     reaches path (redact_sensitive_json v) (redact_sensitive_json w)"
proof (induction rule: reaches.induct)
  case (reaches_member key child members path w)
  then have "(key, redact_sensitive_json child)
      \<in> set (map (\<lambda>(key, child). (key, redact_sensitive_json child))
            (filter (\<lambda>(key, child). \<not> is_sensitive_key key) members))"
    by force
  then show ?case
    using reaches_member by (simp del: set_map) (rule reaches.reaches_member, auto)
next
  case (reaches_element v "values" path w)
  then show ?case by (auto intro!: reaches.reaches_element [of "redact_sensitive_json v"])
qed (rule reaches_here)



end
