(* ===== verification/Routing.thy ===== *)
theory Routing
  imports Prelude Errors ElmConfig
begin

text \<open>
  \<^verbatim>\<open>src/src/routing.rs\<close>: the routing contract, its normalisation after parsing,
  and the tags of a request. Hash sets of tags are sets; finding and reading the contract file
  are not modelled, so normalisation starts from the parsed value.
\<close>

record routing_profiles =
  rp_version :: nat
  rp_workflow_profiles :: "string list btree btree"
  rp_keyword_tags :: "string list btree"
  rp_provider_specialties :: "string list btree"

definition normalize_key :: "string \<Rightarrow> string \<Rightarrow> string" where
  "normalize_key value default_key =
     (let normalized = to_ascii_lowercase (trim value)
      in if normalized = [] then default_key else normalized)"

fun keep_new :: "string list \<Rightarrow> string list \<Rightarrow> string list" where
  "keep_new seen [] = []"
| "keep_new seen (x # xs) = (if x \<in> set seen then keep_new seen xs else x # keep_new (x # seen) xs)"

definition normalize_values :: "string list \<Rightarrow> string list" where
  "normalize_values vs = keep_new [] (filter (\<lambda>v. v \<noteq> []) (map (\<lambda>v. normalize_key v []) vs))"

fun normalize_string_map_loop :: "string list btree \<Rightarrow> string list btree \<Rightarrow> string list btree" where
  "normalize_string_map_loop [] acc = acc"
| "normalize_string_map_loop ((k, vs) # rest) acc =
     (let key = normalize_key k []
      in if key = [] then normalize_string_map_loop rest acc
         else normalize_string_map_loop rest (bt_insert key (normalize_values vs) acc))"

definition normalize_string_map :: "string list btree \<Rightarrow> string list btree" where
  "normalize_string_map entries = normalize_string_map_loop entries []"

fun normalize_roles :: "string list btree \<Rightarrow> string list btree \<Rightarrow> string list btree" where
  "normalize_roles [] acc = acc"
| "normalize_roles ((role, tags) # rest) acc =
     normalize_roles rest (bt_insert (normalize_key role ''general'') (normalize_values tags) acc)"

fun normalize_nested_loop ::
  "string list btree btree \<Rightarrow> string list btree btree \<Rightarrow> string list btree btree" where
  "normalize_nested_loop [] acc = acc"
| "normalize_nested_loop ((workflow, roles) # rest) acc =
     (let key = normalize_key workflow []
      in if key = [] then normalize_nested_loop rest acc
         else normalize_nested_loop rest (bt_insert key (normalize_roles roles []) acc))"

definition normalize_nested_profiles :: "string list btree btree \<Rightarrow> string list btree btree" where
  "normalize_nested_profiles entries = normalize_nested_loop entries []"

definition normalize_profiles :: "routing_profiles \<Rightarrow> routing_profiles" where
  "normalize_profiles p =
     \<lparr>rp_version = max (rp_version p) 1,
      rp_workflow_profiles = normalize_nested_profiles (rp_workflow_profiles p),
      rp_keyword_tags = normalize_string_map (rp_keyword_tags p),
      rp_provider_specialties = normalize_string_map (rp_provider_specialties p)\<rparr>"

definition workflow_tags :: "routing_profiles \<Rightarrow> string \<Rightarrow> string \<Rightarrow> string \<Rightarrow> string set" where
  "workflow_tags p workflow role text =
     (let w = normalize_key workflow ''general'';
          r = normalize_key role ''general'';
          profile_tags = (case map_of (rp_workflow_profiles p) w of
              None \<Rightarrow> {}
            | Some entries \<Rightarrow> set (unwrap_or [] (map_of entries ''general''))
                             \<union> set (unwrap_or [] (map_of entries r)));
          lowered = to_ascii_lowercase text
      in profile_tags \<union> set (map fst (filter (\<lambda>(tag, keywords).
            \<exists>keyword\<in>set keywords. str_contains lowered keyword) (rp_keyword_tags p))))"

definition base_provider_specialties :: "routing_profiles \<Rightarrow> string \<Rightarrow> string set" where
  "base_provider_specialties p provider_type =
     set (unwrap_or [] (map_of (rp_provider_specialties p) (normalize_key provider_type [])))"

definition resolve_routing_profiles_path ::
  "(string \<Rightarrow> bool) \<Rightarrow> string \<Rightarrow> string option \<Rightarrow> string option \<Rightarrow> gail_error + string" where
  "resolve_routing_profiles_path is_file manifest_dir env_path explicit =
     (let candidates = (case explicit of None \<Rightarrow> [] | Some path \<Rightarrow> [path])
            @ (case env_path of
                 None \<Rightarrow> []
               | Some raw \<Rightarrow> if trim raw = [] then [] else [trim raw])
            @ [''config/ai-routing-profiles.json'', manifest_dir @ ''/config/ai-routing-profiles.json'']
      in case find is_file candidates of
           Some candidate \<Rightarrow> Inr candidate
         | None \<Rightarrow> Inl (InvalidConfig ''no Gail routing-profiles contract file could be resolved''))"

section \<open>Normal keys\<close>

definition normal_key :: "string \<Rightarrow> bool" where
  "normal_key k \<longleftrightarrow> k \<noteq> [] \<and> to_ascii_lowercase (trim k) = k"

lemma ascii_lower_whitespace: "is_whitespace (ascii_lower c) = is_whitespace c"
  by (auto simp: is_whitespace_def ascii_lower_def code_point_def Let_def)

lemma ascii_lower_lower: "ascii_lower (ascii_lower c) = ascii_lower c"
  by (simp add: ascii_lower_def code_point_def Let_def)

lemma dropWhile_lower: "dropWhile is_whitespace (map ascii_lower s) = map ascii_lower (dropWhile is_whitespace s)"
  by (induction s) (simp_all add: ascii_lower_whitespace)

lemma trim_lower: "trim (to_ascii_lowercase s) = to_ascii_lowercase (trim s)"
  by (simp add: trim_def trim_end_by_def to_ascii_lowercase_def dropWhile_lower rev_map)

lemma trim_end_idem: "trim_end_by p (trim_end_by p s) = trim_end_by p s"
  by (simp add: trim_end_by_def)

lemma dropWhile_trim_end:
  "dropWhile p (trim_end_by p (dropWhile p s)) = trim_end_by p (dropWhile p s)"
proof (cases "dropWhile p s")
  case Nil
  show ?thesis unfolding Nil by (simp add: trim_end_by_def)
next
  case (Cons a u)
  then have "\<not> p a" by (metis hd_dropWhile list.distinct(1) list.sel(1))
  then have "trim_end_by p (a # u) = a # trim_end_by p u"
    by (simp add: trim_end_by_def dropWhile_append)
  then show ?thesis using Cons \<open>\<not> p a\<close> by simp
qed

lemma trim_idem [simp]: "trim (trim s) = trim s"
  by (simp add: trim_def dropWhile_trim_end trim_end_idem)

lemma lowercase_trim_idem: "to_ascii_lowercase (trim (to_ascii_lowercase (trim s))) = to_ascii_lowercase (trim s)"
  by (simp add: trim_lower)

lemma normalize_key_normal: "normalize_key k [] \<noteq> [] \<Longrightarrow> normal_key (normalize_key k [])"
  by (auto simp: normalize_key_def normal_key_def Let_def lowercase_trim_idem split: if_splits)

lemma normalize_key_general: "normal_key (normalize_key k ''general'')"
proof (cases "to_ascii_lowercase (trim k) = []")
  case True
  have "normal_key ''general''" by code_simp
  then show ?thesis using True by (simp add: normalize_key_def)
next
  case False
  then show ?thesis by (simp add: normalize_key_def normal_key_def Let_def lowercase_trim_idem)
qed

lemma normal_key_fixed: "normal_key k \<Longrightarrow> normalize_key k d = k"
  by (simp add: normal_key_def normalize_key_def Let_def)

section \<open>Normal values and maps\<close>

definition normal_values :: "string list \<Rightarrow> bool" where
  "normal_values vs \<longleftrightarrow> distinct vs \<and> (\<forall>v\<in>set vs. normal_key v)"

lemma keep_new_facts:
  "distinct (keep_new seen xs) \<and> set (keep_new seen xs) = set xs - set seen"
  by (induction seen xs rule: keep_new.induct) auto

lemma keep_new_distinct: "distinct xs \<Longrightarrow> set xs \<inter> set seen = {} \<Longrightarrow> keep_new seen xs = xs"
  by (induction seen xs rule: keep_new.induct) auto

lemma normalize_values_normal: "normal_values (normalize_values vs)"
  using keep_new_facts normalize_key_normal by (auto simp: normal_values_def normalize_values_def)

lemma normalize_values_fixed:
  assumes "normal_values vs"
  shows "normalize_values vs = vs"
proof -
  have "map (\<lambda>v. normalize_key v []) vs = vs"
    using assms by (intro map_idI) (auto simp: normal_values_def normal_key_fixed)
  moreover have "filter (\<lambda>v. v \<noteq> []) vs = vs"
    using assms by (auto simp: normal_values_def normal_key_def filter_id_conv)
  ultimately show ?thesis
    using assms keep_new_distinct [of vs "[]"] by (simp add: normalize_values_def normal_values_def)
qed

definition normal_map :: "('v \<Rightarrow> bool) \<Rightarrow> 'v btree \<Rightarrow> bool" where
  "normal_map P m \<longleftrightarrow> bt_wf m \<and> (\<forall>(k, v)\<in>set m. normal_key k \<and> P v)"

lemma normal_map_insert:
  assumes "normal_map P m" "normal_key k" "P v"
  shows "normal_map P (bt_insert k v m)"
proof -
  have "set (bt_insert k v m) \<subseteq> insert (k, v) (set m)"
    by (induction k v m rule: bt_insert.induct) auto
  then show ?thesis using assms by (auto simp: normal_map_def bt_wf_insert)
qed

lemma bt_insert_last: "bt_wf (m @ [(k, v)]) \<Longrightarrow> bt_insert k v m = m @ [(k, v)]"
  by (induction m) (auto simp: bt_wf_def)

lemma string_map_normal:
  "normal_map normal_values acc \<Longrightarrow> normal_map normal_values (normalize_string_map_loop entries acc)"
  by (induction entries acc rule: normalize_string_map_loop.induct)
     (auto simp: Let_def normal_map_insert normalize_key_normal normalize_values_normal)

lemma roles_normal:
  "normal_map normal_values acc \<Longrightarrow> normal_map normal_values (normalize_roles entries acc)"
  by (induction entries acc rule: normalize_roles.induct)
     (auto simp: normal_map_insert normalize_key_general normalize_values_normal)

lemma normal_map_Nil [simp]: "normal_map P []"
  by (simp add: normal_map_def bt_wf_def)

lemma nested_normal:
  "normal_map (normal_map normal_values) acc \<Longrightarrow>
     normal_map (normal_map normal_values) (normalize_nested_loop entries acc)"
proof (induction entries acc rule: normalize_nested_loop.induct)
  case (2 workflow roles rest acc)
  then show ?case
    using normal_map_insert [OF "2.prems" normalize_key_normal roles_normal [OF normal_map_Nil]]
    by (simp add: Let_def)
qed simp

text \<open>A map that is normal is its own normalisation: the loop appends each entry at the end.\<close>

lemma normal_map_snoc_D: "normal_map P (m @ [e]) \<Longrightarrow> normal_map P m"
  by (auto simp: normal_map_def bt_wf_def sorted_wrt_append)

lemma string_map_fixed:
  "normal_map normal_values (acc @ entries) \<Longrightarrow> normalize_string_map_loop entries acc = acc @ entries"
proof (induction entries acc rule: normalize_string_map_loop.induct)
  case (2 k vs rest acc)
  have k: "normal_key k" "normal_values vs" and wf: "bt_wf (acc @ [(k, vs)])"
    using "2.prems" by (auto simp: normal_map_def bt_wf_def sorted_wrt_append)
  then have "normalize_key k [] \<noteq> []" by (simp add: normal_key_fixed) (simp add: normal_key_def)
  then show ?case
    using "2.IH" "2.prems" k bt_insert_last [OF wf]
    by (simp add: Let_def normal_key_fixed normalize_values_fixed)
qed simp

lemma roles_fixed:
  "normal_map normal_values (acc @ entries) \<Longrightarrow> normalize_roles entries acc = acc @ entries"
proof (induction entries acc rule: normalize_roles.induct)
  case (2 k vs rest acc)
  have k: "normal_key k" "normal_values vs" and wf: "bt_wf (acc @ [(k, vs)])"
    using "2.prems" by (auto simp: normal_map_def bt_wf_def sorted_wrt_append)
  then show ?case
    using "2.IH" "2.prems" bt_insert_last [OF wf]
    by (simp add: normal_key_fixed normalize_values_fixed)
qed simp

lemma nested_fixed:
  "normal_map (normal_map normal_values) (acc @ entries) \<Longrightarrow> normalize_nested_loop entries acc = acc @ entries"
proof (induction entries acc rule: normalize_nested_loop.induct)
  case (2 k roles rest acc)
  have k: "normal_key k" "normal_map normal_values roles" and wf: "bt_wf (acc @ [(k, roles)])"
    using "2.prems" by (auto simp: normal_map_def bt_wf_def sorted_wrt_append)
  then have "normalize_key k [] \<noteq> []" by (simp add: normal_key_fixed) (simp add: normal_key_def)
  then show ?case
    using "2.IH" "2.prems" k bt_insert_last [OF wf] roles_fixed [of "[]" roles]
    by (simp add: Let_def normal_key_fixed)
qed simp

definition normal_profiles :: "routing_profiles \<Rightarrow> bool" where
  "normal_profiles p \<longleftrightarrow>
     1 \<le> rp_version p
     \<and> normal_map (normal_map normal_values) (rp_workflow_profiles p)
     \<and> normal_map normal_values (rp_keyword_tags p)
     \<and> normal_map normal_values (rp_provider_specialties p)"

lemma normalize_profiles_normal: "normal_profiles (normalize_profiles p)"
  by (simp add: normal_profiles_def normalize_profiles_def normalize_nested_profiles_def
      normalize_string_map_def nested_normal string_map_normal)

lemma normalize_profiles_fixed: "normal_profiles p \<Longrightarrow> normalize_profiles p = p"
  using nested_fixed [of "[]"] string_map_fixed [of "[]"]
  by (simp add: normal_profiles_def normalize_profiles_def normalize_nested_profiles_def
      normalize_string_map_def)

text \<open>Normalising the routing contract puts it in normal form, where keys and values are
  trimmed, lower case and nonblank, values are not repeated and keys are in order, and changes
  nothing when it is in normal form already; so normalising twice is normalising once.\<close>

theorem normalize_profiles_is_a_projection:
  "normal_profiles (normalize_profiles p)
     \<and> normalize_profiles (normalize_profiles p) = normalize_profiles p"
  using normalize_profiles_normal normalize_profiles_fixed by blast

lemma workflow_tags_general:
  "workflow_tags p workflow ''general'' text \<subseteq> workflow_tags p workflow role text"
proof -
  have "normalize_key ''general'' ''general'' = ''general''" by code_simp
  then show ?thesis
    by (auto simp: workflow_tags_def Let_def split: option.splits)
qed

lemma ascii_lower_upper: "ascii_lower (ascii_upper c) = ascii_lower c"
proof (cases "97 \<le> code_point c \<and> code_point c \<le> 122")
  case True
  then have "(code_point c - 32) mod 256 = code_point c - 32" by (intro mod_less) arith
  then have "code_point (char_of (code_point c - 32)) = code_point c - 32"
    by (simp add: code_point_def)
  moreover have "ascii_upper c = char_of (code_point c - 32)" using True by (simp add: ascii_upper_def)
  moreover have "char_of (code_point c - 32 + 32) = c" using True by (simp add: code_point_def)
  moreover have "65 \<le> code_point c - 32 \<and> code_point c - 32 \<le> 90" using True by arith
  moreover have "ascii_lower c = c" using True by (simp add: ascii_lower_def)
  ultimately show ?thesis by (simp add: ascii_lower_def)
next
  case False
  then have "ascii_upper c = c" by (auto simp: ascii_upper_def Let_def)
  then show ?thesis by simp
qed

lemma ascii_upper_whitespace: "is_whitespace (ascii_upper c) = is_whitespace c"
  by (auto simp: is_whitespace_def ascii_upper_def code_point_def Let_def)

lemma dropWhile_upper: "dropWhile is_whitespace (map ascii_upper s) = map ascii_upper (dropWhile is_whitespace s)"
  by (induction s) (simp_all add: ascii_upper_whitespace)

lemma normalize_key_upper: "normalize_key (to_ascii_uppercase s) d = normalize_key s d"
  by (simp add: normalize_key_def trim_def trim_end_by_def to_ascii_uppercase_def to_ascii_lowercase_def
      dropWhile_upper rev_map ascii_lower_upper comp_def)

lemma normalize_key_trim: "normalize_key (trim s) d = normalize_key s d"
  by (simp add: normalize_key_def)

lemma lowercase_idem: "to_ascii_lowercase (to_ascii_lowercase s) = to_ascii_lowercase s"
  by (simp add: to_ascii_lowercase_def ascii_lower_lower comp_def)

text \<open>The tags of a request do not depend on how its workflow, role and text are written in
  upper or lower case or on blanks around the names, and every role has the general tags of
  its workflow.\<close>

theorem workflow_tags_ignore_case:
  "workflow_tags p (to_ascii_uppercase workflow) role text = workflow_tags p workflow role text
     \<and> workflow_tags p (trim workflow) (trim role) (to_ascii_lowercase text)
         = workflow_tags p workflow role text
     \<and> workflow_tags p workflow ''general'' text \<subseteq> workflow_tags p workflow role text"
  by (intro conjI workflow_tags_general)
    (simp_all only: workflow_tags_def normalize_key_upper normalize_key_trim lowercase_idem)

end
