(* ===== verification/Environment.thy ===== *)
theory Environment
  imports Prelude Float64 ElmConfig
begin

text \<open>
  \<^verbatim>\<open>src/src/orchestration.rs\<close>: the readers of environment variables that tune the
  orchestration, over an environment \<open>env\<close> from names to values, and the standard library's
  decimal parser of \<open>f64\<close> they and the model-size parser rely on.
\<close>

section \<open>Characters\<close>

definition is_ascii_digit :: "char \<Rightarrow> bool" where
  "is_ascii_digit c = (48 \<le> code_point c \<and> code_point c \<le> 57)"

definition is_ascii_alphanumeric :: "char \<Rightarrow> bool" where
  "is_ascii_alphanumeric c =
     (let n = code_point c
      in 48 \<le> n \<and> n \<le> 57 \<or> 65 \<le> n \<and> n \<le> 90 \<or> 97 \<le> n \<and> n \<le> 122)"

text \<open>\<open>str::split\<close> on a character.\<close>

fun split_on :: "char \<Rightarrow> string \<Rightarrow> string list" where
  "split_on sep [] = [[]]"
| "split_on sep (c # cs) =
     (if c = sep then [] # split_on sep cs
      else case split_on sep cs of [] \<Rightarrow> [[c]] | w # ws \<Rightarrow> (c # w) # ws)"

section \<open>Decimal numbers\<close>

fun digits_value :: "nat \<Rightarrow> string \<Rightarrow> nat" where
  "digits_value acc [] = acc"
| "digits_value acc (c # cs) = digits_value (acc * 10 + (code_point c - 48)) cs"

definition strip_sign :: "string \<Rightarrow> bool \<times> string" where
  "strip_sign s = (case s of
     c # cs \<Rightarrow> if c = CHR ''-'' then (True, cs) else if c = CHR ''+'' then (False, cs) else (False, s)
   | [] \<Rightarrow> (False, []))"

definition parse_exponent :: "string \<Rightarrow> int option" where
  "parse_exponent s =
     (case strip_sign s of (negative, ds) \<Rightarrow>
        if ds = [] \<or> (\<exists>c\<in>set ds. \<not> is_ascii_digit c) then None
        else Some (if negative then - int (digits_value 0 ds) else int (digits_value 0 ds)))"

definition parse_f64 :: "string \<Rightarrow> f64 option" where
  "parse_f64 s =
     (case strip_sign s of (negative, body) \<Rightarrow>
        let lowered = to_ascii_lowercase body;
            whole = takeWhile is_ascii_digit body;
            rest = dropWhile is_ascii_digit body;
            (fraction, rest') = (case rest of
                c # r \<Rightarrow> if c = CHR ''.'' then (takeWhile is_ascii_digit r, dropWhile is_ascii_digit r)
                          else ([], rest)
              | [] \<Rightarrow> ([], []));
            exponent = (case rest' of
                [] \<Rightarrow> Some 0
              | c # r \<Rightarrow> if c = CHR ''e'' \<or> c = CHR ''E'' then parse_exponent r else None)
        in if lowered = ''inf'' \<or> lowered = ''infinity'' then Some (if negative then NInf else PInf)
           else if lowered = ''nan'' then Some NaN
           else if whole @ fraction = [] then None
           else map_option (\<lambda>e.
             let q = of_nat (digits_value 0 (whole @ fraction)) * 10 powi (e - int (length fraction))
             in rnd (if negative then - q else q)) exponent)"

section \<open>Environment variables\<close>

type_synonym environment = "string \<Rightarrow> string option"

definition parse_bool :: "string \<Rightarrow> bool \<Rightarrow> bool" where
  "parse_bool value default_value =
     (let v = to_ascii_lowercase (trim value)
      in if v \<in> {''1'', ''true'', ''yes'', ''on''} then True
         else if v \<in> {''0'', ''false'', ''no'', ''off''} then False
         else default_value)"

fun env_bool_any :: "environment \<Rightarrow> string list \<Rightarrow> bool \<Rightarrow> bool" where
  "env_bool_any env [] default_value = default_value"
| "env_bool_any env (name # names) default_value =
     (case env name of
        Some value \<Rightarrow> parse_bool value default_value
      | None \<Rightarrow> env_bool_any env names default_value)"

fun env_string_any :: "environment \<Rightarrow> string list \<Rightarrow> string option" where
  "env_string_any env [] = None"
| "env_string_any env (name # names) =
     (case env name of
        None \<Rightarrow> env_string_any env names
      | Some value \<Rightarrow>
          let trimmed = trim value
          in if trimmed = [] \<or> to_ascii_lowercase trimmed \<in> {''none'', ''null'', ''nil'', ''undefined''}
             then env_string_any env names
             else Some (trim_end_by (\<lambda>c. c = CHR ''/'') trimmed))"

fun env_int_any :: "environment \<Rightarrow> string list \<Rightarrow> nat \<Rightarrow> nat" where
  "env_int_any env [] default_value = default_value"
| "env_int_any env (name # names) default_value =
     (case env name of
        None \<Rightarrow> env_int_any env names default_value
      | Some value \<Rightarrow>
          case parse_unsigned usize_max (trim value) of
            Inr parsed \<Rightarrow> parsed
          | Inl _ \<Rightarrow> env_int_any env names default_value)"

fun env_float_any :: "environment \<Rightarrow> string list \<Rightarrow> f64 \<Rightarrow> f64" where
  "env_float_any env [] default_value = default_value"
| "env_float_any env (name # names) default_value =
     (case env name of
        None \<Rightarrow> env_float_any env names default_value
      | Some value \<Rightarrow>
          case parse_f64 (trim value) of
            Some parsed \<Rightarrow> parsed
          | None \<Rightarrow> env_float_any env names default_value)"

lemma env_unset [simp]:
  "(\<forall>n\<in>set names. env n = None) \<Longrightarrow> env_bool_any env names b = b"
  "(\<forall>n\<in>set names. env n = None) \<Longrightarrow> env_string_any env names = None"
  "(\<forall>n\<in>set names. env n = None) \<Longrightarrow> env_int_any env names i = i"
  "(\<forall>n\<in>set names. env n = None) \<Longrightarrow> env_float_any env names f = f"
  by (induction names) auto

lemma split_on_nonempty [simp]: "split_on sep s \<noteq> []"
  by (induction s) (auto split: list.splits)

lemma split_on_words: "w \<in> set (split_on sep s) \<Longrightarrow> sep \<notin> set w"
proof (induction s arbitrary: w)
  case (Cons c cs)
  then show ?case by (cases "split_on sep cs") (auto split: if_splits)
qed simp

lemma split_on_join:
  "ws \<noteq> [] \<Longrightarrow> \<forall>w\<in>set ws. sep \<notin> set w \<Longrightarrow> split_on sep (join_with [sep] ws) = ws"
proof (induction "[sep]" ws rule: join_with.induct)
  case (2 x)
  then have "sep \<notin> set x" by simp
  then show ?case by (induction x) auto
next
  case (3 x y ys)
  then have "sep \<notin> set x" "split_on sep (join_with [sep] (y # ys)) = y # ys" by auto
  then show ?case by (induction x) (auto split: list.splits)
qed simp

lemma split_on_concat: "concat (split_on sep s) = filter (\<lambda>c. c \<noteq> sep) s"
  by (induction s) (auto split: list.splits)

lemma split_on_chars: "w \<in> set (split_on sep s) \<Longrightarrow> set w \<subseteq> set s"
proof -
  assume "w \<in> set (split_on sep s)"
  then have "set w \<subseteq> set (concat (split_on sep s))" by auto
  then show ?thesis by (auto simp: split_on_concat)
qed

end
