(* ===== verification/Candidates.thy ===== *)
theory Candidates
  imports Environment PromptBudget Routing
begin

text \<open>
  \<^verbatim>\<open>src/src/orchestration.rs\<close>: the provider candidates of the orchestration, with their
  identities, usability, roles, size tiers and the strict model policy, and the provider profile of
  \<^verbatim>\<open>src/src/config.rs\<close> they are built from. The parser of endpoint URLs is a third-party
  package and the parameter \<open>parse_url\<close>; the routing contract is a parameter as well.
\<close>

section \<open>Profiles and candidates\<close>

record provider_profile =
  pf_name :: string
  pf_provider_type :: string
  pf_model :: "string option"
  pf_api_key :: "string option"
  pf_access_token :: "string option"
  pf_base_url :: "string option"
  pf_context_window_tokens :: "nat option"
  pf_roles :: "string list"
  pf_specialties :: "string list"
  pf_weight :: f64
  pf_preferred :: bool
  pf_source :: "string option"
  pf_host_group :: "string option"
  pf_priority_bias :: f64
  pf_usage_penalty_decay_seconds :: f64
  pf_max_concurrent_requests :: "nat option"
  pf_resource_cost_cpu :: f64
  pf_resource_cost_ram_mb :: u64
  pf_resource_cost_vram_mb :: u64
  pf_host_cpu_budget :: "f64 option"
  pf_host_ram_budget_mb :: "u64 option"
  pf_host_vram_budget_mb :: "u64 option"
  pf_nmc_agent_id :: "string option"
  pf_nmc_host :: "string option"

definition default_provider_profile :: provider_profile where
  "default_provider_profile =
     \<lparr>pf_name = [], pf_provider_type = [], pf_model = None, pf_api_key = None,
      pf_access_token = None, pf_base_url = None, pf_context_window_tokens = None, pf_roles = [],
      pf_specialties = [], pf_weight = Fin 0, pf_preferred = False, pf_source = None,
      pf_host_group = None, pf_priority_bias = Fin 0, pf_usage_penalty_decay_seconds = Fin 600,
      pf_max_concurrent_requests = None, pf_resource_cost_cpu = Fin 0, pf_resource_cost_ram_mb = 0,
      pf_resource_cost_vram_mb = 0, pf_host_cpu_budget = None, pf_host_ram_budget_mb = None,
      pf_host_vram_budget_mb = None, pf_nmc_agent_id = None, pf_nmc_host = None\<rparr>"

record provider_candidate =
  pc_profile :: provider_profile
  pc_source :: string
  pc_provider_type :: string
  pc_configured_model :: string
  pc_preferred :: bool
  pc_weight :: f64
  pc_specialties :: "string set"
  pc_roles :: "string set"
  pc_host_group :: "string option"
  pc_priority_bias :: f64
  pc_usage_penalty_decay_seconds :: f64
  pc_max_concurrent_requests :: "nat option"
  pc_resource_cost_cpu :: f64
  pc_resource_cost_ram_mb :: u64
  pc_resource_cost_vram_mb :: u64
  pc_host_cpu_budget :: "f64 option"
  pc_host_ram_budget_mb :: "u64 option"
  pc_host_vram_budget_mb :: "u64 option"
  pc_nmc_agent_id :: "string option"
  pc_nmc_host :: "string option"

definition normalize_provider_type :: "string \<Rightarrow> string" where
  "normalize_provider_type raw =
     (let cleaned = to_ascii_lowercase (trim raw)
      in if cleaned = ''chatgpt'' \<or> cleaned = ''gpt'' then ''openai''
         else if cleaned = ''google'' then ''gemini''
         else if cleaned = ''nim'' \<or> cleaned = ''nvidia_nim'' then ''nvidia''
         else cleaned)"

definition infer_specialties ::
  "routing_profiles \<Rightarrow> string \<Rightarrow> string \<Rightarrow> string option \<Rightarrow> string list \<Rightarrow> string set" where
  "infer_specialties profiles provider_type model source configured =
     (let m = to_ascii_lowercase model
      in base_provider_specialties profiles provider_type
         \<union> (if str_contains m ''codex'' then {''code'', ''planning'', ''review''} else {})
         \<union> (if str_contains m ''flash'' \<or> str_contains m ''mini'' \<or> str_contains m ''small''
             then {''fast''} else {})
         \<union> (if str_contains m ''pro'' \<or> str_contains m ''o3'' \<or> str_contains m ''o4''
             then {''reasoning''} else {})
         \<union> (if str_contains m ''embed'' then {''retrieval''} else {})
         \<union> (if str_contains (to_ascii_lowercase (unwrap_or [] source)) ''local''
             then {''local''} else {})
         \<union> set (filter (\<lambda>item. item \<noteq> []) (map (\<lambda>item. normalize_key item ''general'') configured)))"

definition option_filter :: "('a \<Rightarrow> bool) \<Rightarrow> 'a option \<Rightarrow> 'a option" where
  "option_filter p x = (case x of None \<Rightarrow> None | Some a \<Rightarrow> if p a then Some a else None)"

definition from_profile :: "routing_profiles \<Rightarrow> provider_profile \<Rightarrow> provider_candidate" where
  "from_profile profiles profile0 =
     (let provider_type = normalize_provider_type (pf_provider_type profile0);
          profile = (if trim (pf_name profile0) = [] then profile0\<lparr>pf_name := provider_type\<rparr> else profile0);
          configured_model = unwrap_or [] (pf_model profile)
      in \<lparr>pc_profile = profile,
          pc_source = unwrap_or ''config'' (pf_source profile),
          pc_provider_type = provider_type,
          pc_configured_model = configured_model,
          pc_preferred = pf_preferred profile,
          pc_weight = pf_weight profile,
          pc_specialties = infer_specialties profiles provider_type configured_model (pf_source profile)
                             (pf_specialties profile),
          pc_roles = set (map (\<lambda>item. normalize_key item ''general'') (pf_roles profile)),
          pc_host_group = pf_host_group profile,
          pc_priority_bias = pf_priority_bias profile,
          pc_usage_penalty_decay_seconds = f_max (pf_usage_penalty_decay_seconds profile) (Fin 30),
          pc_max_concurrent_requests = map_option (\<lambda>v. max v 1) (pf_max_concurrent_requests profile),
          pc_resource_cost_cpu = f_max (pf_resource_cost_cpu profile) (Fin 0),
          pc_resource_cost_ram_mb = pf_resource_cost_ram_mb profile,
          pc_resource_cost_vram_mb = pf_resource_cost_vram_mb profile,
          pc_host_cpu_budget = option_filter (\<lambda>v. f_lt (Fin 0) v) (pf_host_cpu_budget profile),
          pc_host_ram_budget_mb = option_filter (\<lambda>v. 0 < v) (pf_host_ram_budget_mb profile),
          pc_host_vram_budget_mb = option_filter (\<lambda>v. 0 < v) (pf_host_vram_budget_mb profile),
          pc_nmc_agent_id = pf_nmc_agent_id profile,
          pc_nmc_host = pf_nmc_host profile\<rparr>)"

section \<open>Identities\<close>

record parsed_url =
  url_host :: "string option"
  url_port_or_known_default :: "nat option"
  url_path :: string

definition is_slash :: "char \<Rightarrow> bool" where
  "is_slash c = (c = CHR ''/'')"

definition sanitize_candidate_scope :: "string \<Rightarrow> string \<Rightarrow> string" where
  "sanitize_candidate_scope value fallback =
     (let mapped = map (\<lambda>c. if is_ascii_alphanumeric c then ascii_lower c else CHR ''_'') value;
          collapsed = join_with ''_'' (filter (\<lambda>item. item \<noteq> []) (split_on CHR ''_'' mapped))
      in if collapsed = [] then fallback else collapsed)"

definition candidate_scope_from_base_url ::
  "(string \<Rightarrow> parsed_url option) \<Rightarrow> string \<Rightarrow> string option" where
  "candidate_scope_from_base_url parse_url base_url =
     (let trimmed = trim base_url
      in if trimmed = [] then None
         else let with_scheme = (if str_contains trimmed ''://'' then trimmed else ''http://'' @ trimmed)
         in case parse_url with_scheme of
              None \<Rightarrow> None
            | Some parsed \<Rightarrow>
                (case url_host parsed of
                   None \<Rightarrow> None
                 | Some host \<Rightarrow>
                     let path = trim_end_by is_slash (dropWhile is_slash (url_path parsed));
                         scope = to_ascii_lowercase host
                           @ (case url_port_or_known_default parsed of
                                None \<Rightarrow> [] | Some port \<Rightarrow> ''_'' @ decimal port)
                           @ (if path = [] then [] else ''_'' @ path)
                     in Some (sanitize_candidate_scope scope ''endpoint'')))"

definition is_ollama_candidate :: "provider_candidate \<Rightarrow> bool" where
  "is_ollama_candidate c = eq_ignore_ascii_case (pc_provider_type c) ''ollama''"

definition endpoint_scope ::
  "(string \<Rightarrow> parsed_url option) \<Rightarrow> provider_candidate \<Rightarrow> string option" where
  "endpoint_scope parse_url c =
     (let from_url = Option.bind (pf_base_url (pc_profile c)) (candidate_scope_from_base_url parse_url)
      in if is_ollama_candidate c
         then let explicit_name = trim (pf_name (pc_profile c))
              in if explicit_name \<noteq> [] \<and> \<not> eq_ignore_ascii_case explicit_name (pc_provider_type c)
                 then Some (sanitize_candidate_scope explicit_name ''endpoint'')
                 else from_url
         else if \<not> eq_ignore_ascii_case (pc_provider_type c) ''openai'' then None
         else from_url)"

definition model_or_default :: "provider_candidate \<Rightarrow> string" where
  "model_or_default c =
     (if trim (pc_configured_model c) = [] then ''default'' else trim (pc_configured_model c))"

definition candidate_id :: "(string \<Rightarrow> parsed_url option) \<Rightarrow> provider_candidate \<Rightarrow> string" where
  "candidate_id parse_url c =
     pc_provider_type c @ ''/'' @ model_or_default c
     @ (case endpoint_scope parse_url c of None \<Rightarrow> [] | Some scope \<Rightarrow> ''@'' @ scope)"

definition candidate_label :: "provider_candidate \<Rightarrow> string option \<Rightarrow> string" where
  "candidate_label c resolved_model =
     (let resolved = unwrap_or (model_or_default c) (option_filter (\<lambda>v. trim v \<noteq> []) resolved_model);
          configured = trim (pc_configured_model c)
      in if configured \<noteq> [] \<and> configured \<noteq> resolved
         then pc_provider_type c @ ''/'' @ resolved @ '' (configured '' @ configured @ '')''
         else pc_provider_type c @ ''/'' @ resolved)"

definition candidate_host_label :: "provider_candidate \<Rightarrow> string" where
  "candidate_host_label c =
     (case pc_host_group c of Some h \<Rightarrow> h
      | None \<Rightarrow> (case pc_nmc_host c of Some h \<Rightarrow> h
      | None \<Rightarrow> unwrap_or ''unknown'' (pf_base_url (pc_profile c))))"

record candidate_summary =
  cs_candidate_id :: string
  cs_provider :: string
  cs_model :: string
  cs_configured_model :: string
  cs_resolved_model :: string
  cs_source :: string
  cs_host_id :: "string option"
  cs_specialties :: "string list"
  cs_roles :: "string list"

definition sorted_strings :: "string set \<Rightarrow> string list" where
  "sorted_strings values = sorted_list_of_set values"

definition candidate_summary_of ::
  "(string \<Rightarrow> parsed_url option) \<Rightarrow> provider_candidate \<Rightarrow> string option \<Rightarrow> candidate_summary" where
  "candidate_summary_of parse_url c resolved_model =
     (let resolved = unwrap_or (model_or_default c) (option_filter (\<lambda>v. trim v \<noteq> []) resolved_model)
      in \<lparr>cs_candidate_id = candidate_id parse_url c,
          cs_provider = pc_provider_type c,
          cs_model = resolved,
          cs_configured_model = (if trim (pc_configured_model c) = [] then resolved
                                 else pc_configured_model c),
          cs_resolved_model = resolved,
          cs_source = pc_source c,
          cs_host_id = Some (candidate_host_label c),
          cs_specialties = sorted_strings (pc_specialties c),
          cs_roles = sorted_strings (pc_roles c)\<rparr>)"

definition candidate_attempt_key :: "provider_candidate \<Rightarrow> string" where
  "candidate_attempt_key c =
     pc_provider_type c @ ''::'' @ trim (pc_configured_model c) @ ''::''
     @ trim (unwrap_or [] (pf_base_url (pc_profile c)))"

definition candidate_model_key :: "provider_candidate \<Rightarrow> string" where
  "candidate_model_key c =
     to_ascii_lowercase (trim (pc_provider_type c)) @ ''::''
     @ to_ascii_lowercase (trim (pc_configured_model c))"

fun dedupe_loop :: "string set \<Rightarrow> provider_candidate list \<Rightarrow> provider_candidate list" where
  "dedupe_loop seen [] = []"
| "dedupe_loop seen (c # cs) =
     (let key = candidate_attempt_key c
      in if key \<in> seen then dedupe_loop seen cs else c # dedupe_loop (insert key seen) cs)"

definition dedupe_candidates :: "provider_candidate list \<Rightarrow> provider_candidate list" where
  "dedupe_candidates cs = dedupe_loop {} cs"

section \<open>Usability\<close>

definition looks_like_placeholder_secret :: "string \<Rightarrow> bool" where
  "looks_like_placeholder_secret value =
     (let trimmed = trim value; lowered = to_ascii_lowercase trimmed
      in lowered \<in> {''none'', ''null'', ''nil'', ''undefined'', ''changeme'', ''replace_me'', ''redacted'',
                    ''<redacted>'', ''***''}
         \<or> starts_with trimmed ''${''
         \<or> starts_with trimmed ''$'' \<and> 1 < utf8_len trimmed
         \<or> starts_with trimmed ''{{'' \<and> ends_with trimmed ''}}'')"

definition has_usable_value :: "string option \<Rightarrow> bool" where
  "has_usable_value value =
     (case option_filter (\<lambda>v. v \<noteq> []) (map_option trim value) of
        None \<Rightarrow> False | Some v \<Rightarrow> \<not> looks_like_placeholder_secret v)"

definition env_has_usable_value :: "environment \<Rightarrow> string list \<Rightarrow> bool" where
  "env_has_usable_value env names = (\<exists>name\<in>set names. has_usable_value (env name))"

definition provider_profile_is_usable :: "environment \<Rightarrow> provider_profile \<Rightarrow> bool" where
  "provider_profile_is_usable env profile =
     (let provider_type = normalize_provider_type (pf_provider_type profile)
      in if trim provider_type = [] then False
         else if provider_type = ''openai''
         then has_usable_value (pf_api_key profile) \<or> env_has_usable_value env [''OPENAI_API_KEY'']
         else if provider_type = ''nvidia''
         then has_usable_value (pf_api_key profile) \<or> env_has_usable_value env [''NVIDIA_API_KEY'']
         else if provider_type = ''gemini''
         then has_usable_value (pf_api_key profile) \<or> has_usable_value (pf_access_token profile)
              \<or> env_has_usable_value env
                  [''GEMINI_API_KEY'', ''GEMINI_ACCESS_TOKEN'', ''GOOGLE_ACCESS_TOKEN'']
         else True)"

definition candidate_supports_role :: "provider_candidate \<Rightarrow> string \<Rightarrow> bool" where
  "candidate_supports_role c role =
     (let requested = normalize_key role ''general''
      in pc_roles c = {} \<or> requested \<in> pc_roles c
         \<or> requested = ''general'' \<and> ''assistant'' \<in> pc_roles c)"

definition append_local_ollama_fallback_candidate ::
  "environment \<Rightarrow> routing_profiles \<Rightarrow> provider_candidate list \<Rightarrow> provider_candidate list" where
  "append_local_ollama_fallback_candidate env profiles candidates =
     (if env_bool_any env [''GAIL_DISABLE_OLLAMA_FALLBACK'', ''REFINER_AI_DISABLE_OLLAMA_FALLBACK''] False
      then candidates
      else if \<exists>c\<in>set candidates. eq_ignore_ascii_case (pc_provider_type c) ''ollama''
      then candidates
      else candidates @ [from_profile profiles (default_provider_profile
        \<lparr>pf_name := ''OllamaLocalFallback'', pf_provider_type := ''ollama'',
         pf_model := Some (unwrap_or ''llama3.2''
           (env_string_any env [''GAIL_OLLAMA_MODEL'', ''OLLAMA_MODEL'', ''OLLAMA_DEFAULT_MODEL''])),
         pf_base_url := Some (unwrap_or ''http://ollama.ollama.svc.cluster.local:11434''
           (env_string_any env [''GAIL_OLLAMA_BASE_URL'', ''OLLAMA_BASE_URL'', ''OLLAMA_HOST''])),
         pf_roles := [''general'', ''planner'', ''reviewer'', ''researcher'', ''assistant''],
         pf_specialties := [''local'', ''privacy'', ''code'', ''planning'', ''json'', ''review'', ''research''],
         pf_weight := lit (12 / 100), pf_preferred := False,
         pf_source := Some ''auto_local_fallback''\<rparr>)])"

definition request_timeout_with_cap :: "nat option \<Rightarrow> nat option \<Rightarrow> nat option" where
  "request_timeout_with_cap request_timeout timeout_cap =
     (case (map_option (\<lambda>v. max v 1) request_timeout, map_option (\<lambda>v. max v 1) timeout_cap) of
        (Some r, Some c) \<Rightarrow> Some (min r c)
      | (Some r, None) \<Rightarrow> Some r
      | (None, Some c) \<Rightarrow> Some c
      | (None, None) \<Rightarrow> None)"

definition candidate_is_local_fallback :: "provider_candidate \<Rightarrow> bool" where
  "candidate_is_local_fallback c =
     (eq_ignore_ascii_case (pc_provider_type c) ''ollama'' \<or> ''local'' \<in> pc_specialties c)"

section \<open>Model sizes\<close>

definition size_char :: "char \<Rightarrow> bool" where
  "size_char c = (is_ascii_digit c \<or> c = CHR ''.'')"

text \<open>The scan over the name: the characters before the index, last first, and those from it.\<close>

fun size_scan :: "string \<Rightarrow> string \<Rightarrow> f64 option" where
  "size_scan scanned [] = None"
| "size_scan scanned (c # cs) =
     (let run = rev (takeWhile size_char scanned)
      in if c = CHR ''b'' \<and> list_ex is_ascii_digit run \<and> parse_f64 run \<noteq> None
         then parse_f64 run
         else size_scan (c # scanned) cs)"

definition parse_model_size_billions :: "string \<Rightarrow> f64 option" where
  "parse_model_size_billions model = size_scan [] (to_ascii_lowercase (trim model))"

definition model_size_tier :: "string \<Rightarrow> nat" where
  "model_size_tier model =
     (case parse_model_size_billions model of
        None \<Rightarrow> 0
      | Some b \<Rightarrow> if f_le (Fin 20) b then 3 else if f_le (Fin 7) b then 2
                  else if f_lt (Fin 0) b then 1 else 0)"

definition candidate_meets_model_floor :: "provider_candidate \<Rightarrow> f64 \<Rightarrow> bool" where
  "candidate_meets_model_floor c min_model_size_b =
     (if f_le min_model_size_b (Fin 0) then True
      else is_none_or (\<lambda>b. f_le min_model_size_b (f_add b (lit (1 / 10000))))
             (parse_model_size_billions (pc_configured_model c)))"

definition violates_strict_model_policy ::
  "bool \<Rightarrow> f64 option \<Rightarrow> string \<Rightarrow> string \<Rightarrow> bool" where
  "violates_strict_model_policy strict_no_downgrade min_model_size_b configured_model resolved_model =
     (if \<not> strict_no_downgrade then False
      else case parse_model_size_billions resolved_model of
        None \<Rightarrow> False
      | Some resolved \<Rightarrow>
          is_some_and (\<lambda>configured. f_lt (f_add resolved (lit (1 / 10000))) configured)
            (parse_model_size_billions configured_model)
          \<or> is_some_and (\<lambda>minimum. f_lt (f_add resolved (lit (1 / 10000))) minimum)
              (option_filter (\<lambda>v. f_lt (Fin 0) v) min_model_size_b))"

section \<open>Endpoint scopes in telemetry\<close>

text \<open>\<open>str::rsplit_once\<close>: the text after the last separator.\<close>

definition after_last :: "char \<Rightarrow> string \<Rightarrow> string option" where
  "after_last sep s =
     (if sep \<in> set s then Some (rev (takeWhile (\<lambda>c. c \<noteq> sep) (rev s))) else None)"

definition candidate_endpoint_scope :: "string \<Rightarrow> string option" where
  "candidate_endpoint_scope candidate =
     option_filter (\<lambda>scope. scope \<noteq> []) (map_option trim (after_last CHR ''@'' candidate))"

definition all_digits :: "string \<Rightarrow> bool" where
  "all_digits s = list_all is_ascii_digit s"

definition endpoint_host_port_from_scope :: "string \<Rightarrow> string option \<times> nat option" where
  "endpoint_host_port_from_scope scope =
     (let segments = split_on CHR ''_'' scope
      in if 4 \<le> length segments \<and> list_all all_digits (take 4 segments)
         then (Some (join_with ''.'' (take 4 segments)),
               (case drop 4 segments of
                  [] \<Rightarrow> None
                | segment # _ \<Rightarrow>
                    if all_digits segment
                    then (case parse_unsigned 65535 segment of Inr port \<Rightarrow> Some port | Inl _ \<Rightarrow> None)
                    else None))
         else (None, None))"

definition endpoint_host_suffix :: "string \<Rightarrow> string option" where
  "endpoint_host_suffix host =
     map_option (\<lambda>octet. ''.'' @ octet)
       (option_filter (\<lambda>octet. octet \<noteq> []) (Some (last (split_on CHR ''.'' host))))"

section \<open>Well-formed scopes\<close>

definition scope_char :: "char \<Rightarrow> bool" where
  "scope_char c = (is_ascii_alphanumeric c \<and> ascii_lower c = c)"

definition scope_word :: "string \<Rightarrow> bool" where
  "scope_word w \<longleftrightarrow> w \<noteq> [] \<and> (\<forall>c\<in>set w. scope_char c)"

definition scope_ok :: "string \<Rightarrow> bool" where
  "scope_ok s \<longleftrightarrow> (\<exists>ws. ws \<noteq> [] \<and> (\<forall>w\<in>set ws. scope_word w) \<and> s = join_with ''_'' ws)"

lemma scope_char_simps [simp]:
  "\<not> scope_char CHR ''_''" "\<not> scope_char CHR ''@''" "\<not> is_ascii_alphanumeric CHR ''_''"
  "scope_char c \<Longrightarrow> is_ascii_alphanumeric c" "scope_char c \<Longrightarrow> ascii_lower c = c"
  by (simp_all add: scope_char_def is_ascii_alphanumeric_def code_point_def)

lemma scope_char_lower: "is_ascii_alphanumeric c \<Longrightarrow> scope_char (ascii_lower c)"
  by (auto simp: scope_char_def is_ascii_alphanumeric_def ascii_lower_def code_point_def Let_def)

lemma set_join_with: "set (join_with sep ws) \<subseteq> set sep \<union> \<Union> (set ` set ws)"
  by (induction sep ws rule: join_with.induct) auto

lemma scope_ok_chars: "scope_ok s \<Longrightarrow> c \<in> set s \<Longrightarrow> scope_char c \<or> c = CHR ''_''"
  using set_join_with [of "''_''"] by (fastforce simp: scope_ok_def scope_word_def)

lemma join_with_Nil: "(\<forall>w\<in>set ws. w \<noteq> []) \<Longrightarrow> join_with sep ws = [] \<longleftrightarrow> ws = []"
  by (induction sep ws rule: join_with.induct) auto

lemma sanitize_ok:
  assumes "scope_ok fallback"
  shows "scope_ok (sanitize_candidate_scope value fallback)"
proof -
  define mapped where "mapped = map (\<lambda>c. if is_ascii_alphanumeric c then ascii_lower c else CHR ''_'') value"
  define ws where "ws = filter (\<lambda>item. item \<noteq> []) (split_on CHR ''_'' mapped)"
  have "scope_word w" if "w \<in> set ws" for w
  proof -
    have w: "w \<in> set (split_on CHR ''_'' mapped)" "w \<noteq> []" using that by (auto simp: ws_def)
    have "scope_char c" if "c \<in> set w" for c
    proof -
      have "c \<in> set mapped" "c \<noteq> CHR ''_''"
        using w(1) that split_on_chars split_on_words by (blast, metis)
      then show ?thesis by (auto simp: mapped_def scope_char_lower split: if_splits)
    qed
    then show ?thesis using w(2) by (simp add: scope_word_def)
  qed
  moreover have "sanitize_candidate_scope value fallback
      = (if join_with ''_'' ws = [] then fallback else join_with ''_'' ws)"
    by (simp add: sanitize_candidate_scope_def Let_def mapped_def ws_def)
  moreover have "join_with ''_'' ws = [] \<longleftrightarrow> ws = []"
    by (rule join_with_Nil) (simp add: ws_def)
  ultimately show ?thesis using assms by (auto simp: scope_ok_def)
qed

lemma sanitize_fixed: "scope_ok s \<Longrightarrow> sanitize_candidate_scope s fallback = s"
proof -
  assume ok: "scope_ok s"
  then obtain ws where ws: "ws \<noteq> []" "\<forall>w\<in>set ws. scope_word w" "s = join_with ''_'' ws"
    by (auto simp: scope_ok_def)
  have "map (\<lambda>c. if is_ascii_alphanumeric c then ascii_lower c else CHR ''_'') s = s"
    using scope_ok_chars [OF ok] scope_char_simps by (intro map_idI) metis
  moreover have "split_on CHR ''_'' s = ws"
    unfolding ws(3) using ws(1,2) scope_char_simps(1) unfolding scope_word_def
    by (intro split_on_join) (assumption, blast)
  moreover have "filter (\<lambda>item. item \<noteq> []) ws = ws"
    using ws(2) by (intro filter_True) (simp add: scope_word_def)
  moreover have "join_with ''_'' ws \<noteq> []" using ws join_with_Nil by (metis scope_word_def)
  ultimately show ?thesis using ws by (simp add: sanitize_candidate_scope_def)
qed

lemma scope_ok_endpoint: "scope_ok ''endpoint''"
proof -
  have "list_all scope_char ''endpoint''" by code_simp
  then have "scope_word ''endpoint''" by (simp add: scope_word_def list_all_iff)
  then have "[''endpoint''] \<noteq> [] \<and> (\<forall>w\<in>set [''endpoint'']. scope_word w)
      \<and> ''endpoint'' = join_with ''_'' [''endpoint'']" by simp
  then show ?thesis unfolding scope_ok_def by blast
qed

lemma endpoint_scope_ok: "endpoint_scope parse_url c = Some scope \<Longrightarrow> scope_ok scope"
  using sanitize_ok [OF scope_ok_endpoint]
  by (auto simp: endpoint_scope_def candidate_scope_from_base_url_def Let_def bind_eq_Some_conv
      split: if_splits option.splits)


text \<open>The scope of an endpoint is well formed, as lower-case words of letters and digits with
  single underscores between them, and sanitising a well-formed scope changes nothing.\<close>

theorem endpoint_scope_wellformed:
  "endpoint_scope parse_url c = Some scope \<Longrightarrow>
     scope_ok scope \<and> sanitize_candidate_scope scope ''endpoint'' = scope"
  using endpoint_scope_ok sanitize_fixed by blast

section \<open>Telemetry reads back the scope and the address\<close>

lemma after_last_append: "sep \<notin> set t \<Longrightarrow> after_last sep (s @ [sep] @ t) = Some t"
proof -
  assume "sep \<notin> set t"
  then have "takeWhile (\<lambda>c. c \<noteq> sep) (rev t @ sep # rev s) = rev t"
    by (subst takeWhile_append2) auto
  then show ?thesis by (simp add: after_last_def)
qed

lemma scope_trim: "scope_ok s \<Longrightarrow> trim s = s"
proof -
  assume ok: "scope_ok s"
  have "\<not> is_whitespace c" if "c \<in> set s" for c
    using scope_ok_chars [OF ok that]
    by (auto simp: scope_char_def is_ascii_alphanumeric_def is_whitespace_def code_point_def Let_def)
  then have "dropWhile is_whitespace s = s" "dropWhile is_whitespace (rev s) = rev s"
    unfolding dropWhile_eq_self_iff using hd_in_set [of s] hd_in_set [of "rev s"] by auto
  then show ?thesis by (simp add: trim_def trim_end_by_def)
qed

lemma scope_ok_nonempty: "scope_ok s \<Longrightarrow> s \<noteq> []"
  unfolding scope_ok_def scope_word_def using join_with_Nil [of _ "''_''"] by metis

text \<open>The telemetry reads back from a candidate's id the endpoint scope the id was built with.\<close>

theorem candidate_id_scope_roundtrip:
  "endpoint_scope parse_url c = Some scope \<Longrightarrow>
     candidate_endpoint_scope (candidate_id parse_url c) = Some scope"
proof -
  assume s: "endpoint_scope parse_url c = Some scope"
  then have ok: "scope_ok scope" by (rule endpoint_scope_ok)
  then have "CHR ''@'' \<notin> set scope" using scope_ok_chars by fastforce
  then have "after_last CHR ''@'' (candidate_id parse_url c) = Some scope"
    using after_last_append [of "CHR ''@''" scope "pc_provider_type c @ ''/'' @ model_or_default c"] s
    by (simp add: candidate_id_def)
  then show ?thesis
    using scope_trim [OF ok] scope_ok_nonempty [OF ok]
    by (simp add: candidate_endpoint_scope_def option_filter_def)
qed


theorem candidate_id_scope_roundtrip_witness:
  "candidate_endpoint_scope (candidate_id (\<lambda>_. None)
     (from_profile \<lparr>rp_version = 1, rp_workflow_profiles = [], rp_keyword_tags = [],
        rp_provider_specialties = []\<rparr>
       (default_provider_profile\<lparr>pf_name := ''Desk GPU'', pf_provider_type := ''ollama''\<rparr>)))
   = Some ''desk_gpu''"
  by (rule candidate_id_scope_roundtrip) code_simp

theorem endpoint_scope_wellformed_witness:
  "scope_ok ''desk_gpu'' \<and> sanitize_candidate_scope ''desk_gpu'' ''endpoint'' = ''desk_gpu''"
proof -
  have "endpoint_scope (\<lambda>_. None)
     (from_profile \<lparr>rp_version = 1, rp_workflow_profiles = [], rp_keyword_tags = [],
        rp_provider_specialties = []\<rparr>
       (default_provider_profile\<lparr>pf_name := ''Desk GPU'', pf_provider_type := ''ollama''\<rparr>))
     = Some ''desk_gpu''" by code_simp
  then show ?thesis by (rule endpoint_scope_wellformed)
qed

section \<open>Candidates from profiles\<close>

text \<open>The type invariant of a candidate, which the rest of the orchestration relies on.\<close>

definition candidate_ok :: "provider_candidate \<Rightarrow> bool" where
  "candidate_ok c \<longleftrightarrow>
     normalize_provider_type (pc_provider_type c) = pc_provider_type c
     \<and> (\<forall>role\<in>pc_roles c. normal_key role)
     \<and> is_none_or (\<lambda>n. 1 \<le> n) (pc_max_concurrent_requests c)
     \<and> f_le (Fin 30) (pc_usage_penalty_decay_seconds c)
     \<and> f_le (Fin 0) (pc_resource_cost_cpu c)
     \<and> is_none_or (\<lambda>b. f_lt (Fin 0) b) (pc_host_cpu_budget c)
     \<and> is_none_or (\<lambda>b. 0 < b) (pc_host_ram_budget_mb c)
     \<and> is_none_or (\<lambda>b. 0 < b) (pc_host_vram_budget_mb c)"

lemma f_max_lower: "b \<noteq> NaN \<Longrightarrow> f_le b (f_max a b)"
  by (cases a; cases b) (auto simp: f_max_def max_def f_le_iff)

lemma is_none_or_filter: "is_none_or p (option_filter p x)"
  by (cases x) (simp_all add: option_filter_def)

lemma is_none_or_map: "is_none_or p (map_option f x) = is_none_or (\<lambda>a. p (f a)) x"
  by (cases x) simp_all

lemma is_none_or_True: "is_none_or (\<lambda>a. True) x"
  by (cases x) simp_all

lemma normalize_provider_type_idem:
  "normalize_provider_type (normalize_provider_type raw) = normalize_provider_type raw"
proof -
  define cleaned where "cleaned = to_ascii_lowercase (trim raw)"
  have fixed: "to_ascii_lowercase (trim cleaned) = cleaned"
    by (simp add: cleaned_def lowercase_trim_idem)
  have known: "normalize_provider_type ''openai'' = ''openai''"
      "normalize_provider_type ''gemini'' = ''gemini''" "normalize_provider_type ''nvidia'' = ''nvidia''"
    by code_simp+
  have raw: "normalize_provider_type raw =
      (if cleaned = ''chatgpt'' \<or> cleaned = ''gpt'' then ''openai'' else if cleaned = ''google'' then ''gemini''
       else if cleaned = ''nim'' \<or> cleaned = ''nvidia_nim'' then ''nvidia'' else cleaned)"
    by (simp add: normalize_provider_type_def Let_def flip: cleaned_def)
  show ?thesis
  proof (cases "cleaned \<in> {''chatgpt'', ''gpt'', ''google'', ''nim'', ''nvidia_nim''}")
    case True
    then show ?thesis using raw known by (auto split: if_splits)
  next
    case False
    then have "normalize_provider_type raw = cleaned" using raw by simp
    moreover have "normalize_provider_type cleaned = cleaned"
      using False by (simp add: normalize_provider_type_def Let_def fixed)
    ultimately show ?thesis by simp
  qed
qed

text \<open>C35: Every candidate built from a profile, whatever the profile says, is well formed: its
  provider type and roles are normalised, its concurrency limit is at least one, its decay is at
  least 30 seconds, its processor cost is not negative and not a not-a-number, and each host
  budget it has is positive.\<close>

theorem from_profile_wellformed: "candidate_ok (from_profile profiles profile)"
  unfolding candidate_ok_def
  by (intro conjI)
    (auto simp: from_profile_def Let_def normalize_provider_type_idem normalize_key_general
      f_max_lower is_none_or_filter is_none_or_map is_none_or_True)

section \<open>Deduplication\<close>

lemma dedupe_loop_facts:
  "distinct (map candidate_attempt_key (dedupe_loop seen cs))
   \<and> candidate_attempt_key ` set (dedupe_loop seen cs) = candidate_attempt_key ` set cs - seen
   \<and> subseq (dedupe_loop seen cs) cs"
proof (induction seen cs rule: dedupe_loop.induct)
  case (2 seen c cs)
  then show ?case by (auto simp: Let_def image_iff)
qed simp

lemma dedupe_loop_fixed:
  "distinct (map candidate_attempt_key cs) \<Longrightarrow> candidate_attempt_key ` set cs \<inter> seen = {} \<Longrightarrow>
     dedupe_loop seen cs = cs"
  by (induction cs arbitrary: seen) (auto simp: Let_def)

lemma dedupe_candidates_facts:
  "distinct (map candidate_attempt_key (dedupe_candidates cs))"
  "candidate_attempt_key ` set (dedupe_candidates cs) = candidate_attempt_key ` set cs"
  "subseq (dedupe_candidates cs) cs"
  "dedupe_candidates (dedupe_candidates cs) = dedupe_candidates cs"
  using dedupe_loop_facts [of "{}"] dedupe_loop_fixed [of _ "{}"] by (simp_all add: dedupe_candidates_def)

end
