(* ===== verification/HealthClass.thy ===== *)
theory HealthClass
  imports Candidates Errors
begin

text \<open>
  \<^verbatim>\<open>src/src/orchestration.rs\<close>: how the orchestration classifies the failure messages of
  providers into health modes, which modes keep a candidate in backoff, and the HTTP status a failed
  request is answered with; and the health bucket of \<^verbatim>\<open>src/src/metrics.rs\<close>.
\<close>

record health_bucket =
  hb_ok :: "bool option"
  hb_mode :: "string option"
  hb_checked_at :: "f64 option"
  hb_latency_ms :: "nat option"
  hb_message :: "string option"

record ranked_candidate =
  rk_candidate :: provider_candidate
  rk_score :: f64
  rk_health_ok :: bool
  rk_health_mode :: "string option"
  rk_generation_tokens_per_second :: "f64 option"

section \<open>Failure messages\<close>

definition contains_any :: "string \<Rightarrow> string list \<Rightarrow> bool" where
  "contains_any s pats = list_ex (\<lambda>p. str_contains s p) pats"

definition message_indicates_ollama_saturation :: "string \<Rightarrow> bool" where
  "message_indicates_ollama_saturation message =
     contains_any (to_ascii_lowercase message)
       [''local ollama request queue is saturated'', ''local model service is saturated'']"

definition message_indicates_resource_saturation :: "string \<Rightarrow> bool" where
  "message_indicates_resource_saturation message =
     contains_any (to_ascii_lowercase message)
       [''configured concurrency/resource budget is exhausted'', ''resource budget exhausted'',
        ''workload pool is saturated'']"

definition message_indicates_nmc_constrained :: "string \<Rightarrow> bool" where
  "message_indicates_nmc_constrained message =
     contains_any (to_ascii_lowercase message)
       [''nmc/tracey telemetry reports constrained capacity'',
        ''nmc telemetry reports constrained capacity'', ''nmc_constrained'']"

definition message_indicates_provider_auth_failure :: "string \<Rightarrow> bool" where
  "message_indicates_provider_auth_failure message =
     contains_any (to_ascii_lowercase message)
       [''authentication failed'', ''unauthorized'', ''forbidden'', ''invalid api key'',
        ''status\":401'', ''status\":403'', ''status 401'', ''status 403'', ''http 401'', ''http 403'']"

definition message_indicates_permanent_model_failure :: "string \<Rightarrow> bool" where
  "message_indicates_permanent_model_failure message =
     contains_any (to_ascii_lowercase message)
       [''end of life'', ''no longer available'', ''not found for account'',
        ''status\":404'', ''status\":410'', ''status 404'', ''status 410'', ''http 404'', ''http 410'',
        ''\"title\":\"gone\"'', ''\"title\":\"not found\"'']"

definition message_indicates_transient_provider_failure :: "string \<Rightarrow> bool" where
  "message_indicates_transient_provider_failure message =
     (if message_indicates_provider_auth_failure message
         \<or> message_indicates_permanent_model_failure message then False
      else contains_any (to_ascii_lowercase message)
       [''upstream error'', ''bad gateway'', ''gateway timeout'', ''error sending request'',
        ''connection reset'', ''connection closed'', ''http 502'', ''http 503'', ''http 504'',
        ''status 502'', ''status 503'', ''status 504'', '' 502 '', '' 503 '', '' 504 ''])"

definition message_indicates_provider_backoff :: "string \<Rightarrow> bool" where
  "message_indicates_provider_backoff message \<longleftrightarrow>
     message_indicates_quota message
     \<or> message_indicates_ollama_saturation message
     \<or> message_indicates_resource_saturation message
     \<or> message_indicates_nmc_constrained message
     \<or> message_indicates_provider_auth_failure message
     \<or> message_indicates_transient_provider_failure message"

section \<open>Health modes\<close>

definition failure_mode :: "string option \<Rightarrow> string" where
  "failure_mode error =
     (let message = unwrap_or [] error; lowered = to_ascii_lowercase message
      in if message_indicates_ollama_saturation message then ''ollama_saturated''
         else if message_indicates_resource_saturation message then ''resource_saturated''
         else if message_indicates_nmc_constrained message then ''nmc_constrained''
         else if str_contains lowered ''timeout'' \<or> str_contains lowered ''timed out'' then ''timeout''
         else if message_indicates_quota message then ''quota''
         else if message_indicates_provider_auth_failure message
              \<or> str_contains lowered ''not configured'' \<or> str_contains lowered ''unsupported''
         then ''unconfigured''
         else if message_indicates_permanent_model_failure message then ''missing_endpoint''
         else if message_indicates_transient_provider_failure message then ''upstream''
         else ''runtime_error'')"

definition runtime_failure_health_bucket :: "string option \<Rightarrow> nat option \<Rightarrow> health_bucket" where
  "runtime_failure_health_bucket error latency_ms =
     \<lparr>hb_ok = Some False, hb_mode = Some (failure_mode error), hb_checked_at = None,
      hb_latency_ms = latency_ms, hb_message = error\<rparr>"

definition mode_among :: "string list \<Rightarrow> string option \<Rightarrow> bool" where
  "mode_among modes mode = is_some_and (\<lambda>m. list_ex (eq_ignore_ascii_case m) modes) mode"

definition ranked_candidate_is_in_quota_backoff :: "ranked_candidate \<Rightarrow> bool" where
  "ranked_candidate_is_in_quota_backoff item =
     (\<not> rk_health_ok item \<and> is_some_and (\<lambda>m. eq_ignore_ascii_case m ''quota'') (rk_health_mode item))"

definition ranked_candidate_is_in_provider_backoff :: "ranked_candidate \<Rightarrow> bool" where
  "ranked_candidate_is_in_provider_backoff item =
     (ranked_candidate_is_in_quota_backoff item
      \<or> \<not> rk_health_ok item
        \<and> mode_among [''upstream'', ''timeout'', ''error'', ''runtime_error'', ''ollama_saturated'',
             ''resource_saturated'', ''nmc_constrained'', ''provider_backoff'', ''unconfigured'',
             ''missing_endpoint''] (rk_health_mode item))"

definition ranked_candidate_is_transient_backoff :: "ranked_candidate \<Rightarrow> bool" where
  "ranked_candidate_is_transient_backoff item =
     (\<not> rk_health_ok item
      \<and> mode_among [''upstream'', ''timeout'', ''ollama_saturated'', ''resource_saturated'',
           ''provider_backoff'', ''nmc_constrained''] (rk_health_mode item))"

section \<open>Backoff of a provider family\<close>

definition candidate_has_explicit_endpoint :: "provider_candidate \<Rightarrow> bool" where
  "candidate_has_explicit_endpoint c = is_some_and (\<lambda>v. trim v \<noteq> []) (pf_base_url (pc_profile c))"

definition candidate_uses_provider_family_backoff :: "provider_candidate \<Rightarrow> bool" where
  "candidate_uses_provider_family_backoff c =
     (if is_ollama_candidate c then False else \<not> candidate_has_explicit_endpoint c)"

definition error_should_backoff_provider_family :: "provider_candidate \<Rightarrow> string \<Rightarrow> bool" where
  "error_should_backoff_provider_family c message =
     (if \<not> candidate_uses_provider_family_backoff c
      then message_indicates_quota message \<or> message_indicates_provider_auth_failure message
      else message_indicates_provider_backoff message)"

definition is_dispatch_capacity_race :: "string option \<Rightarrow> bool" where
  "is_dispatch_capacity_race error =
     is_some_and (\<lambda>m. str_contains (to_ascii_lowercase m)
       ''capacity was unavailable at dispatch (reservation race;'') error"

definition severity_for_issue_category :: "string \<Rightarrow> string" where
  "severity_for_issue_category category =
     (if category \<in> {''quota'', ''upstream'', ''timeout''} then ''warning''
      else if category \<in> {''unconfigured'', ''missing_endpoint''} then ''critical''
      else ''warning'')"

section \<open>Status of a failed request\<close>

definition orchestration_failure_status :: "string \<Rightarrow> nat option" where
  "orchestration_failure_status message =
     (let mode = unwrap_or [] (hb_mode (runtime_failure_health_bucket (Some message) None))
      in if mode = ''quota'' then Some 429
         else if mode = ''timeout'' then Some 504
         else if mode \<in> {''resource_saturated'', ''ollama_saturated'', ''nmc_constrained''} then Some 503
         else if mode = ''upstream'' then Some 502
         else if mode \<in> {''unconfigured'', ''missing_endpoint''} then Some 502
         else let lowered = to_ascii_lowercase message
              in if str_contains lowered ''adaptive backoff'' \<or> str_contains lowered ''retry after''
                 then Some 503 else None)"

definition transient_backoff_probe_target_with_config :: "nat \<Rightarrow> nat \<Rightarrow> nat \<Rightarrow> nat" where
  "transient_backoff_probe_target_with_config wave_size candidate_count configured =
     min (max (max configured (max wave_size 1)) 1) (max candidate_count 1)"

definition transient_backoff_probe_target :: "environment \<Rightarrow> nat \<Rightarrow> nat \<Rightarrow> nat" where
  "transient_backoff_probe_target env wave_size candidate_count =
     transient_backoff_probe_target_with_config wave_size candidate_count
       (env_int_any env [''GAIL_TRANSIENT_BACKOFF_PROBE_CANDIDATES'',
          ''REFINER_AI_TRANSIENT_BACKOFF_PROBE_CANDIDATES''] 2)"

section \<open>Properties\<close>

definition known_failure_modes :: "string list" where
  "known_failure_modes = [''ollama_saturated'', ''resource_saturated'', ''nmc_constrained'', ''timeout'',
     ''quota'', ''unconfigured'', ''missing_endpoint'', ''upstream'', ''runtime_error'']"

lemma failure_mode_known: "failure_mode error \<in> set known_failure_modes"
  by (simp add: failure_mode_def Let_def known_failure_modes_def)

definition down :: "string \<Rightarrow> ranked_candidate \<Rightarrow> ranked_candidate" where
  "down mode item = item\<lparr>rk_health_ok := False, rk_health_mode := Some mode\<rparr>"

lemma eq_ignore_refl [simp]: "eq_ignore_ascii_case m m"
  by (simp add: eq_ignore_ascii_case_def)

lemma known_mode_backoff:
  "mode \<in> set known_failure_modes \<Longrightarrow> ranked_candidate_is_in_provider_backoff (down mode item)"
  by (auto simp: known_failure_modes_def ranked_candidate_is_in_provider_backoff_def
      ranked_candidate_is_in_quota_backoff_def down_def mode_among_def)

lemma transient_is_provider_backoff:
  "ranked_candidate_is_transient_backoff item \<Longrightarrow> ranked_candidate_is_in_provider_backoff item"
  by (auto simp: ranked_candidate_is_transient_backoff_def ranked_candidate_is_in_provider_backoff_def
      mode_among_def is_some_and_def split: option.splits)

text \<open>The modes that another attempt may clear soon.\<close>

definition transient_mode :: "string \<Rightarrow> bool" where
  "transient_mode mode \<longleftrightarrow>
     mode \<in> {''upstream'', ''timeout'', ''ollama_saturated'', ''resource_saturated'', ''nmc_constrained''}"

lemma known_mode_transient:
  assumes "mode \<in> set known_failure_modes"
  shows "ranked_candidate_is_transient_backoff (down mode item) \<longleftrightarrow> transient_mode mode"
proof -
  have "list_all (\<lambda>m. mode_among [''upstream'', ''timeout'', ''ollama_saturated'', ''resource_saturated'',
           ''provider_backoff'', ''nmc_constrained''] (Some m) = transient_mode m) known_failure_modes"
    by code_simp
  then show ?thesis using assms
    by (simp add: list_all_iff ranked_candidate_is_transient_backoff_def down_def)
qed

definition status_of_mode :: "string \<Rightarrow> nat option" where
  "status_of_mode mode =
     map_of [(''quota'', 429), (''timeout'', 504), (''resource_saturated'', 503), (''ollama_saturated'', 503),
       (''nmc_constrained'', 503), (''upstream'', 502), (''unconfigured'', 502), (''missing_endpoint'', 502)] mode"

lemma failure_status_of_mode:
  assumes "failure_mode (Some message) \<noteq> ''runtime_error''"
  shows "orchestration_failure_status message = status_of_mode (failure_mode (Some message))
           \<and> status_of_mode (failure_mode (Some message)) \<noteq> None"
proof -
  have "list_all (\<lambda>m. m \<noteq> ''runtime_error'' \<longrightarrow> status_of_mode m \<noteq> None) known_failure_modes"
    by code_simp
  then have "status_of_mode (failure_mode (Some message)) \<noteq> None"
    using assms failure_mode_known by (simp add: list_all_iff)
  then show ?thesis
    by (auto simp: orchestration_failure_status_def runtime_failure_health_bucket_def Let_def
        status_of_mode_def split: if_splits)
qed

text \<open>Every failure of a provider has a mode the orchestration knows: the candidate it is recorded
  for is in backoff, it is probed again early exactly for the modes that another attempt may
  clear, and the request is answered with the status of the mode, so a failure is never
  classified as a mode that no reader handles.\<close>

theorem failures_are_classified:
  "(let mode = unwrap_or [] (hb_mode (runtime_failure_health_bucket (Some message) latency))
    in ranked_candidate_is_in_provider_backoff (down mode item)
       \<and> (ranked_candidate_is_transient_backoff (down mode item) \<longleftrightarrow> transient_mode mode)
       \<and> (orchestration_failure_status message = status_of_mode mode \<or> mode = ''runtime_error''))"
  using failure_mode_known known_mode_backoff known_mode_transient failure_status_of_mode
  by (auto simp: runtime_failure_health_bucket_def Let_def)

text \<open>A message that speaks of a quota and of a timeout is a timeout to the orchestration and a quota
  to the classification of upstream failures.\<close>

lemma quota_and_timeout_disagree:
  "failure_mode (Some ''rate limit: request timed out'') = ''timeout''
   \<and> orchestration_failure_status ''rate limit: request timed out'' = Some 504
   \<and> status_code (upstream ''openai'' None ''rate limit: request timed out'') = 429"
  by code_simp

end
