(* ===== verification/LoadTracking.thy ===== *)
theory LoadTracking
  imports Candidates
begin

text \<open>
  \<^verbatim>\<open>src/src/orchestration.rs\<close>: the load tracker of the orchestration. It counts the requests in
  flight and waiting for each candidate and the resources reserved on each host, grants
  reservations under the candidate's limit and the host's budget, and takes them back.

  Each operation runs under the tracker's lock, so an execution is a sequence of operations. The
  maps are functions to options. The counts of requests are \<open>nat\<close>, the reserved memory is
  \<open>u64\<close> and saturates as in the code.
\<close>

section \<open>State\<close>

record host_load =
  hl_requests :: nat
  hl_cpu :: f64
  hl_ram_mb :: u64
  hl_vram_mb :: u64

definition idle_host :: host_load where
  "idle_host = \<lparr>hl_requests = 0, hl_cpu = Fin 0, hl_ram_mb = 0, hl_vram_mb = 0\<rparr>"

record load_tracker =
  lt_in_flight :: "string \<Rightarrow> nat option"
  lt_waiting :: "string \<Rightarrow> nat option"
  lt_host_usage :: "string \<Rightarrow> host_load option"

definition empty_tracker :: load_tracker where
  "empty_tracker = \<lparr>lt_in_flight = Map.empty, lt_waiting = Map.empty, lt_host_usage = Map.empty\<rparr>"

record load_reservation =
  lr_candidate_id :: string
  lr_host_group :: "string option"
  lr_cost_cpu :: f64
  lr_cost_ram_mb :: u64
  lr_cost_vram_mb :: u64

record load_snapshot =
  ls_in_flight :: nat
  ls_waiting :: nat
  ls_limit_ratio :: f64
  ls_limit_reached :: bool
  ls_host_budget_ratio :: f64
  ls_host_budget_reached :: bool

section \<open>Host budgets\<close>

definition budget_ratios :: "provider_candidate \<Rightarrow> host_load \<Rightarrow> f64 list" where
  "budget_ratios c usage =
     (case option_filter (\<lambda>v. f_lt (Fin 0) v) (pc_host_cpu_budget c) of
        None \<Rightarrow> [] | Some b \<Rightarrow> [f_div (hl_cpu usage) b])
     @ (case option_filter (\<lambda>v. 0 < v) (pc_host_ram_budget_mb c) of
        None \<Rightarrow> [] | Some b \<Rightarrow> [f_div (f_of_nat (unat (hl_ram_mb usage))) (f_of_nat (unat b))])
     @ (case option_filter (\<lambda>v. 0 < v) (pc_host_vram_budget_mb c) of
        None \<Rightarrow> [] | Some b \<Rightarrow> [f_div (f_of_nat (unat (hl_vram_mb usage))) (f_of_nat (unat b))])"

definition host_budget_ratio :: "provider_candidate \<Rightarrow> host_load \<Rightarrow> f64" where
  "host_budget_ratio c usage = f_max (foldl f_max (Fin 0) (budget_ratios c usage)) (Fin 0)"

definition host_budget_exceeded :: "provider_candidate \<Rightarrow> host_load \<Rightarrow> bool" where
  "host_budget_exceeded c usage = f_lt (Fin 1) (host_budget_ratio c usage)"

section \<open>Operations\<close>

definition count_up :: "string \<Rightarrow> (string \<Rightarrow> nat option) \<Rightarrow> (string \<Rightarrow> nat option)" where
  "count_up k m = m(k \<mapsto> (case m k of None \<Rightarrow> 1 | Some n \<Rightarrow> n + 1))"

definition count_down :: "string \<Rightarrow> (string \<Rightarrow> nat option) \<Rightarrow> (string \<Rightarrow> nat option)" where
  "count_down k m =
     (case m k of None \<Rightarrow> m | Some n \<Rightarrow> if n \<le> 1 then m(k := None) else m(k \<mapsto> n - 1))"

definition add_to_host :: "f64 \<Rightarrow> u64 \<Rightarrow> u64 \<Rightarrow> host_load \<Rightarrow> host_load" where
  "add_to_host cpu ram vram u =
     \<lparr>hl_requests = usize_sat_add (hl_requests u) 1, hl_cpu = f_add (hl_cpu u) cpu,
      hl_ram_mb = sat_add (hl_ram_mb u) ram, hl_vram_mb = sat_add (hl_vram_mb u) vram\<rparr>"

definition limit_reached :: "provider_candidate \<Rightarrow> nat \<Rightarrow> bool" where
  "limit_reached c in_flight = is_some_and (\<lambda>limit. max limit 1 \<le> in_flight) (pc_max_concurrent_requests c)"

definition projected_usage :: "provider_candidate \<Rightarrow> load_tracker \<Rightarrow> host_load option" where
  "projected_usage c t =
     map_option (\<lambda>grp. add_to_host (f_max (pc_resource_cost_cpu c) (Fin 0)) (pc_resource_cost_ram_mb c)
         (pc_resource_cost_vram_mb c) (unwrap_or idle_host (lt_host_usage t grp)))
       (pc_host_group c)"

definition take_load_snapshot ::
  "(string \<Rightarrow> parsed_url option) \<Rightarrow> provider_candidate \<Rightarrow> load_tracker \<Rightarrow> load_snapshot" where
  "take_load_snapshot parse_url c t =
     (let cid = candidate_id parse_url c;
          in_flight = unwrap_or 0 (lt_in_flight t cid);
          projected = projected_usage c t
      in \<lparr>ls_in_flight = in_flight,
          ls_waiting = unwrap_or 0 (lt_waiting t cid),
          ls_limit_ratio = unwrap_or (Fin 0)
            (map_option (\<lambda>limit. f_div (f_of_nat in_flight) (f_of_nat (max limit 1)))
              (pc_max_concurrent_requests c)),
          ls_limit_reached = limit_reached c in_flight,
          ls_host_budget_ratio = unwrap_or (Fin 0) (map_option (host_budget_ratio c) projected),
          ls_host_budget_reached = is_some_and (host_budget_exceeded c) projected\<rparr>)"

definition reservation_of ::
  "(string \<Rightarrow> parsed_url option) \<Rightarrow> provider_candidate \<Rightarrow> load_reservation" where
  "reservation_of parse_url c =
     \<lparr>lr_candidate_id = candidate_id parse_url c, lr_host_group = pc_host_group c,
      lr_cost_cpu = f_max (pc_resource_cost_cpu c) (Fin 0),
      lr_cost_ram_mb = pc_resource_cost_ram_mb c, lr_cost_vram_mb = pc_resource_cost_vram_mb c\<rparr>"

definition reserve_candidate_load ::
  "(string \<Rightarrow> parsed_url option) \<Rightarrow> provider_candidate \<Rightarrow> load_tracker \<Rightarrow>
     load_reservation option \<times> load_tracker" where
  "reserve_candidate_load parse_url c t =
     (let cid = candidate_id parse_url c
      in if limit_reached c (unwrap_or 0 (lt_in_flight t cid)) then (None, t)
         else case pc_host_group c of
           None \<Rightarrow> (Some (reservation_of parse_url c),
                     t\<lparr>lt_in_flight := count_up cid (lt_in_flight t)\<rparr>)
         | Some grp \<Rightarrow>
             let projected = add_to_host (f_max (pc_resource_cost_cpu c) (Fin 0))
                   (pc_resource_cost_ram_mb c) (pc_resource_cost_vram_mb c)
                   (unwrap_or idle_host (lt_host_usage t grp))
             in if host_budget_exceeded c projected then (None, t)
                else (Some (reservation_of parse_url c),
                      t\<lparr>lt_host_usage := (lt_host_usage t)(grp \<mapsto> projected),
                        lt_in_flight := count_up cid (lt_in_flight t)\<rparr>))"

definition remove_from_host :: "load_reservation \<Rightarrow> host_load \<Rightarrow> host_load" where
  "remove_from_host r u =
     \<lparr>hl_requests = hl_requests u - 1, hl_cpu = f_max (f_sub (hl_cpu u) (lr_cost_cpu r)) (Fin 0),
      hl_ram_mb = sat_sub (hl_ram_mb u) (lr_cost_ram_mb r),
      hl_vram_mb = sat_sub (hl_vram_mb u) (lr_cost_vram_mb r)\<rparr>"

definition release_candidate_load :: "load_reservation \<Rightarrow> load_tracker \<Rightarrow> load_tracker" where
  "release_candidate_load r t =
     (let t1 = t\<lparr>lt_in_flight := count_down (lr_candidate_id r) (lt_in_flight t)\<rparr>
      in case lr_host_group r of
           None \<Rightarrow> t1
         | Some grp \<Rightarrow>
             (case lt_host_usage t1 grp of
                None \<Rightarrow> t1
              | Some u \<Rightarrow>
                  let u1 = remove_from_host r u
                  in t1\<lparr>lt_host_usage := (lt_host_usage t1)(grp := if hl_requests u1 = 0 then None else Some u1)\<rparr>))"

definition begin_waiting :: "string \<Rightarrow> load_tracker \<Rightarrow> load_tracker" where
  "begin_waiting cid t = t\<lparr>lt_waiting := count_up cid (lt_waiting t)\<rparr>"

definition release_candidate_waiting :: "string \<Rightarrow> load_tracker \<Rightarrow> load_tracker" where
  "release_candidate_waiting cid t = t\<lparr>lt_waiting := count_down cid (lt_waiting t)\<rparr>"

section \<open>Leases\<close>

text \<open>
  The contract of a store that counts what is held: it represents the multiset of the leases that
  were acquired and not released yet. What it may hold is bounded by \<open>fits\<close>.
\<close>

datatype 'r lease_event = Acquire 'r | Release 'r

fun balance :: "('r multiset \<Rightarrow> 'r \<Rightarrow> bool) \<Rightarrow> 'r lease_event list \<Rightarrow> 'r multiset \<Rightarrow> 'r multiset option" where
  "balance fits [] M = Some M"
| "balance fits (Acquire r # es) M = (if fits M r then balance fits es (add_mset r M) else None)"
| "balance fits (Release r # es) M = (if r \<in># M then balance fits es (M - {#r#}) else None)"

fun replay :: "('r \<Rightarrow> 's \<Rightarrow> 's) \<Rightarrow> ('r \<Rightarrow> 's \<Rightarrow> 's) \<Rightarrow> 'r lease_event list \<Rightarrow> 's \<Rightarrow> 's" where
  "replay acquire release [] s = s"
| "replay acquire release (Acquire r # es) s = replay acquire release es (acquire r s)"
| "replay acquire release (Release r # es) s = replay acquire release es (release r s)"

locale lease_store =
  fixes acquire release :: "'r \<Rightarrow> 's \<Rightarrow> 's"
    and represents :: "'s \<Rightarrow> 'r multiset \<Rightarrow> bool"
    and fits :: "'r multiset \<Rightarrow> 'r \<Rightarrow> bool"
    and unused :: 's
  assumes unused_represents: "represents s {#} \<longleftrightarrow> s = unused"
    and acquire_represents: "represents s M \<Longrightarrow> fits M r \<Longrightarrow> represents (acquire r s) (add_mset r M)"
    and release_represents: "represents s M \<Longrightarrow> r \<in># M \<Longrightarrow> represents (release r s) (M - {#r#})"
begin

lemma replay_represents:
  "represents s M \<Longrightarrow> balance fits es M = Some M' \<Longrightarrow> represents (replay acquire release es s) M'"
proof (induction es arbitrary: s M)
  case (Cons e es)
  show ?case
  proof (cases e)
    case (Acquire r)
    then show ?thesis
      using Cons.IH [OF acquire_represents [OF Cons.prems(1)]] Cons.prems(2) by (simp split: if_splits)
  next
    case (Release r)
    then show ?thesis
      using Cons.IH [OF release_represents [OF Cons.prems(1)]] Cons.prems(2) by (simp split: if_splits)
  qed
qed simp

lemma all_released_is_unused:
  "balance fits es {#} = Some {#} \<Longrightarrow> replay acquire release es unused = unused"
  using replay_represents [of unused "{#}" es "{#}"] unused_represents by blast

lemma release_all:
  "represents s (mset rs) \<Longrightarrow> replay acquire release (map Release rs) s = unused"
proof (induction rs arbitrary: s)
  case Nil
  then show ?case using unused_represents by simp
next
  case (Cons r rs)
  then have "represents (release r s) (mset rs)" using release_represents [of s "mset (r # rs)" r] by simp
  then show ?case using Cons.IH by simp
qed

end

section \<open>Counters are a lease store\<close>

definition counts :: "('k \<Rightarrow> nat option) \<Rightarrow> 'k multiset \<Rightarrow> bool" where
  "counts m M \<longleftrightarrow> (\<forall>k. m k = (if k \<in># M then Some (count M k) else None))"

lemma counts_up: "counts m M \<Longrightarrow> counts (count_up k m) (add_mset k M)"
  by (auto simp: counts_def count_up_def not_in_iff)

lemma counts_down: "counts m M \<Longrightarrow> k \<in># M \<Longrightarrow> counts (count_down k m) (M - {#k#})"
proof -
  assume c: "counts m M" and k: "k \<in># M"
  have "count_down k m j = (if j \<in># M - {#k#} then Some (count (M - {#k#}) j) else None)" for j
  proof (cases "j = k")
    case True
    have "m k = Some (count M k)" using c k by (simp add: counts_def)
    then show ?thesis using True k by (auto simp: count_down_def in_diff_count not_in_iff)
  next
    case False
    then show ?thesis using c k by (auto simp: counts_def count_down_def in_diff_count count_inI)
  qed
  then show ?thesis by (simp add: counts_def)
qed

lemma counts_empty: "counts m {#} \<longleftrightarrow> m = Map.empty"
  by (auto simp: counts_def)

interpretation waiting_counts: lease_store count_up count_down counts "\<lambda>_ _. True" Map.empty
  by unfold_locales (simp_all add: counts_empty counts_up counts_down)

lemma counts_get: "counts m M \<Longrightarrow> unwrap_or 0 (m k) = count M k"
  by (auto simp: counts_def not_in_iff)

section \<open>The tracker is a lease store\<close>

text \<open>
  A lease is a reservation or a place in the queue of a candidate. The totals of a host must fit
  their machine integers.
\<close>

type_synonym load_lease = "load_reservation + string"

definition held :: "load_lease multiset \<Rightarrow> load_reservation multiset" where
  "held M = image_mset projl (filter_mset isl M)"

definition waiters :: "load_lease multiset \<Rightarrow> string multiset" where
  "waiters M = image_mset projr (filter_mset (\<lambda>l. \<not> isl l) M)"

definition on_host :: "string \<Rightarrow> load_lease multiset \<Rightarrow> load_reservation multiset" where
  "on_host h M = filter_mset (\<lambda>r. lr_host_group r = Some h) (held M)"

definition ram_of :: "load_reservation multiset \<Rightarrow> nat" where
  "ram_of R = sum_mset (image_mset (\<lambda>r. unat (lr_cost_ram_mb r)) R)"

definition vram_of :: "load_reservation multiset \<Rightarrow> nat" where
  "vram_of R = sum_mset (image_mset (\<lambda>r. unat (lr_cost_vram_mb r)) R)"

definition host_represents :: "host_load option \<Rightarrow> load_reservation multiset \<Rightarrow> bool" where
  "host_represents u R \<longleftrightarrow>
     (case u of
        None \<Rightarrow> R = {#}
      | Some u \<Rightarrow> R \<noteq> {#} \<and> hl_requests u = size R \<and> unat (hl_ram_mb u) = ram_of R
                 \<and> unat (hl_vram_mb u) = vram_of R \<and> f_le (Fin 0) (hl_cpu u))"

definition load_represents :: "load_tracker \<Rightarrow> load_lease multiset \<Rightarrow> bool" where
  "load_represents t M \<longleftrightarrow>
     counts (lt_in_flight t) (image_mset lr_candidate_id (held M))
     \<and> counts (lt_waiting t) (waiters M)
     \<and> (\<forall>h. host_represents (lt_host_usage t h) (on_host h M))"

definition fits_machine :: "load_lease multiset \<Rightarrow> load_lease \<Rightarrow> bool" where
  "fits_machine M l \<longleftrightarrow>
     (case l of Inr _ \<Rightarrow> True
      | Inl r \<Rightarrow> f_le (Fin 0) (lr_cost_cpu r)
          \<and> (case lr_host_group r of None \<Rightarrow> True
             | Some h \<Rightarrow> size (on_host h M) < usize_max
                 \<and> ram_of (on_host h M) + unat (lr_cost_ram_mb r) < 2 ^ 64
                 \<and> vram_of (on_host h M) + unat (lr_cost_vram_mb r) < 2 ^ 64))"

definition acquire_load :: "load_reservation \<Rightarrow> load_tracker \<Rightarrow> load_tracker" where
  "acquire_load r t =
     (let t1 = t\<lparr>lt_in_flight := count_up (lr_candidate_id r) (lt_in_flight t)\<rparr>
      in case lr_host_group r of
           None \<Rightarrow> t1
         | Some h \<Rightarrow> t1\<lparr>lt_host_usage := (lt_host_usage t)(h \<mapsto>
             add_to_host (lr_cost_cpu r) (lr_cost_ram_mb r) (lr_cost_vram_mb r)
               (unwrap_or idle_host (lt_host_usage t h)))\<rparr>)"

fun acquire_lease :: "load_lease \<Rightarrow> load_tracker \<Rightarrow> load_tracker" where
  "acquire_lease (Inl r) t = acquire_load r t"
| "acquire_lease (Inr cid) t = begin_waiting cid t"

fun release_lease :: "load_lease \<Rightarrow> load_tracker \<Rightarrow> load_tracker" where
  "release_lease (Inl r) t = release_candidate_load r t"
| "release_lease (Inr cid) t = release_candidate_waiting cid t"

lemma held_simps [simp]:
  "held {#} = {#}" "held (add_mset (Inl r) M) = add_mset r (held M)" "held (add_mset (Inr c) M) = held M"
  by (simp_all add: held_def)

lemma waiters_simps [simp]:
  "waiters {#} = {#}" "waiters (add_mset (Inl r) M) = waiters M"
  "waiters (add_mset (Inr c) M) = add_mset c (waiters M)"
  by (simp_all add: waiters_def)

lemma on_host_simps [simp]:
  "on_host h {#} = {#}" "on_host h (add_mset (Inr c) M) = on_host h M"
  "on_host h (add_mset (Inl r) M) =
     (if lr_host_group r = Some h then add_mset r (on_host h M) else on_host h M)"
  by (simp_all add: on_host_def)

lemma total_simps [simp]:
  "ram_of {#} = 0" "vram_of {#} = 0"
  "ram_of (add_mset r R) = unat (lr_cost_ram_mb r) + ram_of R"
  "vram_of (add_mset r R) = unat (lr_cost_vram_mb r) + vram_of R"
  by (simp_all add: ram_of_def vram_of_def)

lemma f_add_nonneg: "f_le (Fin 0) x \<Longrightarrow> f_le (Fin 0) y \<Longrightarrow> f_le (Fin 0) (f_add x y)"
proof (cases x; cases y)
  fix a b
  assume "x = Fin a" "y = Fin b" "f_le (Fin 0) x" "f_le (Fin 0) y"
  then have "rnd 0 \<le> rnd (a + b)" by (intro rnd_mono) simp
  then show ?thesis using \<open>x = Fin a\<close> \<open>y = Fin b\<close> by (simp add: f_le_iff) (simp add: rnd_def)
qed auto

lemma host_acquire:
  assumes "host_represents u R" "f_le (Fin 0) (lr_cost_cpu r)" "size R < usize_max"
    "ram_of R + unat (lr_cost_ram_mb r) < 2 ^ 64" "vram_of R + unat (lr_cost_vram_mb r) < 2 ^ 64"
  shows "host_represents (Some (add_to_host (lr_cost_cpu r) (lr_cost_ram_mb r) (lr_cost_vram_mb r)
           (unwrap_or idle_host u))) (add_mset r R)"
  using assms f_add_nonneg
  by (cases u) (auto simp: host_represents_def add_to_host_def idle_host_def usize_sat_add_def unat_sat_add)

lemma host_release:
  assumes "host_represents (Some u) (add_mset r R)"
  shows "host_represents (if hl_requests (remove_from_host r u) = 0 then None else Some (remove_from_host r u)) R"
  using assms f_max_lower
  by (cases "R = {#}") (auto simp: host_represents_def remove_from_host_def unat_sat_sub)

lemma tracker_acquire:
  assumes "load_represents t M" "fits_machine M l"
  shows "load_represents (acquire_lease l t) (add_mset l M)"
proof (cases l)
  case (Inr cid)
  then show ?thesis using assms by (simp add: load_represents_def begin_waiting_def counts_up)
next
  case (Inl r)
  then show ?thesis using assms host_acquire [of _ _ r]
    by (cases "lr_host_group r")
      (auto simp: load_represents_def acquire_load_def counts_up fits_machine_def Let_def)
qed

lemma tracker_release_add:
  assumes "load_represents t (add_mset l M)"
  shows "load_represents (release_lease l t) M"
proof (cases l)
  case (Inr cid)
  then show ?thesis using assms counts_down [of "lt_waiting t" "add_mset cid (waiters M)" cid]
    by (simp add: load_represents_def release_candidate_waiting_def)
next
  case (Inl r)
  define ids where "ids = image_mset lr_candidate_id (held M)"
  have c: "counts (count_down (lr_candidate_id r) (lt_in_flight t)) ids"
    using assms Inl counts_down [of "lt_in_flight t" "add_mset (lr_candidate_id r) ids" "lr_candidate_id r"]
    by (simp add: load_represents_def ids_def)
  show ?thesis
  proof (cases "lr_host_group r")
    case None
    then show ?thesis using assms Inl c
      by (auto simp: load_represents_def release_candidate_load_def ids_def)
  next
    case (Some h)
    then have "host_represents (lt_host_usage t h) (add_mset r (on_host h M))"
      using assms Inl by (auto simp: load_represents_def dest: spec [of _ h])
    moreover from this obtain u where "lt_host_usage t h = Some u"
      by (auto simp: host_represents_def split: option.splits)
    moreover have "host_represents (lt_host_usage t j) (on_host j M)" if "j \<noteq> h" for j
      using assms Inl Some that by (auto simp: load_represents_def dest: spec [of _ j])
    ultimately show ?thesis using assms Inl c Some host_release [of u r "on_host h M"]
      by (cases "hl_requests (remove_from_host r u) = 0")
        (simp_all add: load_represents_def release_candidate_load_def ids_def Let_def)
  qed
qed

lemma tracker_release:
  "load_represents t M \<Longrightarrow> l \<in># M \<Longrightarrow> load_represents (release_lease l t) (M - {#l#})"
  using tracker_release_add [of t l "M - {#l#}"] by simp

lemma tracker_unused: "load_represents t {#} \<longleftrightarrow> t = empty_tracker"
proof
  assume "load_represents t {#}"
  then have "lt_in_flight t = Map.empty" "lt_waiting t = Map.empty" "lt_host_usage t = Map.empty"
    by (auto simp: load_represents_def counts_empty host_represents_def fun_eq_iff split: option.splits)
  then show "t = empty_tracker" by (simp add: empty_tracker_def)
qed (auto simp: load_represents_def counts_empty host_represents_def empty_tracker_def)

interpretation load: lease_store acquire_lease release_lease load_represents fits_machine empty_tracker
  by unfold_locales (simp_all add: tracker_unused tracker_acquire tracker_release)


section \<open>Executions\<close>

text \<open>
  An execution of the tracker by the requests of the service: a reservation that is granted, a
  place in a queue that is taken, and the release of either by the guard that owns it. A refused
  reservation changes nothing and needs no rule.
\<close>

inductive load_reachable ::
  "(string \<Rightarrow> parsed_url option) \<Rightarrow> load_tracker \<Rightarrow> load_lease multiset \<Rightarrow> bool" for parse_url where
  start: "load_reachable parse_url empty_tracker {#}"
| grant: "load_reachable parse_url t M \<Longrightarrow> fits_machine M (Inl (reservation_of parse_url c)) \<Longrightarrow>
     reserve_candidate_load parse_url c t = (Some r, t') \<Longrightarrow> load_reachable parse_url t' (add_mset (Inl r) M)"
| queue: "load_reachable parse_url t M \<Longrightarrow> load_reachable parse_url (begin_waiting cid t) (add_mset (Inr cid) M)"
| leave: "load_reachable parse_url t M \<Longrightarrow> Inr cid \<in># M \<Longrightarrow>
     load_reachable parse_url (release_candidate_waiting cid t) (M - {#Inr cid#})"
| finish: "load_reachable parse_url t M \<Longrightarrow> Inl r \<in># M \<Longrightarrow>
     load_reachable parse_url (release_candidate_load r t) (M - {#Inl r#})"

lemma reserve_granted:
  assumes "reserve_candidate_load parse_url c t = (Some r, t')"
  shows "r = reservation_of parse_url c" "t' = acquire_load r t"
    "\<not> limit_reached c (unwrap_or 0 (lt_in_flight t (candidate_id parse_url c)))"
    "is_none_or (\<lambda>u. \<not> host_budget_exceeded c u) (projected_usage c t)"
  using assms
  by (auto simp: reserve_candidate_load_def acquire_load_def projected_usage_def reservation_of_def
      Let_def split: if_splits option.splits)

lemma reserve_refused:
  assumes "reserve_candidate_load parse_url c t = (None, t')"
  shows "t' = t"
    "limit_reached c (unwrap_or 0 (lt_in_flight t (candidate_id parse_url c)))
     \<or> is_some_and (host_budget_exceeded c) (projected_usage c t)"
  using assms
  by (auto simp: reserve_candidate_load_def projected_usage_def Let_def split: if_splits option.splits)

lemma reachable_represents: "load_reachable parse_url t M \<Longrightarrow> load_represents t M"
proof (induction rule: load_reachable.induct)
  case start
  show ?case by (simp add: load.unused_represents)
next
  case (grant t M c r t')
  then show ?case
    using load.acquire_represents [of t M "Inl r"] reserve_granted(1,2) by fastforce
next
  case (queue t M cid)
  then show ?case using load.acquire_represents [of t M "Inr cid"] by (simp add: fits_machine_def)
next
  case (leave t M cid)
  then show ?case using load.release_represents [of t M "Inr cid"] by simp
next
  case (finish t M r)
  then show ?case using load.release_represents [of t M "Inl r"] by simp
qed

text \<open>What the tracker promises: exact counts and totals of the leases that are out.\<close>

definition tracker_exact :: "load_tracker \<Rightarrow> load_lease multiset \<Rightarrow> bool" where
  "tracker_exact t M \<longleftrightarrow>
     (\<forall>cid. unwrap_or 0 (lt_in_flight t cid) = size {#r \<in># held M. lr_candidate_id r = cid#}
          \<and> unwrap_or 0 (lt_waiting t cid) = count (waiters M) cid)
     \<and> (\<forall>h. let u = unwrap_or idle_host (lt_host_usage t h)
            in hl_requests u = size (on_host h M) \<and> unat (hl_ram_mb u) = ram_of (on_host h M)
               \<and> unat (hl_vram_mb u) = vram_of (on_host h M) \<and> f_le (Fin 0) (hl_cpu u))"

lemma count_image_size: "count (image_mset f M) y = size {#x \<in># M. f x = y#}"
  by (induction M) auto

lemma represents_exact: "load_represents t M \<Longrightarrow> tracker_exact t M"
proof -
  assume rep: "load_represents t M"
  have "unwrap_or 0 (lt_in_flight t cid) = size {#r \<in># held M. lr_candidate_id r = cid#}"
    "unwrap_or 0 (lt_waiting t cid) = count (waiters M) cid" for cid
    using rep by (auto simp: load_represents_def counts_get count_image_size)
  moreover have "let u = unwrap_or idle_host (lt_host_usage t h)
            in hl_requests u = size (on_host h M) \<and> unat (hl_ram_mb u) = ram_of (on_host h M)
               \<and> unat (hl_vram_mb u) = vram_of (on_host h M) \<and> f_le (Fin 0) (hl_cpu u)" for h
    using rep by (cases "lt_host_usage t h")
      (auto simp: load_represents_def host_represents_def idle_host_def dest: spec [of _ h])
  ultimately show ?thesis by (simp add: tracker_exact_def)
qed

text \<open>C19: In every execution, whatever the interleaving of requests, the tracker implements the
  multiset of the leases that are out: its counts of requests in flight and waiting and its
  totals of a host's requests and memory are exactly those of the leases taken and not released.\<close>

theorem tracker_refines_leases: "load_reachable parse_url t M \<Longrightarrow> tracker_exact t M"
  by (rule represents_exact [OF reachable_represents])


section \<open>Limits and budgets\<close>

lemma f_max_not_nan: "a \<noteq> NaN \<Longrightarrow> f_max a b \<noteq> NaN"
  by (cases a; cases b) (auto simp: f_max_def max_def)

lemma f_max_ge: "b \<noteq> NaN \<Longrightarrow> b \<le> f_max a b" "a \<noteq> NaN \<Longrightarrow> a \<le> f_max a b"
  by (cases a; cases b; auto simp: f_max_def max_def)+

lemma foldl_max:
  "a \<noteq> NaN \<Longrightarrow> foldl f_max a xs \<noteq> NaN \<and> a \<le> foldl f_max a xs
     \<and> (\<forall>x\<in>set xs. x \<noteq> NaN \<longrightarrow> x \<le> foldl f_max a xs)"
proof (induction xs arbitrary: a)
  case (Cons y ys)
  then have "foldl f_max (f_max a y) ys \<noteq> NaN" "f_max a y \<le> foldl f_max (f_max a y) ys"
    "\<forall>x\<in>set ys. x \<noteq> NaN \<longrightarrow> x \<le> foldl f_max (f_max a y) ys"
    using f_max_not_nan by auto
  then show ?case using Cons.prems f_max_ge [of a y] f_max_ge [of y a] by (auto intro: order_trans)
qed simp

lemma ratio_above_one:
  assumes "0 < b" "b \<le> 2 ^ 52" "b < n"
  shows "Fin 1 < f_div (f_of_nat n) (f_of_nat b)" "f_div (f_of_nat n) (f_of_nat b) \<noteq> NaN"
proof -
  have b: "f_of_nat b = Fin (of_nat b)" and b1: "rnd (of_nat (b + 1)) = Fin (of_nat (b + 1))"
    using rnd_of_int [of "int b"] rnd_of_int [of "int (b + 1)"] assms by (simp_all add: f_of_nat_def)
  have "rnd (of_nat (b + 1)) \<le> f_of_nat n"
    unfolding f_of_nat_def using assms by (intro rnd_mono) simp
  then have ge: "Fin (of_nat (b + 1)) \<le> f_of_nat n" by (simp only: b1)
  have step: "rnd (1 + 1 / 2 ^ 52) = Fin (1 + 1 / 2 ^ 52)"
  proof (rule rnd_exact [where m = "2 ^ 52 + 1" and e = "- 52"])
    have "pow2 1 \<le> pow2 1024" by simp
    then have "(2::rat) \<le> pow2 1024" by (simp add: pow2_def)
    then show "\<bar>1 + 1 / 2 ^ 52 :: rat\<bar> < pow2 1024" by simp
  qed (simp_all add: pow2_def power_int_minus)
  have "Fin 1 < f_div (f_of_nat n) (f_of_nat b) \<and> f_div (f_of_nat n) (f_of_nat b) \<noteq> NaN"
  proof (cases "f_of_nat n")
    case (Fin a)
    then have "of_nat b + 1 \<le> a" using ge by simp
    moreover have "(of_nat b :: rat) \<le> 2 ^ 52" using assms(2) by (metis of_nat_le_iff of_nat_numeral of_nat_power)
    ultimately have "1 + 1 / 2 ^ 52 \<le> a / of_nat b" using assms(1)
      by (simp add: field_simps)
    then have "rnd (1 + 1 / 2 ^ 52) \<le> rnd (a / of_nat b)" by (rule rnd_mono)
    moreover have "Fin 1 < Fin (1 + 1 / 2 ^ 52)" by (simp add: less_f64_def)
    ultimately show ?thesis using Fin b assms(1) step by (simp add: f_div_def)
  next
    case NaN
    then show ?thesis by (simp add: f_of_nat_def)
  qed (use ge b assms in \<open>auto simp: f_div_def f_inf_def less_eq_f64_def less_f64_def\<close>)
  then show "Fin 1 < f_div (f_of_nat n) (f_of_nat b)" "f_div (f_of_nat n) (f_of_nat b) \<noteq> NaN" by auto
qed

lemma exceeded_when_ratio:
  assumes "x \<in> set (budget_ratios c u)" "Fin 1 < x" "x \<noteq> NaN"
  shows "host_budget_exceeded c u"
proof -
  have "x \<le> foldl f_max (Fin 0) (budget_ratios c u)" "foldl f_max (Fin 0) (budget_ratios c u) \<noteq> NaN"
    using foldl_max [of "Fin 0" "budget_ratios c u"] assms by auto
  then have "x \<le> host_budget_ratio c u" "host_budget_ratio c u \<noteq> NaN"
    using f_max_ge(2) f_max_not_nan by (auto simp: host_budget_ratio_def intro: order_trans)
  then show ?thesis using assms by (auto simp: host_budget_exceeded_def f_lt_iff)
qed

lemma memory_ratio:
  fixes v b :: u64
  assumes "unat b \<le> 2 ^ 52" "b \<noteq> 0" "n = f_div (f_of_nat (unat v)) (f_of_nat (unat b))"
    "n \<in> set (budget_ratios c u)" "\<not> host_budget_exceeded c u"
  shows "unat v \<le> unat b"
proof (rule ccontr)
  assume "\<not> unat v \<le> unat b"
  moreover have "0 < unat b" using assms(2) by (simp add: unat_gt_0)
  ultimately have "Fin 1 < n" "n \<noteq> NaN" using ratio_above_one [of "unat b" "unat v"] assms(1,3) by auto
  then show False using exceeded_when_ratio assms(4,5) by blast
qed

lemma within_memory:
  assumes "\<not> host_budget_exceeded c u" "b \<noteq> 0" "unat b \<le> 2 ^ 52"
  shows "pc_host_ram_budget_mb c = Some b \<Longrightarrow> unat (hl_ram_mb u) \<le> unat b"
    "pc_host_vram_budget_mb c = Some b \<Longrightarrow> unat (hl_vram_mb u) \<le> unat b"
  using assms
  by (auto intro!: memory_ratio [OF _ _ refl, of b _ c u]
      simp: budget_ratios_def option_filter_def word_gt_0 split: option.splits)

lemma sat_sum_le: "unat (sat_add a b) \<le> n \<Longrightarrow> n \<le> 2 ^ 52 \<Longrightarrow> unat a + unat b \<le> n" for a :: u64
  by (simp add: unat_sat_add min_def split: if_splits)

text \<open>The limits of a reservation for a candidate while the leases \<open>M\<close> are out.\<close>

definition memory_within :: "u64 option \<Rightarrow> nat \<Rightarrow> bool" where
  "memory_within budget used =
     is_none_or (\<lambda>b. b \<noteq> 0 \<and> unat b \<le> 2 ^ 52 \<longrightarrow> used \<le> unat b) budget"

definition within_limits ::
  "(string \<Rightarrow> parsed_url option) \<Rightarrow> provider_candidate \<Rightarrow> load_lease multiset \<Rightarrow> bool" where
  "within_limits parse_url c M \<longleftrightarrow>
     is_none_or (\<lambda>limit. size {#r \<in># held M. lr_candidate_id r = candidate_id parse_url c#} < max limit 1)
       (pc_max_concurrent_requests c)
     \<and> is_none_or (\<lambda>h.
          memory_within (pc_host_ram_budget_mb c) (ram_of (on_host h M) + unat (pc_resource_cost_ram_mb c))
          \<and> memory_within (pc_host_vram_budget_mb c) (vram_of (on_host h M) + unat (pc_resource_cost_vram_mb c)))
       (pc_host_group c)"

lemma memory_withinI:
  "(\<And>b. budget = Some b \<Longrightarrow> b \<noteq> 0 \<Longrightarrow> unat b \<le> 2 ^ 52 \<Longrightarrow> used \<le> unat b) \<Longrightarrow> memory_within budget used"
  by (cases budget) (simp_all add: memory_within_def)

lemma granted_within_limits:
  assumes "tracker_exact t M" and "reserve_candidate_load parse_url c t = (Some r, t')"
  shows "within_limits parse_url c M"
proof -
  have "\<not> limit_reached c (size {#r \<in># held M. lr_candidate_id r = candidate_id parse_url c#})"
    using assms(1) reserve_granted(3) [OF assms(2)] by (simp add: tracker_exact_def)
  then have "is_none_or (\<lambda>limit. size {#r \<in># held M. lr_candidate_id r = candidate_id parse_url c#} < max limit 1)
       (pc_max_concurrent_requests c)"
    by (cases "pc_max_concurrent_requests c") (simp_all only: limit_reached_def option_conv_simps not_le)
  moreover have "memory_within (pc_host_ram_budget_mb c) (ram_of (on_host h M) + unat (pc_resource_cost_ram_mb c))
          \<and> memory_within (pc_host_vram_budget_mb c) (vram_of (on_host h M) + unat (pc_resource_cost_vram_mb c))"
    if h: "pc_host_group c = Some h" for h
  proof -
    define u where "u = add_to_host (f_max (pc_resource_cost_cpu c) (Fin 0)) (pc_resource_cost_ram_mb c)
         (pc_resource_cost_vram_mb c) (unwrap_or idle_host (lt_host_usage t h))"
    have fits: "\<not> host_budget_exceeded c u"
      using reserve_granted(4) [OF assms(2)] h by (simp add: projected_usage_def u_def)
    have ram: "unat (hl_ram_mb (unwrap_or idle_host (lt_host_usage t h))) = ram_of (on_host h M)"
      "unat (hl_vram_mb (unwrap_or idle_host (lt_host_usage t h))) = vram_of (on_host h M)"
      using assms(1) by (simp_all add: tracker_exact_def Let_def)
    have u: "hl_ram_mb u = sat_add (hl_ram_mb (unwrap_or idle_host (lt_host_usage t h))) (pc_resource_cost_ram_mb c)"
      "hl_vram_mb u = sat_add (hl_vram_mb (unwrap_or idle_host (lt_host_usage t h))) (pc_resource_cost_vram_mb c)"
      by (simp_all add: u_def add_to_host_def)
    show ?thesis
      using sat_sum_le [OF within_memory(1) [OF fits, unfolded u]]
        sat_sum_le [OF within_memory(2) [OF fits, unfolded u]] ram
      by (auto intro!: memory_withinI)
  qed
  ultimately show ?thesis by (simp add: within_limits_def is_none_or_def split: option.splits)
qed

text \<open>A granted reservation respects the limits: fewer requests than the candidate's limit were in
  flight, and the memory reserved on its host with this reservation stays within the
  candidate's budgets (of at most 2^52 MB, below which the ratios are compared exactly enough).\<close>

theorem grants_respect_limits:
  "load_reachable parse_url t M \<Longrightarrow> reserve_candidate_load parse_url c t = (Some r, t') \<Longrightarrow>
     within_limits parse_url c M"
  by (rule granted_within_limits [OF represents_exact [OF reachable_represents]])

text \<open>No capacity is lost: once every lease of an execution is released, the tracker is empty again,
  and a reservation for a candidate is then granted exactly when one request of it fits its
  host's budget.\<close>

theorem released_capacity_returns:
  "load_reachable parse_url t {#} \<Longrightarrow>
     t = empty_tracker
     \<and> ((fst (reserve_candidate_load parse_url c t) \<noteq> None) \<longleftrightarrow>
         is_none_or (\<lambda>u. \<not> host_budget_exceeded c u) (projected_usage c empty_tracker))"
proof -
  assume "load_reachable parse_url t {#}"
  then have t: "t = empty_tracker" using reachable_represents load.unused_represents by blast
  have "\<not> limit_reached c 0" by (auto simp: limit_reached_def is_some_and_def split: option.splits)
  then have "fst (reserve_candidate_load parse_url c empty_tracker) \<noteq> None \<longleftrightarrow>
         is_none_or (\<lambda>u. \<not> host_budget_exceeded c u) (projected_usage c empty_tracker)"
    by (auto simp: reserve_candidate_load_def projected_usage_def empty_tracker_def Let_def
        split: option.splits)
  with t show ?thesis by simp
qed


section \<open>A sample execution\<close>

text \<open>A candidate that takes the whole memory of its host, with one request at a time.\<close>

definition sample_candidate :: provider_candidate where
  "sample_candidate =
     from_profile \<lparr>rp_version = 1, rp_workflow_profiles = [], rp_keyword_tags = [], rp_provider_specialties = []\<rparr>
       (default_provider_profile
         \<lparr>pf_provider_type := ''ollama'', pf_host_group := Some ''h'', pf_max_concurrent_requests := Some 1,
          pf_resource_cost_ram_mb := 1, pf_host_ram_budget_mb := Some 1\<rparr>)"

definition no_url :: "string \<Rightarrow> parsed_url option" where
  "no_url s = None"

lemma sample_fields [simp]:
  "pc_host_group sample_candidate = Some ''h''" "pc_max_concurrent_requests sample_candidate = Some 1"
  "pc_resource_cost_ram_mb sample_candidate = 1" "pc_resource_cost_vram_mb sample_candidate = 0"
  "pc_host_ram_budget_mb sample_candidate = Some 1" "pc_host_vram_budget_mb sample_candidate = None"
  "pc_host_cpu_budget sample_candidate = None" "pc_resource_cost_cpu sample_candidate = Fin 0"
  by (simp_all add: sample_candidate_def from_profile_def default_provider_profile_def Let_def
      option_filter_def f_max_def)

lemma sample_fits:
  "\<not> host_budget_exceeded sample_candidate (add_to_host (f_max (Fin 0) (Fin 0)) 1 0 idle_host)"
proof -
  have "f_of_nat 1 = Fin 1" using rnd_of_int [of 1] by (simp add: f_of_nat_def)
  then have "f_div (f_of_nat 1) (f_of_nat 1) = Fin 1" using rnd_of_int [of 1] by (simp add: f_div_def)
  then show ?thesis
    by (simp add: host_budget_exceeded_def host_budget_ratio_def budget_ratios_def option_filter_def
        add_to_host_def idle_host_def sat_add_def f_max_def max_def)
qed

definition sample_held :: load_tracker where
  "sample_held = acquire_load (reservation_of no_url sample_candidate) empty_tracker"

lemma sample_reserve:
  "reserve_candidate_load no_url sample_candidate empty_tracker
     = (Some (reservation_of no_url sample_candidate), sample_held)"
  using sample_fits
  by (simp add: reserve_candidate_load_def sample_held_def acquire_load_def reservation_of_def Let_def
      limit_reached_def empty_tracker_def)

lemma sample_reachable:
  "load_reachable no_url sample_held {#Inl (reservation_of no_url sample_candidate)#}"
  by (rule load_reachable.grant [OF load_reachable.start _ sample_reserve])
    (simp add: fits_machine_def reservation_of_def f_max_def usize_max_def)

lemma sample_released: "load_reachable no_url
    (release_candidate_load (reservation_of no_url sample_candidate) sample_held) {#}"
  using load_reachable.finish [OF sample_reachable] by simp

theorem tracker_refines_leases_witness:
  "tracker_exact sample_held {#Inl (reservation_of no_url sample_candidate)#}"
  by (rule tracker_refines_leases [OF sample_reachable])

theorem grants_respect_limits_witness: "within_limits no_url sample_candidate {#}"
  by (rule grants_respect_limits [OF load_reachable.start sample_reserve])

theorem released_capacity_returns_witness:
  "release_candidate_load (reservation_of no_url sample_candidate) sample_held = empty_tracker"
  using released_capacity_returns [OF sample_released] by blast

end
