(* ===== verification/StableSort.thy ===== *)
theory StableSort
  imports Float64
begin

text \<open>
  Rust's comparators and its stable sort: \<open>Ordering\<close>, \<open>then_with\<close>, \<open>sort_by\<close> and
  \<open>max_by\<close>, and what a stable sort promises for a consistent comparator.

  \<open>sort_by\<close> is insertion of the elements from the last to the first, each before the first one
  it does not exceed. For a comparator that is a total preorder this is the stable sort of the
  standard library; for others the library leaves the order open and may panic, and only the
  elements of the result are meant.
\<close>

datatype cmp_result = Lesser | Equal | Greater

definition then_with :: "cmp_result \<Rightarrow> cmp_result \<Rightarrow> cmp_result" where
  "then_with a b = (if a = Equal then b else a)"

definition cmp_of :: "'a::linorder \<Rightarrow> 'a \<Rightarrow> cmp_result" where
  "cmp_of x y = (if x < y then Lesser else if x = y then Equal else Greater)"

text \<open>\<open>partial_cmp(..).unwrap_or(Equal)\<close> of two floats.\<close>

definition partial_cmp_or_equal :: "f64 \<Rightarrow> f64 \<Rightarrow> cmp_result" where
  "partial_cmp_or_equal x y = (if is_nan x \<or> is_nan y then Equal else cmp_of x y)"

fun insert_by :: "('a \<Rightarrow> 'a \<Rightarrow> cmp_result) \<Rightarrow> 'a \<Rightarrow> 'a list \<Rightarrow> 'a list" where
  "insert_by compare x [] = [x]"
| "insert_by compare x (y # ys) =
     (if compare x y = Greater then y # insert_by compare x ys else x # y # ys)"

definition sort_by :: "('a \<Rightarrow> 'a \<Rightarrow> cmp_result) \<Rightarrow> 'a list \<Rightarrow> 'a list" where
  "sort_by compare xs = foldr (insert_by compare) xs []"

text \<open>The last of the greatest elements.\<close>

fun max_by :: "('a \<Rightarrow> 'a \<Rightarrow> cmp_result) \<Rightarrow> 'a list \<Rightarrow> 'a option" where
  "max_by compare [] = None"
| "max_by compare (x # xs) = Some (foldl (\<lambda>best y. if compare best y = Greater then best else y) x xs)"

section \<open>Elements\<close>

lemma mset_insert_by [simp]: "mset (insert_by compare x ys) = add_mset x (mset ys)"
  by (induction ys) auto

lemma mset_sort_by [simp]: "mset (sort_by compare xs) = mset xs"
  unfolding sort_by_def by (induction xs) auto

lemma set_sort_by [simp]: "set (sort_by compare xs) = set xs"
  by (metis mset_sort_by set_mset_mset)

lemma length_sort_by [simp]: "length (sort_by compare xs) = length xs"
  by (metis mset_sort_by size_mset)

lemma sort_by_Nil [simp]: "sort_by compare xs = [] \<longleftrightarrow> xs = []"
  by (metis length_0_conv length_sort_by)

lemma distinct_map_sort_by [simp]: "distinct (map f (sort_by compare xs)) = distinct (map f xs)"
  by (metis mset_eq_imp_distinct_iff mset_map mset_sort_by)

lemma foldl_choice: "(\<And>a b. f a b \<in> {a, b}) \<Longrightarrow> foldl f x xs \<in> set (x # xs)"
proof (induction xs arbitrary: x)
  case (Cons y ys)
  have "foldl f (f x y) ys \<in> set (f x y # ys)" by (rule Cons.IH [OF Cons.prems])
  moreover have "f x y \<in> {x, y}" by (rule Cons.prems)
  ultimately show ?case by auto
qed simp

lemma max_by_in: "max_by compare xs = Some m \<Longrightarrow> m \<in> set xs"
proof (cases xs)
  case (Cons y ys)
  have "foldl (\<lambda>best y. if compare best y = Greater then best else y) y ys \<in> set (y # ys)"
    by (rule foldl_choice) simp
  then show "max_by compare xs = Some m \<Longrightarrow> m \<in> set xs" using Cons by auto
qed simp

lemma max_by_None [simp]: "max_by compare xs = None \<longleftrightarrow> xs = []"
  by (cases xs) simp_all

lemma insert_by_cong: "(\<And>y. y \<in> set ys \<Longrightarrow> compare x y = compare' x y) \<Longrightarrow>
    insert_by compare x ys = insert_by compare' x ys"
  by (induction ys) auto

lemma sort_by_cong:
  "(\<And>x y. x \<in> set xs \<Longrightarrow> y \<in> set xs \<Longrightarrow> compare x y = compare' x y) \<Longrightarrow> sort_by compare xs = sort_by compare' xs"
proof (induction xs)
  case (Cons x xs)
  have "sort_by compare xs = sort_by compare' xs" using Cons by auto
  moreover have "insert_by compare x (sort_by compare' xs) = insert_by compare' x (sort_by compare' xs)"
    using Cons.prems by (intro insert_by_cong) auto
  ultimately show ?case by (simp add: sort_by_def)
qed (simp add: sort_by_def)

section \<open>Order\<close>

text \<open>A consistent comparator: \<open>compare x y \<noteq> Greater\<close> is a total preorder.\<close>

locale consistent_comparator =
  fixes compare :: "'a \<Rightarrow> 'a \<Rightarrow> cmp_result"
  assumes not_above: "compare x y = Greater \<Longrightarrow> compare y x \<noteq> Greater"
    and chain: "compare x y \<noteq> Greater \<Longrightarrow> compare y z \<noteq> Greater \<Longrightarrow> compare x z \<noteq> Greater"
begin

lemma sorted_insert_by:
  "sorted_wrt (\<lambda>x y. compare x y \<noteq> Greater) ys \<Longrightarrow>
     sorted_wrt (\<lambda>x y. compare x y \<noteq> Greater) (insert_by compare x ys)"
proof (induction ys)
  case (Cons y ys)
  have set: "set (insert_by compare x ys) = insert x (set ys)"
    by (metis mset_insert_by set_mset_add_mset_insert set_mset_mset)
  show ?case
  proof (cases "compare x y = Greater")
    case True
    then show ?thesis using Cons set not_above by auto
  next
    case False
    then show ?thesis using Cons.prems chain by auto
  qed
qed simp

lemma sorted_sort_by: "sorted_wrt (\<lambda>x y. compare x y \<noteq> Greater) (sort_by compare xs)"
  unfolding sort_by_def by (induction xs) (auto simp: sorted_insert_by)

lemma hd_sort_by: "x \<in> set xs \<Longrightarrow> compare (hd (sort_by compare xs)) x \<noteq> Greater"
proof -
  assume x: "x \<in> set xs"
  have refl: "compare y y \<noteq> Greater" for y using not_above by blast
  obtain y ys where s: "sort_by compare xs = y # ys" using x by (cases "sort_by compare xs") auto
  have "x \<in> set (y # ys)" using x s by (metis set_sort_by)
  then show ?thesis using sorted_sort_by [of xs] s refl by auto
qed

lemma sorted_unique:
  "sorted_wrt (\<lambda>x y. compare x y \<noteq> Greater) xs \<Longrightarrow> sorted_wrt (\<lambda>x y. compare x y \<noteq> Greater) ys \<Longrightarrow>
     mset xs = mset ys \<Longrightarrow>
     (\<forall>x\<in>set xs. \<forall>y\<in>set xs. compare x y \<noteq> Greater \<and> compare y x \<noteq> Greater \<longrightarrow> x = y) \<Longrightarrow> xs = ys"
proof (induction xs arbitrary: ys)
  case (Cons x xs)
  then obtain y zs where ys: "ys = y # zs" by (cases ys) auto
  have sets: "set (x # xs) = set ys" using Cons.prems(3) by (metis set_mset_mset)
  have "x = y"
  proof (rule ccontr)
    assume "x \<noteq> y"
    then have "y \<in> set xs" "x \<in> set zs" using sets ys by auto
    then show False using Cons.prems ys \<open>x \<noteq> y\<close> by auto
  qed
  then show ?case using Cons ys by auto
qed simp

text \<open>Where no two elements compare equal, sorting does not depend on the order it starts from.\<close>

lemma sort_by_permutation:
  "mset xs = mset ys \<Longrightarrow>
     (\<forall>x\<in>set xs. \<forall>y\<in>set xs. compare x y \<noteq> Greater \<and> compare y x \<noteq> Greater \<longrightarrow> x = y) \<Longrightarrow>
     sort_by compare xs = sort_by compare ys"
  by (rule sorted_unique [OF sorted_sort_by sorted_sort_by]) simp_all

end

lemma cmp_of_simps [simp]:
  "cmp_of x y = Greater \<longleftrightarrow> y < x" "cmp_of x y = Equal \<longleftrightarrow> x = y" "cmp_of x y = Lesser \<longleftrightarrow> x < y"
  by (auto simp: cmp_of_def)

lemma then_with_Greater [simp]:
  "then_with a b = Greater \<longleftrightarrow> a = Greater \<or> a = Equal \<and> b = Greater"
  by (auto simp: then_with_def)

text \<open>Comparators compose by \<open>then_with\<close>, and any key to a linear order gives one.\<close>

lemma consistent_key: "consistent_comparator (\<lambda>x y. cmp_of (f x) (f y))" for f :: "'a \<Rightarrow> 'b::linorder"
  by unfold_locales (auto simp: not_less)

interpretation natural_order: consistent_comparator "cmp_of :: 'a::linorder \<Rightarrow> 'a \<Rightarrow> cmp_result"
  by unfold_locales auto

end
