(* ===== verification/Selection.thy ===== *)
theory Selection
  imports StableSort HealthClass
begin

text \<open>
  \<^verbatim>\<open>src/src/orchestration.rs\<close>: which of the ranked candidates a request is sent to. The ranked
  selection by health, throughput and size; the adaptive selection by estimated completion time;
  and the round robin over equivalent endpoints. A hash map of estimates is the list of its
  entries; the results do not depend on their order.
\<close>

section \<open>Picking candidates\<close>

record pick_state =
  ps_selected :: "provider_candidate list"
  ps_ids :: "string set"
  ps_models :: "string set"
  ps_providers :: "string set"

definition nothing_picked :: pick_state where
  "nothing_picked = \<lparr>ps_selected = [], ps_ids = {}, ps_models = {}, ps_providers = {}\<rparr>"

definition add_pick :: "(provider_candidate \<Rightarrow> string) \<Rightarrow> provider_candidate \<Rightarrow> pick_state \<Rightarrow> pick_state" where
  "add_pick key c st =
     \<lparr>ps_selected = ps_selected st @ [c], ps_ids = insert (key c) (ps_ids st),
      ps_models = insert (candidate_model_key c) (ps_models st),
      ps_providers = insert (pc_provider_type c) (ps_providers st)\<rparr>"

text \<open>
  A pass over the ordered candidates; the flag is set when it filled the selection. The first pass
  takes each provider family at most once. (The second pass of the code does not record
  families, which nothing reads after it.)
\<close>

fun pick :: "(provider_candidate \<Rightarrow> string) \<Rightarrow> bool \<Rightarrow> bool \<Rightarrow> nat \<Rightarrow> provider_candidate list \<Rightarrow> pick_state \<Rightarrow>
    bool \<times> pick_state" where
  "pick key families dedup target [] st = (False, st)"
| "pick key families dedup target (c # cs) st =
     (if families \<and> pc_provider_type c \<in> ps_providers st then pick key families dedup target cs st
      else if dedup \<and> candidate_model_key c \<in> ps_models st then pick key families dedup target cs st
      else if key c \<in> ps_ids st then pick key families dedup target cs st
      else let st' = add_pick key c st
           in if length (ps_selected st') = target then (True, st')
              else pick key families dedup target cs st')"

definition pick_twice ::
  "(provider_candidate \<Rightarrow> string) \<Rightarrow> bool \<Rightarrow> nat \<Rightarrow> provider_candidate list \<Rightarrow> provider_candidate list" where
  "pick_twice key dedup target cs =
     (case pick key True dedup target cs nothing_picked of
        (True, st) \<Rightarrow> ps_selected st
      | (False, st) \<Rightarrow> ps_selected (snd (pick key False dedup target cs st)))"

section \<open>Ranked selection\<close>

definition throughput_cmp :: "f64 option \<Rightarrow> f64 option \<Rightarrow> cmp_result" where
  "throughput_cmp right left =
     (case (right, left) of
        (Some r, Some l) \<Rightarrow> partial_cmp_or_equal r l
      | (Some _, None) \<Rightarrow> Lesser
      | (None, Some _) \<Rightarrow> Greater
      | (None, None) \<Rightarrow> Equal)"

definition ranked_cmp :: "ranked_candidate \<Rightarrow> ranked_candidate \<Rightarrow> cmp_result" where
  "ranked_cmp left right =
     then_with (cmp_of (rk_health_ok right) (rk_health_ok left))
       (then_with (throughput_cmp (rk_generation_tokens_per_second right) (rk_generation_tokens_per_second left))
         (cmp_of (model_size_tier (pc_configured_model (rk_candidate right)))
                 (model_size_tier (pc_configured_model (rk_candidate left)))))"

definition best_local_fallback_candidate :: "ranked_candidate list \<Rightarrow> provider_candidate option" where
  "best_local_fallback_candidate ranked =
     map_option rk_candidate
       (max_by (\<lambda>left right. then_with (cmp_of (rk_health_ok left) (rk_health_ok right))
                  (partial_cmp_or_equal (rk_score left) (rk_score right)))
         (filter (\<lambda>item. candidate_is_local_fallback (rk_candidate item)) ranked))"

definition ensure_local_fallback_selected ::
  "(string \<Rightarrow> parsed_url option) \<Rightarrow> provider_candidate list \<Rightarrow> provider_candidate option \<Rightarrow> nat \<Rightarrow> bool \<Rightarrow>
     provider_candidate list" where
  "ensure_local_fallback_selected parse_url selected local_fallback target dedup =
     (case local_fallback of
        None \<Rightarrow> selected
      | Some fb \<Rightarrow>
          if \<exists>c\<in>set selected. candidate_id parse_url c = candidate_id parse_url fb then selected
          else if dedup \<and> (\<exists>c\<in>set selected. candidate_model_key c = candidate_model_key fb) then selected
          else if length selected < target then selected @ [fb]
          else if 2 \<le> target then butlast selected @ [fb]
          else selected)"

definition select_ranked_candidates ::
  "(string \<Rightarrow> parsed_url option) \<Rightarrow> ranked_candidate list \<Rightarrow> nat \<Rightarrow> bool \<Rightarrow> provider_candidate list" where
  "select_ranked_candidates parse_url ranked max_candidates dedup =
     (let target = max max_candidates 1;
          ordered = sort_by ranked_cmp ranked;
          local_fallback = (if 2 \<le> target then best_local_fallback_candidate ranked else None)
      in ensure_local_fallback_selected parse_url
           (pick_twice candidate_attempt_key dedup target (map rk_candidate ordered))
           local_fallback target dedup)"

section \<open>Adaptive selection\<close>

record dispatch_estimate =
  de_samples :: nat
  de_useful_rate :: f64
  de_service_time_ms :: f64
  de_queue_depth :: nat
  de_candidate_parallelism :: nat
  de_estimated_completion_ms :: f64
  de_estimated_useful_completion_ms :: f64

type_synonym estimates = "(string \<times> dispatch_estimate) list"

record dispatch_policy =
  dp_race_window_ms :: f64
  dp_max_raced_candidates :: nat

definition default_provider_concurrency_seed :: "environment \<Rightarrow> nat" where
  "default_provider_concurrency_seed env =
     min (max (env_int_any env [''GAIL_DEFAULT_PROVIDER_CONCURRENCY''] 4) 1) 64"

definition adaptive_race_window_seed_ms :: "environment \<Rightarrow> f64" where
  "adaptive_race_window_seed_ms env =
     f_clamp (env_float_any env [''GAIL_ADAPTIVE_RACE_WINDOW_MS''] (Fin 750)) (Fin 0) (Fin 30000)"

definition adaptive_race_candidate_seed :: "environment \<Rightarrow> nat \<Rightarrow> nat" where
  "adaptive_race_candidate_seed env target =
     min (max (env_int_any env [''GAIL_ADAPTIVE_MAX_RACED_CANDIDATES''] 2) 1) (max target 1)"

definition suggested_pool_size :: "nat \<Rightarrow> nat \<Rightarrow> nat \<Rightarrow> nat" where
  "suggested_pool_size cpu_cores configured divisor =
     (let derived = min (max (if divisor = 0 then cpu_cores else cpu_cores div divisor) 1) 4096
      in min (max (max configured derived) 1) 4096)"

text \<open>\<open>min_by(f64::total_cmp)\<close> of the finite positive values, or the default.\<close>

definition least_positive :: "f64 list \<Rightarrow> f64" where
  "least_positive vs =
     (case filter (\<lambda>v. is_finite v \<and> f_lt (Fin 0) v) vs of
        [] \<Rightarrow> Fin 5000 | v # rest \<Rightarrow> foldl min v rest)"

text \<open>The least \<open>k\<close> with \<open>n \<le> k * k\<close>, which is \<open>(n as f64).sqrt().ceil()\<close> for counts of candidates.\<close>

fun sqrt_ceil_from :: "nat \<Rightarrow> nat \<Rightarrow> nat \<Rightarrow> nat" where
  "sqrt_ceil_from 0 k n = k"
| "sqrt_ceil_from (Suc fuel) k n = (if n \<le> k * k then k else sqrt_ceil_from fuel (k + 1) n)"

definition sqrt_ceil :: "nat \<Rightarrow> nat" where
  "sqrt_ceil n = sqrt_ceil_from n 0 n"

text \<open>\<open>f64::round\<close>, half away from zero, and the saturating \<open>as usize\<close>.\<close>

fun f_round :: "f64 \<Rightarrow> f64" where
  "f_round (Fin a) = Fin (sgn a * of_int \<lfloor>\<bar>a\<bar> + 1 / 2\<rfloor>)"
| "f_round x = x"

fun f_as_usize :: "f64 \<Rightarrow> nat" where
  "f_as_usize (Fin a) = min (nat \<lfloor>a\<rfloor>) usize_max"
| "f_as_usize PInf = usize_max"
| "f_as_usize _ = 0"

definition adaptive_dispatch_policy :: "environment \<Rightarrow> estimates \<Rightarrow> nat \<Rightarrow> dispatch_policy" where
  "adaptive_dispatch_policy env ests max_candidates =
     (let values = map snd ests;
          seed_window = adaptive_race_window_seed_ms env;
          seed_raced = adaptive_race_candidate_seed env max_candidates;
          confidence = f_clamp (f_div (f_of_nat (foldl max 0 (map de_samples values))) (Fin 20)) (Fin 0) (Fin 1);
          best_service_ms = least_positive (map de_service_time_ms values);
          learned_window_ms = f_clamp (f_mul best_service_ms (lit (1 / 5))) (Fin 100) (Fin 3000);
          race_window_ms = f_clamp (f_add (f_mul seed_window (f_sub (Fin 1) confidence))
                                          (f_mul learned_window_ms confidence)) (Fin 50) (Fin 3000);
          best_eta = least_positive (map de_estimated_useful_completion_ms values);
          near_tie_count = length (filter (\<lambda>e. f_le (de_estimated_useful_completion_ms e)
                                                 (f_add best_eta race_window_ms)) values);
          learned_raced = (if near_tie_count \<le> 1 then 1 else sqrt_ceil near_tie_count);
          raced = f_clamp (f_round (f_add (f_mul (f_of_nat seed_raced) (f_sub (Fin 1) confidence))
                                          (f_mul (f_of_nat learned_raced) confidence)))
                    (Fin 1) (f_of_nat (max max_candidates 1))
      in \<lparr>dp_race_window_ms = race_window_ms, dp_max_raced_candidates = f_as_usize raced\<rparr>)"

definition eta_of :: "(string \<Rightarrow> parsed_url option) \<Rightarrow> estimates \<Rightarrow> provider_candidate \<Rightarrow> f64 option" where
  "eta_of parse_url ests c =
     map_option de_estimated_useful_completion_ms (map_of ests (candidate_id parse_url c))"

definition adaptive_cmp ::
  "(string \<Rightarrow> parsed_url option) \<Rightarrow> estimates \<Rightarrow> ranked_candidate \<Rightarrow> ranked_candidate \<Rightarrow> cmp_result" where
  "adaptive_cmp parse_url ests left right =
     then_with (cmp_of (unwrap_or PInf (eta_of parse_url ests (rk_candidate left)))
                       (unwrap_or PInf (eta_of parse_url ests (rk_candidate right))))
       (then_with (cmp_of (rk_health_ok right) (rk_health_ok left))
         (cmp_of (rk_score right) (rk_score left)))"

definition competitive_candidates ::
  "(string \<Rightarrow> parsed_url option) \<Rightarrow> estimates \<Rightarrow> f64 \<Rightarrow> nat \<Rightarrow> ranked_candidate list \<Rightarrow> ranked_candidate list" where
  "competitive_candidates parse_url ests frontier race_limit ordered =
     (let near = take race_limit
            (filter (\<lambda>item. is_some_and (\<lambda>eta. f_le eta frontier) (eta_of parse_url ests (rk_candidate item))) ordered)
      in if near = [] then take 1 ordered else near)"

definition select_adaptive_candidates ::
  "environment \<Rightarrow> (string \<Rightarrow> parsed_url option) \<Rightarrow> ranked_candidate list \<Rightarrow> nat \<Rightarrow> bool \<Rightarrow> estimates \<Rightarrow>
     provider_candidate list" where
  "select_adaptive_candidates env parse_url ranked max_candidates dedup ests =
     (if ranked = [] then []
      else let ordered = sort_by (adaptive_cmp parse_url ests) ranked;
               best_eta = unwrap_or (Fin 5000) (eta_of parse_url ests (rk_candidate (hd ordered)));
               policy = adaptive_dispatch_policy env ests max_candidates;
               frontier = f_add best_eta (dp_race_window_ms policy);
               competitive = competitive_candidates parse_url ests frontier
                               (dp_max_raced_candidates policy) ordered;
               target = min (length competitive) (max max_candidates 1)
           in pick_twice (candidate_id parse_url) dedup target (map rk_candidate competitive))"

section \<open>Round robin\<close>

record round_robin_context =
  rr_provider_key :: string
  rr_model_key :: string
  rr_key :: string
  rr_group_size :: nat

definition candidate_matches_round_robin_group :: "ranked_candidate \<Rightarrow> string \<Rightarrow> string \<Rightarrow> bool" where
  "candidate_matches_round_robin_group item provider_key model_key =
     (normalize_key (pc_provider_type (rk_candidate item)) ''openai'' = provider_key
      \<and> normalize_key (pc_configured_model (rk_candidate item)) [] = model_key)"

definition round_robin_anchor :: "ranked_candidate list \<Rightarrow> ranked_candidate option" where
  "round_robin_anchor ranked =
     (case find rk_health_ok ranked of
        Some item \<Rightarrow> Some item
      | None \<Rightarrow> (case ranked of [] \<Rightarrow> None | item # _ \<Rightarrow> Some item))"

definition round_robin_context_of ::
  "ranked_candidate list \<Rightarrow> string \<Rightarrow> string \<Rightarrow> round_robin_context option" where
  "round_robin_context_of ranked workflow role =
     (case round_robin_anchor ranked of
        None \<Rightarrow> None
      | Some anchor \<Rightarrow>
          let provider_key = normalize_key (pc_provider_type (rk_candidate anchor)) ''openai'';
              model_key = normalize_key (pc_configured_model (rk_candidate anchor)) [];
              group_size = length (filter
                (\<lambda>item. candidate_matches_round_robin_group item provider_key model_key) ranked)
          in if provider_key = [] \<or> model_key = [] then None
             else if group_size < 2 then None
             else Some \<lparr>rr_provider_key = provider_key, rr_model_key = model_key,
                        rr_key = workflow @ '':'' @ role @ '':'' @ provider_key @ '':'' @ model_key,
                        rr_group_size = group_size\<rparr>)"

definition reorder_ranked_candidates_for_round_robin ::
  "ranked_candidate list \<Rightarrow> round_robin_context \<Rightarrow> nat \<Rightarrow> ranked_candidate list" where
  "reorder_ranked_candidates_for_round_robin ranked context offset =
     (if length ranked < 2 \<or> rr_group_size context < 2 then ranked
      else let matches = (\<lambda>item. candidate_matches_round_robin_group item (rr_provider_key context) (rr_model_key context));
               members = filter matches ranked;
               rest = filter (\<lambda>item. \<not> matches item) ranked
           in if length members < 2 then members @ rest
              else let rotated = rotate (offset mod length members) members
                   in filter rk_health_ok rotated @ filter (\<lambda>item. \<not> rk_health_ok item) rotated @ rest)"

type_synonym cursors = "string \<Rightarrow> nat option"

definition next_round_robin_offset :: "string \<Rightarrow> nat \<Rightarrow> cursors \<Rightarrow> nat \<times> cursors" where
  "next_round_robin_offset key group_size cursors =
     (if group_size \<le> 1 then (0, cursors)
      else let cursor = unwrap_or 0 (cursors key)
           in (cursor mod group_size, cursors(key \<mapsto> (cursor + 1) mod 2 ^ 64)))"

definition select_round_robin_candidates ::
  "environment \<Rightarrow> (string \<Rightarrow> parsed_url option) \<Rightarrow> bool \<Rightarrow> ranked_candidate list \<Rightarrow> nat \<Rightarrow> string \<Rightarrow> string \<Rightarrow>
     estimates \<Rightarrow> cursors \<Rightarrow> provider_candidate list \<times> cursors" where
  "select_round_robin_candidates env parse_url dedup ranked max_candidates workflow role ests cursors =
     (case round_robin_context_of ranked workflow role of
        None \<Rightarrow> (select_adaptive_candidates env parse_url ranked max_candidates dedup ests, cursors)
      | Some context \<Rightarrow>
          case next_round_robin_offset (rr_key context) (rr_group_size context) cursors of (offset, cursors') \<Rightarrow>
            (select_adaptive_candidates env parse_url
               (reorder_ranked_candidates_for_round_robin ranked context offset) max_candidates dedup ests,
             cursors'))"


section \<open>What a pass picks\<close>

definition pick_ok :: "(provider_candidate \<Rightarrow> string) \<Rightarrow> bool \<Rightarrow> pick_state \<Rightarrow> bool" where
  "pick_ok key dedup st \<longleftrightarrow>
     ps_ids st = key ` set (ps_selected st)
     \<and> ps_models st = candidate_model_key ` set (ps_selected st)
     \<and> distinct (map key (ps_selected st))
     \<and> (dedup \<longrightarrow> distinct (map candidate_model_key (ps_selected st)))"

lemma pick_ok_nothing [simp]: "pick_ok key dedup nothing_picked"
  by (simp add: pick_ok_def nothing_picked_def)

lemma pick_ok_add:
  "pick_ok key dedup st \<Longrightarrow> key c \<notin> ps_ids st \<Longrightarrow> (dedup \<longrightarrow> candidate_model_key c \<notin> ps_models st) \<Longrightarrow>
     pick_ok key dedup (add_pick key c st)"
  by (auto simp: pick_ok_def add_pick_def)

definition skips :: "(provider_candidate \<Rightarrow> string) \<Rightarrow> bool \<Rightarrow> bool \<Rightarrow> provider_candidate \<Rightarrow> pick_state \<Rightarrow> bool" where
  "skips key families dedup c st \<longleftrightarrow>
     families \<and> pc_provider_type c \<in> ps_providers st
     \<or> dedup \<and> candidate_model_key c \<in> ps_models st \<or> key c \<in> ps_ids st"

lemma pick_Cons:
  "pick key families dedup target (c # cs) st =
     (if skips key families dedup c st then pick key families dedup target cs st
      else if length (ps_selected (add_pick key c st)) = target then (True, add_pick key c st)
      else pick key families dedup target cs (add_pick key c st))"
  by (simp add: skips_def Let_def)

declare pick.simps(2) [simp del]

lemma pick_facts:
  "pick_ok key dedup st \<Longrightarrow> length (ps_selected st) < target \<Longrightarrow>
     pick key families dedup target cs st = (full, st') \<Longrightarrow>
     pick_ok key dedup st' \<and> prefix (ps_selected st) (ps_selected st')
     \<and> set (ps_selected st') \<subseteq> set (ps_selected st) \<union> set cs
     \<and> (if full then length (ps_selected st') = target else length (ps_selected st') < target)"
proof (induction cs arbitrary: st)
  case (Cons c cs)
  define st1 where "st1 = add_pick key c st"
  have pre: "prefix (ps_selected st) (ps_selected st1)"
    "set (ps_selected st1) = insert c (set (ps_selected st))" "length (ps_selected st1) \<le> target"
    using Cons.prems(2) by (simp_all add: st1_def add_pick_def)
  show ?case
  proof (cases "skips key families dedup c st")
    case True
    then show ?thesis using Cons.IH [OF Cons.prems(1,2)] Cons.prems(3) by (auto simp: pick_Cons)
  next
    case False
    then have ok: "pick_ok key dedup st1"
      using Cons.prems(1) pick_ok_add unfolding st1_def skips_def by blast
    show ?thesis
    proof (cases "length (ps_selected st1) = target")
      case True
      then show ?thesis using False Cons.prems(3) ok pre by (auto simp: pick_Cons simp flip: st1_def)
    next
      case short: False
      then have "pick key families dedup target cs st1 = (full, st')"
        using False Cons.prems(3) by (simp add: pick_Cons flip: st1_def)
      then show ?thesis using Cons.IH [OF ok] short pre by (auto intro: prefix_order.trans)
    qed
  qed
qed simp

lemma pick_twice_facts:
  assumes "0 < target" "sel = pick_twice key dedup target cs"
  shows "length sel \<le> target \<and> set sel \<subseteq> set cs \<and> distinct (map key sel)
     \<and> (dedup \<longrightarrow> distinct (map candidate_model_key sel))"
proof -
  obtain full st where one: "pick key True dedup target cs nothing_picked = (full, st)" by fastforce
  have st: "pick_ok key dedup st" "set (ps_selected st) \<subseteq> set cs"
      "if full then length (ps_selected st) = target else length (ps_selected st) < target"
    using pick_facts [OF pick_ok_nothing _ one] assms(1) by (auto simp: nothing_picked_def)
  show ?thesis
  proof (cases full)
    case True
    then show ?thesis using st one assms(2) by (simp add: pick_twice_def pick_ok_def)
  next
    case False
    obtain full' st' where two: "pick key False dedup target cs st = (full', st')" by fastforce
    then show ?thesis using pick_facts [OF st(1) _ two] st False one assms(2)
      by (auto simp: pick_twice_def pick_ok_def split: if_splits)
  qed
qed

lemma pick_twice_first: "0 < target \<Longrightarrow> cs \<noteq> [] \<Longrightarrow> prefix [hd cs] (pick_twice key dedup target cs)"
proof -
  assume t: "0 < target" and "cs \<noteq> []"
  then obtain c rest where cs: "cs = c # rest" by (cases cs) auto
  define st1 where "st1 = add_pick key c nothing_picked"
  have sel: "ps_selected st1 = [c]" by (simp add: st1_def add_pick_def nothing_picked_def)
  have ok: "pick_ok key dedup st1"
    unfolding st1_def by (rule pick_ok_add [OF pick_ok_nothing]) (simp_all add: nothing_picked_def)
  have "\<not> skips key True dedup c nothing_picked" by (simp add: skips_def nothing_picked_def)
  then have start: "pick key True dedup target cs nothing_picked =
      (if target = 1 then (True, st1) else pick key True dedup target rest st1)"
    using sel by (auto simp: cs pick_Cons simp flip: st1_def simp del: pick.simps)
  obtain full st where one: "pick key True dedup target cs nothing_picked = (full, st)" by fastforce
  have st: "pick_ok key dedup st" "prefix [c] (ps_selected st)" "\<not> full \<Longrightarrow> length (ps_selected st) < target"
  proof -
    show "pick_ok key dedup st" "\<not> full \<Longrightarrow> length (ps_selected st) < target"
      using pick_facts [OF pick_ok_nothing _ one] t by (auto simp: nothing_picked_def)
    show "prefix [c] (ps_selected st)"
    proof (cases "target = 1")
      case True
      then show ?thesis using start one sel by simp
    next
      case False
      then have more: "pick key True dedup target rest st1 = (full, st)" using start one by simp
      have "length (ps_selected st1) < target" using sel t False by simp
      then show ?thesis using pick_facts [OF ok _ more] sel by simp
    qed
  qed
  show ?thesis
  proof (cases full)
    case True
    then show ?thesis using one st by (simp add: pick_twice_def cs)
  next
    case False
    obtain full' st' where two: "pick key False dedup target cs st = (full', st')" by fastforce
    then have "prefix (ps_selected st) (ps_selected st')" using pick_facts [OF st(1) _ two] st(3) False by simp
    then have "prefix [c] (ps_selected st')" using st(2) prefix_order.trans by blast
    then show ?thesis using one two False by (simp add: pick_twice_def cs)
  qed
qed


section \<open>The ranked selection\<close>

lemma best_local_facts:
  "best_local_fallback_candidate ranked = Some c \<Longrightarrow>
     c \<in> rk_candidate ` set ranked \<and> candidate_is_local_fallback c"
  by (auto simp: best_local_fallback_candidate_def dest!: max_by_in)

lemma best_local_exists:
  "\<exists>item\<in>set ranked. candidate_is_local_fallback (rk_candidate item) \<Longrightarrow>
     best_local_fallback_candidate ranked \<noteq> None"
  by (auto simp: best_local_fallback_candidate_def filter_empty_conv)

lemma ensure_facts:
  assumes "ensure_local_fallback_selected parse_url sel fb target dedup = out"
    "length sel \<le> target" "sel \<noteq> []"
  shows "out \<noteq> []" "length out \<le> target" "set out \<subseteq> set sel \<union> set_option fb"
  using assms
  by (auto simp: ensure_local_fallback_selected_def dest: in_set_butlastD split: option.splits if_splits)

lemma ensure_distinct:
  assumes "ensure_local_fallback_selected parse_url sel fb target dedup = out"
    "distinct (map key sel)" "\<And>c. fb = Some c \<Longrightarrow> key c \<in> key ` set sel \<Longrightarrow>
       (\<exists>d\<in>set sel. candidate_id parse_url d = candidate_id parse_url c)
       \<or> dedup \<and> (\<exists>d\<in>set sel. candidate_model_key d = candidate_model_key c)"
  shows "distinct (map key out)"
proof -
  have "distinct (map key (butlast sel))" by (metis assms(2) distinct_butlast map_butlast)
  moreover have sub: "set (butlast sel) \<subseteq> set sel" by (auto dest: in_set_butlastD)
  ultimately show ?thesis
  proof (cases fb)
    case (Some c)
    consider "out = sel" | "key c \<notin> key ` set sel" "out = sel @ [c] \<or> out = butlast sel @ [c]"
      using assms(1) assms(3) [OF Some] by (auto simp: ensure_local_fallback_selected_def Some split: if_splits)
    then show ?thesis
    proof cases
      case 2
      then have "key c \<notin> key ` set (butlast sel)" using sub by blast
      then show ?thesis using 2 assms(2) \<open>distinct (map key (butlast sel))\<close> by auto
    qed (use assms(2) in simp)
  qed (use assms in \<open>simp add: ensure_local_fallback_selected_def\<close>)
qed

lemma ranked_selection_facts:
  assumes "ranked \<noteq> []" "distinct (map (\<lambda>item. candidate_attempt_key (rk_candidate item)) ranked)"
    "sel = select_ranked_candidates parse_url ranked max_candidates dedup"
  shows "sel \<noteq> [] \<and> length sel \<le> max max_candidates 1 \<and> set sel \<subseteq> rk_candidate ` set ranked
     \<and> distinct (map candidate_attempt_key sel)
     \<and> (dedup \<longrightarrow> distinct (map candidate_model_key sel))"
proof -
  define target where "target = max max_candidates 1"
  define cs where "cs = map rk_candidate (sort_by ranked_cmp ranked)"
  define picked where "picked = pick_twice candidate_attempt_key dedup target cs"
  define fb where "fb = (if 2 \<le> target then best_local_fallback_candidate ranked else None)"
  have t: "0 < target" by (simp add: target_def)
  have cs: "set cs = rk_candidate ` set ranked" "cs \<noteq> []" using assms(1) by (auto simp: cs_def)
  have out: "ensure_local_fallback_selected parse_url picked fb target dedup = sel"
    using assms(3) by (simp add: select_ranked_candidates_def Let_def target_def picked_def cs_def fb_def)
  have picked: "length picked \<le> target" "set picked \<subseteq> set cs" "distinct (map candidate_attempt_key picked)"
      "dedup \<longrightarrow> distinct (map candidate_model_key picked)" "picked \<noteq> []"
    using pick_twice_facts [OF t picked_def] pick_twice_first [OF t cs(2), of candidate_attempt_key dedup]
    by (auto simp: picked_def)
  have fb: "set_option fb \<subseteq> set cs" using best_local_facts cs(1) by (auto simp: fb_def)
  have same: "c = d" if "c \<in> set cs" "d \<in> set cs" "candidate_attempt_key c = candidate_attempt_key d" for c d
    using that assms(2) cs(1) by (auto simp: distinct_map inj_on_def)
  have "distinct (map candidate_attempt_key sel)"
    by (rule ensure_distinct [OF out picked(3)]) (use same picked(2) fb in blast)
  moreover have "distinct (map candidate_model_key sel)" if dedup
    by (rule ensure_distinct [OF out]) (use picked(4) that in \<open>auto intro: sym\<close>)
  ultimately show ?thesis
    using ensure_facts [OF out picked(1,5)] picked(2) fb cs(1) by (auto simp: target_def)
qed

text \<open>From candidates with distinct identities (as they are after deduplication) the ranked selection
  always takes at least one and at most the number asked for, only ranked candidates, none
  twice, and with model deduplication no model twice; also after the slot of the local fallback
  is reserved.\<close>

theorem ranked_selection_is_sound:
  assumes "ranked \<noteq> []" "distinct (map (\<lambda>item. candidate_attempt_key (rk_candidate item)) ranked)"
    "sel = select_ranked_candidates parse_url ranked max_candidates dedup"
  shows "sel \<noteq> [] \<and> length sel \<le> max max_candidates 1 \<and> set sel \<subseteq> rk_candidate ` set ranked
     \<and> distinct (map candidate_attempt_key sel)
     \<and> (dedup \<longrightarrow> distinct (map candidate_model_key sel))"
  by (rule ranked_selection_facts [OF assms])

text \<open>With room for two candidates the ranked selection keeps a way out: when a local fallback is
  ranked, the best one is selected, or one with its identity, or, under model deduplication, one
  with its model.\<close>

theorem ranked_selection_keeps_local_fallback:
  assumes "2 \<le> max_candidates" "best_local_fallback_candidate ranked = Some fb"
  shows "\<exists>c\<in>set (select_ranked_candidates parse_url ranked max_candidates dedup).
           candidate_id parse_url c = candidate_id parse_url fb
           \<or> dedup \<and> candidate_model_key c = candidate_model_key fb"
  using assms
  by (auto simp: select_ranked_candidates_def ensure_local_fallback_selected_def Let_def max_def)

text \<open>An endpoint without a measured throughput goes before every measured one of its health.\<close>

lemma unmeasured_goes_first:
  "rk_health_ok a = rk_health_ok b \<Longrightarrow> rk_generation_tokens_per_second a = None \<Longrightarrow>
     rk_generation_tokens_per_second b = Some v \<Longrightarrow> ranked_cmp a b = Lesser"
  by (simp add: ranked_cmp_def then_with_def throughput_cmp_def)

text \<open>The ranked selection of one candidate prefers an endpoint whose throughput was never measured to
  one of the same health that was measured, however fast that one is.\<close>

theorem unmeasured_is_selected_first:
  assumes "rk_health_ok a = rk_health_ok b" "rk_generation_tokens_per_second a = None"
    "rk_generation_tokens_per_second b = Some v"
  shows "select_ranked_candidates parse_url [a, b] 1 dedup = [rk_candidate a]
         \<and> select_ranked_candidates parse_url [b, a] 1 dedup = [rk_candidate a]"
proof -
  have "ranked_cmp b a = Greater" using assms
    by (simp add: ranked_cmp_def then_with_def throughput_cmp_def)
  then have "sort_by ranked_cmp [a, b] = [a, b]" "sort_by ranked_cmp [b, a] = [a, b]"
    using unmeasured_goes_first [OF assms] by (simp_all add: sort_by_def)
  then show ?thesis
    by (simp add: select_ranked_candidates_def ensure_local_fallback_selected_def pick_twice_def pick_Cons
        skips_def nothing_picked_def add_pick_def)
qed


section \<open>The adaptive selection\<close>

lemma adaptive_cmp_le:
  "adaptive_cmp parse_url ests l r \<noteq> Greater \<longleftrightarrow>
     (let a = unwrap_or PInf (eta_of parse_url ests (rk_candidate l));
          b = unwrap_or PInf (eta_of parse_url ests (rk_candidate r))
      in a < b \<or> a = b \<and> (rk_health_ok r < rk_health_ok l
           \<or> rk_health_ok l = rk_health_ok r \<and> rk_score r \<le> rk_score l))"
  by (auto simp: adaptive_cmp_def Let_def not_less)

interpretation adaptive: consistent_comparator "adaptive_cmp parse_url ests" for parse_url ests
proof
  fix x y z
  show "adaptive_cmp parse_url ests x y = Greater \<Longrightarrow> adaptive_cmp parse_url ests y x \<noteq> Greater"
    by (auto simp: adaptive_cmp_def)
  show "adaptive_cmp parse_url ests x y \<noteq> Greater \<Longrightarrow> adaptive_cmp parse_url ests y z \<noteq> Greater \<Longrightarrow>
      adaptive_cmp parse_url ests x z \<noteq> Greater"
    unfolding adaptive_cmp_le Let_def by (auto intro: less_trans order_trans)
qed

lemma frontier_finite: "\<not> f_le PInf (f_add (Fin 5000) (f_clamp x (Fin 50) (Fin 3000)))"
proof (cases "f_clamp x (Fin 50) (Fin 3000)")
  case (Fin w)
  have "w \<le> 3000" using Fin by (cases x) (auto simp: f_clamp_def split: if_splits)
  then have "rnd (5000 + w) \<le> rnd (of_int 8000)" by (intro rnd_mono) simp
  then have "rnd (5000 + w) \<le> Fin 8000" using rnd_of_int [of 8000] by simp
  then have "rnd (5000 + w) \<noteq> PInf" by (auto simp: less_eq_f64_def)
  then show ?thesis using Fin by (auto simp: f_le_iff less_eq_f64_def elim: f_rank.elims) (cases "rnd (5000 + w)"; simp)
qed (cases x; auto simp: f_clamp_def split: if_splits)+

lemma f_le_below: "a \<le> b \<Longrightarrow> f_le b c \<Longrightarrow> f_le a c"
  by (cases a; cases b; cases c) (auto simp: less_eq_f64_def)

lemma competitive_first:
  assumes "sorted_wrt (\<lambda>x y. adaptive_cmp parse_url ests x y \<noteq> Greater) ordered" "ordered \<noteq> []"
    "eta_of parse_url ests (rk_candidate (hd ordered)) = None \<Longrightarrow> \<not> f_le PInf frontier"
  shows "\<exists>rest. competitive_candidates parse_url ests frontier race_limit ordered = hd ordered # rest"
proof -
  obtain x xs where o: "ordered = x # xs" using assms(2) by (cases ordered) auto
  define near where "near = (\<lambda>item :: ranked_candidate.
      is_some_and (\<lambda>eta. f_le eta frontier) (eta_of parse_url ests (rk_candidate item)))"
  have none: "\<not> near y" if "\<not> near x" "y \<in> set xs" for y
  proof
    assume "near y"
    then obtain b where b: "eta_of parse_url ests (rk_candidate y) = Some b" "f_le b frontier"
      by (auto simp: near_def is_some_and_def split: option.splits)
    have "unwrap_or PInf (eta_of parse_url ests (rk_candidate x)) \<le> b"
      using assms(1) that(2) b(1) unfolding adaptive_cmp_le Let_def o by fastforce
    then show False using that(1) assms(3) b(2)
      by (cases "eta_of parse_url ests (rk_candidate x)") (auto simp: near_def o dest: f_le_below)
  qed
  have comp: "competitive_candidates parse_url ests frontier race_limit ordered =
      (if take race_limit (filter near ordered) = [] then [x] else take race_limit (filter near ordered))"
    by (simp add: competitive_candidates_def near_def o Let_def)
  show ?thesis
  proof (cases "near x")
    case True
    then show ?thesis unfolding comp by (cases race_limit) (simp_all add: o)
  next
    case False
    then have "filter near ordered = []" using none by (simp add: o filter_empty_conv)
    then show ?thesis unfolding comp by (simp add: o)
  qed
qed

lemma competitive_subset:
  "set (competitive_candidates parse_url ests frontier race_limit ordered) \<subseteq> set ordered"
  by (auto simp: competitive_candidates_def Let_def dest: in_set_takeD)

lemma adaptive_selection_facts:
  assumes "ranked \<noteq> []"
    and "sel = select_adaptive_candidates env parse_url ranked max_candidates dedup ests"
  shows "sel \<noteq> [] \<and> length sel \<le> max max_candidates 1 \<and> set sel \<subseteq> rk_candidate ` set ranked
    \<and> distinct (map (candidate_id parse_url) sel)
    \<and> (\<forall>item\<in>set ranked. unwrap_or PInf (eta_of parse_url ests (hd sel))
                          \<le> unwrap_or PInf (eta_of parse_url ests (rk_candidate item)))"
proof -
  define ordered where "ordered = sort_by (adaptive_cmp parse_url ests) ranked"
  define policy where "policy = adaptive_dispatch_policy env ests max_candidates"
  define frontier where "frontier =
    f_add (unwrap_or (Fin 5000) (eta_of parse_url ests (rk_candidate (hd ordered)))) (dp_race_window_ms policy)"
  define comp where "comp = competitive_candidates parse_url ests frontier (dp_max_raced_candidates policy) ordered"
  define target where "target = min (length comp) (max max_candidates 1)"
  have sel: "sel = pick_twice (candidate_id parse_url) dedup target (map rk_candidate comp)"
    using assms by (simp add: select_adaptive_candidates_def Let_def ordered_def policy_def frontier_def
        comp_def target_def)
  have "eta_of parse_url ests (rk_candidate (hd ordered)) = None \<Longrightarrow> \<not> f_le PInf frontier"
    using frontier_finite by (simp add: frontier_def policy_def adaptive_dispatch_policy_def Let_def)
  then obtain rest where comp: "comp = hd ordered # rest"
    using competitive_first [OF adaptive.sorted_sort_by] assms(1) unfolding comp_def ordered_def by force
  then have t: "0 < target" "target \<le> max max_candidates 1" by (simp_all add: target_def)
  have "prefix [rk_candidate (hd ordered)] sel"
    using pick_twice_first [OF t(1), of "map rk_candidate comp"] comp sel by simp
  then have hd: "sel \<noteq> []" "hd sel = rk_candidate (hd ordered)" by (auto simp: prefix_def)
  have least: "unwrap_or PInf (eta_of parse_url ests (rk_candidate (hd ordered)))
      \<le> unwrap_or PInf (eta_of parse_url ests (rk_candidate item))" if "item \<in> set ranked" for item
    using adaptive.hd_sort_by [OF that, of parse_url ests] unfolding adaptive_cmp_le Let_def ordered_def by auto
  have "set comp \<subseteq> set ranked" using competitive_subset by (fastforce simp: comp_def ordered_def)
  then have "rk_candidate ` set comp \<subseteq> rk_candidate ` set ranked" by (rule image_mono)
  then show ?thesis using pick_twice_facts [OF t(1) sel] t(2) hd least by auto
qed

text \<open>The adaptive selection of a nonempty ranking sends the request to the candidate with the least
  estimated useful completion time first, and to at most the number asked for, only ranked
  candidates and none twice.\<close>

theorem adaptive_selection_is_sound:
  assumes "ranked \<noteq> []"
    and "sel = select_adaptive_candidates env parse_url ranked max_candidates dedup ests"
  shows "sel \<noteq> [] \<and> length sel \<le> max max_candidates 1 \<and> set sel \<subseteq> rk_candidate ` set ranked
    \<and> distinct (map (candidate_id parse_url) sel)
    \<and> (\<forall>item\<in>set ranked. unwrap_or PInf (eta_of parse_url ests (hd sel))
                          \<le> unwrap_or PInf (eta_of parse_url ests (rk_candidate item)))"
  by (rule adaptive_selection_facts [OF assms])

section \<open>Round robin\<close>

lemma mset_halves: "mset (filter p xs @ filter (\<lambda>x. \<not> p x) xs) = mset xs"
  by (induction xs) auto

lemma mset_rotate_same: "mset (rotate n xs) = mset xs"
  by (metis add.commute append_take_drop_id mset_append rotate_drop_take)

lemma mset_reorder: "mset (reorder_ranked_candidates_for_round_robin ranked context offset) = mset ranked"
  by (simp add: reorder_ranked_candidates_for_round_robin_def Let_def mset_rotate_same add.assoc [symmetric]
      multiset_partition [symmetric])

lemma reorder_first:
  assumes "\<forall>item\<in>set ranked. candidate_matches_round_robin_group item (rr_provider_key context) (rr_model_key context)
             \<and> rk_health_ok item" "2 \<le> length ranked" "2 \<le> rr_group_size context"
  shows "reorder_ranked_candidates_for_round_robin ranked context offset = rotate (offset mod length ranked) ranked"
proof -
  have "filter (\<lambda>item. candidate_matches_round_robin_group item (rr_provider_key context) (rr_model_key context)) ranked = ranked"
    using assms(1) by simp
  moreover have "filter rk_health_ok (rotate n ranked) = rotate n ranked"
    "filter (\<lambda>item. \<not> rk_health_ok item) (rotate n ranked) = []" for n
    using assms(1) by (simp_all add: filter_empty_conv)
  moreover have "filter (\<lambda>item. \<not> candidate_matches_round_robin_group item (rr_provider_key context) (rr_model_key context)) ranked = []"
    using assms(1) by (simp add: filter_empty_conv)
  ultimately show ?thesis using assms(2,3)
    by (simp add: reorder_ranked_candidates_for_round_robin_def Let_def)
qed

text \<open>C34: The round robin selects what the adaptive selection selects, whatever its cursor says, unless
  two candidates agree in estimated completion, health and score: the rotation it makes is undone
  by the sort of the adaptive selection.\<close>

theorem round_robin_is_undone:
  assumes "\<forall>x\<in>set ranked. \<forall>y\<in>set ranked.
      eta_of parse_url ests (rk_candidate x) = eta_of parse_url ests (rk_candidate y)
      \<and> rk_health_ok x = rk_health_ok y \<and> rk_score x = rk_score y \<longrightarrow> x = y"
    and "\<forall>x\<in>set ranked. eta_of parse_url ests (rk_candidate x) \<noteq> Some PInf"
  shows "fst (select_round_robin_candidates env parse_url dedup ranked max_candidates workflow role ests cursors)
         = select_adaptive_candidates env parse_url ranked max_candidates dedup ests"
proof -
  have eta: "unwrap_or PInf a = unwrap_or PInf b \<longleftrightarrow> a = b" if "a \<noteq> Some PInf" "b \<noteq> Some PInf" for a b
    using that by (cases a; cases b) auto
  have keys: "\<forall>x\<in>set ranked. \<forall>y\<in>set ranked. adaptive_cmp parse_url ests x y \<noteq> Greater
      \<and> adaptive_cmp parse_url ests y x \<noteq> Greater \<longrightarrow> x = y"
  proof (intro ballI impI)
    fix x y
    assume xy: "x \<in> set ranked" "y \<in> set ranked"
      and le: "adaptive_cmp parse_url ests x y \<noteq> Greater \<and> adaptive_cmp parse_url ests y x \<noteq> Greater"
    have "unwrap_or PInf (eta_of parse_url ests (rk_candidate x)) = unwrap_or PInf (eta_of parse_url ests (rk_candidate y))"
      "rk_health_ok x = rk_health_ok y" "rk_score x = rk_score y"
      using le unfolding adaptive_cmp_le Let_def by auto
    then show "x = y" using assms xy eta by blast
  qed
  have "select_adaptive_candidates env parse_url (reorder_ranked_candidates_for_round_robin ranked ctx offset)
          max_candidates dedup ests
      = select_adaptive_candidates env parse_url ranked max_candidates dedup ests" for ctx offset
  proof -
    have "sort_by (adaptive_cmp parse_url ests) ranked =
        sort_by (adaptive_cmp parse_url ests) (reorder_ranked_candidates_for_round_robin ranked ctx offset)"
      by (rule adaptive.sort_by_permutation [OF _ keys]) (simp add: mset_reorder)
    moreover have "reorder_ranked_candidates_for_round_robin ranked ctx offset = [] \<longleftrightarrow> ranked = []"
      by (metis mset_reorder mset_zero_iff)
    ultimately show ?thesis by (simp add: select_adaptive_candidates_def)
  qed
  then show ?thesis by (simp add: select_round_robin_candidates_def split: option.splits prod.splits)
qed


section \<open>Witnesses\<close>

definition sample_ranked :: "string \<Rightarrow> f64 \<Rightarrow> f64 option \<Rightarrow> ranked_candidate" where
  "sample_ranked url score throughput =
     \<lparr>rk_candidate = from_profile
        \<lparr>rp_version = 1, rp_workflow_profiles = [], rp_keyword_tags = [], rp_provider_specialties = []\<rparr>
        (default_provider_profile\<lparr>pf_provider_type := ''ollama'', pf_name := url, pf_base_url := Some url\<rparr>),
      rk_score = score, rk_health_ok = True, rk_health_mode = None,
      rk_generation_tokens_per_second = throughput\<rparr>"

definition nowhere :: "string \<Rightarrow> parsed_url option" where
  "nowhere s = None"

definition sample_pair :: "ranked_candidate list" where
  "sample_pair = [sample_ranked ''http://a'' (Fin 5) None, sample_ranked ''http://b'' (Fin 4) (Some (Fin 90))]"

lemma sample_ranked_fields:
  "rk_score (sample_ranked url score throughput) = score" "rk_health_ok (sample_ranked url score throughput)"
  by (simp_all add: sample_ranked_def)

lemma sample_keys: "distinct (map (\<lambda>item. candidate_attempt_key (rk_candidate item)) sample_pair)"
  by code_simp

theorem ranked_selection_is_sound_witness:
  "length (select_ranked_candidates nowhere sample_pair 2 False) \<le> 2"
proof -
  have "sample_pair \<noteq> []" by (simp add: sample_pair_def)
  then show ?thesis using ranked_selection_is_sound [OF _ sample_keys refl, of nowhere 2 False] by simp
qed

theorem ranked_selection_keeps_local_fallback_witness:
  "\<exists>c\<in>set (select_ranked_candidates nowhere sample_pair 2 False).
     candidate_id nowhere c = candidate_id nowhere (rk_candidate (sample_ranked ''http://a'' (Fin 5) None))"
proof -
  have "candidate_is_local_fallback (rk_candidate (sample_ranked ''http://a'' (Fin 5) None))"
    "candidate_is_local_fallback (rk_candidate (sample_ranked ''http://b'' (Fin 4) (Some (Fin 90))))"
    by code_simp+
  moreover have "partial_cmp_or_equal (Fin 5) (Fin 4) = Greater"
    by (simp add: partial_cmp_or_equal_def less_f64_def)
  ultimately have "best_local_fallback_candidate sample_pair
      = Some (rk_candidate (sample_ranked ''http://a'' (Fin 5) None))"
    by (simp add: best_local_fallback_candidate_def sample_pair_def sample_ranked_fields)
  then show ?thesis
    using ranked_selection_keeps_local_fallback [of 2 sample_pair _ nowhere False] by simp
qed

theorem unmeasured_is_selected_first_witness:
  "select_ranked_candidates nowhere (rev sample_pair) 1 False
     = [rk_candidate (sample_ranked ''http://a'' (Fin 5) None)]"
  using unmeasured_is_selected_first [of "sample_ranked ''http://a'' (Fin 5) None"
      "sample_ranked ''http://b'' (Fin 4) (Some (Fin 90))" "Fin 90" nowhere False]
  by (simp add: sample_pair_def sample_ranked_def)

theorem adaptive_selection_is_sound_witness:
  "select_adaptive_candidates Map.empty nowhere sample_pair 2 False [] \<noteq> []"
proof -
  have "sample_pair \<noteq> []" by (simp add: sample_pair_def)
  then show ?thesis using adaptive_selection_is_sound [OF _ refl] by blast
qed

theorem round_robin_is_undone_witness:
  "fst (select_round_robin_candidates Map.empty nowhere True sample_pair 1 ''general'' ''assistant'' []
          (\<lambda>_. Some 1))
   = select_adaptive_candidates Map.empty nowhere sample_pair 1 True []"
  by (rule round_robin_is_undone) (simp_all add: sample_pair_def sample_ranked_def eta_of_def)

end
