(* ===== verification/Workload.thy ===== *)
theory Workload
  imports HealthClass
begin

text \<open>
  \<^verbatim>\<open>src/src/orchestration.rs\<close>: the policy of the orchestration for a request: the workload class
  and its pool, the model floor, timeouts, early success, probing, and the degraded fallback. The
  configuration is \<^verbatim>\<open>OrchestrationConfig\<close> of \<^verbatim>\<open>src/src/config.rs\<close>; seconds and milliseconds are
  \<open>nat\<close>. The order in which the tags of a set are joined is that of their names; the code leaves
  it open.
\<close>

datatype selection_mode = Fastest | Best | RoundRobin

record orchestration_config =
  oc_enabled :: bool
  oc_selection_mode :: selection_mode
  oc_max_parallel_candidates :: nat
  oc_interactive_pool_max_in_flight :: nat
  oc_solver_pool_max_in_flight :: nat
  oc_trading_pool_max_in_flight :: nat
  oc_interactive_pool_wait_timeout_ms :: nat
  oc_solver_pool_wait_timeout_ms :: nat
  oc_trading_pool_wait_timeout_ms :: nat
  oc_workload_pool_wait_timeout_ms :: nat
  oc_candidate_queue_wait_timeout_ms :: nat
  oc_deduplicate_model_candidates :: bool
  oc_prompt_compaction_enabled :: bool
  oc_default_local_context_window_tokens :: nat
  oc_prompt_chars_per_token :: nat
  oc_prompt_safety_margin_tokens :: nat
  oc_include_configured_candidates :: bool
  oc_health_ttl_seconds :: f64
  oc_early_success_enabled :: bool
  oc_early_success_settle_seconds :: f64
  oc_early_success_min_quality :: f64
  oc_candidate_timeout_cap_seconds :: "nat option"
  oc_automation_candidate_timeout_cap_seconds :: "nat option"
  oc_interactive_model_floor_b :: f64
  oc_solver_model_floor_b :: f64
  oc_strict_no_downgrade :: bool
  oc_always_route_specialists :: bool

definition default_orchestration_config :: orchestration_config where
  "default_orchestration_config =
     \<lparr>oc_enabled = True, oc_selection_mode = Best, oc_max_parallel_candidates = 8,
      oc_interactive_pool_max_in_flight = 8, oc_solver_pool_max_in_flight = 4,
      oc_trading_pool_max_in_flight = 3, oc_interactive_pool_wait_timeout_ms = 30000,
      oc_solver_pool_wait_timeout_ms = 900000, oc_trading_pool_wait_timeout_ms = 900000,
      oc_workload_pool_wait_timeout_ms = 30000, oc_candidate_queue_wait_timeout_ms = 30000,
      oc_deduplicate_model_candidates = False, oc_prompt_compaction_enabled = True,
      oc_default_local_context_window_tokens = 16384, oc_prompt_chars_per_token = 3,
      oc_prompt_safety_margin_tokens = 1024, oc_include_configured_candidates = True,
      oc_health_ttl_seconds = Fin 1800, oc_early_success_enabled = True,
      oc_early_success_settle_seconds = Fin (3 / 4), oc_early_success_min_quality = Fin (1 / 2),
      oc_candidate_timeout_cap_seconds = Some 45, oc_automation_candidate_timeout_cap_seconds = Some 12,
      oc_interactive_model_floor_b = Fin (1 / 2), oc_solver_model_floor_b = Fin (3 / 2),
      oc_strict_no_downgrade = True, oc_always_route_specialists = False\<rparr>"

definition max_workload_pool_wait_timeout_ms :: nat where
  "max_workload_pool_wait_timeout_ms = 1200000"

definition clamp_nat :: "nat \<Rightarrow> nat \<Rightarrow> nat \<Rightarrow> nat" where
  "clamp_nat v lo hi = (if v < lo then lo else if hi < v then hi else v)"

section \<open>Prompt text\<close>

definition flatten_prompt_text :: "chat_message list \<Rightarrow> string option \<Rightarrow> string" where
  "flatten_prompt_text messages system =
     join_with [CHR 0x0A]
       ((case system of None \<Rightarrow> [] | Some s \<Rightarrow> if trim s = [] then [] else [trim s])
        @ filter (\<lambda>t. trim t \<noteq> []) (map (\<lambda>m. flattened_text (cm_content m)) messages))"

definition estimate_prompt_tokens :: "string \<Rightarrow> nat" where
  "estimate_prompt_tokens text = max (min (length text mod 2 ^ 32 + 3) (2 ^ 32 - 1) div 4) 1"

definition expected_json :: "chat_message list \<Rightarrow> string option \<Rightarrow> bool" where
  "expected_json messages system =
     contains_any (to_ascii_lowercase (flatten_prompt_text messages system))
       [''return only valid json'', ''respond with json only'', ''valid json'', ''json with keys'',
        ''output only json'', ''schema'']"

text \<open>Splitting on the characters that are not part of a word.\<close>

fun split_words :: "(char \<Rightarrow> bool) \<Rightarrow> string \<Rightarrow> string list" where
  "split_words is_word [] = [[]]"
| "split_words is_word (c # cs) =
     (if is_word c then (case split_words is_word cs of [] \<Rightarrow> [[c]] | w # ws \<Rightarrow> (c # w) # ws)
      else [] # split_words is_word cs)"

definition request_category_expects_json :: "string option \<Rightarrow> bool" where
  "request_category_expects_json category =
     list_ex (\<lambda>part. to_ascii_lowercase (trim part) \<in> {''json'', ''structured_data''})
       (split_words (\<lambda>c. is_ascii_alphanumeric c \<or> c = CHR ''_'') (unwrap_or [] category))"

definition prompt_requests_execution_plan :: "string \<Rightarrow> bool" where
  "prompt_requests_execution_plan prompt =
     (let lowered = to_ascii_lowercase prompt
      in str_contains lowered ''executionplan'' \<and> str_contains lowered ''steps''
         \<and> str_contains lowered ''additionalproperties'')"

definition prompt_requests_manager_tool_call :: "string \<Rightarrow> bool" where
  "prompt_requests_manager_tool_call prompt =
     (let lowered = to_ascii_lowercase prompt;
          has_shape = (str_contains lowered ''tool_name'' \<and> str_contains lowered ''arguments'')
      in str_contains lowered ''managertoolcall''
         \<or> has_shape \<and> contains_any lowered
             [''managertoolcall'', ''run_agent'', ''run_debate'', ''finish'', ''agent_name'',
              ''debator_agent_names'', ''judge_agent_name'', ''team execution manager''])"

definition prompt_requests_signal_synthesis_output :: "string \<Rightarrow> bool" where
  "prompt_requests_signal_synthesis_output prompt =
     (let lowered = to_ascii_lowercase prompt
      in str_contains lowered ''signalsynthesisoutput''
         \<or> str_contains lowered ''synthesized_signals'' \<and> str_contains lowered ''market_outlook''
           \<and> str_contains lowered ''summary'')"

definition text_or_tags_indicate_automation :: "string \<Rightarrow> string \<Rightarrow> string set \<Rightarrow> string \<Rightarrow> bool" where
  "text_or_tags_indicate_automation workflow role task_tags prompt =
     contains_any (to_ascii_lowercase
         (workflow @ '' '' @ role @ '' '' @ join_with '' '' (sorted_strings task_tags) @ '' '' @ prompt))
       [''agent'', ''aiindex'', ''automation'', ''code'', ''crypto'', ''evaluator'', ''json'', ''manager'',
        ''octobot'', ''planner'', ''planning'', ''portfolio'', ''rebalance'', ''refiner'', ''research'',
        ''researcher'', ''review'', ''reviewer'', ''signal'', ''structured_data'', ''strategy'',
        ''technicalanalysis'', ''tool'', ''trade'', ''trading'']"

definition is_interactive_workflow :: "string \<Rightarrow> string \<Rightarrow> bool" where
  "is_interactive_workflow workflow role =
     (let w = to_ascii_lowercase workflow; r = to_ascii_lowercase role
      in r = ''assistant'' \<or> starts_with w ''assistant_'' \<or> starts_with w ''direct''
         \<or> starts_with w ''ui_'' \<or> starts_with w ''playground'' \<or> str_contains w ''chat'')"

definition derive_request_profile ::
  "string option \<Rightarrow> string \<Rightarrow> string \<Rightarrow> string option \<Rightarrow> string set \<Rightarrow> string" where
  "derive_request_profile explicit workflow role category task_tags =
     (case option_filter (\<lambda>v. v \<noteq> []) (map_option trim explicit) of
        Some v \<Rightarrow> normalize_key v ''general''
      | None \<Rightarrow>
     (case option_filter (\<lambda>v. v \<noteq> []) (map_option trim category) of
        Some v \<Rightarrow> normalize_key v ''general''
      | None \<Rightarrow>
     (case find (\<lambda>tag. tag \<in> task_tags)
        [''project_solver'', ''coding'', ''code'', ''research'', ''trading'', ''market'', ''json'',
         ''planning'', ''review''] of
        Some tag \<Rightarrow> tag
      | None \<Rightarrow>
          if \<not> eq_ignore_ascii_case workflow ''general'' then normalize_key workflow ''general''
          else if \<not> eq_ignore_ascii_case role ''general'' then normalize_key role ''general''
          else ''general'')))"

section \<open>Workload class\<close>

datatype workload_class = InteractiveWork | SolverWork | TradingWork

fun workload_label :: "workload_class \<Rightarrow> string" where
  "workload_label InteractiveWork = ''interactive''"
| "workload_label SolverWork = ''solver''"
| "workload_label TradingWork = ''trading''"

definition trading_markers :: "string list" where
  "trading_markers = [''trading'', ''advisory'', ''buy/hold/sell'', ''buy_hold_sell'', ''target_symbol'',
     ''market data'', ''octobot'']"

definition solver_markers :: "string list" where
  "solver_markers = [''project_solver'', ''solver'', ''research'', ''planner'', ''researcher'',
     ''execution plan'', ''technical analysis'', ''code solution'', ''coding task'', ''refiner'', ''conductor'']"

definition classify_workload_with_context ::
  "string \<Rightarrow> string \<Rightarrow> string option \<Rightarrow> string option \<Rightarrow> string option \<Rightarrow> string option \<Rightarrow> workload_class" where
  "classify_workload_with_context workflow role category profile source prompt =
     (let w = to_ascii_lowercase workflow;
          r = to_ascii_lowercase role;
          c = to_ascii_lowercase (unwrap_or [] category);
          p = to_ascii_lowercase (unwrap_or [] profile);
          s = to_ascii_lowercase (unwrap_or [] source);
          t = to_ascii_lowercase (unwrap_or [] prompt)
      in if list_ex (\<lambda>marker. list_ex (\<lambda>text. str_contains text marker) [w, r, c, p, s, t]) trading_markers
         then TradingWork
         else if str_contains c ''approval'' \<or> str_contains w ''approval'' \<and> r = ''reviewer''
         then InteractiveWork
         else if list_ex (\<lambda>marker. list_ex (\<lambda>text. str_contains text marker) [w, r, p, s, t]) solver_markers
         then SolverWork
         else if is_interactive_workflow workflow role then InteractiveWork
         else if contains_any w [''solver'', ''refiner'', ''conductor'', ''automation'', ''batch'']
                 \<or> r \<in> {''planner'', ''reviewer'', ''researcher''}
         then SolverWork else InteractiveWork)"

section \<open>Timeouts and limits\<close>

definition workload_pool_wait_timeout_ms_for ::
  "environment \<Rightarrow> orchestration_config \<Rightarrow> workload_class \<Rightarrow> nat" where
  "workload_pool_wait_timeout_ms_for env cfg cls =
     (let (names, configured) = (case cls of
          InteractiveWork \<Rightarrow> ([''GAIL_INTERACTIVE_POOL_WAIT_TIMEOUT_MS'',
             ''REFINER_AI_INTERACTIVE_POOL_WAIT_TIMEOUT_MS''], oc_interactive_pool_wait_timeout_ms cfg)
        | SolverWork \<Rightarrow> ([''GAIL_SOLVER_POOL_WAIT_TIMEOUT_MS'',
             ''REFINER_AI_SOLVER_POOL_WAIT_TIMEOUT_MS''], oc_solver_pool_wait_timeout_ms cfg)
        | TradingWork \<Rightarrow> ([''GAIL_TRADING_POOL_WAIT_TIMEOUT_MS'',
             ''GAIL_ADVISORY_QUEUE_WAIT_TIMEOUT_MS''], oc_trading_pool_wait_timeout_ms cfg))
      in clamp_nat (env_int_any env names configured) 1 max_workload_pool_wait_timeout_ms)"

definition candidate_queue_wait_timeout_ms :: "environment \<Rightarrow> orchestration_config \<Rightarrow> nat" where
  "candidate_queue_wait_timeout_ms env cfg =
     clamp_nat (env_int_any env [''GAIL_CANDIDATE_QUEUE_WAIT_TIMEOUT_MS''] (oc_candidate_queue_wait_timeout_ms cfg))
       1 max_workload_pool_wait_timeout_ms"

definition model_floor_b :: "environment \<Rightarrow> orchestration_config \<Rightarrow> workload_class \<Rightarrow> f64 option" where
  "model_floor_b env cfg cls =
     (let env_floor = (case cls of
          InteractiveWork \<Rightarrow> env_float_any env
            [''GAIL_INTERACTIVE_MODEL_FLOOR_B'', ''REFINER_AI_INTERACTIVE_MODEL_FLOOR_B''] (oc_interactive_model_floor_b cfg)
        | SolverWork \<Rightarrow> env_float_any env
            [''GAIL_SOLVER_MODEL_FLOOR_B'', ''REFINER_AI_SOLVER_MODEL_FLOOR_B''] (oc_solver_model_floor_b cfg)
        | TradingWork \<Rightarrow> env_float_any env [''GAIL_TRADING_MODEL_FLOOR_B''] (oc_interactive_model_floor_b cfg));
          floor_b = f_max env_floor (Fin 0)
      in if f_lt (Fin 0) floor_b then Some floor_b else None)"

definition strict_no_downgrade :: "environment \<Rightarrow> orchestration_config \<Rightarrow> bool" where
  "strict_no_downgrade env cfg =
     env_bool_any env [''GAIL_STRICT_NO_DOWNGRADE'', ''REFINER_AI_STRICT_NO_DOWNGRADE''] (oc_strict_no_downgrade cfg)"

definition health_ttl_seconds :: "environment \<Rightarrow> orchestration_config \<Rightarrow> f64" where
  "health_ttl_seconds env cfg =
     f_max (env_float_any env [''GAIL_HEALTH_TTL_SECONDS'', ''REFINER_AI_HEALTH_TTL_SECONDS'']
       (oc_health_ttl_seconds cfg)) (Fin 30)"

definition configured_selection_mode :: "environment \<Rightarrow> orchestration_config \<Rightarrow> selection_mode" where
  "configured_selection_mode env cfg =
     (let raw = (case env ''GAIL_SELECTION_MODE'' of
                   Some v \<Rightarrow> v | None \<Rightarrow> unwrap_or [] (env ''REFINER_AI_SELECTION_MODE''));
          v = to_ascii_lowercase (trim raw)
      in if v = ''fastest'' then Fastest else if v = ''best'' then Best
         else if v \<in> {''round_robin'', ''roundrobin'', ''rr''} then RoundRobin
         else oc_selection_mode cfg)"

definition early_success_enabled ::
  "environment \<Rightarrow> orchestration_config \<Rightarrow> string \<Rightarrow> string \<Rightarrow> selection_mode \<Rightarrow> bool" where
  "early_success_enabled env cfg workflow role mode =
     (if mode = Fastest then True
      else case env ''REFINER_AI_EARLY_SUCCESS_ENABLED'' of
        Some v \<Rightarrow> parse_bool v False
      | None \<Rightarrow> (case env ''GAIL_EARLY_SUCCESS_ENABLED'' of
        Some v \<Rightarrow> parse_bool v False
      | None \<Rightarrow> if oc_early_success_enabled cfg then True else is_interactive_workflow workflow role))"

definition early_success_settle_seconds ::
  "environment \<Rightarrow> orchestration_config \<Rightarrow> string \<Rightarrow> string \<Rightarrow> selection_mode \<Rightarrow> f64" where
  "early_success_settle_seconds env cfg workflow role mode =
     (let default_value = (if mode = Fastest then Fin 0
                           else if is_interactive_workflow workflow role then Fin (3 / 4) else Fin 0)
      in f_max (env_float_any env [''GAIL_EARLY_SUCCESS_SETTLE_SECONDS'',
                 ''REFINER_AI_EARLY_SUCCESS_SETTLE_SECONDS'']
            (if f_lt (Fin 0) (oc_early_success_settle_seconds cfg) then oc_early_success_settle_seconds cfg
             else default_value)) (Fin 0))"

definition early_success_min_quality :: "environment \<Rightarrow> orchestration_config \<Rightarrow> f64" where
  "early_success_min_quality env cfg =
     env_float_any env [''GAIL_EARLY_SUCCESS_MIN_QUALITY'', ''REFINER_AI_EARLY_SUCCESS_MIN_QUALITY'']
       (oc_early_success_min_quality cfg)"

definition base_timeout_cap :: "environment \<Rightarrow> orchestration_config \<Rightarrow> workload_class \<Rightarrow> nat option" where
  "base_timeout_cap env cfg cls =
     (let default_value = (if cls = InteractiveWork then 45
                           else unwrap_or 0 (oc_candidate_timeout_cap_seconds cfg));
          v = env_int_any env [''GAIL_CANDIDATE_TIMEOUT_CAP_SECONDS'',
                ''REFINER_AI_CANDIDATE_TIMEOUT_CAP_SECONDS''] default_value
      in if 0 < v then Some (max v 1) else None)"

definition candidate_timeout_cap ::
  "environment \<Rightarrow> orchestration_config \<Rightarrow> workload_class \<Rightarrow> string \<Rightarrow> string \<Rightarrow> bool \<Rightarrow> string set \<Rightarrow> string \<Rightarrow> nat option" where
  "candidate_timeout_cap env cfg cls workflow role json task_tags prompt =
     (let base = base_timeout_cap env cfg cls
      in if ''approval'' \<in> task_tags then Some (min (unwrap_or 45 base) 45)
         else if json \<and> (prompt_requests_execution_plan prompt \<or> prompt_requests_manager_tool_call prompt
                         \<or> prompt_requests_signal_synthesis_output prompt) then base
         else let automation = (json \<or> text_or_tags_indicate_automation workflow role task_tags prompt)
              in if cls = InteractiveWork \<and> \<not> automation then base
                 else if \<not> automation then base
                 else let v = env_int_any env [''GAIL_AUTOMATION_CANDIDATE_TIMEOUT_SECONDS'',
                          ''GAIL_AUTOMATION_CANDIDATE_TIMEOUT_CAP_SECONDS'',
                          ''REFINER_AI_AUTOMATION_CANDIDATE_TIMEOUT_SECONDS'',
                          ''REFINER_AI_AUTOMATION_CANDIDATE_TIMEOUT_CAP_SECONDS'']
                          (unwrap_or 12 (oc_automation_candidate_timeout_cap_seconds cfg))
                      in if v = 0 then base
                         else Some (case base of Some b \<Rightarrow> min b (max v 1) | None \<Rightarrow> max v 1))"

definition should_probe_transient_backoff_candidates ::
  "environment \<Rightarrow> string \<Rightarrow> string \<Rightarrow> bool \<Rightarrow> string set \<Rightarrow> string \<Rightarrow> bool" where
  "should_probe_transient_backoff_candidates env workflow role json task_tags prompt =
     (if env_bool_any env [''GAIL_DISABLE_TRANSIENT_BACKOFF_PROBE'',
           ''REFINER_AI_DISABLE_TRANSIENT_BACKOFF_PROBE''] False then False
      else if env_bool_any env [''GAIL_ALWAYS_TRANSIENT_BACKOFF_PROBE'',
           ''REFINER_AI_ALWAYS_TRANSIENT_BACKOFF_PROBE''] False then True
      else if is_interactive_workflow workflow role then False
      else json \<or> text_or_tags_indicate_automation workflow role task_tags prompt)"

definition should_return_degraded_fallback ::
  "environment \<Rightarrow> string option \<Rightarrow> bool \<Rightarrow> string \<Rightarrow> string \<Rightarrow> bool \<Rightarrow> string set \<Rightarrow> string \<Rightarrow> bool" where
  "should_return_degraded_fallback env preferred_provider include_configured workflow role json task_tags prompt =
     (if env_bool_any env [''GAIL_DISABLE_DEGRADED_FALLBACK'', ''REFINER_AI_DISABLE_DEGRADED_FALLBACK''] False
      then False
      else if env_bool_any env [''GAIL_ALWAYS_DEGRADED_FALLBACK'', ''REFINER_AI_ALWAYS_DEGRADED_FALLBACK''] False
      then True
      else if preferred_provider \<noteq> None \<and> \<not> include_configured then False
      else if json then True
      else if is_interactive_workflow workflow role then False
      else if preferred_provider = None then True
      else text_or_tags_indicate_automation workflow role task_tags prompt)"

section \<open>Properties\<close>

lemma clamp_nat_bounds: "lo \<le> hi \<Longrightarrow> lo \<le> clamp_nat v lo hi \<and> clamp_nat v lo hi \<le> hi"
  by (auto simp: clamp_nat_def)

lemma pool_wait_bounds:
  "1 \<le> workload_pool_wait_timeout_ms_for env cfg cls"
  "workload_pool_wait_timeout_ms_for env cfg cls \<le> max_workload_pool_wait_timeout_ms"
  "1 \<le> candidate_queue_wait_timeout_ms env cfg"
  "candidate_queue_wait_timeout_ms env cfg \<le> max_workload_pool_wait_timeout_ms"
  using clamp_nat_bounds [of 1 max_workload_pool_wait_timeout_ms]
  by (simp_all add: workload_pool_wait_timeout_ms_for_def candidate_queue_wait_timeout_ms_def
      max_workload_pool_wait_timeout_ms_def split: workload_class.splits)

lemma timeout_cap_positive: "candidate_timeout_cap env cfg cls workflow role json task_tags prompt = Some s \<Longrightarrow> 1 \<le> s"
  by (auto simp: candidate_timeout_cap_def base_timeout_cap_def Let_def split: if_splits option.splits)

text \<open>Whether some part of a request speaks of trading.\<close>

definition mentions :: "string list \<Rightarrow> string list \<Rightarrow> bool" where
  "mentions markers texts \<longleftrightarrow> (\<exists>text\<in>set texts. \<exists>marker\<in>set markers. str_contains (to_ascii_lowercase text) marker)"

lemma classify_trading:
  "classify_workload_with_context workflow role category profile source prompt = TradingWork \<longleftrightarrow>
     mentions trading_markers [workflow, role, unwrap_or [] category, unwrap_or [] profile,
       unwrap_or [] source, unwrap_or [] prompt]"
  by (auto simp: classify_workload_with_context_def Let_def mentions_def list_ex_iff)

lemma approval_is_interactive:
  assumes "\<not> mentions trading_markers [workflow, role, unwrap_or [] category, unwrap_or [] profile,
       unwrap_or [] source, unwrap_or [] prompt]"
    and "str_contains (to_ascii_lowercase (unwrap_or [] category)) ''approval''"
  shows "classify_workload_with_context workflow role category profile source prompt = InteractiveWork"
  using assms by (auto simp: classify_workload_with_context_def Let_def mentions_def list_ex_iff)

text \<open>Trading work never waits in another pool: a request is put in the trading pool exactly when one
  of its six texts speaks of trading, whatever else they say; and an approval that does not is
  always in the interactive pool, also when its texts look like solver work.\<close>

theorem pools_are_separated:
  "(classify_workload_with_context workflow role category profile source prompt = TradingWork \<longleftrightarrow>
     mentions trading_markers [workflow, role, unwrap_or [] category, unwrap_or [] profile,
       unwrap_or [] source, unwrap_or [] prompt])
   \<and> (str_contains (to_ascii_lowercase (unwrap_or [] category)) ''approval'' \<longrightarrow>
       classify_workload_with_context workflow role category profile source prompt \<noteq> SolverWork)"
  using classify_trading approval_is_interactive by (metis workload_class.distinct(1,5))

theorem pools_are_separated_witness:
  "classify_workload_with_context ''refiner_conductor'' ''planner'' (Some ''policy_approval'') None None None
     \<noteq> SolverWork"
proof -
  have "str_contains (to_ascii_lowercase (unwrap_or [] (Some ''policy_approval''))) ''approval''"
    by code_simp
  then show ?thesis using pools_are_separated by blast
qed

end
