(* ===== verification/Invocation.thy ===== *)
theory Invocation
  imports Workload Redaction
begin

text \<open>
  \<^verbatim>\<open>src/src/orchestration.rs\<close>: one invocation of a candidate, with its retries, the check of the
  strict model policy and the quality of the answer. The provider is a parameter: \<open>answer k\<close> is what
  it returns at the \<open>k\<close>-th attempt. The JSON parser and the adapter's construction are parameters
  too. Waiting is recorded as the list of delays, in seconds.
\<close>

record cost_info =
  ci_amount :: f64
  ci_currency :: string

record token_usage =
  tu_prompt :: "nat option"
  tu_completion :: "nat option"
  tu_total :: "nat option"
  tu_cached :: "nat option"
  tu_cost :: "cost_info option"

record provider_response =
  rs_text :: string
  rs_raw :: "json option"
  rs_latency_ms :: nat
  rs_provider :: string
  rs_model :: string
  rs_usage :: "token_usage option"

record invocation_result =
  ir_candidate :: provider_candidate
  ir_response :: "provider_response option"
  ir_error :: "string option"
  ir_latency_ms :: "nat option"
  ir_queue_wait_ms :: "nat option"
  ir_quality :: f64
  ir_score :: f64

section \<open>Quality of an answer\<close>

definition is_backtick :: "char \<Rightarrow> bool" where
  "is_backtick c = (c = CHR 0x60)"

definition trim_matches :: "(char \<Rightarrow> bool) \<Rightarrow> string \<Rightarrow> string" where
  "trim_matches p s = trim_end_by p (dropWhile p s)"

definition strip_prefix_or :: "string \<Rightarrow> string \<Rightarrow> string \<Rightarrow> string" where
  "strip_prefix_or pre fallback s = (if prefix pre s then drop (length pre) s else fallback)"

definition fence :: string where
  "fence = [CHR 0x60, CHR 0x60, CHR 0x60]"

definition try_parse_json :: "(string \<Rightarrow> json option) \<Rightarrow> string \<Rightarrow> json option" where
  "try_parse_json parse_json text =
     (let payload = trim text
      in if payload = [] then None
         else case parse_json payload of
           Some v \<Rightarrow> Some v
         | None \<Rightarrow>
             if starts_with payload fence \<and> ends_with payload fence
             then let inner = trim (trim_matches is_backtick payload)
                  in parse_json (trim (strip_prefix_or ''json'' inner inner))
             else None)"

definition obvious_non_answer :: "string \<Rightarrow> bool" where
  "obvious_non_answer lowered =
     (contains_any lowered
        [''i can'' @ [CHR 0x27] @ ''t help'', ''i cannot help'', ''i'' @ [CHR 0x27] @ ''m unable'', ''i am unable'',
         ''cannot answer'', ''no answer'', ''service unavailable'', ''model not found'', ''upstream error'',
         ''as an ai language model'']
      \<or> lowered \<in> {''n/a'', ''null'', ''none'', ''...'', ''-''})"

definition json_bonus :: "json option \<Rightarrow> f64 option" where
  "json_bonus parsed =
     (case parsed of
        Some (JObject m) \<Rightarrow> if m = [] then None else Some (lit (245 / 100))
      | Some (JArray xs) \<Rightarrow> if xs = [] then None else Some (lit (235 / 100))
      | Some JNull \<Rightarrow> None
      | Some _ \<Rightarrow> Some (lit (22 / 10))
      | None \<Rightarrow> Some (Fin (- 2)))"

definition quality_score :: "(string \<Rightarrow> json option) \<Rightarrow> string \<Rightarrow> bool \<Rightarrow> f64" where
  "quality_score parse_json text json =
     (let cleaned = trim text; lowered = to_ascii_lowercase cleaned
      in if cleaned = [] then Fin (- 3)
         else if obvious_non_answer lowered then Fin (- 3 / 2)
         else let score = (if 40 \<le> utf8_len cleaned then f_add (lit (6 / 10)) (lit (35 / 100)) else lit (6 / 10))
              in if json
                 then (case json_bonus (try_parse_json parse_json cleaned) of
                         None \<Rightarrow> Fin (- 3 / 2)
                       | Some bonus \<Rightarrow>
                           let s = f_add score bonus
                           in if str_contains cleaned fence then f_sub s (lit (4 / 10)) else s)
                 else score)"

section \<open>Requests\<close>

definition option_or :: "'a option \<Rightarrow> 'a option \<Rightarrow> 'a option" where
  "option_or a b = (case a of None \<Rightarrow> b | Some x \<Rightarrow> Some x)"

definition provider_request_from_profile :: "provider_profile \<Rightarrow> provider_request \<Rightarrow> provider_request" where
  "provider_request_from_profile profile request =
     request\<lparr>pr_provider := normalize_provider_type (pf_provider_type profile),
       pr_model := option_or (pf_model profile) (pr_model request),
       pr_api_key := option_or (pr_api_key request) (pf_api_key profile),
       pr_access_token := option_or (pr_access_token request) (pf_access_token profile),
       pr_base_url := option_or (pf_base_url profile) (pr_base_url request)\<rparr>"

section \<open>Retries\<close>

record retry_policy =
  rp_quota_retries :: nat
  rp_timeout_retries :: nat
  rp_quota_backoff_base :: f64
  rp_timeout_backoff_base :: f64
  rp_retry_empty :: bool

definition retry_policy_of :: "environment \<Rightarrow> retry_policy" where
  "retry_policy_of env =
     \<lparr>rp_quota_retries = env_int_any env [''LLM_RATE_LIMIT_RETRIES''] 2,
      rp_timeout_retries = env_int_any env [''LLM_TIMEOUT_RETRIES''] 0,
      rp_quota_backoff_base = f_max (env_float_any env [''LLM_RATE_LIMIT_BACKOFF_BASE''] (Fin 1)) (lit (1 / 10)),
      rp_timeout_backoff_base = f_max (env_float_any env [''LLM_TIMEOUT_BACKOFF_BASE''] (Fin 1)) (lit (1 / 10)),
      rp_retry_empty = env_bool_any env [''REFINER_AI_RETRY_EMPTY_OUTPUT'', ''GAIL_RETRY_EMPTY_OUTPUT''] True\<rparr>"

definition failed_result :: "provider_candidate \<Rightarrow> string \<Rightarrow> nat option \<Rightarrow> nat option \<Rightarrow> invocation_result" where
  "failed_result c message latency queue_wait =
     \<lparr>ir_candidate = c, ir_response = None, ir_error = Some message, ir_latency_ms = latency,
      ir_queue_wait_ms = queue_wait, ir_quality = Fin (- 1), ir_score = NInf\<rparr>"

text \<open>What an attempt leads to: the result of the invocation, or another attempt.\<close>

datatype attempt_step = Finished invocation_result | RetryEmpty | RetryQuota f64 | RetryTimeout f64

record attempt_state =
  at_quota :: nat
  at_timeout :: nat
  at_attempts :: nat

definition backoff_delay :: "f64 \<Rightarrow> nat \<Rightarrow> f64" where
  "backoff_delay base attempts = f_mul base (rnd (2 ^ attempts))"

text \<open>
  The messages that quote numbers of the answer are parameters of \<open>violation\<close>; the latency is
  measured by the clock and part of the answer.
\<close>

definition attempt_outcome ::
  "retry_policy \<Rightarrow> (string \<Rightarrow> json option) \<Rightarrow> (string \<Rightarrow> string) \<Rightarrow> provider_candidate \<Rightarrow> provider_request \<Rightarrow> bool \<Rightarrow>
     nat option \<Rightarrow> attempt_state \<Rightarrow> (gail_error + provider_response) \<times> nat \<Rightarrow> attempt_step" where
  "attempt_outcome policy parse_json violation c effective json queue_wait st outcome =
     (case outcome of
        (Inr response, latency) \<Rightarrow>
          if trim (rs_text response) = []
          then if rp_retry_empty policy \<and> at_attempts st < 2 then RetryEmpty
               else Finished (failed_result c (''empty response text from ''
                      @ pf_provider_type (pc_profile c) @ ''/'' @ rs_model response) (Some latency) queue_wait)
          else if violates_strict_model_policy (unwrap_or False (pr_strict_no_downgrade effective))
                    (pr_min_model_size_b effective) (pc_configured_model c) (rs_model response)
          then Finished (failed_result c (violation (rs_model response)) (Some latency) queue_wait)
          else Finished \<lparr>ir_candidate = c, ir_response = Some response, ir_error = None,
                 ir_latency_ms = Some latency, ir_queue_wait_ms = queue_wait,
                 ir_quality = quality_score parse_json (rs_text response) json, ir_score = NInf\<rparr>
      | (Inl error, latency) \<Rightarrow>
          if is_quota error \<and> at_quota st < rp_quota_retries policy
          then RetryQuota (backoff_delay (rp_quota_backoff_base policy) (at_quota st))
          else if is_timeout error \<and> at_timeout st < rp_timeout_retries policy
          then RetryTimeout (backoff_delay (rp_timeout_backoff_base policy) (at_timeout st))
          else Finished (failed_result c (error_display error) (Some latency) queue_wait))"

text \<open>
  The loop: the \<open>k\<close>-th attempt's answer is \<open>answer k\<close>, with its latency. It returns the result,
  the number of attempts made and the delays between them.
\<close>

function invoke_attempts ::
  "retry_policy \<Rightarrow> (string \<Rightarrow> json option) \<Rightarrow> (string \<Rightarrow> string) \<Rightarrow> provider_candidate \<Rightarrow> provider_request \<Rightarrow> bool \<Rightarrow>
     nat option \<Rightarrow> (nat \<Rightarrow> (gail_error + provider_response) \<times> nat) \<Rightarrow> attempt_state \<Rightarrow> f64 list \<Rightarrow>
     invocation_result \<times> nat \<times> f64 list" where
  "invoke_attempts policy parse_json violation c effective json queue_wait answer st0 delays =
     (let st = st0\<lparr>at_attempts := at_attempts st0 + 1\<rparr>
      in case attempt_outcome policy parse_json violation c effective json queue_wait st (answer (at_attempts st)) of
           Finished result \<Rightarrow> (result, at_attempts st, delays)
         | RetryEmpty \<Rightarrow>
             invoke_attempts policy parse_json violation c effective json queue_wait answer st delays
         | RetryQuota delay \<Rightarrow>
             invoke_attempts policy parse_json violation c effective json queue_wait answer
               (st\<lparr>at_quota := at_quota st + 1\<rparr>) (delays @ [delay])
         | RetryTimeout delay \<Rightarrow>
             invoke_attempts policy parse_json violation c effective json queue_wait answer
               (st\<lparr>at_timeout := at_timeout st + 1\<rparr>) (delays @ [delay]))"
  by pat_completeness auto

lemma outcome_retries:
  "attempt_outcome policy parse_json violation c effective json queue_wait st out = RetryEmpty \<Longrightarrow> at_attempts st < 2"
  "attempt_outcome policy parse_json violation c effective json queue_wait st out = RetryQuota d \<Longrightarrow>
     at_quota st < rp_quota_retries policy"
  "attempt_outcome policy parse_json violation c effective json queue_wait st out = RetryTimeout d \<Longrightarrow>
     at_timeout st < rp_timeout_retries policy"
  by (auto simp: attempt_outcome_def split: prod.splits sum.splits if_splits)

text \<open>What is left of the retries.\<close>

definition retries_left :: "retry_policy \<Rightarrow> attempt_state \<Rightarrow> nat" where
  "retries_left policy st = (rp_quota_retries policy - at_quota st)
     + (rp_timeout_retries policy - at_timeout st) + (1 - at_attempts st)"

termination invoke_attempts
  by (relation "measure (\<lambda>(policy, parse_json, violation, c, effective, json, queue_wait, answer, st, delays).
        retries_left policy st)")
    (auto simp: retries_left_def dest!: outcome_retries)

declare invoke_attempts.simps [simp del]

section \<open>Properties of an invocation\<close>

definition attempts_start :: attempt_state where
  "attempts_start = \<lparr>at_quota = 0, at_timeout = 0, at_attempts = 0\<rparr>"

definition useful_answer :: "provider_candidate \<Rightarrow> provider_request \<Rightarrow> provider_response \<Rightarrow> bool" where
  "useful_answer c effective r \<longleftrightarrow>
     trim (rs_text r) \<noteq> []
     \<and> \<not> violates_strict_model_policy (unwrap_or False (pr_strict_no_downgrade effective))
          (pr_min_model_size_b effective) (pc_configured_model c) (rs_model r)"

lemma outcome_finished:
  assumes "attempt_outcome policy parse_json violation c effective json queue_wait st out = Finished result"
  shows "ir_candidate result = c \<and> ir_queue_wait_ms result = queue_wait
     \<and> (case ir_response result of
          None \<Rightarrow> ir_error result \<noteq> None \<and> ir_quality result = Fin (- 1)
        | Some r \<Rightarrow> useful_answer c effective r \<and> ir_error result = None \<and> fst out = Inr r
            \<and> ir_quality result = quality_score parse_json (rs_text r) json)"
  using assms
  by (auto simp: attempt_outcome_def failed_result_def useful_answer_def split: prod.splits sum.splits if_splits)

lemma attempts_facts:
  "invoke_attempts policy parse_json violation c effective json queue_wait answer st ds = (result, n, delays) \<Longrightarrow>
     at_attempts st < n \<and> n \<le> at_attempts st + retries_left policy st + 1
     \<and> length delays + at_attempts st \<le> length ds + n
     \<and> ir_candidate result = c
     \<and> (case ir_response result of
          None \<Rightarrow> ir_error result \<noteq> None
        | Some r \<Rightarrow> useful_answer c effective r \<and> ir_error result = None
            \<and> fst (answer n) = Inr r \<and> ir_quality result = quality_score parse_json (rs_text r) json)"
proof (induction policy parse_json violation c effective json queue_wait answer st ds
    arbitrary: result n delays rule: invoke_attempts.induct)
  case (1 policy parse_json violation c effective json queue_wait answer st0 ds)
  define st where "st = st0\<lparr>at_attempts := at_attempts st0 + 1\<rparr>"
  define out where "out = attempt_outcome policy parse_json violation c effective json queue_wait st (answer (at_attempts st))"
  show ?case
  proof (cases out)
    case (Finished r)
    then have "result = r" "n = at_attempts st" "delays = ds"
      using "1.prems" by (simp_all add: invoke_attempts.simps [of _ _ _ _ _ _ _ _ st0] Let_def out_def st_def)
    then show ?thesis
      using outcome_finished [OF Finished [unfolded out_def]] by (auto simp: st_def split: option.splits)
  next
    case RetryEmpty
    then have "invoke_attempts policy parse_json violation c effective json queue_wait answer st ds = (result, n, delays)"
      using "1.prems" by (simp add: invoke_attempts.simps [of _ _ _ _ _ _ _ _ st0] Let_def out_def st_def)
    then show ?thesis
      using "1.IH"(1) [OF st_def RetryEmpty [unfolded out_def]] outcome_retries(1) [OF RetryEmpty [unfolded out_def]]
      by (auto simp: st_def retries_left_def)
  next
    case (RetryQuota d)
    then have "invoke_attempts policy parse_json violation c effective json queue_wait answer
        (st\<lparr>at_quota := at_quota st + 1\<rparr>) (ds @ [d]) = (result, n, delays)"
      using "1.prems" by (simp add: invoke_attempts.simps [of _ _ _ _ _ _ _ _ st0] Let_def out_def st_def)
    then show ?thesis
      using "1.IH"(2) [OF st_def RetryQuota [unfolded out_def]] outcome_retries(2) [OF RetryQuota [unfolded out_def]]
      by (auto simp: st_def retries_left_def)
  next
    case (RetryTimeout d)
    then have "invoke_attempts policy parse_json violation c effective json queue_wait answer
        (st\<lparr>at_timeout := at_timeout st + 1\<rparr>) (ds @ [d]) = (result, n, delays)"
      using "1.prems" by (simp add: invoke_attempts.simps [of _ _ _ _ _ _ _ _ st0] Let_def out_def st_def)
    then show ?thesis
      using "1.IH"(3) [OF st_def RetryTimeout [unfolded out_def]] outcome_retries(3) [OF RetryTimeout [unfolded out_def]]
      by (auto simp: st_def retries_left_def)
  qed
qed

text \<open>The retry loop of an invocation ends for every provider, after at most one attempt and one for
  each retry the policy allows (quota and timeout failures and one empty answer), with an error or
  with an answer; and an answer is the provider's at the last attempt, is not blank and does not
  violate the strict model policy.\<close>

theorem invocation_terminates:
  "case invoke_attempts policy parse_json violation c effective json queue_wait answer attempts_start [] of
     (result, n, delays) \<Rightarrow>
       1 \<le> n \<and> n \<le> rp_quota_retries policy + rp_timeout_retries policy + 2
       \<and> length delays \<le> n
       \<and> (case ir_response result of
            None \<Rightarrow> ir_error result \<noteq> None
          | Some r \<Rightarrow> useful_answer c effective r \<and> fst (answer n) = Inr r)"
proof -
  obtain result n delays where "invoke_attempts policy parse_json violation c effective json queue_wait answer
      attempts_start [] = (result, n, delays)" by (cases rule: prod_cases3)
  with attempts_facts [OF this] show ?thesis
    by (auto simp: attempts_start_def retries_left_def split: option.splits)
qed

end
