(* ===== verification/Dispatch.thy ===== *)
theory Dispatch
  imports Selection Invocation
begin

text \<open>
  \<^verbatim>\<open>src/src/orchestration.rs\<close>, \<^verbatim>\<open>complete_inner\<close>: the waves in which a request is sent to its
  ranked candidates, and the choice of the answer. What the providers return to a wave is the
  parameter \<open>invoke\<close>, from the number of the wave and the candidates selected for it to the
  results, in the order they arrive; metrics and logging are left out.
\<close>

section \<open>State of the loop\<close>

record dispatch_config =
  dc_parse_url :: "string \<Rightarrow> parsed_url option"
  dc_env :: environment
  dc_ranked :: "ranked_candidate list"
  dc_estimates :: estimates
  dc_timeout_cap :: "nat option"
  dc_wave_size :: nat
  dc_deduplicate_wave_models :: bool
  dc_deduplicate_models :: bool
  dc_selection_mode :: selection_mode
  dc_workflow :: string
  dc_role :: string
  dc_probe_allowed :: bool
  dc_min_quality :: f64

record dispatch_state =
  ds_attempted :: "string set"
  ds_throttled :: "string set"
  ds_results :: "invocation_result list"
  ds_wave_index :: nat
  ds_returned_early :: bool
  ds_cursors :: cursors

definition backoff_message :: string where
  "backoff_message = ''all suitable providers are currently in adaptive backoff; retry after the recorded mitigation window''"

section \<open>Choosing a wave\<close>

definition unattempted :: "dispatch_config \<Rightarrow> dispatch_state \<Rightarrow> ranked_candidate list" where
  "unattempted cfg st = filter (\<lambda>item. candidate_attempt_key (rk_candidate item) \<notin> ds_attempted st
     \<and> pc_provider_type (rk_candidate item) \<notin> ds_throttled st) (dc_ranked cfg)"

definition within_budget :: "dispatch_config \<Rightarrow> ranked_candidate \<Rightarrow> bool" where
  "within_budget cfg item =
     (case dc_timeout_cap cfg of
        None \<Rightarrow> True
      | Some seconds \<Rightarrow>
          is_none_or (\<lambda>eta. f_le eta (f_of_nat (usize_sat_mul seconds 1000)))
            (eta_of (dc_parse_url cfg) (dc_estimates cfg) (rk_candidate item)))"

definition all_over_budget :: "dispatch_config \<Rightarrow> dispatch_state \<Rightarrow> bool" where
  "all_over_budget cfg st =
     (dc_timeout_cap cfg \<noteq> None \<and> unattempted cfg st \<noteq> []
      \<and> filter (within_budget cfg) (unattempted cfg st) = [])"

definition selection_pool :: "dispatch_config \<Rightarrow> dispatch_state \<Rightarrow> ranked_candidate list" where
  "selection_pool cfg st =
     (if all_over_budget cfg st then unattempted cfg st
      else filter (within_budget cfg) (unattempted cfg st))"

definition remaining :: "dispatch_config \<Rightarrow> dispatch_state \<Rightarrow> ranked_candidate list" where
  "remaining cfg st = filter (\<lambda>item. \<not> ranked_candidate_is_in_provider_backoff item) (selection_pool cfg st)"

definition forced_probe :: "dispatch_config \<Rightarrow> dispatch_state \<Rightarrow> provider_candidate list option" where
  "forced_probe cfg st =
     (if remaining cfg st = [] \<and> unattempted cfg st \<noteq> [] \<and> ds_results st = [] \<and> dc_probe_allowed cfg
      then let transient = filter ranked_candidate_is_transient_backoff (unattempted cfg st)
           in if transient = [] then None
              else Some (select_ranked_candidates (dc_parse_url cfg) transient
                     (transient_backoff_probe_target (dc_env cfg) (dc_wave_size cfg) (length transient))
                     (dc_deduplicate_wave_models cfg))
      else None)"

definition no_forced_probe :: "provider_candidate list option \<Rightarrow> bool" where
  "no_forced_probe forced = (case forced of None \<Rightarrow> True | Some items \<Rightarrow> items = [])"

text \<open>\<open>None\<close> is the exit that every candidate is in backoff.\<close>

definition select_wave ::
  "dispatch_config \<Rightarrow> dispatch_state \<Rightarrow> (provider_candidate list \<times> cursors) option" where
  "select_wave cfg st =
     (let forced = forced_probe cfg st; pool = remaining cfg st
      in if pool = [] \<and> unattempted cfg st \<noteq> [] \<and> ds_results st = [] \<and> no_forced_probe forced
         then None
         else Some (case forced of
            Some items \<Rightarrow> (items, ds_cursors st)
          | None \<Rightarrow>
              if all_over_budget cfg st
              then (select_ranked_candidates (dc_parse_url cfg) pool (min (dc_wave_size cfg) 1)
                      (dc_deduplicate_wave_models cfg), ds_cursors st)
              else if dc_selection_mode cfg = RoundRobin
              then select_round_robin_candidates (dc_env cfg) (dc_parse_url cfg) (dc_deduplicate_models cfg) pool
                     (dc_wave_size cfg) (dc_workflow cfg) (dc_role cfg) (dc_estimates cfg) (ds_cursors st)
              else (select_adaptive_candidates (dc_env cfg) (dc_parse_url cfg) pool (dc_wave_size cfg)
                      (dc_deduplicate_wave_models cfg) (dc_estimates cfg), ds_cursors st)))"


section \<open>Selections choose from the ranking\<close>

lemma pick_subset: "pick key families dedup target cs st = (full, st') \<Longrightarrow>
    set (ps_selected st') \<subseteq> set (ps_selected st) \<union> set cs"
  by (induction cs arbitrary: st) (force simp: pick_Cons add_pick_def split: if_splits)+

lemma pick_twice_subset: "set (pick_twice key dedup target cs) \<subseteq> set cs"
proof -
  obtain full st where one: "pick key True dedup target cs nothing_picked = (full, st)" by fastforce
  obtain full' st' where two: "pick key False dedup target cs st = (full', st')" by fastforce
  show ?thesis using pick_subset [OF one] pick_subset [OF two] one two
    by (cases full) (auto simp: pick_twice_def nothing_picked_def)
qed

lemma ensure_subset:
  "set (ensure_local_fallback_selected parse_url sel fb target dedup) \<subseteq> set sel \<union> set_option fb"
  by (auto simp: ensure_local_fallback_selected_def dest: in_set_butlastD split: option.splits)

lemma ranked_subset: "set (select_ranked_candidates parse_url ranked n dedup) \<subseteq> rk_candidate ` set ranked"
proof -
  define sel where "sel = pick_twice candidate_attempt_key dedup (max n 1) (map rk_candidate (sort_by ranked_cmp ranked))"
  define fb where "fb = (if 2 \<le> max n 1 then best_local_fallback_candidate ranked else None)"
  have "set sel \<subseteq> rk_candidate ` set ranked"
    using pick_twice_subset [of candidate_attempt_key dedup "max n 1" "map rk_candidate (sort_by ranked_cmp ranked)"]
    by (simp add: sel_def)
  moreover have "set_option fb \<subseteq> rk_candidate ` set ranked"
    using best_local_facts [of ranked] by (auto simp: fb_def)
  moreover have "select_ranked_candidates parse_url ranked n dedup
      = ensure_local_fallback_selected parse_url sel fb (max n 1) dedup"
    by (simp add: select_ranked_candidates_def Let_def sel_def fb_def)
  ultimately show ?thesis using ensure_subset [of parse_url sel fb "max n 1" dedup] by auto
qed

lemma adaptive_subset: "set (select_adaptive_candidates env parse_url ranked n dedup ests) \<subseteq> rk_candidate ` set ranked"
proof -
  define ordered where "ordered = sort_by (adaptive_cmp parse_url ests) ranked"
  have "set (pick_twice key d t (map rk_candidate (competitive_candidates parse_url ests f l ordered)))
      \<subseteq> rk_candidate ` set ranked" for key d t f l
  proof -
    have "set (competitive_candidates parse_url ests f l ordered) \<subseteq> set ranked"
      using competitive_subset [of parse_url ests f l ordered] by (simp add: ordered_def)
    then show ?thesis using pick_twice_subset by fastforce
  qed
  then show ?thesis by (simp add: select_adaptive_candidates_def Let_def flip: ordered_def)
qed

lemma round_robin_subset:
  "set (fst (select_round_robin_candidates env parse_url dedup ranked n workflow role ests cursors))
     \<subseteq> rk_candidate ` set ranked"
proof -
  have "set (reorder_ranked_candidates_for_round_robin ranked ctx k) = set ranked" for ctx k
    by (metis mset_reorder set_mset_mset)
  then show ?thesis using adaptive_subset
    by (force simp: select_round_robin_candidates_def split: option.splits prod.splits)
qed

lemma remaining_subset: "set (remaining cfg st) \<subseteq> set (unattempted cfg st)"
  by (auto simp: remaining_def selection_pool_def)

lemma select_wave_cases:
  assumes "select_wave cfg st = Some (sel, cursors)" "forced_probe cfg st = None"
  shows "sel \<in> {select_ranked_candidates (dc_parse_url cfg) (remaining cfg st) (min (dc_wave_size cfg) 1)
          (dc_deduplicate_wave_models cfg),
        fst (select_round_robin_candidates (dc_env cfg) (dc_parse_url cfg) (dc_deduplicate_models cfg)
          (remaining cfg st) (dc_wave_size cfg) (dc_workflow cfg) (dc_role cfg) (dc_estimates cfg) (ds_cursors st)),
        select_adaptive_candidates (dc_env cfg) (dc_parse_url cfg) (remaining cfg st) (dc_wave_size cfg)
          (dc_deduplicate_wave_models cfg) (dc_estimates cfg)}"
  using assms by (auto simp: select_wave_def Let_def split: if_splits)

lemma select_wave_subset:
  assumes "select_wave cfg st = Some (sel, cursors)"
  shows "set sel \<subseteq> rk_candidate ` set (unattempted cfg st)"
proof -
  have pool: "rk_candidate ` set (remaining cfg st) \<subseteq> rk_candidate ` set (unattempted cfg st)"
    by (rule image_mono [OF remaining_subset])
  show ?thesis
  proof (cases "forced_probe cfg st")
    case (Some items)
    then have "sel = items" using assms by (auto simp: select_wave_def Let_def split: if_splits)
    then show ?thesis using Some ranked_subset by (fastforce simp: forced_probe_def Let_def split: if_splits)
  next
    case None
    note sel = select_wave_cases [OF assms None]
    from sel have "set sel \<subseteq> rk_candidate ` set (remaining cfg st)"
      by (elim insertE emptyE) (simp_all only: ranked_subset adaptive_subset round_robin_subset)
    then show ?thesis using pool by blast
  qed
qed

section \<open>The loop\<close>

datatype dispatch_exit = AllBackedOff dispatch_state | NoneSelected | Settled dispatch_state

definition useful :: "dispatch_config \<Rightarrow> invocation_result \<Rightarrow> bool" where
  "useful cfg r \<longleftrightarrow> ir_response r \<noteq> None \<and> f_le (dc_min_quality cfg) (ir_quality r)"

definition backoff_providers :: "invocation_result list \<Rightarrow> string set" where
  "backoff_providers results =
     set (map (\<lambda>r. pc_provider_type (ir_candidate r))
       (filter (\<lambda>r. ir_response r = None
            \<and> is_some_and (error_should_backoff_provider_family (ir_candidate r)) (ir_error r)) results))"

definition after_wave ::
  "dispatch_config \<Rightarrow> dispatch_state \<Rightarrow> cursors \<Rightarrow> provider_candidate list \<Rightarrow> invocation_result list \<Rightarrow> dispatch_state" where
  "after_wave cfg st cursors selected wave_results =
     \<lparr>ds_attempted = ds_attempted st \<union> candidate_attempt_key ` set selected,
      ds_throttled = ds_throttled st \<union> backoff_providers wave_results,
      ds_results = ds_results st @ wave_results,
      ds_wave_index = ds_wave_index st + 1,
      ds_returned_early = (ds_returned_early st
         \<or> length wave_results < length selected \<and> 1 < length selected),
      ds_cursors = cursors\<rparr>"

definition open_keys :: "dispatch_config \<Rightarrow> dispatch_state \<Rightarrow> string set" where
  "open_keys cfg st = (\<lambda>item. candidate_attempt_key (rk_candidate item)) ` set (dc_ranked cfg) - ds_attempted st"

lemma open_keys_shrink:
  assumes "select_wave cfg st = Some (sel, cursors)" "sel \<noteq> []"
  shows "card (open_keys cfg (after_wave cfg st cursors' sel results)) < card (open_keys cfg st)"
proof -
  have "candidate_attempt_key (hd sel) \<in> open_keys cfg st"
    using select_wave_subset [OF assms(1)] assms(2) hd_in_set [OF assms(2)]
    by (fastforce simp: open_keys_def unattempted_def)
  moreover have "open_keys cfg (after_wave cfg st cursors' sel results)
      \<subseteq> open_keys cfg st - {candidate_attempt_key (hd sel)}"
    using assms(2) by (auto simp: open_keys_def after_wave_def)
  moreover have "finite (open_keys cfg st)" by (simp add: open_keys_def)
  ultimately show ?thesis by (meson finite_Diff card_Diff1_less card_mono le_less_trans)
qed

function dispatch_waves ::
  "(nat \<Rightarrow> provider_candidate list \<Rightarrow> invocation_result list) \<Rightarrow> dispatch_config \<Rightarrow> dispatch_state \<Rightarrow> dispatch_exit" where
  "dispatch_waves invoke cfg st =
     (case select_wave cfg st of
        None \<Rightarrow> AllBackedOff st
      | Some (selected, cursors) \<Rightarrow>
          if selected = []
          then if ds_results st = [] then NoneSelected else Settled st
          else let wave_results = invoke (ds_wave_index st + 1) selected;
                   st' = after_wave cfg st cursors selected wave_results
               in if list_ex (useful cfg) wave_results then Settled st'
                  else dispatch_waves invoke cfg st')"
  by pat_completeness auto

termination dispatch_waves
  by (relation "measure (\<lambda>(invoke, cfg, st). card (open_keys cfg st))") (auto dest: open_keys_shrink)

declare dispatch_waves.simps [simp del]


section \<open>The choice of the answer\<close>

text \<open>
  The gate on quality and the score of an answer. The text that quotes the two numbers and the
  bonus of the metrics are parameters.
\<close>

definition gate_result ::
  "(f64 \<Rightarrow> f64 \<Rightarrow> string) \<Rightarrow> (invocation_result \<Rightarrow> f64) \<Rightarrow> f64 \<Rightarrow> invocation_result \<Rightarrow> invocation_result" where
  "gate_result quote bonus min_quality r =
     (if ir_response r \<noteq> None \<and> f_lt (ir_quality r) min_quality
      then r\<lparr>ir_error := Some (quote (ir_quality r) min_quality), ir_response := None\<rparr>
      else case ir_response r of
        None \<Rightarrow> r
      | Some response \<Rightarrow>
          r\<lparr>ir_score := f_add (f_sub (ir_quality r)
               (f_min (f_div (f_of_nat (rs_latency_ms response)) (Fin 5000)) (Fin (5 / 4)))) (bonus r)\<rparr>)"

definition failure_messages :: "invocation_result list \<Rightarrow> string list" where
  "failure_messages results =
     map (\<lambda>r. unwrap_or ''unknown error'' (ir_error r))
       (filter (\<lambda>r. ir_response r = None \<and> \<not> is_dispatch_capacity_race (ir_error r)) results)"

definition chosen_result :: "invocation_result list \<Rightarrow> invocation_result option" where
  "chosen_result results =
     max_by (\<lambda>l r. partial_cmp_or_equal (ir_score l) (ir_score r))
       (filter (\<lambda>r. ir_response r \<noteq> None) results)"

datatype completion =
  Answered invocation_result
| Degraded "string list"
| Failed gail_error

definition settle ::
  "(f64 \<Rightarrow> f64 \<Rightarrow> string) \<Rightarrow> (invocation_result \<Rightarrow> f64) \<Rightarrow> bool \<Rightarrow> dispatch_config \<Rightarrow> dispatch_state \<Rightarrow> completion" where
  "settle quote bonus degraded cfg st =
     (let results = map (gate_result quote bonus (dc_min_quality cfg)) (ds_results st);
          failures = failure_messages results
      in case chosen_result results of
           Some r \<Rightarrow> Answered r
         | None \<Rightarrow>
             let message = (if failures = [] then ''LLM orchestration returned no responses'' else last failures)
             in if degraded then Degraded failures
                else Failed (upstream ''gail'' (orchestration_failure_status message) message))"

definition dispatch_start :: "cursors \<Rightarrow> dispatch_state" where
  "dispatch_start cursors =
     \<lparr>ds_attempted = {}, ds_throttled = {}, ds_results = [], ds_wave_index = 0, ds_returned_early = False,
      ds_cursors = cursors\<rparr>"

definition complete_dispatch ::
  "(nat \<Rightarrow> provider_candidate list \<Rightarrow> invocation_result list) \<Rightarrow> (f64 \<Rightarrow> f64 \<Rightarrow> string) \<Rightarrow>
     (invocation_result \<Rightarrow> f64) \<Rightarrow> bool \<Rightarrow> dispatch_config \<Rightarrow> cursors \<Rightarrow> completion" where
  "complete_dispatch invoke quote bonus degraded cfg cursors =
     (case dispatch_waves invoke cfg (dispatch_start cursors) of
        AllBackedOff st \<Rightarrow>
          if degraded then Degraded [backoff_message]
          else Failed (upstream ''gail'' (Some 503) backoff_message)
      | NoneSelected \<Rightarrow> Failed (BadRequest ''no provider candidates were selected'')
      | Settled st \<Rightarrow> settle quote bonus degraded cfg st)"

section \<open>Runs\<close>

text \<open>The waves of a run, as a step relation.\<close>

inductive wave_run ::
  "(nat \<Rightarrow> provider_candidate list \<Rightarrow> invocation_result list) \<Rightarrow> dispatch_config \<Rightarrow> dispatch_state \<Rightarrow>
     provider_candidate list list \<Rightarrow> dispatch_exit \<Rightarrow> bool" for invoke cfg where
  backed_off: "select_wave cfg st = None \<Longrightarrow> wave_run invoke cfg st [] (AllBackedOff st)"
| nothing: "select_wave cfg st = Some ([], cursors) \<Longrightarrow>
     wave_run invoke cfg st [] (if ds_results st = [] then NoneSelected else Settled st)"
| success: "select_wave cfg st = Some (sel, cursors) \<Longrightarrow> sel \<noteq> [] \<Longrightarrow>
     results = invoke (ds_wave_index st + 1) sel \<Longrightarrow> list_ex (useful cfg) results \<Longrightarrow>
     wave_run invoke cfg st [sel] (Settled (after_wave cfg st cursors sel results))"
| next_wave: "select_wave cfg st = Some (sel, cursors) \<Longrightarrow> sel \<noteq> [] \<Longrightarrow>
     results = invoke (ds_wave_index st + 1) sel \<Longrightarrow> \<not> list_ex (useful cfg) results \<Longrightarrow>
     wave_run invoke cfg (after_wave cfg st cursors sel results) waves exit_state \<Longrightarrow>
     wave_run invoke cfg st (sel # waves) exit_state"

inductive_cases settled_run: "wave_run invoke cfg st waves (Settled st')"

lemma waves_exist: "\<exists>waves. wave_run invoke cfg st waves (dispatch_waves invoke cfg st)"
proof (induction invoke cfg st rule: dispatch_waves.induct)
  case (1 invoke cfg st)
  show ?case
  proof (cases "select_wave cfg st")
    case None
    then show ?thesis using wave_run.backed_off [of cfg st invoke]
      by (auto simp: dispatch_waves.simps [of _ _ st])
  next
    case (Some p)
    then obtain sel cursors where sel: "select_wave cfg st = Some (sel, cursors)" by (cases p) auto
    show ?thesis
    proof (cases "sel = []")
      case True
      then show ?thesis using wave_run.nothing [of cfg st cursors invoke] sel
        by (auto simp: dispatch_waves.simps [of _ _ st])
    next
      case False
      define results where "results = invoke (ds_wave_index st + 1) sel"
      show ?thesis
      proof (cases "list_ex (useful cfg) results")
        case True
        then have "dispatch_waves invoke cfg st = Settled (after_wave cfg st cursors sel results)"
          using sel False by (simp add: dispatch_waves.simps [of _ _ st] results_def Let_def)
        then show ?thesis using wave_run.success [where invoke = invoke, OF sel False results_def True] by auto
      next
        case again: False
        then have "dispatch_waves invoke cfg st = dispatch_waves invoke cfg (after_wave cfg st cursors sel results)"
          using sel False by (simp add: dispatch_waves.simps [of _ _ st] results_def Let_def)
        then show ?thesis
          using "1.IH" [OF sel refl False results_def refl again] wave_run.next_wave [where invoke = invoke, OF sel False results_def again]
          by metis
      qed
    qed
  qed
qed


section \<open>Every wave is new\<close>

definition keys_distinct :: "dispatch_config \<Rightarrow> bool" where
  "keys_distinct cfg \<longleftrightarrow> distinct (map (\<lambda>item. candidate_attempt_key (rk_candidate item)) (dc_ranked cfg))"

lemma distinct_keys_filter:
  "keys_distinct cfg \<Longrightarrow> distinct (map (\<lambda>item. candidate_attempt_key (rk_candidate item)) (filter p (dc_ranked cfg)))"
  by (simp add: keys_distinct_def distinct_map inj_on_def)

lemma attempt_key_inj:
  "keys_distinct cfg \<Longrightarrow> inj_on candidate_attempt_key (rk_candidate ` set (dc_ranked cfg))"
  by (auto simp: keys_distinct_def distinct_map inj_on_def)

lemma adaptive_distinct: "distinct (select_adaptive_candidates env parse_url ranked n dedup ests)"
  using adaptive_selection_facts [OF _ refl, of ranked env parse_url n dedup ests]
  by (cases "ranked = []") (auto simp: select_adaptive_candidates_def distinct_map)

lemma select_wave_distinct:
  assumes "keys_distinct cfg" "select_wave cfg st = Some (sel, cursors)"
  shows "distinct (map candidate_attempt_key sel)"
proof -
  have inj: "distinct xs \<Longrightarrow> distinct (map candidate_attempt_key xs)" if "set xs \<subseteq> rk_candidate ` set (dc_ranked cfg)" for xs
    using attempt_key_inj [OF assms(1)] that by (simp add: distinct_map inj_on_subset)
  have sub: "set sel \<subseteq> rk_candidate ` set (dc_ranked cfg)"
    using select_wave_subset [OF assms(2)] by (auto simp: unattempted_def)
  have ranked: "distinct (map candidate_attempt_key (select_ranked_candidates (dc_parse_url cfg) pool n d))"
    if "distinct (map (\<lambda>item. candidate_attempt_key (rk_candidate item)) pool)" for pool n d
  proof (cases "pool = []")
    case True
    then show ?thesis using ranked_subset [of "dc_parse_url cfg" pool n d] by simp
  next
    case False
    then show ?thesis using ranked_selection_facts [OF False that refl] by blast
  qed
  have pool: "distinct (map (\<lambda>item. candidate_attempt_key (rk_candidate item)) (filter p (unattempted cfg st)))" for p
    using distinct_keys_filter [OF assms(1)] by (simp add: unattempted_def)
  have remaining: "distinct (map (\<lambda>item. candidate_attempt_key (rk_candidate item)) (remaining cfg st))"
    using pool [of "\<lambda>item. \<not> ranked_candidate_is_in_provider_backoff item"]
      pool [of "\<lambda>item. within_budget cfg item \<and> \<not> ranked_candidate_is_in_provider_backoff item"]
    by (simp add: remaining_def selection_pool_def conj_commute)
  have rr: "distinct (fst (select_round_robin_candidates env parse_url dedup pool n workflow role ests cs))"
    for env parse_url dedup pool n workflow role ests cs
    using adaptive_distinct by (simp add: select_round_robin_candidates_def split: option.splits prod.splits)
  show ?thesis
  proof (cases "forced_probe cfg st")
    case (Some items)
    then have "sel = items" using assms(2) by (auto simp: select_wave_def Let_def split: if_splits)
    then show ?thesis using Some ranked [OF pool] by (auto simp: forced_probe_def Let_def split: if_splits)
  next
    case None
    from select_wave_cases [OF assms(2) None]
    have "distinct sel \<or> sel = select_ranked_candidates (dc_parse_url cfg) (remaining cfg st)
        (min (dc_wave_size cfg) 1) (dc_deduplicate_wave_models cfg)"
      by (elim insertE emptyE) (simp_all only: rr adaptive_distinct simp_thms)
    then show ?thesis using ranked [OF remaining] inj [OF sub] by blast
  qed
qed

lemma select_wave_fresh:
  "select_wave cfg st = Some (sel, cursors) \<Longrightarrow> c \<in> set sel \<Longrightarrow>
     c \<in> rk_candidate ` set (dc_ranked cfg) \<and> candidate_attempt_key c \<notin> ds_attempted st"
  using select_wave_subset by (fastforce simp: unattempted_def)

lemma attempted_after:
  "ds_attempted (after_wave cfg st cursors sel results) = ds_attempted st \<union> candidate_attempt_key ` set sel"
  by (simp add: after_wave_def)

lemma run_waves_new:
  "wave_run invoke cfg st waves exit_state \<Longrightarrow> keys_distinct cfg \<Longrightarrow>
     distinct (map candidate_attempt_key (concat waves))
     \<and> set (concat waves) \<subseteq> rk_candidate ` set (dc_ranked cfg)
     \<and> (\<forall>c\<in>set (concat waves). candidate_attempt_key c \<notin> ds_attempted st)
     \<and> (\<forall>sel\<in>set waves. sel \<noteq> [])"
proof (induction rule: wave_run.induct)
  case (success st sel cursors results)
  show ?case
    using select_wave_distinct [OF success.prems success.hyps(1)] select_wave_fresh [OF success.hyps(1)]
      success.hyps(2) by auto
next
  case (next_wave st sel cursors results waves exit_state)
  define key where "key = candidate_attempt_key"
  have sel: "distinct (map key sel)" "set sel \<subseteq> rk_candidate ` set (dc_ranked cfg)"
      "\<forall>c\<in>set sel. key c \<notin> ds_attempted st"
    using select_wave_distinct [OF next_wave.prems next_wave.hyps(1)] select_wave_fresh [OF next_wave.hyps(1)]
    unfolding key_def by blast+
  have rest: "distinct (map key (concat waves))" "set (concat waves) \<subseteq> rk_candidate ` set (dc_ranked cfg)"
      "\<forall>c\<in>set (concat waves). key c \<notin> ds_attempted st \<and> key c \<notin> key ` set sel" "\<forall>w\<in>set waves. w \<noteq> []"
    using next_wave.IH [OF next_wave.prems, unfolded attempted_after] unfolding key_def by blast+
  have "key ` set sel \<inter> key ` set (concat waves) = {}"
  proof (rule equals0I)
    fix k assume "k \<in> key ` set sel \<inter> key ` set (concat waves)"
    then have "k \<in> key ` set sel" "k \<in> key ` set (concat waves)" by (rule IntD1, rule IntD2)
    moreover from this(2) obtain c where "c \<in> set (concat waves)" "k = key c" by (rule imageE)
    ultimately show False using bspec [OF rest(3), of c] by simp
  qed
  then have "distinct (map key (concat (sel # waves)))" using sel(1) rest(1) by simp
  moreover have "set (concat (sel # waves)) \<subseteq> rk_candidate ` set (dc_ranked cfg)"
    using sel(2) rest(2) by simp
  moreover have "\<forall>c\<in>set (concat (sel # waves)). key c \<notin> ds_attempted st" using sel(3) rest(3) by auto
  moreover have "\<forall>w\<in>set (sel # waves). w \<noteq> []" using rest(4) next_wave.hyps(2) by simp
  ultimately show ?case unfolding key_def by blast
qed auto

lemma concat_length: "\<forall>w\<in>set ws. w \<noteq> [] \<Longrightarrow> length ws \<le> length (concat ws)"
proof (induction ws)
  case (Cons w ws)
  then show ?case by (cases w) auto
qed simp

lemma run_waves_bound:
  assumes "wave_run invoke cfg st waves exit_state" "keys_distinct cfg"
  shows "length (concat waves) \<le> length (dc_ranked cfg) \<and> length waves \<le> length (dc_ranked cfg)"
proof -
  have facts: "distinct (concat waves)" "set (concat waves) \<subseteq> rk_candidate ` set (dc_ranked cfg)"
      "\<forall>sel\<in>set waves. sel \<noteq> []"
    using run_waves_new [OF assms] by (auto simp: distinct_map)
  then have "length (concat waves) = card (set (concat waves))" by (simp only: distinct_card)
  also have "\<dots> \<le> card (rk_candidate ` set (dc_ranked cfg))" using facts(2) by (intro card_mono) auto
  also have "\<dots> \<le> length (dc_ranked cfg)" by (meson List.finite_set card_image_le card_length le_trans)
  finally show ?thesis using concat_length [OF facts(3)] by simp
qed

text \<open>C32: The fallback waves of a request end, whatever the providers answer: there are no more waves than
  ranked candidates, no wave is empty, each candidate is invoked at most once over all waves, and
  only ranked candidates are invoked.\<close>

theorem waves_terminate:
  "keys_distinct cfg \<Longrightarrow>
     \<exists>waves. wave_run invoke cfg (dispatch_start cursors) waves (dispatch_waves invoke cfg (dispatch_start cursors))
       \<and> length waves \<le> length (dc_ranked cfg) \<and> [] \<notin> set waves
       \<and> distinct (map candidate_attempt_key (concat waves))
       \<and> set (concat waves) \<subseteq> rk_candidate ` set (dc_ranked cfg)"
  using waves_exist [of invoke cfg "dispatch_start cursors"] run_waves_new run_waves_bound by metis


section \<open>Every healthy candidate gets its turn\<close>

lemma ranked_nonempty: "ranked \<noteq> [] \<Longrightarrow> select_ranked_candidates parse_url ranked n dedup \<noteq> []"
proof -
  assume "ranked \<noteq> []"
  define cs where "cs = map rk_candidate (sort_by ranked_cmp ranked)"
  define sel where "sel = pick_twice candidate_attempt_key dedup (max n 1) cs"
  have t: "0 < max n 1" by simp
  have cs: "cs \<noteq> []" using \<open>ranked \<noteq> []\<close> by (simp add: cs_def)
  have "sel \<noteq> []" "length sel \<le> max n 1"
    using pick_twice_first [OF t cs, of candidate_attempt_key dedup] pick_twice_facts [OF t sel_def]
    by (auto simp: sel_def)
  moreover have "select_ranked_candidates parse_url ranked n dedup = ensure_local_fallback_selected parse_url sel
      (if 2 \<le> max n 1 then best_local_fallback_candidate ranked else None) (max n 1) dedup"
    by (simp add: select_ranked_candidates_def Let_def sel_def cs_def)
  ultimately show ?thesis using ensure_facts(1) [OF refl] by presburger
qed

lemma round_robin_nonempty:
  "ranked \<noteq> [] \<Longrightarrow>
     fst (select_round_robin_candidates env parse_url dedup ranked n workflow role ests cursors) \<noteq> []"
proof -
  assume r: "ranked \<noteq> []"
  have "reorder_ranked_candidates_for_round_robin ranked ctx k \<noteq> []" for ctx k
    using r mset_reorder by (metis mset_zero_iff)
  then show ?thesis using r adaptive_selection_facts [OF _ refl]
    by (simp add: select_round_robin_candidates_def split: option.splits prod.splits)
qed

lemma nothing_remains:
  assumes "select_wave cfg st = None \<or> select_wave cfg st = Some ([], cursors)"
  shows "remaining cfg st = []"
proof (rule ccontr)
  assume r: "remaining cfg st \<noteq> []"
  then have forced: "forced_probe cfg st = None" by (simp add: forced_probe_def)
  have "select_wave cfg st = Some ([], cursors)" using r assms by (auto simp: select_wave_def Let_def)
  from select_wave_cases [OF this forced] show False
    using ranked_nonempty [OF r] round_robin_nonempty [OF r] adaptive_selection_facts [OF r refl]
    by (elim insertE emptyE) metis+
qed

text \<open>A candidate that is ranked, out of backoff and within the time budget, whose provider no failure
  puts in backoff.\<close>

definition ready ::
  "(nat \<Rightarrow> provider_candidate list \<Rightarrow> invocation_result list) \<Rightarrow> dispatch_config \<Rightarrow> ranked_candidate \<Rightarrow> bool" where
  "ready invoke cfg item \<longleftrightarrow>
     item \<in> set (dc_ranked cfg) \<and> \<not> ranked_candidate_is_in_provider_backoff item \<and> within_budget cfg item
     \<and> (\<forall>n sel. \<forall>r\<in>set (invoke n sel).
          pc_provider_type (ir_candidate r) = pc_provider_type (rk_candidate item) \<longrightarrow> ir_response r \<noteq> None)"

lemma ready_remains:
  assumes "ready invoke cfg item" "candidate_attempt_key (rk_candidate item) \<notin> ds_attempted st"
    "pc_provider_type (rk_candidate item) \<notin> ds_throttled st"
  shows "item \<in> set (remaining cfg st)"
proof -
  have "item \<in> set (unattempted cfg st)" using assms by (simp add: ready_def unattempted_def)
  moreover from this have "\<not> all_over_budget cfg st"
    using assms(1) by (auto simp: all_over_budget_def ready_def filter_empty_conv)
  ultimately show ?thesis using assms(1) by (simp add: remaining_def selection_pool_def ready_def)
qed

lemma ready_not_throttled:
  "ready invoke cfg item \<Longrightarrow> pc_provider_type (rk_candidate item) \<notin> backoff_providers (invoke n sel)"
  unfolding ready_def backoff_providers_def by fastforce

lemma ready_is_reached:
  "wave_run invoke cfg st waves exit_state \<Longrightarrow> ready invoke cfg item \<Longrightarrow> keys_distinct cfg \<Longrightarrow>
     candidate_attempt_key (rk_candidate item) \<notin> ds_attempted st \<Longrightarrow>
     pc_provider_type (rk_candidate item) \<notin> ds_throttled st \<Longrightarrow>
     (\<exists>st'. exit_state = Settled st' \<and> list_ex (useful cfg) (ds_results st'))
     \<or> rk_candidate item \<in> set (concat waves)"
proof (induction rule: wave_run.induct)
  case (backed_off st)
  then show ?case using nothing_remains ready_remains by fastforce
next
  case (nothing st cursors)
  then show ?case using nothing_remains ready_remains by fastforce
next
  case (success st sel cursors results)
  then show ?case by (simp add: after_wave_def)
next
  case (next_wave st sel cursors results waves exit_state)
  show ?case
  proof (cases "rk_candidate item \<in> set sel")
    case True
    then show ?thesis by simp
  next
    case False
    have "candidate_attempt_key (rk_candidate item) \<notin> candidate_attempt_key ` set sel"
    proof
      assume "candidate_attempt_key (rk_candidate item) \<in> candidate_attempt_key ` set sel"
      then obtain c where c: "c \<in> set sel" "candidate_attempt_key (rk_candidate item) = candidate_attempt_key c"
        by (rule imageE) simp
      have "c = rk_candidate item"
        using inj_onD [OF attempt_key_inj [OF next_wave.prems(2)] c(2)] select_wave_fresh [OF next_wave.hyps(1) c(1)]
          next_wave.prems(1) by (auto simp: ready_def)
      then show False using False c(1) by simp
    qed
    then show ?thesis
      using next_wave.IH [OF next_wave.prems(1,2)] next_wave.prems(3,4) next_wave.hyps(3)
        ready_not_throttled [OF next_wave.prems(1)]
      by (auto simp: after_wave_def)
  qed
qed

lemma invoked_is_useful:
  "wave_run invoke cfg st waves exit_state \<Longrightarrow> c \<in> set (concat waves) \<Longrightarrow>
     (\<And>n sel. c \<in> set sel \<Longrightarrow> list_ex (useful cfg) (invoke n sel)) \<Longrightarrow>
     \<exists>st'. exit_state = Settled st' \<and> list_ex (useful cfg) (ds_results st')"
proof (induction rule: wave_run.induct)
  case (success st sel cursors results)
  then show ?case by (simp add: after_wave_def)
next
  case (next_wave st sel cursors results waves exit_state)
  then show ?case by auto
qed auto

lemma useful_is_answered:
  assumes "list_ex (useful cfg) (ds_results st)"
  shows "\<exists>r. settle quote bonus degraded cfg st = Answered r"
proof -
  obtain r where r: "r \<in> set (ds_results st)" "useful cfg r" using assms by (auto simp: list_ex_iff)
  then have "ir_response (gate_result quote bonus (dc_min_quality cfg) r) \<noteq> None"
    by (auto simp: gate_result_def useful_def f_le_iff f_lt_iff split: option.splits)
  then have "chosen_result (map (gate_result quote bonus (dc_min_quality cfg)) (ds_results st)) \<noteq> None"
    unfolding chosen_result_def max_by_None using r(1) by (auto simp: filter_empty_conv)
  then show ?thesis by (auto simp: settle_def Let_def)
qed



section \<open>What an answer is\<close>

lemma run_results:
  "wave_run invoke cfg st waves exit_state \<Longrightarrow> exit_state = Settled st' \<Longrightarrow>
     set (ds_results st') \<subseteq> set (ds_results st) \<union> (\<Union>sel\<in>set waves. \<Union>n. set (invoke n sel))"
proof (induction rule: wave_run.induct)
  case (nothing st cursors)
  then show ?case by (auto split: if_splits)
next
  case (success st sel cursors results)
  then show ?case by (auto simp: after_wave_def)
next
  case (next_wave st sel cursors results waves exit_state)
  then have "set (ds_results st') \<subseteq> set (ds_results st) \<union> set results \<union> (\<Union>sel\<in>set waves. \<Union>n. set (invoke n sel))"
    by (simp add: after_wave_def)
  then show ?case using next_wave.hyps(3) by auto
qed auto

lemma gated_answer:
  "ir_response (gate_result quote bonus q r) \<noteq> None \<Longrightarrow>
     ir_response (gate_result quote bonus q r) = ir_response r
     \<and> ir_quality (gate_result quote bonus q r) = ir_quality r \<and> \<not> f_lt (ir_quality r) q"
  by (auto simp: gate_result_def split: if_splits option.splits)

lemma settled_answer:
  assumes "settle quote bonus degraded cfg st = Answered r"
  shows "\<exists>r0\<in>set (ds_results st). r = gate_result quote bonus (dc_min_quality cfg) r0 \<and> ir_response r \<noteq> None"
proof -
  have "chosen_result (map (gate_result quote bonus (dc_min_quality cfg)) (ds_results st)) = Some r"
    using assms by (auto simp: settle_def Let_def split: option.splits if_splits)
  then have "r \<in> set (filter (\<lambda>r. ir_response r \<noteq> None)
      (map (gate_result quote bonus (dc_min_quality cfg)) (ds_results st)))"
    unfolding chosen_result_def by (rule max_by_in)
  then show ?thesis by auto
qed

text \<open>The answer of a request is a provider's own response: it was returned, unchanged, by an invocation
  of a nonempty wave of ranked candidates, and its quality is not below the threshold of a useful
  response.\<close>

theorem answers_are_useful:
  assumes "keys_distinct cfg" "complete_dispatch invoke quote bonus degraded cfg cursors = Answered r"
  shows "\<exists>n sel r0. sel \<noteq> [] \<and> set sel \<subseteq> rk_candidate ` set (dc_ranked cfg) \<and> r0 \<in> set (invoke n sel)
     \<and> ir_response r = ir_response r0 \<and> ir_response r \<noteq> None \<and> \<not> f_lt (ir_quality r) (dc_min_quality cfg)"
proof -
  obtain st where st: "dispatch_waves invoke cfg (dispatch_start cursors) = Settled st"
      "settle quote bonus degraded cfg st = Answered r"
    using assms(2) by (auto simp: complete_dispatch_def split: dispatch_exit.splits if_splits)
  obtain waves where run: "wave_run invoke cfg (dispatch_start cursors) waves
      (dispatch_waves invoke cfg (dispatch_start cursors))" using waves_exist by blast
  obtain r0 where r0: "r0 \<in> set (ds_results st)" "r = gate_result quote bonus (dc_min_quality cfg) r0"
      "ir_response r \<noteq> None" using settled_answer [OF st(2)] by blast
  have "r0 \<in> (\<Union>sel\<in>set waves. \<Union>n. set (invoke n sel))"
    using run_results [OF run st(1)] r0(1) by (simp add: dispatch_start_def) blast
  then obtain sel n where sel: "sel \<in> set waves" "r0 \<in> set (invoke n sel)" by (elim UN_E)
  have new: "set (concat waves) \<subseteq> rk_candidate ` set (dc_ranked cfg)" "\<forall>w\<in>set waves. w \<noteq> []"
    using run_waves_new [OF run assms(1)] by - (elim conjE, assumption)+
  have "set sel \<subseteq> set (concat waves)" using sel(1) by auto
  then have "set sel \<subseteq> rk_candidate ` set (dc_ranked cfg)" using new(1) by (rule order_trans)
  moreover have "sel \<noteq> []" using new(2) sel(1) by (rule bspec)
  moreover have "ir_response r = ir_response r0" "\<not> f_lt (ir_quality r) (dc_min_quality cfg)"
    using gated_answer [of quote bonus "dc_min_quality cfg" r0] r0(3) unfolding r0(2) by simp_all
  ultimately show ?thesis using sel(2) r0(3) by (intro exI [of _ n] exI [of _ sel] exI [of _ r0] conjI)
qed

text \<open>A healthy candidate whose estimate exceeds the time budget is never tried while another candidate
  is within the budget, even when every such candidate is in backoff: the request is refused with
  the status 503 and no provider is asked.\<close>

theorem slow_candidates_are_not_tried:
  assumes "\<forall>item\<in>set (dc_ranked cfg). within_budget cfg item \<longrightarrow> ranked_candidate_is_in_provider_backoff item"
    "\<exists>item\<in>set (dc_ranked cfg). within_budget cfg item" "\<not> dc_probe_allowed cfg"
  shows "complete_dispatch invoke quote bonus False cfg cursors
     = Failed (upstream ''gail'' (Some 503) backoff_message)"
proof -
  have un: "unattempted cfg (dispatch_start cursors) = dc_ranked cfg"
    by (simp add: unattempted_def dispatch_start_def)
  then have "\<not> all_over_budget cfg (dispatch_start cursors)"
    using assms(2) by (auto simp: all_over_budget_def filter_empty_conv)
  then have "remaining cfg (dispatch_start cursors) = []"
    using assms(1) by (auto simp: remaining_def selection_pool_def un filter_empty_conv)
  moreover have "dc_ranked cfg \<noteq> []" using assms(2) by auto
  ultimately have "select_wave cfg (dispatch_start cursors) = None"
    using assms(3) un by (simp add: select_wave_def forced_probe_def no_forced_probe_def dispatch_start_def)
  then show ?thesis by (simp add: complete_dispatch_def dispatch_waves.simps)
qed

section \<open>Witnesses\<close>

definition sample_answer :: "provider_candidate \<Rightarrow> invocation_result" where
  "sample_answer c =
     \<lparr>ir_candidate = c, ir_response = Some \<lparr>rs_text = ''yes'', rs_raw = None, rs_latency_ms = 0,
        rs_provider = ''ollama'', rs_model = ''m'', rs_usage = None\<rparr>,
      ir_error = None, ir_latency_ms = Some 0, ir_queue_wait_ms = None, ir_quality = Fin 1, ir_score = NInf\<rparr>"

definition sample_invoke :: "nat \<Rightarrow> provider_candidate list \<Rightarrow> invocation_result list" where
  "sample_invoke n sel = map sample_answer sel"

definition sample_config :: dispatch_config where
  "sample_config =
     \<lparr>dc_parse_url = nowhere, dc_env = Map.empty, dc_ranked = sample_pair, dc_estimates = [],
      dc_timeout_cap = Some 45, dc_wave_size = 1, dc_deduplicate_wave_models = False,
      dc_deduplicate_models = False, dc_selection_mode = Best, dc_workflow = ''general'',
      dc_role = ''general'', dc_probe_allowed = False, dc_min_quality = Fin (1 / 2)\<rparr>"

lemma sample_config_distinct: "keys_distinct sample_config"
  using sample_keys by (simp add: keys_distinct_def sample_config_def)

lemma sample_ready: "ready sample_invoke sample_config (sample_ranked ''http://a'' (Fin 5) None)"
  unfolding ready_def
proof (intro conjI allI ballI impI)
  show "sample_ranked ''http://a'' (Fin 5) None \<in> set (dc_ranked sample_config)"
    by (simp only: sample_config_def sample_pair_def dispatch_config.select_convs list.set_intros)
  show "\<not> ranked_candidate_is_in_provider_backoff (sample_ranked ''http://a'' (Fin 5) None)"
    by (simp add: ranked_candidate_is_in_provider_backoff_def ranked_candidate_is_in_quota_backoff_def
        sample_ranked_fields)
  show "within_budget sample_config (sample_ranked ''http://a'' (Fin 5) None)"
    by (simp add: within_budget_def eta_of_def sample_config_def)
  show "ir_response r \<noteq> None" if "r \<in> set (sample_invoke n sel)" for r n sel
    using that by (auto simp: sample_invoke_def sample_answer_def)
qed

lemma sample_useful: "c \<in> set sel \<Longrightarrow> list_ex (useful sample_config) (sample_invoke n sel)"
  by (auto simp: list_ex_iff sample_invoke_def useful_def sample_answer_def sample_config_def)

theorem waves_terminate_witness:
  "\<exists>waves. wave_run sample_invoke sample_config (dispatch_start Map.empty) waves
       (dispatch_waves sample_invoke sample_config (dispatch_start Map.empty)) \<and> length waves \<le> 2"
  using waves_terminate [OF sample_config_distinct, of sample_invoke Map.empty]
  by (auto simp: sample_config_def sample_pair_def)


lemma sample_answered:
  "\<exists>r. complete_dispatch sample_invoke (\<lambda>_ _. []) (\<lambda>_. Fin 0) False sample_config Map.empty = Answered r"
proof -
  obtain waves where run: "wave_run sample_invoke sample_config (dispatch_start Map.empty) waves
      (dispatch_waves sample_invoke sample_config (dispatch_start Map.empty))" using waves_exist by blast
  then show ?thesis
    using ready_is_reached [OF run sample_ready sample_config_distinct] invoked_is_useful [OF run _ sample_useful]
      useful_is_answered
    by (fastforce simp: dispatch_start_def complete_dispatch_def)
qed

theorem answers_are_useful_witness:
  "\<exists>r. complete_dispatch sample_invoke (\<lambda>_ _. []) (\<lambda>_. Fin 0) False sample_config Map.empty = Answered r
     \<and> \<not> f_lt (ir_quality r) (Fin (1 / 2))"
proof -
  obtain r where r: "complete_dispatch sample_invoke (\<lambda>_ _. []) (\<lambda>_. Fin 0) False sample_config Map.empty = Answered r"
    using sample_answered by blast
  have "\<not> f_lt (ir_quality r) (dc_min_quality sample_config)"
    using answers_are_useful [OF sample_config_distinct r] by blast
  then show ?thesis using r by (auto simp: sample_config_def)
qed

definition sample_down :: ranked_candidate where
  "sample_down = down ''timeout'' (sample_ranked ''http://a'' (Fin 5) None)"

theorem slow_candidates_are_not_tried_witness:
  "complete_dispatch sample_invoke (\<lambda>_ _. []) (\<lambda>_. Fin 0) False (sample_config\<lparr>dc_ranked := [sample_down]\<rparr>) Map.empty
     = Failed (upstream ''gail'' (Some 503) backoff_message)"
proof (rule slow_candidates_are_not_tried)
  have "''timeout'' \<in> set known_failure_modes" by (simp add: known_failure_modes_def)
  then show "\<forall>item\<in>set (dc_ranked (sample_config\<lparr>dc_ranked := [sample_down]\<rparr>)).
      within_budget (sample_config\<lparr>dc_ranked := [sample_down]\<rparr>) item \<longrightarrow> ranked_candidate_is_in_provider_backoff item"
    using known_mode_backoff by (simp add: sample_down_def)
qed (simp_all add: sample_config_def within_budget_def eta_of_def)

end
