(* ===== verification/FloatLaws.thy ===== *)
theory FloatLaws
  imports Float64
begin

text \<open>
  Laws of the arithmetic of \<open>f64\<close> that the trading components share: rounding makes every
  operation monotone, and clamping and taking a minimum or maximum bound a result.
\<close>

lemma rnd_nonneg: "0 \<le> q \<Longrightarrow> Fin 0 \<le> rnd q"
  using rnd_mono [of 0 q] by (simp add: rnd_mag)

lemma rnd_nonpos: "q \<le> 0 \<Longrightarrow> rnd q \<le> Fin 0"
  using rnd_mono [of q 0] by (simp add: rnd_mag)

lemma f_bounds [simp]: "NInf \<le> x" "x \<le> NaN" "x \<le> PInf \<longleftrightarrow> x \<noteq> NaN" "PInf \<le> x \<longleftrightarrow> x = PInf \<or> x = NaN"
  "NaN \<le> x \<longleftrightarrow> x = NaN" "x \<le> NInf \<longleftrightarrow> x = NInf"
  by (cases x; simp add: less_eq_f64_def)+

lemma f_less_Fin [simp]: "Fin a < Fin b \<longleftrightarrow> a < b" by (simp add: less_f64_def)

lemma is_nan_iff: "is_nan x \<longleftrightarrow> x = NaN" by (cases x) simp_all

lemma f_add_commute: "f_add x y = f_add y x"
  by (cases x; cases y) (simp_all add: add.commute)

lemma f_add_NaN [simp]: "f_add x NaN = NaN" by (cases x) simp_all

lemma f_add_mono: "b \<le> c \<Longrightarrow> f_add a b \<noteq> NaN \<Longrightarrow> f_add a b \<le> f_add a c"
  by (cases a; cases b; cases c) (auto simp: rnd_mono)

lemma f_add_mono_left: "b \<le> c \<Longrightarrow> f_add b a \<noteq> NaN \<Longrightarrow> f_add b a \<le> f_add c a"
  using f_add_mono [of b c a] by (simp add: f_add_commute)

lemma f_neg_NaN [simp]: "f_neg x = NaN \<longleftrightarrow> x = NaN" by (cases x) (simp_all add: f_neg_def)

lemma f_neg_neg [simp]: "f_neg (f_neg x) = x" by (cases x) (simp_all add: f_neg_def)

lemma f_neg_mono: "x \<le> y \<Longrightarrow> y \<noteq> NaN \<Longrightarrow> f_neg y \<le> f_neg x"
  by (cases x; cases y) (auto simp: f_neg_def)

lemma f_sub_mono: "x \<le> x' \<Longrightarrow> y' \<le> y \<Longrightarrow> y \<noteq> NaN \<Longrightarrow> f_sub x y \<noteq> NaN \<Longrightarrow> f_sub x' y \<noteq> NaN \<Longrightarrow>
    f_sub x y \<le> f_sub x' y'"
  unfolding f_sub_def by (meson f_add_mono f_add_mono_left f_neg_mono order_trans)

lemma f_sub_nonneg: "y \<le> x \<Longrightarrow> is_finite y \<Longrightarrow> Fin 0 \<le> f_sub x y"
  by (cases x; cases y) (auto simp: f_sub_def f_neg_def rnd_nonneg)

lemma f_mul_nonneg: "Fin 0 \<le> x \<Longrightarrow> Fin 0 \<le> y \<Longrightarrow> Fin 0 \<le> f_mul x y"
  by (cases x; cases y) (auto simp: f_mul_def f_inf_def rnd_nonneg zero_le_mult_iff)

lemma f_div_nonneg: "Fin 0 \<le> x \<Longrightarrow> Fin 0 \<le> y \<Longrightarrow> Fin 0 \<le> f_div x y"
  by (cases x; cases y) (auto simp: f_div_def f_inf_def rnd_nonneg sgn_if)

lemma f_mul_mono: "a \<le> b \<Longrightarrow> is_finite b \<Longrightarrow> is_finite a \<Longrightarrow> 0 \<le> q \<Longrightarrow> f_mul (Fin q) a \<le> f_mul (Fin q) b"
  by (cases a; cases b) (auto simp: f_mul_def rnd_mono mult_left_mono)

lemma f_clamp_le: "x \<noteq> NaN \<Longrightarrow> lo \<le> hi \<Longrightarrow> hi \<noteq> NaN \<Longrightarrow> f_clamp x lo hi \<le> hi"
  by (auto simp: f_clamp_def f_lt_iff not_less)

lemma f_clamp_ge: "lo \<le> hi \<Longrightarrow> hi \<noteq> NaN \<Longrightarrow> lo \<le> f_clamp x lo hi"
  by (auto simp: f_clamp_def f_lt_iff not_less)

lemma f_clamp_NaN [simp]: "is_finite lo \<Longrightarrow> is_finite hi \<Longrightarrow> f_clamp x lo hi = NaN \<longleftrightarrow> x = NaN"
  by (cases x; cases lo; cases hi) (auto simp: f_clamp_def)

lemma f_clamp_idem: "f_le lo hi \<Longrightarrow> f_clamp (f_clamp x lo hi) lo hi = f_clamp x lo hi"
  by (auto simp: f_clamp_def f_le_iff f_lt_iff)

lemma f_min_le: "f_min x y \<le> x \<or> x = NaN" "y \<noteq> NaN \<Longrightarrow> f_min x y \<le> y" "x \<noteq> NaN \<Longrightarrow> f_min x y \<le> x"
  by (cases x; cases y; auto simp: f_min_def min_def)+

lemma f_max_above: "b \<noteq> NaN \<Longrightarrow> b \<le> f_max a b" "a \<noteq> NaN \<Longrightarrow> a \<le> f_max a b"
  by (cases a; cases b; auto simp: f_max_def max_def)+

lemma f_max_nonneg: "Fin 0 \<le> f_max x (Fin 0)" "f_max x (Fin 0) \<noteq> NaN"
  by (cases x; auto simp: f_max_def max_def)+

lemma f_lt_le_trans: "f_lt x y \<Longrightarrow> y \<le> z \<Longrightarrow> z \<noteq> NaN \<Longrightarrow> f_lt x z"
  by (auto simp: f_lt_iff)

lemma not_f_lt: "x \<noteq> NaN \<Longrightarrow> y \<noteq> NaN \<Longrightarrow> \<not> f_lt x y \<longleftrightarrow> y \<le> x"
  by (auto simp: f_lt_iff)

end
