(* ===== verification/Market.thy ===== *)
theory Market
  imports Selection FloatLaws
begin

text \<open>
  The data the trading bridge reads from OctoBot and the client's guard on a failing venue:
  \<^verbatim>\<open>src/src/trading/octobot.rs\<close> (portfolio, market snapshot and its cost projections, exchange
  names, circuit breaker, resilient snapshot). A hash map whose iteration order the code
  observes (the portfolio) is its list of entries in that order; the circuit states are only
  looked up and are a map. The HTTP requests are parameters.
\<close>

section \<open>Portfolio and snapshot\<close>

record currency_balance =
  cb_free :: f64
  cb_locked :: f64
  cb_total :: f64
  cb_value_usd :: "f64 option"

record octobot_portfolio =
  op_currencies :: "(string \<times> currency_balance) list"
  op_total_value_usd :: "f64 option"
  op_exchange_currencies :: "(string \<times> (string \<times> currency_balance) list) list"

record octobot_exchange =
  oe_name :: string
  oe_enabled :: bool
  oe_market_status_symbols :: "string list"
  oe_symbols :: "string list"

record octobot_order_result =
  or_order_id :: string
  or_symbol :: string
  or_side :: string
  or_amount :: f64
  or_price :: "f64 option"
  or_status :: string

record pair_activation =
  pa_ready :: bool
  pa_restart_required :: bool
  pa_changed :: bool
  pa_message :: string

record market_microstructure =
  mm_best_bid :: "f64 option"
  mm_best_ask :: "f64 option"
  mm_bid_depth_usd :: "f64 option"
  mm_ask_depth_usd :: "f64 option"
  mm_order_flow_imbalance :: "f64 option"
  mm_trade_flow_imbalance :: "f64 option"
  mm_funding_rate :: "f64 option"
  mm_open_interest :: "f64 option"
  mm_futures_basis_bps :: "f64 option"
  mm_listing_age_days :: "f64 option"
  mm_quote_volume_24h :: "f64 option"
  mm_source_latency_ms :: "f64 option"

record market_snapshot =
  ms_exchange :: string
  ms_symbol :: string
  ms_price :: f64
  ms_price_change_pct_1h :: "f64 option"
  ms_price_change_pct_24h :: "f64 option"
  ms_volume_24h :: "f64 option"
  ms_volume_change_pct :: "f64 option"
  ms_high_24h :: "f64 option"
  ms_low_24h :: "f64 option"
  ms_fetched_at :: f64
  ms_microstructure :: market_microstructure

definition spread_bps :: "market_snapshot \<Rightarrow> f64 option" where
  "spread_bps s =
     (case (mm_best_bid (ms_microstructure s), mm_best_ask (ms_microstructure s)) of
        (Some bid, Some ask) \<Rightarrow>
          if \<not> is_finite bid \<or> \<not> is_finite ask \<or> f_le bid (Fin 0) \<or> f_lt ask bid then None
          else let midpoint = f_div (f_add bid ask) (Fin 2)
               in if f_lt (Fin 0) midpoint
                  then Some (f_mul (f_div (f_sub ask bid) midpoint) (Fin 10000)) else None
      | _ \<Rightarrow> None)"

definition depth_impact :: "f64 \<Rightarrow> f64 \<Rightarrow> f64" where
  "depth_impact notional depth =
     f_clamp (f_mul (f_div (f_max notional (Fin 0)) depth) (Fin 1000)) (Fin 0) (Fin 2500)"

definition projected_one_way_slippage_bps :: "market_snapshot \<Rightarrow> string \<Rightarrow> f64 \<Rightarrow> f64 \<Rightarrow> f64" where
  "projected_one_way_slippage_bps s side notional fallback =
     (let half_spread = map_option (\<lambda>spread. f_div spread (Fin 2)) (spread_bps s);
          depth = (if eq_ignore_ascii_case side ''sell'' then mm_bid_depth_usd (ms_microstructure s)
                   else mm_ask_depth_usd (ms_microstructure s));
          impact = map_option (depth_impact notional)
                     (option_filter (\<lambda>d. is_finite d \<and> f_lt (Fin 0) d) depth)
      in case (half_spread, impact) of
           (Some spread, Some i) \<Rightarrow> f_add spread i
         | (Some spread, None) \<Rightarrow> f_max spread (f_max fallback (Fin 0))
         | (None, Some i) \<Rightarrow> f_max i (f_max fallback (Fin 0))
         | (None, None) \<Rightarrow> f_max fallback (Fin 0))"

definition executable_depth_usd :: "market_snapshot \<Rightarrow> f64 option" where
  "executable_depth_usd s =
     (case (mm_bid_depth_usd (ms_microstructure s), mm_ask_depth_usd (ms_microstructure s)) of
        (Some bid, Some ask) \<Rightarrow> Some (f_min bid ask)
      | (Some depth, None) \<Rightarrow> Some depth
      | (None, Some depth) \<Rightarrow> Some depth
      | (None, None) \<Rightarrow> None)"

definition or_else :: "'a option \<Rightarrow> 'a option \<Rightarrow> 'a option" where
  "or_else a b = (case a of None \<Rightarrow> b | Some _ \<Rightarrow> a)"

definition enrich_with :: "market_snapshot \<Rightarrow> market_snapshot \<Rightarrow> market_snapshot" where
  "enrich_with s t =
     \<lparr>ms_exchange = ms_exchange s, ms_symbol = ms_symbol s,
      ms_price = (if f_le (ms_price s) (Fin 0) then ms_price t else ms_price s),
      ms_price_change_pct_1h = or_else (ms_price_change_pct_1h s) (ms_price_change_pct_1h t),
      ms_price_change_pct_24h = or_else (ms_price_change_pct_24h s) (ms_price_change_pct_24h t),
      ms_volume_24h = or_else (ms_volume_24h s) (ms_volume_24h t),
      ms_volume_change_pct = or_else (ms_volume_change_pct s) (ms_volume_change_pct t),
      ms_high_24h = or_else (ms_high_24h s) (ms_high_24h t),
      ms_low_24h = or_else (ms_low_24h s) (ms_low_24h t),
      ms_fetched_at = ms_fetched_at s,
      ms_microstructure =
        (let a = ms_microstructure s; b = ms_microstructure t
         in \<lparr>mm_best_bid = or_else (mm_best_bid a) (mm_best_bid b),
             mm_best_ask = or_else (mm_best_ask a) (mm_best_ask b),
             mm_bid_depth_usd = or_else (mm_bid_depth_usd a) (mm_bid_depth_usd b),
             mm_ask_depth_usd = or_else (mm_ask_depth_usd a) (mm_ask_depth_usd b),
             mm_order_flow_imbalance = or_else (mm_order_flow_imbalance a) (mm_order_flow_imbalance b),
             mm_trade_flow_imbalance = or_else (mm_trade_flow_imbalance a) (mm_trade_flow_imbalance b),
             mm_funding_rate = or_else (mm_funding_rate a) (mm_funding_rate b),
             mm_open_interest = or_else (mm_open_interest a) (mm_open_interest b),
             mm_futures_basis_bps = or_else (mm_futures_basis_bps a) (mm_futures_basis_bps b),
             mm_listing_age_days = or_else (mm_listing_age_days a) (mm_listing_age_days b),
             mm_quote_volume_24h = or_else (mm_quote_volume_24h a) (mm_quote_volume_24h b),
             mm_source_latency_ms = or_else (mm_source_latency_ms a) (mm_source_latency_ms b)\<rparr>)\<rparr>"

section \<open>Names of exchanges\<close>

fun replace_from :: "nat \<Rightarrow> string \<Rightarrow> string \<Rightarrow> string \<Rightarrow> string" where
  "replace_from skip pat by_text [] = []"
| "replace_from (Suc n) pat by_text (c # cs) = replace_from n pat by_text cs"
| "replace_from 0 pat by_text (c # cs) =
     (if prefix pat (c # cs) then by_text @ replace_from (length pat - 1) pat by_text cs
      else c # replace_from 0 pat by_text cs)"

text \<open>\<open>str::replace\<close> of a nonempty pattern, left to right.\<close>

definition str_replace :: "string \<Rightarrow> string \<Rightarrow> string \<Rightarrow> string" where
  "str_replace pat by_text s = replace_from 0 pat by_text s"

definition decode_basic_html_entities :: "string \<Rightarrow> string" where
  "decode_basic_html_entities s =
     fold (\<lambda>(pat, text). str_replace pat text)
       [(''&#10;'', [char_of (10 :: nat)]), (''&#xA;'', [char_of (10 :: nat)]), (''&#xa;'', [char_of (10 :: nat)]), (''&nbsp;'', '' ''),
        (''&amp;'', ''&''), (''&lt;'', ''<''), (''&gt;'', ''>''), (''&quot;'', [char_of (34 :: nat)]), (''&#39;'', [char_of (39 :: nat)])] s"

text \<open>\<open>str::rfind\<close> of \<open>'' (''\<close>: the text before its last occurrence.\<close>

fun before_last_paren :: "string \<Rightarrow> string option" where
  "before_last_paren [] = None"
| "before_last_paren (c # cs) =
     (case before_last_paren cs of
        Some s \<Rightarrow> Some (c # s)
      | None \<Rightarrow> if prefix '' ('' (c # cs) then Some [] else None)"

lemma before_last_paren_shorter: "before_last_paren s = Some t \<Longrightarrow> length t < length s"
  by (induction s arbitrary: t) (auto split: option.splits if_splits)

lemma length_trim: "length (trim s) \<le> length s"
  unfolding trim_def trim_end_by_def
  by (metis length_dropWhile_le length_rev order_trans)

function strip_suffixes :: "string \<Rightarrow> string" where
  "strip_suffixes s =
     (if ends_with s '')'' then case before_last_paren s of None \<Rightarrow> s | Some t \<Rightarrow> strip_suffixes (trim t)
      else s)"
  by pat_completeness auto

termination strip_suffixes
  by (relation "measure length")
    (auto dest: before_last_paren_shorter intro: le_less_trans [OF length_trim])

declare strip_suffixes.simps [simp del]

definition split_once_head :: "char \<Rightarrow> string \<Rightarrow> string option" where
  "split_once_head c s = (if c \<in> set s then Some (takeWhile (\<lambda>x. x \<noteq> c) s) else None)"

definition split_whitespace :: "string \<Rightarrow> string list" where
  "split_whitespace s = filter (\<lambda>w. w \<noteq> []) (split_on CHR '' '' s)"

definition normalize_exchange_name :: "string \<Rightarrow> string option" where
  "normalize_exchange_name value =
     (let normalized = to_ascii_lowercase (trim (decode_basic_html_entities value))
      in if normalized = [] then None
         else let head = (case split_once_head CHR '':'' normalized of None \<Rightarrow> normalized | Some h \<Rightarrow> trim h);
                  bare = strip_suffixes head;
                  compact = join_with '' ''
                    (split_whitespace (map (\<lambda>c. if is_ascii_alphanumeric c then c else CHR '' '') bare))
              in if compact = [] then None
                 else Some (if compact = ''ku coin'' then ''kucoin''
                            else if compact = ''bit get'' then ''bitget''
                            else if compact = ''x t'' then ''xt'' else compact))"

section \<open>Circuit breaker\<close>

record circuit_state =
  cs_consecutive_failures :: u32
  cs_opened_until :: "f64 option"
  cs_last_success_at :: "f64 option"
  cs_last_error :: "string option"

definition closed_circuit :: circuit_state where
  "closed_circuit = \<lparr>cs_consecutive_failures = 0, cs_opened_until = None, cs_last_success_at = None,
     cs_last_error = None\<rparr>"

type_synonym circuits = "string \<Rightarrow> circuit_state option"

definition breaker_failure_threshold :: u32 where
  "breaker_failure_threshold = 3"

definition breaker_base_cooldown :: f64 where
  "breaker_base_cooldown = Fin 30"

definition breaker_max_cooldown :: f64 where
  "breaker_max_cooldown = Fin 900"

definition circuit_key :: "string \<Rightarrow> string" where
  "circuit_key exchange = unwrap_or (to_ascii_lowercase exchange) (normalize_exchange_name exchange)"

definition exchange_circuit_open :: "string \<Rightarrow> f64 \<Rightarrow> circuits \<Rightarrow> bool \<times> circuits" where
  "exchange_circuit_open exchange now states =
     (case states (circuit_key exchange) of
        None \<Rightarrow> (False, states)
      | Some s \<Rightarrow>
          if is_some_and (\<lambda>until. f_lt now until) (cs_opened_until s) then (True, states)
          else if cs_opened_until s \<noteq> None
          then (False, states(circuit_key exchange \<mapsto> s\<lparr>cs_opened_until := None\<rparr>))
          else (False, states))"

definition record_exchange_success :: "string \<Rightarrow> f64 \<Rightarrow> circuits \<Rightarrow> circuits" where
  "record_exchange_success exchange now states =
     states(circuit_key exchange \<mapsto>
       \<lparr>cs_consecutive_failures = 0, cs_opened_until = None, cs_last_success_at = Some now, cs_last_error = None\<rparr>)"

definition breaker_cooldown :: "u32 \<Rightarrow> f64" where
  "breaker_cooldown failures =
     f_min (f_mul breaker_base_cooldown (Fin (2 ^ min (unat (sat_sub failures breaker_failure_threshold)) 8)))
       breaker_max_cooldown"

definition record_exchange_failure :: "string \<Rightarrow> string \<Rightarrow> f64 \<Rightarrow> circuits \<Rightarrow> circuits" where
  "record_exchange_failure exchange error now states =
     (let s = unwrap_or closed_circuit (states (circuit_key exchange));
          failures = sat_add (cs_consecutive_failures s) 1
      in states(circuit_key exchange \<mapsto>
           s\<lparr>cs_consecutive_failures := failures, cs_last_error := Some (take 400 error),
             cs_opened_until := (if breaker_failure_threshold \<le> failures
               then Some (f_add now (breaker_cooldown failures)) else cs_opened_until s)\<rparr>))"

section \<open>The resilient snapshot\<close>

definition is_market_snapshot_unavailable_error :: "string \<Rightarrow> bool" where
  "is_market_snapshot_unavailable_error error =
     str_contains error ''no dashboard or ticker endpoint returned data''"

definition snapshot_retry_attempts :: nat where
  "snapshot_retry_attempts = 3"

text \<open>
  \<open>fetch n\<close> is the answer to request \<open>n\<close>, \<open>clock n\<close> the time at which it is recorded and the
  breaker is asked again. The result carries the number of requests sent and the numbers of the
  attempts before a pause (of \<open>250 * 2 ^ n\<close> milliseconds and a jitter).
\<close>

fun snapshot_attempts ::
  "string \<Rightarrow> (nat \<Rightarrow> string + market_snapshot) \<Rightarrow> (nat \<Rightarrow> f64) \<Rightarrow> nat \<Rightarrow> nat \<Rightarrow> string \<Rightarrow> nat list \<Rightarrow> circuits \<Rightarrow>
     (string + market_snapshot) \<times> nat \<times> nat list \<times> circuits" where
  "snapshot_attempts exchange fetch clock 0 attempt last_error pauses states =
     (Inl last_error, attempt, pauses, states)"
| "snapshot_attempts exchange fetch clock (Suc left) attempt last_error pauses states =
     (case fetch attempt of
        Inr snapshot \<Rightarrow> (Inr snapshot, attempt + 1, pauses, record_exchange_success exchange (clock attempt) states)
      | Inl error \<Rightarrow>
          if is_market_snapshot_unavailable_error error then (Inl error, attempt + 1, pauses, states)
          else
            let failed = record_exchange_failure exchange error (clock attempt) states
            in if left = 0
               then snapshot_attempts exchange fetch clock left (attempt + 1) error pauses failed
               else (case exchange_circuit_open exchange (clock attempt) failed of
                  (open_now, checked) \<Rightarrow>
                    snapshot_attempts exchange fetch clock left (attempt + 1) error
                      (if open_now then pauses else pauses @ [attempt]) checked))"

definition get_market_snapshot_with_resilience ::
  "string \<Rightarrow> (nat \<Rightarrow> string + market_snapshot) \<Rightarrow> f64 \<Rightarrow> (nat \<Rightarrow> f64) \<Rightarrow> circuits \<Rightarrow>
     (string + market_snapshot) \<times> nat \<times> nat list \<times> circuits" where
  "get_market_snapshot_with_resilience exchange fetch now clock states =
     (case exchange_circuit_open exchange now states of
        (True, states') \<Rightarrow> (Inl (''exchange circuit breaker open for '' @ exchange), 0, [], states')
      | (False, states') \<Rightarrow>
          snapshot_attempts exchange fetch clock snapshot_retry_attempts 0 [] [] states')"

section \<open>When a venue is refused\<close>

text \<open>The history of a venue: the outcomes recorded and the questions asked, over all venues.\<close>

datatype circuit_event = Succeeded string f64 | FailedAt string string f64 | AskedAt string f64

fun circuit_step :: "circuits \<Rightarrow> circuit_event \<Rightarrow> circuits" where
  "circuit_step states (Succeeded exchange now) = record_exchange_success exchange now states"
| "circuit_step states (FailedAt exchange error now) = record_exchange_failure exchange error now states"
| "circuit_step states (AskedAt exchange now) = snd (exchange_circuit_open exchange now states)"

definition circuits_after :: "circuit_event list \<Rightarrow> circuits" where
  "circuits_after events = foldl circuit_step Map.empty events"

text \<open>The times of the failures of a venue since its last success, latest first.\<close>

fun streak :: "string \<Rightarrow> circuit_event list \<Rightarrow> f64 list" where
  "streak key [] = []"
| "streak key (Succeeded exchange now # earlier) =
     (if circuit_key exchange = key then [] else streak key earlier)"
| "streak key (FailedAt exchange error now # earlier) =
     (if circuit_key exchange = key then now # streak key earlier else streak key earlier)"
| "streak key (AskedAt exchange now # earlier) = streak key earlier"

definition failure_streak :: "string \<Rightarrow> circuit_event list \<Rightarrow> f64 list" where
  "failure_streak key events = streak key (rev events)"

definition circuit_tracks :: "f64 list \<Rightarrow> circuit_state option \<Rightarrow> bool" where
  "circuit_tracks stamps c =
     (case c of
        None \<Rightarrow> stamps = []
      | Some s \<Rightarrow>
          unat (cs_consecutive_failures s) = min (length stamps) (2 ^ 32 - 1)
          \<and> (\<forall>until. cs_opened_until s = Some until \<longrightarrow>
                3 \<le> length stamps \<and> until = f_add (hd stamps) (breaker_cooldown (cs_consecutive_failures s))))"

lemma breaker_cooldown_le: "breaker_cooldown n \<le> Fin 900"
  by (simp add: breaker_cooldown_def breaker_max_cooldown_def f_min_le)

lemma unat_next_failure: "unat (sat_add n (1 :: u32)) = min (unat n + 1) (2 ^ 32 - 1)"
  by (simp add: unat_sat_add)

lemma threshold_reached: "breaker_failure_threshold \<le> n \<longleftrightarrow> 3 \<le> unat n"
  by (simp add: breaker_failure_threshold_def word_le_nat_alt)

lemma circuit_tracks_step:
  "circuit_tracks (failure_streak key events) (states key) \<Longrightarrow>
     circuit_tracks (failure_streak key (events @ [e])) (circuit_step states e key)"
proof (cases e)
  case (FailedAt exchange error now)
  assume t: "circuit_tracks (failure_streak key events) (states key)"
  show ?thesis
  proof (cases "circuit_key exchange = key")
    case True
    define s where "s = unwrap_or closed_circuit (states key)"
    have n: "unat (cs_consecutive_failures s) = min (length (failure_streak key events)) (2 ^ 32 - 1)"
      using t by (auto simp: s_def circuit_tracks_def unwrap_or_def closed_circuit_def split: option.splits)
    have "cs_opened_until s = None" if "\<not> 3 \<le> unat (sat_add (cs_consecutive_failures s) 1)"
      using t n that by (auto simp: s_def circuit_tracks_def unwrap_or_def closed_circuit_def unat_next_failure
          split: option.splits)
    then show ?thesis using n FailedAt True
      by (auto simp: circuit_tracks_def failure_streak_def record_exchange_failure_def Let_def threshold_reached
          unat_next_failure simp flip: s_def)
  next
    case False
    then show ?thesis using t FailedAt
      by (simp add: record_exchange_failure_def Let_def failure_streak_def)
  qed
next
  case (AskedAt exchange now)
  assume "circuit_tracks (failure_streak key events) (states key)"
  then show ?thesis using AskedAt
    by (auto simp: exchange_circuit_open_def failure_streak_def circuit_tracks_def split: option.splits)
qed (auto simp: record_exchange_success_def circuit_tracks_def failure_streak_def)

lemma circuits_tracked: "circuit_tracks (failure_streak key events) (circuits_after events key)"
proof (induction events rule: rev_induct)
  case Nil
  then show ?case by (simp add: circuits_after_def circuit_tracks_def failure_streak_def)
next
  case (snoc e events)
  then show ?case using circuit_tracks_step [of key events "circuits_after events" e]
    by (simp add: circuits_after_def)
qed

text \<open>A venue is refused only after three failures in a row with no success since, and never for
  more than fifteen minutes after the last of them; in every history of outcomes and questions.\<close>

theorem refusal_needs_failures:
  assumes "fst (exchange_circuit_open exchange now (circuits_after events))"
  shows "3 \<le> length (failure_streak (circuit_key exchange) events)
     \<and> f_lt now (f_add (hd (failure_streak (circuit_key exchange) events)) (Fin 900))"
proof -
  let ?stamps = "failure_streak (circuit_key exchange) events"
  obtain s until where s: "circuits_after events (circuit_key exchange) = Some s" "cs_opened_until s = Some until"
      "f_lt now until"
    using assms by (auto simp: exchange_circuit_open_def is_some_and_def split: option.splits if_splits)
  then have t: "3 \<le> length ?stamps" "until = f_add (hd ?stamps) (breaker_cooldown (cs_consecutive_failures s))"
    using circuits_tracked [of "circuit_key exchange" events] by (auto simp: circuit_tracks_def)
  have nn: "until \<noteq> NaN" using s(3) by (auto simp: f_lt_iff)
  then have "until \<le> f_add (hd ?stamps) (Fin 900)"
    unfolding t(2) by (intro f_add_mono breaker_cooldown_le)
  moreover have "f_add (hd ?stamps) (Fin 900) \<noteq> NaN"
  proof -
    have "hd ?stamps \<noteq> NaN" using nn unfolding t(2) by auto
    then show ?thesis by (cases "hd ?stamps") simp_all
  qed
  ultimately show ?thesis using t(1) s(3) f_lt_le_trans by blast
qed

lemma cooldown_ge: "Fin 30 \<le> breaker_cooldown n"
proof -
  have "(30 :: rat) \<le> 30 * 2 ^ k" for k :: nat by simp
  then have "rnd (of_int 30) \<le> rnd (30 * 2 ^ k)" for k :: nat by (intro rnd_mono) simp
  then have "Fin 30 \<le> f_mul (Fin 30) (Fin (2 ^ k))" for k :: nat
    by (subst (asm) rnd_of_int) (simp_all add: f_mul_def)
  then show ?thesis
    by (auto simp: breaker_cooldown_def breaker_base_cooldown_def breaker_max_cooldown_def f_min_def min_def)
qed

lemma cooldown_lasts: "0 \<le> a \<Longrightarrow> a \<le> 2 ^ 40 \<Longrightarrow> f_lt (Fin a) (f_add (Fin a) (breaker_cooldown n))"
proof -
  assume a: "0 \<le> a" "a \<le> 2 ^ 40"
  have "\<lfloor>a\<rfloor> \<le> 2 ^ 40" using a(2) floor_mono [of a "2 ^ 40"] by simp
  then have "Fin (of_int (\<lfloor>a\<rfloor> + 30)) = rnd (of_int (\<lfloor>a\<rfloor> + 30))" using a(1) by (subst rnd_of_int) auto
  also have "\<dots> \<le> rnd (a + 30)" by (intro rnd_mono) (simp add: of_int_floor_le)
  finally have "Fin (of_int (\<lfloor>a\<rfloor> + 30)) \<le> f_add (Fin a) (Fin 30)" by simp
  also have "f_add (Fin a) (Fin 30) \<le> f_add (Fin a) (breaker_cooldown n)"
    by (intro f_add_mono cooldown_ge) simp
  finally have "Fin (of_int (\<lfloor>a\<rfloor> + 30)) \<le> f_add (Fin a) (breaker_cooldown n)" .
  moreover have "Fin a < Fin (of_int (\<lfloor>a\<rfloor> + 30))" by simp linarith
  ultimately have "Fin a < f_add (Fin a) (breaker_cooldown n)" by (rule less_le_trans [rotated])
  moreover have "f_add (Fin a) (breaker_cooldown n) \<noteq> NaN"
    using breaker_cooldown_le [of n] by (cases "breaker_cooldown n") auto
  ultimately show ?thesis by (simp add: f_lt_iff)
qed

lemma failing_breaker_open:
  assumes "states (circuit_key exchange) = Some s" "3 \<le> unat (cs_consecutive_failures s)"
    "0 \<le> a" "a \<le> 2 ^ 40"
  shows "\<exists>s'. exchange_circuit_open exchange (Fin a) (record_exchange_failure exchange error (Fin a) states)
     = (True, record_exchange_failure exchange error (Fin a) states)
     \<and> record_exchange_failure exchange error (Fin a) states (circuit_key exchange) = Some s'
     \<and> 3 \<le> unat (cs_consecutive_failures s')"
proof -
  have "3 \<le> unat (sat_add (cs_consecutive_failures s) 1)" using assms(2) by (simp add: unat_next_failure)
  then show ?thesis using assms(1) cooldown_lasts [OF assms(3,4)]
    by (simp add: record_exchange_failure_def exchange_circuit_open_def Let_def unwrap_or_def threshold_reached
        is_some_and_def del: f_add.simps)
qed

text \<open>A venue whose breaker is due for a probe is not probed with one request: when it still fails,
  three requests are sent without a pause, although the breaker is open again after the first.\<close>

theorem failing_probe_is_repeated:
  assumes "states (circuit_key exchange) = Some s" "cs_opened_until s = Some until" "\<not> f_lt now until"
    and "3 \<le> unat (cs_consecutive_failures s)"
    and "\<And>n. fetch n = Inl error" "\<not> is_market_snapshot_unavailable_error error"
    and "\<And>n. clock n = Fin a" "0 \<le> a" "a \<le> 2 ^ 40"
  shows "\<exists>states'. get_market_snapshot_with_resilience exchange fetch now clock states
     = (Inl error, 3, [], states')"
proof -
  define c0 where "c0 = states(circuit_key exchange \<mapsto> s\<lparr>cs_opened_until := None\<rparr>)"
  define c1 where "c1 = record_exchange_failure exchange error (Fin a) c0"
  define c2 where "c2 = record_exchange_failure exchange error (Fin a) c1"
  have "exchange_circuit_open exchange now states = (False, c0)"
    using assms(1,2,3) by (simp add: exchange_circuit_open_def is_some_and_def c0_def)
  moreover obtain s1 where s1: "exchange_circuit_open exchange (Fin a) c1 = (True, c1)"
      "c1 (circuit_key exchange) = Some s1" "3 \<le> unat (cs_consecutive_failures s1)"
    using failing_breaker_open [of c0 exchange "s\<lparr>cs_opened_until := None\<rparr>" a error] assms(4,8,9)
    by (auto simp: c0_def c1_def)
  moreover have "exchange_circuit_open exchange (Fin a) c2 = (True, c2)"
    using failing_breaker_open [of c1 exchange s1 a error] s1(2,3) assms(8,9) by (auto simp: c2_def)
  ultimately show ?thesis using assms(5,6,7)
    by (simp add: get_market_snapshot_with_resilience_def snapshot_retry_attempts_def numeral_3_eq_3 Let_def
        c1_def [symmetric] c2_def [symmetric])
qed

text \<open>Witnesses: three failures, the third at 100 seconds; refused at 110 and probed at 200 seconds.\<close>

definition three_failures :: "circuit_event list" where
  "three_failures = map (\<lambda>t. FailedAt ''binance'' ''HTTP 502'' (Fin t)) [98, 99, 100]"

lemma three_failures_state:
  "circuit_key ''binance'' = ''binance''"
  "\<exists>s. circuits_after three_failures ''binance'' = Some s \<and> cs_consecutive_failures s = 3
     \<and> cs_opened_until s = Some (Fin 130)"
proof -
  show key: "circuit_key ''binance'' = ''binance''" by code_simp
  have "f_mul (Fin 30) (Fin 1) = Fin 30" "f_add (Fin 100) (Fin 30) = Fin 130"
    using rnd_of_int [of 30] rnd_of_int [of 130] by (simp_all add: f_mul_def)
  then show "\<exists>s. circuits_after three_failures ''binance'' = Some s \<and> cs_consecutive_failures s = 3
     \<and> cs_opened_until s = Some (Fin 130)"
    using key
    by (simp add: circuits_after_def three_failures_def record_exchange_failure_def Let_def unwrap_or_def
        closed_circuit_def breaker_failure_threshold_def breaker_cooldown_def breaker_base_cooldown_def
        breaker_max_cooldown_def sat_add_def sat_sub_def f_min_def min_def)
qed

theorem refusal_needs_failures_witness:
  "3 \<le> length (failure_streak ''binance'' three_failures)"
proof -
  have "fst (exchange_circuit_open ''binance'' (Fin 110) (circuits_after three_failures))"
    using three_failures_state by (auto simp: exchange_circuit_open_def is_some_and_def f_lt_iff less_f64_def)
  from refusal_needs_failures [OF this] show ?thesis by (simp add: three_failures_state(1))
qed

theorem failing_probe_is_repeated_witness:
  "\<exists>states'. get_market_snapshot_with_resilience ''binance'' (\<lambda>_. Inl ''HTTP 502'') (Fin 200) (\<lambda>_. Fin 200)
     (circuits_after three_failures) = (Inl ''HTTP 502'', 3, [], states')"
proof -
  obtain s where s: "circuits_after three_failures ''binance'' = Some s" "cs_consecutive_failures s = 3"
      "cs_opened_until s = Some (Fin 130)" using three_failures_state(2) by auto
  have "circuits_after three_failures (circuit_key ''binance'') = Some s"
    using s(1) by (simp add: three_failures_state(1))
  moreover have "\<not> is_market_snapshot_unavailable_error ''HTTP 502''" by code_simp
  moreover have "\<not> f_lt (Fin 200) (Fin 130)" "3 \<le> unat (cs_consecutive_failures s)" using s(2) by simp_all
  ultimately show ?thesis using s(3) by (intro failing_probe_is_repeated [where a = 200]) auto
qed

end
