(* ===== verification/TradingConfig.thy ===== *)
theory TradingConfig
  imports Market
begin

text \<open>
  \<^verbatim>\<open>src/src/trading/config.rs\<close>: the settings of the trading bridge that the execution, the decision
  and the quantitative components read, their clamping after deserialisation, and the overrides
  an administrator sets at run time; \<^verbatim>\<open>ExecutionTelemetryConfig\<close> of
  \<^verbatim>\<open>src/src/trading/quantitative/telemetry.rs\<close>. Settings no modelled component reads are the
  extension of the record. Integers of the configuration are \<open>nat\<close>.
\<close>

record telemetry_config =
  et_enabled :: bool
  et_ledger_size :: nat
  et_minimum_empirical_samples :: nat
  et_maximum_cost_bps :: f64

definition default_telemetry_config :: telemetry_config where
  "default_telemetry_config =
     \<lparr>et_enabled = True, et_ledger_size = 10000, et_minimum_empirical_samples = 8, et_maximum_cost_bps = Fin 2500\<rparr>"

definition nat_clamp :: "nat \<Rightarrow> nat \<Rightarrow> nat \<Rightarrow> nat" where
  "nat_clamp x lo hi = max lo (min x hi)"

definition normalise_telemetry :: "telemetry_config \<Rightarrow> telemetry_config" where
  "normalise_telemetry c =
     c\<lparr>et_ledger_size := nat_clamp (et_ledger_size c) 100 1000000,
       et_minimum_empirical_samples := nat_clamp (et_minimum_empirical_samples c) 3 10000,
       et_maximum_cost_bps := f_clamp (et_maximum_cost_bps c) (Fin 10) (Fin 10000)\<rparr>"

record trading_config =
  tr_micro_trade_max_usd :: f64
  tr_micro_trade_min_usd :: f64
  tr_max_open_positions :: nat
  tr_min_trade_interval_seconds :: nat
  tr_fuzzy_confidence_threshold :: f64
  tr_market_snapshot_ttl_seconds :: f64
  tr_advisory_ttl_seconds :: f64
  tr_max_reprice_drift_bps :: f64
  tr_estimated_fee_bps :: f64
  tr_estimated_slippage_bps :: f64
  tr_expected_move_bps :: f64
  tr_minimum_net_edge_bps :: f64
  tr_strict_exchange_selection :: bool
  tr_execution_authority :: string
  tr_execution_lease_seconds :: f64
  tr_markout_horizon_seconds :: nat
  tr_markout_ledger_size :: nat
  tr_markout_calibration_min_samples :: nat
  tr_quant_shadow_horizon_seconds :: nat
  tr_quant_shadow_expiry_seconds :: nat
  tr_quant_shadow_ledger_size :: nat
  tr_quant_tuning_min_samples :: nat
  tr_quant_tuning_min_actionable_samples :: nat
  tr_quant_tuning_interval_samples :: nat
  tr_quant_tuning_min_outperformance_bps :: f64
  tr_quant_migration_min_samples :: nat
  tr_quant_migration_min_actionable_samples :: nat
  tr_quant_migration_window_samples :: nat
  tr_quant_migration_min_outperformance_bps :: f64
  tr_quant_migration_max_downside_regression_bps :: f64
  tr_quant_migration_required_streak :: nat
  tr_execution_telemetry :: telemetry_config
  tr_log_ring_size :: nat
  tr_trade_ring_size :: nat
  tr_fuzzy_weight :: f64
  tr_roi_feedback_enabled :: bool
  tr_roi_feedback_lookback_trades :: nat
  tr_roi_feedback_min_samples :: nat
  tr_roi_feedback_target_roi_pct :: f64
  tr_roi_feedback_max_signal_adjustment :: f64
  tr_roi_feedback_max_confidence_penalty :: f64
  tr_roi_feedback_max_confidence_boost :: f64
  tr_backtesting_enabled :: bool
  tr_backtest_profitability_threshold :: f64
  tr_live_execution_enabled :: bool
  tr_live_execution_auto_gate_enabled :: bool
  tr_paper_qualification_required :: bool
  tr_paper_min_evaluations :: nat
  tr_paper_min_validated_intents :: nat
  tr_paper_validity_seconds :: nat

definition default_bridge_config :: trading_config where
  "default_bridge_config =
     \<lparr>tr_micro_trade_max_usd = Fin 25, tr_micro_trade_min_usd = Fin 1, tr_max_open_positions = 40,
      tr_min_trade_interval_seconds = 120, tr_fuzzy_confidence_threshold = lit (65 / 100),
      tr_market_snapshot_ttl_seconds = Fin 1200, tr_advisory_ttl_seconds = Fin 120,
      tr_max_reprice_drift_bps = Fin 35, tr_estimated_fee_bps = Fin 10, tr_estimated_slippage_bps = Fin 12,
      tr_expected_move_bps = Fin 250, tr_minimum_net_edge_bps = Fin 15, tr_strict_exchange_selection = True,
      tr_execution_authority = ''gail'', tr_execution_lease_seconds = Fin 180,
      tr_markout_horizon_seconds = 900, tr_markout_ledger_size = 2000, tr_markout_calibration_min_samples = 8,
      tr_quant_shadow_horizon_seconds = 900, tr_quant_shadow_expiry_seconds = 3600,
      tr_quant_shadow_ledger_size = 2000, tr_quant_tuning_min_samples = 24,
      tr_quant_tuning_min_actionable_samples = 6, tr_quant_tuning_interval_samples = 8,
      tr_quant_tuning_min_outperformance_bps = Fin 5, tr_quant_migration_min_samples = 96,
      tr_quant_migration_min_actionable_samples = 16, tr_quant_migration_window_samples = 240,
      tr_quant_migration_min_outperformance_bps = Fin 10,
      tr_quant_migration_max_downside_regression_bps = Fin 25, tr_quant_migration_required_streak = 3,
      tr_execution_telemetry = default_telemetry_config, tr_log_ring_size = 1000, tr_trade_ring_size = 200,
      tr_fuzzy_weight = lit (4 / 10), tr_roi_feedback_enabled = True, tr_roi_feedback_lookback_trades = 120,
      tr_roi_feedback_min_samples = 8, tr_roi_feedback_target_roi_pct = Fin 1,
      tr_roi_feedback_max_signal_adjustment = lit (2 / 10), tr_roi_feedback_max_confidence_penalty = lit (35 / 100),
      tr_roi_feedback_max_confidence_boost = lit (1 / 10), tr_backtesting_enabled = True,
      tr_backtest_profitability_threshold = Fin 0, tr_live_execution_enabled = False,
      tr_live_execution_auto_gate_enabled = True, tr_paper_qualification_required = True,
      tr_paper_min_evaluations = 100, tr_paper_min_validated_intents = 5, tr_paper_validity_seconds = 604800\<rparr>"

section \<open>Clamping\<close>

text \<open>
  \<open>normalize\<close>, in the order of the code. \<open>Ord::clamp\<close> panics when its bounds are not in order:
  the one clamp with two configured bounds is the migration window, \<open>None\<close> when it panics.
\<close>

definition clamp_trade_sizes :: "'a trading_config_scheme \<Rightarrow> 'a trading_config_scheme" where
  "clamp_trade_sizes c =
     (let largest = f_max (tr_micro_trade_max_usd c) (lit (1 / 100))
      in c\<lparr>tr_micro_trade_max_usd := largest,
           tr_micro_trade_min_usd := f_min (f_max (tr_micro_trade_min_usd c) (lit (1 / 100))) largest,
           tr_fuzzy_confidence_threshold := f_clamp (tr_fuzzy_confidence_threshold c) (Fin 0) (Fin 1),
           tr_fuzzy_weight := f_clamp (tr_fuzzy_weight c) (Fin 0) (Fin 1)\<rparr>)"

definition clamp_roi_feedback :: "'a trading_config_scheme \<Rightarrow> 'a trading_config_scheme" where
  "clamp_roi_feedback c =
     (let lookback = nat_clamp (tr_roi_feedback_lookback_trades c) 10 5000
      in c\<lparr>tr_roi_feedback_lookback_trades := lookback,
           tr_roi_feedback_min_samples := nat_clamp (tr_roi_feedback_min_samples c) 2 (max lookback 2),
           tr_roi_feedback_target_roi_pct := f_clamp (tr_roi_feedback_target_roi_pct c) (lit (1 / 10)) (Fin 50),
           tr_roi_feedback_max_signal_adjustment :=
             f_clamp (tr_roi_feedback_max_signal_adjustment c) (Fin 0) (Fin (1 / 2)),
           tr_roi_feedback_max_confidence_penalty :=
             f_clamp (tr_roi_feedback_max_confidence_penalty c) (Fin 0) (lit (95 / 100)),
           tr_roi_feedback_max_confidence_boost :=
             f_clamp (tr_roi_feedback_max_confidence_boost c) (Fin 0) (Fin (1 / 2))\<rparr>)"

definition clamp_execution :: "'a trading_config_scheme \<Rightarrow> 'a trading_config_scheme" where
  "clamp_execution c =
     (let authority = to_ascii_lowercase (trim (tr_execution_authority c))
      in c\<lparr>tr_market_snapshot_ttl_seconds := f_clamp (tr_market_snapshot_ttl_seconds c) (Fin 1) (Fin 900),
           tr_advisory_ttl_seconds := f_clamp (tr_advisory_ttl_seconds c) (Fin 1) (Fin 900),
           tr_max_reprice_drift_bps := f_clamp (tr_max_reprice_drift_bps c) (Fin 1) (Fin 2500),
           tr_estimated_fee_bps := f_clamp (tr_estimated_fee_bps c) (Fin 0) (Fin 500),
           tr_estimated_slippage_bps := f_clamp (tr_estimated_slippage_bps c) (Fin 0) (Fin 500),
           tr_expected_move_bps := f_clamp (tr_expected_move_bps c) (Fin 1) (Fin 10000),
           tr_minimum_net_edge_bps := f_clamp (tr_minimum_net_edge_bps c) (Fin 0) (Fin 2500),
           tr_execution_authority := (if authority = [] then ''gail'' else authority),
           tr_execution_lease_seconds := f_clamp (tr_execution_lease_seconds c) (Fin 30) (Fin 3600),
           tr_markout_horizon_seconds := nat_clamp (tr_markout_horizon_seconds c) 60 86400,
           tr_markout_ledger_size := nat_clamp (tr_markout_ledger_size c) 100 50000,
           tr_markout_calibration_min_samples := nat_clamp (tr_markout_calibration_min_samples c) 3 1000\<rparr>)"

definition clamp_quant_fields :: "'a trading_config_scheme \<Rightarrow> 'a trading_config_scheme" where
  "clamp_quant_fields c =
     (let horizon = nat_clamp (tr_quant_shadow_horizon_seconds c) 60 86400;
          ledger = nat_clamp (tr_quant_shadow_ledger_size c) 100 50000;
          tuning = nat_clamp (tr_quant_tuning_min_samples c) 3 10000;
          migration = nat_clamp (tr_quant_migration_min_samples c) 10 10000
      in c\<lparr>tr_quant_shadow_horizon_seconds := horizon,
           tr_quant_shadow_expiry_seconds := nat_clamp (tr_quant_shadow_expiry_seconds c) horizon 604800,
           tr_quant_shadow_ledger_size := ledger,
           tr_quant_tuning_min_samples := tuning,
           tr_quant_tuning_min_actionable_samples := nat_clamp (tr_quant_tuning_min_actionable_samples c) 1 tuning,
           tr_quant_tuning_interval_samples := nat_clamp (tr_quant_tuning_interval_samples c) 1 1000,
           tr_quant_tuning_min_outperformance_bps :=
             f_clamp (tr_quant_tuning_min_outperformance_bps c) (Fin 0) (Fin 2500),
           tr_quant_migration_min_samples := migration,
           tr_quant_migration_min_actionable_samples :=
             nat_clamp (tr_quant_migration_min_actionable_samples c) 1 migration,
           tr_quant_migration_window_samples := nat_clamp (tr_quant_migration_window_samples c) migration ledger,
           tr_quant_migration_min_outperformance_bps :=
             f_clamp (tr_quant_migration_min_outperformance_bps c) (Fin 0) (Fin 2500),
           tr_quant_migration_max_downside_regression_bps :=
             f_clamp (tr_quant_migration_max_downside_regression_bps c) (Fin 0) (Fin 2500),
           tr_quant_migration_required_streak := nat_clamp (tr_quant_migration_required_streak c) 1 100\<rparr>)"

definition clamp_quant :: "'a trading_config_scheme \<Rightarrow> 'a trading_config_scheme option" where
  "clamp_quant c =
     (if nat_clamp (tr_quant_shadow_ledger_size c) 100 50000 < nat_clamp (tr_quant_migration_min_samples c) 10 10000
      then None else Some (clamp_quant_fields c))"

definition clamp_limits :: "'a trading_config_scheme \<Rightarrow> 'a trading_config_scheme" where
  "clamp_limits c =
     c\<lparr>tr_execution_telemetry := normalise_telemetry (tr_execution_telemetry c),
       tr_max_open_positions := nat_clamp (tr_max_open_positions c) 1 50,
       tr_log_ring_size := nat_clamp (tr_log_ring_size c) 10 10000,
       tr_trade_ring_size := nat_clamp (tr_trade_ring_size c) 10 5000,
       tr_backtest_profitability_threshold :=
         f_clamp (tr_backtest_profitability_threshold c) (Fin (- 100)) (Fin 100),
       tr_paper_min_evaluations := nat_clamp (tr_paper_min_evaluations c) 1 1000000,
       tr_paper_min_validated_intents := nat_clamp (tr_paper_min_validated_intents c) 1 100000,
       tr_paper_validity_seconds := nat_clamp (tr_paper_validity_seconds c) 300 7776000\<rparr>"

definition normalize_trading :: "'a trading_config_scheme \<Rightarrow> 'a trading_config_scheme option" where
  "normalize_trading c =
     map_option clamp_limits (clamp_quant (clamp_execution (clamp_roi_feedback (clamp_trade_sizes c))))"

record trading_override =
  ov_micro_trade_max_usd :: "f64 option"
  ov_micro_trade_min_usd :: "f64 option"
  ov_max_open_positions :: "nat option"
  ov_fuzzy_confidence_threshold :: "f64 option"
  ov_fuzzy_weight :: "f64 option"
  ov_roi_feedback_target_roi_pct :: "f64 option"
  ov_roi_feedback_max_signal_adjustment :: "f64 option"
  ov_roi_feedback_max_confidence_penalty :: "f64 option"
  ov_roi_feedback_max_confidence_boost :: "f64 option"

section \<open>What clamping gives\<close>

lemma nat_clamp_range: "lo \<le> hi \<Longrightarrow> lo \<le> nat_clamp x lo hi \<and> nat_clamp x lo hi \<le> hi"
  by (simp add: nat_clamp_def)

lemma nat_clamp_idem: "nat_clamp (nat_clamp x lo hi) lo hi = nat_clamp x lo hi"
  by (simp add: nat_clamp_def)

definition in_range :: "f64 \<Rightarrow> f64 \<Rightarrow> f64 \<Rightarrow> bool" where
  "in_range lo x hi \<longleftrightarrow> x = NaN \<or> lo \<le> x \<and> x \<le> hi"

lemma in_range_clamp: "lo \<le> hi \<Longrightarrow> hi \<noteq> NaN \<Longrightarrow> in_range lo (f_clamp x lo hi) hi"
  by (auto simp: in_range_def f_clamp_le f_clamp_ge f_clamp_def f_lt_iff)

text \<open>The settings of an accepted configuration; a float the file gives as not-a-number stays one.\<close>

definition trading_config_ok :: "'a trading_config_scheme \<Rightarrow> bool" where
  "trading_config_ok c \<longleftrightarrow>
     lit (1 / 100) \<le> tr_micro_trade_min_usd c \<and> tr_micro_trade_min_usd c \<le> tr_micro_trade_max_usd c
     \<and> tr_micro_trade_max_usd c \<noteq> NaN
     \<and> in_range (Fin 0) (tr_fuzzy_confidence_threshold c) (Fin 1)
     \<and> in_range (Fin 0) (tr_fuzzy_weight c) (Fin 1)
     \<and> in_range (Fin 1) (tr_advisory_ttl_seconds c) (Fin 900)
     \<and> in_range (Fin 1) (tr_market_snapshot_ttl_seconds c) (Fin 900)
     \<and> in_range (Fin 0) (tr_minimum_net_edge_bps c) (Fin 2500)
     \<and> in_range (Fin 30) (tr_execution_lease_seconds c) (Fin 3600)
     \<and> tr_execution_authority c \<noteq> []
     \<and> 10 \<le> tr_trade_ring_size c \<and> 10 \<le> tr_log_ring_size c
     \<and> 1 \<le> tr_max_open_positions c \<and> tr_max_open_positions c \<le> 50
     \<and> 1 \<le> tr_paper_min_evaluations c \<and> 1 \<le> tr_paper_min_validated_intents c
     \<and> 300 \<le> tr_paper_validity_seconds c
     \<and> 2 \<le> tr_roi_feedback_min_samples c
     \<and> tr_roi_feedback_min_samples c \<le> tr_roi_feedback_lookback_trades c
     \<and> tr_quant_shadow_horizon_seconds c \<le> tr_quant_shadow_expiry_seconds c
     \<and> tr_quant_migration_min_samples c \<le> tr_quant_migration_window_samples c
     \<and> tr_quant_migration_window_samples c \<le> tr_quant_shadow_ledger_size c
     \<and> 3 \<le> et_minimum_empirical_samples (tr_execution_telemetry c)"

lemma trade_size_bounds:
  "lit q \<le> f_min (f_max x (lit q)) (f_max y (lit q))"
  "f_min (f_max x (lit q)) (f_max y (lit q)) \<le> f_max y (lit q)"
  "f_max y (lit q) \<noteq> NaN"
proof -
  have "lit q \<noteq> NaN" by simp
  then have "lit q \<le> f_max x (lit q)" "lit q \<le> f_max y (lit q)" "f_max x (lit q) \<noteq> NaN" "f_max y (lit q) \<noteq> NaN"
    by (simp_all add: f_max_above) (auto simp: f_max_def max_def is_nan_iff)
  then show "lit q \<le> f_min (f_max x (lit q)) (f_max y (lit q))"
    "f_min (f_max x (lit q)) (f_max y (lit q)) \<le> f_max y (lit q)"
    "f_max y (lit q) \<noteq> NaN"
    by (auto simp: f_min_le f_min_def min_def is_nan_iff)
qed

lemma normalize_trading_None:
  "normalize_trading c = None \<longleftrightarrow>
     nat_clamp (tr_quant_shadow_ledger_size c) 100 50000 < nat_clamp (tr_quant_migration_min_samples c) 10 10000"
  by (simp add: normalize_trading_def clamp_quant_def clamp_execution_def clamp_roi_feedback_def
      clamp_trade_sizes_def Let_def)

lemma normalize_trading_Some:
  "normalize_trading c = Some c' \<Longrightarrow>
     \<exists>q. clamp_quant (clamp_execution (clamp_roi_feedback (clamp_trade_sizes c))) = Some q \<and> c' = clamp_limits q"
  by (auto simp: normalize_trading_def)

lemma clamp_trade_sizes_ok:
  "lit (1 / 100) \<le> tr_micro_trade_min_usd (clamp_trade_sizes c)"
  "tr_micro_trade_min_usd (clamp_trade_sizes c) \<le> tr_micro_trade_max_usd (clamp_trade_sizes c)"
  "tr_micro_trade_max_usd (clamp_trade_sizes c) \<noteq> NaN"
  "in_range (Fin 0) (tr_fuzzy_confidence_threshold (clamp_trade_sizes c)) (Fin 1)"
  "in_range (Fin 0) (tr_fuzzy_weight (clamp_trade_sizes c)) (Fin 1)"
  by (simp_all add: clamp_trade_sizes_def Let_def trade_size_bounds in_range_clamp)

lemma clamp_roi_feedback_ok:
  "2 \<le> tr_roi_feedback_min_samples (clamp_roi_feedback c)"
  "tr_roi_feedback_min_samples (clamp_roi_feedback c) \<le> tr_roi_feedback_lookback_trades (clamp_roi_feedback c)"
  by (simp_all add: clamp_roi_feedback_def Let_def nat_clamp_def)

lemma clamp_execution_ok:
  "in_range (Fin 1) (tr_advisory_ttl_seconds (clamp_execution c)) (Fin 900)"
  "in_range (Fin 1) (tr_market_snapshot_ttl_seconds (clamp_execution c)) (Fin 900)"
  "in_range (Fin 0) (tr_minimum_net_edge_bps (clamp_execution c)) (Fin 2500)"
  "in_range (Fin 30) (tr_execution_lease_seconds (clamp_execution c)) (Fin 3600)"
  "tr_execution_authority (clamp_execution c) \<noteq> []"
  by (simp_all add: clamp_execution_def Let_def in_range_clamp)

lemma clamp_quant_Some: "clamp_quant c = Some q \<Longrightarrow> q = clamp_quant_fields c
    \<and> nat_clamp (tr_quant_migration_min_samples c) 10 10000 \<le> nat_clamp (tr_quant_shadow_ledger_size c) 100 50000"
  by (auto simp: clamp_quant_def not_less split: if_splits)

lemma clamp_quant_ok:
  assumes "clamp_quant c = Some q"
  shows "tr_quant_shadow_horizon_seconds q \<le> tr_quant_shadow_expiry_seconds q"
    "tr_quant_migration_min_samples q \<le> tr_quant_migration_window_samples q"
    "tr_quant_migration_window_samples q \<le> tr_quant_shadow_ledger_size q"
  using clamp_quant_Some [OF assms] by (simp_all add: clamp_quant_fields_def Let_def) (simp_all add: nat_clamp_def)

lemma clamp_limits_ok:
  "10 \<le> tr_trade_ring_size (clamp_limits c)" "10 \<le> tr_log_ring_size (clamp_limits c)"
  "1 \<le> tr_max_open_positions (clamp_limits c)" "tr_max_open_positions (clamp_limits c) \<le> 50"
  "1 \<le> tr_paper_min_evaluations (clamp_limits c)" "1 \<le> tr_paper_min_validated_intents (clamp_limits c)"
  "300 \<le> tr_paper_validity_seconds (clamp_limits c)"
  "3 \<le> et_minimum_empirical_samples (tr_execution_telemetry (clamp_limits c))"
  by (simp_all add: clamp_limits_def normalise_telemetry_def nat_clamp_def)

text \<open>Each stage leaves the settings of the others alone.\<close>

lemma clamp_frames:
  "tr_micro_trade_min_usd (clamp_quant_fields c) = tr_micro_trade_min_usd c"
  "tr_micro_trade_max_usd (clamp_quant_fields c) = tr_micro_trade_max_usd c"
  "tr_fuzzy_confidence_threshold (clamp_quant_fields c) = tr_fuzzy_confidence_threshold c"
  "tr_fuzzy_weight (clamp_quant_fields c) = tr_fuzzy_weight c"
  "tr_advisory_ttl_seconds (clamp_quant_fields c) = tr_advisory_ttl_seconds c"
  "tr_market_snapshot_ttl_seconds (clamp_quant_fields c) = tr_market_snapshot_ttl_seconds c"
  "tr_minimum_net_edge_bps (clamp_quant_fields c) = tr_minimum_net_edge_bps c"
  "tr_execution_lease_seconds (clamp_quant_fields c) = tr_execution_lease_seconds c"
  "tr_execution_authority (clamp_quant_fields c) = tr_execution_authority c"
  "tr_roi_feedback_min_samples (clamp_quant_fields c) = tr_roi_feedback_min_samples c"
  "tr_roi_feedback_lookback_trades (clamp_quant_fields c) = tr_roi_feedback_lookback_trades c"
  by (simp_all add: clamp_quant_fields_def Let_def)

lemma clamp_stage_frames:
  "tr_micro_trade_min_usd (clamp_execution c) = tr_micro_trade_min_usd c"
  "tr_micro_trade_max_usd (clamp_execution c) = tr_micro_trade_max_usd c"
  "tr_fuzzy_confidence_threshold (clamp_execution c) = tr_fuzzy_confidence_threshold c"
  "tr_fuzzy_weight (clamp_execution c) = tr_fuzzy_weight c"
  "tr_roi_feedback_min_samples (clamp_execution c) = tr_roi_feedback_min_samples c"
  "tr_roi_feedback_lookback_trades (clamp_execution c) = tr_roi_feedback_lookback_trades c"
  "tr_micro_trade_min_usd (clamp_roi_feedback c) = tr_micro_trade_min_usd c"
  "tr_micro_trade_max_usd (clamp_roi_feedback c) = tr_micro_trade_max_usd c"
  "tr_fuzzy_confidence_threshold (clamp_roi_feedback c) = tr_fuzzy_confidence_threshold c"
  "tr_fuzzy_weight (clamp_roi_feedback c) = tr_fuzzy_weight c"
  by (simp_all add: clamp_execution_def clamp_roi_feedback_def Let_def)

lemma clamp_limits_frames:
  "tr_micro_trade_min_usd (clamp_limits c) = tr_micro_trade_min_usd c"
  "tr_micro_trade_max_usd (clamp_limits c) = tr_micro_trade_max_usd c"
  "tr_fuzzy_confidence_threshold (clamp_limits c) = tr_fuzzy_confidence_threshold c"
  "tr_fuzzy_weight (clamp_limits c) = tr_fuzzy_weight c"
  "tr_advisory_ttl_seconds (clamp_limits c) = tr_advisory_ttl_seconds c"
  "tr_market_snapshot_ttl_seconds (clamp_limits c) = tr_market_snapshot_ttl_seconds c"
  "tr_minimum_net_edge_bps (clamp_limits c) = tr_minimum_net_edge_bps c"
  "tr_execution_lease_seconds (clamp_limits c) = tr_execution_lease_seconds c"
  "tr_execution_authority (clamp_limits c) = tr_execution_authority c"
  "tr_roi_feedback_min_samples (clamp_limits c) = tr_roi_feedback_min_samples c"
  "tr_roi_feedback_lookback_trades (clamp_limits c) = tr_roi_feedback_lookback_trades c"
  "tr_quant_shadow_horizon_seconds (clamp_limits c) = tr_quant_shadow_horizon_seconds c"
  "tr_quant_shadow_expiry_seconds (clamp_limits c) = tr_quant_shadow_expiry_seconds c"
  "tr_quant_migration_min_samples (clamp_limits c) = tr_quant_migration_min_samples c"
  "tr_quant_migration_window_samples (clamp_limits c) = tr_quant_migration_window_samples c"
  "tr_quant_shadow_ledger_size (clamp_limits c) = tr_quant_shadow_ledger_size c"
  by (simp_all add: clamp_limits_def)

lemma normalize_trading_ok: "normalize_trading c = Some c' \<Longrightarrow> trading_config_ok c'"
proof -
  assume "normalize_trading c = Some c'"
  then obtain q where q: "clamp_quant (clamp_execution (clamp_roi_feedback (clamp_trade_sizes c))) = Some q"
      "c' = clamp_limits q" using normalize_trading_Some by blast
  note quant = clamp_quant_Some [OF q(1), THEN conjunct1]
  show ?thesis unfolding trading_config_ok_def q(2)
    by (simp only: clamp_limits_frames clamp_quant_ok [OF q(1)] simp_thms clamp_limits_ok)
      (simp only: quant clamp_frames clamp_stage_frames clamp_trade_sizes_ok
        clamp_roi_feedback_ok clamp_execution_ok simp_thms not_False_eq_True)
qed


end
