(* ===== verification/TradeEconomics.thy ===== *)
theory TradeEconomics
  imports TradingConfig
begin

text \<open>
  What a trade is expected to earn and to cost: \<^verbatim>\<open>src/src/trading/economics.rs\<close> (expected edge, size,
  adverse drift) and \<^verbatim>\<open>src/src/trading/quantitative/telemetry.rs\<close> (fills, the cost of a round trip,
  repricing).
\<close>

section \<open>Expected edge\<close>

record trade_economics =
  te_expected_gross_edge_bps :: f64
  te_estimated_round_trip_cost_bps :: f64
  te_expected_net_edge_bps :: f64
  te_required_net_edge_bps :: f64
  te_calibration_multiplier :: f64

definition default_economics :: trade_economics where
  "default_economics = \<lparr>te_expected_gross_edge_bps = Fin 0, te_estimated_round_trip_cost_bps = Fin 0,
     te_expected_net_edge_bps = Fin 0, te_required_net_edge_bps = Fin 0, te_calibration_multiplier = Fin 0\<rparr>"

definition is_worthwhile :: "trade_economics \<Rightarrow> bool" where
  "is_worthwhile e = f_le (te_required_net_edge_bps e) (f_add (te_expected_net_edge_bps e) f_epsilon)"

definition size_multiplier :: "trade_economics \<Rightarrow> f64" where
  "size_multiplier e =
     (if \<not> is_worthwhile e then Fin 0
      else let surplus = f_sub (te_expected_net_edge_bps e) (te_required_net_edge_bps e);
               useful_range = f_max (f_sub (te_expected_gross_edge_bps e) (te_required_net_edge_bps e))
                                (f_max (te_required_net_edge_bps e) (Fin 1))
           in f_clamp (f_add (lit (20 / 100))
                (f_mul (lit (80 / 100)) (f_clamp (f_div surplus useful_range) (Fin 0) (Fin 1)))) (Fin 0) (Fin 1))"

definition round_trip_cost_bps :: "'a trading_config_scheme \<Rightarrow> f64" where
  "round_trip_cost_bps c = f_mul (Fin 2) (f_add (tr_estimated_fee_bps c) (tr_estimated_slippage_bps c))"

definition estimate_trade_economics ::
  "f64 \<Rightarrow> f64 \<Rightarrow> f64 \<Rightarrow> 'a trading_config_scheme \<Rightarrow> trade_economics" where
  "estimate_trade_economics signal_strength confidence calibration config =
     (let multiplier = f_clamp calibration (Fin (1 / 4)) (Fin (3 / 2));
          gross = f_mul (f_mul (f_mul (tr_expected_move_bps config) (f_clamp signal_strength (Fin 0) (Fin 1)))
                    (f_clamp confidence (Fin 0) (Fin 1))) multiplier;
          cost = round_trip_cost_bps config
      in \<lparr>te_expected_gross_edge_bps = gross, te_estimated_round_trip_cost_bps = cost,
          te_expected_net_edge_bps = f_sub gross cost,
          te_required_net_edge_bps = tr_minimum_net_edge_bps config,
          te_calibration_multiplier = multiplier\<rparr>)"

definition adverse_reprice_drift_bps :: "string \<Rightarrow> f64 \<Rightarrow> f64 \<Rightarrow> f64" where
  "adverse_reprice_drift_bps side reference_price current_price =
     (if \<not> is_finite reference_price \<or> f_le reference_price (Fin 0)
        \<or> \<not> is_finite current_price \<or> f_le current_price (Fin 0) then PInf
      else let change = f_mul (f_div (f_sub current_price reference_price) reference_price) (Fin 10000)
           in if eq_ignore_ascii_case side ''buy'' then f_max change (Fin 0)
              else if eq_ignore_ascii_case side ''sell'' then f_max (f_neg change) (Fin 0)
              else PInf)"

section \<open>Costs of execution\<close>

record cost_observation =
  co_observed_at :: f64
  co_exchange :: string
  co_symbol :: string
  co_side :: string
  co_order_id :: string
  co_notional_usd :: f64
  co_reference_price :: f64
  co_fill_price :: f64
  co_observed_slippage_bps :: f64
  co_estimated_fee_bps :: f64

record cost_estimate =
  ce_round_trip_cost_bps :: f64
  ce_projected_market_cost_bps :: f64
  ce_empirical_market_cost_bps :: "f64 option"
  ce_empirical_samples :: nat
  ce_used_fallback :: bool

record repriced_edge =
  re_cost_regression_bps :: f64
  re_net_edge_bps :: f64

definition reprice_net_edge :: "f64 \<Rightarrow> f64 \<Rightarrow> f64 \<Rightarrow> f64 \<Rightarrow> repriced_edge" where
  "reprice_net_edge decision_edge decision_cost fresh_cost adverse_drift =
     (let regression = f_max (f_sub fresh_cost decision_cost) (Fin 0)
      in \<lparr>re_cost_regression_bps = regression,
          re_net_edge_bps = f_sub (f_sub decision_edge (f_max adverse_drift (Fin 0))) regression\<rparr>)"

text \<open>The ledger of observations, oldest first.\<close>

definition keep_last :: "nat \<Rightarrow> 'a list \<Rightarrow> 'a list" where
  "keep_last n xs = drop (length xs - n) xs"

definition record_fill ::
  "f64 \<Rightarrow> string \<Rightarrow> string \<Rightarrow> string \<Rightarrow> string \<Rightarrow> f64 \<Rightarrow> f64 \<Rightarrow> f64 \<Rightarrow> f64 \<Rightarrow> telemetry_config \<Rightarrow>
     cost_observation list \<Rightarrow> bool \<times> cost_observation list" where
  "record_fill observed_at exchange symbol side order_id notional reference_price fill_price fee config ledger =
     (if \<not> et_enabled config \<or> f_le reference_price (Fin 0) \<or> f_le fill_price (Fin 0)
        \<or> \<not> is_finite reference_price \<or> \<not> is_finite fill_price then (False, ledger)
      else let signed = f_mul (f_sub (f_div fill_price reference_price) (Fin 1)) (Fin 10000);
               slippage = f_max (if eq_ignore_ascii_case side ''sell'' then f_neg signed else signed) (Fin 0)
           in (True, keep_last (et_ledger_size config) (ledger @
                [\<lparr>co_observed_at = observed_at, co_exchange = to_ascii_lowercase exchange,
                  co_symbol = to_ascii_uppercase symbol, co_side = to_ascii_lowercase side, co_order_id = order_id,
                  co_notional_usd = f_max notional (Fin 0), co_reference_price = reference_price,
                  co_fill_price = fill_price, co_observed_slippage_bps = slippage,
                  co_estimated_fee_bps = f_max fee (Fin 0)\<rparr>])))"

definition median :: "f64 list \<Rightarrow> f64" where
  "median values =
     (let sorted_values = sort_by partial_cmp_or_equal values; middle = length values div 2
      in if even (length values)
         then f_div (f_add (sorted_values ! (middle - 1)) (sorted_values ! middle)) (Fin 2)
         else sorted_values ! middle)"

definition empirical_slippage ::
  "cost_observation list \<Rightarrow> string \<Rightarrow> string \<Rightarrow> string \<Rightarrow> nat \<Rightarrow> (f64 \<times> nat) option" where
  "empirical_slippage ledger exchange symbol side minimum_samples =
     (let values = map co_observed_slippage_bps (take 500 (filter (\<lambda>obs.
            eq_ignore_ascii_case (co_exchange obs) exchange \<and> eq_ignore_ascii_case (co_symbol obs) symbol
            \<and> eq_ignore_ascii_case (co_side obs) side) (rev ledger)))
      in if length values < minimum_samples then None else Some (median values, length values))"

definition estimate_round_trip ::
  "cost_observation list \<Rightarrow> market_snapshot \<Rightarrow> string \<Rightarrow> f64 \<Rightarrow> f64 \<Rightarrow> f64 \<Rightarrow> telemetry_config \<Rightarrow> cost_estimate" where
  "estimate_round_trip ledger snapshot entry_side notional fee fallback config =
     (if \<not> et_enabled config
      then \<lparr>ce_round_trip_cost_bps =
              f_clamp (f_mul (Fin 2) (f_add (f_max fee (Fin 0)) (f_max fallback (Fin 0)))) (Fin 0)
                (et_maximum_cost_bps config),
            ce_projected_market_cost_bps = f_mul (Fin 2) (f_max fallback (Fin 0)),
            ce_empirical_market_cost_bps = None, ce_empirical_samples = 0, ce_used_fallback = True\<rparr>
      else
        let exit_side = (if eq_ignore_ascii_case entry_side ''sell'' then ''buy'' else ''sell'');
            projected = f_add (projected_one_way_slippage_bps snapshot entry_side notional fallback)
                          (projected_one_way_slippage_bps snapshot exit_side notional fallback);
            measured = (\<lambda>side. empirical_slippage ledger (ms_exchange snapshot) (ms_symbol snapshot) side
                          (et_minimum_empirical_samples config));
            entry_empirical = measured entry_side; exit_empirical = measured exit_side;
            empirical = (case (entry_empirical, exit_empirical) of
                (Some (entry, _), Some (exit, _)) \<Rightarrow> Some (f_add entry exit) | _ \<Rightarrow> None);
            market_cost = (case empirical of Some e \<Rightarrow> f_max e projected | None \<Rightarrow> projected)
        in \<lparr>ce_round_trip_cost_bps =
              f_clamp (f_add (f_mul (Fin 2) (f_max fee (Fin 0))) market_cost) (Fin 0) (et_maximum_cost_bps config),
            ce_projected_market_cost_bps = projected,
            ce_empirical_market_cost_bps = empirical,
            ce_empirical_samples = unwrap_or 0 (map_option snd entry_empirical)
              + unwrap_or 0 (map_option snd exit_empirical),
            ce_used_fallback = (spread_bps snapshot = None \<or> executable_depth_usd snapshot = None)\<rparr>)"

section \<open>What the estimates promise\<close>

lemma size_multiplier_range: "size_multiplier e = NaN \<or> Fin 0 \<le> size_multiplier e \<and> size_multiplier e \<le> Fin 1"
  using in_range_clamp [of "Fin 0" "Fin 1"] by (auto simp: size_multiplier_def in_range_def Let_def)

lemma adverse_drift_nonneg: "Fin 0 \<le> adverse_reprice_drift_bps side reference_price current_price"
  by (auto simp: adverse_reprice_drift_bps_def Let_def f_max_nonneg)

lemma length_keep_last: "length (keep_last n xs) = min n (length xs)"
  by (auto simp: keep_last_def)

lemma record_fill_bounded:
  "record_fill t exchange symbol side oid amount ref fill fee config ledger = (True, ledger') \<Longrightarrow>
     length ledger' \<le> et_ledger_size config"
  by (auto simp: record_fill_def Let_def length_keep_last split: if_splits)

text \<open>
  Repricing never rewards: the edge after the drift and the fresh costs is at most the edge of
  the decision.
\<close>

lemma f_sub_nonneg_le: "Fin 0 \<le> y \<Longrightarrow> rnd (f_fin x) = x \<or> \<not> is_finite x \<Longrightarrow> f_sub x y \<noteq> NaN \<Longrightarrow> f_sub x y \<le> x"
proof (cases x; cases y)
  fix a b
  assume xy: "x = Fin a" "y = Fin b" "Fin 0 \<le> y" "rnd (f_fin x) = x \<or> \<not> is_finite x"
  then have "f_sub x y = rnd (a - b)" "0 \<le> b" "rnd a = Fin a" by (simp_all add: f_sub_def f_neg_def)
  then show ?thesis using rnd_mono [of "a - b" a] xy(1) by simp
qed (auto simp: f_sub_def f_neg_def)

end
