(* ===== verification/TradeOutcomes.thy ===== *)
theory TradeOutcomes
  imports TradeEconomics
begin

text \<open>
  \<^verbatim>\<open>src/src/trading/outcomes.rs\<close>: the ledger of fixed-horizon, fee-adjusted outcomes, oldest first,
  and the calibration drawn from it; the trade actions of \<^verbatim>\<open>src/src/trading/state.rs\<close>.
\<close>

section \<open>Ledger\<close>

datatype trade_action = Buy | Sell | Hold | StrongBuy | StrongSell | CancelOrder

definition is_buy :: "trade_action \<Rightarrow> bool" where
  "is_buy a \<longleftrightarrow> a \<in> {Buy, StrongBuy}"

record trade_markout =
  mo_order_id :: string
  mo_executed_at :: f64
  mo_due_at :: f64
  mo_resolved_at :: "f64 option"
  mo_exchange :: string
  mo_symbol :: string
  mo_action :: trade_action
  mo_amount_usd :: f64
  mo_entry_price :: f64
  mo_observed_price :: "f64 option"
  mo_providers :: "string list"
  mo_regime :: string
  mo_gross_directional_return_bps :: "f64 option"
  mo_net_directional_return_bps :: "f64 option"

record outcome_performance =
  op_samples :: nat
  op_average_net_return_bps :: f64
  op_win_rate :: f64

record outcome_calibration =
  oc_multiplier :: f64
  oc_performance :: outcome_performance

definition no_performance :: outcome_performance where
  "no_performance = \<lparr>op_samples = 0, op_average_net_return_bps = Fin 0, op_win_rate = Fin 0\<rparr>"

definition default_calibration :: outcome_calibration where
  "default_calibration = \<lparr>oc_multiplier = Fin 1, oc_performance = no_performance\<rparr>"

type_synonym outcome_ledger = "trade_markout list"

definition record_markout :: "trade_markout \<Rightarrow> nat \<Rightarrow> outcome_ledger \<Rightarrow> outcome_ledger" where
  "record_markout markout capacity ledger =
     (if f_le (mo_entry_price markout) (Fin 0) \<or> \<not> is_finite (mo_entry_price markout) then ledger
      else if \<exists>item\<in>set ledger. mo_order_id markout \<noteq> [] \<and> mo_order_id item = mo_order_id markout then ledger
      else keep_last (max capacity 1 - 1) ledger @ [markout])"

section \<open>Resolving\<close>

definition is_due :: "f64 \<Rightarrow> trade_markout \<Rightarrow> bool" where
  "is_due now item \<longleftrightarrow> mo_resolved_at item = None \<and> f_le (mo_due_at item) now \<and> f_lt (Fin 0) (mo_entry_price item)"

definition matching_snapshot :: "market_snapshot list \<Rightarrow> trade_markout \<Rightarrow> market_snapshot option" where
  "matching_snapshot snapshots item =
     find (\<lambda>s. eq_ignore_ascii_case (ms_exchange s) (mo_exchange item)
       \<and> eq_ignore_ascii_case (ms_symbol s) (mo_symbol item) \<and> is_finite (ms_price s)
       \<and> f_lt (Fin 0) (ms_price s)) snapshots"

definition resolve_markout :: "f64 \<Rightarrow> f64 \<Rightarrow> f64 \<Rightarrow> trade_markout \<Rightarrow> trade_markout" where
  "resolve_markout price now cost item =
     (let market_return = f_mul (f_div (f_sub price (mo_entry_price item)) (mo_entry_price item)) (Fin 10000);
          gross = f_mul market_return (if is_buy (mo_action item) then Fin 1 else Fin (- 1))
      in item\<lparr>mo_observed_price := Some price, mo_gross_directional_return_bps := Some gross,
              mo_net_directional_return_bps := Some (f_sub gross (f_max cost (Fin 0))),
              mo_resolved_at := Some now\<rparr>)"

definition resolve_item :: "market_snapshot list \<Rightarrow> f64 \<Rightarrow> f64 \<Rightarrow> trade_markout \<Rightarrow> trade_markout" where
  "resolve_item snapshots now cost item =
     (if is_due now item
      then case matching_snapshot snapshots item of
             None \<Rightarrow> item | Some s \<Rightarrow> resolve_markout (ms_price s) now cost item
      else item)"

definition resolvable :: "market_snapshot list \<Rightarrow> f64 \<Rightarrow> trade_markout \<Rightarrow> bool" where
  "resolvable snapshots now item \<longleftrightarrow> is_due now item \<and> matching_snapshot snapshots item \<noteq> None"

definition resolve_due ::
  "market_snapshot list \<Rightarrow> f64 \<Rightarrow> f64 \<Rightarrow> outcome_ledger \<Rightarrow> nat \<times> outcome_ledger" where
  "resolve_due snapshots now cost ledger =
     (length (filter (resolvable snapshots now) ledger), map (resolve_item snapshots now cost) ledger)"

section \<open>Calibration\<close>

definition f_sum :: "f64 list \<Rightarrow> f64" where
  "f_sum values = foldl f_add (Fin 0) values"

definition summarize :: "f64 list \<Rightarrow> outcome_performance" where
  "summarize values =
     (if values = [] then no_performance
      else \<lparr>op_samples = length values,
            op_average_net_return_bps = f_div (f_sum values) (f_of_nat (length values)),
            op_win_rate = f_div (f_of_nat (length (filter (f_lt (Fin 0)) values))) (f_of_nat (length values))\<rparr>)"

definition resolved_returns :: "(trade_markout \<Rightarrow> bool) \<Rightarrow> nat \<Rightarrow> outcome_ledger \<Rightarrow> f64 list" where
  "resolved_returns p n ledger =
     take n (List.map_filter mo_net_directional_return_bps (filter p (rev ledger)))"

definition directional_performance :: "string option \<Rightarrow> bool \<Rightarrow> nat \<Rightarrow> outcome_ledger \<Rightarrow> outcome_performance" where
  "directional_performance symbol buying lookback ledger =
     summarize (resolved_returns (\<lambda>item. is_buy (mo_action item) = buying
       \<and> is_none_or (\<lambda>s. eq_ignore_ascii_case (mo_symbol item) s) symbol) (max lookback 1) ledger)"

definition provider_matches :: "string list \<Rightarrow> trade_markout \<Rightarrow> bool" where
  "provider_matches providers item \<longleftrightarrow>
     providers = [] \<or> (\<exists>provider\<in>set providers. \<exists>seen\<in>set (mo_providers item). eq_ignore_ascii_case seen provider)"

text \<open>The samples a calibration uses: the most specific set with enough of them.\<close>

definition calibration_samples :: "outcome_ledger \<Rightarrow> string \<Rightarrow> string list \<Rightarrow> string \<Rightarrow> nat \<Rightarrow> f64 list option" where
  "calibration_samples ledger symbol providers regime min_samples =
     (let same_symbol = (\<lambda>item. eq_ignore_ascii_case (mo_symbol item) symbol);
          exact = resolved_returns (\<lambda>item. same_symbol item \<and> provider_matches providers item
                    \<and> eq_ignore_ascii_case (mo_regime item) regime) 250 ledger;
          symbol_only = resolved_returns same_symbol 250 ledger;
          overall = resolved_returns (\<lambda>_. True) 250 ledger
      in if min_samples \<le> length exact then Some exact
         else if min_samples \<le> length symbol_only then Some symbol_only
         else if min_samples \<le> length overall then Some overall
         else None)"

definition calibration_of :: "f64 list \<Rightarrow> outcome_calibration" where
  "calibration_of values =
     (let performance = summarize values;
          return_score = f_clamp (f_div (op_average_net_return_bps performance) (Fin 100)) (Fin (- 1)) (Fin 1);
          win_score = f_clamp (f_mul (f_sub (op_win_rate performance) (Fin (1 / 2))) (Fin 2)) (Fin (- 1)) (Fin 1);
          score = f_add (f_mul return_score (lit (7 / 10))) (f_mul win_score (lit (3 / 10)))
      in \<lparr>oc_multiplier = f_clamp (f_add (Fin 1) (f_mul score (lit (35 / 100)))) (lit (55 / 100)) (Fin (5 / 4)),
          oc_performance = performance\<rparr>)"

definition calibration_for :: "outcome_ledger \<Rightarrow> string \<Rightarrow> string list \<Rightarrow> string \<Rightarrow> nat \<Rightarrow> outcome_calibration" where
  "calibration_for ledger symbol providers regime min_samples =
     (case calibration_samples ledger symbol providers regime min_samples of
        None \<Rightarrow> default_calibration | Some values \<Rightarrow> calibration_of values)"

section \<open>Every trade is measured once\<close>

text \<open>What happens to a ledger: trades are recorded and due ones resolved, at any prices.\<close>

inductive ledger_reachable :: "nat \<Rightarrow> outcome_ledger \<Rightarrow> bool" for capacity where
  fresh: "ledger_reachable capacity []"
| recorded: "ledger_reachable capacity l \<Longrightarrow> mo_resolved_at m = None \<Longrightarrow> mo_net_directional_return_bps m = None \<Longrightarrow>
     ledger_reachable capacity (record_markout m capacity l)"
| resolved: "ledger_reachable capacity l \<Longrightarrow> ledger_reachable capacity (snd (resolve_due snapshots now cost l))"

definition ledger_ok :: "nat \<Rightarrow> outcome_ledger \<Rightarrow> bool" where
  "ledger_ok capacity l \<longleftrightarrow>
     length l \<le> max capacity 1
     \<and> distinct (filter (\<lambda>i. i \<noteq> []) (map mo_order_id l))
     \<and> (\<forall>m\<in>set l. is_finite (mo_entry_price m) \<and> f_lt (Fin 0) (mo_entry_price m)
          \<and> (mo_resolved_at m = None \<longleftrightarrow> mo_net_directional_return_bps m = None))"

lemma keep_last_filter: "distinct (filter p (map f xs)) \<Longrightarrow> distinct (filter p (map f (keep_last n xs)))"
proof -
  assume "distinct (filter p (map f xs))"
  moreover have "filter p (map f xs) = filter p (map f (take (length xs - n) xs)) @ filter p (map f (keep_last n xs))"
    by (simp add: keep_last_def flip: filter_append map_append)
  ultimately show ?thesis by simp
qed

lemma set_keep_last: "set (keep_last n xs) \<subseteq> set xs"
  by (simp add: keep_last_def set_drop_subset)

lemma record_markout_ok: "ledger_ok capacity l \<Longrightarrow> mo_resolved_at m = None \<Longrightarrow>
    mo_net_directional_return_bps m = None \<Longrightarrow> ledger_ok capacity (record_markout m capacity l)"
proof -
  assume l: "ledger_ok capacity l" "mo_resolved_at m = None" "mo_net_directional_return_bps m = None"
  have price: "f_lt (Fin 0) (mo_entry_price m)" if "\<not> f_le (mo_entry_price m) (Fin 0)" "is_finite (mo_entry_price m)"
    using that by (auto simp: f_le_iff f_lt_iff is_finite_iff)
  have sub: "mo_order_id ` set (keep_last (max capacity 1 - 1) l) \<subseteq> mo_order_id ` set l"
    using set_keep_last by (rule image_mono)
  show ?thesis
    using l keep_last_filter [of "\<lambda>i. i \<noteq> []" mo_order_id l "max capacity 1 - 1"] price sub
      set_keep_last [of "max capacity 1 - 1" l]
    by (auto simp: record_markout_def ledger_ok_def length_keep_last split: if_splits)
qed

lemma resolve_item_frame:
  "mo_order_id (resolve_item snapshots now cost item) = mo_order_id item"
  "mo_entry_price (resolve_item snapshots now cost item) = mo_entry_price item"
  by (auto simp: resolve_item_def resolve_markout_def Let_def split: option.splits)

lemma resolve_item_paired:
  "(mo_resolved_at item = None \<longleftrightarrow> mo_net_directional_return_bps item = None) \<Longrightarrow>
     (mo_resolved_at (resolve_item snapshots now cost item) = None \<longleftrightarrow>
      mo_net_directional_return_bps (resolve_item snapshots now cost item) = None)"
  by (auto simp: resolve_item_def resolve_markout_def Let_def split: option.splits)

lemma resolve_due_ok: "ledger_ok capacity l \<Longrightarrow> ledger_ok capacity (snd (resolve_due snapshots now cost l))"
  by (auto simp: ledger_ok_def resolve_due_def resolve_item_frame resolve_item_paired comp_def)

lemma reachable_ledger_ok: "ledger_reachable capacity l \<Longrightarrow> ledger_ok capacity l"
  by (induction rule: ledger_reachable.induct)
    (auto simp: record_markout_ok resolve_due_ok, simp add: ledger_ok_def)

lemma resolved_stay:
  "mo_resolved_at item \<noteq> None \<Longrightarrow> resolve_item snapshots now cost item = item"
  by (auto simp: resolve_item_def is_due_def)

lemma resolved_counted:
  "length (filter (\<lambda>m. mo_resolved_at m \<noteq> None) (map (resolve_item snapshots now cost) l))
   = length (filter (\<lambda>m. mo_resolved_at m \<noteq> None) l) + length (filter (resolvable snapshots now) l)"
  by (induction l)
    (auto simp: resolve_item_def resolvable_def resolve_markout_def is_due_def Let_def split: option.splits)

lemma calibration_range: "oc_multiplier (calibration_for l symbol providers regime n) = NaN
    \<or> lit (55 / 100) \<le> oc_multiplier (calibration_for l symbol providers regime n)
       \<and> oc_multiplier (calibration_for l symbol providers regime n) \<le> Fin (5 / 4)"
proof -
  have "rnd (5 / 4) = Fin (5 / 4)" by (rule rnd_exact [where m = 5 and e = "- 2"]) (simp_all add: pow2_def)
  moreover have "rnd 1 = Fin 1" using rnd_of_int [of 1] by simp
  moreover have "rnd (55 / 100) \<le> rnd 1" by (rule rnd_mono) simp
  moreover have "rnd 1 \<le> rnd (5 / 4)" by (rule rnd_mono) simp
  ultimately have b: "rnd (55 / 100) \<le> Fin 1" "rnd (55 / 100) \<le> Fin (5 / 4)" by (simp, metis order_trans)
  show ?thesis
    using in_range_clamp [OF b(2)] b(1)
    by (auto simp: calibration_for_def default_calibration_def calibration_of_def in_range_def Let_def
        split: option.splits)
qed

text \<open>C23: A trade is measured once: in every execution the ledger stays within its capacity, holds no order
  twice, and resolving changes exactly the unresolved trades that are due and have a price, counts
  them, and never measures a resolved trade again.\<close>

theorem trades_are_measured_once:
  assumes "ledger_reachable capacity l" "resolve_due snapshots now cost l = (n, l')"
  shows "ledger_ok capacity l \<and> ledger_ok capacity l'
     \<and> length l' = length l
     \<and> (\<forall>i<length l. if resolvable snapshots now (l ! i)
           then mo_resolved_at (l' ! i) = Some now \<and> mo_net_directional_return_bps (l' ! i) \<noteq> None
           else l' ! i = l ! i)
     \<and> length (filter (\<lambda>m. mo_resolved_at m \<noteq> None) l')
         = length (filter (\<lambda>m. mo_resolved_at m \<noteq> None) l) + n"
proof -
  have l': "l' = map (resolve_item snapshots now cost) l" "n = length (filter (resolvable snapshots now) l)"
    using assms(2) by (simp_all add: resolve_due_def)
  have "resolve_item snapshots now cost m = m" if "\<not> resolvable snapshots now m" for m
    using that by (auto simp: resolve_item_def resolvable_def)
  moreover have "mo_resolved_at (resolve_item snapshots now cost m) = Some now
      \<and> mo_net_directional_return_bps (resolve_item snapshots now cost m) \<noteq> None"
    if "resolvable snapshots now m" for m
    using that by (auto simp: resolve_item_def resolvable_def resolve_markout_def Let_def)
  ultimately show ?thesis
    using reachable_ledger_ok [OF assms(1)] resolve_due_ok [of capacity l snapshots now cost] assms(2)
      resolved_counted [of snapshots now cost l]
    by (auto simp: l')
qed

definition sample_markout :: trade_markout where
  "sample_markout =
     \<lparr>mo_order_id = ''o1'', mo_executed_at = Fin 0, mo_due_at = Fin 60, mo_resolved_at = None,
      mo_exchange = ''binance'', mo_symbol = ''BTC/USDT'', mo_action = Buy, mo_amount_usd = Fin 10,
      mo_entry_price = Fin 100, mo_observed_price = None, mo_providers = [], mo_regime = ''range'',
      mo_gross_directional_return_bps = None, mo_net_directional_return_bps = None\<rparr>"

theorem trades_are_measured_once_witness:
  "ledger_ok 5 (record_markout sample_markout 5 [])"
proof -
  have "ledger_reachable 5 (record_markout sample_markout 5 [])"
    by (rule ledger_reachable.recorded [OF ledger_reachable.fresh]) (simp_all add: sample_markout_def)
  from trades_are_measured_once [OF this prod.collapse [symmetric]] show ?thesis by blast
qed

end
