(* ===== verification/PaperQualification.thy ===== *)
theory PaperQualification
  imports TradingConfig
begin

text \<open>
  \<^verbatim>\<open>src/src/trading/qualification.rs\<close>: the evidence of paper trading that admits live orders. The
  counters are \<open>u64\<close>, saturating at \<open>usize_max\<close>; the leases of recent intents are only looked up
  and purged, and are a map.
\<close>

section \<open>State and operations\<close>

record paper_state =
  pq_build_revision :: string
  pq_started_at :: "f64 option"
  pq_last_observation_at :: "f64 option"
  pq_qualified_at :: "f64 option"
  pq_evaluation_count_at_start :: nat
  pq_observed_evaluations :: nat
  pq_validated_intents :: nat
  pq_duplicate_intents_rejected :: nat
  pq_recent_intents :: "string \<Rightarrow> f64 option"

record paper_policy =
  pp_min_evaluations :: nat
  pp_min_validated_intents :: nat
  pp_validity_seconds :: f64
  pp_intent_lease_seconds :: f64

definition default_paper_state :: paper_state where
  "default_paper_state =
     \<lparr>pq_build_revision = [], pq_started_at = None, pq_last_observation_at = None, pq_qualified_at = None,
      pq_evaluation_count_at_start = 0, pq_observed_evaluations = 0, pq_validated_intents = 0,
      pq_duplicate_intents_rejected = 0, pq_recent_intents = (\<lambda>_. None)\<rparr>"

definition start_window :: "string \<Rightarrow> nat \<Rightarrow> f64 \<Rightarrow> paper_state" where
  "start_window revision evaluation_count now =
     default_paper_state\<lparr>pq_build_revision := revision, pq_started_at := Some now,
       pq_evaluation_count_at_start := evaluation_count\<rparr>"

definition reset_for_revision :: "string \<Rightarrow> nat \<Rightarrow> f64 \<Rightarrow> paper_state \<Rightarrow> paper_state" where
  "reset_for_revision revision evaluation_count now s =
     (if pq_build_revision s = revision then s else start_window revision evaluation_count now)"

definition meets_counts :: "paper_policy \<Rightarrow> paper_state \<Rightarrow> bool" where
  "meets_counts policy s \<longleftrightarrow>
     pp_min_evaluations policy \<le> pq_observed_evaluations s
     \<and> pp_min_validated_intents policy \<le> pq_validated_intents s"

definition is_qualified :: "string \<Rightarrow> f64 \<Rightarrow> paper_policy \<Rightarrow> paper_state \<Rightarrow> bool" where
  "is_qualified revision now policy s \<longleftrightarrow>
     pq_build_revision s = revision \<and> meets_counts policy s
     \<and> is_some_and (\<lambda>q. f_le (f_sub now q) (f_max (pp_validity_seconds policy) (Fin 1))) (pq_qualified_at s)"

text \<open>\<open>observe_intent\<close> in its steps: the window the observation falls into, and its entry there.\<close>

definition evidence_expired :: "f64 \<Rightarrow> paper_policy \<Rightarrow> paper_state \<Rightarrow> bool" where
  "evidence_expired now policy s \<longleftrightarrow>
     is_some_and (\<lambda>q. f_lt (f_max (pp_validity_seconds policy) (Fin 1)) (f_sub now q)) (pq_qualified_at s)"

definition current_window :: "string \<Rightarrow> nat \<Rightarrow> f64 \<Rightarrow> paper_policy \<Rightarrow> paper_state \<Rightarrow> paper_state" where
  "current_window revision evaluation_count now policy s =
     (let s = reset_for_revision revision evaluation_count now s
      in if evidence_expired now policy s then start_window revision evaluation_count now else s)"

definition retain_intents :: "f64 \<Rightarrow> (string \<Rightarrow> f64 option) \<Rightarrow> string \<Rightarrow> f64 option" where
  "retain_intents now intents = (\<lambda>k. option_filter (f_lt now) (intents k))"

definition intent_expiry :: "paper_policy \<Rightarrow> f64 \<Rightarrow> f64" where
  "intent_expiry policy now = f_add now (f_max (pp_intent_lease_seconds policy) (Fin 1))"

definition enter_intent :: "string \<Rightarrow> nat \<Rightarrow> f64 \<Rightarrow> paper_policy \<Rightarrow> paper_state \<Rightarrow> bool \<times> paper_state" where
  "enter_intent intent_key evaluation_count now policy s =
     (let intents = retain_intents now (pq_recent_intents s);
          is_new = (intents intent_key = None);
          s = s\<lparr>pq_observed_evaluations := max (pq_observed_evaluations s)
                  (evaluation_count - pq_evaluation_count_at_start s),
                pq_last_observation_at := Some now, pq_recent_intents := intents\<rparr>;
          s = (if is_new
               then s\<lparr>pq_validated_intents := usize_sat_add (pq_validated_intents s) 1,
                      pq_recent_intents := intents(intent_key \<mapsto> intent_expiry policy now)\<rparr>
               else s\<lparr>pq_duplicate_intents_rejected := usize_sat_add (pq_duplicate_intents_rejected s) 1\<rparr>)
      in (is_new,
          if meets_counts policy s
          then s\<lparr>pq_qualified_at := Some (unwrap_or now (pq_qualified_at s))\<rparr> else s))"

definition observe_intent ::
  "string \<Rightarrow> string \<Rightarrow> nat \<Rightarrow> f64 \<Rightarrow> paper_policy \<Rightarrow> paper_state \<Rightarrow> bool \<times> paper_state" where
  "observe_intent revision intent_key evaluation_count now policy s =
     enter_intent intent_key evaluation_count now policy (current_window revision evaluation_count now policy s)"

section \<open>Histories of observations\<close>

record paper_observation =
  po_revision :: string
  po_key :: string
  po_evaluations :: nat
  po_now :: f64

text \<open>
  The observations of a history, newest first, each with whether it was accepted, and the state
  after them.
\<close>

fun paper_run :: "paper_policy \<Rightarrow> paper_observation list \<Rightarrow> (paper_observation \<times> bool) list \<times> paper_state" where
  "paper_run policy [] = ([], default_paper_state)"
| "paper_run policy (x # older) =
     (let (done_before, s) = paper_run policy older;
          (accepted, s') = observe_intent (po_revision x) (po_key x) (po_evaluations x) (po_now x) policy s
      in ((x, accepted) # done_before, s'))"

text \<open>
  What the state says about the observations \<open>w\<close> of its window, newest first: the counters count
  them, the qualification is the time of one of them, and an accepted intent is leased until some
  later observation of the window reaches its expiry.
\<close>

definition evaluations_seen :: "(paper_observation \<times> bool) list \<Rightarrow> nat" where
  "evaluations_seen w = Max (insert 0 ((\<lambda>x. po_evaluations (fst x) - po_evaluations (fst (last w))) ` set w))"

definition window_describes :: "paper_policy \<Rightarrow> (paper_observation \<times> bool) list \<Rightarrow> paper_state \<Rightarrow> bool" where
  "window_describes policy w s \<longleftrightarrow>
     w \<noteq> [] \<and> (\<forall>x\<in>set w. po_revision (fst x) = pq_build_revision s)
     \<and> pq_evaluation_count_at_start s = po_evaluations (fst (last w))
     \<and> pq_observed_evaluations s = evaluations_seen w
     \<and> pq_validated_intents s \<le> length (filter snd w)
     \<and> (\<forall>q. pq_qualified_at s = Some q \<longrightarrow> q \<in> (\<lambda>x. po_now (fst x)) ` set w)"

definition leases_describe :: "paper_policy \<Rightarrow> (paper_observation \<times> bool) list \<Rightarrow> paper_state \<Rightarrow> bool" where
  "leases_describe policy w s \<longleftrightarrow>
     (\<forall>i<length w. snd (w ! i) \<longrightarrow>
        (\<forall>j<i. f_lt (po_now (fst (w ! j))) (intent_expiry policy (po_now (fst (w ! i))))) \<longrightarrow>
        pq_recent_intents s (po_key (fst (w ! i))) = Some (intent_expiry policy (po_now (fst (w ! i)))))"


text \<open>No accepted intent repeats one of the same key whose lease no observation since has outlived.\<close>

definition accepted_spaced :: "paper_policy \<Rightarrow> (paper_observation \<times> bool) list \<Rightarrow> bool" where
  "accepted_spaced policy w \<longleftrightarrow>
     (\<forall>i j. i < j \<longrightarrow> j < length w \<longrightarrow> snd (w ! i) \<longrightarrow> snd (w ! j) \<longrightarrow>
        po_key (fst (w ! i)) = po_key (fst (w ! j)) \<longrightarrow>
        (\<exists>k. i \<le> k \<and> k < j \<and> \<not> f_lt (po_now (fst (w ! k))) (intent_expiry policy (po_now (fst (w ! j))))))"

definition window_ok :: "paper_policy \<Rightarrow> (paper_observation \<times> bool) list \<Rightarrow> paper_state \<Rightarrow> bool" where
  "window_ok policy w s \<longleftrightarrow> window_describes policy w s \<and> leases_describe policy w s \<and> accepted_spaced policy w"

section \<open>The state describes its window\<close>

lemma evaluations_seen_single [simp]: "evaluations_seen [x] = 0"
  by (simp add: evaluations_seen_def)

lemma evaluations_seen_Cons: "w \<noteq> [] \<Longrightarrow>
    evaluations_seen (x # w) = max (evaluations_seen w) (po_evaluations (fst x) - po_evaluations (fst (last w)))"
  by (simp add: evaluations_seen_def insert_commute max.commute)

lemma evaluations_seen_attained: "0 < n \<Longrightarrow> n \<le> evaluations_seen w \<Longrightarrow>
    \<exists>x\<in>set w. n \<le> po_evaluations (fst x) - po_evaluations (fst (last w))"
  unfolding evaluations_seen_def by (subst (asm) Max_ge_iff) auto

lemma enter_intent_fields:
  assumes "enter_intent k n now policy s = (accepted, s')"
  shows "accepted \<longleftrightarrow> retain_intents now (pq_recent_intents s) k = None"
    "pq_build_revision s' = pq_build_revision s"
    "pq_evaluation_count_at_start s' = pq_evaluation_count_at_start s"
    "pq_observed_evaluations s' = max (pq_observed_evaluations s) (n - pq_evaluation_count_at_start s)"
    "pq_validated_intents s' = (if accepted then usize_sat_add (pq_validated_intents s) 1 else pq_validated_intents s)"
    "pq_recent_intents s' = (if accepted
        then (retain_intents now (pq_recent_intents s))(k \<mapsto> intent_expiry policy now)
        else retain_intents now (pq_recent_intents s))"
    "pq_qualified_at s' = pq_qualified_at s \<or> pq_qualified_at s = None \<and> pq_qualified_at s' = Some now"
  using assms by (cases "pq_qualified_at s"; auto simp: enter_intent_def Let_def split: if_splits)+

lemma start_window_fields [simp]:
  "pq_build_revision (start_window r n now) = r"
  "pq_evaluation_count_at_start (start_window r n now) = n"
  "pq_observed_evaluations (start_window r n now) = 0"
  "pq_validated_intents (start_window r n now) = 0"
  "pq_recent_intents (start_window r n now) = (\<lambda>_. None)"
  "pq_qualified_at (start_window r n now) = None"
  by (simp_all add: start_window_def default_paper_state_def)

lemma retain_nothing [simp]: "retain_intents now (\<lambda>_. None) = (\<lambda>_. None)"
  by (simp add: retain_intents_def option_filter_def)

lemma first_observation_ok:
  assumes "enter_intent (po_key x) (po_evaluations x) (po_now x) policy
      (start_window (po_revision x) (po_evaluations x) (po_now x)) = (accepted, s')"
  shows "window_ok policy [(x, accepted)] s'"
  using enter_intent_fields [OF assms]
  by (auto simp: window_ok_def window_describes_def leases_describe_def accepted_spaced_def usize_sat_add_def)

lemma retained_live: "intents k = Some e \<Longrightarrow> f_lt now e \<Longrightarrow> retain_intents now intents k = Some e"
  by (simp add: retain_intents_def option_filter_def)

lemma next_observation_ok:
  assumes w: "window_ok policy w s" and r: "po_revision x = pq_build_revision s"
    and s': "enter_intent (po_key x) (po_evaluations x) (po_now x) policy s = (accepted, s')"
  shows "window_ok policy ((x, accepted) # w) s'"
proof -
  note f = enter_intent_fields [OF s']
  have d: "window_describes policy w s" and l: "leases_describe policy w s" and a: "accepted_spaced policy w"
    using w by (simp_all add: window_ok_def)
  have live: "retain_intents (po_now x) (pq_recent_intents s) (po_key (fst (w ! i)))
      = Some (intent_expiry policy (po_now (fst (w ! i))))"
    if "i < length w" "snd (w ! i)" "f_lt (po_now x) (intent_expiry policy (po_now (fst (w ! i))))"
      "\<forall>j<i. f_lt (po_now (fst (w ! j))) (intent_expiry policy (po_now (fst (w ! i))))" for i
    using l that by (intro retained_live) (auto simp: leases_describe_def)
  have "window_describes policy ((x, accepted) # w) s'"
    using d r f by (auto simp: window_describes_def evaluations_seen_Cons usize_sat_add_def)
  moreover have "leases_describe policy ((x, accepted) # w) s'"
  proof (unfold leases_describe_def, intro allI impI)
    fix i
    assume i: "i < length ((x, accepted) # w)" "snd (((x, accepted) # w) ! i)"
      and fresh: "\<forall>j<i. f_lt (po_now (fst (((x, accepted) # w) ! j)))
        (intent_expiry policy (po_now (fst (((x, accepted) # w) ! i))))"
    show "pq_recent_intents s' (po_key (fst (((x, accepted) # w) ! i)))
        = Some (intent_expiry policy (po_now (fst (((x, accepted) # w) ! i))))"
    proof (cases i)
      case 0
      then show ?thesis using i f(6) by simp
    next
      case (Suc m)
      have "f_lt (po_now x) (intent_expiry policy (po_now (fst (w ! m))))"
        using fresh Suc by (auto dest: spec [of _ 0])
      moreover have "\<forall>j<m. f_lt (po_now (fst (w ! j))) (intent_expiry policy (po_now (fst (w ! m))))"
        using fresh Suc by (auto dest: spec [of _ "Suc _"])
      ultimately have "retain_intents (po_now x) (pq_recent_intents s) (po_key (fst (w ! m)))
          = Some (intent_expiry policy (po_now (fst (w ! m))))"
        using i Suc live [of m] by simp
      then show ?thesis using f(1) f(6) Suc by auto
    qed
  qed
  moreover have "accepted_spaced policy ((x, accepted) # w)"
  proof (unfold accepted_spaced_def, intro allI impI)
    fix i j
    assume ij: "i < j" "j < length ((x, accepted) # w)" "snd (((x, accepted) # w) ! i)" "snd (((x, accepted) # w) ! j)"
      "po_key (fst (((x, accepted) # w) ! i)) = po_key (fst (((x, accepted) # w) ! j))"
    obtain m where m: "j = Suc m" using ij by (cases j) auto
    show "\<exists>k. i \<le> k \<and> k < j \<and> \<not> f_lt (po_now (fst (((x, accepted) # w) ! k)))
        (intent_expiry policy (po_now (fst (((x, accepted) # w) ! j))))"
    proof (cases i)
      case 0
      then have "retain_intents (po_now x) (pq_recent_intents s) (po_key (fst (w ! m))) = None"
        using ij m f(1) by simp
      then have "\<not> (f_lt (po_now x) (intent_expiry policy (po_now (fst (w ! m))))
          \<and> (\<forall>k<m. f_lt (po_now (fst (w ! k))) (intent_expiry policy (po_now (fst (w ! m))))))"
        using live [of m] ij m by auto
      then consider "\<not> f_lt (po_now x) (intent_expiry policy (po_now (fst (w ! m))))"
        | k where "k < m" "\<not> f_lt (po_now (fst (w ! k))) (intent_expiry policy (po_now (fst (w ! m))))" by blast
      then show ?thesis
      proof cases
        case 1
        then show ?thesis using m 0 by (intro exI [of _ 0]) simp
      next
        case (2 k)
        then show ?thesis using m 0 by (intro exI [of _ "Suc k"]) simp
      qed
    next
      case (Suc n)
      then have "n < m \<and> m < length w \<and> snd (w ! n) \<and> snd (w ! m) \<and> po_key (fst (w ! n)) = po_key (fst (w ! m))"
        using ij m by simp
      then obtain k where "n \<le> k" "k < m" "\<not> f_lt (po_now (fst (w ! k))) (intent_expiry policy (po_now (fst (w ! m))))"
        using a by (auto simp: accepted_spaced_def)
      then show ?thesis using m Suc by (intro exI [of _ "Suc k"]) simp
    qed
  qed
  ultimately show ?thesis by (simp add: window_ok_def)
qed

lemma run_window_ok:
  "\<forall>x\<in>set h. po_revision x \<noteq> [] \<Longrightarrow> paper_run policy h = (w, s) \<Longrightarrow>
     (s = default_paper_state) \<or> (\<exists>n. window_ok policy (take n w) s)"
proof (induction h arbitrary: w s)
  case (Cons x h)
  obtain v t where run: "paper_run policy h = (v, t)" by (cases "paper_run policy h")
  obtain accepted s' where o': "observe_intent (po_revision x) (po_key x) (po_evaluations x) (po_now x) policy t
      = (accepted, s')" by (cases "observe_intent (po_revision x) (po_key x) (po_evaluations x) (po_now x) policy t")
  have ws: "w = (x, accepted) # v" "s = s'" using Cons.prems run o' by auto
  define u where "u = current_window (po_revision x) (po_evaluations x) (po_now x) policy t"
  have enter: "enter_intent (po_key x) (po_evaluations x) (po_now x) policy u = (accepted, s')"
    using o' by (simp add: observe_intent_def u_def)
  show ?case
  proof (cases "u = start_window (po_revision x) (po_evaluations x) (po_now x)")
    case True
    then have "window_ok policy (take 1 w) s" using first_observation_ok enter ws by simp
    then show ?thesis by blast
  next
    case False
    then have u: "u = t" "po_revision x = pq_build_revision t"
      by (auto simp: u_def current_window_def reset_for_revision_def Let_def split: if_splits)
    moreover have "po_revision x \<noteq> []" using Cons.prems by simp
    ultimately obtain n where "window_ok policy (take n v) t"
      using Cons.IH [OF _ run] Cons.prems by (auto simp: default_paper_state_def)
    then have "window_ok policy (take (Suc n) w) s" using next_observation_ok enter u ws by simp
    then show ?thesis by blast
  qed
qed simp

section \<open>What a qualification rests on\<close>

text \<open>C9: A build that is qualified for live orders is qualified by its own, recent paper trading: there
  is a latest stretch of observations, all of this build, with enough accepted intents, none
  repeating another whose lease was still running, over enough evaluations since the stretch
  began, and the qualification is the time of one of them, within its validity.\<close>

theorem live_trading_rests_on_paper_evidence:
  assumes "paper_run policy h = (w, s)" "\<forall>x\<in>set h. po_revision x \<noteq> []"
    and "is_qualified revision now policy s" "0 < pp_min_evaluations policy"
  shows "\<exists>n. (\<forall>x\<in>set (take n w). po_revision (fst x) = revision)
      \<and> pp_min_validated_intents policy \<le> length (filter snd (take n w))
      \<and> accepted_spaced policy (take n w)
      \<and> (\<exists>x\<in>set (take n w). pp_min_evaluations policy
            \<le> po_evaluations (fst x) - po_evaluations (fst (last (take n w))))
      \<and> (\<exists>x\<in>set (take n w). pq_qualified_at s = Some (po_now (fst x))
            \<and> f_le (f_sub now (po_now (fst x))) (f_max (pp_validity_seconds policy) (Fin 1)))"
proof -
  have q: "pq_build_revision s = revision" "pp_min_evaluations policy \<le> pq_observed_evaluations s"
      "pp_min_validated_intents policy \<le> pq_validated_intents s"
    using assms(3) by (simp_all add: is_qualified_def meets_counts_def)
  obtain t where t: "pq_qualified_at s = Some t" "f_le (f_sub now t) (f_max (pp_validity_seconds policy) (Fin 1))"
    using assms(3) by (cases "pq_qualified_at s") (auto simp: is_qualified_def)
  then have "s \<noteq> default_paper_state" by (auto simp: default_paper_state_def)
  then obtain n where n: "window_describes policy (take n w) s" "accepted_spaced policy (take n w)"
    using run_window_ok [OF assms(2,1)] by (auto simp: window_ok_def)
  have "\<exists>x\<in>set (take n w). pp_min_evaluations policy
      \<le> po_evaluations (fst x) - po_evaluations (fst (last (take n w)))"
    using n(1) q(2) assms(4) evaluations_seen_attained by (simp add: window_describes_def)
  then show ?thesis
    using n q(1,3) t by (intro exI [of _ n]) (auto simp: window_describes_def)
qed

definition sample_paper_policy :: paper_policy where
  "sample_paper_policy = \<lparr>pp_min_evaluations = 3, pp_min_validated_intents = 2, pp_validity_seconds = Fin 100,
     pp_intent_lease_seconds = Fin 10\<rparr>"

definition sample_observations :: "paper_observation list" where
  "sample_observations =
     [\<lparr>po_revision = ''rev-a'', po_key = ''sell:y'', po_evaluations = 5, po_now = Fin 12\<rparr>,
      \<lparr>po_revision = ''rev-a'', po_key = ''buy:x'', po_evaluations = 5, po_now = Fin 11\<rparr>,
      \<lparr>po_revision = ''rev-a'', po_key = ''buy:x'', po_evaluations = 2, po_now = Fin 10\<rparr>]"

lemma sample_sums: "rnd 20 = Fin 20" "rnd 21 = Fin 21" "rnd 22 = Fin 22" "rnd (of_int 0) = Fin 0"
  using rnd_of_int [of 20] rnd_of_int [of 21] rnd_of_int [of 22] rnd_of_int [of 0] by simp_all

lemma sample_qualified: "is_qualified ''rev-a'' (Fin 12) sample_paper_policy (snd (paper_run sample_paper_policy sample_observations))"
  using rnd_of_int [of 0]
  by (simp add: sample_observations_def sample_paper_policy_def observe_intent_def enter_intent_def current_window_def
      reset_for_revision_def evidence_expired_def start_window_def default_paper_state_def retain_intents_def
      option_filter_def is_some_and_def Let_def meets_counts_def usize_sat_add_def usize_max_def intent_expiry_def
      f_max_def max_def unwrap_or_def is_qualified_def f_sub_def f_neg_def sample_sums)

theorem live_trading_rests_on_paper_evidence_witness:
  "\<exists>n. 2 \<le> length (filter snd (take n (fst (paper_run sample_paper_policy sample_observations))))"
proof -
  have "\<forall>x\<in>set sample_observations. po_revision x \<noteq> []" by (simp add: sample_observations_def)
  from live_trading_rests_on_paper_evidence [OF prod.collapse [symmetric] this sample_qualified]
  show ?thesis by (auto simp: sample_paper_policy_def)
qed

end
