(* ===== verification/TradingState.thy ===== *)
theory TradingState
  imports TradeOutcomes PaperQualification
begin

text \<open>
  The state the bridge loop shares with the HTTP handlers, \<^verbatim>\<open>src/src/trading/state.rs\<close>: the trade
  ledger and its rings, the durable leases of orders, what is restored after a restart; and the
  conversion of OctoBot's trade rows (\<^verbatim>\<open>imported_trade_from_octobot\<close> of \<^verbatim>\<open>src/src/trading/mod.rs\<close>).
  A deque is a list, oldest first; a hash map that is only looked up and purged is a map. The
  evaluation counter is \<open>u64\<close>, saturating where the code saturates it. Time stamps and JSON
  contexts of log entries are not modelled, nor is the JSON text of the state on disk. What other
  components keep in the state (schema, migration, calibration, sleeves, the open orders) is the
  field \<open>st_rest\<close>.
\<close>

section \<open>Executed trades\<close>

datatype trade_source = GailFill | OctobotImported

record executed_trade =
  xt_ts :: f64
  xt_exchange :: string
  xt_symbol :: string
  xt_action :: trade_action
  xt_amount_usd :: f64
  xt_price :: "f64 option"
  xt_order_id :: "string option"
  xt_confidence :: f64
  xt_rationale :: string
  xt_fuzzy_confidence :: f64
  xt_ai_confidence :: f64
  xt_source :: trade_source

fun action_name :: "trade_action \<Rightarrow> string" where
  "action_name Buy = ''buy''"
| "action_name Sell = ''sell''"
| "action_name Hold = ''hold''"
| "action_name StrongBuy = ''strong_buy''"
| "action_name StrongSell = ''strong_sell''"
| "action_name CancelOrder = ''cancel''"

text \<open>
  \<open>{:.p}\<close> of a float: the exact value rounded to \<open>p\<close> decimals, ties to even. The sign of a
  negative value is kept when it rounds to zero.
\<close>

fun padded :: "nat \<Rightarrow> string \<Rightarrow> string" where
  "padded n s = replicate (n - length s) CHR ''0'' @ s"

definition format_fixed :: "nat \<Rightarrow> f64 \<Rightarrow> string" where
  "format_fixed p x =
     (case x of NaN \<Rightarrow> ''NaN'' | PInf \<Rightarrow> ''inf'' | NInf \<Rightarrow> ''-inf''
      | Fin q \<Rightarrow>
          let n = nat (round_half_even (\<bar>q\<bar> * 10 ^ p)); digits = decimal (n div 10 ^ p)
          in (if q < 0 then ''-'' else []) @ digits
             @ (if p = 0 then [] else ''.'' @ padded p (decimal (n mod 10 ^ p))))"

definition trade_identity :: "executed_trade \<Rightarrow> string" where
  "trade_identity t =
     (case option_filter (\<lambda>i. trim i \<noteq> []) (xt_order_id t) of
        Some i \<Rightarrow> ''order:'' @ to_ascii_lowercase (xt_exchange t) @ '':'' @ i
      | None \<Rightarrow> ''fallback:'' @ join_with ''|''
          [format_fixed 3 (xt_ts t), to_ascii_lowercase (xt_exchange t), to_ascii_uppercase (xt_symbol t),
           action_name (xt_action t), format_fixed 8 (xt_amount_usd t),
           format_fixed 8 (unwrap_or (Fin 0) (xt_price t))])"

record octobot_trade =
  ot_id :: "string option"
  ot_exchange :: string
  ot_symbol :: string
  ot_side :: string
  ot_amount :: f64
  ot_price :: f64
  ot_cost :: f64
  ot_fee :: "f64 option"
  ot_timestamp :: "f64 option"

definition imported_trade_from_octobot :: "octobot_trade \<Rightarrow> executed_trade option" where
  "imported_trade_from_octobot t =
     (case option_filter (\<lambda>v. is_finite v \<and> f_lt (Fin 0) v) (ot_timestamp t) of
        None \<Rightarrow> None
      | Some ts \<Rightarrow>
          (case if to_ascii_lowercase (ot_side t) = ''buy'' then Some Buy
                else if to_ascii_lowercase (ot_side t) = ''sell'' then Some Sell else None of
             None \<Rightarrow> None
           | Some action \<Rightarrow>
               let price = option_filter (f_lt (Fin 0)) (if is_finite (ot_price t) then Some (ot_price t) else None);
                   amount = (if is_finite (ot_cost t) \<and> f_lt (Fin 0) (ot_cost t) then ot_cost t
                             else f_mul (ot_amount t) (unwrap_or (Fin 0) price))
               in if \<not> is_finite amount \<or> f_le amount (Fin 0) then None
                  else Some \<lparr>xt_ts = ts, xt_exchange = ot_exchange t, xt_symbol = ot_symbol t, xt_action = action,
                         xt_amount_usd = amount, xt_price = price, xt_order_id = ot_id t, xt_confidence = Fin 0,
                         xt_rationale = ''Imported from OctoBot execution history'',
                         xt_fuzzy_confidence = Fin 0, xt_ai_confidence = Fin 0, xt_source = OctobotImported\<rparr>))"

section \<open>The state\<close>

record intent_claim =
  ic_authority :: string
  ic_claimed_at :: f64
  ic_expires_at :: f64

record trade_override =
  to_action :: trade_action
  to_exchange :: "string option"
  to_symbol :: "string option"
  to_amount_usd :: "f64 option"
  to_reason :: "string option"
  to_issued_at :: f64
  to_issued_by :: string

record log_entry =
  le_level :: string
  le_category :: string
  le_message :: string

datatype approach_assessment = Viable | Marginal | Unprofitable | Incomplete

record backtest_summary =
  bs_run_at :: f64
  bs_assessment :: approach_assessment
  bs_profitability_pct :: "f64 option"
  bs_market_avg_pct :: "f64 option"
  bs_beats_market :: "bool option"
  bs_total_trades :: nat
  bs_errors_count :: nat
  bs_symbols :: "string list"
  bs_notes :: string
  bs_run_id :: "nat option"

record 'r trading_state =
  st_paused :: bool
  st_last_evaluation_at :: "f64 option"
  st_last_trade_at :: "f64 option"
  st_evaluation_count :: nat
  st_trade_count :: u64
  st_pending_override :: "trade_override option"
  st_current_portfolio :: "octobot_portfolio option"
  st_available_exchanges :: "octobot_exchange list"
  st_exchange_circuit :: circuits
  st_recent_trades :: "executed_trade list"
  st_trade_history :: "executed_trade list"
  st_activity_log :: "log_entry list"
  st_last_error :: "string option"
  st_config_overrides :: "trading_override option"
  st_log_ring_size :: nat
  st_trade_ring_size :: nat
  st_last_backtest :: "backtest_summary option"
  st_backtest_in_progress :: bool
  st_backtest_history :: "backtest_summary list"
  st_external_log_fingerprints :: "string list"
  st_in_flight_order_intents :: "string \<Rightarrow> intent_claim option"
  st_outcome_ledger :: outcome_ledger
  st_execution_telemetry :: "cost_observation list"
  st_paper_qualification :: paper_state
  st_rest :: 'r

definition new_trading_state :: "nat \<Rightarrow> nat \<Rightarrow> 'r \<Rightarrow> 'r trading_state" where
  "new_trading_state log_ring trade_ring rest =
     \<lparr>st_paused = False, st_last_evaluation_at = None, st_last_trade_at = None, st_evaluation_count = 0,
      st_trade_count = 0, st_pending_override = None, st_current_portfolio = None, st_available_exchanges = [],
      st_exchange_circuit = (\<lambda>_. None), st_recent_trades = [], st_trade_history = [], st_activity_log = [],
      st_last_error = None, st_config_overrides = None, st_log_ring_size = log_ring,
      st_trade_ring_size = trade_ring, st_last_backtest = None, st_backtest_in_progress = False,
      st_backtest_history = [], st_external_log_fingerprints = [], st_in_flight_order_intents = (\<lambda>_. None),
      st_outcome_ledger = [], st_execution_telemetry = [], st_paper_qualification = default_paper_state,
      st_rest = rest\<rparr>"

text \<open>A ring: the oldest entry leaves once the ring is full.\<close>

definition push_ring :: "nat \<Rightarrow> 'a \<Rightarrow> 'a list \<Rightarrow> 'a list" where
  "push_ring size_limit x xs = (if size_limit \<le> length xs then tl xs else xs) @ [x]"

definition st_log :: "string \<Rightarrow> string \<Rightarrow> string \<Rightarrow> 'r trading_state \<Rightarrow> 'r trading_state" where
  "st_log level category message s =
     s\<lparr>st_activity_log := push_ring (st_log_ring_size s)
         \<lparr>le_level = level, le_category = category, le_message = message\<rparr> (st_activity_log s)\<rparr>"

definition log_info :: "string \<Rightarrow> string \<Rightarrow> 'r trading_state \<Rightarrow> 'r trading_state" where
  "log_info category message = st_log ''info'' category message"

definition log_warn :: "string \<Rightarrow> string \<Rightarrow> 'r trading_state \<Rightarrow> 'r trading_state" where
  "log_warn category message = st_log ''warn'' category message"

definition log_error :: "string \<Rightarrow> string \<Rightarrow> 'r trading_state \<Rightarrow> 'r trading_state" where
  "log_error category message s = st_log ''error'' category message (s\<lparr>st_last_error := Some message\<rparr>)"

section \<open>Trades\<close>

fun append_history :: "executed_trade \<Rightarrow> executed_trade list \<Rightarrow> executed_trade list" where
  "append_history t [] = [t]"
| "append_history t (e # es) =
     (if trade_identity e = trade_identity t
      then (if xt_source e = OctobotImported \<and> xt_source t = GailFill then t else e) # es
      else e # append_history t es)"

definition record_trade :: "executed_trade \<Rightarrow> 'r trading_state \<Rightarrow> 'r trading_state" where
  "record_trade t s =
     s\<lparr>st_last_trade_at := Some (xt_ts t), st_trade_count := st_trade_count s + 1,
       st_trade_history := append_history t (st_trade_history s),
       st_recent_trades := push_ring (st_trade_ring_size s) t (st_recent_trades s)\<rparr>"

definition rebuild_recent_trades :: "'r trading_state \<Rightarrow> 'r trading_state" where
  "rebuild_recent_trades s =
     s\<lparr>st_recent_trades := rev (take (st_trade_ring_size s) (rev (st_trade_history s)))\<rparr>"

fun unseen_trades :: "string set \<Rightarrow> executed_trade list \<Rightarrow> executed_trade list" where
  "unseen_trades seen [] = []"
| "unseen_trades seen (t # ts) =
     (if trade_identity t \<in> seen then unseen_trades seen ts
      else t # unseen_trades (insert (trade_identity t) seen) ts)"

definition import_trade_history ::
  "executed_trade list \<Rightarrow> 'r trading_state \<Rightarrow> nat \<times> 'r trading_state" where
  "import_trade_history trades s =
     (let fresh = unseen_trades (set (map trade_identity (st_trade_history s))) trades
      in if fresh = [] then (0, s)
         else (length fresh, rebuild_recent_trades
                (s\<lparr>st_trade_history := sort_key xt_ts (st_trade_history s @ fresh)\<rparr>)))"

section \<open>Other records\<close>

definition record_backtest :: "backtest_summary \<Rightarrow> 'r trading_state \<Rightarrow> 'r trading_state" where
  "record_backtest b s =
     s\<lparr>st_backtest_history := push_ring 20 b (st_backtest_history s), st_last_backtest := Some b,
       st_backtest_in_progress := False\<rparr>"

definition take_override :: "'r trading_state \<Rightarrow> trade_override option \<times> 'r trading_state" where
  "take_override s = (st_pending_override s, s\<lparr>st_pending_override := None\<rparr>)"

definition remember_external_log :: "string \<Rightarrow> 'r trading_state \<Rightarrow> bool \<times> 'r trading_state" where
  "remember_external_log fingerprint s =
     (if fingerprint \<in> set (st_external_log_fingerprints s) then (False, s)
      else (True, s\<lparr>st_external_log_fingerprints :=
              push_ring 500 fingerprint (st_external_log_fingerprints s)\<rparr>))"

definition is_cash_asset :: "string \<Rightarrow> bool" where
  "is_cash_asset asset \<longleftrightarrow> to_ascii_uppercase (trim asset) \<in>
     {''USD'', ''USDT'', ''USDC'', ''BUSD'', ''DAI'', ''EUR'', ''GBP''}"

definition open_position_count :: "'r trading_state \<Rightarrow> nat" where
  "open_position_count s =
     (case st_current_portfolio s of
        None \<Rightarrow> 0
      | Some p \<Rightarrow> length (filter (\<lambda>(asset, b). \<not> is_cash_asset asset \<and> is_finite (cb_total b)
            \<and> f_lt (Fin 0) (cb_total b)
            \<and> is_some_and (\<lambda>v. is_finite v \<and> f_lt (lit (1 / 100)) v) (cb_value_usd b)) (op_currencies p)))"

text \<open>
  What is restored from the state on disk. The rings keep their configured sizes; the portfolio,
  the exchanges, the pending override and the last error are the running state's. \<open>restore_rest\<close> restores what the other components keep.
\<close>

definition restore_from ::
  "('r \<Rightarrow> 'r \<Rightarrow> 'r) \<Rightarrow> 'r trading_state \<Rightarrow> 'r trading_state \<Rightarrow> 'r trading_state" where
  "restore_from restore_rest d s =
     log_info ''startup'' ''Restored trading state from disk'' (rebuild_recent_trades
       (s\<lparr>st_paused := st_paused d, st_evaluation_count := st_evaluation_count d,
          st_trade_count := st_trade_count d, st_last_evaluation_at := st_last_evaluation_at d,
          st_last_trade_at := st_last_trade_at d, st_activity_log := st_activity_log d,
          st_config_overrides := st_config_overrides d, st_last_backtest := st_last_backtest d,
          st_backtest_history := st_backtest_history d, st_exchange_circuit := st_exchange_circuit d,
          st_trade_history :=
            (if st_trade_history d = [] then st_recent_trades d else st_trade_history d),
          st_external_log_fingerprints := st_external_log_fingerprints d,
          st_in_flight_order_intents := st_in_flight_order_intents d,
          st_outcome_ledger := st_outcome_ledger d, st_execution_telemetry := st_execution_telemetry d,
          st_paper_qualification := st_paper_qualification d, st_rest := restore_rest (st_rest s) (st_rest d)\<rparr>))"


section \<open>The ledger and the rings\<close>

text \<open>The part of the state the operations above are about; every other operation keeps it.\<close>

definition ledger_view where
  "ledger_view s = (st_recent_trades s, st_trade_history s, st_activity_log s, st_log_ring_size s,
     st_trade_ring_size s, st_backtest_history s, st_external_log_fingerprints s)"

inductive state_reachable :: "('r \<Rightarrow> 'r \<Rightarrow> 'r) \<Rightarrow> nat \<Rightarrow> nat \<Rightarrow> 'r trading_state \<Rightarrow> bool" for restore_rest L R where
  fresh: "state_reachable restore_rest L R (new_trading_state L R rest)"
| filled: "state_reachable restore_rest L R s \<Longrightarrow> state_reachable restore_rest L R (record_trade t s)"
| imported: "state_reachable restore_rest L R s \<Longrightarrow> state_reachable restore_rest L R (snd (import_trade_history ts s))"
| logged: "state_reachable restore_rest L R s \<Longrightarrow> state_reachable restore_rest L R (st_log level category message s)"
| backtested: "state_reachable restore_rest L R s \<Longrightarrow> state_reachable restore_rest L R (record_backtest b s)"
| observed: "state_reachable restore_rest L R s \<Longrightarrow> state_reachable restore_rest L R (snd (remember_external_log f s))"
| restored: "state_reachable restore_rest L R s \<Longrightarrow> state_reachable restore_rest L R d \<Longrightarrow>
    state_reachable restore_rest L R (restore_from restore_rest d s)"
| other: "state_reachable restore_rest L R s \<Longrightarrow> ledger_view s' = ledger_view s \<Longrightarrow> state_reachable restore_rest L R s'"

definition identities :: "executed_trade list \<Rightarrow> string set" where
  "identities ts = trade_identity ` set ts"

definition ledgers_ok :: "nat \<Rightarrow> nat \<Rightarrow> 'r trading_state \<Rightarrow> bool" where
  "ledgers_ok L R s \<longleftrightarrow>
     st_log_ring_size s = L \<and> st_trade_ring_size s = R
     \<and> distinct (map trade_identity (st_trade_history s))
     \<and> identities (st_recent_trades s) \<subseteq> identities (st_trade_history s)
     \<and> length (st_recent_trades s) \<le> max R 1
     \<and> length (st_activity_log s) \<le> max L 1
     \<and> length (st_backtest_history s) \<le> 20
     \<and> distinct (st_external_log_fingerprints s) \<and> length (st_external_log_fingerprints s) \<le> 500"

lemma length_push_ring: "length xs \<le> max n 1 \<Longrightarrow> length (push_ring n x xs) \<le> max n 1"
  by (cases xs) (auto simp: push_ring_def)

lemma set_push_ring: "set (push_ring n x xs) \<subseteq> insert x (set xs)"
  by (cases xs) (auto simp: push_ring_def)

lemma distinct_push_ring: "distinct xs \<Longrightarrow> x \<notin> set xs \<Longrightarrow> distinct (push_ring n x xs)"
  by (cases xs) (auto simp: push_ring_def)

lemma identities_append_history [simp]: "identities (append_history t es) = insert (trade_identity t) (identities es)"
  by (induction es) (auto simp: identities_def)

lemma distinct_append_history:
  "distinct (map trade_identity es) \<Longrightarrow> distinct (map trade_identity (append_history t es))"
proof (induction es)
  case (Cons e es)
  have "trade_identity ` set (append_history t es) = insert (trade_identity t) (trade_identity ` set es)"
    using identities_append_history [of t es] by (simp add: identities_def)
  then show ?case using Cons by auto
qed simp

lemma unseen_trades_facts:
  "distinct (map trade_identity (unseen_trades seen ts))"
  "identities (unseen_trades seen ts) = identities ts - seen"
  by (induction seen ts rule: unseen_trades.induct) (auto simp: identities_def)

lemma unseen_trades_none: "identities ts \<subseteq> seen \<Longrightarrow> unseen_trades seen ts = []"
  by (induction seen ts rule: unseen_trades.induct) (auto simp: identities_def)

lemma identities_sort [simp]: "identities (sort_key f ts) = identities ts"
  by (simp add: identities_def)

lemma identities_Un [simp]: "identities (xs @ ys) = identities xs \<union> identities ys"
  by (auto simp: identities_def)

lemma distinct_map_sort_key: "distinct (map g (sort_key f xs)) \<longleftrightarrow> distinct (map g xs)"
  by (simp add: distinct_map)

lemma recent_rebuilt: "identities (rev (take n (rev h))) \<subseteq> identities h"
  using set_take_subset [of n "rev h"] by (auto simp: identities_def)

lemma import_fields:
  assumes "import_trade_history ts s = (n, s')"
  obtains fresh where
    "fresh = unseen_trades (identities (st_trade_history s)) ts" "n = length fresh"
    "st_trade_history s' = (if fresh = [] then st_trade_history s else sort_key xt_ts (st_trade_history s @ fresh))"
    "st_recent_trades s' = (if fresh = [] then st_recent_trades s
       else rev (take (st_trade_ring_size s) (rev (st_trade_history s'))))"
    "st_trade_ring_size s' = st_trade_ring_size s" "st_log_ring_size s' = st_log_ring_size s"
    "st_activity_log s' = st_activity_log s" "st_backtest_history s' = st_backtest_history s"
    "st_external_log_fingerprints s' = st_external_log_fingerprints s" "st_trade_count s' = st_trade_count s"
    "fresh = [] \<Longrightarrow> s' = s"
  using assms by (auto simp: import_trade_history_def rebuild_recent_trades_def identities_def Let_def split: if_splits)

lemma import_ok: "ledgers_ok L R s \<Longrightarrow> import_trade_history ts s = (n, s') \<Longrightarrow> ledgers_ok L R s'"
proof -
  assume ok: "ledgers_ok L R s" and i: "import_trade_history ts s = (n, s')"
  obtain fresh where f: "fresh = unseen_trades (identities (st_trade_history s)) ts"
    "st_trade_history s' = (if fresh = [] then st_trade_history s else sort_key xt_ts (st_trade_history s @ fresh))"
    "st_recent_trades s' = (if fresh = [] then st_recent_trades s
       else rev (take (st_trade_ring_size s) (rev (st_trade_history s'))))"
    "st_trade_ring_size s' = st_trade_ring_size s" "st_log_ring_size s' = st_log_ring_size s"
    "st_activity_log s' = st_activity_log s" "st_backtest_history s' = st_backtest_history s"
    "st_external_log_fingerprints s' = st_external_log_fingerprints s"
    using import_fields [OF i] by metis
  have "distinct (map trade_identity (st_trade_history s @ fresh))"
    using ok unseen_trades_facts [of "identities (st_trade_history s)" ts] f(1)
    by (auto simp: ledgers_ok_def identities_def)
  then have "distinct (map trade_identity (st_trade_history s'))"
    using f(2) ok by (simp add: distinct_map_sort_key ledgers_ok_def)
  then show ?thesis
    using ok f(2-) recent_rebuilt [of R "st_trade_history s'"] by (auto simp: ledgers_ok_def)
qed

lemma restore_ok: "ledgers_ok L R s \<Longrightarrow> ledgers_ok L R d \<Longrightarrow> distinct (map trade_identity (st_recent_trades d)) \<or>
    st_trade_history d \<noteq> [] \<Longrightarrow> ledgers_ok L R (restore_from restore_rest d s)"
  using recent_rebuilt length_push_ring [of "st_activity_log d" L]
  by (auto simp: ledgers_ok_def restore_from_def log_info_def st_log_def rebuild_recent_trades_def)

lemma ledgers_ok_view: "ledger_view s' = ledger_view s \<Longrightarrow> ledgers_ok L R s' = ledgers_ok L R s"
  by (simp add: ledger_view_def ledgers_ok_def)

lemma record_ok: "ledgers_ok L R s \<Longrightarrow> ledgers_ok L R (record_trade t s)"
  using set_push_ring [of R t "st_recent_trades s"] length_push_ring [of "st_recent_trades s" R t]
    distinct_append_history [of "st_trade_history s" t]
  by (auto simp: ledgers_ok_def record_trade_def identities_def)
    (metis (no_types, lifting) identities_append_history identities_def image_eqI insertE insertI1 insert_iff subsetD)

lemma reachable_ledgers_ok: "state_reachable restore_rest L R s \<Longrightarrow> ledgers_ok L R s"
proof (induction rule: state_reachable.induct)
  case (imported s ts)
  then show ?case using import_ok by (cases "import_trade_history ts s") auto
next
  case (restored s d)
  have "st_trade_history d = [] \<Longrightarrow> st_recent_trades d = []"
    using restored.IH(2) by (auto simp: ledgers_ok_def identities_def)
  then show ?case using restored.IH restore_ok by fastforce
next
  case (observed s f)
  then show ?case
    using length_push_ring [of "st_external_log_fingerprints s" 500 f]
    by (auto simp: remember_external_log_def ledgers_ok_def distinct_push_ring)
next
  case (backtested s b)
  then show ?case
    using length_push_ring [of "st_backtest_history s" 20 b] by (auto simp: record_backtest_def ledgers_ok_def)
next
  case (filled s t)
  show ?case by (rule record_ok [OF filled.IH])
next
  case (logged s level category message)
  then show ?case
    using length_push_ring [of "st_activity_log s" L] by (simp add: st_log_def ledgers_ok_def)
next
  case (other s s')
  then show ?case using ledgers_ok_view [of s' s L R] by simp
qed (simp add: ledgers_ok_def new_trading_state_def identities_def)

text \<open>C21: Importing OctoBot's complete trade history, at start and periodically, is idempotent: in any
  state the bridge can reach, across restarts, no fill is in the ledger twice, an import adds
  exactly the fills with identities not yet there and keeps every known one, orders the ledger by
  time, leaves the count of Gail's own trades alone, and a second import of the same rows changes
  nothing.\<close>

theorem importing_history_is_idempotent:
  assumes "state_reachable restore_rest L R s" "import_trade_history ts s = (n, s')"
  shows "distinct (map trade_identity (st_trade_history s'))
     \<and> set (st_trade_history s) \<subseteq> set (st_trade_history s')
     \<and> identities (st_trade_history s') = identities (st_trade_history s) \<union> identities ts
     \<and> length (st_trade_history s') = length (st_trade_history s) + n
     \<and> (0 < n \<longrightarrow> sorted (map xt_ts (st_trade_history s')))
     \<and> length (st_recent_trades s') \<le> max R 1
     \<and> st_trade_count s' = st_trade_count s
     \<and> import_trade_history ts s' = (0, s')"
proof -
  obtain fresh where f: "fresh = unseen_trades (identities (st_trade_history s)) ts" "n = length fresh"
    "st_trade_history s' = (if fresh = [] then st_trade_history s else sort_key xt_ts (st_trade_history s @ fresh))"
    "st_trade_count s' = st_trade_count s"
    using import_fields [OF assms(2)] by metis
  have ids: "identities (st_trade_history s') = identities (st_trade_history s) \<union> identities ts"
    using f(1,3) unseen_trades_facts(2) [of "identities (st_trade_history s)" ts]
    by (auto simp: identities_def split: if_splits)
  then have "unseen_trades (set (map trade_identity (st_trade_history s'))) ts = []"
    by (intro unseen_trades_none) (auto simp: identities_def)
  then have "import_trade_history ts s' = (0, s')" by (simp add: import_trade_history_def)
  moreover have "ledgers_ok L R s'" using import_ok reachable_ledgers_ok assms by blast
  ultimately show ?thesis using f ids by (auto simp: ledgers_ok_def)
qed

definition sample_row :: octobot_trade where
  "sample_row = \<lparr>ot_id = Some ''o1'', ot_exchange = ''Kraken'', ot_symbol = ''BTC/USDT'', ot_side = ''BUY'',
     ot_amount = Fin 1, ot_price = Fin 100, ot_cost = Fin 100, ot_fee = None, ot_timestamp = Some (Fin 5)\<rparr>"

theorem importing_history_is_idempotent_witness:
  "let ts = List.map_filter imported_trade_from_octobot [sample_row, sample_row];
       s' = snd (import_trade_history ts (new_trading_state 10 10 ()))
   in length (st_trade_history s') = 1 \<and> import_trade_history ts s' = (0, s')"
proof -
  define ts where "ts = List.map_filter imported_trade_from_octobot [sample_row, sample_row]"
  obtain n s' where i: "import_trade_history ts (new_trading_state 10 10 ()) = (n, s')"
    by (cases "import_trade_history ts (new_trading_state 10 10 ())")
  have "imported_trade_from_octobot sample_row \<noteq> None" by code_simp
  then have "n = 1" using i
    by (auto simp: ts_def import_trade_history_def List.map_filter_def new_trading_state_def Let_def)
  moreover have "import_trade_history ts s' = (0, s') \<and> length (st_trade_history s') = 0 + n"
    using importing_history_is_idempotent [OF state_reachable.fresh [where restore_rest = "\<lambda>_ x. x"] i]
    by (simp add: new_trading_state_def)
  ultimately show ?thesis using i by (simp add: ts_def)
qed

end
