(* ===== verification/Balances.thy ===== *)
theory Balances
  imports TradingState
begin

text \<open>
  How an order is fitted to what the account holds, \<^verbatim>\<open>src/src/trading/mod.rs\<close>: the assets and the
  intent key of an order, the exchange it is routed to, and the most that can be bought or sold
  there.
\<close>

section \<open>Symbols and intents\<close>

definition symbol_base_asset :: "string \<Rightarrow> string option" where
  "symbol_base_asset symbol = option_filter (\<lambda>a. a \<noteq> []) (Some (trim (hd (split_on CHR ''/'' symbol))))"

definition symbol_quote_asset :: "string \<Rightarrow> string option" where
  "symbol_quote_asset symbol =
     (case split_on CHR ''/'' symbol of
        base # quote # _ \<Rightarrow> option_filter (\<lambda>a. a \<noteq> []) (Some (trim quote))
      | _ \<Rightarrow> None)"

definition is_stablecoin :: "string \<Rightarrow> bool" where
  "is_stablecoin asset \<longleftrightarrow>
     (\<exists>pat\<in>{''usdt'', ''usdc'', ''busd'', ''dai'', ''usd'', ''eur''}. str_contains (to_ascii_lowercase asset) pat)"

datatype order_side = BuySide | SellSide

definition side_name :: "order_side \<Rightarrow> string" where
  "side_name side = (case side of BuySide \<Rightarrow> ''buy'' | SellSide \<Rightarrow> ''sell'')"

fun trade_action_side :: "trade_action \<Rightarrow> order_side option" where
  "trade_action_side Buy = Some BuySide"
| "trade_action_side StrongBuy = Some BuySide"
| "trade_action_side Sell = Some SellSide"
| "trade_action_side StrongSell = Some SellSide"
| "trade_action_side _ = None"

text \<open>A buy is one intent whatever the exchange; a sell is one per exchange.\<close>

definition execution_intent_key :: "order_side \<Rightarrow> string \<Rightarrow> string \<Rightarrow> string option" where
  "execution_intent_key side exchange symbol =
     (let symbol = to_ascii_uppercase (trim symbol); exchange = to_ascii_uppercase (trim exchange)
      in if symbol = [] then None
         else case side of
             BuySide \<Rightarrow> Some (''BUY|'' @ symbol)
           | SellSide \<Rightarrow> if exchange = [] then None else Some (''SELL|'' @ exchange @ ''|'' @ symbol))"

section \<open>Routing\<close>

record balance_candidate =
  bc_exchange :: string
  bc_free :: f64
  bc_total :: f64
  bc_value_usd :: "f64 option"

definition exchange_supports_symbol :: "octobot_exchange list \<Rightarrow> string \<Rightarrow> string \<Rightarrow> bool" where
  "exchange_supports_symbol available exchange symbol =
     (if available = [] then True
      else case find (\<lambda>e. eq_ignore_ascii_case (oe_name e) exchange) available of
             None \<Rightarrow> True
           | Some e \<Rightarrow> if oe_symbols e = [] then True
               else list_ex (\<lambda>c. eq_ignore_ascii_case c symbol) (oe_symbols e))"

definition known_value :: "balance_candidate \<Rightarrow> f64 option" where
  "known_value c = option_filter (\<lambda>v. is_finite v \<and> f_le (Fin 0) v) (bc_value_usd c)"

definition buy_balance_is_sufficient :: "balance_candidate \<Rightarrow> string \<Rightarrow> f64 \<Rightarrow> bool" where
  "buy_balance_is_sufficient c quote_asset amount =
     (if \<not> is_finite amount \<or> f_le amount (Fin 0) then f_lt (Fin 0) (bc_free c)
      else let required = f_mul amount (lit (98 / 100))
           in if is_stablecoin quote_asset then f_le required (f_add (bc_free c) f_epsilon)
              else case known_value c of
                     Some v \<Rightarrow> f_le required (f_add v f_epsilon)
                   | None \<Rightarrow> f_lt (Fin 0) (bc_free c))"

definition sell_balance_is_sufficient :: "balance_candidate \<Rightarrow> f64 \<Rightarrow> bool" where
  "sell_balance_is_sufficient c amount =
     (if \<not> is_finite amount \<or> f_le amount (Fin 0) then f_lt (Fin 0) (bc_free c)
      else case known_value c of
             Some v \<Rightarrow> f_le (f_mul amount (lit (98 / 100))) (f_add v f_epsilon)
           | None \<Rightarrow> f_lt (Fin 0) (bc_free c))"

definition find_asset :: "string \<Rightarrow> (string \<times> currency_balance) list \<Rightarrow> currency_balance option" where
  "find_asset asset balances = map_option snd (find (\<lambda>(a, _). eq_ignore_ascii_case a asset) balances)"

definition candidate_of :: "string \<Rightarrow> string \<times> (string \<times> currency_balance) list \<Rightarrow> balance_candidate option" where
  "candidate_of asset e =
     (case find_asset asset (snd e) of
        None \<Rightarrow> None
      | Some b \<Rightarrow> if \<not> is_finite (cb_free b) \<or> f_le (cb_free b) (Fin 0) then None
          else Some \<lparr>bc_exchange = fst e, bc_free = cb_free b, bc_total = cb_total b, bc_value_usd = cb_value_usd b\<rparr>)"

definition compare_candidates :: "balance_candidate \<Rightarrow> balance_candidate \<Rightarrow> cmp_result" where
  "compare_candidates l r =
     then_with (then_with (then_with
       (partial_cmp_or_equal (bc_free r) (bc_free l))
       (partial_cmp_or_equal (bc_total r) (bc_total l)))
       (partial_cmp_or_equal (unwrap_or (Fin 0) (bc_value_usd r)) (unwrap_or (Fin 0) (bc_value_usd l))))
       (cmp_of (bc_exchange l) (bc_exchange r))"

definition tracked_asset :: "order_side \<Rightarrow> string \<Rightarrow> string option" where
  "tracked_asset side symbol =
     (case side of SellSide \<Rightarrow> symbol_base_asset symbol | BuySide \<Rightarrow> symbol_quote_asset symbol)"

definition routing_candidates ::
  "string \<Rightarrow> string \<Rightarrow> octobot_portfolio \<Rightarrow> octobot_exchange list \<Rightarrow> balance_candidate list" where
  "routing_candidates asset symbol portfolio available =
     sort_by compare_candidates (List.map_filter (candidate_of asset)
       (filter (\<lambda>(exchange, _). exchange_supports_symbol available exchange symbol) (op_exchange_currencies portfolio)))"

definition select_execution_exchange ::
  "string \<Rightarrow> string \<Rightarrow> order_side \<Rightarrow> f64 \<Rightarrow> octobot_portfolio \<Rightarrow> octobot_exchange list \<Rightarrow>
     (string \<times> string) option" where
  "select_execution_exchange requested symbol side amount portfolio available =
     (if op_exchange_currencies portfolio = [] then None
      else case tracked_asset side symbol of
        None \<Rightarrow> None
      | Some asset \<Rightarrow>
          let candidates = routing_candidates asset symbol portfolio available;
              asked = find (\<lambda>c. eq_ignore_ascii_case (bc_exchange c) requested) candidates
          in if candidates = [] then None
             else if is_some_and (\<lambda>c. case side of
                        SellSide \<Rightarrow> sell_balance_is_sufficient c amount
                      | BuySide \<Rightarrow> buy_balance_is_sufficient c asset amount) asked then None
             else let best = hd candidates
                  in if eq_ignore_ascii_case (bc_exchange best) requested then None
                     else Some (bc_exchange best, case side of
                         SellSide \<Rightarrow> asset @ '' balance for '' @ symbol @ '' available on '' @ bc_exchange best
                           @ '' (free='' @ format_fixed 8 (bc_free best) @ '')''
                       | BuySide \<Rightarrow> asset @ '' buy balance for '' @ symbol @ '' is stronger on '' @ bc_exchange best
                           @ '' (free='' @ format_fixed 8 (bc_free best) @ '')''))"

section \<open>What can be bought and sold\<close>

datatype sell_availability = Available f64 f64 "f64 option" | Missing | NonPositive f64 f64

definition portfolio_balance_state :: "octobot_portfolio \<Rightarrow> string \<Rightarrow> sell_availability" where
  "portfolio_balance_state portfolio asset =
     (case map_of (op_currencies portfolio) asset of
        Some b \<Rightarrow> if f_lt (Fin 0) (cb_free b) then Available (cb_free b) (cb_total b) (cb_value_usd b)
                  else NonPositive (cb_free b) (cb_total b)
      | None \<Rightarrow> Missing)"

definition find_exchange ::
  "string \<Rightarrow> octobot_portfolio \<Rightarrow> (string \<times> currency_balance) list option" where
  "find_exchange exchange portfolio =
     map_option snd (find (\<lambda>(name, _). eq_ignore_ascii_case name exchange) (op_exchange_currencies portfolio))"

definition portfolio_balance_state_for_exchange ::
  "octobot_portfolio \<Rightarrow> string \<Rightarrow> string \<Rightarrow> sell_availability" where
  "portfolio_balance_state_for_exchange portfolio exchange asset =
     (case find_exchange exchange portfolio of
        None \<Rightarrow> Missing
      | Some balances \<Rightarrow>
          (case find_asset asset balances of
             Some b \<Rightarrow> if is_finite (cb_free b) \<and> f_lt (Fin 0) (cb_free b)
                       then Available (cb_free b) (cb_total b) (cb_value_usd b)
                       else NonPositive (cb_free b) (cb_total b)
           | None \<Rightarrow> Missing))"

definition sellable_value_usd :: "f64 \<Rightarrow> f64 \<Rightarrow> f64 option \<Rightarrow> f64 option \<Rightarrow> f64 option" where
  "sellable_value_usd free_amount total_amount value fallback_price =
     (if \<not> is_finite free_amount \<or> f_le free_amount (Fin 0) then Some (Fin 0)
      else case option_filter (\<lambda>v. is_finite v \<and> f_lt (Fin 0) v) value of
             Some v \<Rightarrow>
               let ratio = (if is_finite total_amount \<and> f_lt (Fin 0) total_amount
                            then f_clamp (f_div free_amount total_amount) (Fin 0) (Fin 1) else Fin 1)
               in Some (f_mul v ratio)
           | None \<Rightarrow> map_option (f_mul free_amount)
               (option_filter (\<lambda>p. is_finite p \<and> f_lt (Fin 0) p) fallback_price))"

definition f_floor :: "f64 \<Rightarrow> f64" where
  "f_floor x = (case x of Fin q \<Rightarrow> Fin (of_int \<lfloor>q\<rfloor>) | _ \<Rightarrow> x)"

text \<open>The part \<open>factor\<close> of an amount, rounded down to cents.\<close>

definition in_cents_below :: "f64 \<Rightarrow> f64 \<Rightarrow> f64" where
  "in_cents_below amount factor = f_div (f_floor (f_mul (f_mul amount factor) (Fin 100))) (Fin 100)"

definition buy_safety_factor :: f64 where
  "buy_safety_factor = lit (95 / 100)"

definition sell_safety_factor :: f64 where
  "sell_safety_factor = lit (99 / 100)"

definition max_buy_amount_usd_for_exchange :: "octobot_portfolio \<Rightarrow> string \<Rightarrow> string \<Rightarrow> f64 option" where
  "max_buy_amount_usd_for_exchange portfolio exchange symbol =
     (case symbol_quote_asset symbol of
        None \<Rightarrow> None
      | Some asset \<Rightarrow>
          (case find_exchange exchange portfolio of
             None \<Rightarrow> None
           | Some balances \<Rightarrow>
               (case find_asset asset balances of
                  None \<Rightarrow> None
                | Some b \<Rightarrow>
                    (case if is_stablecoin asset then Some (f_max (cb_free b) (Fin 0))
                          else map_option (\<lambda>v. f_max v (Fin 0))
                                 (sellable_value_usd (cb_free b) (cb_total b) (cb_value_usd b) None) of
                       None \<Rightarrow> None
                     | Some buyable \<Rightarrow> if \<not> is_finite buyable then None
                         else Some (in_cents_below buyable buy_safety_factor)))))"

text \<open>\<open>price\<close> is OctoBot's answer to the request for a snapshot, made only when the portfolio gives no value.\<close>

definition max_sell_amount_usd :: "string + market_snapshot \<Rightarrow> f64 \<Rightarrow> f64 \<Rightarrow> f64 option \<Rightarrow> f64 option" where
  "max_sell_amount_usd snapshot free_amount total_amount value =
     (let known = sellable_value_usd free_amount total_amount value None;
          sellable = (if known = None
                      then case snapshot of Inr m \<Rightarrow> sellable_value_usd free_amount total_amount value (Some (ms_price m))
                           | Inl _ \<Rightarrow> None
                      else known)
      in case sellable of
           None \<Rightarrow> None
         | Some v \<Rightarrow> if \<not> is_finite v \<or> f_le v (Fin 0) then None
             else let capped = in_cents_below v sell_safety_factor
                  in if f_lt (Fin 0) capped then Some capped else None)"


section \<open>The caps\<close>

text \<open>Rounding adds at most half a unit in the last place.\<close>

lemma round_half_even_le: "of_int (round_half_even x) \<le> x + 1 / 2"
proof -
  have "of_int \<lfloor>x\<rfloor> \<le> x" by simp
  moreover have "round_half_even x = \<lfloor>x\<rfloor> \<or> round_half_even x = \<lfloor>x\<rfloor> + 1 \<and> 1 / 2 \<le> x - of_int \<lfloor>x\<rfloor>"
    by (auto simp: round_half_even_def Let_def)
  ultimately show ?thesis
  proof (elim disjE conjE)
    assume "of_int \<lfloor>x\<rfloor> \<le> x" "round_half_even x = \<lfloor>x\<rfloor>"
    then show ?thesis by linarith
  qed simp
qed

lemma mag_le:
  assumes "0 < q"
  shows "mag q \<le> q + q / 2 ^ 53 + pow2 (- 1074) / 2"
proof -
  define e where "e = mag_exp q"
  have "mag q = of_int (round_half_even (q / pow2 e)) * pow2 e" by (simp add: mag_def e_def)
  also have "\<dots> \<le> (q / pow2 e + 1 / 2) * pow2 e" by (intro mult_right_mono round_half_even_le) (simp add: less_imp_le)
  also have "\<dots> = q + pow2 e / 2" by (simp add: field_simps)
  finally have m: "mag q \<le> q + pow2 e / 2" .
  consider "e = ilog2 q - 52" | "e = - 1074" unfolding e_def mag_exp_def by (metis max_def)
  then show ?thesis
  proof cases
    case 1
    then have "pow2 e = pow2 (ilog2 q) / 2 ^ 52" by (simp add: pow2_def power_int_diff)
    then have "pow2 e / 2 \<le> q / 2 ^ 53" using ilog2_bounds(1) [OF assms] by simp
    moreover have "0 < pow2 (- 1074)" by simp
    ultimately show ?thesis using m by linarith
  next
    case 2
    then have "pow2 e = pow2 (- 1074)" by simp
    moreover have "0 \<le> q / 2 ^ 53" using assms by simp
    ultimately show ?thesis using m by linarith
  qed
qed

lemma tiny: "0 < pow2 (- 1074)" "pow2 (- 1074) \<le> 1 / 10 ^ 6"
  using pow2_le_iff [of "- 1074" "- 20"] by (simp_all add: pow2_def power_int_minus)

lemma rnd_le:
  assumes "0 \<le> q" "q \<le> pow2 1000"
  obtains v where "rnd q = Fin v" "0 \<le> v" "v \<le> q + q / 2 ^ 53 + pow2 (- 1074)"
proof (cases "q = 0")
  case True
  have "rnd q = Fin 0" "(0::rat) \<le> 0" "0 \<le> q + q / 2 ^ 53 + pow2 (- 1074)"
    using True by (simp_all add: rnd_mag less_imp_le)
  then show ?thesis by (rule that)
next
  case False
  then have q: "0 < q" using assms(1) by simp
  have m: "mag q \<le> q + q / 2 ^ 53 + pow2 (- 1074)" using mag_le [OF q] tiny by linarith
  have "q / 2 ^ 53 \<le> q" using q by simp
  moreover have "pow2 0 \<le> pow2 1000" by (simp only: pow2_le_iff)
  ultimately have "mag q \<le> 3 * pow2 1000" using assms(2) tiny m by (simp add: pow2_def)
  also have "\<dots> < pow2 1000 * pow2 24" by (simp add: pow2_def [of 24])
  also have "\<dots> = pow2 1024" by (simp flip: pow2_add)
  finally have "rnd q = Fin (mag q)" using q by (simp add: rnd_mag)
  then show ?thesis using that m mag_nonneg [OF q] by blast
qed

lemma rnd_percent: "0 \<le> q \<Longrightarrow> q \<le> 99 / 100 \<Longrightarrow> \<exists>f. rnd q = Fin f \<and> 0 \<le> f \<and> f \<le> 991 / 1000"
proof -
  assume q: "0 \<le> q" "q \<le> 99 / 100"
  have "pow2 0 \<le> pow2 1000" by (simp only: pow2_le_iff)
  then have "q \<le> pow2 1000" using q by (simp add: pow2_def)
  then obtain v where v: "rnd q = Fin v" "0 \<le> v" "v \<le> q + q / 2 ^ 53 + pow2 (- 1074)"
    using rnd_le [OF q(1)] by metis
  have "q / 2 ^ 53 \<le> 1 / 10 ^ 6" using q by simp
  then show ?thesis using v q tiny by (intro exI [of _ v]) simp
qed

lemma rnd_obtain:
  assumes "0 \<le> q" "q \<le> pow2 1000"
  obtains v where "rnd q = Fin v" "0 \<le> v" "v \<le> q * (1000001 / 1000000) + pow2 (- 1074)"
proof -
  obtain v where v: "rnd q = Fin v" "0 \<le> v" "v \<le> q + q / 2 ^ 53 + pow2 (- 1074)" using rnd_le [OF assms] .
  have "q + q / 2 ^ 53 \<le> q * (1000001 / 1000000)" using assms(1) by simp
  then have "v \<le> q * (1000001 / 1000000) + pow2 (- 1074)" using v(3) by linarith
  then show ?thesis by (rule that [OF v(1,2)])
qed

lemma in_cents_below_le:
  assumes x: "0 \<le> x" "x \<le> pow2 900" and f: "0 \<le> f" "f \<le> 991 / 1000"
  obtains w where "in_cents_below (Fin x) (Fin f) = Fin w" "0 \<le> w" "w \<le> x"
proof -
  define t where "t = pow2 (- 1074)"
  have t: "0 < t" "t \<le> 1 / 10 ^ 6" using tiny by (simp_all add: t_def)
  have "pow2 900 * pow2 10 \<le> pow2 1000" by (simp flip: pow2_add)
  then have big: "pow2 900 * 1024 \<le> pow2 1000" "pow2 0 \<le> pow2 900" by (simp add: pow2_def [of 10]) (simp only: pow2_le_iff)
  then have big': "x * 1000 + 1 \<le> pow2 1000" using x by (simp add: pow2_def [of 0])
  have xf: "0 \<le> x * f" "x * f \<le> x * (991 / 1000)" using x f mult_left_mono [OF f(2) x(1)] by simp_all
  obtain y where y: "rnd (x * f) = Fin y" "0 \<le> y" "y \<le> x * f * (1000001 / 1000000) + t"
  proof (rule rnd_obtain [OF xf(1)])
    show "x * f \<le> pow2 1000" using xf(2) big' x(1) by linarith
  qed (simp add: t_def)
  have y_le: "y \<le> x * (9911 / 10000) + t" using y(3) xf x(1) by simp
  then have y_big: "y * 100 \<le> pow2 1000" using big' x t by simp
  obtain z where z: "rnd (y * 100) = Fin z" "0 \<le> z" "z \<le> y * 100 * (1000001 / 1000000) + t"
  proof (rule rnd_obtain)
    show "0 \<le> y * 100" "y * 100 \<le> pow2 1000" using y(2) y_big by simp_all
  qed (simp add: t_def)
  have z_le: "z \<le> x * (99111 / 1000) + 200 * t" using z(3) y_le y(2) t x(1) by simp
  show ?thesis
  proof (cases "\<lfloor>z\<rfloor> = 0")
    case True
    then have "in_cents_below (Fin x) (Fin f) = Fin 0" using y(1) z(1)
      by (simp add: in_cents_below_def f_mul_def f_div_def f_floor_def rnd_mag)
    then show ?thesis using that [of 0] x by simp
  next
    case False
    then have one: "1 \<le> \<lfloor>z\<rfloor>" using z(2) by linarith
    then have "1 \<le> z" by linarith
    then have x_ge: "1 / 200 \<le> x" using z_le t by simp
    obtain k :: rat where k: "k = of_int \<lfloor>z\<rfloor>" "k \<le> z" "1 \<le> k" using one by simp
    define q where "q = k / 100"
    have q: "0 \<le> q" "q \<le> pow2 1000" "q \<le> x * (99112 / 100000) + 2 * t"
      using k(2,3) z_le x big' t by (simp_all add: q_def)
    obtain w where w: "rnd q = Fin w" "0 \<le> w" "w \<le> q * (1000001 / 1000000) + t"
      by (rule rnd_obtain [OF q(1,2)]) (simp add: t_def)
    have "w \<le> x" using w(3) x_ge t q(3) by simp
    moreover have "in_cents_below (Fin x) (Fin f) = Fin w" using y(1) z(1) w(1)
      by (simp add: in_cents_below_def f_mul_def f_div_def f_floor_def q_def k(1))
    ultimately show ?thesis using that w(2) by blast
  qed
qed

section \<open>What routing and the caps promise\<close>

lemma buy_safety_factor_range: "\<exists>f. buy_safety_factor = Fin f \<and> 0 \<le> f \<and> f \<le> 991 / 1000"
  unfolding buy_safety_factor_def by (rule rnd_percent) simp_all

lemma sell_safety_factor_range: "\<exists>f. sell_safety_factor = Fin f \<and> 0 \<le> f \<and> f \<le> 991 / 1000"
  unfolding sell_safety_factor_def by (rule rnd_percent) simp_all

lemma max_sell_at_most:
  assumes "max_sell_amount_usd snapshot free_amount total_amount value = Some m"
    and "sellable_value_usd free_amount total_amount value None = Some (Fin v)" "v \<le> pow2 900"
  shows "\<exists>w. m = Fin w \<and> 0 < w \<and> w \<le> v"
proof -
  obtain f where f: "sell_safety_factor = Fin f" "0 \<le> f" "f \<le> 991 / 1000" using sell_safety_factor_range by auto
  have m: "in_cents_below (Fin v) sell_safety_factor = m" "f_lt (Fin 0) m" "0 < v"
    using assms by (auto simp: max_sell_amount_usd_def Let_def f_le_iff split: if_splits)
  obtain w where w: "in_cents_below (Fin v) (Fin f) = Fin w" "0 \<le> w" "w \<le> v"
    using in_cents_below_le [of v f] m(3) assms(3) f by auto
  then show ?thesis using m f(1) by auto
qed

lemma max_buy_at_most:
  assumes "max_buy_amount_usd_for_exchange portfolio exchange symbol = Some m"
    and "symbol_quote_asset symbol = Some asset" "is_stablecoin asset"
    and "find_exchange exchange portfolio = Some balances" "find_asset asset balances = Some b"
    and "cb_free b = Fin q" "q \<le> pow2 900"
  shows "\<exists>w. m = Fin w \<and> 0 \<le> w \<and> w \<le> max q 0"
proof -
  obtain f where f: "buy_safety_factor = Fin f" "0 \<le> f" "f \<le> 991 / 1000" using buy_safety_factor_range by auto
  have "in_cents_below (Fin (max q 0)) buy_safety_factor = m"
    using assms by (auto simp: max_buy_amount_usd_for_exchange_def f_max_def max_def split: if_splits)
  moreover have "(0::rat) \<le> pow2 900" by (simp add: less_imp_le)
  ultimately show ?thesis
    using in_cents_below_le [of "max q 0" f] assms(7) f by (metis max.bounded_iff max.cobounded2)
qed

lemma map_filter_in: "y \<in> set (List.map_filter f xs) \<longleftrightarrow> (\<exists>x\<in>set xs. f x = Some y)"
  by (induction xs) (auto simp: List.map_filter_simps split: option.splits)

lemma candidate_of_Some:
  "candidate_of asset e = Some c \<Longrightarrow> bc_exchange c = fst e \<and> is_finite (bc_free c) \<and> f_lt (Fin 0) (bc_free c)
     \<and> (\<exists>b. find_asset asset (snd e) = Some b \<and> cb_free b = bc_free c \<and> cb_value_usd b = bc_value_usd c)"
  by (cases "find_asset asset (snd e)")
    (auto simp: candidate_of_def f_le_iff f_lt_iff is_finite_iff split: if_splits)

lemma candidate_balance:
  assumes "c \<in> set (routing_candidates asset symbol portfolio available)"
  shows "exchange_supports_symbol available (bc_exchange c) symbol \<and> is_finite (bc_free c) \<and> f_lt (Fin 0) (bc_free c)"
    and "\<exists>balances b. (bc_exchange c, balances) \<in> set (op_exchange_currencies portfolio)
      \<and> find_asset asset balances = Some b \<and> cb_free b = bc_free c"
proof -
  obtain e where e: "e \<in> set (op_exchange_currencies portfolio)" "exchange_supports_symbol available (fst e) symbol"
      "candidate_of asset e = Some c"
    using assms by (auto simp: routing_candidates_def map_filter_in)
  show "exchange_supports_symbol available (bc_exchange c) symbol \<and> is_finite (bc_free c) \<and> f_lt (Fin 0) (bc_free c)"
    using candidate_of_Some [OF e(3)] e(2) by simp
  show "\<exists>balances b. (bc_exchange c, balances) \<in> set (op_exchange_currencies portfolio)
      \<and> find_asset asset balances = Some b \<and> cb_free b = bc_free c"
    using candidate_of_Some [OF e(3)] e(1) by (intro exI [of _ "snd e"]) auto
qed

text \<open>
  On balances that are numbers the order of the candidates is the consistent order by holdings:
  most free first, then total, then value, then name.
\<close>

definition candidate_numbers :: "balance_candidate \<Rightarrow> bool" where
  "candidate_numbers c \<longleftrightarrow> bc_free c \<noteq> NaN \<and> bc_total c \<noteq> NaN \<and> bc_value_usd c \<noteq> Some NaN"

definition by_holdings :: "balance_candidate \<Rightarrow> balance_candidate \<Rightarrow> cmp_result" where
  "by_holdings l r =
     then_with (then_with (then_with (cmp_of (bc_free r) (bc_free l)) (cmp_of (bc_total r) (bc_total l)))
       (cmp_of (unwrap_or (Fin 0) (bc_value_usd r)) (unwrap_or (Fin 0) (bc_value_usd l))))
       (cmp_of (bc_exchange l) (bc_exchange r))"

lemma then_with_Equal [simp]: "then_with a b = Equal \<longleftrightarrow> a = Equal \<and> b = Equal"
  by (auto simp: then_with_def)

lemma by_holdings_le: "by_holdings l r \<noteq> Greater \<longleftrightarrow>
    bc_free r < bc_free l \<or> bc_free r = bc_free l \<and>
      (bc_total r < bc_total l \<or> bc_total r = bc_total l \<and>
        (unwrap_or (Fin 0) (bc_value_usd r) < unwrap_or (Fin 0) (bc_value_usd l)
          \<or> unwrap_or (Fin 0) (bc_value_usd r) = unwrap_or (Fin 0) (bc_value_usd l)
            \<and> bc_exchange l \<le> bc_exchange r))"
  unfolding by_holdings_def then_with_Greater then_with_Equal cmp_of_simps de_Morgan_disj de_Morgan_conj not_less
  by (auto simp: le_less)

interpretation holdings: consistent_comparator by_holdings
proof
  fix x y z
  show "by_holdings x y = Greater \<Longrightarrow> by_holdings y x \<noteq> Greater"
    using by_holdings_le [of x y] by_holdings_le [of y x] by (metis less_linear linear)
  show "by_holdings x y \<noteq> Greater \<Longrightarrow> by_holdings y z \<noteq> Greater \<Longrightarrow> by_holdings x z \<noteq> Greater"
    unfolding by_holdings_le by (elim disjE conjE) (auto intro: less_trans order_trans)
qed

lemma compare_candidates_numbers:
  "candidate_numbers l \<Longrightarrow> candidate_numbers r \<Longrightarrow> compare_candidates l r = by_holdings l r"
  by (cases "bc_value_usd l"; cases "bc_value_usd r")
    (auto simp: compare_candidates_def by_holdings_def candidate_numbers_def partial_cmp_or_equal_def is_nan_iff)

lemma routing_best:
  assumes "\<forall>c\<in>set (routing_candidates asset symbol portfolio available). candidate_numbers c"
    and "c \<in> set (routing_candidates asset symbol portfolio available)"
  shows "bc_free c \<le> bc_free (hd (routing_candidates asset symbol portfolio available))"
proof -
  define cs where "cs = List.map_filter (candidate_of asset)
    (filter (\<lambda>(exchange, _). exchange_supports_symbol available exchange symbol) (op_exchange_currencies portfolio))"
  have r: "routing_candidates asset symbol portfolio available = sort_by compare_candidates cs"
    by (simp add: routing_candidates_def cs_def)
  then have "routing_candidates asset symbol portfolio available = sort_by by_holdings cs"
    using assms(1) by (simp add: sort_by_cong [of cs compare_candidates by_holdings] compare_candidates_numbers)
  moreover have "c \<in> set cs" using assms(2) r by simp
  ultimately show ?thesis using holdings.hd_sort_by [of c cs] by (auto simp: by_holdings_def not_less)
qed

text \<open>An order leaves the exchange the decision asked for only when that exchange cannot cover it, and
  then for an exchange that lists the symbol and holds a positive, finite free balance of the
  asset the order spends, the largest among all such exchanges.\<close>

theorem rerouting_goes_to_the_largest_balance:
  assumes "select_execution_exchange requested symbol side amount portfolio available = Some (target, reason)"
    and "tracked_asset side symbol = Some asset"
    and "\<forall>c\<in>set (routing_candidates asset symbol portfolio available). candidate_numbers c"
  shows "\<not> eq_ignore_ascii_case target requested
     \<and> exchange_supports_symbol available target symbol
     \<and> (\<exists>balances b. (target, balances) \<in> set (op_exchange_currencies portfolio)
          \<and> find_asset asset balances = Some b \<and> is_finite (cb_free b) \<and> f_lt (Fin 0) (cb_free b)
          \<and> (\<forall>c\<in>set (routing_candidates asset symbol portfolio available). bc_free c \<le> cb_free b))
     \<and> (\<forall>c. find (\<lambda>c. eq_ignore_ascii_case (bc_exchange c) requested)
               (routing_candidates asset symbol portfolio available) = Some c \<longrightarrow>
            \<not> (case side of SellSide \<Rightarrow> sell_balance_is_sufficient c amount
                 | BuySide \<Rightarrow> buy_balance_is_sufficient c asset amount))"
proof -
  define cs where "cs = routing_candidates asset symbol portfolio available"
  have sel: "cs \<noteq> []" "target = bc_exchange (hd cs)" "\<not> eq_ignore_ascii_case (bc_exchange (hd cs)) requested"
      "\<not> is_some_and (\<lambda>c. case side of SellSide \<Rightarrow> sell_balance_is_sufficient c amount
          | BuySide \<Rightarrow> buy_balance_is_sufficient c asset amount)
        (find (\<lambda>c. eq_ignore_ascii_case (bc_exchange c) requested) cs)"
    using assms(1,2) unfolding select_execution_exchange_def cs_def by (auto simp: Let_def split: if_splits)
  then have hd: "hd cs \<in> set cs" by simp
  obtain balances b where "(target, balances) \<in> set (op_exchange_currencies portfolio)"
      "find_asset asset balances = Some b" "cb_free b = bc_free (hd cs)"
    using candidate_balance(2) [OF hd [unfolded cs_def]] sel(2) unfolding cs_def by metis
  then show ?thesis
    using sel candidate_balance(1) [OF hd [unfolded cs_def]] routing_best [OF assms(3)]
    by (auto simp: cs_def is_some_and_def)
qed

definition sample_balance :: currency_balance where
  "sample_balance = \<lparr>cb_free = Fin 200, cb_locked = Fin 0, cb_total = Fin 200, cb_value_usd = Some (Fin 200)\<rparr>"

definition sample_portfolio :: octobot_portfolio where
  "sample_portfolio = \<lparr>op_currencies = [(''USDT'', sample_balance)], op_total_value_usd = Some (Fin 200),
     op_exchange_currencies = [(''kraken'', [(''USDT'', sample_balance)])]\<rparr>"

lemma sample_assets: "symbol_quote_asset ''BTC/USDT'' = Some ''USDT''" "is_stablecoin ''USDT''"
  "eq_ignore_ascii_case ''USDT'' ''USDT''" "\<not> eq_ignore_ascii_case ''kraken'' ''okx''"
  "eq_ignore_ascii_case ''kraken'' ''kraken''"
  by code_simp+

lemma sample_candidates: "routing_candidates ''USDT'' ''BTC/USDT'' sample_portfolio [] =
    [\<lparr>bc_exchange = ''kraken'', bc_free = Fin 200, bc_total = Fin 200, bc_value_usd = Some (Fin 200)\<rparr>]"
  by (simp add: routing_candidates_def sample_portfolio_def candidate_of_def find_asset_def sample_assets
      List.map_filter_simps sort_by_def sample_balance_def exchange_supports_symbol_def)

theorem rerouting_goes_to_the_largest_balance_witness:
  "\<exists>target reason. select_execution_exchange ''okx'' ''BTC/USDT'' BuySide (Fin 10) sample_portfolio []
      = Some (target, reason) \<and> \<not> eq_ignore_ascii_case target ''okx''"
proof -
  have "select_execution_exchange ''okx'' ''BTC/USDT'' BuySide (Fin 10) sample_portfolio [] \<noteq> None"
    by (simp add: select_execution_exchange_def tracked_asset_def sample_assets sample_candidates Let_def)
      (simp add: sample_portfolio_def)
  then obtain target reason where
    s: "select_execution_exchange ''okx'' ''BTC/USDT'' BuySide (Fin 10) sample_portfolio [] = Some (target, reason)"
    by auto
  have "tracked_asset BuySide ''BTC/USDT'' = Some ''USDT''" by (simp add: tracked_asset_def sample_assets)
  moreover have "\<forall>c\<in>set (routing_candidates ''USDT'' ''BTC/USDT'' sample_portfolio []). candidate_numbers c"
    by (simp add: sample_candidates candidate_numbers_def)
  ultimately show ?thesis using rerouting_goes_to_the_largest_balance [OF s] s by blast
qed

text \<open>What a buy or a sell is cut down to is covered by the account: with balances up to 2 to the 900,
  the cap of a buy in a stable coin is at most the free balance, the cap of a sell is positive and
  at most the value of the free part of the holding, rounding included.\<close>

theorem caps_are_covered:
  assumes "max_buy_amount_usd_for_exchange portfolio exchange symbol = Some most"
    and "symbol_quote_asset symbol = Some asset" "is_stablecoin asset"
    and "find_exchange exchange portfolio = Some balances" "find_asset asset balances = Some b"
    and "cb_free b = Fin q" "q \<le> pow2 900"
    and "max_sell_amount_usd snapshot free_amount total_amount value = Some m"
    and "sellable_value_usd free_amount total_amount value None = Some (Fin v)" "v \<le> pow2 900"
  shows "Fin 0 \<le> most \<and> most \<le> Fin (max q 0) \<and> f_lt (Fin 0) m \<and> m \<le> Fin v"
  using max_buy_at_most [OF assms(1-7)] max_sell_at_most [OF assms(8-10)] by auto

lemma sample_cap: "f_lt (Fin 0) (in_cents_below (Fin 200) sell_safety_factor)"
proof -
  obtain f where f: "sell_safety_factor = Fin f" "0 \<le> f" "f \<le> 991 / 1000" using sell_safety_factor_range by auto
  have "rnd (1 / 2) = Fin (1 / 2)" by (rule rnd_exact [where m = 1 and e = "- 1"]) (simp_all add: pow2_def)
  moreover have "rnd (1 / 2) \<le> sell_safety_factor" unfolding sell_safety_factor_def by (rule rnd_mono) simp
  ultimately have "Fin (1 / 2) \<le> Fin f" by (simp only: f(1))
  then have half: "1 / 2 \<le> f" by (simp only: f_le_Fin)
  have b: "pow2 0 \<le> pow2 900" "pow2 8 \<le> pow2 900" by (simp_all only: pow2_le_iff)
  have step: "Fin (of_int n) \<le> rnd q" if "of_int n \<le> q" "\<bar>n\<bar> < 2 ^ 53" for n q
    using rnd_mono [OF that(1)] rnd_of_int [OF that(2)] by simp
  have "Fin (of_int 100) \<le> rnd (200 * f)" by (rule step) (use half in simp_all)
  then obtain y where y: "rnd (200 * f) = Fin y \<and> 100 \<le> y \<or> rnd (200 * f) = PInf"
    by (cases "rnd (200 * f)") (auto simp: less_eq_f64_def)
  have "rnd (200 * f) \<le> rnd (of_int 200)" by (rule rnd_mono) (use f in simp)
  then have "rnd (200 * f) \<noteq> PInf" using rnd_of_int [of 200] by auto
  then have y: "rnd (200 * f) = Fin y" "100 \<le> y" using y by auto
  have y2: "y \<le> 200" using \<open>rnd (200 * f) \<le> rnd (of_int 200)\<close> rnd_of_int [of 200] y by simp
  have "Fin (of_int 10000) \<le> rnd (y * 100)" by (rule step) (use y in simp_all)
  moreover have "rnd (y * 100) \<le> rnd (of_int 20000)" by (rule rnd_mono) (use y2 in simp)
  ultimately obtain z where z: "rnd (y * 100) = Fin z" "10000 \<le> z"
    using rnd_of_int [of 20000] by (cases "rnd (y * 100)") (auto simp: less_eq_f64_def)
  have "10000 \<le> \<lfloor>z\<rfloor>" using z(2) by (simp add: le_floor_iff)
  then have "(of_int 10000 :: rat) \<le> of_int \<lfloor>z\<rfloor>" by (simp only: of_int_le_iff)
  then have "Fin (of_int 100) \<le> rnd (of_int \<lfloor>z\<rfloor> / 100)" by (intro step) simp_all
  moreover have "in_cents_below (Fin 200) sell_safety_factor = rnd (of_int \<lfloor>z\<rfloor> / 100)"
    by (simp add: in_cents_below_def f_mul_def f_floor_def f_div_def f(1) y(1) z(1))
  ultimately show ?thesis
    by (cases "rnd (of_int \<lfloor>z\<rfloor> / 100)") (auto simp: less_eq_f64_def)
qed

theorem caps_are_covered_witness:
  "\<exists>m. max_sell_amount_usd (Inl []) (Fin 200) (Fin 200) (Some (Fin 200)) = Some m \<and> m \<le> Fin 200"
proof -
  have small: "200 \<le> pow2 900"
    using pow2_le_iff [of 8 900] by (simp add: pow2_def [of 8])
  have one: "rnd 1 = Fin 1" "rnd 200 = Fin 200" using rnd_of_int [of 1] rnd_of_int [of 200] by simp_all
  have v: "sellable_value_usd (Fin 200) (Fin 200) (Some (Fin 200)) None = Some (Fin 200)"
    by (simp add: sellable_value_usd_def option_filter_def f_div_def f_mul_def f_clamp_def one)
  then have m: "max_sell_amount_usd (Inl []) (Fin 200) (Fin 200) (Some (Fin 200))
      = Some (in_cents_below (Fin 200) sell_safety_factor)"
    using sample_cap by (simp add: max_sell_amount_usd_def Let_def)
  have e: "find_exchange ''kraken'' sample_portfolio = Some [(''USDT'', sample_balance)]"
    by (simp add: find_exchange_def sample_portfolio_def sample_assets)
  have a: "find_asset ''USDT'' [(''USDT'', sample_balance)] = Some sample_balance"
    by (simp add: find_asset_def sample_assets)
  have "max_buy_amount_usd_for_exchange sample_portfolio ''kraken'' ''BTC/USDT''
      = Some (in_cents_below (Fin 200) buy_safety_factor)"
    by (simp add: max_buy_amount_usd_for_exchange_def sample_assets e a)
      (simp add: sample_balance_def f_max_def max_def)
  from caps_are_covered [OF this sample_assets(1,2) e a _ small m v small] m
  show ?thesis by (simp add: sample_balance_def)
qed

end
