(* ===== verification/OrderSubmission.thy ===== *)
theory OrderSubmission
  imports Balances
begin

text \<open>
  The submission of one order to OctoBot, \<^verbatim>\<open>place_order\<close> of \<^verbatim>\<open>src/src/trading/octobot.rs\<close>: the
  endpoints are tried in turn until one acknowledges the order or its outcome is uncertain, and a
  sell refused for want of balance is retried with a smaller amount.

  A response carries what the code reads from it: the status, the message found in the body, the
  order parsed from it, and the two quantities the regular expression captures. The responses are
  an argument (by number of the request), and so are the orders observed while polling. The texts
  of errors are not modelled, only their kinds.
\<close>

section \<open>Endpoints and responses\<close>

datatype submission_mode =
    DirectCreateOrder | DirectCreateOrders | DirectOrdersActionBody | DirectOrdersCanonicalBody
  | UserCommandTrading | UserCommandGailTrading | UserCommandTradingBridge

definition default_submission_modes :: "submission_mode list" where
  "default_submission_modes =
     [DirectCreateOrder, DirectCreateOrders, DirectOrdersActionBody, DirectOrdersCanonicalBody,
      UserCommandTrading, UserCommandGailTrading, UserCommandTradingBridge]"

definition ordered_submission_modes :: "submission_mode option \<Rightarrow> submission_mode list" where
  "ordered_submission_modes preferred =
     (case preferred of None \<Rightarrow> [] | Some m \<Rightarrow> [m]) @ filter (\<lambda>m. Some m \<noteq> preferred) default_submission_modes"

record order_response =
  rs_status :: nat
  rs_message :: "string option"
  rs_quantities :: "(f64 \<times> f64) option"
  rs_order :: "octobot_order_result option"

definition is_success :: "order_response \<Rightarrow> bool" where
  "is_success r \<longleftrightarrow> 200 \<le> rs_status r \<and> rs_status r < 300"

definition is_server_error :: "order_response \<Rightarrow> bool" where
  "is_server_error r \<longleftrightarrow> 500 \<le> rs_status r \<and> rs_status r < 600"

definition has_portfolio_negative_rejection :: "order_response \<Rightarrow> bool" where
  "has_portfolio_negative_rejection r \<longleftrightarrow>
     is_some_and (\<lambda>m. let lowered = to_ascii_lowercase m
       in str_contains lowered ''portfolionegativevalueerror''
          \<or> str_contains lowered ''trying to update'' \<and> str_contains lowered ''quantity was'') (rs_message r)"

definition has_non_positive_quantity_rejection :: "order_response \<Rightarrow> bool" where
  "has_non_positive_quantity_rejection r \<longleftrightarrow>
     is_some_and (\<lambda>m. let lowered = to_ascii_lowercase m
       in str_contains lowered ''order quantity became non-positive after market adaptation''
          \<or> str_contains lowered ''quantity became non-positive'' \<and> str_contains lowered ''market adaptation'')
       (rs_message r)"

section \<open>Smaller amounts\<close>

definition floor_usd_to_cents :: "f64 \<Rightarrow> f64" where
  "floor_usd_to_cents v =
     (if \<not> is_finite v then Fin 0 else f_div (f_floor (f_mul (f_max v (Fin 0)) (Fin 100))) (Fin 100))"

text \<open>A smaller amount is one that is at least a cent and below the current one.\<close>

definition smaller_amount :: "f64 \<Rightarrow> f64 \<Rightarrow> f64 option" where
  "smaller_amount current candidate =
     (if f_le (lit (1 / 100)) candidate \<and> f_lt (f_add candidate f_epsilon) current then Some candidate else None)"

definition reduced_sell_retry_amount :: "f64 \<Rightarrow> f64 option" where
  "reduced_sell_retry_amount current =
     (if \<not> is_finite current \<or> f_le current (lit (1 / 100)) then None
      else smaller_amount current
        (f_div (f_round (f_mul (f_mul current (lit (95 / 100))) (Fin 100))) (Fin 100)))"

definition retry_amount_from_quantities :: "f64 \<times> f64 \<Rightarrow> f64 \<Rightarrow> f64 option" where
  "retry_amount_from_quantities q current =
     (let attempted = f_abs (fst q); available = f_abs (snd q)
      in if \<not> is_finite attempted \<or> \<not> is_finite available \<or> f_le attempted (Fin 0) \<or> f_le available (Fin 0) then None
         else if f_le attempted (f_add available f_epsilon) then None
         else smaller_amount current (floor_usd_to_cents
           (f_mul (f_mul current (f_div available attempted)) (lit (995 / 1000)))))"

definition retry_amount_after_rejection :: "order_response \<Rightarrow> f64 \<Rightarrow> f64 option" where
  "retry_amount_after_rejection r current =
     or_else (Option.bind (rs_quantities r) (\<lambda>q. retry_amount_from_quantities q current))
       (reduced_sell_retry_amount current)"

section \<open>One request\<close>

datatype submission_outcome =
    Accepted octobot_order_result bool
  | Rejected
  | RejectedPortfolioNegative "f64 option"
  | RejectedNonPositiveQuantity
  | AmbiguousAccepted

text \<open>
  What a response means. \<open>observed\<close> is the new order or trade seen while polling, which is
  only done against a baseline.
\<close>

definition submission_outcome_of ::
  "order_side \<Rightarrow> f64 \<Rightarrow> bool \<Rightarrow> octobot_order_result option \<Rightarrow> order_response \<Rightarrow> submission_outcome" where
  "submission_outcome_of side amount baseline observed r =
     (if \<not> is_success r
      then if side = SellSide \<and> has_portfolio_negative_rejection r
           then RejectedPortfolioNegative (retry_amount_after_rejection r amount)
           else if has_non_positive_quantity_rejection r then RejectedNonPositiveQuantity
           else if is_server_error r then AmbiguousAccepted
           else Rejected
      else case rs_order r of
             Some order \<Rightarrow> Accepted order True
           | None \<Rightarrow> (case if baseline then observed else None of
               Some order \<Rightarrow> Accepted order False
             | None \<Rightarrow> AmbiguousAccepted))"

record submission_memory =
  sm_preferred :: "submission_mode option"
  sm_direct :: "submission_mode option"

definition forget_mode :: "submission_mode \<Rightarrow> submission_memory \<Rightarrow> submission_memory" where
  "forget_mode m c =
     \<lparr>sm_preferred = (if sm_preferred c = Some m then None else sm_preferred c),
      sm_direct = (if sm_direct c = Some m then None else sm_direct c)\<rparr>"

section \<open>The submission\<close>

record order_request =
  rq_mode :: submission_mode
  rq_amount :: f64
  rq_response :: "string + order_response"

datatype submit_error =
  UnsupportedSide | InvalidAmount | Transport string | NonPositiveQuantity | Uncertain | AllRejected

datatype round_result = Finished "submit_error + octobot_order_result" | RetryWith "f64 option" | Exhausted

text \<open>
  What happens outside: the response to each request, by its number, and the order seen while
  polling after it. \<open>direct\<close> is the mode known to acknowledge, when the submission began.
\<close>

record submission_answers =
  sa_response :: "nat \<Rightarrow> string + order_response"
  sa_observed :: "nat \<Rightarrow> octobot_order_result option"

fun submit_round ::
  "submission_answers \<Rightarrow> order_side \<Rightarrow> submission_mode option \<Rightarrow> f64 \<Rightarrow> submission_mode list \<Rightarrow>
     nat \<Rightarrow> bool \<Rightarrow> submission_memory \<Rightarrow> order_request list \<times> round_result \<times> bool \<times> submission_memory" where
  "submit_round a side direct amount [] n baseline c = ([], Exhausted, baseline, c)"
| "submit_round a side direct amount (m # ms) n baseline c =
     (let baseline = (baseline \<or> Some m \<noteq> direct);
          request = \<lparr>rq_mode = m, rq_amount = amount, rq_response = sa_response a n\<rparr>
      in case sa_response a n of
           Inl e \<Rightarrow> ([request], Finished (Inl (Transport e)), baseline, c)
         | Inr r \<Rightarrow>
             let c = (if is_success r then c else forget_mode m c)
             in (case submission_outcome_of side amount baseline (sa_observed a n) r of
                   Accepted order acknowledged \<Rightarrow>
                     ([request], Finished (Inr order), baseline,
                      \<lparr>sm_preferred = Some m, sm_direct = (if acknowledged then Some m else None)\<rparr>)
                 | Rejected \<Rightarrow>
                     (let (requests, result, baseline, c) = submit_round a side direct amount ms (Suc n) baseline c
                      in (request # requests, result, baseline, c))
                 | RejectedPortfolioNegative retry \<Rightarrow>
                     ([request], RetryWith (option_filter (\<lambda>v. is_finite v \<and> f_lt (Fin 0) v) retry), baseline, c)
                 | RejectedNonPositiveQuantity \<Rightarrow> ([request], Finished (Inl NonPositiveQuantity), baseline, c)
                 | AmbiguousAccepted \<Rightarrow> ([request], Finished (Inl Uncertain), baseline, c)))"

text \<open>Rounds over the endpoints, with the retries of a sell left.\<close>

fun submit_rounds ::
  "submission_answers \<Rightarrow> order_side \<Rightarrow> submission_mode option \<Rightarrow> submission_mode list \<Rightarrow> nat \<Rightarrow> f64 \<Rightarrow>
     nat \<Rightarrow> bool \<Rightarrow> submission_memory \<Rightarrow>
     order_request list \<times> (submit_error + octobot_order_result) \<times> submission_memory" where
  "submit_rounds a side direct modes retries amount n baseline c =
     (let (requests, result, baseline, c) = submit_round a side direct amount modes n baseline c
      in case result of
           Finished r \<Rightarrow> (requests, r, c)
         | Exhausted \<Rightarrow> (requests, Inl AllRejected, c)
         | RetryWith suggestion \<Rightarrow>
             (case (retries, or_else suggestion (reduced_sell_retry_amount amount)) of
                (Suc left, Some smaller) \<Rightarrow>
                  (let (others, r, c) = submit_rounds a side direct modes left smaller (n + length requests) baseline c
                   in (requests @ others, r, c))
              | _ \<Rightarrow> (requests, Inl AllRejected, c)))"

declare submit_rounds.simps [simp del]

definition normalize_order_side :: "string \<Rightarrow> order_side option" where
  "normalize_order_side raw =
     (let lowered = to_ascii_lowercase raw
      in if str_contains lowered ''buy'' then Some BuySide
         else if str_contains lowered ''sell'' then Some SellSide else None)"

definition round_to_cents :: "f64 \<Rightarrow> f64" where
  "round_to_cents amount = f_max (f_div (f_round (f_mul amount (Fin 100))) (Fin 100)) (lit (1 / 100))"

definition place_order ::
  "submission_answers \<Rightarrow> string \<Rightarrow> f64 \<Rightarrow> submission_memory \<Rightarrow>
     order_request list \<times> (submit_error + octobot_order_result) \<times> submission_memory" where
  "place_order a side amount c =
     (case normalize_order_side side of
        None \<Rightarrow> ([], Inl UnsupportedSide, c)
      | Some s \<Rightarrow>
          if \<not> is_finite amount \<or> f_le amount (Fin 0) then ([], Inl InvalidAmount, c)
          else submit_rounds a s (sm_direct c) (ordered_submission_modes (sm_preferred c))
                 (if s = SellSide then 2 else 0) (round_to_cents amount) 0
                 (\<not> (sm_preferred c \<noteq> None \<and> sm_preferred c = sm_direct c)) c)"

section \<open>What a submission promises\<close>

text \<open>A response that proves the request was not carried out.\<close>

definition proves_refusal :: "order_response \<Rightarrow> bool" where
  "proves_refusal r \<longleftrightarrow> \<not> is_success r \<and> (\<not> is_server_error r \<or> has_portfolio_negative_rejection r)"

definition refused :: "order_request \<Rightarrow> bool" where
  "refused q \<longleftrightarrow> (\<exists>r. rq_response q = Inr r \<and> proves_refusal r)"

lemma Accepted_success: "submission_outcome_of side amount baseline observed r = Accepted order d \<Longrightarrow> is_success r"
  by (auto simp: submission_outcome_of_def split: if_splits option.splits)

lemma Rejected_refused: "submission_outcome_of side amount baseline observed r = Rejected \<Longrightarrow> proves_refusal r"
  by (auto simp: submission_outcome_of_def proves_refusal_def split: if_splits option.splits)

lemma PortfolioNegative_refused:
  "submission_outcome_of side amount baseline observed r = RejectedPortfolioNegative retry \<Longrightarrow>
     proves_refusal r \<and> side = SellSide \<and> retry = retry_amount_after_rejection r amount"
  by (auto simp: submission_outcome_of_def proves_refusal_def split: if_splits option.splits)

lemma smaller_amount_Some: "smaller_amount current candidate = Some smaller \<Longrightarrow> f_lt (f_add smaller f_epsilon) current"
  by (auto simp: smaller_amount_def split: if_splits)

lemma reduced_smaller: "reduced_sell_retry_amount current = Some smaller \<Longrightarrow> f_lt (f_add smaller f_epsilon) current"
  by (auto simp: reduced_sell_retry_amount_def split: if_splits dest: smaller_amount_Some)

lemma retry_smaller: "retry_amount_after_rejection r current = Some smaller \<Longrightarrow> f_lt (f_add smaller f_epsilon) current"
  by (auto simp: retry_amount_after_rejection_def or_else_def retry_amount_from_quantities_def Let_def
      split: option.splits if_splits dest: smaller_amount_Some reduced_smaller simp: bind_eq_Some_conv)

lemma submit_round_facts:
  assumes "submit_round a side direct amount modes n baseline c = (requests, result, baseline', c')"
  shows "(\<forall>q\<in>set requests. rq_amount q = amount) \<and> map rq_mode requests = take (length requests) modes
    \<and> (\<forall>q\<in>set (butlast requests). refused q)
    \<and> (case result of
         Finished (Inr order) \<Rightarrow> requests \<noteq> [] \<and> (\<exists>r. rq_response (last requests) = Inr r \<and> is_success r)
       | Finished (Inl e) \<Rightarrow> requests \<noteq> [] \<and> e \<noteq> AllRejected
       | RetryWith s \<Rightarrow> requests \<noteq> [] \<and> refused (last requests) \<and> side = SellSide
           \<and> (\<forall>smaller. s = Some smaller \<longrightarrow> f_lt (f_add smaller f_epsilon) amount)
       | Exhausted \<Rightarrow> \<forall>q\<in>set requests. refused q)"
  using assms
proof (induction modes arbitrary: n baseline c requests)
  case (Cons m ms)
  show ?case
  proof (cases "sa_response a n")
    case (Inl e)
    then show ?thesis using Cons.prems by (auto simp: Let_def)
  next
    case (Inr r)
    define b where "b = (baseline \<or> Some m \<noteq> direct)"
    define c1 where "c1 = (if is_success r then c else forget_mode m c)"
    show ?thesis
    proof (cases "submission_outcome_of side amount b (sa_observed a n) r")
      case Rejected
      obtain rest where rest: "submit_round a side direct amount ms (Suc n) b c1 = (rest, result, baseline', c')"
          "requests = \<lparr>rq_mode = m, rq_amount = amount, rq_response = Inr r\<rparr> # rest"
        using Cons.prems Inr Rejected by (auto simp: Let_def b_def c1_def split: prod.splits)
      have "refused \<lparr>rq_mode = m, rq_amount = amount, rq_response = Inr r\<rparr>"
        using Rejected_refused [OF Rejected] by (simp add: refused_def)
      then show ?thesis using Cons.IH [OF rest(1)] rest(2)
        by (cases "rest = []") (auto split: round_result.splits sum.splits)
    next
      case (RejectedPortfolioNegative retry)
      note f = PortfolioNegative_refused [OF RejectedPortfolioNegative]
      have "f_lt (f_add smaller f_epsilon) amount" if "option_filter P retry = Some smaller" for P smaller
        using that f retry_smaller by (auto simp: option_filter_def split: option.splits if_splits)
      then show ?thesis using Cons.prems Inr RejectedPortfolioNegative f
        by (auto simp: Let_def b_def refused_def)
    qed (use Cons.prems Inr Accepted_success in \<open>auto simp: Let_def b_def [symmetric]\<close>)
  qed
qed simp

text \<open>From one request to the next the amount stays or shrinks.\<close>

definition not_larger :: "order_request \<Rightarrow> order_request \<Rightarrow> bool" where
  "not_larger p q \<longleftrightarrow> rq_amount q = rq_amount p \<or> f_lt (f_add (rq_amount q) f_epsilon) (rq_amount p)"

lemma successively_equal: "\<forall>q\<in>set qs. rq_amount q = amount \<Longrightarrow> successively not_larger qs"
  by (induction qs) (auto simp: successively_Cons not_larger_def)

lemma submit_rounds_facts:
  assumes "submit_rounds a side direct modes retries amount n baseline c = (requests, result, c')"
  shows "(\<forall>q\<in>set (butlast requests). refused q) \<and> length requests \<le> Suc retries * length modes
    \<and> successively not_larger requests \<and> (requests \<noteq> [] \<longrightarrow> rq_amount (hd requests) = amount)
    \<and> (\<forall>order. result = Inr order \<longrightarrow>
         requests \<noteq> [] \<and> (\<exists>r. rq_response (last requests) = Inr r \<and> is_success r))
    \<and> (result = Inl AllRejected \<longrightarrow> (\<forall>q\<in>set requests. refused q))"
  using assms
proof (induction retries arbitrary: amount n baseline c requests)
  case 0
  obtain qs res b c1 where round: "submit_round a side direct amount modes n baseline c = (qs, res, b, c1)"
    by (cases "submit_round a side direct amount modes n baseline c")
  note f = submit_round_facts [OF round]
  have len: "length qs \<le> length modes" using f by (metis length_map length_take min.cobounded1)
  have q: "requests = qs" using 0 round by (auto simp: submit_rounds.simps split: round_result.splits)
  have all: "\<forall>q\<in>set qs. refused q" if "res = Exhausted \<or> (\<exists>s. res = RetryWith s)"
    using that f by (cases qs rule: rev_cases) auto
  show ?case using 0 round f len q successively_equal [of qs amount] all
    by (auto simp: submit_rounds.simps split: round_result.splits)
next
  case (Suc left)
  obtain qs res b c1 where round: "submit_round a side direct amount modes n baseline c = (qs, res, b, c1)"
    by (cases "submit_round a side direct amount modes n baseline c")
  note f = submit_round_facts [OF round]
  have len: "length qs \<le> length modes" using f by (metis length_map length_take min.cobounded1)
  have amounts: "successively not_larger qs" "qs \<noteq> [] \<Longrightarrow> rq_amount (hd qs) = amount"
    using f successively_equal [of qs amount] by auto
  have all: "\<forall>q\<in>set qs. refused q" if "res = Exhausted \<or> (\<exists>s. res = RetryWith s)"
    using that f by (cases qs rule: rev_cases) auto
  show ?case
  proof (cases "\<exists>s smaller. res = RetryWith s \<and> or_else s (reduced_sell_retry_amount amount) = Some smaller")
    case False
    then have "requests = qs \<and> (case res of Finished r \<Rightarrow> result = r | _ \<Rightarrow> result = Inl AllRejected)"
      using Suc.prems round by (auto simp: submit_rounds.simps split: round_result.splits option.splits)
    then show ?thesis using f len amounts all by (auto split: round_result.splits)
  next
    case True
    then obtain s smaller where s: "res = RetryWith s" "or_else s (reduced_sell_retry_amount amount) = Some smaller" by blast
    obtain rest where rest: "submit_rounds a side direct modes left smaller (n + length qs) b c1 = (rest, result, c')"
        "requests = qs @ rest"
      using Suc.prems round s by (auto simp: submit_rounds.simps [of _ _ _ _ "Suc left"] split: prod.splits)
    note g = Suc.IH [OF rest(1)]
    have "f_lt (f_add smaller f_epsilon) amount"
      using f s reduced_smaller [of amount smaller] by (cases s) (auto simp: or_else_def)
    then have "successively not_larger requests"
      using f g amounts rest(2) s(1) by (auto simp: successively_append_iff not_larger_def)
    moreover have "\<forall>q\<in>set (butlast requests). refused q"
      using all s(1) g rest(2) by (auto simp: butlast_append split: if_splits dest: in_set_butlastD)
    moreover have "length requests \<le> Suc (Suc left) * length modes" using len g rest(2) by simp
    ultimately show ?thesis using f g rest(2) s(1) amounts all by auto
  qed
qed

text \<open>C10: One call places at most one order: every request but the last was provably refused (the endpoint
  answered neither success nor a server error, or said that the balance does not cover the sale);
  an uncertain answer ends the submission. There are at most 21 requests, 7 for a buy, the amount
  never grows from one to the next, and an acknowledged order was answered with success.\<close>

theorem one_call_places_at_most_one_order:
  assumes "place_order a side amount c = (requests, result, c')"
  shows "(\<forall>q\<in>set (butlast requests). refused q)
    \<and> length requests \<le> 21 \<and> (normalize_order_side side = Some BuySide \<longrightarrow> length requests \<le> 7)
    \<and> successively not_larger requests
    \<and> (\<forall>order. result = Inr order \<longrightarrow>
         requests \<noteq> [] \<and> (\<exists>r. rq_response (last requests) = Inr r \<and> is_success r))
    \<and> (result = Inl AllRejected \<longrightarrow> (\<forall>q\<in>set requests. refused q))"
proof (cases "normalize_order_side side = None \<or> \<not> is_finite amount \<or> f_le amount (Fin 0)")
  case True
  then show ?thesis using assms by (auto simp: place_order_def split: option.splits if_splits)
next
  case False
  then obtain s where s: "normalize_order_side side = Some s" by auto
  have seven: "length (ordered_submission_modes (sm_preferred c)) = 7"
    by (cases "sm_preferred c" rule: option.exhaust; cases "the (sm_preferred c)")
      (simp_all add: ordered_submission_modes_def default_submission_modes_def)
  have "submit_rounds a s (sm_direct c) (ordered_submission_modes (sm_preferred c))
      (if s = SellSide then 2 else 0) (round_to_cents amount) 0
      (\<not> (sm_preferred c \<noteq> None \<and> sm_preferred c = sm_direct c)) c = (requests, result, c')"
    using assms s False by (simp add: place_order_def)
  from submit_rounds_facts [OF this] show ?thesis using s seven by (cases s) auto
qed

text \<open>A buy refused by the first endpoint and acknowledged by the second.\<close>

definition sample_not_found :: order_response where
  "sample_not_found = \<lparr>rs_status = 404, rs_message = None, rs_quantities = None, rs_order = None\<rparr>"

definition sample_acknowledged :: order_response where
  "sample_acknowledged = \<lparr>rs_status = 200, rs_message = None, rs_quantities = None,
     rs_order = Some \<lparr>or_order_id = ''o1'', or_symbol = ''BTC/USDT'', or_side = ''buy'', or_amount = Fin 10,
       or_price = None, or_status = ''closed''\<rparr>\<rparr>"

definition sample_submission :: submission_answers where
  "sample_submission = \<lparr>sa_response = (\<lambda>n. Inr (if n = 0 then sample_not_found else sample_acknowledged)),
     sa_observed = (\<lambda>_. None)\<rparr>"

theorem one_call_places_at_most_one_order_witness:
  "let (requests, result, c) = place_order sample_submission ''buy'' (Fin 10) \<lparr>sm_preferred = None, sm_direct = None\<rparr>
   in length requests = 2 \<and> (\<forall>q\<in>set (butlast requests). refused q) \<and> sm_preferred c = Some DirectCreateOrders"
proof -
  let ?c = "\<lparr>sm_preferred = None, sm_direct = None\<rparr>"
  obtain requests result c where p: "place_order sample_submission ''buy'' (Fin 10) ?c = (requests, result, c)"
    by (cases "place_order sample_submission ''buy'' (Fin 10) ?c")
  have "normalize_order_side ''buy'' = Some BuySide" by code_simp
  then have "length requests = 2 \<and> sm_preferred c = Some DirectCreateOrders"
    using p by (auto simp: place_order_def submit_rounds.simps ordered_submission_modes_def default_submission_modes_def
        sample_submission_def sample_not_found_def sample_acknowledged_def is_success_def submission_outcome_of_def
        has_portfolio_negative_rejection_def has_non_positive_quantity_rejection_def is_server_error_def
        is_some_and_def Let_def)
  then show ?thesis using one_call_places_at_most_one_order [OF p] p by simp
qed

end
