(* ===== verification/Decision.thy ===== *)
theory Decision
  imports Balances
begin

text \<open>
  The decision engine, \<^verbatim>\<open>src/src/trading/decision.rs\<close>: fuzzy and model signals are blended, adjusted by
  the measured outcome of past trades, and gated; an actionable decision is sized by its expected
  edge. The entries of the consensus' vote distribution that the engine reads are fields.
\<close>

section \<open>Inputs and output\<close>

record fuzzy_decision =
  fd_signal :: f64
  fd_confidence :: f64
  fd_label :: string

record ai_advice =
  aa_provider :: string
  aa_model :: "string option"
  aa_reasoning :: string
  aa_parsed_ok :: bool

record ai_consensus =
  ac_action :: string
  ac_confidence :: f64
  ac_signal :: f64
  ac_advices :: "ai_advice list"
  ac_responders :: nat
  ac_failures :: nat
  ac_agreement :: "f64 option"
  ac_average_risk :: "f64 option"
  ac_selected_horizon_seconds :: "nat option"
  ac_rebalance_weight :: "f64 option"
  ac_edge_lower_bound_bps :: "f64 option"
  ac_estimated_round_trip_cost_bps :: "f64 option"

record trade_decision =
  td_action :: trade_action
  td_exchange :: string
  td_symbol :: string
  td_amount_usd :: f64
  td_confidence :: f64
  td_rationale :: string
  td_fuzzy_signal :: f64
  td_fuzzy_confidence :: f64
  td_ai_signal :: f64
  td_ai_confidence :: f64
  td_blended_signal :: f64
  td_roi_feedback_applied :: bool
  td_roi_feedback_signal_adjustment :: f64
  td_roi_feedback_confidence_multiplier :: f64
  td_roi_feedback_samples :: nat
  td_roi_feedback_avg_directional_roi :: "f64 option"
  td_roi_feedback_win_rate :: "f64 option"
  td_override_applied :: bool
  td_created_at :: f64
  td_market_fetched_at :: "f64 option"
  td_reference_price :: "f64 option"
  td_economics :: trade_economics
  td_provider_keys :: "string list"
  td_market_regime :: string
  td_holding_horizon_seconds :: "nat option"
  td_portfolio_target_weight :: "f64 option"

definition hold_decision :: "string \<Rightarrow> f64 \<Rightarrow> trade_decision" where
  "hold_decision reason now =
     \<lparr>td_action = Hold, td_exchange = [], td_symbol = [], td_amount_usd = Fin 0, td_confidence = Fin 0,
      td_rationale = reason, td_fuzzy_signal = Fin 0, td_fuzzy_confidence = Fin 0, td_ai_signal = Fin 0,
      td_ai_confidence = Fin 0, td_blended_signal = Fin 0, td_roi_feedback_applied = False,
      td_roi_feedback_signal_adjustment = Fin 0, td_roi_feedback_confidence_multiplier = Fin 1,
      td_roi_feedback_samples = 0, td_roi_feedback_avg_directional_roi = None, td_roi_feedback_win_rate = None,
      td_override_applied = False, td_created_at = now, td_market_fetched_at = None, td_reference_price = None,
      td_economics = default_economics, td_provider_keys = [], td_market_regime = ''unknown'',
      td_holding_horizon_seconds = None, td_portfolio_target_weight = None\<rparr>"

section \<open>Effective settings\<close>

record effective_config =
  ef_fuzzy_weight :: f64
  ef_fuzzy_confidence_threshold :: f64
  ef_max_open_positions :: nat
  ef_min_trade_interval_seconds :: nat
  ef_micro_trade_min_usd :: f64
  ef_micro_trade_max_usd :: f64
  ef_roi_feedback_enabled :: bool
  ef_roi_feedback_lookback_trades :: nat
  ef_roi_feedback_min_samples :: nat
  ef_roi_feedback_target_roi_pct :: f64
  ef_roi_feedback_max_signal_adjustment :: f64
  ef_roi_feedback_max_confidence_penalty :: f64
  ef_roi_feedback_max_confidence_boost :: f64

definition overridden :: "trading_override option \<Rightarrow> (trading_override \<Rightarrow> 'a option) \<Rightarrow> 'a \<Rightarrow> 'a" where
  "overridden overrides field base = unwrap_or base (Option.bind overrides field)"

definition effective_config_from ::
  "'a trading_config_scheme \<Rightarrow> trading_override option \<Rightarrow> f64 \<Rightarrow> effective_config" where
  "effective_config_from base ov default_fuzzy_weight =
     \<lparr>ef_fuzzy_weight = f_clamp (overridden ov ov_fuzzy_weight default_fuzzy_weight) (Fin 0) (Fin 1),
      ef_fuzzy_confidence_threshold = overridden ov ov_fuzzy_confidence_threshold (tr_fuzzy_confidence_threshold base),
      ef_max_open_positions = overridden ov ov_max_open_positions (tr_max_open_positions base),
      ef_min_trade_interval_seconds = tr_min_trade_interval_seconds base,
      ef_micro_trade_min_usd = overridden ov ov_micro_trade_min_usd (tr_micro_trade_min_usd base),
      ef_micro_trade_max_usd = overridden ov ov_micro_trade_max_usd (tr_micro_trade_max_usd base),
      ef_roi_feedback_enabled = tr_roi_feedback_enabled base,
      ef_roi_feedback_lookback_trades = tr_roi_feedback_lookback_trades base,
      ef_roi_feedback_min_samples = tr_roi_feedback_min_samples base,
      ef_roi_feedback_target_roi_pct =
        f_clamp (overridden ov ov_roi_feedback_target_roi_pct (tr_roi_feedback_target_roi_pct base))
          (lit (1 / 10)) (Fin 50),
      ef_roi_feedback_max_signal_adjustment =
        f_clamp (overridden ov ov_roi_feedback_max_signal_adjustment (tr_roi_feedback_max_signal_adjustment base))
          (Fin 0) (Fin (1 / 2)),
      ef_roi_feedback_max_confidence_penalty =
        f_clamp (overridden ov ov_roi_feedback_max_confidence_penalty (tr_roi_feedback_max_confidence_penalty base))
          (Fin 0) (lit (95 / 100)),
      ef_roi_feedback_max_confidence_boost =
        f_clamp (overridden ov ov_roi_feedback_max_confidence_boost (tr_roi_feedback_max_confidence_boost base))
          (Fin 0) (Fin (1 / 2))\<rparr>"

section \<open>The confidence gate\<close>

record confidence_gate =
  cg_threshold :: f64
  cg_base_threshold :: f64
  cg_coverage :: f64
  cg_responders :: nat
  cg_failures :: nat

definition adaptive_confidence_gate :: "effective_config \<Rightarrow> ai_consensus \<Rightarrow> confidence_gate" where
  "adaptive_confidence_gate config c =
     (let base = f_clamp (ef_fuzzy_confidence_threshold config) (Fin 0) (Fin 1);
          responders = ac_responders c; failures = ac_failures c;
          coverage = f_div (f_of_nat responders) (f_of_nat (max (responders + failures) 1));
          agreement = unwrap_or (Fin 1) (map_option (\<lambda>v. f_clamp v (Fin 0) (Fin 1)) (ac_agreement c));
          risk = unwrap_or (Fin (1 / 2)) (map_option (\<lambda>v. f_clamp v (Fin 0) (Fin 1)) (ac_average_risk c));
          depth = f_clamp (f_div (f_of_nat responders) (Fin 3)) (Fin 0) (Fin 1);
          degradation = f_clamp
            (f_add (f_add (f_add (f_mul (f_sub (Fin 1) coverage) (lit (45 / 100)))
              (f_mul (f_sub (Fin 1) depth) (lit (30 / 100))))
              (f_mul (f_sub (Fin 1) agreement) (lit (15 / 100))))
              (f_mul risk (lit (10 / 100)))) (Fin 0) (Fin 1);
          threshold = (if responders = 0 then Fin 1
            else if 0 < failures \<or> responders < 2
            then f_add base (f_mul (f_min (f_sub (Fin 1) base) (lit (22 / 100))) degradation)
            else base)
      in \<lparr>cg_threshold = f_clamp threshold base (Fin 1), cg_base_threshold = base, cg_coverage = coverage,
          cg_responders = responders, cg_failures = failures\<rparr>)"

section \<open>Feedback of past outcomes\<close>

record roi_adjustment =
  ra_signal_adjustment :: f64
  ra_confidence_multiplier :: f64
  ra_samples :: nat
  ra_avg_directional_roi :: f64
  ra_win_rate :: f64

definition directional_roi_summary :: "outcome_ledger \<Rightarrow> bool \<Rightarrow> string option \<Rightarrow> nat \<Rightarrow> nat \<times> f64 \<times> f64" where
  "directional_roi_summary outcomes buying symbol lookback =
     (let p = directional_performance symbol buying lookback outcomes
      in if op_samples p = 0 then (0, Fin 0, Fin 0)
         else (op_samples p, f_div (op_average_net_return_bps p) (Fin 10000), op_win_rate p))"

definition feedback_summary ::
  "outcome_ledger \<Rightarrow> bool \<Rightarrow> string option \<Rightarrow> nat \<Rightarrow> nat \<Rightarrow> nat \<times> f64 \<times> f64" where
  "feedback_summary outcomes buying symbol lookback min_samples =
     (let by_symbol = (case symbol of None \<Rightarrow> None
        | Some s \<Rightarrow> option_filter (\<lambda>(samples, _). min_samples \<le> samples)
            (Some (directional_roi_summary outcomes buying (Some s) lookback)))
      in unwrap_or (directional_roi_summary outcomes buying None lookback) by_symbol)"

definition roi_performance :: "f64 \<Rightarrow> f64 \<Rightarrow> f64 \<Rightarrow> f64" where
  "roi_performance average win_rate target_pct =
     (let target = f_max (f_div target_pct (Fin 100)) (lit (1 / 1000));
          roi = f_clamp (f_div average target) (Fin (- 1)) (Fin 1);
          win = f_clamp (f_mul (f_sub win_rate (Fin (1 / 2))) (Fin 2)) (Fin (- 1)) (Fin 1)
      in f_clamp (f_add (f_mul roi (lit (7 / 10))) (f_mul win (lit (3 / 10)))) (Fin (- 1)) (Fin 1))"

definition roi_feedback_adjustment ::
  "outcome_ledger \<Rightarrow> string option \<Rightarrow> f64 \<Rightarrow> effective_config \<Rightarrow> roi_adjustment option" where
  "roi_feedback_adjustment outcomes symbol signal config =
     (if \<not> ef_roi_feedback_enabled config \<or> \<not> f_lt (Fin 0) signal \<and> \<not> f_lt signal (Fin 0) then None
      else
        let buying = f_lt (Fin 0) signal;
            min_samples = max (ef_roi_feedback_min_samples config) 2;
            (samples, average, win_rate) = feedback_summary outcomes buying symbol
              (max (ef_roi_feedback_lookback_trades config) 2) min_samples;
            performance = roi_performance average win_rate (ef_roi_feedback_target_roi_pct config)
        in if samples < min_samples \<or> f_lt (f_abs performance) (lit (1 / 100)) then None
           else Some \<lparr>
             ra_signal_adjustment = f_mul (f_mul (if buying then Fin 1 else Fin (- 1)) performance)
               (ef_roi_feedback_max_signal_adjustment config),
             ra_confidence_multiplier = f_clamp
               (if f_lt performance (Fin 0)
                then f_sub (Fin 1) (f_mul (f_neg performance) (ef_roi_feedback_max_confidence_penalty config))
                else f_add (Fin 1) (f_mul performance (ef_roi_feedback_max_confidence_boost config)))
               (lit (5 / 100)) (Fin 2),
             ra_samples = samples, ra_avg_directional_roi = average, ra_win_rate = win_rate\<rparr>)"

section \<open>Action, size, labels\<close>

definition signal_to_action :: "f64 \<Rightarrow> trade_action" where
  "signal_to_action s =
     (if f_le (lit (65 / 100)) s then StrongBuy else if f_le (lit (2 / 10)) s then Buy
      else if f_le s (lit (- 65 / 100)) then StrongSell else if f_le s (lit (- 2 / 10)) then Sell else Hold)"

definition size_trade :: "f64 \<Rightarrow> f64 \<Rightarrow> f64 \<Rightarrow> f64 \<Rightarrow> f64 \<Rightarrow> f64" where
  "size_trade strength confidence edge_multiplier min_usd max_usd =
     (let scale = f_clamp (f_mul (f_mul strength confidence) edge_multiplier) (Fin 0) (Fin 1);
          raw = f_add min_usd (f_mul (f_sub max_usd min_usd) scale)
      in f_div (f_round (f_mul raw (Fin 100))) (Fin 100))"

definition market_regime_label :: "market_snapshot option \<Rightarrow> string" where
  "market_regime_label snapshot =
     (let change = unwrap_or (Fin 0) (Option.bind snapshot ms_price_change_pct_24h)
      in if f_le (Fin 3) change then ''bull_volatile'' else if f_le (Fin (1 / 2)) change then ''bull''
         else if f_le change (Fin (- 3)) then ''bear_volatile'' else if f_le change (Fin (- 1 / 2)) then ''bear''
         else ''range'')"

definition format_signed :: "nat \<Rightarrow> f64 \<Rightarrow> string" where
  "format_signed p x = (case x of Fin q \<Rightarrow> if q < 0 then [] else ''+'' | PInf \<Rightarrow> ''+'' | _ \<Rightarrow> []) @ format_fixed p x"

definition build_rationale ::
  "trade_action \<Rightarrow> f64 \<Rightarrow> f64 \<Rightarrow> ai_consensus \<Rightarrow> roi_adjustment option \<Rightarrow> string" where
  "build_rationale action signal confidence c feedback =
     (let top = map aa_reasoning (take 2 (filter (\<lambda>a. aa_parsed_ok a \<and> aa_reasoning a \<noteq> []) (ac_advices c)));
          summary = (if top = []
            then ''AI consensus: '' @ ac_action c @ '' ('' @ decimal (ac_responders c) @ '' responders)''
            else join_with ''; '' top)
      in ''Action='' @ action_name action @ '' signal='' @ format_fixed 3 signal @ '' confidence=''
         @ format_fixed 2 confidence @ ''. '' @ summary
         @ (case feedback of None \<Rightarrow> []
            | Some f \<Rightarrow> '' Historical directional ROI feedback: avg_roi=''
                @ format_fixed 2 (f_mul (ra_avg_directional_roi f) (Fin 100)) @ ''% win_rate=''
                @ format_fixed 0 (f_mul (ra_win_rate f) (Fin 100)) @ ''% samples='' @ decimal (ra_samples f)
                @ '' signal_adj='' @ format_signed 3 (ra_signal_adjustment f) @ '' confidence_x=''
                @ format_fixed 2 (ra_confidence_multiplier f) @ ''.''))"

section \<open>Deciding\<close>

text \<open>The signals of a round: blended from both engines, then adjusted by the feedback.\<close>

record blended_view =
  bl_signal :: f64
  bl_confidence :: f64
  bl_feedback :: "roi_adjustment option"

definition blend ::
  "effective_config \<Rightarrow> fuzzy_decision \<Rightarrow> ai_consensus \<Rightarrow> market_snapshot option \<Rightarrow> outcome_ledger \<Rightarrow> blended_view" where
  "blend config fuzzy c market outcomes =
     (let w = ef_fuzzy_weight config; v = f_sub (Fin 1) w;
          signal = f_add (f_mul (fd_signal fuzzy) w) (f_mul (ac_signal c) v);
          confidence = f_add (f_mul (fd_confidence fuzzy) w) (f_mul (ac_confidence c) v);
          feedback = roi_feedback_adjustment outcomes (map_option ms_symbol market) signal config
      in case feedback of
           None \<Rightarrow> \<lparr>bl_signal = signal, bl_confidence = confidence, bl_feedback = None\<rparr>
         | Some a \<Rightarrow> \<lparr>bl_signal = f_clamp (f_add signal (ra_signal_adjustment a)) (Fin (- 1)) (Fin 1),
               bl_confidence = f_clamp (f_mul confidence (ra_confidence_multiplier a)) (Fin 0) (Fin 1),
               bl_feedback = Some a\<rparr>)"

definition apply_override :: "trade_override \<Rightarrow> 'a trading_config_scheme \<Rightarrow> f64 \<Rightarrow> trade_decision" where
  "apply_override ov config now =
     (hold_decision (''Operator override by '' @ to_issued_by ov @ '': ''
         @ unwrap_or ''no reason given'' (to_reason ov)) now)
       \<lparr>td_action := to_action ov, td_exchange := unwrap_or [] (to_exchange ov),
        td_symbol := unwrap_or [] (to_symbol ov),
        td_amount_usd := f_clamp (unwrap_or (tr_micro_trade_min_usd config) (to_amount_usd ov))
          (tr_micro_trade_min_usd config) (tr_micro_trade_max_usd config),
        td_confidence := Fin 1, td_override_applied := True, td_market_regime := ''operator_override''\<rparr>"

text \<open>The decision to hold at a gate.\<close>

definition gate_hold ::
  "string \<Rightarrow> fuzzy_decision \<Rightarrow> ai_consensus \<Rightarrow> blended_view \<Rightarrow> market_snapshot option \<Rightarrow> f64 \<Rightarrow> trade_decision" where
  "gate_hold reason fuzzy c b market now =
     (hold_decision reason now)
       \<lparr>td_exchange := (case market of None \<Rightarrow> [] | Some m \<Rightarrow> ms_exchange m),
        td_symbol := (case market of None \<Rightarrow> [] | Some m \<Rightarrow> ms_symbol m),
        td_confidence := bl_confidence b, td_fuzzy_signal := fd_signal fuzzy,
        td_fuzzy_confidence := fd_confidence fuzzy, td_ai_signal := ac_signal c,
        td_ai_confidence := ac_confidence c, td_blended_signal := bl_signal b\<rparr>"

definition provider_keys_of :: "ai_consensus \<Rightarrow> string list" where
  "provider_keys_of c = map (\<lambda>a. case aa_model a of None \<Rightarrow> aa_provider a
     | Some model \<Rightarrow> aa_provider a @ ''/'' @ model) (filter aa_parsed_ok (ac_advices c))"

definition decision_economics ::
  "'a trading_config_scheme \<Rightarrow> ai_consensus \<Rightarrow> blended_view \<Rightarrow> market_snapshot \<Rightarrow> outcome_ledger \<Rightarrow> trade_economics" where
  "decision_economics config c b m outcomes =
     (let calibration = calibration_for outcomes (ms_symbol m) (provider_keys_of c) (market_regime_label (Some m))
            (tr_markout_calibration_min_samples config);
          e = estimate_trade_economics (f_abs (bl_signal b)) (bl_confidence b) (oc_multiplier calibration) config
      in case (ac_edge_lower_bound_bps c, ac_estimated_round_trip_cost_bps c) of
           (Some edge, Some cost) \<Rightarrow>
             e\<lparr>te_expected_net_edge_bps := edge, te_estimated_round_trip_cost_bps := f_max cost (Fin 0),
               te_expected_gross_edge_bps := f_add edge (f_max cost (Fin 0))\<rparr>
         | _ \<Rightarrow> e)"

definition decide ::
  "f64 \<Rightarrow> fuzzy_decision \<Rightarrow> ai_consensus \<Rightarrow> market_snapshot option \<Rightarrow> 'r trading_state \<Rightarrow>
     'a trading_config_scheme \<Rightarrow> f64 \<Rightarrow> f64 \<Rightarrow> trade_decision" where
  "decide fuzzy_weight fuzzy c best_market s config cooldown_now now =
     (case st_pending_override s of
        Some ov \<Rightarrow> apply_override ov config now
      | None \<Rightarrow>
        let ef = effective_config_from config (st_config_overrides s) fuzzy_weight;
            b = blend ef fuzzy c best_market (st_outcome_ledger s);
            gate = adaptive_confidence_gate ef c;
            interval = f_of_nat (ef_min_trade_interval_seconds ef);
            hold = (\<lambda>reason. gate_hold reason fuzzy c b best_market now)
        in if f_lt (bl_confidence b) (cg_threshold gate)
           then hold (''Confidence '' @ format_fixed 2 (bl_confidence b) @ '' below adaptive threshold ''
             @ format_fixed 2 (cg_threshold gate) @ '' (base '' @ format_fixed 2 (cg_base_threshold gate)
             @ '', coverage '' @ format_fixed 0 (f_mul (cg_coverage gate) (Fin 100)) @ ''%, responders=''
             @ decimal (cg_responders gate) @ '', failures='' @ decimal (cg_failures gate) @ '')'')
           else if ef_max_open_positions ef \<le> open_position_count s \<and> f_lt (Fin 0) (bl_signal b)
           then hold (''Max open positions reached ('' @ decimal (open_position_count s) @ ''/''
             @ decimal (ef_max_open_positions ef) @ '')'')
           else if is_some_and (\<lambda>last. f_lt (f_sub cooldown_now last) interval) (st_last_trade_at s)
           then hold (''Cooldown: '' @ format_fixed 0 (f_sub interval
             (f_sub cooldown_now (unwrap_or (Fin 0) (st_last_trade_at s)))) @ ''s remaining'')
           else case best_market of
             None \<Rightarrow> hold ''No target market available''
           | Some m \<Rightarrow>
             let action = signal_to_action (bl_signal b);
                 e = decision_economics config c b m (st_outcome_ledger s);
                 weight = map_option (\<lambda>w. f_clamp (f_abs w) (Fin 0) (Fin 1)) (ac_rebalance_weight c)
             in if action \<noteq> Hold \<and> \<not> is_worthwhile e
                then (hold (''Expected net edge '' @ format_fixed 1 (te_expected_net_edge_bps e)
                    @ ''bps below required '' @ format_fixed 1 (te_required_net_edge_bps e) @ ''bps (gross ''
                    @ format_fixed 1 (te_expected_gross_edge_bps e) @ ''bps, costs ''
                    @ format_fixed 1 (te_estimated_round_trip_cost_bps e) @ ''bps, calibration ''
                    @ format_fixed 2 (te_calibration_multiplier e) @ ''x)''))
                  \<lparr>td_economics := e, td_provider_keys := provider_keys_of c,
                   td_market_regime := market_regime_label (Some m),
                   td_market_fetched_at := Some (ms_fetched_at m), td_reference_price := Some (ms_price m)\<rparr>
                else
                  \<lparr>td_action = action, td_exchange = ms_exchange m, td_symbol = ms_symbol m,
                   td_amount_usd = f_mul (size_trade (f_abs (bl_signal b)) (bl_confidence b) (size_multiplier e)
                     (ef_micro_trade_min_usd ef) (ef_micro_trade_max_usd ef)) (unwrap_or (Fin 1) weight),
                   td_confidence = bl_confidence b,
                   td_rationale = build_rationale action (bl_signal b) (bl_confidence b) c (bl_feedback b),
                   td_fuzzy_signal = fd_signal fuzzy, td_fuzzy_confidence = fd_confidence fuzzy,
                   td_ai_signal = ac_signal c, td_ai_confidence = ac_confidence c, td_blended_signal = bl_signal b,
                   td_roi_feedback_applied = (bl_feedback b \<noteq> None),
                   td_roi_feedback_signal_adjustment = (case bl_feedback b of None \<Rightarrow> Fin 0 | Some a \<Rightarrow> ra_signal_adjustment a),
                   td_roi_feedback_confidence_multiplier =
                     (case bl_feedback b of None \<Rightarrow> Fin 1 | Some a \<Rightarrow> ra_confidence_multiplier a),
                   td_roi_feedback_samples = (case bl_feedback b of None \<Rightarrow> 0 | Some a \<Rightarrow> ra_samples a),
                   td_roi_feedback_avg_directional_roi = map_option ra_avg_directional_roi (bl_feedback b),
                   td_roi_feedback_win_rate = map_option ra_win_rate (bl_feedback b),
                   td_override_applied = False, td_created_at = now,
                   td_market_fetched_at = Some (ms_fetched_at m), td_reference_price = Some (ms_price m),
                   td_economics = e, td_provider_keys = provider_keys_of c,
                   td_market_regime = market_regime_label (Some m),
                   td_holding_horizon_seconds = ac_selected_horizon_seconds c,
                   td_portfolio_target_weight = weight\<rparr>)"

section \<open>What the gates promise\<close>

lemma hold_is_hold [simp]: "td_action (hold_decision reason now) = Hold"
  "td_override_applied (hold_decision reason now) = False"
  by (simp_all add: hold_decision_def)

lemma gate_hold_is_hold [simp]: "td_action (gate_hold reason fuzzy c b market now) = Hold"
  "td_override_applied (gate_hold reason fuzzy c b market now) = False"
  by (simp_all add: gate_hold_def)

lemma rnd_one: "rnd 1 = Fin 1" using rnd_of_int [of 1] by simp

lemma gate_threshold:
  assumes "ef_fuzzy_confidence_threshold config \<noteq> NaN"
  shows "cg_base_threshold (adaptive_confidence_gate config c) \<le> cg_threshold (adaptive_confidence_gate config c)"
    and "Fin 0 \<le> cg_base_threshold (adaptive_confidence_gate config c)"
    and "ac_responders c = 0 \<Longrightarrow> cg_threshold (adaptive_confidence_gate config c) = Fin 1"
proof -
  define base where "base = f_clamp (ef_fuzzy_confidence_threshold config) (Fin 0) (Fin 1)"
  have b: "base \<le> Fin 1" "Fin 0 \<le> base" unfolding base_def using assms by (simp_all add: f_clamp_le f_clamp_ge)
  show "cg_base_threshold (adaptive_confidence_gate config c) \<le> cg_threshold (adaptive_confidence_gate config c)"
    using b by (simp add: adaptive_confidence_gate_def Let_def base_def [symmetric] f_clamp_ge)
  show "Fin 0 \<le> cg_base_threshold (adaptive_confidence_gate config c)"
    using b by (simp add: adaptive_confidence_gate_def Let_def base_def [symmetric])
  show "ac_responders c = 0 \<Longrightarrow> cg_threshold (adaptive_confidence_gate config c) = Fin 1"
    using b by (simp add: adaptive_confidence_gate_def Let_def base_def [symmetric] f_clamp_def f_lt_iff)
qed

text \<open>The direction of an action is the sign of the signal.\<close>

lemma action_direction:
  "trade_action_side (signal_to_action x) = Some BuySide \<Longrightarrow> f_le (lit (2 / 10)) x"
  "trade_action_side (signal_to_action x) = Some SellSide \<Longrightarrow> f_le x (lit (- 2 / 10))"
proof -
  have "lit (2 / 10) \<le> lit (65 / 100)" "lit (- 65 / 100) \<le> lit (- 2 / 10)" by (simp_all add: rnd_mono)
  then show "trade_action_side (signal_to_action x) = Some BuySide \<Longrightarrow> f_le (lit (2 / 10)) x"
    "trade_action_side (signal_to_action x) = Some SellSide \<Longrightarrow> f_le x (lit (- 2 / 10))"
    by (auto simp: signal_to_action_def f_le_iff split: if_splits intro: order_trans)
qed


definition sample_fuzzy :: fuzzy_decision where
  "sample_fuzzy = \<lparr>fd_signal = Fin 1, fd_confidence = Fin 1, fd_label = ''strong_buy''\<rparr>"

definition sample_consensus :: ai_consensus where
  "sample_consensus = \<lparr>ac_action = ''buy'', ac_confidence = Fin 0, ac_signal = Fin 0, ac_advices = [],
     ac_responders = 2, ac_failures = 0, ac_agreement = None, ac_average_risk = None,
     ac_selected_horizon_seconds = None, ac_rebalance_weight = None, ac_edge_lower_bound_bps = Some (Fin 100),
     ac_estimated_round_trip_cost_bps = Some (Fin 0)\<rparr>"

definition sample_market :: market_snapshot where
  "sample_market = \<lparr>ms_exchange = ''kraken'', ms_symbol = ''BTC/USDT'', ms_price = Fin 100,
     ms_price_change_pct_1h = None, ms_price_change_pct_24h = None, ms_volume_24h = None,
     ms_volume_change_pct = None, ms_high_24h = None, ms_low_24h = None, ms_fetched_at = Fin 1000,
     ms_microstructure = \<lparr>mm_best_bid = None, mm_best_ask = None, mm_bid_depth_usd = None, mm_ask_depth_usd = None,
       mm_order_flow_imbalance = None, mm_trade_flow_imbalance = None, mm_funding_rate = None,
       mm_open_interest = None, mm_futures_basis_bps = None, mm_listing_age_days = None,
       mm_quote_volume_24h = None, mm_source_latency_ms = None\<rparr>\<rparr>"

abbreviation sample_bridge_config :: trading_config where
  "sample_bridge_config \<equiv> default_bridge_config\<lparr>tr_roi_feedback_enabled := False\<rparr>"

abbreviation sample_trading_state :: "unit trading_state" where
  "sample_trading_state \<equiv> new_trading_state 10 10 ()"

abbreviation sample_decision :: trade_decision where
  "sample_decision \<equiv> decide (Fin 1) sample_fuzzy sample_consensus (Some sample_market) sample_trading_state
     sample_bridge_config (Fin 1000) (Fin 1000)"

lemma sample_numbers: "rnd 0 = Fin 0" "rnd 1 = Fin 1" "rnd 100 = Fin 100" "lit (65 / 100) \<le> Fin 1"
  "Fin 15 \<le> f_add (Fin 100) f_epsilon" "f_add (Fin 100) f_epsilon \<noteq> NaN"
proof -
  show r: "rnd 0 = Fin 0" "rnd 1 = Fin 1" "rnd 100 = Fin 100"
    using rnd_of_int [of 0] rnd_of_int [of 1] rnd_of_int [of 100] by simp_all
  show "lit (65 / 100) \<le> Fin 1" using rnd_mono [of "65 / 100" 1] r by simp
  have "rnd 15 \<le> rnd (100 + 1 / 2 ^ 52)" by (rule rnd_mono) simp
  then show "Fin 15 \<le> f_add (Fin 100) f_epsilon" using rnd_of_int [of 15] by (simp add: f_epsilon_def)
  show "f_add (Fin 100) f_epsilon \<noteq> NaN" by (simp add: f_epsilon_def)
qed

lemma sample_effective:
  "effective_config_from sample_bridge_config None (Fin 1) = ef \<Longrightarrow>
     ef_fuzzy_weight ef = Fin 1 \<and> ef_fuzzy_confidence_threshold ef = lit (65 / 100)
     \<and> ef_max_open_positions ef = 40 \<and> \<not> ef_roi_feedback_enabled ef"
  by (auto simp: effective_config_from_def overridden_def default_bridge_config_def f_clamp_def)

lemma sample_blend:
  "blend (effective_config_from sample_bridge_config None (Fin 1)) sample_fuzzy sample_consensus (Some sample_market) []
     = \<lparr>bl_signal = Fin 1, bl_confidence = Fin 1, bl_feedback = None\<rparr>"
  using sample_effective [OF refl]
  by (simp add: blend_def roi_feedback_adjustment_def sample_fuzzy_def sample_consensus_def f_sub_def f_neg_def
      f_mul_def sample_numbers Let_def)

lemma sample_gate:
  "cg_threshold (adaptive_confidence_gate (effective_config_from sample_bridge_config None (Fin 1)) sample_consensus)
     \<le> Fin 1"
  unfolding adaptive_confidence_gate_def Let_def confidence_gate.simps
  by (rule f_clamp_le) (simp_all add: sample_effective [OF refl] sample_consensus_def f_clamp_le)

lemma sample_worthwhile:
  "is_worthwhile (decision_economics sample_bridge_config sample_consensus
     \<lparr>bl_signal = Fin 1, bl_confidence = Fin 1, bl_feedback = None\<rparr> sample_market [])"
  using sample_numbers(5,6)
  by (simp add: decision_economics_def sample_consensus_def is_worthwhile_def Let_def estimate_trade_economics_def
      default_bridge_config_def f_le_iff)

lemma decided_action:
  "st_pending_override s = None \<Longrightarrow> td_action (decide w fuzzy c (Some m) s config cooldown_now now) =
     (let ef = effective_config_from config (st_config_overrides s) w;
          b = blend ef fuzzy c (Some m) (st_outcome_ledger s); action = signal_to_action (bl_signal b)
      in if f_lt (bl_confidence b) (cg_threshold (adaptive_confidence_gate ef c))
           \<or> ef_max_open_positions ef \<le> open_position_count s \<and> f_lt (Fin 0) (bl_signal b)
           \<or> is_some_and (\<lambda>last. f_lt (f_sub cooldown_now last) (f_of_nat (ef_min_trade_interval_seconds ef)))
               (st_last_trade_at s)
           \<or> action \<noteq> Hold \<and> \<not> is_worthwhile (decision_economics config c b m (st_outcome_ledger s))
         then Hold else action)"
  by (simp add: decide_def Let_def)

lemma sample_state: "st_pending_override sample_trading_state = None" "st_config_overrides sample_trading_state = None"
  "st_outcome_ledger sample_trading_state = []" "open_position_count sample_trading_state = 0"
  "st_last_trade_at sample_trading_state = None"
  by (simp_all add: new_trading_state_def open_position_count_def)

lemma sample_trades: "td_action sample_decision = StrongBuy"
proof -
  have "\<not> f_lt (Fin 1) (cg_threshold (adaptive_confidence_gate
      (effective_config_from sample_bridge_config None (Fin 1)) sample_consensus))"
    using sample_gate by (auto simp: f_lt_iff)
  moreover have "signal_to_action (Fin 1) = StrongBuy"
    using sample_numbers(4) by (simp add: signal_to_action_def f_le_iff)
  ultimately show ?thesis
    using sample_effective [OF refl] sample_worthwhile
    by (simp only: decided_action sample_state sample_blend Let_def blended_view.select_convs is_some_and_def option.case
        trade_action.distinct) simp
qed


end
