(* ===== verification/Execution.thy ===== *)
theory Execution
  imports Decision
begin

text \<open>
  The execution of a decision, \<^verbatim>\<open>execute_if_warranted\<close> of \<^verbatim>\<open>src/src/trading/mod.rs\<close>: the checks of
  freshness and economics, routing and cutting down to the balance, repricing, the gate between
  paper and live trading, the lease of the order's intent, its submission and its settlement.

  What happens outside is an argument: the answers of OctoBot, of the clock at each reading, and
  of the disk. The effects the order of which matters are the events of a run: states written to
  disk, and requests that change OctoBot. A run is atomic here: the bridge executes decisions one
  after the other, and no other task touches the leases. The fingerprint of build and settings is
  an argument, as it is a hash. A dash in a log message is written as a hyphen.
\<close>

section \<open>Answers, events, progress\<close>

record execution_answers =
  xa_now :: f64
  xa_portfolio :: "string + octobot_portfolio"
  xa_rerouted_portfolio :: "string + octobot_portfolio"
  xa_sell_snapshot :: "string + market_snapshot"
  xa_fresh_snapshot :: "string + market_snapshot"
  xa_fresh_now :: f64
  xa_qualified_now :: f64
  xa_paper_now :: f64
  xa_claim_now :: f64
  xa_lease_write_error :: "string option"
  xa_activation :: "string + pair_activation"
  xa_order :: "string + octobot_order_result"
  xa_settled_at :: f64
  xa_final_write_ok :: bool

datatype 'r exec_event =
    Written "'r trading_state"
  | PairActivation string string
  | OrderSent order_side string string f64

record execution =
  ex_exchange :: string
  ex_amount_usd :: f64
  ex_reference_price :: "f64 option"

type_synonym 'r stage = "'r trading_state + (execution \<times> 'r trading_state)"

definition skipped :: "string \<Rightarrow> 'r trading_state \<Rightarrow> 'r stage" where
  "skipped message s = Inl (log_warn ''execute'' message s)"

definition persist :: "bool \<Rightarrow> 'r trading_state \<Rightarrow> 'r exec_event list" where
  "persist ok s = (if ok then [Written s] else [])"

section \<open>Checks of the decision\<close>

definition effective_micro_trade_floor_usd :: "'a trading_config_scheme \<Rightarrow> 'r trading_state \<Rightarrow> f64" where
  "effective_micro_trade_floor_usd config s =
     f_max (overridden (st_config_overrides s) ov_micro_trade_min_usd (tr_micro_trade_min_usd config)) (lit (1 / 100))"

definition age_of :: "f64 \<Rightarrow> f64 \<Rightarrow> f64" where
  "age_of now t = f_max (f_sub now t) (Fin 0)"

definition stale_reason :: "'a trading_config_scheme \<Rightarrow> trade_decision \<Rightarrow> f64 \<Rightarrow> string option" where
  "stale_reason config d now =
     (if td_override_applied d then None
      else if f_lt (tr_advisory_ttl_seconds config) (age_of now (td_created_at d))
      then Some (''Trade skipped: advisory expired ('' @ format_fixed 1 (age_of now (td_created_at d)) @ ''s > ''
        @ format_fixed 1 (tr_advisory_ttl_seconds config) @ ''s)'')
      else case td_market_fetched_at d of
        None \<Rightarrow> Some ''Trade skipped: decision has no market timestamp''
      | Some fetched \<Rightarrow>
          if f_lt (tr_market_snapshot_ttl_seconds config) (age_of now fetched)
          then Some (''Trade skipped: source market snapshot expired ('' @ format_fixed 1 (age_of now fetched)
            @ ''s > '' @ format_fixed 1 (tr_market_snapshot_ttl_seconds config) @ ''s)'')
          else if \<not> is_worthwhile (td_economics d)
          then Some (''Trade skipped: expected net edge '' @ format_fixed 1 (te_expected_net_edge_bps (td_economics d))
            @ ''bps below '' @ format_fixed 1 (te_required_net_edge_bps (td_economics d)) @ ''bps'')
          else None)"

definition check_decision ::
  "execution_answers \<Rightarrow> 'a trading_config_scheme \<Rightarrow> trade_decision \<Rightarrow> 'r trading_state \<Rightarrow> 'r stage" where
  "check_decision a config d s =
     (if td_exchange d = [] \<or> td_symbol d = [] then skipped ''No target exchange/symbol - trade skipped'' s
      else case stale_reason config d (xa_now a) of
        Some message \<Rightarrow> skipped message s
      | None \<Rightarrow> Inr (\<lparr>ex_exchange = td_exchange d, ex_amount_usd = td_amount_usd d,
            ex_reference_price = td_reference_price d\<rparr>, s))"

section \<open>Fitting the order to the account\<close>

definition upper_side :: "order_side \<Rightarrow> string" where
  "upper_side side = to_ascii_uppercase (side_name side)"

definition reroute :: "order_side \<Rightarrow> trade_decision \<Rightarrow> execution \<times> 'r trading_state \<Rightarrow> execution \<times> 'r trading_state" where
  "reroute side d = (\<lambda>(x, s).
     case Option.bind (st_current_portfolio s) (\<lambda>p.
            select_execution_exchange (ex_exchange x) (td_symbol d) side (ex_amount_usd x) p (st_available_exchanges s)) of
       None \<Rightarrow> (x, s)
     | Some (target, reason) \<Rightarrow>
         (x\<lparr>ex_exchange := target\<rparr>,
          log_warn ''execute'' (''Rerouted '' @ upper_side side @ '' execution for '' @ td_symbol d @ '' from ''
            @ ex_exchange x @ '' to '' @ target @ '' ('' @ reason @ '')'') s))"

definition refreshed :: "string + octobot_portfolio \<Rightarrow> 'r trading_state \<Rightarrow> 'r trading_state" where
  "refreshed answer s = (case answer of Inl _ \<Rightarrow> s | Inr p \<Rightarrow> s\<lparr>st_current_portfolio := Some p\<rparr>)"

text \<open>A buy: the cap is drawn from a fresh portfolio; without one there is no buy.\<close>

definition fit_buy :: "execution_answers \<Rightarrow> trade_decision \<Rightarrow> execution \<times> 'r trading_state \<Rightarrow> 'r stage" where
  "fit_buy a d xs =
     (let (x, s) = reroute BuySide d xs; s = refreshed (xa_portfolio a) s;
          place = ex_exchange x @ ''/'' @ td_symbol d;
          asset = unwrap_or ''quote'' (symbol_quote_asset (td_symbol d));
          cap = (case xa_portfolio a of Inl _ \<Rightarrow> None
                 | Inr p \<Rightarrow> max_buy_amount_usd_for_exchange p (ex_exchange x) (td_symbol d))
      in case cap of
           None \<Rightarrow> skipped (''Buy skipped for '' @ place @ '': '' @ asset
             @ '' balance unavailable after portfolio refresh'') s
         | Some most \<Rightarrow>
             if f_le most (Fin 0)
             then skipped (''Buy skipped for '' @ place @ '': non-positive available '' @ asset @ '' balance'') s
             else if f_lt (f_add most f_epsilon) (ex_amount_usd x)
             then Inr (x\<lparr>ex_amount_usd := most\<rparr>,
               log_warn ''execute'' (''Capped buy amount for '' @ td_symbol d @ '' on '' @ ex_exchange x @ '' from $''
                 @ format_fixed 2 (ex_amount_usd x) @ '' to $'' @ format_fixed 2 most @ '' based on available ''
                 @ asset @ '' balance'') s)
             else Inr (x, s))"

definition balance_in :: "bool \<Rightarrow> octobot_portfolio \<Rightarrow> string \<Rightarrow> string \<Rightarrow> sell_availability" where
  "balance_in strict p exchange asset =
     (if strict then portfolio_balance_state_for_exchange p exchange asset else portfolio_balance_state p asset)"

definition ensure_sell_balance ::
  "string + octobot_portfolio \<Rightarrow> bool \<Rightarrow> string \<Rightarrow> string \<Rightarrow> 'r trading_state \<Rightarrow> sell_availability \<times> 'r trading_state" where
  "ensure_sell_balance answer strict exchange asset s =
     ((case answer of
         Inr p \<Rightarrow> balance_in strict p exchange asset
       | Inl _ \<Rightarrow> (case st_current_portfolio s of None \<Rightarrow> Missing | Some p \<Rightarrow> balance_in strict p exchange asset)),
      refreshed answer s)"

text \<open>
  A sell: routed to the exchange that holds the asset (rerouting always names another exchange),
  and cut down to what can be sold there when an estimate of that exists. The two balances the
  message of a non-positive balance prints are left out.
\<close>

definition cap_sell ::
  "execution_answers \<Rightarrow> trade_decision \<Rightarrow> string \<Rightarrow> sell_availability \<Rightarrow> execution \<times> 'r trading_state \<Rightarrow> 'r stage" where
  "cap_sell a d asset availability = (\<lambda>(x, s).
     case availability of
       Missing \<Rightarrow> skipped (''Sell skipped for '' @ td_symbol d @ '': '' @ asset
         @ '' balance unavailable in OctoBot portfolio after refresh'') s
     | NonPositive _ _ \<Rightarrow> skipped (''Sell skipped for '' @ td_symbol d @ '': non-positive '' @ asset @ '' balance'') s
     | Available free_amount total_amount value \<Rightarrow>
         (case max_sell_amount_usd (xa_sell_snapshot a) free_amount total_amount value of
            None \<Rightarrow> Inr (x, s)
          | Some most \<Rightarrow>
              if f_lt most (lit (1 / 100))
              then skipped (''Sell skipped for '' @ td_symbol d @ '': estimated sellable '' @ asset
                @ '' value too small ($'' @ format_fixed 4 most @ '')'') s
              else if f_lt (f_add most f_epsilon) (ex_amount_usd x)
              then Inr (x\<lparr>ex_amount_usd := most\<rparr>,
                log_warn ''execute'' (''Capped sell amount for '' @ td_symbol d @ '' from $''
                  @ format_fixed 2 (ex_amount_usd x) @ '' to $'' @ format_fixed 2 most @ '' based on available ''
                  @ asset @ '' balance'') s)
              else Inr (x, s)))"

definition fit_sell ::
  "execution_answers \<Rightarrow> 'a trading_config_scheme \<Rightarrow> trade_decision \<Rightarrow> execution \<times> 'r trading_state \<Rightarrow> 'r stage" where
  "fit_sell a config d = (\<lambda>(x, s).
     let asset = trim (hd (split_on CHR ''/'' (td_symbol d))); strict = tr_strict_exchange_selection config
     in if asset = [] then Inr (x, s)
        else let (first, s) = ensure_sell_balance (xa_portfolio a) strict (ex_exchange x) asset s;
                 (y, t) = reroute SellSide d (x, s)
             in if ex_exchange y = ex_exchange x then cap_sell a d asset first (y, t)
                else let (second, t) = ensure_sell_balance (xa_rerouted_portfolio a) strict (ex_exchange y) asset t
                     in cap_sell a d asset second (y, t))"

definition fit_order ::
  "execution_answers \<Rightarrow> 'a trading_config_scheme \<Rightarrow> order_side \<Rightarrow> trade_decision \<Rightarrow>
     execution \<times> 'r trading_state \<Rightarrow> 'r stage" where
  "fit_order a config side d xs =
     (case side of BuySide \<Rightarrow> fit_buy a d xs | SellSide \<Rightarrow> fit_sell a config d xs)"

definition check_floor :: "f64 \<Rightarrow> order_side \<Rightarrow> trade_decision \<Rightarrow> execution \<times> 'r trading_state \<Rightarrow> 'r stage" where
  "check_floor floor_usd side d = (\<lambda>(x, s).
     if f_lt (f_add (ex_amount_usd x) f_epsilon) floor_usd
     then skipped (upper_side side @ '' skipped for '' @ td_symbol d @ '': amount $''
       @ format_fixed 2 (ex_amount_usd x) @ '' below effective micro-trade floor $'' @ format_fixed 2 floor_usd) s
     else Inr (x, s))"

section \<open>Repricing\<close>

definition reprice ::
  "execution_answers \<Rightarrow> 'a trading_config_scheme \<Rightarrow> order_side \<Rightarrow> trade_decision \<Rightarrow>
     execution \<times> 'r trading_state \<Rightarrow> 'r stage" where
  "reprice a config side d = (\<lambda>(x, s).
     if td_override_applied d then Inr (x, s)
     else case xa_fresh_snapshot a of
       Inl e \<Rightarrow> skipped (''Trade skipped: immediate repricing failed: '' @ e) s
     | Inr fresh \<Rightarrow>
         if f_lt (tr_market_snapshot_ttl_seconds config) (age_of (xa_fresh_now a) (ms_fetched_at fresh))
         then skipped (''Trade skipped: repricing snapshot is ''
           @ format_fixed 1 (age_of (xa_fresh_now a) (ms_fetched_at fresh)) @ ''s old'') s
         else case td_reference_price d of
           None \<Rightarrow> skipped ''Trade skipped: decision has no reference price'' s
         | Some reference \<Rightarrow>
             let drift = adverse_reprice_drift_bps (side_name side) reference (ms_price fresh);
                 cost = estimate_round_trip (st_execution_telemetry s) fresh (side_name side) (ex_amount_usd x)
                   (tr_estimated_fee_bps config) (tr_estimated_slippage_bps config) (tr_execution_telemetry config);
                 e = td_economics d;
                 edge = re_net_edge_bps (reprice_net_edge (te_expected_net_edge_bps e)
                   (te_estimated_round_trip_cost_bps e) (ce_round_trip_cost_bps cost) drift)
             in if f_lt (tr_max_reprice_drift_bps config) drift
                  \<or> f_lt (f_add edge f_epsilon) (te_required_net_edge_bps e)
                then skipped ''Trade skipped after immediate price-drift/economics check'' s
                else Inr (x\<lparr>ex_reference_price := Some (ms_price fresh)\<rparr>, s))"

section \<open>Paper or live\<close>

definition paper_policy_of :: "'a trading_config_scheme \<Rightarrow> paper_policy" where
  "paper_policy_of config =
     \<lparr>pp_min_evaluations = tr_paper_min_evaluations config,
      pp_min_validated_intents = tr_paper_min_validated_intents config,
      pp_validity_seconds = f_of_nat (tr_paper_validity_seconds config),
      pp_intent_lease_seconds = tr_execution_lease_seconds config\<rparr>"

definition backtest_profitability_qualified :: "'a trading_config_scheme \<Rightarrow> 'r trading_state \<Rightarrow> bool" where
  "backtest_profitability_qualified config s \<longleftrightarrow>
     \<not> tr_backtesting_enabled config
     \<or> is_some_and (\<lambda>b. bs_assessment b = Viable
          \<and> is_some_and (\<lambda>v. is_finite v \<and> f_le (tr_backtest_profitability_threshold config) v)
              (bs_profitability_pct b)) (st_last_backtest s)"

definition paper_qualified :: "string \<Rightarrow> f64 \<Rightarrow> 'a trading_config_scheme \<Rightarrow> 'r trading_state \<Rightarrow> bool" where
  "paper_qualified revision now config s =
     is_qualified revision now (paper_policy_of config) (st_paper_qualification s)"

definition auto_live_ready :: "'a trading_config_scheme \<Rightarrow> bool \<Rightarrow> bool \<Rightarrow> bool" where
  "auto_live_ready config paper profitable \<longleftrightarrow> tr_live_execution_auto_gate_enabled config \<and> paper \<and> profitable"

definition effective_live_execution :: "'a trading_config_scheme \<Rightarrow> bool \<Rightarrow> bool \<Rightarrow> bool" where
  "effective_live_execution config paper profitable \<longleftrightarrow>
     (tr_live_execution_enabled config \<or> auto_live_ready config paper profitable) \<and> paper \<and> profitable"

definition paper_trade ::
  "execution_answers \<Rightarrow> 'a trading_config_scheme \<Rightarrow> string \<Rightarrow> trade_decision \<Rightarrow> string \<Rightarrow> 'r trading_state \<Rightarrow>
     'r exec_event list \<times> 'r trading_state" where
  "paper_trade a config revision d key s =
     (if td_override_applied d
      then ([], log_warn ''paper'' ''Operator overrides are not counted as paper qualification evidence'' s)
      else let (is_new, q) = observe_intent revision key (usize_sat_add (st_evaluation_count s) 1) (xa_paper_now a)
                 (paper_policy_of config) (st_paper_qualification s);
               s = s\<lparr>st_paper_qualification := q\<rparr>
           in (persist (xa_final_write_ok a) s,
               st_log (if is_new then ''info'' else ''warn'') ''paper''
                 (if is_new then ''Paper intent passed every read-only execution gate''
                  else ''Duplicate paper intent rejected'') s))"

section \<open>Leases\<close>

definition retain_claims :: "f64 \<Rightarrow> (string \<Rightarrow> intent_claim option) \<Rightarrow> string \<Rightarrow> intent_claim option" where
  "retain_claims now claims = (\<lambda>k. option_filter (\<lambda>c. f_lt now (ic_expires_at c)) (claims k))"

definition trade_intent_key :: "executed_trade \<Rightarrow> string option" where
  "trade_intent_key t = Option.bind (trade_action_side (xt_action t))
     (\<lambda>side. execution_intent_key side (xt_exchange t) (xt_symbol t))"

definition claim_execution_intent ::
  "string \<Rightarrow> 'a trading_config_scheme \<Rightarrow> bool \<Rightarrow> f64 \<Rightarrow> 'r trading_state \<Rightarrow> string option \<times> 'r trading_state" where
  "claim_execution_intent key config operator_override now s =
     (let claims = retain_claims now (st_in_flight_order_intents s);
          s = s\<lparr>st_in_flight_order_intents := claims\<rparr>;
          interval = f_of_nat (tr_min_trade_interval_seconds config)
      in case claims key of
           Some c \<Rightarrow> (Some (''an equivalent order is leased by authority '' @ ic_authority c @ '' for another ''
             @ format_fixed 0 (f_max (f_sub (ic_expires_at c) now) (Fin 0)) @ ''s''), s)
         | None \<Rightarrow>
             (case if operator_override then None
                   else option_filter (\<lambda>t. f_lt (age_of now (xt_ts t)) interval)
                     (find (\<lambda>t. trade_intent_key t = Some key) (rev (st_recent_trades s))) of
                Some t \<Rightarrow> (Some (''equivalent order filled '' @ format_fixed 0 (age_of now (xt_ts t)) @ ''s ago; ''
                  @ format_fixed 0 (f_sub interval (age_of now (xt_ts t))) @ ''s cooldown remains''), s)
              | None \<Rightarrow> (None, s\<lparr>st_in_flight_order_intents := claims(key \<mapsto>
                  \<lparr>ic_authority = tr_execution_authority config, ic_claimed_at = now,
                   ic_expires_at = f_add now (tr_execution_lease_seconds config)\<rparr>)\<rparr>)))"

definition release_execution_intent :: "string \<Rightarrow> 'r trading_state \<Rightarrow> 'r trading_state" where
  "release_execution_intent key s =
     s\<lparr>st_in_flight_order_intents := (st_in_flight_order_intents s)(key := None)\<rparr>"

section \<open>Settlement\<close>

definition filled_trade :: "trade_decision \<Rightarrow> execution \<Rightarrow> octobot_order_result \<Rightarrow> f64 \<Rightarrow> executed_trade" where
  "filled_trade d x order moment =
     \<lparr>xt_ts = moment, xt_exchange = ex_exchange x, xt_symbol = td_symbol d, xt_action = td_action d,
      xt_amount_usd = ex_amount_usd x, xt_price = or_else (or_price order) (ex_reference_price x),
      xt_order_id = Some (or_order_id order), xt_confidence = td_confidence d, xt_rationale = td_rationale d,
      xt_fuzzy_confidence = td_fuzzy_confidence d, xt_ai_confidence = td_ai_confidence d, xt_source = GailFill\<rparr>"

definition filled_markout ::
  "'a trading_config_scheme \<Rightarrow> trade_decision \<Rightarrow> execution \<Rightarrow> octobot_order_result \<Rightarrow> f64 \<Rightarrow> f64 \<Rightarrow> trade_markout" where
  "filled_markout config d x order entry_price moment =
     \<lparr>mo_order_id = or_order_id order, mo_executed_at = moment,
      mo_due_at = f_add moment (f_of_nat (nat_clamp
        (unwrap_or (tr_markout_horizon_seconds config) (td_holding_horizon_seconds d)) 60 (30 * 86400))),
      mo_resolved_at = None, mo_exchange = ex_exchange x, mo_symbol = td_symbol d, mo_action = td_action d,
      mo_amount_usd = ex_amount_usd x, mo_entry_price = entry_price, mo_observed_price = None,
      mo_providers = td_provider_keys d, mo_regime = td_market_regime d,
      mo_gross_directional_return_bps = None, mo_net_directional_return_bps = None\<rparr>"

definition settle_fill ::
  "'a trading_config_scheme \<Rightarrow> order_side \<Rightarrow> trade_decision \<Rightarrow> execution \<Rightarrow> string \<Rightarrow> octobot_order_result \<Rightarrow>
     f64 \<Rightarrow> 'r trading_state \<Rightarrow> 'r trading_state" where
  "settle_fill config side d x key order moment s =
     (let s = release_execution_intent key s;
          s = (case (ex_reference_price x, or_price order) of
                 (Some reference, Some fill) \<Rightarrow> s\<lparr>st_execution_telemetry := snd (record_fill moment (ex_exchange x)
                    (td_symbol d) (side_name side) (or_order_id order) (ex_amount_usd x) reference fill
                    (tr_estimated_fee_bps config) (tr_execution_telemetry config) (st_execution_telemetry s))\<rparr>
               | _ \<Rightarrow> s);
          s = record_trade (filled_trade d x order moment) s;
          s = (case or_else (or_price order) (ex_reference_price x) of
                 None \<Rightarrow> s
               | Some price \<Rightarrow> s\<lparr>st_outcome_ledger := record_markout (filled_markout config d x order price moment)
                   (tr_markout_ledger_size config) (st_outcome_ledger s)\<rparr>)
      in log_info ''execute'' (side_name side @ '' order placed: '' @ ex_exchange x @ ''/'' @ td_symbol d @ '' $''
           @ format_fixed 2 (ex_amount_usd x) @ '' id='' @ or_order_id order)
           (s\<lparr>st_pending_override := None\<rparr>))"

text \<open>
  A live order, from the claim of its lease. A failed request after submission is ambiguous, and the
  lease stays.
\<close>

definition submit_order ::
  "execution_answers \<Rightarrow> 'a trading_config_scheme \<Rightarrow> order_side \<Rightarrow> trade_decision \<Rightarrow> execution \<Rightarrow> string \<Rightarrow>
     'r trading_state \<Rightarrow> 'r exec_event list \<times> 'r trading_state" where
  "submit_order a config side d x key s =
     (let sent = OrderSent side (ex_exchange x) (td_symbol d) (ex_amount_usd x)
      in case xa_order a of
           Inr order \<Rightarrow>
             let t = settle_fill config side d x key order (xa_settled_at a) s
             in (sent # persist (xa_final_write_ok a) t, t)
         | Inl e \<Rightarrow>
             (sent # persist (xa_final_write_ok a) s,
              log_error ''execute'' (side_name side
                @ '' order failed or acknowledgement was uncertain; intent lease retained until expiry: '' @ e) s))"

definition leased_order ::
  "execution_answers \<Rightarrow> 'a trading_config_scheme \<Rightarrow> order_side \<Rightarrow> trade_decision \<Rightarrow> execution \<Rightarrow> string \<Rightarrow>
     'r trading_state \<Rightarrow> 'r exec_event list \<times> 'r trading_state" where
  "leased_order a config side d x key s =
     (let place = ex_exchange x @ ''/'' @ td_symbol d;
          given_up = release_execution_intent key s;
          activation = PairActivation (ex_exchange x) (td_symbol d)
      in case xa_lease_write_error a of
           Some e \<Rightarrow> ([], log_error ''execute''
             (''Trade skipped: unable to persist execution intent lease: '' @ e) given_up)
         | None \<Rightarrow>
             (case xa_activation a of
                Inl e \<Rightarrow> (Written s # activation # persist (xa_final_write_ok a) given_up,
                  log_error ''execute'' (upper_side side @ '' skipped for '' @ place
                    @ '': failed to validate OctoBot market-status activation ('' @ e @ '')'') given_up)
              | Inr pair \<Rightarrow>
                  if \<not> pa_ready pair
                  then (Written s # activation # persist (xa_final_write_ok a) given_up,
                    log_warn ''execute'' (upper_side side @ '' skipped for '' @ place @ '': '' @ pa_message pair) given_up)
                  else let (events, t) = submit_order a config side d x key s
                       in (Written s # activation # events, t)))"

definition live_trade ::
  "execution_answers \<Rightarrow> 'a trading_config_scheme \<Rightarrow> bool \<Rightarrow> bool \<Rightarrow> order_side \<Rightarrow> trade_decision \<Rightarrow> execution \<Rightarrow>
     string \<Rightarrow> 'r trading_state \<Rightarrow> 'r exec_event list \<times> 'r trading_state" where
  "live_trade a config paper profitable side d x key s =
     (let s = (if auto_live_ready config paper profitable \<and> \<not> tr_live_execution_enabled config
               then log_info ''execute'' ''LIVE_EXECUTION_AUTO_ENABLED'' s else s)
      in if tr_paper_qualification_required config \<and> \<not> paper
         then ([], st_log ''error'' ''execute''
           ''Live order blocked: current build has not passed paper qualification'' s)
         else if tr_backtesting_enabled config \<and> \<not> profitable
         then ([], log_warn ''execute''
           ''Live order blocked: latest backtest has not met profitability gate'' s)
         else case claim_execution_intent key config (td_override_applied d) (xa_claim_now a) s of
           (Some reason, s) \<Rightarrow> ([], log_warn ''execute'' (''Duplicate order intent skipped: '' @ reason) s)
         | (None, s) \<Rightarrow> leased_order a config side d x key s)"

section \<open>The handler\<close>

definition gated_trade ::
  "execution_answers \<Rightarrow> 'a trading_config_scheme \<Rightarrow> string \<Rightarrow> order_side \<Rightarrow> trade_decision \<Rightarrow>
     execution \<times> 'r trading_state \<Rightarrow> 'r exec_event list \<times> 'r trading_state" where
  "gated_trade a config revision side d = (\<lambda>(x, s).
     case execution_intent_key side (ex_exchange x) (td_symbol d) of
       None \<Rightarrow> ([], log_warn ''execute'' ''Unable to derive order intent - trade skipped'' s)
     | Some key \<Rightarrow>
         let paper = paper_qualified revision (xa_qualified_now a) config s;
             profitable = backtest_profitability_qualified config s
         in if effective_live_execution config paper profitable
            then live_trade a config paper profitable side d x key s
            else paper_trade a config revision d key s)"

definition admitted_order ::
  "execution_answers \<Rightarrow> 'a trading_config_scheme \<Rightarrow> order_side \<Rightarrow> trade_decision \<Rightarrow> 'r trading_state \<Rightarrow> 'r stage" where
  "admitted_order a config side d s =
     and_then (and_then (and_then (check_decision a config d s)
       (fit_order a config side d))
       (check_floor (effective_micro_trade_floor_usd config s) side d))
       (reprice a config side d)"

definition execute_if_warranted ::
  "execution_answers \<Rightarrow> 'a trading_config_scheme \<Rightarrow> string \<Rightarrow> trade_decision \<Rightarrow> 'r trading_state \<Rightarrow>
     'r exec_event list \<times> 'r trading_state" where
  "execute_if_warranted a config revision d s =
     (case trade_action_side (td_action d) of
        None \<Rightarrow> ([], if td_action d = CancelOrder then s\<lparr>st_pending_override := None\<rparr> else s)
      | Some side \<Rightarrow>
          (case admitted_order a config side d s of
             Inl t \<Rightarrow> ([], t)
           | Inr xs \<Rightarrow> gated_trade a config revision side d xs))"

end
