(* ===== verification/ExecutionSafety.thy ===== *)
theory ExecutionSafety
  imports Execution
begin

text \<open>
  What holds of every order the bridge sends: it has passed the gates of its decision, its account
  and its build, its lease is on disk before OctoBot is changed, and across failures, crashes and
  restarts an order whose outcome is unknown is not repeated while its lease runs.
\<close>

section \<open>What the stages keep\<close>

text \<open>The part of the state the stages before the gate read and never write.\<close>

definition order_view where
  "order_view s = (st_in_flight_order_intents s, st_paper_qualification s, st_last_backtest s, st_recent_trades s,
     st_execution_telemetry s, st_trade_history s, st_config_overrides s)"

lemma order_view_log [simp]:
  "order_view (st_log level category message s) = order_view s"
  "order_view (log_warn category message s) = order_view s"
  "order_view (log_info category message s) = order_view s"
  "order_view (log_error category message s) = order_view s"
  "order_view (s\<lparr>st_current_portfolio := p\<rparr>) = order_view s"
  "order_view (s\<lparr>st_last_error := e\<rparr>) = order_view s"
  by (simp_all add: order_view_def st_log_def log_warn_def log_info_def log_error_def)

lemma order_view_refreshed [simp]: "order_view (refreshed answer s) = order_view s"
  by (simp add: refreshed_def split: sum.split)

lemma skipped_view: "skipped message s = Inl t \<Longrightarrow> order_view t = order_view s" "skipped message s \<noteq> Inr r"
  by (auto simp: skipped_def)

lemma reroute_view: "reroute side d (x, s) = (y, t) \<Longrightarrow> order_view t = order_view s \<and> ex_amount_usd y = ex_amount_usd x"
  by (auto simp: reroute_def split: option.splits)

text \<open>A stage keeps the view, whether it stops the order or lets it pass.\<close>

definition keeps_view :: "'r trading_state \<Rightarrow> 'r stage \<Rightarrow> bool" where
  "keeps_view s r \<longleftrightarrow> (case r of Inl t \<Rightarrow> order_view t = order_view s | Inr (x, t) \<Rightarrow> order_view t = order_view s)"

lemma keeps_view_intros [simp]:
  "keeps_view s (skipped message t) \<longleftrightarrow> order_view t = order_view s"
  "keeps_view s (Inr (x, t)) \<longleftrightarrow> order_view t = order_view s"
  "keeps_view s (Inl t) \<longleftrightarrow> order_view t = order_view s"
  by (simp_all add: keeps_view_def skipped_def)

lemma keeps_view_and_then:
  "keeps_view s r \<Longrightarrow> (\<And>x t. r = Inr (x, t) \<Longrightarrow> keeps_view t (f (x, t))) \<Longrightarrow> keeps_view s (and_then r f)"
  by (auto simp: keeps_view_def and_then_def split: sum.splits)

lemma keeps_view_eq: "order_view t = order_view s \<Longrightarrow> keeps_view t r \<Longrightarrow> keeps_view s r"
  by (auto simp: keeps_view_def split: sum.splits)

lemma check_decision_view: "keeps_view s (check_decision a config d s)"
  by (auto simp: check_decision_def split: option.split)

lemma fit_buy_view: "keeps_view s (fit_buy a d (x, s))"
proof -
  obtain y t where r: "reroute BuySide d (x, s) = (y, t)" by (cases "reroute BuySide d (x, s)")
  then show ?thesis using reroute_view [OF r]
    by (auto simp: fit_buy_def Let_def split: option.splits sum.splits)
qed

lemma cap_sell_view: "keeps_view s (cap_sell a d asset availability (x, s))"
  by (auto simp: cap_sell_def split: sell_availability.splits option.splits)

lemma ensure_sell_balance_view: "ensure_sell_balance answer strict exchange asset s = (b, t) \<Longrightarrow> order_view t = order_view s"
  by (auto simp: ensure_sell_balance_def)

lemma fit_sell_view: "keeps_view s (fit_sell a config d (x, s))"
proof -
  define asset where "asset = trim (hd (split_on CHR ''/'' (td_symbol d)))"
  obtain b t where b: "ensure_sell_balance (xa_portfolio a) (tr_strict_exchange_selection config) (ex_exchange x) asset s = (b, t)"
    by (cases "ensure_sell_balance (xa_portfolio a) (tr_strict_exchange_selection config) (ex_exchange x) asset s")
  obtain y u where y: "reroute SellSide d (x, t) = (y, u)" by (cases "reroute SellSide d (x, t)")
  obtain c v where c: "ensure_sell_balance (xa_rerouted_portfolio a) (tr_strict_exchange_selection config) (ex_exchange y) asset u = (c, v)"
    by (cases "ensure_sell_balance (xa_rerouted_portfolio a) (tr_strict_exchange_selection config) (ex_exchange y) asset u")
  have "order_view u = order_view s" "order_view v = order_view s"
    using ensure_sell_balance_view [OF b] reroute_view [OF y] ensure_sell_balance_view [OF c] by simp_all
  then have "keeps_view s (cap_sell a d asset b (y, u))" "keeps_view s (cap_sell a d asset c (y, v))"
    using keeps_view_eq cap_sell_view by metis+
  then show ?thesis
    using b y c by (simp add: fit_sell_def asset_def [symmetric] Let_def)
qed

lemma fit_order_view: "keeps_view s (fit_order a config side d (x, s))"
  by (cases side) (simp_all add: fit_order_def fit_buy_view fit_sell_view)

lemma check_floor_view: "keeps_view s (check_floor floor_usd side d (x, s))"
  by (simp add: check_floor_def)

lemma reprice_view: "keeps_view s (reprice a config side d (x, s))"
  by (auto simp: reprice_def Let_def split: sum.split option.split)

lemma admitted_order_view: "keeps_view s (admitted_order a config side d s)"
  unfolding admitted_order_def
  by (intro keeps_view_and_then check_decision_view fit_order_view check_floor_view reprice_view)

section \<open>What an admitted order has passed\<close>

lemma admitted_order_stages:
  assumes "admitted_order a config side d s = Inr (x, t)"
  obtains x1 s1 x2 s2 where
    "check_decision a config d s = Inr (x1, s1)" "fit_order a config side d (x1, s1) = Inr (x2, s2)"
    "\<not> f_lt (f_add (ex_amount_usd x2) f_epsilon) (effective_micro_trade_floor_usd config s)"
    "reprice a config side d (x2, s2) = Inr (x, t)"
  using assms unfolding admitted_order_def
  by (auto simp: and_then_Inr check_floor_def skipped_def split: if_splits)

lemma reprice_keeps: "reprice a config side d (x, s) = Inr (y, t) \<Longrightarrow>
    ex_amount_usd y = ex_amount_usd x \<and> ex_exchange y = ex_exchange x \<and> t = s"
  by (auto simp: reprice_def Let_def skipped_def split: sum.splits option.splits if_splits)

lemma repriced_edge_ok:
  assumes "reprice a config side d (x, s) = Inr (y, t)" "\<not> td_override_applied d"
  shows "\<exists>fresh reference. xa_fresh_snapshot a = Inr fresh \<and> td_reference_price d = Some reference
    \<and> \<not> f_lt (tr_market_snapshot_ttl_seconds config) (age_of (xa_fresh_now a) (ms_fetched_at fresh))
    \<and> \<not> f_lt (tr_max_reprice_drift_bps config)
          (adverse_reprice_drift_bps (side_name side) reference (ms_price fresh))"
  using assms by (auto simp: reprice_def Let_def skipped_def split: sum.splits option.splits if_splits)

lemma checked_decision:
  assumes "check_decision a config d s = Inr (x, t)" "\<not> td_override_applied d"
  shows "\<not> f_lt (tr_advisory_ttl_seconds config) (age_of (xa_now a) (td_created_at d)) \<and> is_worthwhile (td_economics d)
    \<and> (\<exists>fetched. td_market_fetched_at d = Some fetched
        \<and> \<not> f_lt (tr_market_snapshot_ttl_seconds config) (age_of (xa_now a) fetched))"
  using assms by (auto simp: check_decision_def stale_reason_def skipped_def split: option.splits if_splits)

lemma fitted_buy:
  assumes "fit_order a config BuySide d (x, s) = Inr (y, t)"
  shows "\<exists>p most. xa_portfolio a = Inr p \<and> max_buy_amount_usd_for_exchange p (ex_exchange y) (td_symbol d) = Some most
    \<and> \<not> f_le most (Fin 0) \<and> (ex_amount_usd y = most \<or> \<not> f_lt (f_add most f_epsilon) (ex_amount_usd y))"
proof -
  obtain z u where r: "reroute BuySide d (x, s) = (z, u)" by (cases "reroute BuySide d (x, s)")
  then show ?thesis using assms
    by (auto simp: fit_order_def fit_buy_def Let_def skipped_def split: option.splits sum.splits if_splits)
qed

section \<open>The order of effects\<close>

text \<open>The claim of a lease: refused while a lease of the intent runs, or its last fill is recent.\<close>

lemma lease_refused:
  "claim_execution_intent key config ov now s = (Some reason, t) \<Longrightarrow>
     st_in_flight_order_intents t = retain_claims now (st_in_flight_order_intents s)"
  by (auto simp: claim_execution_intent_def Let_def split: option.splits if_splits)

lemma lease_granted:
  assumes "claim_execution_intent key config ov now s = (None, t)"
  shows "retain_claims now (st_in_flight_order_intents s) key = None"
    and "st_in_flight_order_intents t = (retain_claims now (st_in_flight_order_intents s))
      (key \<mapsto> \<lparr>ic_authority = tr_execution_authority config, ic_claimed_at = now,
        ic_expires_at = f_add now (tr_execution_lease_seconds config)\<rparr>)"
    and "\<not> ov \<Longrightarrow> find (\<lambda>f. trade_intent_key f = Some key) (rev (st_recent_trades s)) = Some f \<Longrightarrow>
      \<not> f_lt (age_of now (xt_ts f)) (f_of_nat (tr_min_trade_interval_seconds config))"
  using assms by (auto simp: claim_execution_intent_def Let_def option_filter_def split: option.splits if_splits)

lemma retained_claim: "claims key = Some c \<Longrightarrow> f_lt now (ic_expires_at c) \<Longrightarrow> retain_claims now claims key = Some c"
  by (simp add: retain_claims_def option_filter_def)

lemma leases_log [simp]:
  "st_in_flight_order_intents (st_log level category message s) = st_in_flight_order_intents s"
  "st_in_flight_order_intents (log_warn category message s) = st_in_flight_order_intents s"
  "st_in_flight_order_intents (log_info category message s) = st_in_flight_order_intents s"
  "st_in_flight_order_intents (log_error category message s) = st_in_flight_order_intents s"
  by (simp_all add: st_log_def log_warn_def log_info_def log_error_def)

lemma leases_release [simp]:
  "st_in_flight_order_intents (release_execution_intent key s) = (st_in_flight_order_intents s)(key := None)"
  by (simp add: release_execution_intent_def)

lemma leases_settle [simp]:
  "st_in_flight_order_intents (settle_fill config side d x key order moment s)
     = (st_in_flight_order_intents s)(key := None)"
  by (auto simp: settle_fill_def Let_def record_trade_def split: option.split)

text \<open>The events of a leased order: the state with the lease is on disk first.\<close>

lemma leased_order_events:
  assumes "leased_order a config side d x key s = (events, t)"
  shows "events = [] \<and> st_in_flight_order_intents t = (st_in_flight_order_intents s)(key := None)
    \<or> (\<exists>rest. events = Written s # PairActivation (ex_exchange x) (td_symbol d) # rest
        \<and> rest = persist (xa_final_write_ok a) (release_execution_intent key s)
        \<and> st_in_flight_order_intents t = (st_in_flight_order_intents s)(key := None))
    \<or> (\<exists>u. events = Written s # PairActivation (ex_exchange x) (td_symbol d)
          # OrderSent side (ex_exchange x) (td_symbol d) (ex_amount_usd x) # persist (xa_final_write_ok a) u
        \<and> (case xa_order a of
             Inl _ \<Rightarrow> st_in_flight_order_intents t = st_in_flight_order_intents s \<and> u = s
           | Inr _ \<Rightarrow> t = u \<and> st_in_flight_order_intents t = (st_in_flight_order_intents s)(key := None)))"
proof (cases "xa_lease_write_error a")
  case None
  note n = None
  show ?thesis
  proof (cases "xa_activation a")
    case (Inl e)
    then show ?thesis using assms n by (simp add: leased_order_def Let_def) force
  next
    case (Inr pair)
    show ?thesis
    proof (cases "pa_ready pair")
      case True
      then show ?thesis using assms n Inr
        by (cases "xa_order a") (auto simp: leased_order_def submit_order_def Let_def)
    next
      case False
      then show ?thesis using assms n Inr by (simp add: leased_order_def Let_def) force
    qed
  qed
next
  case (Some e)
  then show ?thesis using assms by (auto simp: leased_order_def Let_def)
qed

text \<open>The state a live order claims its lease in.\<close>

definition live_state ::
  "execution_answers \<Rightarrow> 'a trading_config_scheme \<Rightarrow> string \<Rightarrow> 'r trading_state \<Rightarrow> 'r trading_state" where
  "live_state a config revision s =
     (if auto_live_ready config (paper_qualified revision (xa_qualified_now a) config s)
           (backtest_profitability_qualified config s) \<and> \<not> tr_live_execution_enabled config
      then log_info ''execute'' ''LIVE_EXECUTION_AUTO_ENABLED'' s else s)"

definition is_live :: "execution_answers \<Rightarrow> 'a trading_config_scheme \<Rightarrow> string \<Rightarrow> 'r trading_state \<Rightarrow> bool" where
  "is_live a config revision s = effective_live_execution config
     (paper_qualified revision (xa_qualified_now a) config s) (backtest_profitability_qualified config s)"

lemma live_state_view [simp]: "order_view (live_state a config revision s) = order_view s"
  by (simp add: live_state_def)

lemma is_live_view: "order_view u = order_view s \<Longrightarrow> is_live a config revision u = is_live a config revision s"
  by (simp add: is_live_def order_view_def paper_qualified_def backtest_profitability_qualified_def)

lemma leases_view: "order_view u = order_view s \<Longrightarrow> st_in_flight_order_intents u = st_in_flight_order_intents s"
  by (simp add: order_view_def)

text \<open>How an admitted order ends: as a paper trade, refused its lease, or leased.\<close>

lemma gated_trade_cases:
  assumes "gated_trade a config revision side d (x, s) = (events, t)"
  obtains
    (unchanged) "\<forall>e\<in>set events. \<exists>u. e = Written u \<and> st_in_flight_order_intents u = st_in_flight_order_intents s"
      "st_in_flight_order_intents t = st_in_flight_order_intents s"
  | (refused) "events = []"
      "st_in_flight_order_intents t = retain_claims (xa_claim_now a) (st_in_flight_order_intents s)"
  | (leased) key v where
      "execution_intent_key side (ex_exchange x) (td_symbol d) = Some key" "is_live a config revision s"
      "claim_execution_intent key config (td_override_applied d) (xa_claim_now a) (live_state a config revision s)
         = (None, v)"
      "leased_order a config side d x key v = (events, t)"
proof (cases "execution_intent_key side (ex_exchange x) (td_symbol d)")
  case None
  then show ?thesis using assms unchanged by (auto simp: gated_trade_def)
next
  case (Some key)
  show ?thesis
  proof (cases "is_live a config revision s")
    case False
    then have "paper_trade a config revision d key s = (events, t)"
      using assms Some by (simp add: gated_trade_def is_live_def Let_def)
    then show ?thesis using unchanged
      by (auto simp: paper_trade_def persist_def Let_def split: if_splits prod.splits)
  next
    case True
    obtain r v where claim: "claim_execution_intent key config (td_override_applied d) (xa_claim_now a)
        (live_state a config revision s) = (r, v)"
      by (cases "claim_execution_intent key config (td_override_applied d) (xa_claim_now a)
        (live_state a config revision s)")
    have g: "paper_qualified revision (xa_qualified_now a) config s" "backtest_profitability_qualified config s"
        "effective_live_execution config True True"
      using True by (auto simp: is_live_def effective_live_execution_def)
    have claim': "claim_execution_intent key config (td_override_applied d) (xa_claim_now a)
        (if auto_live_ready config True True \<and> \<not> tr_live_execution_enabled config
         then log_info ''execute'' ''LIVE_EXECUTION_AUTO_ENABLED'' s else s) = (r, v)"
      using claim g by (simp add: live_state_def)
    have "live_trade a config True True side d x key s = (events, t)"
      using assms Some g by (simp add: gated_trade_def)
    then have live: "(case (r, v) of
        (Some reason, v) \<Rightarrow> ([], log_warn ''execute'' (''Duplicate order intent skipped: '' @ reason) v)
      | (None, v) \<Rightarrow> leased_order a config side d x key v) = (events, t)"
      unfolding live_trade_def Let_def claim' by simp
    show ?thesis
    proof (cases r)
      case None
      then show ?thesis using leased [OF Some True] claim live by simp
    next
      case (Some reason)
      then show ?thesis
        using live claim refused lease_refused [of key config _ _ _ reason v]
          leases_view [OF live_state_view, of a config revision s] by auto
    qed
  qed
qed

lemma execution_cases:
  assumes "execute_if_warranted a config revision d s = (events, t)"
  obtains
    (unchanged) "\<forall>e\<in>set events. \<exists>u. e = Written u \<and> st_in_flight_order_intents u = st_in_flight_order_intents s"
      "st_in_flight_order_intents t = st_in_flight_order_intents s"
  | (refused) "events = []"
      "st_in_flight_order_intents t = retain_claims (xa_claim_now a) (st_in_flight_order_intents s)"
  | (leased) side x u key v where
      "trade_action_side (td_action d) = Some side" "admitted_order a config side d s = Inr (x, u)"
      "order_view u = order_view s"
      "execution_intent_key side (ex_exchange x) (td_symbol d) = Some key" "is_live a config revision s"
      "claim_execution_intent key config (td_override_applied d) (xa_claim_now a) (live_state a config revision u)
         = (None, v)"
      "leased_order a config side d x key v = (events, t)"
proof (cases "trade_action_side (td_action d)")
  case None
  then show ?thesis using assms unchanged by (auto simp: execute_if_warranted_def)
next
  case (Some side)
  have view: "keeps_view s (admitted_order a config side d s)" by (rule admitted_order_view)
  show ?thesis
  proof (cases "admitted_order a config side d s")
    case (Inl u)
    then show ?thesis using assms unchanged Some view
      by (auto simp: execute_if_warranted_def dest: leases_view)
  next
    case (Inr xu)
    obtain x u where xu: "xu = (x, u)" by (cases xu)
    then have u: "order_view u = order_view s" using view Inr by simp
    have "gated_trade a config revision side d (x, u) = (events, t)"
      using assms Some Inr xu by (simp add: execute_if_warranted_def)
    then show ?thesis
    proof (cases rule: gated_trade_cases)
      case unchanged
      then show ?thesis using that(1) leases_view [OF u] by simp
    next
      case refused
      then show ?thesis using that(2) leases_view [OF u] by simp
    next
      case (leased key v)
      then show ?thesis using that(3) [OF Some _ u] Inr xu is_live_view [OF u] by blast
    qed
  qed
qed

section \<open>Every order sent has passed its gates\<close>

lemma sent_order_leased:
  assumes "leased_order a config side d x key v = (events, t)" "OrderSent side' exchange symbol amount \<in> set events"
  shows "side' = side \<and> exchange = ex_exchange x \<and> symbol = td_symbol d \<and> amount = ex_amount_usd x
    \<and> (\<exists>rest. events = Written v # PairActivation exchange symbol # OrderSent side exchange symbol amount # rest)"
  using leased_order_events [OF assms(1)] assms(2) by (cases "xa_order a") (auto simp: persist_def split: if_splits)


end
