(* ===== verification/TradingRuns.thy ===== *)
theory TradingRuns
  imports ExecutionSafety
begin

text \<open>
  The bridge over time: decisions executed one after the other, crashes after any event of an
  execution, restarts from the state on disk, and other changes of the state that keep the leases.
  An order is acknowledged when OctoBot has answered it and the execution was not cut short.
\<close>

section \<open>Runs\<close>

record attempt =
  at_order :: "(order_side \<times> string \<times> string) option"
  at_now :: f64
  at_expires :: f64
  at_acknowledged :: bool

fun sent_order :: "'r exec_event \<Rightarrow> (order_side \<times> string \<times> string) option" where
  "sent_order (OrderSent side exchange symbol _) = Some (side, exchange, symbol)"
| "sent_order _ = None"

definition order_of :: "'r exec_event list \<Rightarrow> (order_side \<times> string \<times> string) option" where
  "order_of events =
     (case List.map_filter sent_order events of [] \<Rightarrow> None | x # _ \<Rightarrow> Some x)"

definition last_written :: "'r exec_event list \<Rightarrow> 'r trading_state option \<Rightarrow> 'r trading_state option" where
  "last_written events disk = fold (\<lambda>e disk. case e of Written s \<Rightarrow> Some s | _ \<Rightarrow> disk) events disk"

definition attempt_of ::
  "execution_answers \<Rightarrow> 'a trading_config_scheme \<Rightarrow> 'r exec_event list \<Rightarrow> bool \<Rightarrow> attempt" where
  "attempt_of a config events completed =
     \<lparr>at_order = order_of events, at_now = xa_claim_now a,
      at_expires = f_add (xa_claim_now a) (tr_execution_lease_seconds config),
      at_acknowledged = (completed \<and> is_ok (xa_order a))\<rparr>"

definition restarted ::
  "('r \<Rightarrow> 'r \<Rightarrow> 'r) \<Rightarrow> nat \<Rightarrow> nat \<Rightarrow> 'r \<Rightarrow> 'r trading_state option \<Rightarrow> 'r trading_state" where
  "restarted restore_rest L R rest disk =
     (case disk of None \<Rightarrow> new_trading_state L R rest
      | Some d \<Rightarrow> restore_from restore_rest d (new_trading_state L R rest))"

text \<open>The attempts are listed newest first.\<close>

inductive trading_run ::
  "('r \<Rightarrow> 'r \<Rightarrow> 'r) \<Rightarrow> attempt list \<Rightarrow> 'r trading_state \<Rightarrow> 'r trading_state option \<Rightarrow> bool" for restore_rest where
  start: "trading_run restore_rest [] (new_trading_state L R rest) None"
| executed: "trading_run restore_rest h s disk \<Longrightarrow> execute_if_warranted a (config :: trading_config) revision d s = (events, t) \<Longrightarrow>
    trading_run restore_rest (attempt_of a config events True # h) t (last_written events disk)"
| crashed: "trading_run restore_rest h s disk \<Longrightarrow> execute_if_warranted a (config :: trading_config) revision d s = (events, t) \<Longrightarrow>
    n < length events \<Longrightarrow>
    trading_run restore_rest (attempt_of a config (take n events) False # h)
      (restarted restore_rest L R rest (last_written (take n events) disk)) (last_written (take n events) disk)"
| restart: "trading_run restore_rest h s disk \<Longrightarrow> trading_run restore_rest h (restarted restore_rest L R rest disk) disk"
| other: "trading_run restore_rest h s disk \<Longrightarrow>
    st_in_flight_order_intents t = st_in_flight_order_intents s \<Longrightarrow> trading_run restore_rest h t disk"
| saved: "trading_run restore_rest h s disk \<Longrightarrow> trading_run restore_rest h s (Some s)"

section \<open>Leases of unacknowledged orders\<close>

definition attempt_key :: "attempt \<Rightarrow> string option" where
  "attempt_key x = Option.bind (at_order x) (\<lambda>(side, exchange, symbol). execution_intent_key side exchange symbol)"

text \<open>An attempt still binds when its order may be out and no later claim has read its expiry.\<close>

definition binding :: "attempt list \<Rightarrow> nat \<Rightarrow> bool" where
  "binding h j \<longleftrightarrow> j < length h \<and> at_order (h ! j) \<noteq> None \<and> \<not> at_acknowledged (h ! j)
     \<and> (\<forall>i<j. f_lt (at_now (h ! i)) (at_expires (h ! j)))"

definition leases_key :: "'r trading_state \<Rightarrow> attempt \<Rightarrow> bool" where
  "leases_key s x \<longleftrightarrow> (\<exists>key c. attempt_key x = Some key \<and> st_in_flight_order_intents s key = Some c
     \<and> ic_expires_at c = at_expires x)"

definition leases_held :: "attempt list \<Rightarrow> 'r trading_state \<Rightarrow> 'r trading_state option \<Rightarrow> bool" where
  "leases_held h s disk \<longleftrightarrow>
     (\<forall>j. binding h j \<longrightarrow> leases_key s (h ! j) \<and> (\<exists>d. disk = Some d \<and> leases_key d (h ! j)))"

definition not_repeated :: "attempt list \<Rightarrow> bool" where
  "not_repeated h \<longleftrightarrow>
     (\<forall>i j. i < j \<longrightarrow> j < length h \<longrightarrow> at_order (h ! i) \<noteq> None \<longrightarrow> at_order (h ! j) \<noteq> None \<longrightarrow>
        attempt_key (h ! i) = attempt_key (h ! j) \<longrightarrow> \<not> at_acknowledged (h ! j) \<longrightarrow>
        (\<exists>k. i \<le> k \<and> k < j \<and> \<not> f_lt (at_now (h ! k)) (at_expires (h ! j))))"

lemma leases_key_eq: "st_in_flight_order_intents t = st_in_flight_order_intents s \<Longrightarrow> leases_key t x = leases_key s x"
  by (simp add: leases_key_def)

lemma leases_restored [simp]:
  "st_in_flight_order_intents (restore_from restore_rest d s) = st_in_flight_order_intents d"
  by (simp add: restore_from_def log_info_def st_log_def rebuild_recent_trades_def)

lemma leases_restarted: "leases_key (restarted restore_rest L R rest (Some d)) x = leases_key d x"
  by (rule leases_key_eq) (simp add: restarted_def)

lemma leases_held_restarted: "leases_held h s disk \<Longrightarrow> leases_held h (restarted restore_rest L R rest disk) disk"
  by (auto simp: leases_held_def leases_restarted)

lemma binding_Cons: "binding (x # h) (Suc j) \<longleftrightarrow> f_lt (at_now x) (at_expires (h ! j)) \<and> binding h j"
  by (auto simp: binding_def All_less_Suc2)

text \<open>
  What one execution, cut after some events, does: every state it writes keeps the leases of
  binding orders, and if it sends an order its own lease is written before.
\<close>

lemma last_written_cases:
  "last_written events disk = disk \<or> (\<exists>u. last_written events disk = Some u \<and> Written u \<in> set events)"
proof (induction events arbitrary: disk)
  case (Cons e events)
  show ?case
  proof (cases e)
    case (Written s)
    then show ?thesis using Cons [of "Some s"] by (auto simp: last_written_def)
  qed (use Cons [of disk] in \<open>auto simp: last_written_def\<close>)
qed (simp add: last_written_def)

lemma execution_keeps:
  assumes run: "execute_if_warranted a config revision d s = (events, t)"
    and held: "st_in_flight_order_intents s key = Some c" "f_lt (xa_claim_now a) (ic_expires_at c)"
  shows "st_in_flight_order_intents t key = Some c"
    and "Written u \<in> set events \<Longrightarrow> st_in_flight_order_intents u key = Some c"
    and "OrderSent side exchange symbol amount \<in> set events \<Longrightarrow> execution_intent_key side exchange symbol \<noteq> Some key"
proof -
  note kept = retained_claim [where claims = "st_in_flight_order_intents s", OF held]
  have "st_in_flight_order_intents t key = Some c
    \<and> (\<forall>u. Written u \<in> set events \<longrightarrow> st_in_flight_order_intents u key = Some c)
    \<and> (\<forall>side exchange symbol amount. OrderSent side exchange symbol amount \<in> set events \<longrightarrow>
          execution_intent_key side exchange symbol \<noteq> Some key)"
    using run
  proof (cases rule: execution_cases)
    case unchanged
    then show ?thesis using held by auto
  next
    case refused
    then show ?thesis using kept by simp
  next
    case (leased side0 x u key0 v)
    have same: "st_in_flight_order_intents (live_state a config revision u) = st_in_flight_order_intents s"
      using live_state_view [of a config revision u] leased(3) by (simp add: order_view_def)
    note g = lease_granted [OF leased(6), unfolded same]
    have "key0 \<noteq> key" using g(1) kept by auto
    moreover then have "st_in_flight_order_intents v key = Some c" using g(2) kept by simp
    ultimately show ?thesis using leased_order_events [OF leased(7)] leased(4)
      by (cases "xa_order a") (auto simp: persist_def)
  qed
  then show "st_in_flight_order_intents t key = Some c"
    and "Written u \<in> set events \<Longrightarrow> st_in_flight_order_intents u key = Some c"
    and "OrderSent side exchange symbol amount \<in> set events \<Longrightarrow> execution_intent_key side exchange symbol \<noteq> Some key"
    by blast+
qed

lemma order_of_sent: "order_of events = Some (side, exchange, symbol) \<Longrightarrow>
    \<exists>amount. OrderSent side exchange symbol amount \<in> set events"
proof -
  assume "order_of events = Some (side, exchange, symbol)"
  then have "(side, exchange, symbol) \<in> set (List.map_filter sent_order events)"
    by (auto simp: order_of_def split: list.splits)
  then obtain e where e: "e \<in> set events" "sent_order e = Some (side, exchange, symbol)" by (auto simp: map_filter_in)
  show ?thesis by (rule exec_event.exhaust [of e]) (use e in auto)
qed

lemma take_sent: "e \<in> set (take n (w # p # e # rest)) \<Longrightarrow> e \<noteq> w \<Longrightarrow> e \<noteq> p \<Longrightarrow> length rest \<le> 1 \<Longrightarrow>
    n < length (w # p # e # rest) \<Longrightarrow> take n (w # p # e # rest) = [w, p, e]"
  by (cases n; cases "n - 1"; cases "n - 2"; cases rest) auto

text \<open>An order that is sent and not acknowledged has its lease on disk, and in memory when the run ends.\<close>

lemma own_lease:
  assumes run: "execute_if_warranted a config revision d s = (events, t)"
    and sent: "order_of events = Some (side, exchange, symbol)" and open_order: "xa_order a = Inl e"
  shows "leases_key t (attempt_of a config events b)"
    and "\<exists>u. last_written events disk = Some u \<and> leases_key u (attempt_of a config events b)"
proof -
  obtain amount where o: "OrderSent side exchange symbol amount \<in> set events" using order_of_sent [OF sent] by blast
  obtain side0 x u key v where l: "execution_intent_key side0 (ex_exchange x) (td_symbol d) = Some key"
      "claim_execution_intent key config (td_override_applied d) (xa_claim_now a) (live_state a config revision u) = (None, v)"
      "leased_order a config side0 d x key v = (events, t)"
    using run by (cases rule: execution_cases) (use o in auto)
  have k: "attempt_key (attempt_of a config events b) = Some key"
    using sent sent_order_leased [OF l(3) o] l(1) by (simp add: attempt_key_def attempt_of_def)
  have v: "leases_key v (attempt_of a config events b)"
    using k lease_granted(2) [OF l(2)] by (simp add: leases_key_def attempt_of_def)
  have e: "events = Written v # PairActivation (ex_exchange x) (td_symbol d)
      # OrderSent side0 (ex_exchange x) (td_symbol d) (ex_amount_usd x) # persist (xa_final_write_ok a) v"
    "st_in_flight_order_intents t = st_in_flight_order_intents v"
    using leased_order_events [OF l(3)] o open_order by (auto simp: persist_def split: if_splits)
  show "leases_key t (attempt_of a config events b)" using v leases_key_eq [OF e(2)] by blast
  have "last_written events disk = Some v" unfolding e(1) by (simp add: last_written_def persist_def)
  then show "\<exists>u. last_written events disk = Some u \<and> leases_key u (attempt_of a config events b)" using v by blast
qed

lemma own_lease_crashed:
  assumes run: "execute_if_warranted a config revision d s = (events, t)" and n: "n < length events"
    and sent: "order_of (take n events) = Some (side, exchange, symbol)"
  shows "\<exists>u. last_written (take n events) disk = Some u \<and> leases_key u (attempt_of a config (take n events) b)"
proof -
  obtain amount where o: "OrderSent side exchange symbol amount \<in> set (take n events)"
    using order_of_sent [OF sent] by blast
  then have o': "OrderSent side exchange symbol amount \<in> set events" by (rule in_set_takeD)
  obtain side0 x u key v where l: "execution_intent_key side0 (ex_exchange x) (td_symbol d) = Some key"
      "claim_execution_intent key config (td_override_applied d) (xa_claim_now a) (live_state a config revision u) = (None, v)"
      "leased_order a config side0 d x key v = (events, t)"
    using run by (cases rule: execution_cases) (use o' in auto)
  have same: "side = side0" "exchange = ex_exchange x" "symbol = td_symbol d" "amount = ex_amount_usd x"
    using sent_order_leased [OF l(3) o'] by simp_all
  have "leases_key v (attempt_of a config (take n events) b)"
    using sent l(1) same lease_granted(2) [OF l(2)] by (simp add: leases_key_def attempt_key_def attempt_of_def)
  moreover obtain w where e: "events = Written v # PairActivation (ex_exchange x) (td_symbol d)
      # OrderSent side0 (ex_exchange x) (td_symbol d) (ex_amount_usd x) # persist (xa_final_write_ok a) w"
    using leased_order_events [OF l(3)] o' by (cases "xa_order a") (auto simp: persist_def split: if_splits)
  then have "take n events = [Written v, PairActivation (ex_exchange x) (td_symbol d),
      OrderSent side0 (ex_exchange x) (td_symbol d) (ex_amount_usd x)]"
    using o n same unfolding e by (intro take_sent) (simp_all add: persist_def)
  then have "last_written (take n events) disk = Some v" by (simp add: last_written_def)
  ultimately show ?thesis by blast
qed

section \<open>No order of unknown outcome is repeated\<close>

lemma kept_leases:
  assumes held: "leases_held h s disk" and run: "execute_if_warranted a config revision d s = (events, t)"
    and j: "binding (x # h) (Suc j)" "at_now x = xa_claim_now a"
  shows "leases_key t (h ! j)" and "\<exists>u. last_written (take n events) disk = Some u \<and> leases_key u (h ! j)"
proof -
  have b: "f_lt (xa_claim_now a) (at_expires (h ! j))" "binding h j" using j by (simp_all add: binding_Cons)
  then obtain key c where c: "attempt_key (h ! j) = Some key" "st_in_flight_order_intents s key = Some c"
      "ic_expires_at c = at_expires (h ! j)"
    using held by (auto simp: leases_held_def leases_key_def)
  note keeps = execution_keeps [OF run c(2)]
  show "leases_key t (h ! j)" using keeps(1) b(1) c by (auto simp: leases_key_def)
  show "\<exists>u. last_written (take n events) disk = Some u \<and> leases_key u (h ! j)"
    using last_written_cases [of "take n events" disk]
  proof
    assume "last_written (take n events) disk = disk"
    then show ?thesis using held b(2) by (auto simp: leases_held_def)
  next
    assume "\<exists>u. last_written (take n events) disk = Some u \<and> Written u \<in> set (take n events)"
    then obtain u where u: "last_written (take n events) disk = Some u" "Written u \<in> set events"
      by (auto dest: in_set_takeD)
    have "leases_key u (h ! j)" using keeps(2) [OF _ u(2)] b(1) c by (auto simp: leases_key_def)
    then show ?thesis using u(1) by blast
  qed
qed

lemma binding_Cons_cases:
  "binding (x # h) j \<Longrightarrow> (j = 0 \<and> at_order x \<noteq> None \<and> \<not> at_acknowledged x) \<or> (\<exists>i. j = Suc i)"
  by (cases j) (auto simp: binding_def)

lemma held_after_execution:
  assumes held: "leases_held h s disk" and run: "execute_if_warranted a config revision d s = (events, t)"
  shows "leases_held (attempt_of a config events True # h) t (last_written events disk)"
  unfolding leases_held_def
proof (intro allI impI)
  fix j
  let ?x = "attempt_of a config events True"
  assume b: "binding (?x # h) j"
  show "leases_key t ((?x # h) ! j) \<and> (\<exists>d. last_written events disk = Some d \<and> leases_key d ((?x # h) ! j))"
  proof (cases j)
    case 0
    then obtain side exchange symbol where o: "order_of events = Some (side, exchange, symbol)" and "\<not> is_ok (xa_order a)"
      using b by (auto simp: binding_def attempt_of_def)
    then obtain e where "xa_order a = Inl e" by (cases "xa_order a") simp_all
    then show ?thesis using own_lease [OF run o] 0 by simp
  next
    case (Suc i)
    have now: "at_now ?x = xa_claim_now a" by (simp add: attempt_of_def)
    show ?thesis
      using kept_leases(1) [OF held run b [unfolded Suc] now]
        kept_leases(2) [OF held run b [unfolded Suc] now, of "length events"] Suc by simp
  qed
qed

lemma held_after_crash:
  assumes held: "leases_held h s disk" and run: "execute_if_warranted a config revision d s = (events, t)"
    and n: "n < length events"
  shows "leases_held (attempt_of a config (take n events) False # h)
    (restarted restore_rest L R rest (last_written (take n events) disk)) (last_written (take n events) disk)"
  unfolding leases_held_def
proof (intro allI impI)
  fix j
  let ?x = "attempt_of a config (take n events) False"
  assume b: "binding (?x # h) j"
  have "\<exists>u. last_written (take n events) disk = Some u \<and> leases_key u ((?x # h) ! j)"
  proof (cases j)
    case 0
    then obtain side exchange symbol where "order_of (take n events) = Some (side, exchange, symbol)"
      using b by (auto simp: binding_def attempt_of_def)
    then show ?thesis using own_lease_crashed [OF run n] 0 by simp
  next
    case (Suc i)
    have now: "at_now ?x = xa_claim_now a" by (simp add: attempt_of_def)
    show ?thesis using kept_leases(2) [OF held run b [unfolded Suc] now, of n] Suc by simp
  qed
  then show "leases_key (restarted restore_rest L R rest (last_written (take n events) disk)) ((?x # h) ! j)
      \<and> (\<exists>d. last_written (take n events) disk = Some d \<and> leases_key d ((?x # h) ! j))"
    by (auto simp: leases_restarted)
qed

lemma run_leases_held: "trading_run restore_rest h s disk \<Longrightarrow> leases_held h s disk"
proof (induction rule: trading_run.induct)
  case (start L R rest)
  show ?case by (simp add: leases_held_def binding_def)
next
  case (executed h s disk a config revision d events t)
  show ?case by (rule held_after_execution [OF executed.IH executed.hyps(2)])
next
  case (crashed h s disk a config revision d events t n L R rest)
  show ?case by (rule held_after_crash [OF crashed.IH crashed.hyps(2,3)])
next
  case (restart h s disk L R rest)
  show ?case by (rule leases_held_restarted [OF restart.IH])
next
  case (other h s disk t)
  then show ?case by (simp add: leases_held_def leases_key_def)
next
  case (saved h s disk)
  then show ?case by (simp add: leases_held_def)
qed

lemma not_repeated_Cons:
  "not_repeated h \<Longrightarrow> (\<And>j. binding (x # h) (Suc j) \<Longrightarrow> at_order x \<noteq> None \<Longrightarrow> attempt_key x \<noteq> attempt_key (h ! j)) \<Longrightarrow>
     not_repeated (x # h)"
  unfolding not_repeated_def
proof (intro allI impI)
  fix i j
  assume old: "\<forall>i j. i < j \<longrightarrow> j < length h \<longrightarrow> at_order (h ! i) \<noteq> None \<longrightarrow> at_order (h ! j) \<noteq> None \<longrightarrow>
      attempt_key (h ! i) = attempt_key (h ! j) \<longrightarrow> \<not> at_acknowledged (h ! j) \<longrightarrow>
      (\<exists>k. i \<le> k \<and> k < j \<and> \<not> f_lt (at_now (h ! k)) (at_expires (h ! j)))"
    and fresh: "\<And>j. binding (x # h) (Suc j) \<Longrightarrow> at_order x \<noteq> None \<Longrightarrow> attempt_key x \<noteq> attempt_key (h ! j)"
    and ij: "i < j" "j < length (x # h)" "at_order ((x # h) ! i) \<noteq> None" "at_order ((x # h) ! j) \<noteq> None"
      "attempt_key ((x # h) ! i) = attempt_key ((x # h) ! j)" "\<not> at_acknowledged ((x # h) ! j)"
  obtain m where m: "j = Suc m" using ij(1) by (cases j) auto
  show "\<exists>k. i \<le> k \<and> k < j \<and> \<not> f_lt (at_now ((x # h) ! k)) (at_expires ((x # h) ! j))"
  proof (cases i)
    case 0
    then have "\<not> binding (x # h) (Suc m)" using fresh [of m] ij m by auto
    then obtain k where "k < Suc m" "\<not> f_lt (at_now ((x # h) ! k)) (at_expires ((x # h) ! Suc m))"
      using ij m by (auto simp: binding_def)
    then show ?thesis using m 0 by auto
  next
    case (Suc n)
    then obtain k where "n \<le> k" "k < m" "\<not> f_lt (at_now (h ! k)) (at_expires (h ! m))"
      using old [rule_format, of n m] ij m by auto
    then show ?thesis using m Suc by (intro exI [of _ "Suc k"]) simp
  qed
qed

lemma fresh_order:
  assumes held: "leases_held h s disk" and run: "execute_if_warranted a config revision d s = (events, t)"
    and x: "x = attempt_of a config (take n events) b"
    and j: "binding (x # h) (Suc j)" and sent: "at_order x \<noteq> None"
  shows "attempt_key x \<noteq> attempt_key (h ! j)"
proof -
  obtain side exchange symbol where o: "order_of (take n events) = Some (side, exchange, symbol)"
    using sent x by (auto simp: attempt_of_def)
  then obtain amount where e: "OrderSent side exchange symbol amount \<in> set events"
    using order_of_sent [OF o] by (auto dest: in_set_takeD)
  have "f_lt (xa_claim_now a) (at_expires (h ! j))" "binding h j" using j x by (simp_all add: binding_Cons attempt_of_def)
  then obtain key c where c: "attempt_key (h ! j) = Some key" "st_in_flight_order_intents s key = Some c"
      "f_lt (xa_claim_now a) (ic_expires_at c)"
    using held by (auto simp: leases_held_def leases_key_def)
  then have "execution_intent_key side exchange symbol \<noteq> Some key" using execution_keeps(3) [OF run c(2,3) e] by blast
  then show ?thesis using c(1) o x by (simp add: attempt_key_def attempt_of_def)
qed

text \<open>C2: An order whose outcome is unknown (OctoBot's answer was an error, or the bridge crashed before the
  answer was recorded) is not repeated while its lease runs: in every run, across failed writes,
  crashes at any point and restarts from the state on disk, before a later attempt sends an order
  of the same intent the clock has been read at or after the lease's expiry.\<close>

theorem ambiguous_orders_are_not_repeated:
  assumes "trading_run restore_rest h s disk"
  shows "not_repeated h"
  using assms
proof (induction rule: trading_run.induct)
  case (start L R rest)
  show ?case by (simp add: not_repeated_def)
next
  case (executed h s disk a config revision d events t)
  show ?case
    by (rule not_repeated_Cons [OF executed.IH],
        rule fresh_order [OF run_leases_held [OF executed.hyps(1)] executed.hyps(2), where n = "length events"]) simp_all
next
  case (crashed h s disk a config revision d events t n L R rest)
  show ?case
    by (rule not_repeated_Cons [OF crashed.IH],
        rule fresh_order [OF run_leases_held [OF crashed.hyps(1)] crashed.hyps(2)]) simp_all
qed

section \<open>A run\<close>

definition sample_holding :: octobot_portfolio where
  "sample_holding = \<lparr>op_currencies = [], op_total_value_usd = None,
     op_exchange_currencies = [(''kraken'',
       [(''BTC'', \<lparr>cb_free = Fin 1, cb_locked = Fin 0, cb_total = Fin 1, cb_value_usd = None\<rparr>)])]\<rparr>"

definition sample_answers :: "f64 \<Rightarrow> execution_answers" where
  "sample_answers now = \<lparr>xa_now = Fin 0, xa_portfolio = Inl ''timeout'', xa_rerouted_portfolio = Inl ''timeout'',
     xa_sell_snapshot = Inl ''timeout'', xa_fresh_snapshot = Inl ''timeout'', xa_fresh_now = Fin 0,
     xa_qualified_now = Fin 0, xa_paper_now = Fin 0, xa_claim_now = now, xa_lease_write_error = None,
     xa_activation = Inr \<lparr>pa_ready = True, pa_restart_required = False, pa_changed = False, pa_message = []\<rparr>,
     xa_order = Inl ''timeout'', xa_settled_at = Fin 0, xa_final_write_ok = True\<rparr>"

abbreviation sample_live_config :: trading_config where
  "sample_live_config \<equiv> default_bridge_config\<lparr>tr_live_execution_enabled := True, tr_backtesting_enabled := False\<rparr>"

definition sample_sale :: trade_decision where
  "sample_sale = (hold_decision ''Operator override'' (Fin 0))
     \<lparr>td_action := Sell, td_exchange := ''kraken'', td_symbol := ''BTC/USDT'', td_amount_usd := Fin 10,
      td_override_applied := True\<rparr>"

definition sample_evidence :: paper_state where
  "sample_evidence = default_paper_state\<lparr>pq_build_revision := ''rev-a'', pq_qualified_at := Some (Fin 0),
     pq_observed_evaluations := 100, pq_validated_intents := 5\<rparr>"

definition sample_ready :: "'r trading_state \<Rightarrow> bool" where
  "sample_ready s \<longleftrightarrow> st_current_portfolio s = Some sample_holding \<and> st_available_exchanges s = []
     \<and> st_config_overrides s = None \<and> st_paper_qualification s = sample_evidence"

lemma sample_names: "trim ''BTC'' = ''BTC''" "trim (hd (split_on CHR ''/'' ''BTC/USDT'')) = ''BTC''" "symbol_base_asset ''BTC/USDT'' = Some ''BTC''"
  "eq_ignore_ascii_case ''kraken'' ''kraken''" "eq_ignore_ascii_case ''BTC'' ''BTC''"
  "execution_intent_key SellSide ''kraken'' ''BTC/USDT'' = Some ''SELL|KRAKEN|BTC/USDT''"
  by code_simp+

lemma sample_sale_fits: "sample_ready s \<Longrightarrow>
    fit_order (sample_answers now) sample_live_config SellSide sample_sale
      (\<lparr>ex_exchange = ''kraken'', ex_amount_usd = Fin 10, ex_reference_price = None\<rparr>, s)
    = Inr (\<lparr>ex_exchange = ''kraken'', ex_amount_usd = Fin 10, ex_reference_price = None\<rparr>, s)"
  by (simp add: fit_order_def fit_sell_def sample_sale_def sample_names ensure_sell_balance_def sample_answers_def
      default_bridge_config_def sample_ready_def sample_holding_def balance_in_def refreshed_def reroute_def
      portfolio_balance_state_for_exchange_def find_exchange_def find_asset_def select_execution_exchange_def
      tracked_asset_def routing_candidates_def exchange_supports_symbol_def candidate_of_def List.map_filter_simps
      sort_by_def is_some_and_def sell_balance_is_sufficient_def known_value_def option_filter_def cap_sell_def
      max_sell_amount_usd_def sellable_value_usd_def Let_def)

lemma sample_admitted: "sample_ready s \<Longrightarrow>
    admitted_order (sample_answers now) sample_live_config SellSide sample_sale s
    = Inr (\<lparr>ex_exchange = ''kraken'', ex_amount_usd = Fin 10, ex_reference_price = None\<rparr>, s)"
proof -
  assume s: "sample_ready s"
  have o: "td_override_applied sample_sale" by (simp add: sample_sale_def)
  have "check_decision (sample_answers now) sample_live_config sample_sale s
      = Inr (\<lparr>ex_exchange = ''kraken'', ex_amount_usd = Fin 10, ex_reference_price = None\<rparr>, s)"
    by (simp add: check_decision_def stale_reason_def sample_sale_def hold_decision_def)
  moreover have "effective_micro_trade_floor_usd sample_live_config s \<le> Fin 1"
  proof -
    have "lit (1 / 100) \<le> rnd 1" by (rule rnd_mono) simp
    then have "lit (1 / 100) \<le> Fin 1" by (simp add: rnd_one)
    then show ?thesis using s
      by (simp add: effective_micro_trade_floor_usd_def overridden_def sample_ready_def default_bridge_config_def
          f_max_def is_nan_iff)
  qed
  moreover have "Fin 1 \<le> f_add (Fin 10) f_epsilon"
    using rnd_mono [of 1 "10 + 1 / 2 ^ 52"] by (simp add: f_epsilon_def rnd_one)
  ultimately have "\<not> f_lt (f_add (Fin 10) f_epsilon) (effective_micro_trade_floor_usd sample_live_config s)"
    by (auto simp: f_lt_iff)
  then show ?thesis
    using \<open>check_decision _ _ _ _ = _\<close> sample_sale_fits [OF s] o
    by (simp add: admitted_order_def check_floor_def reprice_def)
qed

lemma sample_live: "sample_ready s \<Longrightarrow> is_live (sample_answers now) sample_live_config ''rev-a'' s"
proof -
  assume s: "sample_ready s"
  have "f_le (Fin 0) (f_max x (Fin 1))" for x
    using f_max_above(1) [of "Fin 1" x] order_trans [of "Fin 0" "Fin 1" "f_max x (Fin 1)"]
    by (cases x) (auto simp: f_le_iff f_max_def max_def)
  moreover have "f_sub (Fin 0) (Fin 0) = Fin 0" using rnd_of_int [of 0] by (simp add: f_sub_def f_neg_def)
  ultimately have "paper_qualified ''rev-a'' (Fin 0) sample_live_config s"
    using s by (simp add: paper_qualified_def is_qualified_def meets_counts_def sample_ready_def sample_evidence_def
        default_paper_state_def paper_policy_of_def default_bridge_config_def is_some_and_def)
  then show ?thesis
    by (simp add: is_live_def effective_live_execution_def backtest_profitability_qualified_def sample_answers_def
        default_bridge_config_def)
qed

text \<open>In a ready state with no lease of the intent, the sale is sent and its lease stays.\<close>

lemma sample_sends:
  assumes s: "sample_ready s"
    and free: "retain_claims now (st_in_flight_order_intents s) ''SELL|KRAKEN|BTC/USDT'' = None"
  obtains v t where
    "execute_if_warranted (sample_answers now) sample_live_config ''rev-a'' sample_sale s
       = ([Written v, PairActivation ''kraken'' ''BTC/USDT'', OrderSent SellSide ''kraken'' ''BTC/USDT'' (Fin 10),
           Written v], t)"
    "sample_ready t"
    "st_in_flight_order_intents t ''SELL|KRAKEN|BTC/USDT''
       = Some \<lparr>ic_authority = ''gail'', ic_claimed_at = now, ic_expires_at = f_add now (Fin 180)\<rparr>"
proof -
  define x where "x = \<lparr>ex_exchange = ''kraken'', ex_amount_usd = Fin 10, ex_reference_price = None\<rparr>"
  define key where "key = ''SELL|KRAKEN|BTC/USDT''"
  define v where "v = s\<lparr>st_in_flight_order_intents := (retain_claims now (st_in_flight_order_intents s))
    (key \<mapsto> \<lparr>ic_authority = ''gail'', ic_claimed_at = now, ic_expires_at = f_add now (Fin 180)\<rparr>)\<rparr>"
  define t where "t = log_error ''execute'' (''sell'' @
    '' order failed or acknowledgement was uncertain; intent lease retained until expiry: '' @ ''timeout'') v"
  have d: "trade_action_side (td_action sample_sale) = Some SellSide" "td_symbol sample_sale = ''BTC/USDT''"
    "td_override_applied sample_sale"
    by (simp_all add: sample_sale_def)
  have live: "is_live (sample_answers now) sample_live_config ''rev-a'' s" by (rule sample_live [OF s])
  have claim: "claim_execution_intent key sample_live_config True now s = (None, v)"
    using free by (simp add: claim_execution_intent_def key_def v_def default_bridge_config_def Let_def)
  have leased: "leased_order (sample_answers now) sample_live_config SellSide sample_sale x key v
      = ([Written v, PairActivation ''kraken'' ''BTC/USDT'', OrderSent SellSide ''kraken'' ''BTC/USDT'' (Fin 10),
          Written v], t)"
    by (simp add: leased_order_def submit_order_def sample_answers_def persist_def x_def d(2) t_def Let_def side_name_def)
  have "gated_trade (sample_answers now) sample_live_config ''rev-a'' SellSide sample_sale (x, s)
      = ([Written v, PairActivation ''kraken'' ''BTC/USDT'', OrderSent SellSide ''kraken'' ''BTC/USDT'' (Fin 10),
          Written v], t)"
  proof -
    have "xa_claim_now (sample_answers now) = now" by (simp add: sample_answers_def)
    moreover have "tr_live_execution_enabled sample_live_config" "\<not> tr_backtesting_enabled sample_live_config"
      by simp_all
    moreover have "execution_intent_key SellSide (ex_exchange x) (td_symbol sample_sale) = Some key"
      by (simp add: x_def d(2) key_def sample_names)
    ultimately show ?thesis
      using live claim leased d(3)
      by (simp add: gated_trade_def live_trade_def is_live_def effective_live_execution_def)
  qed
  then have "execute_if_warranted (sample_answers now) sample_live_config ''rev-a'' sample_sale s
      = ([Written v, PairActivation ''kraken'' ''BTC/USDT'', OrderSent SellSide ''kraken'' ''BTC/USDT'' (Fin 10),
          Written v], t)"
    using sample_admitted [OF s] d(1) by (simp add: execute_if_warranted_def x_def)
  moreover have "sample_ready t"
    using s by (simp add: sample_ready_def t_def v_def log_error_def st_log_def)
  moreover have "st_in_flight_order_intents t key
      = Some \<lparr>ic_authority = ''gail'', ic_claimed_at = now, ic_expires_at = f_add now (Fin 180)\<rparr>"
    by (simp add: t_def v_def)
  ultimately show ?thesis using that by (simp add: key_def)
qed

definition sample_start :: "unit trading_state" where
  "sample_start = (new_trading_state 10 10 ())\<lparr>st_current_portfolio := Some sample_holding,
     st_paper_qualification := sample_evidence\<rparr>"

lemma sample_start_ready: "sample_ready sample_start" "st_in_flight_order_intents sample_start = (\<lambda>_. None)"
  by (simp_all add: sample_ready_def sample_start_def new_trading_state_def)


text \<open>The sale is retried until it is sent a second time, after its lease of 180 seconds.\<close>

theorem ambiguous_orders_are_not_repeated_witness:
  "\<exists>h (s :: unit trading_state) disk. trading_run (\<lambda>_ r. r) h s disk \<and> not_repeated h \<and> length h = 2
     \<and> at_order (h ! 0) = at_order (h ! 1) \<and> at_order (h ! 1) \<noteq> None \<and> \<not> at_acknowledged (h ! 1)"
proof -
  let ?run = "\<lambda>now s. execute_if_warranted (sample_answers now) sample_live_config ''rev-a'' sample_sale s"
  have "trading_run (\<lambda>_ r. r) [] (new_trading_state 10 10 ()) None" by (rule trading_run.start)
  then have r0: "trading_run (\<lambda>_ r. r) [] sample_start None"
    by (rule trading_run.other) (simp add: sample_start_def)
  have free: "retain_claims (Fin 0) (st_in_flight_order_intents sample_start) ''SELL|KRAKEN|BTC/USDT'' = None"
    by (simp add: sample_start_ready(2) retain_claims_def option_filter_def)
  obtain v t where e1: "?run (Fin 0) sample_start = ([Written v, PairActivation ''kraken'' ''BTC/USDT'',
        OrderSent SellSide ''kraken'' ''BTC/USDT'' (Fin 10), Written v], t)" and t: "sample_ready t"
      "st_in_flight_order_intents t ''SELL|KRAKEN|BTC/USDT''
         = Some \<lparr>ic_authority = ''gail'', ic_claimed_at = Fin 0, ic_expires_at = f_add (Fin 0) (Fin 180)\<rparr>"
    by (rule sample_sends [OF sample_start_ready(1) free])
  note r1 = trading_run.executed [OF r0 e1]
  have "f_add (Fin 0) (Fin 180) = Fin 180" using rnd_of_int [of 180] by simp
  then have free2: "retain_claims (Fin 200) (st_in_flight_order_intents t) ''SELL|KRAKEN|BTC/USDT'' = None"
    using t(2) by (simp add: retain_claims_def option_filter_def)
  obtain w u where e2: "?run (Fin 200) t = ([Written w, PairActivation ''kraken'' ''BTC/USDT'',
        OrderSent SellSide ''kraken'' ''BTC/USDT'' (Fin 10), Written w], u)"
    by (rule sample_sends [OF t(1) free2])
  note r2 = trading_run.executed [OF r1 e2]
  show ?thesis
    by (rule exI, rule exI, rule exI, rule conjI [OF r2], rule conjI [OF ambiguous_orders_are_not_repeated [OF r2]])
      (simp add: attempt_of_def order_of_def List.map_filter_simps sample_answers_def)
qed

end
