(* ===== verification/TradingFindings.thy ===== *)
theory TradingFindings
  imports TradingRuns
begin

text \<open>
  Two places where the execution does not do what its settings or its checks say: the requirement
  of paper qualification cannot be switched off, and a holding worth less than a cent is not what
  a sale is cut down to.
\<close>

text \<open>Whether paper qualification is required makes no difference to any execution.\<close>

abbreviation requiring_paper :: "bool \<Rightarrow> trading_config \<Rightarrow> trading_config" where
  "requiring_paper b config \<equiv> config\<lparr>tr_paper_qualification_required := b\<rparr>"

lemma requiring_paper_fields:
  "tr_advisory_ttl_seconds (requiring_paper b config) = tr_advisory_ttl_seconds config"
  "tr_market_snapshot_ttl_seconds (requiring_paper b config) = tr_market_snapshot_ttl_seconds config"
  "tr_strict_exchange_selection (requiring_paper b config) = tr_strict_exchange_selection config"
  "tr_micro_trade_min_usd (requiring_paper b config) = tr_micro_trade_min_usd config"
  "tr_estimated_fee_bps (requiring_paper b config) = tr_estimated_fee_bps config"
  "tr_estimated_slippage_bps (requiring_paper b config) = tr_estimated_slippage_bps config"
  "tr_execution_telemetry (requiring_paper b config) = tr_execution_telemetry config"
  "tr_max_reprice_drift_bps (requiring_paper b config) = tr_max_reprice_drift_bps config"
  "tr_paper_min_evaluations (requiring_paper b config) = tr_paper_min_evaluations config"
  "tr_paper_min_validated_intents (requiring_paper b config) = tr_paper_min_validated_intents config"
  "tr_paper_validity_seconds (requiring_paper b config) = tr_paper_validity_seconds config"
  "tr_execution_lease_seconds (requiring_paper b config) = tr_execution_lease_seconds config"
  "tr_backtesting_enabled (requiring_paper b config) = tr_backtesting_enabled config"
  "tr_backtest_profitability_threshold (requiring_paper b config) = tr_backtest_profitability_threshold config"
  "tr_live_execution_enabled (requiring_paper b config) = tr_live_execution_enabled config"
  "tr_live_execution_auto_gate_enabled (requiring_paper b config) = tr_live_execution_auto_gate_enabled config"
  "tr_min_trade_interval_seconds (requiring_paper b config) = tr_min_trade_interval_seconds config"
  "tr_execution_authority (requiring_paper b config) = tr_execution_authority config"
  "tr_markout_horizon_seconds (requiring_paper b config) = tr_markout_horizon_seconds config"
  "tr_markout_ledger_size (requiring_paper b config) = tr_markout_ledger_size config"
  by simp_all

lemma requiring_paper_stages:
  "check_decision a (requiring_paper b config) d s = check_decision a config d s"
  "fit_order a (requiring_paper b config) side d xs = fit_order a config side d xs"
  "effective_micro_trade_floor_usd (requiring_paper b config) s = effective_micro_trade_floor_usd config s"
  "reprice a (requiring_paper b config) side d = reprice a config side d"
  unfolding check_decision_def stale_reason_def fit_order_def fit_sell_def effective_micro_trade_floor_usd_def
      reprice_def requiring_paper_fields by (rule refl)+

lemma requiring_paper_gates:
  "paper_policy_of (requiring_paper b config) = paper_policy_of config"
  "backtest_profitability_qualified (requiring_paper b config) t = backtest_profitability_qualified config t"
  "auto_live_ready (requiring_paper b config) p q = auto_live_ready config p q"
  "effective_live_execution (requiring_paper b config) p q = effective_live_execution config p q"
  "claim_execution_intent key (requiring_paper b config) ov now t = claim_execution_intent key config ov now t"
  "paper_trade a (requiring_paper b config) revision d key t = paper_trade a config revision d key t"
  "paper_qualified revision now (requiring_paper b config) t = paper_qualified revision now config t"
  unfolding paper_policy_of_def backtest_profitability_qualified_def auto_live_ready_def paper_qualified_def
      effective_live_execution_def claim_execution_intent_def paper_trade_def requiring_paper_fields by (rule refl)+

lemma requiring_paper_orders:
  "leased_order a (requiring_paper b config) side d x key t = leased_order a config side d x key t"
  unfolding leased_order_def submit_order_def settle_fill_def filled_markout_def requiring_paper_fields by (rule refl)

theorem paper_requirement_has_no_effect:
  "execute_if_warranted a (requiring_paper b config) revision d s = execute_if_warranted a config revision d s"
proof -
  have "live_trade a (requiring_paper b config) True True side d x key t = live_trade a config True True side d x key t"
    for side x key t
    unfolding live_trade_def requiring_paper_gates requiring_paper_orders requiring_paper_fields by simp
  then have "gated_trade a (requiring_paper b config) revision side d (x, t) = gated_trade a config revision side d (x, t)"
    for side x t
    unfolding gated_trade_def requiring_paper_gates
    by (auto simp: effective_live_execution_def Let_def split: option.split)
  then have gated: "gated_trade a (requiring_paper b config) revision side d = gated_trade a config revision side d" for side
    by (intro ext) (simp only: split_paired_all)
  show ?thesis
    unfolding execute_if_warranted_def admitted_order_def requiring_paper_stages gated by (rule refl)
qed

text \<open>
  A holding whose free part is worth less than a cent: the estimate is dropped instead of being
  too small, and the sale keeps its full amount.
\<close>

lemma dust_rounds_to_nothing:
  assumes "0 < v" "v \<le> 1 / 100"
  shows "max_sell_amount_usd snapshot free_amount total_amount value = None
     \<or> sellable_value_usd free_amount total_amount value None \<noteq> Some (Fin v)"
proof -
  obtain f where f: "sell_safety_factor = Fin f" "0 \<le> f" "f \<le> 991 / 1000" using sell_safety_factor_range by auto
  have big: "pow2 0 \<le> pow2 1000" by (simp only: pow2_le_iff)
  have vf: "0 \<le> v * f" "v * f \<le> 1 / 100 * (991 / 1000)"
    using assms f mult_mono [of v "1 / 100" f "991 / 1000"] by simp_all
  then have "v * f \<le> pow2 1000" using big by (simp add: pow2_def [of 0])
  then obtain y where y: "rnd (v * f) = Fin y" "0 \<le> y" "y \<le> v * f * (1000001 / 1000000) + pow2 (- 1074)"
    using rnd_obtain [OF vf(1)] by blast
  have y1: "y * 100 \<le> 9912 / 10000" using y(3) vf tiny by simp
  then have "y * 100 \<le> pow2 1000" using big by (simp add: pow2_def [of 0])
  then obtain z where z: "rnd (y * 100) = Fin z" "0 \<le> z" "z \<le> y * 100 * (1000001 / 1000000) + pow2 (- 1074)"
    using rnd_obtain [of "y * 100"] y(2) by (metis mult_nonneg_nonneg zero_le_numeral)
  have "z < 1" using z(3) y1 tiny by simp
  then have "\<lfloor>z\<rfloor> = 0" using z(2) by linarith
  then have "in_cents_below (Fin v) sell_safety_factor = Fin 0"
    by (simp add: in_cents_below_def f_mul_def f(1) y(1) z(1) f_floor_def f_div_def rnd_of_int [of 0, simplified])
  then show ?thesis by (auto simp: max_sell_amount_usd_def Let_def split: if_splits)
qed

theorem dust_sale_is_not_cut_down:
  assumes "sellable_value_usd free_amount total_amount value None = Some (Fin v)" "0 < v" "v \<le> 1 / 100"
  shows "cap_sell a d asset (Available free_amount total_amount value) (x, s) = Inr (x, s)"
  using dust_rounds_to_nothing [OF assms(2,3), of "xa_sell_snapshot a" free_amount total_amount "value"] assms(1)
  by (auto simp: cap_sell_def)

end
