(* ===== verification/Allocator.thy ===== *)
theory Allocator
  imports TradeOutcomes Selection
begin

text \<open>
  The cross-sectional allocator, \<^verbatim>\<open>src/src/trading/quantitative/portfolio.rs\<close>: which markets can be
  executed at all, their winsorised and volatility-normalised scores, and the target weights of
  the best of them under limits for an asset and for a cluster of correlated assets.

  \<open>f64::log10\<close>, the precision of which the standard library leaves open, is the argument \<open>log10\<close>.
\<close>

section \<open>Settings\<close>

record allocator_config =
  al_enabled :: bool
  al_top_k :: nat
  al_minimum_quote_volume_usd :: f64
  al_maximum_spread_bps :: f64
  al_minimum_depth_usd :: f64
  al_minimum_listing_age_days :: f64
  al_winsor_quantile :: f64
  al_volatility_floor_pct :: f64
  al_volatility_target_pct :: f64
  al_maximum_asset_weight :: f64
  al_maximum_cluster_weight :: f64
  al_minimum_factor_score :: f64
  al_allow_illiquid_reversal :: bool
  al_microstructure_signal_weight :: f64

definition default_allocator_config :: allocator_config where
  "default_allocator_config = \<lparr>
     al_enabled = True, al_top_k = 3, al_minimum_quote_volume_usd = Fin 1000000,
     al_maximum_spread_bps = Fin 40, al_minimum_depth_usd = Fin 5000, al_minimum_listing_age_days = Fin 14,
     al_winsor_quantile = lit (5 / 100), al_volatility_floor_pct = Fin (1 / 4), al_volatility_target_pct = Fin 2,
     al_maximum_asset_weight = lit (45 / 100), al_maximum_cluster_weight = lit (65 / 100),
     al_minimum_factor_score = lit (5 / 100), al_allow_illiquid_reversal = False,
     al_microstructure_signal_weight = lit (15 / 100)\<rparr>"

definition normalise_allocator :: "allocator_config \<Rightarrow> allocator_config" where
  "normalise_allocator c =
     (let asset = f_clamp (al_maximum_asset_weight c) (lit (1 / 100)) (Fin 1)
      in c\<lparr>al_top_k := nat_clamp (al_top_k c) 1 50,
           al_minimum_quote_volume_usd := f_clamp (al_minimum_quote_volume_usd c) (Fin 0) (Fin 1000000000000000),
           al_maximum_spread_bps := f_clamp (al_maximum_spread_bps c) (lit (1 / 10)) (Fin 5000),
           al_minimum_depth_usd := f_clamp (al_minimum_depth_usd c) (Fin 0) (Fin 1000000000000000),
           al_minimum_listing_age_days := f_clamp (al_minimum_listing_age_days c) (Fin 0) (Fin 10000),
           al_winsor_quantile := f_clamp (al_winsor_quantile c) (Fin 0) (Fin (1 / 4)),
           al_volatility_floor_pct := f_clamp (al_volatility_floor_pct c) (lit (1 / 100)) (Fin 100),
           al_volatility_target_pct := f_clamp (al_volatility_target_pct c) (lit (1 / 100)) (Fin 100),
           al_maximum_asset_weight := asset,
           al_maximum_cluster_weight := f_clamp (al_maximum_cluster_weight c) asset (Fin 1),
           al_minimum_factor_score := f_clamp (al_minimum_factor_score c) (Fin 0) (Fin 10),
           al_microstructure_signal_weight := f_clamp (al_microstructure_signal_weight c) (Fin 0) (Fin (1 / 2))\<rparr>)"

section \<open>Markets and allocations\<close>

record allocator_input =
  ai_exchange :: string
  ai_symbol :: string
  ai_directional_signal :: f64
  ai_confidence :: f64
  ai_risk_score :: f64
  ai_volatility_pct :: f64
  ai_quote_volume_usd :: "f64 option"
  ai_spread_bps :: "f64 option"
  ai_depth_usd :: "f64 option"
  ai_listing_age_days :: "f64 option"
  ai_inventory_eligible :: bool
  ai_actionable :: bool
  ai_correlation_cluster :: string
  ai_current_weight :: f64

record allocation =
  pa_exchange :: string
  pa_symbol :: string
  pa_rank :: nat
  pa_directional_signal :: f64
  pa_factor_score :: f64
  pa_target_weight :: f64
  pa_current_weight :: f64
  pa_rebalance_weight :: f64
  pa_volatility_pct :: f64
  pa_liquidity_score :: f64
  pa_correlation_cluster :: string

record recommendation =
  pr_allocations :: "allocation list"
  pr_cash_weight :: f64
  pr_eligible_markets :: nat
  pr_excluded_markets :: nat

record scored_input =
  sc_input :: allocator_input
  sc_factor_score :: f64
  sc_liquidity_score :: f64

section \<open>Statistics\<close>

definition median_or_zero :: "f64 list \<Rightarrow> f64" where
  "median_or_zero values = (if values = [] then Fin 0 else median values)"

definition winsor_tail :: "nat \<Rightarrow> f64 \<Rightarrow> nat" where
  "winsor_tail n quantile =
     f_as_usize (f_round (f_mul (f_of_nat (n - 1)) (f_clamp quantile (Fin 0) (Fin (1 / 4)))))"

definition winsor_bounds :: "f64 list \<Rightarrow> f64 \<Rightarrow> f64 \<times> f64" where
  "winsor_bounds values quantile =
     (if values = [] then (Fin 0, Fin 0)
      else let ordered = sort_by partial_cmp_or_equal values; tail = winsor_tail (length values) quantile
           in (ordered ! tail, ordered ! (length ordered - 1 - tail)))"

section \<open>Scores\<close>

definition executable_input :: "allocator_config \<Rightarrow> allocator_input \<Rightarrow> bool" where
  "executable_input c i \<longleftrightarrow>
     ai_actionable i \<and> ai_inventory_eligible i
     \<and> is_some_and (\<lambda>v. f_le (al_minimum_quote_volume_usd c) v) (ai_quote_volume_usd i)
     \<and> is_none_or (\<lambda>s. f_le s (al_maximum_spread_bps c)) (ai_spread_bps i)
     \<and> is_none_or (\<lambda>d. f_le (al_minimum_depth_usd c) d) (ai_depth_usd i)
     \<and> is_none_or (\<lambda>a. f_le (al_minimum_listing_age_days c) a) (ai_listing_age_days i)"

definition input_volatility :: "allocator_config \<Rightarrow> allocator_input \<Rightarrow> f64" where
  "input_volatility c i = f_max (f_abs (ai_volatility_pct i)) (al_volatility_floor_pct c)"

definition raw_score :: "allocator_config \<Rightarrow> f64 \<Rightarrow> allocator_input \<Rightarrow> f64" where
  "raw_score c market_component i =
     f_mul (f_mul (f_div (f_sub (ai_directional_signal i) market_component) (input_volatility c i))
       (f_clamp (ai_confidence i) (Fin 0) (Fin 1)))
       (f_sub (Fin 1) (f_clamp (ai_risk_score i) (Fin 0) (Fin 1)))"

definition score_input ::
  "(f64 \<Rightarrow> f64) \<Rightarrow> allocator_config \<Rightarrow> f64 \<times> f64 \<Rightarrow> allocator_input \<times> f64 \<Rightarrow> scored_input" where
  "score_input log10 c bounds = (\<lambda>(i, raw).
     let volume = f_max (unwrap_or (Fin 0) (ai_quote_volume_usd i)) (Fin 0);
         liquidity = f_clamp (f_div (log10 (f_add volume (Fin 1))) (Fin 10)) (Fin 0) (Fin 1);
         score = f_clamp raw (fst bounds) (snd bounds);
         reversed = al_allow_illiquid_reversal c \<and> f_lt liquidity (lit (45 / 100))
           \<and> f_lt (Fin 0) (f_abs (ai_directional_signal i))
     in \<lparr>sc_input = i, sc_factor_score = (if reversed then f_neg score else score),
         sc_liquidity_score = liquidity\<rparr>)"

definition by_score :: "scored_input \<Rightarrow> scored_input \<Rightarrow> cmp_result" where
  "by_score x y =
     then_with (partial_cmp_or_equal (f_abs (sc_factor_score y)) (f_abs (sc_factor_score x)))
       (then_with (partial_cmp_or_equal (sc_liquidity_score y) (sc_liquidity_score x))
         (cmp_of (ai_symbol (sc_input x)) (ai_symbol (sc_input y))))"

definition score_inputs ::
  "(f64 \<Rightarrow> f64) \<Rightarrow> allocator_config \<Rightarrow> allocator_input list \<Rightarrow> scored_input list" where
  "score_inputs log10 c eligible =
     (let market_component = (if 3 \<le> length eligible
            then median_or_zero (map ai_directional_signal eligible) else Fin 0);
          raw = map (raw_score c market_component) eligible;
          bounds = winsor_bounds raw (al_winsor_quantile c)
      in sort_by by_score (filter (\<lambda>row. f_le (al_minimum_factor_score c) (f_abs (sc_factor_score row)))
           (map (score_input log10 c bounds) (zip eligible raw))))"

section \<open>Weights\<close>

record allocation_progress =
  ap_clusters :: "string \<Rightarrow> f64"
  ap_allocations :: "allocation list"
  ap_invested :: f64
  ap_count :: nat

definition cluster_of :: "allocator_input \<Rightarrow> string" where
  "cluster_of i = (if trim (ai_correlation_cluster i) = [] then ai_symbol i else ai_correlation_cluster i)"

text \<open>The weight a market can be given next to what its cluster already holds.\<close>

definition weight_within ::
  "allocator_config \<Rightarrow> allocation_progress \<Rightarrow> allocator_input \<Rightarrow> f64" where
  "weight_within c p i =
     f_min (f_clamp (f_div (al_volatility_target_pct c) (input_volatility c i)) (Fin 0) (al_maximum_asset_weight c))
       (f_max (f_sub (al_maximum_cluster_weight c) (ap_clusters p (cluster_of i))) (Fin 0))"

definition place_row :: "allocator_config \<Rightarrow> scored_input \<Rightarrow> allocation_progress \<Rightarrow> allocation_progress" where
  "place_row c row p =
     (let i = sc_input row; weight = weight_within c p i
      in if f_le weight f_epsilon then p
         else
           let long = f_le (Fin 0) (ai_directional_signal i);
               target = (if long then weight else Fin 0);
               cluster = cluster_of i;
               current = f_clamp (ai_current_weight i) (Fin 0) (Fin 1);
               rebalance = f_sub target current;
               p = p\<lparr>ap_count := ap_count p + 1, ap_invested := f_add (ap_invested p) target,
                     ap_clusters := (ap_clusters p)(cluster := f_add (ap_clusters p cluster) target)\<rparr>
           in if long \<and> f_le rebalance (lit (5 / 1000))
                \<or> f_lt (ai_directional_signal i) (Fin 0) \<and> f_le (lit (- 5 / 1000)) rebalance
              then p
              else p\<lparr>ap_allocations := ap_allocations p @
                [\<lparr>pa_exchange = ai_exchange i, pa_symbol = ai_symbol i,
                  pa_rank = length (ap_allocations p) + 1, pa_directional_signal = ai_directional_signal i,
                  pa_factor_score = sc_factor_score row, pa_target_weight = target, pa_current_weight = current,
                  pa_rebalance_weight = rebalance, pa_volatility_pct = input_volatility c i,
                  pa_liquidity_score = sc_liquidity_score row, pa_correlation_cluster = cluster\<rparr>]\<rparr>)"

fun place_rows :: "allocator_config \<Rightarrow> scored_input list \<Rightarrow> allocation_progress \<Rightarrow> allocation_progress" where
  "place_rows c [] p = p"
| "place_rows c (row # rows) p =
     (if al_top_k c \<le> ap_count p then p else place_rows c rows (place_row c row p))"

definition by_rebalance :: "allocation \<Rightarrow> allocation \<Rightarrow> cmp_result" where
  "by_rebalance x y =
     then_with (partial_cmp_or_equal (f_abs (pa_rebalance_weight y)) (f_abs (pa_rebalance_weight x)))
       (cmp_of (pa_symbol x) (pa_symbol y))"

definition rank_allocations :: "allocation list \<Rightarrow> allocation list" where
  "rank_allocations as = map (\<lambda>(n, a). a\<lparr>pa_rank := n + 1\<rparr>) (enumerate 0 (sort_by by_rebalance as))"

definition allocate_without_cross_section :: "allocator_config \<Rightarrow> allocator_input list \<Rightarrow> recommendation" where
  "allocate_without_cross_section c inputs =
     (let weight = al_maximum_asset_weight c;
          kept = take (al_top_k c) (sort_by (\<lambda>x y. partial_cmp_or_equal (f_abs (ai_directional_signal y))
            (f_abs (ai_directional_signal x))) (filter (\<lambda>i. ai_actionable i \<and> ai_inventory_eligible i) inputs));
          as = map (\<lambda>(n, i). \<lparr>pa_exchange = ai_exchange i, pa_symbol = ai_symbol i, pa_rank = n + 1,
            pa_directional_signal = ai_directional_signal i, pa_factor_score = ai_directional_signal i,
            pa_target_weight = weight, pa_current_weight = ai_current_weight i,
            pa_rebalance_weight = f_sub weight (ai_current_weight i), pa_volatility_pct = ai_volatility_pct i,
            pa_liquidity_score = Fin 0, pa_correlation_cluster = ai_symbol i\<rparr>) (enumerate 0 kept)
      in \<lparr>pr_allocations = as, pr_cash_weight = f_sub (Fin 1) (f_min (f_sum (map pa_target_weight as)) (Fin 1)),
          pr_eligible_markets = length as, pr_excluded_markets = length inputs - length as\<rparr>)"

definition allocate :: "(f64 \<Rightarrow> f64) \<Rightarrow> allocator_config \<Rightarrow> allocator_input list \<Rightarrow> recommendation" where
  "allocate log10 config inputs =
     (let c = normalise_allocator config; eligible = filter (executable_input c) inputs
      in if \<not> al_enabled c then allocate_without_cross_section c inputs
         else if eligible = []
         then \<lparr>pr_allocations = [], pr_cash_weight = Fin 1, pr_eligible_markets = 0,
               pr_excluded_markets = length inputs\<rparr>
         else let p = place_rows c (score_inputs log10 c eligible)
                \<lparr>ap_clusters = (\<lambda>_. Fin 0), ap_allocations = [], ap_invested = Fin 0, ap_count = 0\<rparr>
              in \<lparr>pr_allocations = rank_allocations (ap_allocations p),
                  pr_cash_weight = f_sub (Fin 1) (f_min (ap_invested p) (Fin 1)),
                  pr_eligible_markets = ap_count p, pr_excluded_markets = length inputs - ap_count p\<rparr>)"

section \<open>Winsorising does not panic\<close>

text \<open>
  \<open>f64::clamp\<close> panics on bounds that are not in order or not numbers, and an index beyond the
  slice panics: with scores that are numbers neither happens, so \<open>f_clamp\<close> and \<open>!\<close> mean what the
  code means.
\<close>

lemma sorted_floats: "NaN \<notin> set xs \<Longrightarrow> sorted (sort_by partial_cmp_or_equal xs)"
proof -
  assume "NaN \<notin> set xs"
  then have "sort_by partial_cmp_or_equal xs = sort_by (\<lambda>x y. cmp_of (id x) (id y)) xs"
    by (intro sort_by_cong) (auto simp: partial_cmp_or_equal_def is_nan_iff)
  moreover have "sorted_wrt (\<lambda>x y. cmp_of (id x) (id y) \<noteq> Greater) (sort_by (\<lambda>x y. cmp_of (id x) (id y)) xs)"
    by (rule consistent_comparator.sorted_sort_by [OF consistent_key])
  ultimately show ?thesis by (simp add: not_less)
qed

lemma winsor_tail_half:
  assumes "n < 2 ^ 53" "q \<noteq> NaN"
  shows "2 * winsor_tail n q \<le> n - 1"
proof -
  define k where "k = n - 1"
  have "\<bar>int k\<bar> < 2 ^ 53" using assms(1) by (simp add: k_def)
  then have k: "f_of_nat k = Fin (of_nat k)" using rnd_of_int [of "int k"] by (simp add: f_of_nat_def)
  have "Fin 0 \<le> f_clamp q (Fin 0) (Fin (1 / 4))" "f_clamp q (Fin 0) (Fin (1 / 4)) \<le> Fin (1 / 4)"
    using assms(2) by (simp_all add: f_clamp_ge f_clamp_le)
  then obtain p where p: "f_clamp q (Fin 0) (Fin (1 / 4)) = Fin p" "0 \<le> p" "p \<le> 1 / 4"
    by (cases "f_clamp q (Fin 0) (Fin (1 / 4))") auto
  have "(of_nat k :: rat) * p \<le> of_nat k * (1 / 4)" using p(3) by (intro mult_left_mono) simp_all
  then have "rnd (of_nat k * p) \<le> rnd (of_nat k * (1 / 4))" by (rule rnd_mono)
  also have "rnd (of_nat k * (1 / 4)) = Fin (of_nat k * (1 / 4))"
  proof (rule rnd_exact [where m = "int k" and e = "- 2"])
    show "\<bar>int k\<bar> < 2 ^ 53" by fact
    have "(of_nat k :: rat) < 2 ^ 53" using assms(1) unfolding k_def by (simp add: of_nat_less_iff [of _ "2 ^ 53", simplified])
    moreover have "(2 ^ 53 :: rat) \<le> pow2 1024" using pow2_le_iff [of 53 1024] by (simp add: pow2_def)
    ultimately show "\<bar>(of_nat k :: rat) * (1 / 4)\<bar> < pow2 1024" by simp
  qed (simp_all add: pow2_def)
  finally have "rnd (of_nat k * p) \<le> Fin (of_nat k * (1 / 4))" .
  moreover have "Fin 0 \<le> rnd (of_nat k * p)" using p(2) by (intro rnd_nonneg) simp
  ultimately obtain y where y: "rnd (of_nat k * p) = Fin y" "0 \<le> y" "y \<le> of_nat k / 4"
    by (cases "rnd (of_nat k * p)") auto
  have "\<lfloor>y + 1 / 2\<rfloor> \<le> \<lfloor>of_nat k / 4 + (1 / 2 :: rat)\<rfloor>" using y(3) by (intro floor_mono) simp
  also have "of_nat k / 4 + (1 / 2 :: rat) = of_int (int k + 2) / of_int 4" by (simp add: field_simps)
  also have "\<lfloor>of_int (int k + 2) / of_int 4 :: rat\<rfloor> = (int k + 2) div 4" by (rule floor_divide_of_int_eq)
  finally have "nat \<lfloor>y + 1 / 2\<rfloor> \<le> (k + 2) div 4" by linarith
  moreover have "winsor_tail n q \<le> nat \<lfloor>y + 1 / 2\<rfloor>"
  proof -
    have "f_round (Fin y) = Fin (of_int \<lfloor>y + 1 / 2\<rfloor>)" using y(2) by (cases "y = 0") (auto simp: sgn_if floor_eq_iff)
    then show ?thesis unfolding winsor_tail_def k [unfolded k_def] p(1) using y(1) by (simp add: f_mul_def k_def)
  qed
  ultimately show ?thesis using k_def by (cases "k \<le> 1") auto
qed

lemma winsor_bounds_ordered:
  assumes "NaN \<notin> set values" "length values < 2 ^ 53" "q \<noteq> NaN"
  shows "fst (winsor_bounds values q) \<le> snd (winsor_bounds values q)
    \<and> (values \<noteq> [] \<longrightarrow> winsor_tail (length values) q < length values)"
proof (cases "values = []")
  case False
  have t: "2 * winsor_tail (length values) q \<le> length values - 1" by (rule winsor_tail_half [OF assms(2,3)])
  then have lt: "winsor_tail (length values) q < length values" using False by (cases "length values") auto
  then have "sort_by partial_cmp_or_equal values ! winsor_tail (length values) q
      \<le> sort_by partial_cmp_or_equal values ! (length values - 1 - winsor_tail (length values) q)"
    using t by (intro sorted_nth_mono [OF sorted_floats [OF assms(1)]]) auto
  then show ?thesis using lt False by (simp add: winsor_bounds_def Let_def)
qed (simp add: winsor_bounds_def)

section \<open>What the limits promise\<close>

lemma rnd_between:
  assumes "0 \<le> q" "q < 2"
  shows "\<exists>r. rnd q = Fin r \<and> 0 \<le> r \<and> q - 1 / 2 ^ 52 \<le> r \<and> r \<le> q + 1 / 2 ^ 52"
proof (cases "q = 0")
  case False
  then have q: "0 < q" using assms by simp
  define p where "p = pow2 (mag_exp q)"
  have "pow2 (ilog2 q) < pow2 1" using ilog2_bounds(1) [OF q] assms(2) by (simp add: pow2_def)
  then have "mag_exp q \<le> - 52" unfolding pow2_less_iff by (simp add: mag_exp_def)
  then have "p \<le> pow2 (- 52)" unfolding p_def by (simp only: pow2_le_iff)
  moreover have "pow2 (- 52) = 1 / 2 ^ 52" by (simp add: pow2_def power_int_minus)
  ultimately have p: "0 < p" "p \<le> 1 / 2 ^ 52" by (simp_all add: p_def)
  have m: "mag q = of_int (round_half_even (q / p)) * p" by (simp add: mag_def p_def)
  have "q / p - 1 \<le> of_int (round_half_even (q / p))" "of_int (round_half_even (q / p)) \<le> q / p + 1"
    using round_half_even_bounds [of "q / p"] by linarith+
  then have "(q / p - 1) * p \<le> mag q" "mag q \<le> (q / p + 1) * p"
    unfolding m using p(1) by (simp_all only: mult_right_mono [OF _ less_imp_le])
  then have b: "q - p \<le> mag q" "mag q \<le> q + p" using p(1) by (simp_all add: algebra_simps)
  have "mag q < 4" using b(2) p(2) assms(2) by simp
  moreover have "(4 :: rat) \<le> pow2 1024" using pow2_le_iff [of 2 1024] by (simp add: pow2_def)
  ultimately have "rnd q = Fin (mag q)" using q by (simp add: rnd_mag)
  then show ?thesis using b p(2) mag_nonneg [OF q] by auto
qed (simp add: rnd_mag)

text \<open>A configuration without not-a-number settings, as a file gives it.\<close>

definition numeric_config :: "allocator_config \<Rightarrow> bool" where
  "numeric_config c \<longleftrightarrow> al_maximum_asset_weight c \<noteq> NaN \<and> al_maximum_cluster_weight c \<noteq> NaN
     \<and> al_volatility_floor_pct c \<noteq> NaN \<and> al_volatility_target_pct c \<noteq> NaN"

text \<open>The limits after normalisation.\<close>

definition limits_ok :: "allocator_config \<Rightarrow> rat \<Rightarrow> rat \<Rightarrow> bool" where
  "limits_ok c a m \<longleftrightarrow> al_maximum_asset_weight c = Fin a \<and> al_maximum_cluster_weight c = Fin m
     \<and> 0 \<le> a \<and> a \<le> m \<and> m \<le> 1 \<and> al_top_k c \<le> 50
     \<and> Fin 0 < al_volatility_floor_pct c \<and> al_volatility_floor_pct c \<noteq> NaN
     \<and> Fin 0 < al_volatility_target_pct c \<and> is_finite (al_volatility_target_pct c)"

lemma lit_pos: "1 / 128 \<le> q \<Longrightarrow> Fin 0 < lit q"
proof -
  assume "1 / 128 \<le> q"
  then have "rnd (1 / 128) \<le> rnd q" by (rule rnd_mono)
  moreover have "rnd (1 / 128) = Fin (1 / 128)"
    by (rule rnd_exact [where m = 1 and e = "- 7"]) (simp_all add: pow2_def)
  ultimately show ?thesis by (auto intro: less_le_trans [of _ "Fin (1 / 128)"])
qed

lemma lit_le_one: "q \<le> 1 \<Longrightarrow> lit q \<le> Fin 1"
  using rnd_mono [of q 1] rnd_of_int [of 1] by simp

lemma normalised_limits:
  assumes "numeric_config c"
  shows "\<exists>a m. limits_ok (normalise_allocator c) a m"
proof -
  have pos: "Fin 0 < lit (1 / 100)" by (rule lit_pos) simp
  have le: "lit (1 / 100) \<le> Fin 1" by (rule lit_le_one) simp
  have le': "lit (1 / 100) \<le> Fin 100" using le by (auto intro: order_trans [of _ "Fin 1"])
  define a where "a = f_clamp (al_maximum_asset_weight c) (lit (1 / 100)) (Fin 1)"
  define m where "m = f_clamp (al_maximum_cluster_weight c) a (Fin 1)"
  have a: "lit (1 / 100) \<le> a" "a \<le> Fin 1"
    unfolding a_def using assms le by (simp_all add: f_clamp_ge f_clamp_le numeric_config_def)
  have m: "a \<le> m" "m \<le> Fin 1"
    unfolding m_def using assms a(2) by (simp_all add: f_clamp_ge f_clamp_le numeric_config_def)
  obtain qa where qa: "a = Fin qa" "0 \<le> qa" using a pos by (cases a) (auto dest: less_le_trans)
  obtain qm where qm: "m = Fin qm" "qa \<le> qm" "qm \<le> 1" using m qa by (cases m) auto
  have "Fin 0 < f_clamp x (lit (1 / 100)) (Fin 100)" "is_finite (f_clamp x (lit (1 / 100)) (Fin 100))"
    if "x \<noteq> NaN" for x
  proof -
    have "lit (1 / 100) \<le> f_clamp x (lit (1 / 100)) (Fin 100)" "f_clamp x (lit (1 / 100)) (Fin 100) \<le> Fin 100"
      using that le' by (simp_all add: f_clamp_ge f_clamp_le)
    then show "Fin 0 < f_clamp x (lit (1 / 100)) (Fin 100)" "is_finite (f_clamp x (lit (1 / 100)) (Fin 100))"
      using pos by (cases "f_clamp x (lit (1 / 100)) (Fin 100)"; auto dest: less_le_trans)+
  qed
  note clamped = this
  have "limits_ok (normalise_allocator c) qa qm"
    using assms clamped [of "al_volatility_floor_pct c"] clamped [of "al_volatility_target_pct c"]
      qa qm(2,3) m_def [symmetric] qm(1)
    unfolding limits_ok_def normalise_allocator_def numeric_config_def
    by (auto simp: Let_def a_def [symmetric] nat_clamp_def)
  then show ?thesis by blast
qed


text \<open>An allocation is for an executable market, within the limit of an asset, and worth its order.\<close>

definition allocates :: "allocator_config \<Rightarrow> allocator_input \<Rightarrow> allocation \<Rightarrow> bool" where
  "allocates c i a \<longleftrightarrow>
     pa_exchange a = ai_exchange i \<and> pa_symbol a = ai_symbol i
     \<and> pa_directional_signal a = ai_directional_signal i \<and> pa_correlation_cluster a = cluster_of i
     \<and> Fin 0 \<le> pa_target_weight a \<and> pa_target_weight a \<le> al_maximum_asset_weight c
     \<and> (f_le (Fin 0) (ai_directional_signal i) \<longrightarrow> f_lt f_epsilon (pa_target_weight a)
          \<and> \<not> f_le (pa_rebalance_weight a) (lit (5 / 1000)))
     \<and> (f_lt (ai_directional_signal i) (Fin 0) \<longrightarrow> pa_target_weight a = Fin 0
          \<and> \<not> f_le (lit (- 5 / 1000)) (pa_rebalance_weight a))"

definition cluster_total :: "string \<Rightarrow> allocation list \<Rightarrow> rat" where
  "cluster_total k as = sum_list (map (\<lambda>a. f_fin (pa_target_weight a)) (filter (\<lambda>a. pa_correlation_cluster a = k) as))"

text \<open>What is placed so far; each step may round by 2 to the -52.\<close>

definition cluster_ok :: "rat \<Rightarrow> allocation_progress \<Rightarrow> string \<Rightarrow> bool" where
  "cluster_ok m p k \<longleftrightarrow> (\<exists>u. ap_clusters p k = Fin u \<and> 0 \<le> u
     \<and> u \<le> m + (1 + of_nat (ap_count p)) / 2 ^ 52
     \<and> cluster_total k (ap_allocations p) \<le> u + of_nat (ap_count p) / 2 ^ 52)"

definition placed_ok :: "allocator_config \<Rightarrow> rat \<Rightarrow> allocator_input set \<Rightarrow> allocation_progress \<Rightarrow> bool" where
  "placed_ok c m I p \<longleftrightarrow>
     (\<forall>k. cluster_ok m p k) \<and> (\<forall>a\<in>set (ap_allocations p). \<exists>i\<in>I. allocates c i a)
     \<and> length (ap_allocations p) \<le> ap_count p \<and> ap_count p \<le> al_top_k c \<and> Fin 0 \<le> ap_invested p"

lemma cluster_total_snoc [simp]: "cluster_total k (as @ [a]) =
    cluster_total k as + (if pa_correlation_cluster a = k then f_fin (pa_target_weight a) else 0)"
  by (simp add: cluster_total_def)

lemma cluster_ok_step:
  assumes ok: "cluster_ok m p k" and count: "ap_count q = ap_count p + 1" "ap_count p < 50" "m \<le> 1"
    and used: "ap_clusters q k = f_add (ap_clusters p k) (Fin t)" "0 \<le> t"
    and room: "0 < t \<Longrightarrow> f_fin (ap_clusters p k) < m \<and> f_fin (ap_clusters p k) + t \<le> m + 1 / 2 ^ 52"
    and total: "cluster_total k (ap_allocations q) \<le> cluster_total k (ap_allocations p) + t"
  shows "cluster_ok m q k"
proof -
  obtain u where u: "ap_clusters p k = Fin u" "0 \<le> u" "u \<le> m + (1 + of_nat (ap_count p)) / 2 ^ 52"
      "cluster_total k (ap_allocations p) \<le> u + of_nat (ap_count p) / 2 ^ 52"
    using ok by (auto simp: cluster_ok_def)
  have n: "(of_nat (ap_count p) :: rat) \<le> 50" using count(2) by (simp add: of_nat_le_iff [of _ 50, simplified])
  have "m + 1 / 2 ^ 52 \<le> m + (1 + of_nat (ap_count p)) / 2 ^ 52" by (simp add: divide_right_mono)
  note le = this
  have sum: "u + t \<le> m + (1 + of_nat (ap_count p)) / 2 ^ 52"
  proof (cases "t = 0")
    case False
    then have "u + t \<le> m + 1 / 2 ^ 52" using room u(1) used(2) by simp
    then show ?thesis using le by (rule order_trans)
  qed (use u(3) in simp)
  have "(1 + of_nat (ap_count p)) / 2 ^ 52 \<le> (51 :: rat) / 2 ^ 52" using n by (intro divide_right_mono) (linarith, simp)
  also have "(51 :: rat) / 2 ^ 52 < 1" by simp
  finally have "u + t < 2" using count(3) sum by linarith
  then obtain r where r: "rnd (u + t) = Fin r" "0 \<le> r" "u + t - 1 / 2 ^ 52 \<le> r" "r \<le> u + t + 1 / 2 ^ 52"
    using rnd_between [of "u + t"] u(2) used(2) by auto
  have "r \<le> m + (1 + of_nat (ap_count q)) / 2 ^ 52" using r(4) sum count(1) by (simp add: field_simps)
  moreover have "cluster_total k (ap_allocations q) \<le> r + of_nat (ap_count q) / 2 ^ 52"
    using total u(4) r(3) count(1) by (simp add: field_simps)
  ultimately show ?thesis using u(1) used(1) r(1,2) by (simp add: cluster_ok_def)
qed

lemma cluster_ok_kept:
  assumes "cluster_ok m p k" "ap_count p \<le> ap_count q" "ap_clusters q k = ap_clusters p k"
    "cluster_total k (ap_allocations q) = cluster_total k (ap_allocations p)"
  shows "cluster_ok m q k"
proof -
  obtain u where u: "ap_clusters p k = Fin u" "0 \<le> u" "u \<le> m + (1 + of_nat (ap_count p)) / 2 ^ 52"
      "cluster_total k (ap_allocations p) \<le> u + of_nat (ap_count p) / 2 ^ 52"
    using assms(1) by (auto simp: cluster_ok_def)
  have "(of_nat (ap_count p) :: rat) / 2 ^ 52 \<le> of_nat (ap_count q) / 2 ^ 52"
    using assms(2) by (simp add: divide_right_mono)
  then show ?thesis using u assms(3,4) by (auto simp: cluster_ok_def add_divide_distrib)
qed

text \<open>The weight a market can get is within the limits, and there is room for it in its cluster.\<close>

lemma weight_within_ok:
  assumes c: "limits_ok c a m" and p: "cluster_ok m p (cluster_of i)"
    and w: "weight_within c p i = weight" "\<not> f_le weight f_epsilon"
  shows "\<exists>w u. weight = Fin w \<and> 0 < w \<and> w \<le> a \<and> ap_clusters p (cluster_of i) = Fin u \<and> u < m
    \<and> u + w \<le> m + 1 / 2 ^ 52"
proof -
  obtain u where u: "ap_clusters p (cluster_of i) = Fin u" "0 \<le> u" using p by (auto simp: cluster_ok_def)
  have vol: "Fin 0 < input_volatility c i" "input_volatility c i \<noteq> NaN"
    using c by (auto simp: input_volatility_def limits_ok_def f_max_def is_nan_iff max_def dest: less_le_trans)
  obtain v where v: "al_volatility_target_pct c = Fin v" "0 < v" "al_maximum_asset_weight c = Fin a" "0 \<le> a"
      "al_maximum_cluster_weight c = Fin m" "m \<le> 1"
    using c by (auto simp: limits_ok_def is_finite_iff)
  have "f_div (Fin v) (input_volatility c i) \<noteq> NaN"
    using vol by (cases "input_volatility c i") (auto simp: f_div_def less_f64_def)
  then obtain w1 where w1: "f_clamp (f_div (Fin v) (input_volatility c i)) (Fin 0) (Fin a) = Fin w1" "0 \<le> w1" "w1 \<le> a"
    using v(4) f_clamp_range [of "Fin 0" "Fin a" "f_div (Fin v) (input_volatility c i)"]
    by (cases "f_clamp (f_div (Fin v) (input_volatility c i)) (Fin 0) (Fin a)") (auto simp: f_le_iff)
  have room: "f_sub (Fin m) (Fin u) = rnd (m - u)" by (simp add: f_sub_def f_neg_def)
  have lt: "f_lt f_epsilon weight" if "weight \<noteq> NaN" using w(2) that by (auto simp: f_le_iff f_lt_iff f_epsilon_def)
  have weight: "weight = f_min (Fin w1) (f_max (rnd (m - u)) (Fin 0))"
    using w(1) v w1(1) u(1) room by (simp add: weight_within_def)
  then have nn: "weight \<noteq> NaN" by (auto simp: f_min_def f_max_def is_nan_iff min_def max_def)
  have pos: "u < m"
  proof (rule ccontr)
    assume "\<not> u < m"
    then have "rnd (m - u) \<le> Fin 0" by (intro rnd_nonpos) simp
    then have "weight \<le> Fin 0" using weight f_min_le(2) [of "Fin 0" "Fin w1"]
      by (cases "rnd (m - u)") (auto simp: f_max_def max_def split: if_splits)
    then show False using lt [OF nn] by (auto simp: f_lt_iff f_epsilon_def dest: less_le_trans)
  qed
  obtain x where x: "rnd (m - u) = Fin x" "0 \<le> x" "x \<le> m - u + 1 / 2 ^ 52"
    using rnd_between [of "m - u"] pos v(6) u(2) by auto
  have "weight = Fin (min w1 x)" using weight x(1,2) by (auto simp: f_min_def f_max_def min_def max_def)
  moreover have "0 < min w1 x"
    using lt [OF nn] calculation by (auto simp: f_lt_iff f_epsilon_def intro: less_trans [of _ "1 / 2 ^ 52"])
  ultimately show ?thesis using u(1) pos w1(3) x(3) by (intro exI [of _ "min w1 x"] exI [of _ u]) auto
qed


lemma place_row_ok:
  assumes c: "limits_ok c a m" and p: "placed_ok c m I p" and count: "ap_count p < al_top_k c"
    and row: "sc_input row \<in> I"
  shows "placed_ok c m I (place_row c row p)"
proof (cases "f_le (weight_within c p (sc_input row)) f_epsilon")
  case True
  then show ?thesis using p by (simp add: place_row_def)
next
  case False
  let ?i = "sc_input row" and ?k = "cluster_of (sc_input row)"
  obtain w u where w: "weight_within c p ?i = Fin w" "0 < w" "w \<le> a" "ap_clusters p ?k = Fin u" "u < m"
      "u + w \<le> m + 1 / 2 ^ 52"
    using weight_within_ok [OF c _ refl False] p by (auto simp: placed_ok_def)
  have heavy: "f_lt f_epsilon (Fin w)" using False w(1) by (auto simp: f_le_iff f_lt_iff f_epsilon_def)
  define t where "t = (if f_le (Fin 0) (ai_directional_signal ?i) then w else 0)"
  have t: "0 \<le> t" "t \<le> a" "(if f_le (Fin 0) (ai_directional_signal ?i) then Fin w else Fin 0) = Fin t"
    using w(2,3) by (auto simp: t_def)
  define q where "q = place_row c row p"
  define current where "current = f_clamp (ai_current_weight ?i) (Fin 0) (Fin 1)"
  define rebalance where "rebalance = f_sub (Fin t) current"
  define skip where "skip \<longleftrightarrow> f_le (Fin 0) (ai_directional_signal ?i) \<and> f_le rebalance (lit (5 / 1000))
    \<or> f_lt (ai_directional_signal ?i) (Fin 0) \<and> f_le (lit (- 5 / 1000)) rebalance"
  define x where "x = \<lparr>pa_exchange = ai_exchange ?i, pa_symbol = ai_symbol ?i,
    pa_rank = length (ap_allocations p) + 1, pa_directional_signal = ai_directional_signal ?i,
    pa_factor_score = sc_factor_score row, pa_target_weight = Fin t, pa_current_weight = current,
    pa_rebalance_weight = rebalance, pa_volatility_pct = input_volatility c ?i,
    pa_liquidity_score = sc_liquidity_score row, pa_correlation_cluster = ?k\<rparr>"
  define new where "new = (if skip then [] else [x])"
  have "allocates c ?i x" if "\<not> skip"
    using that t(1,2) heavy c unfolding allocates_def x_def skip_def
    by (auto simp: limits_ok_def t_def f_le_iff f_lt_iff)
  then have new: "ap_allocations q = ap_allocations p @ new" "ap_count q = ap_count p + 1"
      "ap_clusters q = (ap_clusters p)(?k := f_add (ap_clusters p ?k) (Fin t))" "ap_invested q = f_add (ap_invested p) (Fin t)"
      "new = [] \<or> (\<exists>x. new = [x] \<and> allocates c ?i x \<and> pa_target_weight x = Fin t)"
    using False t(3) unfolding q_def place_row_def Let_def w(1)
    by (auto simp: new_def skip_def rebalance_def current_def x_def)
  have "cluster_ok m q k" for k
  proof (cases "k = ?k")
    case True
    show ?thesis unfolding True
    proof (rule cluster_ok_step [where p = p and t = t])
      show "cluster_ok m p ?k" using p by (simp add: placed_ok_def)
      show "ap_count p < 50" "m \<le> 1" using count c by (auto simp: limits_ok_def)
      show "0 < t \<Longrightarrow> f_fin (ap_clusters p ?k) < m \<and> f_fin (ap_clusters p ?k) + t \<le> m + 1 / 2 ^ 52"
        using w(4,5,6) by (auto simp: t_def split: if_splits)
      show "cluster_total ?k (ap_allocations q) \<le> cluster_total ?k (ap_allocations p) + t"
        using new(1,5) t(1) by auto
    qed (use new t in simp_all)
  next
    case False
    show ?thesis
      by (rule cluster_ok_kept [where p = p])
        (use p new False in \<open>auto simp: placed_ok_def allocates_def\<close>)
  qed
  moreover have "Fin 0 \<le> ap_invested q"
    using p t(1) unfolding new(4) placed_ok_def by (cases "ap_invested p") (auto simp: rnd_nonneg)
  ultimately have "placed_ok c m I q" using p new row count by (auto simp: placed_ok_def)
  then show ?thesis by (simp add: q_def)
qed

lemma place_rows_ok:
  "limits_ok c a m \<Longrightarrow> placed_ok c m I p \<Longrightarrow> sc_input ` set rows \<subseteq> I \<Longrightarrow> placed_ok c m I (place_rows c rows p)"
  by (induction c rows p rule: place_rows.induct) (auto simp: place_row_ok)

lemma scored_are_eligible: "sc_input ` set (score_inputs log10 c eligible) \<subseteq> set eligible"
  by (auto simp: score_inputs_def score_input_def Let_def dest: set_zip_leftD)

lemma nothing_placed:
  "limits_ok c a m \<Longrightarrow> placed_ok c m I \<lparr>ap_clusters = (\<lambda>_. Fin 0), ap_allocations = [], ap_invested = Fin 0, ap_count = 0\<rparr>"
  by (auto simp: placed_ok_def cluster_ok_def cluster_total_def limits_ok_def)

text \<open>Ranking only orders and numbers the allocations.\<close>

lemma ranked_facts:
  "map pa_rank (rank_allocations as) = [1..<length as + 1]"
  "length (rank_allocations as) = length as"
  "cluster_total k (rank_allocations as) = cluster_total k as"
  "(\<And>a n. P (a\<lparr>pa_rank := n\<rparr>) = P a) \<Longrightarrow> (\<forall>a\<in>set (rank_allocations as). P a) \<longleftrightarrow> (\<forall>a\<in>set as. P a)"
proof -
  define bs where "bs = sort_by by_rebalance as"
  have ranked: "rank_allocations as = map (\<lambda>(n, a). a\<lparr>pa_rank := n + 1\<rparr>) (enumerate 0 bs)"
    by (simp add: rank_allocations_def bs_def)
  have bs: "mset bs = mset as" "length bs = length as" "set bs = set as" by (simp_all add: bs_def)
  have "map pa_rank (map (\<lambda>(n, a). a\<lparr>pa_rank := n + 1\<rparr>) (enumerate k bs)) = [k + 1..<k + length bs + 1]" for k
    by (induction bs arbitrary: k) (simp_all add: upt_conv_Cons del: upt_Suc)
  then show "map pa_rank (rank_allocations as) = [1..<length as + 1]" by (simp add: ranked bs(2))
  show "length (rank_allocations as) = length as" by (simp add: ranked bs(2))
  have "cluster_total k (map (\<lambda>(n, a). a\<lparr>pa_rank := n + 1\<rparr>) (enumerate j bs)) = cluster_total k bs" for j
    by (induction bs arbitrary: j) (simp_all add: cluster_total_def)
  moreover have "cluster_total k xs = sum_mset (image_mset (\<lambda>a. f_fin (pa_target_weight a))
      (filter_mset (\<lambda>a. pa_correlation_cluster a = k) (mset xs)))" for xs
    by (simp add: cluster_total_def sum_mset_sum_list [symmetric])
  then have "cluster_total k bs = cluster_total k as" by (simp only: bs(1))
  ultimately show "cluster_total k (rank_allocations as) = cluster_total k as" by (simp add: ranked)
  assume P: "\<And>a n. P (a\<lparr>pa_rank := n\<rparr>) = P a"
  have "(\<forall>a\<in>set (map (\<lambda>(n, a). a\<lparr>pa_rank := n + 1\<rparr>) (enumerate j bs)). P a) \<longleftrightarrow> (\<forall>a\<in>set bs. P a)" for j
    by (induction bs arbitrary: j) (simp_all add: P)
  then show "(\<forall>a\<in>set (rank_allocations as). P a) \<longleftrightarrow> (\<forall>a\<in>set as. P a)" by (simp add: ranked bs(3))
qed

text \<open>What a recommendation is made of.\<close>

lemma allocate_placed:
  assumes "allocate log10 config inputs = r" "al_enabled config" "numeric_config config"
    and c: "c = normalise_allocator config"
  obtains a m p where "limits_ok c a m" "placed_ok c m {i \<in> set inputs. executable_input c i} p"
    "pr_allocations r = rank_allocations (ap_allocations p)"
    "pr_cash_weight r = f_sub (Fin 1) (f_min (ap_invested p) (Fin 1))"
proof -
  obtain a m where lim: "limits_ok c a m" using normalised_limits [OF assms(3)] c by auto
  define eligible where "eligible = filter (executable_input c) inputs"
  define p where "p = place_rows c (score_inputs log10 c eligible)
    \<lparr>ap_clusters = (\<lambda>_. Fin 0), ap_allocations = [], ap_invested = Fin 0, ap_count = 0\<rparr>"
  have enabled: "al_enabled c" using assms(2) by (simp add: c normalise_allocator_def Let_def)
  have one: "rnd 1 = Fin 1" using rnd_of_int [of 1] by simp
  have "placed_ok c m (set eligible) p"
    unfolding p_def by (rule place_rows_ok [OF lim nothing_placed [OF lim] scored_are_eligible])
  moreover have "set eligible = {i \<in> set inputs. executable_input c i}" by (auto simp: eligible_def)
  moreover have "eligible = [] \<Longrightarrow> p = \<lparr>ap_clusters = (\<lambda>_. Fin 0), ap_allocations = [], ap_invested = Fin 0, ap_count = 0\<rparr>"
    by (simp add: p_def score_inputs_def sort_by_def)
  then have "pr_allocations r = rank_allocations (ap_allocations p)
      \<and> pr_cash_weight r = f_sub (Fin 1) (f_min (ap_invested p) (Fin 1))"
    using assms(1) enabled
    by (cases "eligible = []")
      (auto simp: allocate_def Let_def c [symmetric] eligible_def [symmetric] p_def [symmetric]
        rank_allocations_def sort_by_def f_min_def f_sub_def f_neg_def one)
  ultimately show thesis using that lim by auto
qed

lemma allocations_allocate:
  assumes "allocate log10 config inputs = r" "al_enabled config" "numeric_config config"
    and "c = normalise_allocator config" "a \<in> set (pr_allocations r)"
  shows "\<exists>i\<in>set inputs. executable_input c i \<and> allocates c i a"
proof -
  obtain am m p where p: "placed_ok c m {i \<in> set inputs. executable_input c i} p"
      "pr_allocations r = rank_allocations (ap_allocations p)"
    using allocate_placed [OF assms(1-4)] by metis
  then have "\<forall>a\<in>set (ap_allocations p). \<exists>i\<in>set inputs. executable_input c i \<and> allocates c i a"
    by (fastforce simp: placed_ok_def)
  then have "\<forall>a\<in>set (rank_allocations (ap_allocations p)). \<exists>i\<in>set inputs. executable_input c i \<and> allocates c i a"
    by (subst ranked_facts(4)) (auto simp: allocates_def)
  then show ?thesis using assms(5) p(2) by simp
qed

lemma allocated_cluster:
  assumes "limits_ok c a m" "placed_ok c m I p"
  shows "cluster_total k (ap_allocations p) \<le> m + 1 / 2 ^ 45"
proof -
  have "ap_count p \<le> 50" using assms by (auto simp: placed_ok_def limits_ok_def)
  then have "(of_nat (ap_count p) :: rat) \<le> 50" by (simp add: of_nat_le_iff [of _ 50, simplified])
  moreover obtain u where "u \<le> m + (1 + of_nat (ap_count p)) / 2 ^ 52"
      "cluster_total k (ap_allocations p) \<le> u + of_nat (ap_count p) / 2 ^ 52"
    using assms(2) by (auto simp: placed_ok_def cluster_ok_def)
  ultimately show ?thesis by (simp add: field_simps)
qed

lemma cash_share:
  assumes "Fin 0 \<le> invested"
  shows "Fin 0 \<le> f_sub (Fin 1) (f_min invested (Fin 1)) \<and> f_sub (Fin 1) (f_min invested (Fin 1)) \<le> Fin 1"
proof -
  have "\<exists>x. f_min invested (Fin 1) = Fin x \<and> 0 \<le> x \<and> x \<le> 1"
    using assms by (cases invested) (auto simp: f_min_def min_def)
  then obtain x where x: "f_min invested (Fin 1) = Fin x" "0 \<le> x" "x \<le> 1" by auto
  have "rnd 1 = Fin 1" using rnd_of_int [of 1] by simp
  then show ?thesis using x rnd_nonneg [of "1 - x"] rnd_mono [of "1 - x" 1] by (simp add: f_sub_def f_neg_def)
qed


definition sample_input :: allocator_input where
  "sample_input = \<lparr>ai_exchange = ''binance'', ai_symbol = ''BTC/USDT'', ai_directional_signal = Fin (1 / 2),
     ai_confidence = Fin 1, ai_risk_score = Fin 0, ai_volatility_pct = Fin 2, ai_quote_volume_usd = Some (Fin 2000000),
     ai_spread_bps = None, ai_depth_usd = None, ai_listing_age_days = None, ai_inventory_eligible = True,
     ai_actionable = True, ai_correlation_cluster = ''large_cap'', ai_current_weight = Fin 0\<rparr>"


end
