(* ===== verification/QuantSignals.thy ===== *)
theory QuantSignals
  imports Allocator Decision
begin

text \<open>
  The deterministic signals of \<^verbatim>\<open>src/src/trading/quant.rs\<close>: the parameter sets, the prediction of a set for
  one market, and the market a set selects from the universe through the allocator; with the
  historical features of \<^verbatim>\<open>src/src/trading/datalake.rs\<close> they read.

  The features of the data lake are a function from its keys; the balances of a portfolio and the
  snapshots come in the order the code iterates over them.
\<close>

section \<open>Historical features\<close>

record market_features =
  mf_samples :: nat
  mf_momentum_short_pct :: "f64 option"
  mf_momentum_mid_pct :: "f64 option"
  mf_momentum_long_pct :: "f64 option"
  mf_volatility_pct :: "f64 option"
  mf_drawdown_pct :: "f64 option"
  mf_volume_ratio_short_long :: "f64 option"

definition risk_pressure :: "market_features \<Rightarrow> f64" where
  "risk_pressure h =
     (let volatility = f_clamp (f_div (f_abs (unwrap_or (Fin 0) (mf_volatility_pct h))) (Fin 8)) (Fin 0) (Fin 1);
          drawdown = f_clamp (f_div (f_abs (unwrap_or (Fin 0) (mf_drawdown_pct h))) (Fin 15)) (Fin 0) (Fin 1)
      in f_clamp (f_add (f_mul volatility (lit (65 / 100))) (f_mul drawdown (lit (35 / 100)))) (Fin 0) (Fin 1))"

definition lake_exchange :: "string \<Rightarrow> string" where
  "lake_exchange value =
     (let normalized = to_ascii_lowercase (trim value);
          head = (case split_once_head CHR '':'' normalized of None \<Rightarrow> normalized | Some h \<Rightarrow> trim h);
          compact = join_with '' '' (split_whitespace
            (map (\<lambda>c. if is_ascii_alphanumeric c then c else CHR '' '') (strip_suffixes head)))
      in if compact = ''ku coin'' then ''kucoin'' else if compact = ''bit get'' then ''bitget''
         else if compact = ''x t'' then ''xt'' else compact)"

definition market_feature_key :: "string \<Rightarrow> string \<Rightarrow> string" where
  "market_feature_key exchange symbol = lake_exchange exchange @ ''|'' @ to_ascii_uppercase (trim symbol)"

section \<open>Parameter sets\<close>

datatype parameter_kind = Momentum | Cash

record quant_parameters =
  qp_id :: string
  qp_kind :: parameter_kind
  qp_short_momentum_weight :: f64
  qp_mid_momentum_weight :: f64
  qp_long_momentum_weight :: f64
  qp_live_momentum_weight :: f64
  qp_volume_confirmation_weight :: f64
  qp_risk_attenuation :: f64
  qp_entry_threshold :: f64

definition default_parameters :: quant_parameters where
  "default_parameters = \<lparr>qp_id = ''balanced-v1'', qp_kind = Momentum,
     qp_short_momentum_weight = lit (45 / 100), qp_mid_momentum_weight = lit (30 / 100),
     qp_long_momentum_weight = lit (15 / 100), qp_live_momentum_weight = lit (10 / 100),
     qp_volume_confirmation_weight = lit (10 / 100), qp_risk_attenuation = Fin (1 / 2),
     qp_entry_threshold = lit (24 / 100)\<rparr>"

definition normalize_weights :: "quant_parameters \<Rightarrow> quant_parameters" where
  "normalize_weights p =
     (let weight_sum = f_add (f_add (f_add (qp_short_momentum_weight p) (qp_mid_momentum_weight p))
            (qp_long_momentum_weight p)) (qp_live_momentum_weight p)
      in if f_le weight_sum f_epsilon
         then p\<lparr>qp_short_momentum_weight := lit (45 / 100), qp_mid_momentum_weight := lit (30 / 100),
                qp_long_momentum_weight := lit (15 / 100), qp_live_momentum_weight := lit (10 / 100)\<rparr>
         else p\<lparr>qp_short_momentum_weight := f_div (qp_short_momentum_weight p) weight_sum,
                qp_mid_momentum_weight := f_div (qp_mid_momentum_weight p) weight_sum,
                qp_long_momentum_weight := f_div (qp_long_momentum_weight p) weight_sum,
                qp_live_momentum_weight := f_div (qp_live_momentum_weight p) weight_sum\<rparr>)"

definition normalize_parameters :: "quant_parameters \<Rightarrow> quant_parameters" where
  "normalize_parameters p =
     (let p = p\<lparr>qp_id := to_ascii_lowercase (trim (qp_id p))\<rparr>
      in if qp_kind p = Cash
         then p\<lparr>qp_short_momentum_weight := Fin 0, qp_mid_momentum_weight := Fin 0,
                qp_long_momentum_weight := Fin 0, qp_live_momentum_weight := Fin 0,
                qp_volume_confirmation_weight := Fin 0, qp_risk_attenuation := Fin 0,
                qp_entry_threshold := lit (80 / 100)\<rparr>
         else normalize_weights
           (p\<lparr>qp_short_momentum_weight := f_clamp (qp_short_momentum_weight p) (Fin 0) (Fin 1),
              qp_mid_momentum_weight := f_clamp (qp_mid_momentum_weight p) (Fin 0) (Fin 1),
              qp_long_momentum_weight := f_clamp (qp_long_momentum_weight p) (Fin 0) (Fin 1),
              qp_live_momentum_weight := f_clamp (qp_live_momentum_weight p) (Fin 0) (Fin 1),
              qp_volume_confirmation_weight := f_clamp (qp_volume_confirmation_weight p) (Fin 0) (Fin (1 / 2)),
              qp_risk_attenuation := f_clamp (qp_risk_attenuation p) (Fin 0) (lit (95 / 100)),
              qp_entry_threshold := f_clamp (qp_entry_threshold p) (lit (8 / 100)) (lit (80 / 100))\<rparr>))"

definition momentum_set :: "string \<Rightarrow> rat list \<Rightarrow> quant_parameters" where
  "momentum_set i percents = \<lparr>qp_id = i, qp_kind = Momentum,
     qp_short_momentum_weight = lit (percents ! 0 / 100), qp_mid_momentum_weight = lit (percents ! 1 / 100),
     qp_long_momentum_weight = lit (percents ! 2 / 100), qp_live_momentum_weight = lit (percents ! 3 / 100),
     qp_volume_confirmation_weight = lit (percents ! 4 / 100), qp_risk_attenuation = lit (percents ! 5 / 100),
     qp_entry_threshold = lit (percents ! 6 / 100)\<rparr>"

definition cash_set :: quant_parameters where
  "cash_set = \<lparr>qp_id = ''cash-v1'', qp_kind = Cash, qp_short_momentum_weight = Fin 0,
     qp_mid_momentum_weight = Fin 0, qp_long_momentum_weight = Fin 0, qp_live_momentum_weight = Fin 0,
     qp_volume_confirmation_weight = Fin 0, qp_risk_attenuation = Fin 0, qp_entry_threshold = lit (80 / 100)\<rparr>"

definition default_parameter_sets :: "quant_parameters list" where
  "default_parameter_sets = map normalize_parameters
     [default_parameters,
      momentum_set ''fast-trend-v1'' [62, 20, 8, 10, 16, 55, 28],
      momentum_set ''slow-trend-v1'' [25, 35, 30, 10, 6, 45, 20],
      momentum_set ''risk-controlled-v1'' [40, 30, 20, 10, 12, 75, 34],
      momentum_set ''volume-confirmed-v1'' [50, 25, 15, 10, 25, 60, 26],
      cash_set]"

section \<open>Predictions\<close>

record quant_prediction =
  qn_parameter_id :: string
  qn_exchange :: string
  qn_symbol :: string
  qn_entry_price :: f64
  qn_signal :: f64
  qn_confidence :: f64
  qn_risk_score :: f64
  qn_actionable :: bool

record quant_signal =
  qs_parameter_id :: string
  qs_exchange :: string
  qs_symbol :: string
  qs_signal :: f64
  qs_confidence :: f64
  qs_risk_score :: f64
  qs_raw_actionable :: bool
  qs_actionable :: bool
  qs_selected_horizon_seconds :: "nat option"
  qs_expected_gross_edge_bps :: "f64 option"
  qs_edge_lower_bound_bps :: "f64 option"
  qs_estimated_round_trip_cost_bps :: f64
  qs_edge_gate_reason :: "string option"
  qs_target_weight :: f64
  qs_rebalance_weight :: f64
  qs_cross_sectional_score :: f64
  qs_portfolio_allocations :: "allocation list"
  qs_rationale :: string

definition quant_hold :: "string \<Rightarrow> quant_signal" where
  "quant_hold reason = \<lparr>qs_parameter_id = [], qs_exchange = [], qs_symbol = [], qs_signal = Fin 0,
     qs_confidence = Fin 0, qs_risk_score = Fin 0, qs_raw_actionable = False, qs_actionable = False,
     qs_selected_horizon_seconds = None, qs_expected_gross_edge_bps = None, qs_edge_lower_bound_bps = None,
     qs_estimated_round_trip_cost_bps = Fin 0, qs_edge_gate_reason = None, qs_target_weight = Fin 0,
     qs_rebalance_weight = Fin 0, qs_cross_sectional_score = Fin 0, qs_portfolio_allocations = [],
     qs_rationale = reason\<rparr>"

definition signal_action :: "f64 \<Rightarrow> bool \<Rightarrow> string" where
  "signal_action s actionable =
     (if \<not> actionable then ''hold'' else if f_le (lit (65 / 100)) s then ''strong_buy''
      else if f_le (lit (2 / 10)) s then ''buy'' else if f_le s (lit (- 65 / 100)) then ''strong_sell''
      else if f_le s (lit (- 2 / 10)) then ''sell'' else ''hold'')"

text \<open>The consensus the decision engine is handed; a JSON number is finite.\<close>

definition json_number :: "f64 \<Rightarrow> f64 option" where
  "json_number x = (if is_finite x then Some x else None)"

definition as_consensus :: "quant_signal \<Rightarrow> ai_consensus" where
  "as_consensus q =
     (let action = signal_action (qs_signal q) (qs_actionable q)
      in \<lparr>ac_action = action, ac_confidence = qs_confidence q,
          ac_signal = (if qs_actionable q then qs_signal q else Fin 0),
          ac_advices = [\<lparr>aa_provider = ''quant'', aa_model = Some (qs_parameter_id q),
            aa_reasoning = qs_rationale q, aa_parsed_ok = True\<rparr>],
          ac_responders = 1, ac_failures = 0, ac_agreement = Some (Fin 1),
          ac_average_risk = json_number (qs_risk_score q),
          ac_selected_horizon_seconds = qs_selected_horizon_seconds q,
          ac_rebalance_weight = json_number (qs_rebalance_weight q),
          ac_edge_lower_bound_bps = Option.bind (qs_edge_lower_bound_bps q) json_number,
          ac_estimated_round_trip_cost_bps = json_number (qs_estimated_round_trip_cost_bps q)\<rparr>)"

definition volatility_normalised_return :: "f64 \<Rightarrow> f64 \<Rightarrow> f64 \<Rightarrow> f64" where
  "volatility_normalised_return return_pct volatility_pct horizon_scale =
     (let denominator = f_max (f_mul (f_max (f_abs volatility_pct) (Fin (1 / 4))) (f_max horizon_scale (Fin 1)))
            (Fin (1 / 4))
      in f_clamp (f_div return_pct denominator) (Fin (- 1)) (Fin 1))"

definition feature_coverage :: "market_features option \<Rightarrow> market_snapshot \<Rightarrow> f64" where
  "feature_coverage history s =
     (case history of
        None \<Rightarrow> if ms_price_change_pct_1h s \<noteq> None \<and> ms_volume_24h s \<noteq> None then lit (40 / 100) else lit (20 / 100)
      | Some h \<Rightarrow>
          let available = length (filter (\<lambda>v. v \<noteq> None) [mf_momentum_short_pct h, mf_momentum_mid_pct h,
                mf_momentum_long_pct h, mf_volatility_pct h, mf_drawdown_pct h, mf_volume_ratio_short_long h])
          in f_clamp (f_div (f_of_nat available) (Fin 6)) (Fin 0) (Fin 1))"

definition range_risk :: "market_snapshot \<Rightarrow> f64" where
  "range_risk s =
     (case (ms_high_24h s, ms_low_24h s) of
        (Some high, Some low) \<Rightarrow>
          if f_lt (Fin 0) high \<and> f_lt (Fin 0) low \<and> f_le low high
          then f_clamp (f_div (f_div (f_sub high low) low) (lit (20 / 100))) (Fin 0) (Fin 1) else Fin (1 / 2)
      | _ \<Rightarrow> Fin (1 / 2))"

text \<open>The momentum of a market, over four horizons, and its confirmation by the volume.\<close>

definition momentum_of :: "quant_parameters \<Rightarrow> market_snapshot \<Rightarrow> market_features option \<Rightarrow> f64" where
  "momentum_of p s history =
     (let volatility = f_max (unwrap_or (Fin 2) (map_option f_abs (option_filter is_finite
            (Option.bind history mf_volatility_pct)))) (Fin (1 / 4));
          scaled = (\<lambda>value scale. volatility_normalised_return value volatility scale);
          live = unwrap_or (Fin 0) (map_option (\<lambda>v. scaled v (Fin 2))
            (or_else (ms_price_change_pct_1h s) (ms_price_change_pct_24h s)));
          short = unwrap_or live (map_option (\<lambda>v. scaled v (Fin 2)) (Option.bind history mf_momentum_short_pct));
          mid = unwrap_or (f_mul live (Fin (1 / 2)))
            (map_option (\<lambda>v. scaled v (Fin 4)) (Option.bind history mf_momentum_mid_pct));
          long = unwrap_or (Fin 0) (map_option (\<lambda>v. scaled v (Fin 8)) (Option.bind history mf_momentum_long_pct))
      in f_add (f_add (f_add (f_mul short (qp_short_momentum_weight p)) (f_mul mid (qp_mid_momentum_weight p)))
           (f_mul long (qp_long_momentum_weight p))) (f_mul live (qp_live_momentum_weight p)))"

definition volume_confirmation :: "market_snapshot \<Rightarrow> market_features option \<Rightarrow> f64" where
  "volume_confirmation s history =
     unwrap_or (Fin 0) (map_option
       (\<lambda>ratio. f_clamp (f_div (f_sub ratio (Fin 1)) (Fin (3 / 2))) (Fin (- 1)) (Fin 1))
       (or_else (Option.bind history mf_volume_ratio_short_long)
         (map_option (\<lambda>v. f_add (Fin 1) (f_div v (Fin 100))) (ms_volume_change_pct s))))"

definition confirmed_signal :: "quant_parameters \<Rightarrow> f64 \<Rightarrow> f64 \<Rightarrow> f64 \<Rightarrow> f64" where
  "confirmed_signal p momentum confirmation risk =
     (let direction = (if f_le (f_abs momentum) f_epsilon then Fin 0
            else case momentum of NaN \<Rightarrow> NaN | _ \<Rightarrow> if f_lt momentum (Fin 0) then Fin (- 1) else Fin 1);
          confirmed = f_add momentum (f_mul (f_mul direction confirmation) (qp_volume_confirmation_weight p))
      in f_clamp (f_mul confirmed (f_sub (Fin 1) (f_mul (qp_risk_attenuation p) risk))) (Fin (- 1)) (Fin 1))"

definition prediction_for ::
  "market_snapshot \<Rightarrow> market_features option \<Rightarrow> quant_parameters \<Rightarrow> quant_prediction" where
  "prediction_for s history p =
     (if qp_kind p = Cash
      then \<lparr>qn_parameter_id = qp_id p, qn_exchange = ms_exchange s, qn_symbol = ms_symbol s,
            qn_entry_price = ms_price s, qn_signal = Fin 0, qn_confidence = Fin 0, qn_risk_score = Fin 0,
            qn_actionable = False\<rparr>
      else
        let risk = (case history of Some h \<Rightarrow> risk_pressure h | None \<Rightarrow> range_risk s);
            signal = confirmed_signal p (momentum_of p s history) (volume_confirmation s history) risk;
            coverage = feature_coverage history s;
            strength = f_clamp (f_div (f_abs signal) (f_max (qp_entry_threshold p) (lit (1 / 100)))) (Fin 0) (Fin 1)
        in \<lparr>qn_parameter_id = qp_id p, qn_exchange = ms_exchange s, qn_symbol = ms_symbol s,
            qn_entry_price = ms_price s, qn_signal = signal,
            qn_confidence = f_clamp (f_mul (f_add (f_add (lit (35 / 100)) (f_mul strength (lit (55 / 100))))
              (f_mul coverage (lit (10 / 100)))) (f_sub (Fin 1) (f_mul risk (lit (30 / 100))))) (Fin 0) (Fin 1),
            qn_risk_score = risk,
            qn_actionable = (f_le (lit (45 / 100)) coverage
              \<and> f_le (qp_entry_threshold p) (f_add (f_abs signal) f_epsilon) \<and> f_lt risk (lit (82 / 100)))\<rparr>)"

definition evaluate_symbol ::
  "quant_parameters \<Rightarrow> market_snapshot \<Rightarrow> market_features option \<Rightarrow> quant_signal" where
  "evaluate_symbol p s history =
     (let n = prediction_for s history p
      in (quant_hold (''deterministic quant '' @ qp_id p @ '' signal='' @ format_fixed 3 (qn_signal n)
            @ '' confidence='' @ format_fixed 3 (qn_confidence n) @ '' risk='' @ format_fixed 3 (qn_risk_score n)
            @ '' history_samples='' @ decimal (case history of None \<Rightarrow> 0 | Some h \<Rightarrow> mf_samples h)))
          \<lparr>qs_parameter_id := qp_id p, qs_exchange := ms_exchange s, qs_symbol := ms_symbol s,
           qs_signal := qn_signal n, qs_confidence := qn_confidence n, qs_risk_score := qn_risk_score n,
           qs_raw_actionable := qn_actionable n, qs_actionable := qn_actionable n\<rparr>)"

section \<open>The universe\<close>

definition is_usdt_quote :: "string \<Rightarrow> bool" where
  "is_usdt_quote symbol = is_some_and (\<lambda>quote. eq_ignore_ascii_case (trim quote) ''USDT'') (after_last CHR ''/'' symbol)"

definition usable_snapshot :: "market_snapshot \<Rightarrow> bool" where
  "usable_snapshot s \<longleftrightarrow> is_finite (ms_price s) \<and> f_lt (Fin 0) (ms_price s) \<and> is_usdt_quote (ms_symbol s)"

text \<open>\<open>min_by\<close>: the first of the least elements.\<close>

fun min_by :: "('a \<Rightarrow> 'a \<Rightarrow> cmp_result) \<Rightarrow> 'a list \<Rightarrow> 'a option" where
  "min_by compare [] = None"
| "min_by compare (x # xs) = Some (foldl (\<lambda>best y. if compare best y = Greater then y else best) x xs)"

definition benchmark_hold_signal :: "quant_parameters \<Rightarrow> market_snapshot list \<Rightarrow> string \<Rightarrow> string \<Rightarrow> quant_signal" where
  "benchmark_hold_signal p snapshots without reason =
     (case min_by (\<lambda>x y. then_with (cmp_of (ms_exchange x) (ms_exchange y)) (cmp_of (ms_symbol x) (ms_symbol y)))
             (filter usable_snapshot snapshots) of
        None \<Rightarrow> quant_hold without
      | Some s \<Rightarrow> (quant_hold reason)
          \<lparr>qs_parameter_id := qp_id p, qs_exchange := ms_exchange s, qs_symbol := ms_symbol s\<rparr>)"

definition correlation_cluster :: "string \<Rightarrow> string" where
  "correlation_cluster symbol =
     (let base = to_ascii_uppercase (hd (split_on CHR ''/'' symbol))
      in if base \<in> {''BTC'', ''ETH'', ''BNB'', ''SOL''} then ''large_cap'' else base)"

definition portfolio_holds_symbol :: "octobot_portfolio \<Rightarrow> string \<Rightarrow> bool" where
  "portfolio_holds_symbol portfolio symbol =
     (let base = trim (hd (split_on CHR ''/'' symbol))
      in list_ex (\<lambda>(asset, b). eq_ignore_ascii_case asset base \<and> is_finite (cb_total b) \<and> f_lt (Fin 0) (cb_total b)
           \<and> is_some_and (\<lambda>v. is_finite v \<and> f_lt (lit (1 / 100)) v) (cb_value_usd b)) (op_currencies portfolio))"

definition positive_finite :: "f64 \<Rightarrow> bool" where
  "positive_finite v \<longleftrightarrow> is_finite v \<and> f_lt (Fin 0) v"

definition portfolio_symbol_weight :: "octobot_portfolio \<Rightarrow> string \<Rightarrow> f64" where
  "portfolio_symbol_weight portfolio symbol =
     (let base = trim (hd (split_on CHR ''/'' symbol));
          asset = unwrap_or (Fin 0) (option_filter positive_finite
            (Option.bind (find_asset base (op_currencies portfolio)) cb_value_usd));
          all = (case option_filter positive_finite (op_total_value_usd portfolio) of
              Some v \<Rightarrow> v
            | None \<Rightarrow> f_sum (filter positive_finite
                (List.map_filter (\<lambda>(_, b). cb_value_usd b) (op_currencies portfolio))))
      in if f_le all f_epsilon then Fin 0 else f_clamp (f_div asset all) (Fin 0) (Fin 1))"

definition quote_volume_of :: "market_snapshot \<Rightarrow> f64 option" where
  "quote_volume_of s = option_filter (\<lambda>v. is_finite v \<and> f_le (Fin 0) v)
     (or_else (mm_quote_volume_24h (ms_microstructure s))
       (map_option (\<lambda>v. f_mul v (ms_price s)) (ms_volume_24h s)))"

definition universe_candidate ::
  "quant_parameters \<Rightarrow> (string \<Rightarrow> market_features option) \<Rightarrow> octobot_portfolio \<Rightarrow> allocator_config \<Rightarrow>
     market_snapshot \<Rightarrow> quant_signal \<times> allocator_input" where
  "universe_candidate p features portfolio c s =
     (let history = features (market_feature_key (ms_exchange s) (ms_symbol s));
          q = evaluate_symbol p s history;
          flow = f_clamp (unwrap_or (Fin 0) (or_else (mm_order_flow_imbalance (ms_microstructure s))
            (mm_trade_flow_imbalance (ms_microstructure s)))) (Fin (- 1)) (Fin 1);
          weight = al_microstructure_signal_weight c
      in (q, \<lparr>ai_exchange = ms_exchange s, ai_symbol = ms_symbol s,
              ai_directional_signal = f_clamp (f_add (f_mul (qs_signal q) (f_sub (Fin 1) weight)) (f_mul flow weight))
                (Fin (- 1)) (Fin 1),
              ai_confidence = qs_confidence q, ai_risk_score = qs_risk_score q,
              ai_volatility_pct = f_max (f_abs (unwrap_or (f_mul (range_risk s) (Fin 8))
                (Option.bind history mf_volatility_pct))) (lit (1 / 100)),
              ai_quote_volume_usd = quote_volume_of s, ai_spread_bps = spread_bps s,
              ai_depth_usd = executable_depth_usd s,
              ai_listing_age_days = mm_listing_age_days (ms_microstructure s),
              ai_inventory_eligible = (f_le (Fin 0) (qs_signal q) \<or> portfolio_holds_symbol portfolio (qs_symbol q)),
              ai_actionable = qs_actionable q, ai_correlation_cluster = correlation_cluster (ms_symbol s),
              ai_current_weight = portfolio_symbol_weight portfolio (ms_symbol s)\<rparr>))"

definition evaluate_universe_for_parameters ::
  "(f64 \<Rightarrow> f64) \<Rightarrow> quant_parameters \<Rightarrow> market_snapshot list \<Rightarrow> (string \<Rightarrow> market_features option) \<Rightarrow>
     octobot_portfolio \<Rightarrow> allocator_config \<Rightarrow> quant_signal" where
  "evaluate_universe_for_parameters log10 p snapshots features portfolio c =
     (if qp_kind p = Cash
      then benchmark_hold_signal p snapshots ''Cash arm: no usable USDT benchmark market''
             ''Explicit cash/no-trade benchmark''
      else
        let candidates = map (universe_candidate p features portfolio c) (filter usable_snapshot snapshots);
            r = allocate log10 c (map snd candidates)
        in case pr_allocations r of
             [] \<Rightarrow>
               let reason = ''No executable cross-sectional allocation (eligible='' @ decimal (pr_eligible_markets r)
                     @ '', excluded='' @ decimal (pr_excluded_markets r) @ '')''
               in benchmark_hold_signal p snapshots reason reason
           | selected # _ \<Rightarrow>
               (case find (\<lambda>(q, _). eq_ignore_ascii_case (qs_exchange q) (pa_exchange selected)
                        \<and> eq_ignore_ascii_case (qs_symbol q) (pa_symbol selected)) candidates of
                  None \<Rightarrow>
                    let reason = ''Cross-sectional allocation could not be mapped to a market''
                    in benchmark_hold_signal p snapshots reason reason
                | Some (q, _) \<Rightarrow>
                    q\<lparr>qs_target_weight := pa_target_weight selected, qs_rebalance_weight := pa_rebalance_weight selected,
                      qs_cross_sectional_score := pa_factor_score selected,
                      qs_portfolio_allocations := pr_allocations r,
                      qs_rationale := qs_rationale q @ ''; cross-sectional rank=1 score=''
                        @ format_fixed 3 (pa_factor_score selected) @ '' target_weight=''
                        @ format_fixed 3 (pa_target_weight selected) @ '' rebalance=''
                        @ format_fixed 3 (pa_rebalance_weight selected) @ '' cash_weight=''
                        @ format_fixed 3 (pr_cash_weight r)\<rparr>))"

section \<open>What a signal promises\<close>

definition market_key :: "market_snapshot \<Rightarrow> string \<times> string" where
  "market_key s = (to_ascii_lowercase (ms_exchange s), to_ascii_lowercase (ms_symbol s))"

lemma quant_hold_fields [simp]:
  "qs_actionable (quant_hold reason) = False" "qs_signal (quant_hold reason) = Fin 0"
  "qs_exchange (quant_hold reason) = []" "qs_symbol (quant_hold reason) = []"
  by (simp_all add: quant_hold_def)

lemma benchmark_not_actionable [simp]: "\<not> qs_actionable (benchmark_hold_signal p snapshots without reason)"
  by (simp add: benchmark_hold_signal_def split: option.split)

lemma evaluate_symbol_fields [simp]:
  "qs_exchange (evaluate_symbol p s h) = ms_exchange s" "qs_symbol (evaluate_symbol p s h) = ms_symbol s"
  "qs_parameter_id (evaluate_symbol p s h) = qp_id p"
  by (simp_all add: evaluate_symbol_def Let_def)

lemma actionable_signal:
  "qs_actionable (evaluate_symbol p s h) \<Longrightarrow> qp_kind p = Momentum
     \<and> f_le (qp_entry_threshold p) (f_add (f_abs (qs_signal (evaluate_symbol p s h))) f_epsilon)
     \<and> f_lt (qs_risk_score (evaluate_symbol p s h)) (lit (82 / 100))
     \<and> f_le (lit (45 / 100)) (feature_coverage h s)"
  by (cases "qp_kind p") (simp_all add: evaluate_symbol_def prediction_for_def Let_def)

lemma find_found: "find P xs = Some x \<Longrightarrow> x \<in> set xs \<and> P x"
  by (induction xs) (auto split: if_splits)

text \<open>A selected market is one of the candidates that were allocated.\<close>

lemma selected_candidate:
  assumes q: "evaluate_universe_for_parameters log10 p snapshots features portfolio c = q" "qs_actionable q"
    and distinct: "distinct (map market_key (filter usable_snapshot snapshots))"
    and config: "al_enabled c" "numeric_config c"
  obtains s selected where "s \<in> set snapshots" "usable_snapshot s" "qp_kind p = Momentum"
    "executable_input (normalise_allocator c) (snd (universe_candidate p features portfolio c s))"
    "allocates (normalise_allocator c) (snd (universe_candidate p features portfolio c s)) selected"
    "qs_exchange q = ms_exchange s" "qs_symbol q = ms_symbol s" "qs_parameter_id q = qp_id p"
    "qs_signal q = qs_signal (fst (universe_candidate p features portfolio c s))"
    "qs_risk_score q = qs_risk_score (fst (universe_candidate p features portfolio c s))"
    "qs_actionable (fst (universe_candidate p features portfolio c s))"
    "qs_target_weight q = pa_target_weight selected" "qs_rebalance_weight q = pa_rebalance_weight selected"
proof -
  define candidate where "candidate = universe_candidate p features portfolio c"
  define used where "used = filter usable_snapshot snapshots"
  define r where "r = allocate log10 c (map snd (map candidate used))"
  have fst_fields: "qs_exchange (fst (candidate s)) = ms_exchange s" "qs_symbol (fst (candidate s)) = ms_symbol s"
      "qs_parameter_id (fst (candidate s)) = qp_id p"
      "ai_exchange (snd (candidate s)) = ms_exchange s" "ai_symbol (snd (candidate s)) = ms_symbol s" for s
    by (simp_all add: candidate_def universe_candidate_def Let_def)
  have kind: "qp_kind p \<noteq> Cash" using q by (auto simp: evaluate_universe_for_parameters_def)
  note unfolded = q(1) [unfolded evaluate_universe_for_parameters_def Let_def if_not_P [OF kind],
      folded candidate_def used_def, folded r_def]
  obtain selected rest where selected: "pr_allocations r = selected # rest"
    using unfolded q(2) by (cases "pr_allocations r") auto
  let ?p = "\<lambda>(q, _). eq_ignore_ascii_case (qs_exchange q) (pa_exchange selected)
      \<and> eq_ignore_ascii_case (qs_symbol q) (pa_symbol selected)"
  obtain found where found: "find ?p (map candidate used) = Some found"
    using unfolded q(2) by (cases "find ?p (map candidate used)") (auto simp: selected)
  have in_used: "found \<in> candidate ` set used" and matches: "?p found" using find_found [OF found] by simp_all
  from in_used obtain s0 where s0: "found = candidate s0" "s0 \<in> set used" by (rule imageE)
  obtain s where s: "s \<in> set used" "executable_input (normalise_allocator c) (snd (candidate s))"
      "allocates (normalise_allocator c) (snd (candidate s)) selected"
    using allocations_allocate [OF r_def [symmetric] config refl, of selected] selected by auto
  have "market_key s0 = market_key s"
    using s0(1) matches s(3) by (simp add: market_key_def eq_ignore_ascii_case_def allocates_def fst_fields split_beta)
  then have same: "s0 = s"
    using distinct s0(2) s(1) by (auto simp: distinct_map used_def [symmetric] dest: inj_onD)
  have "q = fst (candidate s)\<lparr>qs_target_weight := pa_target_weight selected,
      qs_rebalance_weight := pa_rebalance_weight selected, qs_cross_sectional_score := pa_factor_score selected,
      qs_portfolio_allocations := pr_allocations r, qs_rationale := qs_rationale q\<rparr>"
    using unfolded found s0(1) same by (cases "candidate s") (auto simp: selected)
  note q' = arg_cong [where f = qs_exchange, OF this] arg_cong [where f = qs_symbol, OF this]
    arg_cong [where f = qs_parameter_id, OF this] arg_cong [where f = qs_signal, OF this]
    arg_cong [where f = qs_risk_score, OF this] arg_cong [where f = qs_actionable, OF this]
    arg_cong [where f = qs_target_weight, OF this] arg_cong [where f = qs_rebalance_weight, OF this]
  show thesis
    using that [of s selected, folded candidate_def] s q' q(2) kind fst_fields [of s]
    by (cases "qp_kind p") (simp_all add: used_def)
qed

text \<open>A market the quantitative engine wants to trade is one it may trade: it is in the universe with a
  usable price and quoted in USDT, liquid enough for the allocator, the signal reaches the entry
  threshold of its parameter set at a bearable risk and with enough history, a sale is of an asset
  the portfolio holds, and its weight is within the limit of an asset.\<close>

theorem quant_signal_is_admissible:
  assumes "evaluate_universe_for_parameters log10 p snapshots features portfolio c = q" "qs_actionable q"
    and "distinct (map market_key (filter usable_snapshot snapshots))"
    and "al_enabled c" "numeric_config c"
  shows "\<exists>s\<in>set snapshots. usable_snapshot s \<and> qs_exchange q = ms_exchange s \<and> qs_symbol q = ms_symbol s
    \<and> qs_parameter_id q = qp_id p \<and> qp_kind p = Momentum
    \<and> f_le (qp_entry_threshold p) (f_add (f_abs (qs_signal q)) f_epsilon)
    \<and> f_lt (qs_risk_score q) (lit (82 / 100))
    \<and> f_le (lit (45 / 100)) (feature_coverage (features (market_feature_key (ms_exchange s) (ms_symbol s))) s)
    \<and> is_some_and (\<lambda>v. f_le (al_minimum_quote_volume_usd (normalise_allocator c)) v) (quote_volume_of s)
    \<and> is_none_or (\<lambda>b. f_le b (al_maximum_spread_bps (normalise_allocator c))) (spread_bps s)
    \<and> (f_le (Fin 0) (qs_signal q) \<or> portfolio_holds_symbol portfolio (ms_symbol s))
    \<and> Fin 0 \<le> qs_target_weight q \<and> qs_target_weight q \<le> al_maximum_asset_weight (normalise_allocator c)"
proof -
  obtain s selected where s: "s \<in> set snapshots" "usable_snapshot s" "qp_kind p = Momentum"
    "executable_input (normalise_allocator c) (snd (universe_candidate p features portfolio c s))"
    "allocates (normalise_allocator c) (snd (universe_candidate p features portfolio c s)) selected"
    "qs_exchange q = ms_exchange s" "qs_symbol q = ms_symbol s" "qs_parameter_id q = qp_id p"
    "qs_signal q = qs_signal (fst (universe_candidate p features portfolio c s))"
    "qs_risk_score q = qs_risk_score (fst (universe_candidate p features portfolio c s))"
    "qs_actionable (fst (universe_candidate p features portfolio c s))"
    "qs_target_weight q = pa_target_weight selected"
    by (rule selected_candidate [OF assms])
  let ?h = "features (market_feature_key (ms_exchange s) (ms_symbol s))"
  have candidate: "fst (universe_candidate p features portfolio c s) = evaluate_symbol p s ?h"
    by (simp add: universe_candidate_def Let_def)
  show ?thesis
    using s(1-8) s(9,10,12) actionable_signal [OF s(11) [unfolded candidate]] candidate
    by (intro bexI [of _ s])
      (auto simp: executable_input_def allocates_def universe_candidate_def Let_def)
qed

section \<open>A market that is selected\<close>

definition sample_parameters :: quant_parameters where
  "sample_parameters = \<lparr>qp_id = ''sample'', qp_kind = Momentum, qp_short_momentum_weight = Fin 1,
     qp_mid_momentum_weight = Fin 0, qp_long_momentum_weight = Fin 0, qp_live_momentum_weight = Fin 0,
     qp_volume_confirmation_weight = Fin 0, qp_risk_attenuation = Fin 0, qp_entry_threshold = Fin (1 / 2)\<rparr>"

definition sample_features :: market_features where
  "sample_features = \<lparr>mf_samples = 100, mf_momentum_short_pct = Some (Fin 4), mf_momentum_mid_pct = Some (Fin 0),
     mf_momentum_long_pct = Some (Fin 0), mf_volatility_pct = None, mf_drawdown_pct = None,
     mf_volume_ratio_short_long = None\<rparr>"

definition sample_snapshot :: market_snapshot where
  "sample_snapshot = \<lparr>ms_exchange = ''binance'', ms_symbol = ''BTC/USDT'', ms_price = Fin 2,
     ms_price_change_pct_1h = None, ms_price_change_pct_24h = None, ms_volume_24h = None, ms_volume_change_pct = None,
     ms_high_24h = None, ms_low_24h = None, ms_fetched_at = Fin 0,
     ms_microstructure = \<lparr>mm_best_bid = None, mm_best_ask = None, mm_bid_depth_usd = None, mm_ask_depth_usd = None,
       mm_order_flow_imbalance = None, mm_trade_flow_imbalance = None, mm_funding_rate = None,
       mm_open_interest = None, mm_futures_basis_bps = None, mm_listing_age_days = None,
       mm_quote_volume_24h = Some (Fin 2), mm_source_latency_ms = None\<rparr>\<rparr>"

definition sample_allocator :: allocator_config where
  "sample_allocator = \<lparr>al_enabled = True, al_top_k = 1, al_minimum_quote_volume_usd = Fin 1,
     al_maximum_spread_bps = Fin 40, al_minimum_depth_usd = Fin 0, al_minimum_listing_age_days = Fin 0,
     al_winsor_quantile = Fin 0, al_volatility_floor_pct = Fin 1, al_volatility_target_pct = Fin 4,
     al_maximum_asset_weight = Fin 1, al_maximum_cluster_weight = Fin 1, al_minimum_factor_score = Fin 0,
     al_allow_illiquid_reversal = False, al_microstructure_signal_weight = Fin 0\<rparr>"

definition empty_portfolio :: octobot_portfolio where
  "empty_portfolio = \<lparr>op_currencies = [], op_total_value_usd = None, op_exchange_currencies = []\<rparr>"

lemma small_rnd: "rnd 0 = Fin 0" "rnd 1 = Fin 1" "rnd 2 = Fin 2" "rnd 3 = Fin 3" "rnd 4 = Fin 4" "rnd 8 = Fin 8" "rnd 16 = Fin 16" "rnd (1 / 2) = Fin (1 / 2)"
  using rnd_of_int [of 0] rnd_of_int [of 1] rnd_of_int [of 2] rnd_of_int [of 3] rnd_of_int [of 4] rnd_of_int [of 8] rnd_of_int [of 16]
    rnd_exact [of "1 / 2" 1 "- 1"] by (simp_all add: pow2_def)

text \<open>Arithmetic on finite values.\<close>

lemma fin_ops:
  "f_mul (Fin a) (Fin b) = rnd (a * b)" "f_sub (Fin a) (Fin b) = rnd (a - b)"
  "b \<noteq> 0 \<Longrightarrow> f_div (Fin a) (Fin b) = rnd (a / b)" "f_max (Fin a) (Fin b) = Fin (max a b)"
  "f_abs (Fin a) = Fin \<bar>a\<bar>" "f_clamp (Fin a) (Fin l) (Fin h) = Fin (if a < l then l else if h < a then h else a)"
  by (simp_all add: f_mul_def f_sub_def f_neg_def f_div_def f_max_def f_abs_def f_clamp_def max_def)

lemmas sample_float_simps = fin_ops f_of_nat_def small_rnd

lemma sample_parts:
  "risk_pressure sample_features = Fin 0"
  "volume_confirmation sample_snapshot (Some sample_features) = Fin 0"
  "feature_coverage (Some sample_features) sample_snapshot = Fin (1 / 2)"
  "momentum_of sample_parameters sample_snapshot (Some sample_features) = Fin 1"
  "confirmed_signal sample_parameters (Fin 1) (Fin 0) (Fin 0) = Fin 1"
proof -
  have p: "Fin 0 \<le> lit (65 / 100)" "Fin 0 \<le> lit (35 / 100)" by (simp_all only: rnd_nonneg)
  obtain a b where ab: "lit (65 / 100) = Fin a" "lit (35 / 100) = Fin b"
    using rnd_between [of "65 / 100"] rnd_between [of "35 / 100"] by auto
  show "risk_pressure sample_features = Fin 0"
    unfolding risk_pressure_def ab
    by (simp add: sample_features_def unwrap_or_def sample_float_simps Let_def)
  show "volume_confirmation sample_snapshot (Some sample_features) = Fin 0"
    by (simp add: volume_confirmation_def sample_features_def sample_snapshot_def or_else_def unwrap_or_def)
  show "feature_coverage (Some sample_features) sample_snapshot = Fin (1 / 2)"
    by (simp add: feature_coverage_def sample_features_def sample_float_simps)
  show "momentum_of sample_parameters sample_snapshot (Some sample_features) = Fin 1"
    by (simp add: momentum_of_def volatility_normalised_return_def sample_parameters_def sample_snapshot_def
        sample_features_def or_else_def unwrap_or_def option_filter_def sample_float_simps Let_def)
  have "\<not> (1 :: rat) \<le> 1 / 2 ^ 52" by simp
  then show "confirmed_signal sample_parameters (Fin 1) (Fin 0) (Fin 0) = Fin 1"
    by (simp add: confirmed_signal_def sample_parameters_def sample_float_simps f_epsilon_def)
qed


lemma sample_symbol:
  defines "q \<equiv> evaluate_symbol sample_parameters sample_snapshot (Some sample_features)"
  shows "qs_actionable q" "qs_signal q = Fin 1" "qs_risk_score q = Fin 0"
    "\<exists>v. qs_confidence q = Fin v \<and> 0 \<le> v \<and> v \<le> 1"
proof -
  have fields: "qp_kind sample_parameters = Momentum" "qp_entry_threshold sample_parameters = Fin (1 / 2)"
    by (simp_all add: sample_parameters_def)
  have "lit (82 / 100) > Fin 0" by (rule lit_pos) simp
  then have risk: "f_lt (Fin 0) (lit (82 / 100))" by (simp add: f_lt_iff)
  have "lit (45 / 100) \<le> Fin (1 / 2)" using rnd_mono [of "45 / 100" "1 / 2"] by (simp add: small_rnd)
  then have coverage: "f_le (lit (45 / 100)) (Fin (1 / 2))" by (simp add: f_le_iff)
  have entry: "f_le (Fin (1 / 2)) (f_add (Fin 1) f_epsilon)"
    using rnd_mono [of "1 / 2" "1 + 1 / 2 ^ 52"] by (simp add: f_epsilon_def small_rnd f_le_iff)
  show "qs_actionable q" "qs_signal q = Fin 1" "qs_risk_score q = Fin 0"
    using risk coverage entry
    by (simp_all add: q_def evaluate_symbol_def prediction_for_def fields sample_parts Let_def fin_ops)
  define strength where "strength = f_clamp (f_div (Fin 1) (f_max (Fin (1 / 2)) (lit (1 / 100)))) (Fin 0) (Fin 1)"
  define y where "y = f_add (f_add (lit (35 / 100)) (f_mul strength (lit (55 / 100)))) (f_mul (Fin (1 / 2)) (lit (10 / 100)))"
  define x where "x = f_mul y (f_sub (Fin 1) (f_mul (Fin 0) (lit (30 / 100))))"
  have conf: "qs_confidence q = f_clamp x (Fin 0) (Fin 1)"
    by (simp add: q_def evaluate_symbol_def prediction_for_def fields sample_parts Let_def fin_ops x_def y_def strength_def)
  have "lit (1 / 100) \<le> Fin (1 / 2)" using rnd_mono [of "1 / 100" "1 / 2"] by (simp add: small_rnd)
  then have "f_max (Fin (1 / 2)) (lit (1 / 100)) = Fin (1 / 2)" by (auto simp: f_max_def is_nan_iff max_def)
  then have "strength = Fin 1" by (simp add: strength_def fin_ops small_rnd)
  moreover obtain a b c d where "lit (35 / 100) = Fin a" "lit (55 / 100) = Fin b" "lit (10 / 100) = Fin c"
      "lit (30 / 100) = Fin d" "0 \<le> a" "0 \<le> b" "0 \<le> c" "b \<le> 1" "c \<le> 1" "a \<le> 1"
    using rnd_between [of "35 / 100"] rnd_between [of "55 / 100"] rnd_between [of "10 / 100"]
      rnd_between [of "30 / 100"] by auto
  moreover obtain e where "rnd b = Fin e" "0 \<le> e" "e \<le> 1 + 1 / 2 ^ 52"
    using rnd_between [of b] calculation by auto
  moreover have "Fin 0 \<le> rnd (a + e)" "Fin 0 \<le> rnd (c / 2)" using calculation by (simp_all add: rnd_nonneg)
  ultimately have "x = f_mul y (Fin 1)" and "Fin 0 \<le> y \<and> y \<noteq> NaN" unfolding x_def y_def
    by (cases "rnd (a + e)"; cases "rnd (c / 2)"; auto simp: fin_ops small_rnd rnd_nonneg)+
  then have "Fin 0 \<le> x \<and> x \<noteq> NaN" by (cases y) (auto simp: fin_ops rnd_nonneg f_mul_def f_inf_def)
  then show "\<exists>v. qs_confidence q = Fin v \<and> 0 \<le> v \<and> v \<le> 1"
    unfolding conf by (cases x) (auto simp: fin_ops f_clamp_def)
qed


text \<open>The sample is the one market of its universe, and all of the portfolio is put into it.\<close>

definition sample_universe_input :: "f64 \<Rightarrow> allocator_input" where
  "sample_universe_input confidence = \<lparr>ai_exchange = ''binance'', ai_symbol = ''BTC/USDT'',
     ai_directional_signal = Fin 1, ai_confidence = confidence, ai_risk_score = Fin 0, ai_volatility_pct = Fin 4,
     ai_quote_volume_usd = Some (Fin 2), ai_spread_bps = None, ai_depth_usd = None, ai_listing_age_days = None,
     ai_inventory_eligible = True, ai_actionable = True, ai_correlation_cluster = ''large_cap'',
     ai_current_weight = Fin 0\<rparr>"

lemma sample_candidate:
  defines "q \<equiv> evaluate_symbol sample_parameters sample_snapshot (Some sample_features)"
  shows "universe_candidate sample_parameters (\<lambda>_. Some sample_features) empty_portfolio sample_allocator sample_snapshot
    = (q, sample_universe_input (qs_confidence q))"
proof -
  have "lit (1 / 100) \<le> Fin 4" using rnd_mono [of "1 / 100" 4] by (simp add: small_rnd)
  then have vol: "f_max (Fin 4) (lit (1 / 100)) = Fin 4" by (auto simp: f_max_def is_nan_iff max_def)
  have fields: "ms_exchange sample_snapshot = ''binance''" "ms_symbol sample_snapshot = ''BTC/USDT''"
      "al_microstructure_signal_weight sample_allocator = Fin 0" "mf_volatility_pct sample_features = None"
      "range_risk sample_snapshot = Fin (1 / 2)" "spread_bps sample_snapshot = None"
      "executable_depth_usd sample_snapshot = None" "quote_volume_of sample_snapshot = Some (Fin 2)"
      "mm_listing_age_days (ms_microstructure sample_snapshot) = None"
      "mm_order_flow_imbalance (ms_microstructure sample_snapshot) = None"
      "mm_trade_flow_imbalance (ms_microstructure sample_snapshot) = None"
    by (simp_all add: sample_snapshot_def sample_allocator_def sample_features_def range_risk_def spread_bps_def
        executable_depth_usd_def quote_volume_of_def or_else_def option_filter_def)
  have cluster: "correlation_cluster ''BTC/USDT'' = ''large_cap''" by code_simp
  have "portfolio_symbol_weight empty_portfolio ''BTC/USDT'' = Fin 0"
    by (simp add: portfolio_symbol_weight_def empty_portfolio_def find_asset_def option_filter_def unwrap_or_def
        f_sum_def map_filter_simps Let_def f_epsilon_def)
  then show ?thesis
    using sample_symbol(1-3) vol cluster
    by (simp add: universe_candidate_def Let_def fields q_def [symmetric] sample_universe_input_def unwrap_or_def
        or_else_def fin_ops small_rnd)
qed

lemma sample_allocation:
  assumes "0 \<le> v" "v \<le> 1"
  shows "\<exists>a rest. pr_allocations (allocate (\<lambda>_. Fin 6) sample_allocator [sample_universe_input (Fin v)]) = a # rest
    \<and> pa_exchange a = ''binance'' \<and> pa_symbol a = ''BTC/USDT''"
proof -
  let ?c = "normalise_allocator sample_allocator" and ?i = "sample_universe_input (Fin v)"
  have le: "lit (1 / 100) \<le> Fin 1" "lit (1 / 10) \<le> Fin 40" "lit (1 / 100) \<le> Fin 4"
    using rnd_mono [of "1 / 100" 1] rnd_mono [of "1 / 10" 4] rnd_mono [of "1 / 100" 4]
    by (auto simp: small_rnd intro: order_trans)
  then have c: "?c = sample_allocator"
    using le [THEN leD]
    by (simp add: normalise_allocator_def sample_allocator_def nat_clamp_def Let_def f_clamp_def f_lt_iff)
  obtain raw where raw: "raw_score sample_allocator (Fin 0) ?i = Fin raw"
  proof -
    have q: "rnd (1 / 4) = Fin (1 / 4)" by (rule rnd_exact [where m = 1 and e = "- 2"]) (simp_all add: pow2_def)
    obtain r where r: "rnd (v / 4) = Fin r" "0 \<le> r" "r \<le> v / 4 + 1 / 2 ^ 52" using rnd_between [of "v / 4"] assms by auto
    obtain r' where "rnd r = Fin r'" using rnd_between [of r] r assms by auto
    then show thesis using that q r(1) assms
      by (simp add: raw_score_def input_volatility_def sample_universe_input_def sample_allocator_def fin_ops small_rnd)
  qed
  have bounds: "winsor_bounds [Fin raw] (Fin 0) = (Fin raw, Fin raw)"
    by (simp add: winsor_bounds_def winsor_tail_def sort_by_def f_of_nat_def small_rnd fin_ops Let_def)
  define row where "row = score_input (\<lambda>_. Fin 6) sample_allocator (Fin raw, Fin raw) (?i, Fin raw)"
  have row: "sc_input row = ?i" "sc_factor_score row = Fin raw"
    by (simp_all add: row_def score_input_def Let_def fin_ops sample_allocator_def)
  have fields: "al_winsor_quantile sample_allocator = Fin 0" "al_minimum_factor_score sample_allocator = Fin 0"
      "al_enabled sample_allocator" "al_top_k sample_allocator = 1"
      "ai_directional_signal ?i = Fin 1" "ai_current_weight ?i = Fin 0" "ai_exchange ?i = ''binance''"
      "ai_symbol ?i = ''BTC/USDT''"
    by (simp_all add: sample_allocator_def sample_universe_input_def)
  have scored: "score_inputs (\<lambda>_. Fin 6) sample_allocator [?i] = [row]"
    using row(2) by (simp add: score_inputs_def raw bounds fields row_def [symmetric] sort_by_def fin_ops Let_def)
  have exec: "executable_input sample_allocator ?i"
    by (simp add: executable_input_def sample_allocator_def sample_universe_input_def is_none_or_def is_some_and_def)
  have small: "\<not> f_le (Fin 1) f_epsilon" "\<not> f_le (Fin 1) (lit (5 / 1000))"
    using rnd_mono [of "5 / 1000" "1 / 2"] by (auto simp: f_epsilon_def f_le_iff small_rnd dest: order_trans)
  have "weight_within sample_allocator \<lparr>ap_clusters = (\<lambda>_. Fin 0), ap_allocations = [], ap_invested = Fin 0, ap_count = 0\<rparr> ?i
      = Fin 1"
    by (simp add: weight_within_def input_volatility_def sample_allocator_def sample_universe_input_def fin_ops small_rnd
        f_min_def)
  then show ?thesis
    using small exec
    by (simp add: allocate_def c scored place_row_def row Let_def rank_allocations_def sort_by_def fields
        fin_ops small_rnd)
qed

lemma sample_universe:
  defines "q \<equiv> evaluate_universe_for_parameters (\<lambda>_. Fin 6) sample_parameters [sample_snapshot]
    (\<lambda>_. Some sample_features) empty_portfolio sample_allocator"
  shows "qs_actionable q" "qs_signal q = Fin 1" "qs_exchange q = ''binance''" "qs_symbol q = ''BTC/USDT''"
    "usable_snapshot sample_snapshot"
proof -
  define e where "e = evaluate_symbol sample_parameters sample_snapshot (Some sample_features)"
  obtain v where v: "qs_confidence e = Fin v" "0 \<le> v" "v \<le> 1" using sample_symbol(4) by (auto simp: e_def)
  show usable: "usable_snapshot sample_snapshot"
    unfolding usable_snapshot_def sample_snapshot_def by (simp add: is_usdt_quote_def) code_simp
  obtain a rest where a: "pr_allocations (allocate (\<lambda>_. Fin 6) sample_allocator [sample_universe_input (Fin v)]) = a # rest"
      "pa_exchange a = ''binance''" "pa_symbol a = ''BTC/USDT''"
    using sample_allocation [OF v(2,3)] by auto
  have e: "qs_exchange e = ''binance''" "qs_symbol e = ''BTC/USDT''" "qs_actionable e" "qs_signal e = Fin 1"
    using sample_symbol(1,2) by (simp_all add: e_def sample_snapshot_def)
  have "qp_kind sample_parameters = Momentum" by (simp add: sample_parameters_def)
  then show "qs_actionable q" "qs_signal q = Fin 1" "qs_exchange q = ''binance''" "qs_symbol q = ''BTC/USDT''"
    using usable a e v(1)
    by (simp_all add: q_def evaluate_universe_for_parameters_def sample_candidate e_def [symmetric]
        eq_ignore_ascii_case_def Let_def)
qed

theorem quant_signal_is_admissible_witness:
  "\<exists>q s. evaluate_universe_for_parameters (\<lambda>_. Fin 6) sample_parameters [sample_snapshot] (\<lambda>_. Some sample_features)
      empty_portfolio sample_allocator = q \<and> qs_actionable q \<and> s \<in> {sample_snapshot} \<and> usable_snapshot s
      \<and> qs_symbol q = ms_symbol s"
proof -
  define q where "q = evaluate_universe_for_parameters (\<lambda>_. Fin 6) sample_parameters [sample_snapshot]
    (\<lambda>_. Some sample_features) empty_portfolio sample_allocator"
  have act: "qs_actionable q"
    using sample_universe(1) by (simp add: q_def)
  have "\<exists>s\<in>set [sample_snapshot]. usable_snapshot s \<and> qs_exchange q = ms_exchange s \<and> qs_symbol q = ms_symbol s"
    using quant_signal_is_admissible [OF q_def [symmetric] act] sample_universe(5)
    by (simp add: sample_allocator_def numeric_config_def)
  then show ?thesis using act q_def sample_universe(5) by auto
qed

end
