(* ===== verification/QuantMigration.thy ===== *)
theory QuantMigration
  imports QuantSignals
begin

text \<open>
  The guarded migration from the language models to the quantitative engine, the controller of
  \<^verbatim>\<open>src/src/trading/quant.rs\<close> with its settings (\<^verbatim>\<open>src/src/trading/quantitative/selection.rs\<close>), its call in a
  round (\<^verbatim>\<open>resolve_quant_evaluations\<close> of \<^verbatim>\<open>src/src/trading/mod.rs\<close>) and the native validation that
  \<^verbatim>\<open>src/src/trading/backtest_worker.rs\<close> reports to it. The identifiers of evaluations are arguments, as
  the code draws them at random.
\<close>

section \<open>Settings\<close>

record quant_settings =
  qt_shadow_enabled :: bool
  qt_cash_parameter_id :: string
  qt_minimum_actionable_net_edge_bps :: f64
  qt_confidence_z_score :: f64
  qt_require_native_validation :: bool
  qt_native_validation_max_age_seconds :: nat
  qt_allocator :: allocator_config

definition normalise_selection :: "quant_settings \<Rightarrow> quant_settings" where
  "normalise_selection c =
     (let cash = to_ascii_lowercase (trim (qt_cash_parameter_id c))
      in c\<lparr>qt_cash_parameter_id := (if cash = [] then ''cash-v1'' else cash),
           qt_minimum_actionable_net_edge_bps := f_clamp (qt_minimum_actionable_net_edge_bps c) (Fin 0) (Fin 2500),
           qt_confidence_z_score := f_clamp (qt_confidence_z_score c) (Fin 0) (Fin 4),
           qt_native_validation_max_age_seconds := nat_clamp (qt_native_validation_max_age_seconds c) 300 2592000\<rparr>)"

section \<open>Evaluations\<close>

datatype quant_mode = Shadow | Primary

record pending_evaluation =
  pe_evaluation_id :: string
  pe_created_at :: f64
  pe_due_at :: f64
  pe_expires_at :: f64
  pe_exchange :: string
  pe_symbol :: string
  pe_entry_price :: f64
  pe_active_parameter_id :: string
  pe_llm_exchange :: string
  pe_llm_symbol :: string
  pe_llm_entry_price :: f64
  pe_llm_signal :: "f64 option"
  pe_llm_actionable :: bool
  pe_predictions :: "quant_prediction list"

record candidate_outcome =
  cq_parameter_id :: string
  cq_exchange :: string
  cq_symbol :: string
  cq_actionable :: bool
  cq_net_return_bps :: f64

record resolved_evaluation =
  rv_evaluation_id :: string
  rv_created_at :: f64
  rv_resolved_at :: f64
  rv_exchange :: string
  rv_symbol :: string
  rv_active_parameter_id :: string
  rv_active_quant_actionable :: bool
  rv_active_quant_net_return_bps :: f64
  rv_llm_actionable :: bool
  rv_llm_net_return_bps :: "f64 option"
  rv_candidate_outcomes :: "candidate_outcome list"

record migration_state =
  mg_version :: nat
  mg_mode :: quant_mode
  mg_active_parameter_id :: string
  mg_parameter_sets :: "quant_parameters list"
  mg_pending :: "pending_evaluation list"
  mg_resolved :: "resolved_evaluation list"
  mg_promotion_streak :: nat
  mg_demotion_streak :: nat
  mg_initialized_at :: "f64 option"
  mg_promoted_at :: "f64 option"
  mg_last_shadow_recorded_at :: "f64 option"
  mg_total_resolved :: nat
  mg_last_tuned_resolved_count :: nat
  mg_native_validation_parameter_id :: "string option"
  mg_native_validation_at :: "f64 option"

definition default_migration_state :: migration_state where
  "default_migration_state = \<lparr>mg_version = 1, mg_mode = Shadow, mg_active_parameter_id = ''balanced-v1'',
     mg_parameter_sets = default_parameter_sets, mg_pending = [], mg_resolved = [], mg_promotion_streak = 0,
     mg_demotion_streak = 0, mg_initialized_at = None, mg_promoted_at = None, mg_last_shadow_recorded_at = None,
     mg_total_resolved = 0, mg_last_tuned_resolved_count = 0, mg_native_validation_parameter_id = None,
     mg_native_validation_at = None\<rparr>"

fun dedup_by :: "('a \<Rightarrow> 'a \<Rightarrow> bool) \<Rightarrow> 'a list \<Rightarrow> 'a list" where
  "dedup_by same [] = []"
| "dedup_by same [x] = [x]"
| "dedup_by same (x # y # ys) = (if same x y then dedup_by same (x # ys) else x # dedup_by same (y # ys))"

definition repaired_sets :: "quant_parameters list \<Rightarrow> quant_parameters list" where
  "repaired_sets sets =
     (let sets = (if sets = [] then default_parameter_sets else sets);
          sets = (if list_ex (\<lambda>p. qp_kind p = Cash) sets then sets
                  else sets @ [default_parameters\<lparr>qp_id := ''cash-v1'', qp_kind := Cash\<rparr>])
      in dedup_by (\<lambda>x y. qp_id x = qp_id y)
           (sort_by (\<lambda>x y. cmp_of (qp_id x) (qp_id y)) (map normalize_parameters sets)))"

definition normalize_migration :: "migration_state \<Rightarrow> migration_state" where
  "normalize_migration s =
     (let sets = repaired_sets (mg_parameter_sets s)
      in s\<lparr>mg_version := 1, mg_parameter_sets := sets,
           mg_active_parameter_id := (if list_ex (\<lambda>p. qp_id p = mg_active_parameter_id s) sets
             then mg_active_parameter_id s else qp_id (sets ! 0)),
           mg_total_resolved := max (mg_total_resolved s) (length (mg_resolved s))\<rparr>)"

definition active_parameters :: "migration_state \<Rightarrow> quant_parameters" where
  "active_parameters s =
     unwrap_or (mg_parameter_sets s ! 0) (find (\<lambda>p. qp_id p = mg_active_parameter_id s) (mg_parameter_sets s))"

definition is_primary :: "migration_state \<Rightarrow> bool" where
  "is_primary s \<longleftrightarrow> mg_mode s = Primary"

definition initialize_migration :: "f64 \<Rightarrow> migration_state \<Rightarrow> bool \<times> migration_state" where
  "initialize_migration now s =
     (let s = normalize_migration s
      in if mg_initialized_at s = None then (True, s\<lparr>mg_initialized_at := Some now\<rparr>) else (False, s))"

definition evaluate_universe ::
  "(f64 \<Rightarrow> f64) \<Rightarrow> migration_state \<Rightarrow> market_snapshot list \<Rightarrow> (string \<Rightarrow> market_features option) \<Rightarrow>
     octobot_portfolio \<Rightarrow> allocator_config \<Rightarrow> quant_signal" where
  "evaluate_universe log10 s snapshots features portfolio c =
     evaluate_universe_for_parameters log10 (active_parameters s) snapshots features portfolio c"

section \<open>Markouts\<close>

definition exact_market_snapshot :: "market_snapshot list \<Rightarrow> string \<Rightarrow> string \<Rightarrow> market_snapshot option" where
  "exact_market_snapshot snapshots exchange symbol =
     max_by (\<lambda>x y. partial_cmp_or_equal (ms_fetched_at x) (ms_fetched_at y))
       (filter (\<lambda>s. is_finite (ms_price s) \<and> f_lt (Fin 0) (ms_price s)
          \<and> eq_ignore_ascii_case (ms_exchange s) exchange \<and> eq_ignore_ascii_case (ms_symbol s) symbol) snapshots)"

definition f_signum :: "f64 \<Rightarrow> f64" where
  "f_signum x = (if is_nan x then NaN else if f_lt x (Fin 0) then Fin (- 1) else Fin 1)"

definition is_hold_signal :: "f64 \<Rightarrow> bool \<Rightarrow> bool" where
  "is_hold_signal signal actionable \<longleftrightarrow> \<not> actionable \<or> f_lt (f_abs signal) (lit (2 / 10))"

definition directional_net_return_bps :: "f64 \<Rightarrow> bool \<Rightarrow> f64 \<Rightarrow> f64 \<Rightarrow> f64" where
  "directional_net_return_bps signal actionable raw cost =
     (if is_hold_signal signal actionable then Fin 0
      else f_sub (f_mul (f_signum signal) raw) (f_max cost (Fin 0)))"

definition policy_net_return_bps ::
  "market_snapshot list \<Rightarrow> string \<Rightarrow> string \<Rightarrow> f64 \<Rightarrow> f64 \<Rightarrow> bool \<Rightarrow> f64 \<Rightarrow> f64 option" where
  "policy_net_return_bps snapshots exchange symbol entry_price signal actionable cost =
     (if is_hold_signal signal actionable then Some (Fin 0)
      else if \<not> is_finite entry_price \<or> f_le entry_price (Fin 0) then None
      else case exact_market_snapshot snapshots exchange symbol of
        None \<Rightarrow> None
      | Some s \<Rightarrow>
          let raw = f_mul (f_sub (f_div (ms_price s) entry_price) (Fin 1)) (Fin 10000)
          in if is_finite raw then Some (directional_net_return_bps signal actionable raw cost) else None)"

definition or_default :: "string \<Rightarrow> string \<Rightarrow> string" where
  "or_default fallback x = (if x = [] then fallback else x)"

definition price_or :: "f64 \<Rightarrow> f64 \<Rightarrow> f64" where
  "price_or fallback x = (if f_lt (Fin 0) x then x else fallback)"

definition candidate_outcome_of ::
  "market_snapshot list \<Rightarrow> f64 \<Rightarrow> pending_evaluation \<Rightarrow> quant_prediction \<Rightarrow> candidate_outcome option" where
  "candidate_outcome_of snapshots cost e n =
     (let exchange = or_default (pe_exchange e) (qn_exchange n); symbol = or_default (pe_symbol e) (qn_symbol n)
      in map_option (\<lambda>net. \<lparr>cq_parameter_id = qn_parameter_id n, cq_exchange = exchange, cq_symbol = symbol,
             cq_actionable = qn_actionable n, cq_net_return_bps = net\<rparr>)
           (policy_net_return_bps snapshots exchange symbol (price_or (pe_entry_price e) (qn_entry_price n))
             (qn_signal n) (qn_actionable n) cost))"

definition llm_return :: "market_snapshot list \<Rightarrow> f64 \<Rightarrow> pending_evaluation \<Rightarrow> f64 option" where
  "llm_return snapshots cost e =
     Option.bind (pe_llm_signal e) (\<lambda>signal. policy_net_return_bps snapshots
       (or_default (pe_exchange e) (pe_llm_exchange e)) (or_default (pe_symbol e) (pe_llm_symbol e))
       (price_or (pe_entry_price e) (pe_llm_entry_price e)) signal (pe_llm_actionable e) cost)"

datatype settlement = Waits | Expires | Resolves resolved_evaluation

definition settle_evaluation :: "market_snapshot list \<Rightarrow> f64 \<Rightarrow> f64 \<Rightarrow> pending_evaluation \<Rightarrow> settlement" where
  "settle_evaluation snapshots cost now e =
     (if f_lt now (pe_due_at e) then Waits
      else
        let outcomes = List.map_filter (candidate_outcome_of snapshots cost e) (pe_predictions e);
            unpriced = (if f_lt now (pe_expires_at e) then Waits else Expires)
        in case find (\<lambda>o'. cq_parameter_id o' = pe_active_parameter_id e) outcomes of
             None \<Rightarrow> unpriced
           | Some active \<Rightarrow>
               if pe_llm_signal e \<noteq> None \<and> llm_return snapshots cost e = None then unpriced
               else Resolves \<lparr>rv_evaluation_id = pe_evaluation_id e, rv_created_at = pe_created_at e,
                 rv_resolved_at = now, rv_exchange = cq_exchange active, rv_symbol = cq_symbol active,
                 rv_active_parameter_id = pe_active_parameter_id e,
                 rv_active_quant_actionable = cq_actionable active,
                 rv_active_quant_net_return_bps = cq_net_return_bps active,
                 rv_llm_actionable = pe_llm_actionable e, rv_llm_net_return_bps = llm_return snapshots cost e,
                 rv_candidate_outcomes = outcomes\<rparr>)"

text \<open>The pass over the pending evaluations: what waits, what is resolved, how many expired.\<close>

fun settle_pending ::
  "(pending_evaluation \<Rightarrow> settlement) \<Rightarrow> pending_evaluation list \<Rightarrow>
     pending_evaluation list \<times> resolved_evaluation list \<times> nat" where
  "settle_pending settle [] = ([], [], 0)"
| "settle_pending settle (e # es) =
     (let (waiting, resolved, expired) = settle_pending settle es
      in case settle e of
           Waits \<Rightarrow> (e # waiting, resolved, expired)
         | Expires \<Rightarrow> (waiting, resolved, expired + 1)
         | Resolves r \<Rightarrow> (waiting, r # resolved, expired))"

definition settle_due ::
  "market_snapshot list \<Rightarrow> 'a trading_config_scheme \<Rightarrow> f64 \<Rightarrow> migration_state \<Rightarrow> nat \<times> nat \<times> migration_state" where
  "settle_due snapshots config now s =
     (let s = normalize_migration s;
          cost = f_mul (Fin 2) (f_add (tr_estimated_fee_bps config) (tr_estimated_slippage_bps config));
          (waiting, resolved, expired) = settle_pending (settle_evaluation snapshots cost now) (mg_pending s)
      in (length resolved, expired,
          s\<lparr>mg_pending := waiting,
            mg_resolved := keep_last (tr_quant_shadow_ledger_size config) (mg_resolved s @ resolved),
            mg_total_resolved := usize_sat_add (mg_total_resolved s) (length resolved)\<rparr>))"

section \<open>Performance\<close>

text \<open>The correctly rounded square root: the integer root of the scaled value, with a sticky bit.\<close>

function isqrt :: "nat \<Rightarrow> nat" where
  "isqrt n = (if n = 0 then 0
     else let r = 2 * isqrt (n div 4) in if (r + 1) * (r + 1) \<le> n then r + 1 else r)"
  by auto
termination by (relation "measure id") auto

declare isqrt.simps [simp del]

definition f_sqrt :: "f64 \<Rightarrow> f64" where
  "f_sqrt x =
     (case x of
        Fin a \<Rightarrow>
          if a < 0 then NaN else if a = 0 then Fin 0
          else let k = nat (56 - ilog2 a div 2); scaled = a * 4 ^ k; r = isqrt (nat \<lfloor>scaled\<rfloor>);
                   doubled = 2 * of_nat r + (if of_nat (r * r) = scaled then 0 else 1)
               in rnd (doubled / (2 * 2 ^ k))
      | NInf \<Rightarrow> NaN | PInf \<Rightarrow> PInf | NaN \<Rightarrow> NaN)"

record performance_summary =
  pf_samples :: nat
  pf_actionable_samples :: nat
  pf_mean_net_return_bps :: f64
  pf_opportunity_mean_net_return_bps :: f64
  pf_net_edge_lower_bound_bps :: f64
  pf_win_rate :: f64
  pf_mean_downside_bps :: f64

definition no_summary :: performance_summary where
  "no_summary = \<lparr>pf_samples = 0, pf_actionable_samples = 0, pf_mean_net_return_bps = Fin 0,
     pf_opportunity_mean_net_return_bps = Fin 0, pf_net_edge_lower_bound_bps = Fin 0, pf_win_rate = Fin 0,
     pf_mean_downside_bps = Fin 0\<rparr>"

definition f_mean :: "f64 list \<Rightarrow> f64" where
  "f_mean values = f_div (f_sum values) (f_of_nat (length values))"

definition summary_of_policy :: "f64 list \<Rightarrow> bool list \<Rightarrow> f64 \<Rightarrow> performance_summary" where
  "summary_of_policy values actionable z =
     (if values = [] then no_summary
      else
        let acted = map fst (filter snd (zip values actionable)); opportunity = f_mean values
        in if acted = []
           then no_summary\<lparr>pf_samples := length values, pf_opportunity_mean_net_return_bps := opportunity\<rparr>
           else
             let mean = f_mean acted;
                 variance = (if 1 < length acted
                   then f_div (f_sum (map (\<lambda>v. f_mul (f_sub v mean) (f_sub v mean)) acted))
                          (f_of_nat (length acted - 1))
                   else Fin 0);
                 losses = map f_abs (filter (\<lambda>v. f_lt v (Fin 0)) acted)
             in \<lparr>pf_samples = length values, pf_actionable_samples = length acted, pf_mean_net_return_bps = mean,
                 pf_opportunity_mean_net_return_bps = opportunity,
                 pf_net_edge_lower_bound_bps = f_sub mean (f_div (f_mul (f_clamp z (Fin 0) (Fin 4)) (f_sqrt variance))
                   (f_sqrt (f_of_nat (length acted)))),
                 pf_win_rate = f_div (f_of_nat (length (filter (f_lt (Fin 0)) acted))) (f_of_nat (length acted)),
                 pf_mean_downside_bps = (if losses = [] then Fin 0 else f_mean losses)\<rparr>)"

record parameter_performance =
  pp_parameter_id :: string
  pp_summary :: performance_summary
  pp_net_edge_lower_bound_bps :: f64
  pp_risk_adjusted_score_bps :: f64

definition performance_of ::
  "resolved_evaluation list \<Rightarrow> nat \<Rightarrow> f64 \<Rightarrow> quant_parameters \<Rightarrow> parameter_performance" where
  "performance_of resolved window z p =
     (let outcomes = take window (List.map_filter
            (\<lambda>r. find (\<lambda>o'. cq_parameter_id o' = qp_id p) (rv_candidate_outcomes r)) (rev resolved));
          summary = summary_of_policy (map cq_net_return_bps outcomes) (map cq_actionable outcomes) z;
          edge = (if qp_kind p = Cash then Fin 0 else pf_net_edge_lower_bound_bps summary)
      in \<lparr>pp_parameter_id = qp_id p, pp_summary = summary, pp_net_edge_lower_bound_bps = edge,
          pp_risk_adjusted_score_bps = (if qp_kind p = Cash then Fin 0
            else f_sub edge (f_mul (pf_mean_downside_bps summary) (Fin (1 / 4))))\<rparr>)"

definition parameter_performances :: "migration_state \<Rightarrow> nat \<Rightarrow> f64 \<Rightarrow> parameter_performance list" where
  "parameter_performances s window z = map (performance_of (mg_resolved s) window z) (mg_parameter_sets s)"

section \<open>Tuning\<close>

record parameter_adjustment =
  ad_previous_parameter_id :: string
  ad_selected_parameter_id :: string
  ad_improvement_bps :: f64

definition best_trading_arm ::
  "'a trading_config_scheme \<Rightarrow> quant_settings \<Rightarrow> parameter_performance list \<Rightarrow> parameter_performance option" where
  "best_trading_arm config q performances =
     max_by (\<lambda>x y. partial_cmp_or_equal (pp_risk_adjusted_score_bps x) (pp_risk_adjusted_score_bps y))
       (filter (\<lambda>p. pp_parameter_id p \<noteq> qt_cash_parameter_id q
          \<and> tr_quant_tuning_min_samples config \<le> pf_samples (pp_summary p)
          \<and> tr_quant_tuning_min_actionable_samples config \<le> pf_actionable_samples (pp_summary p)
          \<and> f_lt (qt_minimum_actionable_net_edge_bps q) (pp_net_edge_lower_bound_bps p)) performances)"

definition maybe_retune ::
  "'a trading_config_scheme \<Rightarrow> quant_settings \<Rightarrow> migration_state \<Rightarrow> parameter_adjustment option \<times> migration_state" where
  "maybe_retune config q s =
     (if length (mg_resolved s) < tr_quant_tuning_min_samples config
         \<or> mg_total_resolved s - mg_last_tuned_resolved_count s < tr_quant_tuning_interval_samples config
      then (None, s)
      else
        let performances = parameter_performances s (tr_quant_migration_window_samples config) (qt_confidence_z_score q)
        in case (find (\<lambda>p. pp_parameter_id p = mg_active_parameter_id s) performances,
                 find (\<lambda>p. pp_parameter_id p = qt_cash_parameter_id q) performances) of
             (Some current, Some cash) \<Rightarrow>
               let best = unwrap_or cash (best_trading_arm config q performances);
                   s = s\<lparr>mg_last_tuned_resolved_count := mg_total_resolved s\<rparr>;
                   improvement = f_sub (pp_risk_adjusted_score_bps best) (pp_risk_adjusted_score_bps current)
               in if pp_parameter_id best = mg_active_parameter_id s
                     \<or> f_lt (f_add improvement f_epsilon) (tr_quant_tuning_min_outperformance_bps config)
                  then (None, s)
                  else (Some \<lparr>ad_previous_parameter_id = mg_active_parameter_id s,
                          ad_selected_parameter_id = pp_parameter_id best, ad_improvement_bps = improvement\<rparr>,
                        s\<lparr>mg_active_parameter_id := pp_parameter_id best\<rparr>)
           | _ \<Rightarrow> (None, s))"

section \<open>Migration\<close>

definition paired_evaluations :: "'a trading_config_scheme \<Rightarrow> migration_state \<Rightarrow> resolved_evaluation list" where
  "paired_evaluations config s = take (tr_quant_migration_window_samples config)
     (filter (\<lambda>r. rv_llm_net_return_bps r \<noteq> None \<and> rv_active_parameter_id r = mg_active_parameter_id s)
       (rev (mg_resolved s)))"

definition quant_performance :: "quant_settings \<Rightarrow> resolved_evaluation list \<Rightarrow> performance_summary" where
  "quant_performance q paired = summary_of_policy (map rv_active_quant_net_return_bps paired)
     (map rv_active_quant_actionable paired) (qt_confidence_z_score q)"

definition llm_performance :: "quant_settings \<Rightarrow> resolved_evaluation list \<Rightarrow> performance_summary" where
  "llm_performance q paired = summary_of_policy (List.map_filter rv_llm_net_return_bps paired)
     (map rv_llm_actionable paired) (qt_confidence_z_score q)"

definition controller_performance ::
  "'a trading_config_scheme \<Rightarrow> quant_settings \<Rightarrow> migration_state \<Rightarrow> nat \<times> performance_summary \<times> performance_summary" where
  "controller_performance config q s =
     (let paired = paired_evaluations config s
      in (length paired, quant_performance q paired, llm_performance q paired))"

definition native_validation_current :: "quant_settings \<Rightarrow> f64 \<Rightarrow> migration_state \<Rightarrow> bool" where
  "native_validation_current q now s \<longleftrightarrow>
     \<not> qt_require_native_validation q
     \<or> mg_native_validation_parameter_id s = Some (mg_active_parameter_id s)
       \<and> is_some_and (\<lambda>t. f_le (f_sub now t) (f_of_nat (qt_native_validation_max_age_seconds q)))
           (mg_native_validation_at s)"

definition outperformance_of :: "quant_settings \<Rightarrow> resolved_evaluation list \<Rightarrow> f64" where
  "outperformance_of q paired =
     f_sub (pf_opportunity_mean_net_return_bps (quant_performance q paired))
       (pf_opportunity_mean_net_return_bps (llm_performance q paired))"

definition arm_qualified ::
  "'a trading_config_scheme \<Rightarrow> quant_settings \<Rightarrow> f64 \<Rightarrow> migration_state \<Rightarrow> bool" where
  "arm_qualified config q now s \<longleftrightarrow>
     (let paired = paired_evaluations config s; quant = quant_performance q paired; llm = llm_performance q paired
      in tr_quant_migration_min_samples config \<le> length paired
         \<and> tr_quant_migration_min_actionable_samples config \<le> length (filter rv_active_quant_actionable paired)
         \<and> qp_kind (active_parameters s) \<noteq> Cash
         \<and> native_validation_current q now s
         \<and> f_lt (qt_minimum_actionable_net_edge_bps q) (pf_net_edge_lower_bound_bps quant)
         \<and> f_lt (Fin 0) (pf_opportunity_mean_net_return_bps quant)
         \<and> f_le (tr_quant_migration_min_outperformance_bps config) (outperformance_of q paired)
         \<and> f_le (pf_mean_downside_bps quant)
             (f_add (pf_mean_downside_bps llm) (tr_quant_migration_max_downside_regression_bps config)))"

datatype transition = Promoted | Demoted

record migration_decision =
  md_transition :: transition
  md_parameter_id :: string
  md_samples :: nat
  md_confirmation_streak :: nat

definition evaluate_migration ::
  "'a trading_config_scheme \<Rightarrow> quant_settings \<Rightarrow> f64 \<Rightarrow> migration_state \<Rightarrow>
     migration_decision option \<times> migration_state" where
  "evaluate_migration config q now s =
     (let samples = length (paired_evaluations config s); qualified = arm_qualified config q now s;
          required = tr_quant_migration_required_streak config
      in if mg_mode s = Primary
         then if qualified then (None, s\<lparr>mg_demotion_streak := 0\<rparr>)
              else if samples < tr_quant_migration_min_samples config then (None, s)
              else
                let s = s\<lparr>mg_demotion_streak := usize_sat_add (mg_demotion_streak s) 1\<rparr>
                in if mg_demotion_streak s < required then (None, s)
                   else (Some \<lparr>md_transition = Demoted, md_parameter_id = mg_active_parameter_id s,
                           md_samples = samples, md_confirmation_streak = required\<rparr>,
                         s\<lparr>mg_mode := Shadow, mg_promoted_at := None, mg_promotion_streak := 0,
                           mg_demotion_streak := 0\<rparr>)
         else
           let s = s\<lparr>mg_demotion_streak := 0,
                     mg_promotion_streak := (if qualified then usize_sat_add (mg_promotion_streak s) 1 else 0)\<rparr>
           in if mg_promotion_streak s < required then (None, s)
              else (Some \<lparr>md_transition = Promoted, md_parameter_id = mg_active_parameter_id s,
                      md_samples = samples, md_confirmation_streak = mg_promotion_streak s\<rparr>,
                    s\<lparr>mg_mode := Primary, mg_promoted_at := Some now\<rparr>))"

record quant_update =
  qu_resolved :: nat
  qu_expired :: nat
  qu_adjustment :: "parameter_adjustment option"
  qu_migration :: "migration_decision option"
  qu_performance :: "(nat \<times> performance_summary \<times> performance_summary) option"

definition resolve_due_evaluations ::
  "market_snapshot list \<Rightarrow> 'a trading_config_scheme \<Rightarrow> quant_settings \<Rightarrow> f64 \<Rightarrow> migration_state \<Rightarrow>
     quant_update \<times> migration_state" where
  "resolve_due_evaluations snapshots config q now s =
     (let (resolved, expired, s) = settle_due snapshots config now s
      in if resolved = 0
         then (\<lparr>qu_resolved = 0, qu_expired = expired, qu_adjustment = None, qu_migration = None,
                qu_performance = None\<rparr>, s)
         else let (adjustment, s) = maybe_retune config q s; (decision, s) = evaluate_migration config q now s
              in (\<lparr>qu_resolved = resolved, qu_expired = expired, qu_adjustment = adjustment,
                   qu_migration = decision, qu_performance = Some (controller_performance config q s)\<rparr>, s))"

text \<open>
  The call in a round: the new controller is written to disk, and taken back when that fails.
\<close>

definition resolve_quant_evaluations ::
  "market_snapshot list \<Rightarrow> 'a trading_config_scheme \<Rightarrow> quant_settings \<Rightarrow> f64 \<Rightarrow> bool \<Rightarrow> migration_state \<Rightarrow>
     quant_update option \<times> migration_state" where
  "resolve_quant_evaluations snapshots config q now written s =
     (if \<not> qt_shadow_enabled q then (None, s)
      else let (update, s') = resolve_due_evaluations snapshots config q now s
           in if qu_resolved update = 0 \<and> qu_expired update = 0 then (None, s')
              else if written then (Some update, s') else (None, s))"

section \<open>Recording and validation\<close>

definition shadow_prediction ::
  "(f64 \<Rightarrow> f64) \<Rightarrow> market_snapshot list \<Rightarrow> (string \<Rightarrow> market_features option) \<Rightarrow> octobot_portfolio \<Rightarrow>
     allocator_config \<Rightarrow> quant_parameters \<Rightarrow> quant_prediction" where
  "shadow_prediction log10 snapshots features portfolio c p =
     (let candidate = evaluate_universe_for_parameters log10 p snapshots features portfolio c
      in \<lparr>qn_parameter_id = qp_id p, qn_exchange = qs_exchange candidate, qn_symbol = qs_symbol candidate,
          qn_entry_price = (case exact_market_snapshot snapshots (qs_exchange candidate) (qs_symbol candidate) of
            None \<Rightarrow> Fin 0 | Some m \<Rightarrow> ms_price m),
          qn_signal = qs_signal candidate, qn_confidence = qs_confidence candidate,
          qn_risk_score = qs_risk_score candidate, qn_actionable = qs_actionable candidate\<rparr>)"

definition recorded_too_soon :: "'a trading_config_scheme \<Rightarrow> f64 \<Rightarrow> f64 \<Rightarrow> bool" where
  "recorded_too_soon config now previous \<longleftrightarrow>
     f_lt (f_add (f_sub now previous) f_epsilon) (f_of_nat (tr_quant_shadow_horizon_seconds config))"

definition record_evaluation ::
  "(f64 \<Rightarrow> f64) \<Rightarrow> string \<Rightarrow> quant_signal \<Rightarrow> market_snapshot list \<Rightarrow> (string \<Rightarrow> market_features option) \<Rightarrow>
     octobot_portfolio \<Rightarrow> ai_consensus option \<Rightarrow> market_snapshot option \<Rightarrow> bool \<Rightarrow> 'a trading_config_scheme \<Rightarrow>
     quant_settings \<Rightarrow> f64 \<Rightarrow> migration_state \<Rightarrow> pending_evaluation option \<times> migration_state" where
  "record_evaluation log10 fresh_id signal snapshots features portfolio consensus llm_snapshot llm_allowed config q now s =
     (let s = normalize_migration s; horizon = f_of_nat (tr_quant_shadow_horizon_seconds config)
      in if \<not> qt_shadow_enabled q \<or> qs_symbol signal = [] then (None, s)
         else case exact_market_snapshot snapshots (qs_exchange signal) (qs_symbol signal) of
           None \<Rightarrow> (None, s)
         | Some m \<Rightarrow>
             if is_some_and (recorded_too_soon config now) (mg_last_shadow_recorded_at s) then (None, s)
             else
               let due = f_add now horizon;
                   e = \<lparr>pe_evaluation_id = fresh_id, pe_created_at = now, pe_due_at = due,
                     pe_expires_at = f_add due (f_of_nat (tr_quant_shadow_expiry_seconds config)),
                     pe_exchange = ms_exchange m, pe_symbol = ms_symbol m, pe_entry_price = ms_price m,
                     pe_active_parameter_id = mg_active_parameter_id s,
                     pe_llm_exchange = (case llm_snapshot of None \<Rightarrow> [] | Some l \<Rightarrow> ms_exchange l),
                     pe_llm_symbol = (case llm_snapshot of None \<Rightarrow> [] | Some l \<Rightarrow> ms_symbol l),
                     pe_llm_entry_price = (case llm_snapshot of None \<Rightarrow> Fin 0 | Some l \<Rightarrow> ms_price l),
                     pe_llm_signal = map_option (\<lambda>c. f_clamp (ac_signal c) (Fin (- 1)) (Fin 1)) consensus,
                     pe_llm_actionable = (llm_allowed \<and> llm_snapshot \<noteq> None
                       \<and> is_some_and (\<lambda>c. ac_action c \<noteq> ''hold'') consensus),
                     pe_predictions = map (shadow_prediction log10 snapshots features portfolio (qt_allocator q))
                       (mg_parameter_sets s)\<rparr>
               in (Some e, s\<lparr>mg_pending := keep_last (tr_quant_shadow_ledger_size config) (mg_pending s @ [e]),
                            mg_last_shadow_recorded_at := Some now\<rparr>))"

text \<open>What a native backtest reports: the validated arm, or none.\<close>

definition report_native_validation :: "bool \<Rightarrow> string option \<Rightarrow> f64 \<Rightarrow> migration_state \<Rightarrow> migration_state" where
  "report_native_validation qualified selected now s =
     (if qualified then s\<lparr>mg_native_validation_parameter_id := selected, mg_native_validation_at := Some now\<rparr>
      else s\<lparr>mg_native_validation_parameter_id := None, mg_native_validation_at := None\<rparr>)"

end
