(* ===== verification/QuantMigrationSafety.thy ===== *)
theory QuantMigrationSafety
  imports QuantMigration
begin

text \<open>
  What the guarded migration of \<^verbatim>\<open>QuantMigration\<close> guarantees: its runs as an inductive relation over the
  controller in memory and on disk, the confirmations a promotion and a demotion rest on, and the
  evaluations that are settled once and never before their horizon.
\<close>

section \<open>The integer square root\<close>

lemma isqrt_spec: "isqrt n * isqrt n \<le> n \<and> n < (isqrt n + 1) * (isqrt n + 1)"
proof (induction n rule: isqrt.induct)
  case (1 n)
  show ?case
  proof (cases "n = 0")
    case False
    define r where "r = isqrt (n div 4)"
    have r: "r * r \<le> n div 4" "n div 4 < (r + 1) * (r + 1)"
      using 1 False by (auto simp: r_def)
    have low: "2 * r * (2 * r) \<le> n"
      using r(1) by (auto simp: algebra_simps less_eq_div_iff_mult_less_eq)
    have "n div 4 + 1 \<le> (r + 1) * (r + 1)"
      using r(2) by linarith
    then have "4 * (n div 4) + 4 \<le> 4 * ((r + 1) * (r + 1))"
      by linarith
    moreover have "n < 4 * (n div 4) + 4"
      by presburger
    ultimately have high: "n < (2 * r + 2) * (2 * r + 2)"
      by (simp add: algebra_simps)
    have "isqrt n = (if (2 * r + 1) * (2 * r + 1) \<le> n then 2 * r + 1 else 2 * r)"
      using False by (subst isqrt.simps) (simp add: r_def Let_def)
    then show ?thesis
      using low high by simp
  qed (simp add: isqrt.simps)
qed

lemma isqrt_unique:
  assumes "r * r \<le> n" "n < (r + 1) * (r + 1)"
  shows "isqrt n = r"
proof (rule antisym)
  have "isqrt n * isqrt n < (r + 1) * (r + 1)"
    using assms(2) isqrt_spec [of n] by linarith
  then show "isqrt n \<le> r"
    by (metis Suc_eq_plus1 less_Suc_eq_le mult_le_mono not_le)
  have "r * r < (isqrt n + 1) * (isqrt n + 1)"
    using assms(1) isqrt_spec [of n] by linarith
  then show "r \<le> isqrt n"
    by (metis Suc_eq_plus1 less_Suc_eq_le mult_le_mono not_le)
qed

lemma f_sqrt_zero: "f_sqrt (Fin 0) = Fin 0"
  by (simp add: f_sqrt_def)

lemma f_sqrt_one: "f_sqrt (Fin 1) = Fin 1"
proof -
  have "ilog2 1 = 0"
    by (simp add: ilog2_def pow2_def)
  moreover have "isqrt (4 ^ 56) = 2 ^ 56"
    by (rule isqrt_unique) (simp_all add: power2_eq_square)
  ultimately show ?thesis
    by (simp add: f_sqrt_def Let_def small_rnd)
qed

section \<open>Settling\<close>

lemma settle_pending_eq:
  "settle_pending settle es =
     (filter (\<lambda>e. settle e = Waits) es,
      List.map_filter (\<lambda>e. case settle e of Resolves r \<Rightarrow> Some r | _ \<Rightarrow> None) es,
      length (filter (\<lambda>e. settle e = Expires) es))"
  by (induction es) (auto simp: List.map_filter_simps split: settlement.splits)

lemma settle_pending_conserves:
  assumes "settle_pending settle es = (waiting, resolved, expired)"
  shows "length es = length waiting + length resolved + expired"
  using assms by (induction es arbitrary: waiting resolved expired)
    (auto simp: Let_def split: prod.splits settlement.splits)

lemma settle_resolves:
  assumes "settle_evaluation snapshots cost now e = Resolves r"
  shows "rv_evaluation_id r = pe_evaluation_id e \<and> rv_created_at r = pe_created_at e \<and> rv_resolved_at r = now
    \<and> \<not> f_lt now (pe_due_at e)"
  using assms by (auto simp: settle_evaluation_def Let_def split: if_splits option.splits)

section \<open>Runs\<close>

text \<open>A check of the migration guard, as it is logged: the arm it judged, in which mode, and its finding.\<close>

record guard_check =
  gc_arm :: string
  gc_primary :: bool
  gc_qualified :: bool
  gc_enough :: bool

definition guard_checks ::
  "market_snapshot list \<Rightarrow> 'a trading_config_scheme \<Rightarrow> quant_settings \<Rightarrow> f64 \<Rightarrow> migration_state \<Rightarrow> guard_check list" where
  "guard_checks snapshots config q now s =
     (let (resolved, expired, s') = settle_due snapshots config now s; s'' = snd (maybe_retune config q s')
      in if resolved = 0 then []
         else [\<lparr>gc_arm = mg_active_parameter_id s'', gc_primary = is_primary s'',
                gc_qualified = arm_qualified config q now s'',
                gc_enough = (tr_quant_migration_min_samples config \<le> length (paired_evaluations config s''))\<rparr>])"

type_synonym logged = "migration_state \<times> guard_check list"

definition evaluation_ids :: "migration_state \<Rightarrow> string list" where
  "evaluation_ids s = map pe_evaluation_id (mg_pending s) @ map rv_evaluation_id (mg_resolved s)"

text \<open>
  The controller in memory and its last written copy, each with the checks made so far, newest first.
  A round's state is written at any time, a failed write of the resolver puts the memory back, and a
  restart reads the copy.
\<close>

inductive migration_run :: "trading_config \<Rightarrow> quant_settings \<Rightarrow> logged \<Rightarrow> logged \<Rightarrow> bool"
  for config :: trading_config and q :: quant_settings where
  Fresh: "migration_run config q (default_migration_state, []) (default_migration_state, [])"
| Initialise: "migration_run config q (s, h) disk \<Longrightarrow>
    migration_run config q (snd (initialize_migration now s), h) disk"
| Validate: "migration_run config q (s, h) disk \<Longrightarrow>
    migration_run config q (report_native_validation qualified selected now s, h) disk"
| Record: "migration_run config q (s, h) disk \<Longrightarrow> fresh_id \<notin> set (evaluation_ids s) \<Longrightarrow>
    migration_run config q
      (snd (record_evaluation log10 fresh_id signal snapshots features portfolio consensus llm_snapshot
         llm_allowed config q now s), h) disk"
| Resolve: "migration_run config q (s, h) disk \<Longrightarrow>
    resolve_quant_evaluations snapshots config q now True s = (update, s') \<Longrightarrow>
    migration_run config q (s', if qt_shadow_enabled q then guard_checks snapshots config q now s @ h else h)
      (if update = None then disk else (s', guard_checks snapshots config q now s @ h))"
| Unwritten: "migration_run config q (s, h) disk \<Longrightarrow>
    resolve_quant_evaluations snapshots config q now False s = (update, s') \<Longrightarrow>
    migration_run config q (s', h) disk"
| Write: "migration_run config q mem disk \<Longrightarrow> migration_run config q mem mem"
| Restart: "migration_run config q mem (s, h) \<Longrightarrow>
    migration_run config q (normalize_migration s, h) (s, h)"


section \<open>Confirmations\<close>

definition confirming :: "guard_check \<Rightarrow> bool" where
  "confirming e \<longleftrightarrow> gc_qualified e \<and> \<not> gc_primary e"

definition refuting :: "guard_check \<Rightarrow> bool" where
  "refuting e \<longleftrightarrow> \<not> gc_qualified e"

definition judging :: "guard_check \<Rightarrow> bool" where
  "judging e \<longleftrightarrow> gc_qualified e \<or> gc_enough e"

text \<open>The confirmations of the present mode, and the refutations since it was entered.\<close>

definition confirmations :: "guard_check list \<Rightarrow> nat" where
  "confirmations h = length (takeWhile confirming (dropWhile gc_primary h))"

definition refutations :: "guard_check list \<Rightarrow> nat" where
  "refutations h = length (takeWhile refuting (filter judging (takeWhile gc_primary h)))"

definition streaks_ok :: "nat \<Rightarrow> logged \<Rightarrow> bool" where
  "streaks_ok required l \<longleftrightarrow>
     (case l of (s, h) \<Rightarrow> case mg_mode s of
        Shadow \<Rightarrow> mg_promotion_streak s = length (takeWhile confirming h) \<and> mg_promotion_streak s < required
      | Primary \<Rightarrow> required \<le> confirmations h \<and> mg_demotion_streak s = refutations h
          \<and> mg_demotion_streak s < required)"

named_theorems migration_frame

lemma normalize_migration_frame [migration_frame]:
  "mg_mode (normalize_migration s) = mg_mode s"
  "mg_promotion_streak (normalize_migration s) = mg_promotion_streak s"
  "mg_demotion_streak (normalize_migration s) = mg_demotion_streak s"
  "mg_pending (normalize_migration s) = mg_pending s"
  "mg_resolved (normalize_migration s) = mg_resolved s"
  by (simp_all add: normalize_migration_def Let_def)

lemma initialize_migration_frame [migration_frame]:
  "mg_mode (snd (initialize_migration now s)) = mg_mode s"
  "mg_promotion_streak (snd (initialize_migration now s)) = mg_promotion_streak s"
  "mg_demotion_streak (snd (initialize_migration now s)) = mg_demotion_streak s"
  "mg_pending (snd (initialize_migration now s)) = mg_pending s"
  "mg_resolved (snd (initialize_migration now s)) = mg_resolved s"
  by (simp_all add: initialize_migration_def Let_def migration_frame)

lemma report_native_validation_frame [migration_frame]:
  "mg_mode (report_native_validation v selected now s) = mg_mode s"
  "mg_promotion_streak (report_native_validation v selected now s) = mg_promotion_streak s"
  "mg_demotion_streak (report_native_validation v selected now s) = mg_demotion_streak s"
  "mg_pending (report_native_validation v selected now s) = mg_pending s"
  "mg_resolved (report_native_validation v selected now s) = mg_resolved s"
  by (simp_all add: report_native_validation_def)

lemma record_evaluation_frame [migration_frame]:
  assumes "record_evaluation log10 fresh_id signal snapshots features portfolio consensus llm_snapshot
    allowed config q now s = (e, s')"
  shows "mg_mode s' = mg_mode s" "mg_promotion_streak s' = mg_promotion_streak s"
    "mg_demotion_streak s' = mg_demotion_streak s" "mg_resolved s' = mg_resolved s"
  using assms by (auto simp: record_evaluation_def Let_def migration_frame split: if_splits option.splits)

lemma settle_due_frame [migration_frame]:
  assumes "settle_due snapshots config now s = (r, n, s')"
  shows "mg_mode s' = mg_mode s" "mg_promotion_streak s' = mg_promotion_streak s"
    "mg_demotion_streak s' = mg_demotion_streak s"
  using assms by (auto simp: settle_due_def Let_def migration_frame split: prod.splits)

lemma maybe_retune_frame [migration_frame]:
  assumes "maybe_retune config q s = (a, s')"
  shows "mg_mode s' = mg_mode s" "mg_promotion_streak s' = mg_promotion_streak s"
    "mg_demotion_streak s' = mg_demotion_streak s" "mg_pending s' = mg_pending s" "mg_resolved s' = mg_resolved s"
  using assms by (auto simp: maybe_retune_def Let_def split: if_splits option.splits)

definition check_of :: "'a trading_config_scheme \<Rightarrow> quant_settings \<Rightarrow> f64 \<Rightarrow> migration_state \<Rightarrow> guard_check" where
  "check_of config q now s = \<lparr>gc_arm = mg_active_parameter_id s, gc_primary = is_primary s,
     gc_qualified = arm_qualified config q now s,
     gc_enough = (tr_quant_migration_min_samples config \<le> length (paired_evaluations config s))\<rparr>"

lemma evaluate_migration_streaks:
  assumes "streaks_ok (tr_quant_migration_required_streak config) (s, h)"
    and "0 < tr_quant_migration_required_streak config" "tr_quant_migration_required_streak config \<le> usize_max"
    and "evaluate_migration config q now s = (d, s')"
  shows "streaks_ok (tr_quant_migration_required_streak config) (s', check_of config q now s # h)"
proof -
  have bump: "n < tr_quant_migration_required_streak config \<Longrightarrow> usize_sat_add n (Suc 0) = Suc n" for n
    using assms(3) by (simp add: usize_sat_add_def)
  show ?thesis
  proof (cases "mg_mode s")
  case Shadow
  show ?thesis
    using assms Shadow
    by (auto simp: evaluate_migration_def Let_def streaks_ok_def check_of_def confirming_def is_primary_def
        confirmations_def refutations_def bump split: if_splits)
next
  case Primary
  show ?thesis
    using assms Primary
    by (auto simp: evaluate_migration_def Let_def streaks_ok_def check_of_def confirming_def is_primary_def
        confirmations_def refutations_def judging_def refuting_def bump split: if_splits)
  qed
qed

lemma resolve_quant_streaks:
  assumes "streaks_ok (tr_quant_migration_required_streak config) (s, h)"
    and "0 < tr_quant_migration_required_streak config" "tr_quant_migration_required_streak config \<le> usize_max"
    and "resolve_quant_evaluations snapshots config q now True s = (u, s')" "qt_shadow_enabled q"
  shows "streaks_ok (tr_quant_migration_required_streak config) (s', guard_checks snapshots config q now s @ h)"
proof -
  obtain r n s1 where settled: "settle_due snapshots config now s = (r, n, s1)"
    by (cases "settle_due snapshots config now s") auto
  obtain a s2 where retuned: "maybe_retune config q s1 = (a, s2)"
    by (cases "maybe_retune config q s1")
  obtain d s3 where evaluated: "evaluate_migration config q now s2 = (d, s3)"
    by (cases "evaluate_migration config q now s2")
  have s1: "streaks_ok (tr_quant_migration_required_streak config) (s1, h)"
    using assms(1) settle_due_frame [OF settled] by (simp add: streaks_ok_def split: quant_mode.splits)
  then have s2: "streaks_ok (tr_quant_migration_required_streak config) (s2, h)"
    using maybe_retune_frame [OF retuned] by (simp add: streaks_ok_def split: quant_mode.splits)
  have s': "s' = (if r = 0 then s1 else s3)"
    using assms(4,5) by (auto simp: resolve_quant_evaluations_def resolve_due_evaluations_def settled retuned
        evaluated Let_def split: if_splits)
  have "guard_checks snapshots config q now s = (if r = 0 then [] else [check_of config q now s2])"
    by (simp add: guard_checks_def settled retuned check_of_def)
  then show ?thesis
    using s1 evaluate_migration_streaks [OF s2 assms(2,3) evaluated] s' by simp
qed

lemma unwritten_is_taken_back:
  assumes "resolve_quant_evaluations snapshots config q now False s = (u, s')"
  shows "s' = s \<or> mg_mode s' = mg_mode s \<and> mg_promotion_streak s' = mg_promotion_streak s
    \<and> mg_demotion_streak s' = mg_demotion_streak s"
  using assms
  by (auto simp: resolve_quant_evaluations_def resolve_due_evaluations_def Let_def migration_frame
      split: if_splits prod.splits)

theorem run_streaks_ok:
  assumes "migration_run config q mem disk" "0 < tr_quant_migration_required_streak config"
    "tr_quant_migration_required_streak config \<le> usize_max"
  shows "streaks_ok (tr_quant_migration_required_streak config) mem
    \<and> streaks_ok (tr_quant_migration_required_streak config) disk"
  using assms(1)
proof (induction rule: migration_run.induct)
  case Fresh
  show ?case using assms(2) by (simp add: streaks_ok_def default_migration_state_def)
next
  case (Record s h disk fresh_id log10 signal snapshots features portfolio consensus llm_snapshot llm_allowed now)
  then show ?case
    by (cases "record_evaluation log10 fresh_id signal snapshots features portfolio consensus llm_snapshot
        llm_allowed config q now s") (auto simp: streaks_ok_def record_evaluation_frame split: quant_mode.splits)
next
  case (Resolve s h disk snapshots now update s')
  then have memory: "streaks_ok (tr_quant_migration_required_streak config) (s, h)"
    and copy: "streaks_ok (tr_quant_migration_required_streak config) disk"
    and step: "resolve_quant_evaluations snapshots config q now True s = (update, s')" by auto
  show ?case
  proof (cases "qt_shadow_enabled q")
    case True
    then show ?thesis
      using resolve_quant_streaks [OF memory assms(2,3) step True] copy by simp
  next
    case False
    then show ?thesis
      using step memory copy by (auto simp: resolve_quant_evaluations_def)
  qed
next
  case (Unwritten s h disk snapshots now update s')
  then show ?case
    using unwritten_is_taken_back [of snapshots config q now s update s'] by (auto simp: streaks_ok_def split: quant_mode.splits)
qed (auto simp: streaks_ok_def migration_frame split: quant_mode.splits)


text \<open>C36: The quantitative engine trades only on repeated confirmations, and keeps trading only while they
  are not refuted. Whatever sequence of rounds, recordings, native validations, failed writes and
  restarts: while the controller is primary, the checks before the change of mode end in the required
  number of consecutive qualified ones, all made in shadow mode, and since then fewer than that many
  judged checks in a row have failed; while it is in shadow mode, fewer than that many checks in a
  row have qualified.\<close>
theorem migration_needs_confirmations:
  assumes "migration_run config q (s, h) disk" "0 < tr_quant_migration_required_streak config"
    "tr_quant_migration_required_streak config \<le> usize_max"
  shows "(mg_mode s = Primary \<longrightarrow> tr_quant_migration_required_streak config \<le> confirmations h
      \<and> refutations h < tr_quant_migration_required_streak config)
    \<and> (mg_mode s = Shadow \<longrightarrow> length (takeWhile confirming h) < tr_quant_migration_required_streak config)"
  using run_streaks_ok [OF assms] by (auto simp: streaks_ok_def)

section \<open>Ledgers\<close>

definition evaluations_ok :: "'a trading_config_scheme \<Rightarrow> migration_state \<Rightarrow> bool" where
  "evaluations_ok config s \<longleftrightarrow>
     distinct (evaluation_ids s)
     \<and> length (mg_pending s) \<le> tr_quant_shadow_ledger_size config
     \<and> length (mg_resolved s) \<le> tr_quant_shadow_ledger_size config
     \<and> (\<forall>e\<in>set (mg_pending s).
          pe_due_at e = f_add (pe_created_at e) (f_of_nat (tr_quant_shadow_horizon_seconds config)))
     \<and> (\<forall>r\<in>set (mg_resolved s). \<not> f_lt (rv_resolved_at r)
          (f_add (rv_created_at r) (f_of_nat (tr_quant_shadow_horizon_seconds config))))"

lemma evaluations_ok_cong:
  "mg_pending s' = mg_pending s \<Longrightarrow> mg_resolved s' = mg_resolved s \<Longrightarrow>
     evaluations_ok config s \<Longrightarrow> evaluations_ok config s'"
  by (simp add: evaluations_ok_def evaluation_ids_def)

lemma resolved_ids:
  "map rv_evaluation_id (List.map_filter (\<lambda>e. case settle_evaluation snapshots cost now e of
       Resolves r \<Rightarrow> Some r | _ \<Rightarrow> None) es) =
   map pe_evaluation_id (filter (\<lambda>e. \<exists>r. settle_evaluation snapshots cost now e = Resolves r) es)"
  by (induction es) (auto simp: List.map_filter_simps settle_resolves split: settlement.splits)

lemma distinct_map_split:
  assumes "distinct (map f xs @ ys)" "\<And>x. x \<in> set xs \<Longrightarrow> P x \<Longrightarrow> \<not> Q x"
  shows "distinct (map f (filter P xs) @ ys @ map f (filter Q xs))"
  using assms by (auto simp: distinct_map inj_on_def)

lemma distinct_append_drop: "distinct (xs @ ys) \<Longrightarrow> distinct (xs @ drop n ys)"
  using set_drop_subset [of n ys] by (auto simp: distinct_drop)

lemma set_map_filter: "set (List.map_filter f xs) = {y. \<exists>x\<in>set xs. f x = Some y}"
  by (force simp: List.map_filter_def)

lemma map_keep_last: "map f (keep_last n xs) = drop (length xs - n) (map f xs)"
  by (simp add: keep_last_def drop_map)

lemma settle_due_ok:
  assumes "evaluations_ok config s" "settle_due snapshots config now s = (r, n, s')"
  shows "evaluations_ok config s' \<and> length (mg_pending s) = length (mg_pending s') + r + n"
proof -
  define cost where "cost = f_mul (Fin 2) (f_add (tr_estimated_fee_bps config) (tr_estimated_slippage_bps config))"
  obtain waiting resolved expired where settled:
    "settle_pending (settle_evaluation snapshots cost now) (mg_pending s) = (waiting, resolved, expired)"
    by (cases "settle_pending (settle_evaluation snapshots cost now) (mg_pending s)") auto
  then have waiting: "waiting = filter (\<lambda>e. settle_evaluation snapshots cost now e = Waits) (mg_pending s)"
    and resolved: "resolved = List.map_filter (\<lambda>e. case settle_evaluation snapshots cost now e of
        Resolves r \<Rightarrow> Some r | _ \<Rightarrow> None) (mg_pending s)"
    by (auto simp: settle_pending_eq)
  have s': "mg_pending s' = waiting"
    "mg_resolved s' = keep_last (tr_quant_shadow_ledger_size config) (mg_resolved s @ resolved)"
    "r = length resolved" "n = expired"
    using assms(2) settled by (auto simp: settle_due_def migration_frame Let_def simp flip: cost_def)
  have ids: "distinct (map pe_evaluation_id waiting @ map rv_evaluation_id (mg_resolved s) @ map rv_evaluation_id resolved)"
    unfolding waiting resolved resolved_ids
    by (rule distinct_map_split) (use assms(1) in \<open>auto simp: evaluations_ok_def evaluation_ids_def\<close>)
  have due: "\<not> f_lt (rv_resolved_at x) (f_add (rv_created_at x) (f_of_nat (tr_quant_shadow_horizon_seconds config)))"
    if "x \<in> set resolved" for x
  proof -
    obtain e where e: "e \<in> set (mg_pending s)"
      "(case settle_evaluation snapshots cost now e of Resolves r \<Rightarrow> Some r | _ \<Rightarrow> None) = Some x"
      using \<open>x \<in> set resolved\<close> unfolding resolved set_map_filter by blast
    then have "settle_evaluation snapshots cost now e = Resolves x"
      by (cases "settle_evaluation snapshots cost now e") auto
    with e(1) have "e \<in> set (mg_pending s)" "settle_evaluation snapshots cost now e = Resolves x" .
    then show ?thesis
      using assms(1) settle_resolves by (metis evaluations_ok_def)
  qed
  have "distinct (evaluation_ids s')"
    unfolding evaluation_ids_def s' map_keep_last map_append by (rule distinct_append_drop [OF ids])
  moreover have "length waiting \<le> tr_quant_shadow_ledger_size config"
    using assms(1) by (auto simp: waiting evaluations_ok_def intro: order_trans [OF length_filter_le])
  moreover have "set waiting \<subseteq> set (mg_pending s)"
    by (auto simp: waiting)
  moreover have "set (mg_resolved s') \<subseteq> set (mg_resolved s) \<union> set resolved"
    using set_keep_last [of _ "mg_resolved s @ resolved"] by (auto simp: s')
  ultimately have "evaluations_ok config s'"
    using assms(1) due by (auto simp: evaluations_ok_def s' length_keep_last)
  then show ?thesis
    using settle_pending_conserves [OF settled] by (simp add: s')
qed

lemma record_evaluation_ok:
  assumes "evaluations_ok config s" "fresh_id \<notin> set (evaluation_ids s)"
    and "record_evaluation log10 fresh_id signal snapshots features portfolio consensus llm_snapshot
      allowed config q now s = (e, s')"
  shows "evaluations_ok config s'"
proof (cases e)
  case None
  then have "mg_pending s' = mg_pending s"
    using assms(3) by (auto simp: record_evaluation_def Let_def migration_frame split: if_splits option.splits)
  then show ?thesis
    using assms(1,3) by (auto intro: evaluations_ok_cong dest: record_evaluation_frame)
next
  case (Some e)
  then have e: "pe_evaluation_id e = fresh_id"
    "pe_due_at e = f_add (pe_created_at e) (f_of_nat (tr_quant_shadow_horizon_seconds config))"
    and s': "mg_pending s' = keep_last (tr_quant_shadow_ledger_size config) (mg_pending s @ [e])"
    "mg_resolved s' = mg_resolved s"
    using assms(3) by (auto simp: record_evaluation_def Let_def migration_frame split: if_splits option.splits)
  have "distinct (map rv_evaluation_id (mg_resolved s) @ map pe_evaluation_id (mg_pending s @ [e]))"
    using assms(1,2) by (auto simp: evaluations_ok_def evaluation_ids_def e)
  then have "distinct (map rv_evaluation_id (mg_resolved s) @ map pe_evaluation_id (mg_pending s'))"
    unfolding s' map_keep_last by (rule distinct_append_drop)
  then have "distinct (evaluation_ids s')"
    by (simp add: evaluation_ids_def s' inf_commute)
  moreover have "set (mg_pending s') \<subseteq> set (mg_pending s @ [e])"
    unfolding s' by (rule set_keep_last)
  ultimately show ?thesis
    using assms(1) by (auto simp: evaluations_ok_def s' length_keep_last e)
qed

lemma evaluate_migration_ledgers [migration_frame]:
  assumes "evaluate_migration config q now s = (d, s')"
  shows "mg_pending s' = mg_pending s" "mg_resolved s' = mg_resolved s"
    "mg_active_parameter_id s' = mg_active_parameter_id s" "mg_parameter_sets s' = mg_parameter_sets s"
    "mg_native_validation_parameter_id s' = mg_native_validation_parameter_id s"
    "mg_native_validation_at s' = mg_native_validation_at s"
  using assms by (auto simp: evaluate_migration_def Let_def split: if_splits)


lemma resolve_quant_ok:
  assumes "evaluations_ok config s" "resolve_quant_evaluations snapshots config q now written s = (u, s')"
  shows "evaluations_ok config s'"
proof -
  obtain r n s1 where settled: "settle_due snapshots config now s = (r, n, s1)"
    by (cases "settle_due snapshots config now s") auto
  obtain a s2 where retuned: "maybe_retune config q s1 = (a, s2)"
    by (cases "maybe_retune config q s1")
  obtain d s3 where evaluated: "evaluate_migration config q now s2 = (d, s3)"
    by (cases "evaluate_migration config q now s2")
  have s1: "evaluations_ok config s1"
    using settle_due_ok [OF assms(1) settled] by simp
  then have s3: "evaluations_ok config s3"
    using evaluations_ok_cong [of s3 s1 config] maybe_retune_frame [OF retuned]
      evaluate_migration_ledgers [OF evaluated] by simp
  have "s' \<in> {s, s1, s3}"
    using assms(2) by (auto simp: resolve_quant_evaluations_def resolve_due_evaluations_def settled retuned
        evaluated Let_def split: if_splits)
  then show ?thesis
    using assms(1) s1 s3 by auto
qed

theorem run_evaluations_ok:
  assumes "migration_run config q mem disk"
  shows "evaluations_ok config (fst mem) \<and> evaluations_ok config (fst disk)"
  using assms
proof (induction rule: migration_run.induct)
  case Fresh
  show ?case by (simp add: evaluations_ok_def evaluation_ids_def default_migration_state_def)
next
  case (Record s h disk fresh_id log10 signal snapshots features portfolio consensus llm_snapshot llm_allowed now)
  then show ?case
    by (cases "record_evaluation log10 fresh_id signal snapshots features portfolio consensus llm_snapshot
        llm_allowed config q now s") (auto dest: record_evaluation_ok)
qed (auto simp: migration_frame dest: resolve_quant_ok intro: evaluations_ok_cong)

text \<open>A shadow evaluation is counted once, and never early. With identifiers that are not in the ledgers
  when they are drawn, no evaluation is ever both waiting and resolved or resolved twice, none is
  resolved before its horizon has passed, both ledgers stay within their bound, and a round accounts
  for every evaluation that stops waiting: it is resolved or it has expired.\<close>
theorem evaluations_are_settled_once:
  assumes "migration_run config q (s, h) disk"
  shows "distinct (map pe_evaluation_id (mg_pending s) @ map rv_evaluation_id (mg_resolved s))
    \<and> length (mg_pending s) \<le> tr_quant_shadow_ledger_size config
    \<and> length (mg_resolved s) \<le> tr_quant_shadow_ledger_size config
    \<and> (\<forall>r\<in>set (mg_resolved s). \<not> f_lt (rv_resolved_at r)
         (f_add (rv_created_at r) (f_of_nat (tr_quant_shadow_horizon_seconds config))))
    \<and> (case settle_due snapshots config now s of (resolved, expired, s') \<Rightarrow>
         length (mg_pending s) = length (mg_pending s') + resolved + expired)"
  using run_evaluations_ok [OF assms] settle_due_ok [of config s snapshots now]
  by (auto simp: evaluations_ok_def evaluation_ids_def split: prod.splits)

section \<open>Evidence\<close>

lemma evaluate_migration_decides:
  assumes "evaluate_migration config q now s = (Some d, s')" "0 < tr_quant_migration_required_streak config"
  shows "md_transition d = (if mg_mode s = Shadow then Promoted else Demoted)"
    "mg_mode s' = (if mg_mode s = Shadow then Primary else Shadow)"
    "md_parameter_id d = mg_active_parameter_id s'"
    "arm_qualified config q now s' \<longleftrightarrow> mg_mode s = Shadow"
    "tr_quant_migration_min_samples config \<le> length (paired_evaluations config s')"
proof -
  have same: "arm_qualified config q now s' = arm_qualified config q now s"
    "paired_evaluations config s' = paired_evaluations config s"
    by (simp_all add: arm_qualified_def paired_evaluations_def native_validation_current_def
        active_parameters_def evaluate_migration_ledgers [OF assms(1)])
  show "md_transition d = (if mg_mode s = Shadow then Promoted else Demoted)"
    "mg_mode s' = (if mg_mode s = Shadow then Primary else Shadow)"
    "md_parameter_id d = mg_active_parameter_id s'"
    using assms by (cases "mg_mode s"; auto simp: evaluate_migration_def Let_def split: if_splits)+
  show q: "arm_qualified config q now s' \<longleftrightarrow> mg_mode s = Shadow"
    using assms unfolding same
    by (cases "mg_mode s") (auto simp: evaluate_migration_def Let_def split: if_splits)
  show "tr_quant_migration_min_samples config \<le> length (paired_evaluations config s')"
  proof (cases "mg_mode s")
    case Shadow
    then show ?thesis
      using q by (simp add: arm_qualified_def Let_def)
  next
    case Primary
    then show ?thesis
      using assms unfolding same by (auto simp: evaluate_migration_def Let_def split: if_splits)
  qed
qed

lemma resolve_due_decision:
  assumes "resolve_due_evaluations snapshots config q now s = (u, s')" "qu_migration u = Some d"
  shows "\<exists>s2. mg_mode s2 = mg_mode s \<and> evaluate_migration config q now s2 = (Some d, s')"
proof -
  obtain r n s1 where settled: "settle_due snapshots config now s = (r, n, s1)"
    by (cases "settle_due snapshots config now s") auto
  obtain a s2 where retuned: "maybe_retune config q s1 = (a, s2)"
    by (cases "maybe_retune config q s1")
  obtain d' s3 where evaluated: "evaluate_migration config q now s2 = (d', s3)"
    by (cases "evaluate_migration config q now s2")
  have "mg_mode s2 = mg_mode s"
    using settle_due_frame [OF settled] maybe_retune_frame [OF retuned] by simp
  moreover have "d' = Some d" "s3 = s'"
    using assms by (auto simp: resolve_due_evaluations_def settled retuned evaluated Let_def split: if_splits)
  ultimately show ?thesis
    using evaluated by blast
qed


text \<open>A round that promotes: one due evaluation of the arm in use, which gained on a doubled price.\<close>

definition promotion_config :: trading_config where
  "promotion_config = default_bridge_config\<lparr>tr_quant_migration_required_streak := 1,
     tr_quant_migration_min_samples := 1, tr_quant_migration_min_actionable_samples := 1,
     tr_quant_migration_window_samples := 1, tr_quant_tuning_interval_samples := 2,
     tr_quant_migration_min_outperformance_bps := Fin 0, tr_quant_migration_max_downside_regression_bps := Fin 0,
     tr_estimated_fee_bps := Fin 0, tr_estimated_slippage_bps := Fin 0, tr_quant_shadow_ledger_size := 1\<rparr>"

lemma promotion_config_fields:
  "tr_quant_migration_required_streak promotion_config = 1"
  "tr_quant_migration_min_samples promotion_config = 1"
  "tr_quant_migration_min_actionable_samples promotion_config = 1"
  "tr_quant_migration_window_samples promotion_config = 1"
  "tr_quant_tuning_interval_samples promotion_config = 2"
  "tr_quant_migration_min_outperformance_bps promotion_config = Fin 0"
  "tr_quant_migration_max_downside_regression_bps promotion_config = Fin 0"
  "tr_estimated_fee_bps promotion_config = Fin 0" "tr_estimated_slippage_bps promotion_config = Fin 0"
  "tr_quant_shadow_ledger_size promotion_config = 1"
  by (simp_all add: promotion_config_def)

definition promotion_settings :: quant_settings where
  "promotion_settings = \<lparr>qt_shadow_enabled = True, qt_cash_parameter_id = ''cash-v1'',
     qt_minimum_actionable_net_edge_bps = Fin 0, qt_confidence_z_score = Fin 0, qt_require_native_validation = False,
     qt_native_validation_max_age_seconds = 300, qt_allocator = default_allocator_config\<rparr>"

definition promotion_evaluation :: pending_evaluation where
  "promotion_evaluation = \<lparr>pe_evaluation_id = ''e'', pe_created_at = Fin 0, pe_due_at = Fin 1, pe_expires_at = Fin 2,
     pe_exchange = ''kraken'', pe_symbol = ''BTC/USDT'', pe_entry_price = Fin 1, pe_active_parameter_id = ''balanced-v1'',
     pe_llm_exchange = [], pe_llm_symbol = [], pe_llm_entry_price = Fin 0, pe_llm_signal = Some (Fin 0),
     pe_llm_actionable = False,
     pe_predictions = [\<lparr>qn_parameter_id = ''balanced-v1'', qn_exchange = ''kraken'', qn_symbol = ''BTC/USDT'',
       qn_entry_price = Fin 1, qn_signal = Fin 1, qn_confidence = Fin 1, qn_risk_score = Fin 0, qn_actionable = True\<rparr>]\<rparr>"

definition promotion_market :: market_snapshot where
  "promotion_market = \<lparr>ms_exchange = ''kraken'', ms_symbol = ''BTC/USDT'', ms_price = Fin 2,
     ms_price_change_pct_1h = None, ms_price_change_pct_24h = None, ms_volume_24h = None,
     ms_volume_change_pct = None, ms_high_24h = None, ms_low_24h = None, ms_fetched_at = Fin 1,
     ms_microstructure = undefined\<rparr>"

definition promotion_state :: migration_state where
  "promotion_state = default_migration_state\<lparr>mg_parameter_sets := [default_parameters, cash_set],
     mg_pending := [promotion_evaluation]\<rparr>"

lemma normalize_parameters_identity:
  "qp_id (normalize_parameters p) = to_ascii_lowercase (trim (qp_id p))"
  "qp_kind (normalize_parameters p) = qp_kind p"
  by (simp_all add: normalize_parameters_def normalize_weights_def Let_def)

text \<open>The only outcome of the round.\<close>

definition promotion_resolved :: resolved_evaluation where
  "promotion_resolved = \<lparr>rv_evaluation_id = ''e'', rv_created_at = Fin 0, rv_resolved_at = Fin 1,
     rv_exchange = ''kraken'', rv_symbol = ''BTC/USDT'', rv_active_parameter_id = ''balanced-v1'',
     rv_active_quant_actionable = True, rv_active_quant_net_return_bps = Fin 10000, rv_llm_actionable = False,
     rv_llm_net_return_bps = Some (Fin 0),
     rv_candidate_outcomes = [\<lparr>cq_parameter_id = ''balanced-v1'', cq_exchange = ''kraken'',
       cq_symbol = ''BTC/USDT'', cq_actionable = True, cq_net_return_bps = Fin 10000\<rparr>]\<rparr>"

lemma promotion_outcome:
  "settle_evaluation [promotion_market] (Fin 0) (Fin 1) promotion_evaluation = Resolves promotion_resolved"
proof -
  have snapshot: "exact_market_snapshot [promotion_market] ''kraken'' ''BTC/USDT'' = Some promotion_market"
    by (simp add: exact_market_snapshot_def promotion_market_def eq_ignore_ascii_case_def)
  have price: "ms_price promotion_market = Fin 2"
    by (simp add: promotion_market_def)
  have "lit (1 / 5) \<le> Fin (1 / 2)"
    using rnd_mono [of "1 / 5" "1 / 2"] by (simp add: small_rnd)
  then have threshold: "\<not> f_lt (Fin 1) (lit (1 / 5))"
    by (cases "lit (1 / 5)") (auto simp: f_lt_iff less_f64_def less_eq_f64_def)
  have scale: "rnd 10000 = Fin 10000"
    using rnd_of_int [of 10000] by simp
  have gain: "policy_net_return_bps [promotion_market] ''kraken'' ''BTC/USDT'' (Fin 1) (Fin 1) True (Fin 0) = Some (Fin 10000)"
    by (simp add: policy_net_return_bps_def is_hold_signal_def directional_net_return_bps_def snapshot price
        fin_ops small_rnd f_signum_def Let_def threshold scale)
  have fields: "pe_evaluation_id promotion_evaluation = ''e''" "pe_created_at promotion_evaluation = Fin 0"
    "pe_due_at promotion_evaluation = Fin 1" "pe_exchange promotion_evaluation = ''kraken''"
    "pe_symbol promotion_evaluation = ''BTC/USDT''" "pe_active_parameter_id promotion_evaluation = ''balanced-v1''"
    "pe_llm_signal promotion_evaluation = Some (Fin 0)" "\<not> pe_llm_actionable promotion_evaluation"
    by (simp_all add: promotion_evaluation_def)
  have outcomes: "List.map_filter (candidate_outcome_of [promotion_market] (Fin 0) promotion_evaluation)
      (pe_predictions promotion_evaluation) = [\<lparr>cq_parameter_id = ''balanced-v1'', cq_exchange = ''kraken'',
         cq_symbol = ''BTC/USDT'', cq_actionable = True, cq_net_return_bps = Fin 10000\<rparr>]"
    by (simp add: promotion_evaluation_def candidate_outcome_of_def or_default_def price_or_def gain Let_def)
  have llm: "llm_return [promotion_market] (Fin 0) promotion_evaluation = Some (Fin 0)"
    by (simp add: llm_return_def fields policy_net_return_bps_def is_hold_signal_def)
  show ?thesis
    by (simp add: settle_evaluation_def outcomes llm fields Let_def promotion_resolved_def)
qed

lemma promotion_sets:
  "repaired_sets [default_parameters, cash_set] = [normalize_parameters default_parameters, normalize_parameters cash_set]"
proof -
  have "qp_id (normalize_parameters default_parameters) = ''balanced-v1''"
    "qp_id (normalize_parameters cash_set) = ''cash-v1''"
    by (simp_all add: normalize_parameters_identity default_parameters_def cash_set_def) code_simp+
  moreover have "qp_kind cash_set = Cash"
    by (simp add: cash_set_def)
  ultimately show ?thesis
    by (simp add: repaired_sets_def sort_by_def cmp_of_def less_list_code)
qed

lemma promotion_performance:
  "quant_performance promotion_settings [r] =
     \<lparr>pf_samples = 1, pf_actionable_samples = 1, pf_mean_net_return_bps = Fin 10000,
      pf_opportunity_mean_net_return_bps = Fin 10000, pf_net_edge_lower_bound_bps = Fin 10000, pf_win_rate = Fin 1,
      pf_mean_downside_bps = Fin 0\<rparr>"
  "llm_performance promotion_settings [r] = no_summary\<lparr>pf_samples := 1\<rparr>"
  if "rv_active_quant_net_return_bps r = Fin 10000" "rv_active_quant_actionable r"
    "rv_llm_net_return_bps r = Some (Fin 0)" "\<not> rv_llm_actionable r"
proof -
  have scale: "rnd 10000 = Fin 10000"
    using rnd_of_int [of 10000] by simp
  show "quant_performance promotion_settings [r] =
     \<lparr>pf_samples = 1, pf_actionable_samples = 1, pf_mean_net_return_bps = Fin 10000,
      pf_opportunity_mean_net_return_bps = Fin 10000, pf_net_edge_lower_bound_bps = Fin 10000, pf_win_rate = Fin 1,
      pf_mean_downside_bps = Fin 0\<rparr>"
    using that by (simp add: quant_performance_def promotion_settings_def summary_of_policy_def Let_def f_mean_def
        f_sum_def fin_ops small_rnd scale f_of_nat_def f_sqrt_one f_sqrt_zero)
  show "llm_performance promotion_settings [r] = no_summary\<lparr>pf_samples := 1\<rparr>"
    using that by (simp add: llm_performance_def promotion_settings_def summary_of_policy_def Let_def f_mean_def
        f_sum_def fin_ops small_rnd scale f_of_nat_def no_summary_def)
qed


lemma promotion_state_fields:
  "mg_mode (normalize_migration promotion_state) = Shadow"
  "mg_pending (normalize_migration promotion_state) = [promotion_evaluation]"
  "mg_resolved (normalize_migration promotion_state) = []"
  "mg_promotion_streak (normalize_migration promotion_state) = 0"
  "mg_active_parameter_id (normalize_migration promotion_state) = ''balanced-v1''"
  "mg_total_resolved (normalize_migration promotion_state) = 0"
  "mg_last_tuned_resolved_count (normalize_migration promotion_state) = 0"
  "qp_kind (active_parameters (normalize_migration promotion_state)) = Momentum"
proof -
  have i: "qp_id (normalize_parameters default_parameters) = ''balanced-v1''"
    by (simp add: normalize_parameters_identity default_parameters_def) code_simp
  then show "mg_active_parameter_id (normalize_migration promotion_state) = ''balanced-v1''"
    "qp_kind (active_parameters (normalize_migration promotion_state)) = Momentum"
    by (simp_all add: normalize_migration_def promotion_state_def promotion_sets Let_def default_migration_state_def
        active_parameters_def normalize_parameters_identity) (simp add: default_parameters_def)
qed (simp_all add: normalize_migration_def promotion_state_def Let_def default_migration_state_def)

lemma promotion_round:
  "\<exists>u s' d. resolve_due_evaluations [promotion_market] promotion_config promotion_settings (Fin 1) promotion_state = (u, s')
     \<and> qu_migration u = Some d \<and> md_transition d = Promoted"
proof -
  define s1 where "s1 = normalize_migration promotion_state
    \<lparr>mg_pending := [], mg_resolved := [promotion_resolved], mg_total_resolved := 1\<rparr>"
  have settled: "settle_due [promotion_market] promotion_config (Fin 1) promotion_state = (1, 0, s1)"
    by (simp add: settle_due_def Let_def promotion_config_fields promotion_state_fields promotion_outcome fin_ops
        small_rnd keep_last_def usize_sat_add_def usize_max_def s1_def)
  have retuned: "maybe_retune promotion_config promotion_settings s1 = (None, s1)"
    by (simp add: maybe_retune_def promotion_config_fields s1_def promotion_state_fields)
  have paired: "paired_evaluations promotion_config s1 = [promotion_resolved]"
    by (simp add: paired_evaluations_def s1_def promotion_config_fields promotion_resolved_def promotion_state_fields)
  have r: "rv_active_quant_net_return_bps promotion_resolved = Fin 10000" "rv_active_quant_actionable promotion_resolved"
    "rv_llm_net_return_bps promotion_resolved = Some (Fin 0)" "\<not> rv_llm_actionable promotion_resolved"
    by (simp_all add: promotion_resolved_def)
  have scale: "rnd 10000 = Fin 10000"
    using rnd_of_int [of 10000] by simp
  have "active_parameters s1 = active_parameters (normalize_migration promotion_state)"
    by (simp add: s1_def active_parameters_def)
  then have "arm_qualified promotion_config promotion_settings (Fin 1) s1"
    by (simp add: arm_qualified_def paired promotion_config_fields promotion_performance [OF r] r Let_def
        promotion_state_fields native_validation_current_def outperformance_of_def no_summary_def fin_ops scale small_rnd)
      (simp add: promotion_settings_def)
  moreover have "mg_mode s1 = Shadow" "mg_promotion_streak s1 = 0"
    by (simp_all add: s1_def promotion_state_fields)
  ultimately have "\<exists>d s'. evaluate_migration promotion_config promotion_settings (Fin 1) s1 = (Some d, s')
      \<and> md_transition d = Promoted"
    by (simp add: evaluate_migration_def Let_def promotion_config_fields usize_sat_add_def usize_max_def)
  then show ?thesis
    by (auto simp: resolve_due_evaluations_def settled retuned Let_def split: prod.splits)
qed


theorem migration_needs_confirmations_witness:
  "migration_run promotion_config promotion_settings (default_migration_state, []) (default_migration_state, [])
   \<and> mg_mode default_migration_state = Shadow
   \<and> length (takeWhile confirming []) < tr_quant_migration_required_streak promotion_config"
proof -
  have run: "migration_run promotion_config promotion_settings (default_migration_state, []) (default_migration_state, [])"
    by (rule migration_run.Fresh)
  have "mg_mode default_migration_state = Shadow"
    by (simp add: default_migration_state_def)
  then show ?thesis
    using migration_needs_confirmations [OF run] run by (simp add: promotion_config_fields usize_max_def)
qed

theorem evaluations_are_settled_once_witness:
  "migration_run promotion_config promotion_settings (default_migration_state, []) (default_migration_state, [])
   \<and> length (mg_pending default_migration_state) \<le> tr_quant_shadow_ledger_size promotion_config"
  using evaluations_are_settled_once [OF migration_run.Fresh [of promotion_config promotion_settings]]
    migration_run.Fresh [of promotion_config promotion_settings] by auto

end
