(* ===== verification/Calibration.thy ===== *)
theory Calibration
  imports QuantMigrationSafety
begin

text \<open>
  The multi-horizon calibration of the quantitative signal, \<^verbatim>\<open>src/src/trading/quantitative/calibration.rs\<close>:
  forward observations at several holding horizons, the conservative edge they support, and the gate
  that lets a signal trade only when its edge clears the costs; with their calls in a round
  (\<^verbatim>\<open>src/src/trading/mod.rs\<close>).

  The ledgers are lists, oldest first. The random part of an identifier is a function of the horizon.
\<close>

section \<open>Settings\<close>

record calibration_config =
  hc_enabled :: bool
  hc_horizons_seconds :: "nat list"
  hc_expiry_grace_seconds :: nat
  hc_ledger_size :: nat
  hc_minimum_samples :: nat
  hc_confidence_z_score :: f64
  hc_minimum_net_edge_bps :: f64
  hc_require_calibrated_edge :: bool

definition default_multi_horizon :: calibration_config where
  "default_multi_horizon = \<lparr>hc_enabled = True, hc_horizons_seconds = [900, 3600, 14400, 86400],
     hc_expiry_grace_seconds = 3600, hc_ledger_size = 20000, hc_minimum_samples = 24,
     hc_confidence_z_score = lit (1645 / 1000), hc_minimum_net_edge_bps = Fin 10,
     hc_require_calibrated_edge = True\<rparr>"

definition normalise_calibration :: "calibration_config \<Rightarrow> calibration_config" where
  "normalise_calibration c =
     (let horizons = remdups_adj (sort (map (\<lambda>h. nat_clamp h 60 2592000) (hc_horizons_seconds c)))
      in c\<lparr>hc_horizons_seconds := (if horizons = [] then [900, 3600, 14400, 86400] else horizons),
           hc_expiry_grace_seconds := nat_clamp (hc_expiry_grace_seconds c) 60 604800,
           hc_ledger_size := nat_clamp (hc_ledger_size c) 100 1000000,
           hc_minimum_samples := nat_clamp (hc_minimum_samples c) 3 100000,
           hc_confidence_z_score := f_clamp (hc_confidence_z_score c) (Fin 0) (Fin 4),
           hc_minimum_net_edge_bps := f_clamp (hc_minimum_net_edge_bps c) (Fin 0) (Fin 2500)\<rparr>)"

section \<open>Observations\<close>

record pending_observation =
  po_observation_id :: string
  po_created_at :: f64
  po_due_at :: f64
  po_expires_at :: f64
  po_horizon_seconds :: nat
  po_exchange :: string
  po_symbol :: string
  po_entry_price :: f64
  po_signal :: f64
  po_confidence :: f64
  po_regime :: string
  po_estimated_round_trip_cost_bps :: f64

record resolved_observation =
  ro_observation_id :: string
  ro_created_at :: f64
  ro_resolved_at :: f64
  ro_horizon_seconds :: nat
  ro_exchange :: string
  ro_symbol :: string
  ro_signal :: f64
  ro_confidence :: f64
  ro_regime :: string
  ro_gross_return_bps :: f64
  ro_estimated_round_trip_cost_bps :: f64
  ro_net_return_bps :: f64

record edge_estimate =
  ee_horizon_seconds :: nat
  ee_samples :: nat
  ee_conditioning_level :: string
  ee_mean_gross_return_bps :: f64
  ee_standard_deviation_bps :: f64
  ee_gross_lower_bound_bps :: f64
  ee_estimated_round_trip_cost_bps :: f64
  ee_net_lower_bound_bps :: f64

record calibration_state =
  cs_pending :: "pending_observation list"
  cs_resolved :: "resolved_observation list"
  cs_last_recorded_by_horizon :: "nat \<Rightarrow> f64 option"

definition no_calibration :: calibration_state where
  "no_calibration = \<lparr>cs_pending = [], cs_resolved = [], cs_last_recorded_by_horizon = Map.empty\<rparr>"

section \<open>Recording\<close>

definition observed_recently :: "f64 \<Rightarrow> nat \<Rightarrow> f64 \<Rightarrow> bool" where
  "observed_recently now horizon previous \<longleftrightarrow>
     f_lt (f_add (f_sub now previous) f_epsilon) (f_of_nat horizon)"

definition observation_id :: "(nat \<Rightarrow> string) \<Rightarrow> nat \<Rightarrow> string" where
  "observation_id fresh horizon = fresh horizon @ ''-'' @ decimal horizon"

definition new_observation ::
  "(nat \<Rightarrow> string) \<Rightarrow> quant_signal \<Rightarrow> market_snapshot \<Rightarrow> string \<Rightarrow> f64 \<Rightarrow> calibration_config \<Rightarrow> f64 \<Rightarrow> nat \<Rightarrow>
     pending_observation" where
  "new_observation fresh signal m regime cost c now horizon =
     \<lparr>po_observation_id = observation_id fresh horizon, po_created_at = now,
      po_due_at = f_add now (f_of_nat horizon),
      po_expires_at = f_add (f_add now (f_of_nat horizon)) (f_of_nat (hc_expiry_grace_seconds c)),
      po_horizon_seconds = horizon, po_exchange = ms_exchange m, po_symbol = ms_symbol m,
      po_entry_price = ms_price m, po_signal = qs_signal signal, po_confidence = qs_confidence signal,
      po_regime = regime, po_estimated_round_trip_cost_bps = f_max cost (Fin 0)\<rparr>"

definition record_horizon ::
  "(nat \<Rightarrow> pending_observation) \<Rightarrow> f64 \<Rightarrow> nat \<Rightarrow> nat \<times> calibration_state \<Rightarrow> nat \<times> calibration_state" where
  "record_horizon observe now horizon = (\<lambda>(n, s).
     if is_some_and (observed_recently now horizon) (cs_last_recorded_by_horizon s horizon) then (n, s)
     else (n + 1, s\<lparr>cs_pending := cs_pending s @ [observe horizon],
             cs_last_recorded_by_horizon := (cs_last_recorded_by_horizon s)(horizon \<mapsto> now)\<rparr>))"

definition record_signal ::
  "(nat \<Rightarrow> string) \<Rightarrow> quant_signal \<Rightarrow> market_snapshot \<Rightarrow> string \<Rightarrow> f64 \<Rightarrow> calibration_config \<Rightarrow> f64 \<Rightarrow>
     calibration_state \<Rightarrow> nat \<times> calibration_state" where
  "record_signal fresh signal m regime cost c now s =
     (if \<not> hc_enabled c \<or> \<not> qs_raw_actionable signal \<or> f_lt (f_abs (qs_signal signal)) (lit (2 / 10))
         \<or> \<not> is_finite (ms_price m) \<or> f_le (ms_price m) (Fin 0)
      then (0, s)
      else let (n, s) = fold (record_horizon (new_observation fresh signal m regime cost c now) now)
                 (hc_horizons_seconds c) (0, s)
           in (n, s\<lparr>cs_pending := keep_last (hc_ledger_size c) (cs_pending s)\<rparr>))"

section \<open>Resolving\<close>

datatype observation_fate = StillWaits | HasExpired | Unusable | IsResolved resolved_observation

definition observation_fate_of :: "market_snapshot list \<Rightarrow> f64 \<Rightarrow> pending_observation \<Rightarrow> observation_fate" where
  "observation_fate_of snapshots now p =
     (if f_lt now (po_due_at p) then StillWaits
      else case exact_market_snapshot snapshots (po_exchange p) (po_symbol p) of
        None \<Rightarrow> if f_lt now (po_expires_at p) then StillWaits else HasExpired
      | Some m \<Rightarrow>
          let gross = f_mul (f_signum (po_signal p))
                (f_mul (f_sub (f_div (ms_price m) (po_entry_price p)) (Fin 1)) (Fin 10000))
          in if \<not> is_finite gross then Unusable
             else IsResolved \<lparr>ro_observation_id = po_observation_id p, ro_created_at = po_created_at p,
               ro_resolved_at = now, ro_horizon_seconds = po_horizon_seconds p, ro_exchange = po_exchange p,
               ro_symbol = po_symbol p, ro_signal = po_signal p, ro_confidence = po_confidence p,
               ro_regime = po_regime p, ro_gross_return_bps = gross,
               ro_estimated_round_trip_cost_bps = po_estimated_round_trip_cost_bps p,
               ro_net_return_bps = f_sub gross (po_estimated_round_trip_cost_bps p)\<rparr>)"

fun settle_observations ::
  "(pending_observation \<Rightarrow> observation_fate) \<Rightarrow> pending_observation list \<Rightarrow>
     pending_observation list \<times> resolved_observation list \<times> nat" where
  "settle_observations fate [] = ([], [], 0)"
| "settle_observations fate (p # ps) =
     (let (waiting, resolved, expired) = settle_observations fate ps
      in case fate p of
           StillWaits \<Rightarrow> (p # waiting, resolved, expired)
         | HasExpired \<Rightarrow> (waiting, resolved, expired + 1)
         | Unusable \<Rightarrow> (waiting, resolved, expired)
         | IsResolved r \<Rightarrow> (waiting, r # resolved, expired))"

definition resolve_observations ::
  "market_snapshot list \<Rightarrow> calibration_config \<Rightarrow> f64 \<Rightarrow> calibration_state \<Rightarrow> (nat \<times> nat) \<times> calibration_state" where
  "resolve_observations snapshots c now s =
     (let (waiting, resolved, expired) = settle_observations (observation_fate_of snapshots now) (cs_pending s)
      in ((length resolved, expired),
          s\<lparr>cs_pending := waiting, cs_resolved := keep_last (hc_ledger_size c) (cs_resolved s @ resolved)\<rparr>))"

section \<open>The edge\<close>

definition same_direction :: "f64 \<Rightarrow> f64 \<Rightarrow> bool" where
  "same_direction x y \<longleftrightarrow> \<not> is_nan x \<and> \<not> is_nan y \<and> f_signum x = f_signum y"

definition comparable :: "resolved_observation list \<Rightarrow> f64 \<Rightarrow> nat \<Rightarrow> resolved_observation list" where
  "comparable resolved direction horizon =
     filter (\<lambda>r. ro_horizon_seconds r = horizon \<and> same_direction (ro_signal r) direction) resolved"

definition conditioned ::
  "resolved_observation list \<Rightarrow> string \<Rightarrow> string \<Rightarrow> (string \<times> resolved_observation list) list" where
  "conditioned base symbol regime =
     [(''symbol_regime'', filter (\<lambda>r. eq_ignore_ascii_case (ro_symbol r) symbol
         \<and> eq_ignore_ascii_case (ro_regime r) regime) base),
      (''symbol'', filter (\<lambda>r. eq_ignore_ascii_case (ro_symbol r) symbol) base),
      (''horizon'', base)]"

definition variance_of :: "f64 list \<Rightarrow> f64 \<Rightarrow> f64" where
  "variance_of values mean =
     (if 1 < length values
      then f_div (f_sum (map (\<lambda>v. f_mul (f_sub v mean) (f_sub v mean)) values)) (f_of_nat (length values - 1))
      else Fin 0)"

definition estimate_edge ::
  "calibration_state \<Rightarrow> string \<Rightarrow> string \<Rightarrow> f64 \<Rightarrow> nat \<Rightarrow> f64 \<Rightarrow> calibration_config \<Rightarrow> edge_estimate option" where
  "estimate_edge s symbol regime direction horizon cost c =
     map_option (\<lambda>(level, observations).
       let values = map ro_gross_return_bps observations; mean = f_mean values;
           deviation = f_sqrt (variance_of values mean);
           lower = f_sub mean (f_div (f_mul (hc_confidence_z_score c) deviation) (f_sqrt (f_of_nat (length values))))
       in \<lparr>ee_horizon_seconds = horizon, ee_samples = length values, ee_conditioning_level = level,
           ee_mean_gross_return_bps = mean, ee_standard_deviation_bps = deviation,
           ee_gross_lower_bound_bps = lower, ee_estimated_round_trip_cost_bps = cost,
           ee_net_lower_bound_bps = f_sub lower cost\<rparr>)
     (find (\<lambda>(level, observations). hc_minimum_samples c \<le> length observations)
        (conditioned (comparable (cs_resolved s) direction horizon) symbol regime))"

definition best_edge ::
  "calibration_state \<Rightarrow> quant_signal \<Rightarrow> string \<Rightarrow> f64 \<Rightarrow> calibration_config \<Rightarrow> edge_estimate option" where
  "best_edge s signal regime cost c =
     max_by (\<lambda>x y. partial_cmp_or_equal (ee_net_lower_bound_bps x) (ee_net_lower_bound_bps y))
       (List.map_filter (\<lambda>horizon.
          estimate_edge s (qs_symbol signal) regime (f_signum (qs_signal signal)) horizon cost c)
        (hc_horizons_seconds c))"

definition append_gate_rationale :: "quant_signal \<Rightarrow> quant_signal" where
  "append_gate_rationale signal =
     (case qs_edge_gate_reason signal of
        Some reason \<Rightarrow> if str_contains (qs_rationale signal) reason then signal
          else signal\<lparr>qs_rationale := qs_rationale signal @ ''; '' @ reason\<rparr>
      | None \<Rightarrow> signal)"

definition gate_signal ::
  "calibration_state \<Rightarrow> string \<Rightarrow> f64 \<Rightarrow> calibration_config \<Rightarrow> quant_signal \<Rightarrow> quant_signal" where
  "gate_signal s regime cost c signal =
     (let signal = signal\<lparr>qs_estimated_round_trip_cost_bps := cost\<rparr>
      in if \<not> hc_enabled c \<or> \<not> qs_raw_actionable signal then signal
         else case best_edge s signal regime cost c of
           None \<Rightarrow>
             if hc_require_calibrated_edge c
             then append_gate_rationale (signal\<lparr>qs_actionable := False,
               qs_edge_gate_reason := Some (''cost-aware hold: fewer than '' @ decimal (hc_minimum_samples c)
                 @ '' comparable multi-horizon observations'')\<rparr>)
             else signal
         | Some e \<Rightarrow>
             let signal = signal\<lparr>qs_selected_horizon_seconds := Some (ee_horizon_seconds e),
                   qs_expected_gross_edge_bps := Some (ee_mean_gross_return_bps e),
                   qs_edge_lower_bound_bps := Some (ee_net_lower_bound_bps e)\<rparr>
             in append_gate_rationale
               (if f_lt (f_add (ee_net_lower_bound_bps e) f_epsilon) (hc_minimum_net_edge_bps c)
                then signal\<lparr>qs_actionable := False,
                  qs_edge_gate_reason := Some (''cost-aware hold: '' @ decimal (ee_horizon_seconds e)
                    @ ''s net lower bound '' @ format_fixed 2 (ee_net_lower_bound_bps e) @ ''bps below ''
                    @ format_fixed 2 (hc_minimum_net_edge_bps c) @ ''bps'')\<rparr>
                else signal\<lparr>qs_actionable := True, qs_edge_gate_reason := None\<rparr>))"

section \<open>A round\<close>

definition resolve_quant_edge_calibration ::
  "bool \<Rightarrow> market_snapshot list \<Rightarrow> calibration_config \<Rightarrow> f64 \<Rightarrow> calibration_state \<Rightarrow> calibration_state" where
  "resolve_quant_edge_calibration quantitative snapshots c now s =
     (if \<not> quantitative \<or> \<not> hc_enabled c then s else snd (resolve_observations snapshots c now s))"

definition entry_side :: "quant_signal \<Rightarrow> string" where
  "entry_side signal = (if f_lt (qs_signal signal) (Fin 0) then ''sell'' else ''buy'')"

definition round_trip_cost ::
  "cost_observation list \<Rightarrow> telemetry_config \<Rightarrow> 'a trading_config_scheme \<Rightarrow> quant_signal \<Rightarrow> market_snapshot \<Rightarrow> f64" where
  "round_trip_cost fills telemetry config signal m =
     ce_round_trip_cost_bps (estimate_round_trip fills m (entry_side signal) (tr_micro_trade_max_usd config)
       (tr_estimated_fee_bps config) (tr_estimated_slippage_bps config) telemetry)"

definition record_quant_edge_observations ::
  "bool \<Rightarrow> cost_observation list \<Rightarrow> telemetry_config \<Rightarrow> 'a trading_config_scheme \<Rightarrow> (nat \<Rightarrow> string) \<Rightarrow>
     quant_signal \<Rightarrow> market_snapshot list \<Rightarrow> string \<Rightarrow> calibration_config \<Rightarrow> f64 \<Rightarrow> calibration_state \<Rightarrow>
     calibration_state" where
  "record_quant_edge_observations quantitative fills telemetry config fresh signal snapshots regime c now s =
     (if \<not> quantitative \<or> \<not> hc_enabled c then s
      else case exact_market_snapshot snapshots (qs_exchange signal) (qs_symbol signal) of
        None \<Rightarrow> s
      | Some m \<Rightarrow> snd (record_signal fresh signal m regime (round_trip_cost fills telemetry config signal m) c now s))"

text \<open>The signal of a round: selected by the arm in use and gated by its calibrated edge.\<close>

definition signal_cost ::
  "cost_observation list \<Rightarrow> telemetry_config \<Rightarrow> 'a trading_config_scheme \<Rightarrow> market_snapshot list \<Rightarrow> quant_signal \<Rightarrow> f64" where
  "signal_cost fills telemetry config snapshots signal =
     (case find (\<lambda>m. eq_ignore_ascii_case (ms_exchange m) (qs_exchange signal)
           \<and> eq_ignore_ascii_case (ms_symbol m) (qs_symbol signal)) snapshots of
        Some m \<Rightarrow> round_trip_cost fills telemetry config signal m
      | None \<Rightarrow> f_mul (Fin 2) (f_add (tr_estimated_fee_bps config) (tr_estimated_slippage_bps config)))"

definition round_signal ::
  "(f64 \<Rightarrow> f64) \<Rightarrow> bool \<Rightarrow> allocator_config \<Rightarrow> calibration_config \<Rightarrow> cost_observation list \<Rightarrow> telemetry_config \<Rightarrow>
     'a trading_config_scheme \<Rightarrow> migration_state \<Rightarrow> calibration_state \<Rightarrow> market_snapshot list \<Rightarrow>
     (string \<Rightarrow> market_features option) \<Rightarrow> octobot_portfolio \<Rightarrow> string \<Rightarrow> quant_signal" where
  "round_signal log10 quantitative a c fills telemetry config migration calibration snapshots features portfolio regime =
     (let signal = evaluate_universe log10 migration snapshots features portfolio
            (if quantitative then a else a\<lparr>al_enabled := False\<rparr>)
      in gate_signal calibration regime (signal_cost fills telemetry config snapshots signal) c signal)"


section \<open>Independent observations\<close>

text \<open>What the ledgers hold, in one list: identifier, horizon and time of recording.\<close>

type_synonym stamp = "string \<times> nat \<times> f64"

definition stamps :: "calibration_state \<Rightarrow> stamp list" where
  "stamps s = map (\<lambda>p. (po_observation_id p, po_horizon_seconds p, po_created_at p)) (cs_pending s)
     @ map (\<lambda>r. (ro_observation_id r, ro_horizon_seconds r, ro_created_at r)) (cs_resolved s)"

definition apart :: "stamp \<Rightarrow> stamp \<Rightarrow> bool" where
  "apart x y \<longleftrightarrow> fst (snd x) = fst (snd y) \<longrightarrow>
     \<not> observed_recently (snd (snd y)) (fst (snd x)) (snd (snd x))
     \<or> \<not> observed_recently (snd (snd x)) (fst (snd x)) (snd (snd y))"

definition stamps_ok :: "f64 \<Rightarrow> stamp list \<Rightarrow> (nat \<Rightarrow> f64 option) \<Rightarrow> bool" where
  "stamps_ok clock xs recorded \<longleftrightarrow>
     distinct (map fst xs)
     \<and> (\<forall>x\<in>set xs. \<forall>y\<in>set xs. x \<noteq> y \<longrightarrow> apart x y)
     \<and> (\<forall>(i, h, t)\<in>set xs. is_finite t \<and> (\<exists>l. recorded h = Some l \<and> t \<le> l))
     \<and> (\<forall>h l. recorded h = Some l \<longrightarrow> is_finite l \<and> l \<le> clock)"

lemma observed_recently_earlier:
  assumes "\<not> observed_recently now h l" "t \<le> l" "is_finite now" "is_finite l" "is_finite t"
  shows "\<not> observed_recently now h t"
proof -
  obtain n a b where fin: "now = Fin n" "l = Fin a" "t = Fin b"
    using assms(3-5) by (auto simp: is_finite_iff)
  then have "f_sub now l = rnd (n - a)" "f_sub now t = rnd (n - b)" "b \<le> a"
    using assms(2) by (simp_all add: fin_ops)
  then have "f_sub now l \<le> f_sub now t" "f_sub now l \<noteq> NaN" "f_sub now t \<noteq> NaN"
    by (simp_all add: rnd_mono rnd_not_nan)
  then have "f_add (f_sub now l) f_epsilon \<le> f_add (f_sub now t) f_epsilon"
    "f_add (f_sub now l) f_epsilon \<noteq> NaN"
    using f_add_mono_left [of "f_sub now l" "f_sub now t" f_epsilon]
    by (cases "f_sub now l"; simp add: f_epsilon_def rnd_not_nan)+
  then show ?thesis
    using assms(1) by (auto simp: observed_recently_def f_lt_iff)
qed

lemma stamps_okD:
  assumes "stamps_ok clock xs recorded"
  shows "distinct (map fst xs)" "x \<in> set xs \<Longrightarrow> y \<in> set xs \<Longrightarrow> x \<noteq> y \<Longrightarrow> apart x y"
    "(i, h, t) \<in> set xs \<Longrightarrow> is_finite t \<and> (\<exists>l. recorded h = Some l \<and> t \<le> l)"
    "recorded h = Some l \<Longrightarrow> is_finite l \<and> l \<le> clock"
  using assms by (auto simp: stamps_ok_def)

lemma stamps_okI:
  assumes "distinct (map fst xs)" "\<And>x y. x \<in> set xs \<Longrightarrow> y \<in> set xs \<Longrightarrow> x \<noteq> y \<Longrightarrow> apart x y"
    "\<And>i h t. (i, h, t) \<in> set xs \<Longrightarrow> is_finite t \<and> (\<exists>l. recorded h = Some l \<and> t \<le> l)"
    "\<And>h l. recorded h = Some l \<Longrightarrow> is_finite l \<and> l \<le> clock"
  shows "stamps_ok clock xs recorded"
  using assms by (auto simp: stamps_ok_def)

lemma stamps_ok_record:
  assumes "stamps_ok clock xs recorded" "clock \<le> now" "is_finite now" "i \<notin> set (map fst xs)"
    "\<not> is_some_and (observed_recently now h) (recorded h)"
  shows "stamps_ok now ((i, h, now) # xs) (recorded(h \<mapsto> now))"
proof (rule stamps_okI)
  note old = stamps_okD [OF assms(1)]
  have earlier: "\<not> observed_recently now h t" if "(j, h, t) \<in> set xs" for j t
  proof -
    obtain l where l: "recorded h = Some l" "t \<le> l" "is_finite t"
      using old(3) [OF \<open>(j, h, t) \<in> set xs\<close>] by blast
    then show ?thesis
      using assms(3,5) old(4) [OF l(1)] observed_recently_earlier [of now h l t] by (simp add: is_some_and_def)
  qed
  have new: "apart (i, h, now) x \<and> apart x (i, h, now)" if "x \<in> set xs" for x
  proof -
    obtain j k t where x: "x = (j, k, t)" by (cases x)
    then show ?thesis
      using that earlier [of j t] by (auto simp: apart_def)
  qed
  show "apart x y" if "x \<in> set ((i, h, now) # xs)" "y \<in> set ((i, h, now) # xs)" "x \<noteq> y" for x y
    using that new old(2) by (metis set_ConsD)
  show "distinct (map fst ((i, h, now) # xs))"
    using assms(4) old(1) by simp
  show "is_finite l \<and> l \<le> now" if "(recorded(h \<mapsto> now)) k = Some l" for k l
    using that assms(2,3) old(4) by (force split: if_splits intro: order_trans)
  show "is_finite t \<and> (\<exists>l. (recorded(h \<mapsto> now)) k = Some l \<and> t \<le> l)" if "(j, k, t) \<in> set ((i, h, now) # xs)" for j k t
  proof (cases "(j, k, t) = (i, h, now)")
    case True
    then show ?thesis using assms(3) by simp
  next
    case False
    then obtain l where l: "recorded k = Some l" "t \<le> l" "is_finite t"
      using \<open>(j, k, t) \<in> set ((i, h, now) # xs)\<close> old(3) by (metis set_ConsD)
    then have "t \<le> now"
      using old(4) [OF l(1)] assms(2) by (meson order_trans)
    then show ?thesis using l by simp
  qed
qed

lemma stamps_ok_subset:
  assumes "stamps_ok clock xs recorded" "set ys \<subseteq> set xs" "distinct (map fst ys)" "clock \<le> now"
  shows "stamps_ok now ys recorded"
proof (rule stamps_okI)
  note old = stamps_okD [OF assms(1)]
  show "distinct (map fst ys)" by (rule assms(3))
  show "apart x y" if "x \<in> set ys" "y \<in> set ys" "x \<noteq> y" for x y
    using that assms(2) old(2) by blast
  show "is_finite t \<and> (\<exists>l. recorded h = Some l \<and> t \<le> l)" if "(i, h, t) \<in> set ys" for i h t
    using that assms(2) old(3) by blast
  show "is_finite l \<and> l \<le> now" if "recorded h = Some l" for h l
    using old(4) [OF that] assms(4) by (meson order_trans)
qed


lemma record_horizon_ok:
  assumes "stamps_ok now (stamps s) (cs_last_recorded_by_horizon s)" "is_finite now"
    and "observation_id fresh h \<notin> set (map fst (stamps s))"
    and "record_horizon (new_observation fresh signal m regime cost c now) now h (n, s) = (n', s')"
  shows "stamps_ok now (stamps s') (cs_last_recorded_by_horizon s')
    \<and> set (map fst (stamps s')) \<subseteq> insert (observation_id fresh h) (set (map fst (stamps s)))
    \<and> cs_resolved s' = cs_resolved s
    \<and> set (cs_pending s') \<subseteq> insert (new_observation fresh signal m regime cost c now h) (set (cs_pending s))"
proof (cases "is_some_and (observed_recently now h) (cs_last_recorded_by_horizon s h)")
  case True
  then show ?thesis
    using assms by (auto simp: record_horizon_def)
next
  case False
  define i where "i = observation_id fresh h"
  have stamp: "po_observation_id (new_observation fresh signal m regime cost c now h) = i"
    "po_horizon_seconds (new_observation fresh signal m regime cost c now h) = h"
    "po_created_at (new_observation fresh signal m regime cost c now h) = now"
    by (simp_all add: new_observation_def i_def)
  have s': "s' = s\<lparr>cs_pending := cs_pending s @ [new_observation fresh signal m regime cost c now h],
      cs_last_recorded_by_horizon := (cs_last_recorded_by_horizon s)(h \<mapsto> now)\<rparr>"
    using assms(4) False by (simp add: record_horizon_def)
  have "stamps_ok now ((i, h, now) # stamps s) ((cs_last_recorded_by_horizon s)(h \<mapsto> now))"
    using assms(1-3) False by (intro stamps_ok_record [of now]) (simp_all add: i_def)
  moreover have "set (stamps s') = insert (i, h, now) (set (stamps s))" "distinct (map fst (stamps s'))"
    using assms(3) stamps_okD(1) [OF assms(1)]
    by (auto simp: s' stamps_def stamp comp_def image_iff i_def [symmetric])
  ultimately have "stamps_ok now (stamps s') (cs_last_recorded_by_horizon s')"
    using stamps_ok_subset [of now "(i, h, now) # stamps s" _ "stamps s'" now] by (simp add: s')
  then show ?thesis
    by (auto simp: s' stamps_def stamp i_def)
qed

lemma fold_record_horizon:
  assumes "stamps_ok now (stamps s) (cs_last_recorded_by_horizon s)" "is_finite now" "distinct hs"
    and "inj_on (observation_id fresh) (set hs)"
    and "\<And>h. h \<in> set hs \<Longrightarrow> observation_id fresh h \<notin> set (map fst (stamps s))"
    and "fold (record_horizon (new_observation fresh signal m regime cost c now) now) hs (n, s) = (n', s')"
  shows "stamps_ok now (stamps s') (cs_last_recorded_by_horizon s') \<and> cs_resolved s' = cs_resolved s
    \<and> set (cs_pending s') \<subseteq> set (cs_pending s) \<union> new_observation fresh signal m regime cost c now ` set hs"
  using assms
proof (induction hs arbitrary: n s)
  case (Cons h hs)
  define observe where "observe = new_observation fresh signal m regime cost c now"
  obtain n1 s1 where step: "record_horizon observe now h (n, s) = (n1, s1)"
    by (cases "record_horizon observe now h (n, s)")
  have ok: "stamps_ok now (stamps s1) (cs_last_recorded_by_horizon s1)"
    and ids: "set (map fst (stamps s1)) \<subseteq> insert (observation_id fresh h) (set (map fst (stamps s)))"
    and kept: "cs_resolved s1 = cs_resolved s" "set (cs_pending s1) \<subseteq> insert (observe h) (set (cs_pending s))"
    using record_horizon_ok [OF Cons.prems(1,2) _ step [unfolded observe_def]] Cons.prems(5) by (auto simp: observe_def)
  have "stamps_ok now (stamps s') (cs_last_recorded_by_horizon s') \<and> cs_resolved s' = cs_resolved s1
    \<and> set (cs_pending s') \<subseteq> set (cs_pending s1) \<union> observe ` set hs"
    unfolding observe_def
  proof (rule Cons.IH [OF ok Cons.prems(2)])
    show "distinct hs" "inj_on (observation_id fresh) (set hs)"
      using Cons.prems(3,4) by auto
    show "observation_id fresh k \<notin> set (map fst (stamps s1))" if "k \<in> set hs" for k
    proof -
      have "observation_id fresh k \<noteq> observation_id fresh h"
        using Cons.prems(3,4) that by (auto simp: inj_on_def)
      then show ?thesis
        using ids Cons.prems(5) [of k] that by auto
    qed
    show "fold (record_horizon (new_observation fresh signal m regime cost c now) now) hs (n1, s1) = (n', s')"
      using Cons.prems(6) step by (simp add: observe_def)
  qed
  then show ?case
    using kept by (auto simp: observe_def)
qed simp


lemma settle_observations_eq:
  "settle_observations fate ps =
     (filter (\<lambda>p. fate p = StillWaits) ps,
      List.map_filter (\<lambda>p. case fate p of IsResolved r \<Rightarrow> Some r | _ \<Rightarrow> None) ps,
      length (filter (\<lambda>p. fate p = HasExpired) ps))"
  by (induction ps) (auto simp: List.map_filter_simps split: observation_fate.splits)

lemma fate_resolved:
  assumes "observation_fate_of snapshots now p = IsResolved r"
  shows "ro_observation_id r = po_observation_id p \<and> ro_horizon_seconds r = po_horizon_seconds p
    \<and> ro_created_at r = po_created_at p \<and> ro_resolved_at r = now \<and> \<not> f_lt now (po_due_at p)"
  using assms by (auto simp: observation_fate_of_def Let_def split: if_splits option.splits)

lemma resolved_stamps:
  "map (\<lambda>r. (ro_observation_id r, ro_horizon_seconds r, ro_created_at r))
     (List.map_filter (\<lambda>p. case observation_fate_of snapshots now p of IsResolved r \<Rightarrow> Some r | _ \<Rightarrow> None) ps) =
   map (\<lambda>p. (po_observation_id p, po_horizon_seconds p, po_created_at p))
     (filter (\<lambda>p. \<exists>r. observation_fate_of snapshots now p = IsResolved r) ps)"
  by (induction ps) (auto simp: List.map_filter_simps fate_resolved split: observation_fate.splits)

text \<open>The invariant of the ledgers.\<close>

definition calibration_ok :: "calibration_config \<Rightarrow> f64 \<Rightarrow> calibration_state \<Rightarrow> bool" where
  "calibration_ok c clock s \<longleftrightarrow>
     stamps_ok clock (stamps s) (cs_last_recorded_by_horizon s)
     \<and> length (cs_pending s) \<le> hc_ledger_size c \<and> length (cs_resolved s) \<le> hc_ledger_size c
     \<and> (\<forall>p\<in>set (cs_pending s). po_due_at p = f_add (po_created_at p) (f_of_nat (po_horizon_seconds p)))
     \<and> (\<forall>r\<in>set (cs_resolved s). \<not> f_lt (ro_resolved_at r) (f_add (ro_created_at r) (f_of_nat (ro_horizon_seconds r))))"

lemma calibration_ok_later: "calibration_ok c clock s \<Longrightarrow> clock \<le> now \<Longrightarrow> calibration_ok c now s"
  using stamps_ok_subset [of clock "stamps s" _ "stamps s" now]
  by (auto simp: calibration_ok_def stamps_ok_def)

lemma resolve_observations_ok:
  assumes "calibration_ok c clock s" "clock \<le> now" "resolve_observations snapshots c now s = (counts, s')"
  shows "calibration_ok c now s'"
proof -
  define stamp where "stamp = (\<lambda>p::pending_observation. (po_observation_id p, po_horizon_seconds p, po_created_at p))"
  define stamp' where "stamp' = (\<lambda>r::resolved_observation. (ro_observation_id r, ro_horizon_seconds r, ro_created_at r))"
  define fate where "fate = observation_fate_of snapshots now"
  define resolved where "resolved = List.map_filter (\<lambda>p. case fate p of IsResolved r \<Rightarrow> Some r | _ \<Rightarrow> None) (cs_pending s)"
  have s': "cs_pending s' = filter (\<lambda>p. fate p = StillWaits) (cs_pending s)"
    "cs_resolved s' = keep_last (hc_ledger_size c) (cs_resolved s @ resolved)"
    "cs_last_recorded_by_horizon s' = cs_last_recorded_by_horizon s"
    using assms(3) by (auto simp: resolve_observations_def settle_observations_eq Let_def fate_def resolved_def)
  have new: "map stamp' resolved = map stamp (filter (\<lambda>p. \<exists>r. fate p = IsResolved r) (cs_pending s))"
    unfolding resolved_def stamp_def stamp'_def fate_def by (rule resolved_stamps)
  have old: "stamps_ok clock (stamps s) (cs_last_recorded_by_horizon s)"
    using assms(1) by (simp add: calibration_ok_def)
  have now: "stamps s' = map stamp (cs_pending s') @ map stamp' (cs_resolved s')"
    "stamps s = map stamp (cs_pending s) @ map stamp' (cs_resolved s)"
    by (simp_all add: stamps_def stamp_def stamp'_def)
  have in_old: "set (cs_resolved s') \<subseteq> set (cs_resolved s) \<union> set resolved"
    using set_keep_last [of _ "cs_resolved s @ resolved"] by (auto simp: s')
  have "stamp' ` set resolved \<subseteq> stamp ` set (cs_pending s)"
    using arg_cong [OF new, of set] by auto
  then have "stamp' ` set (cs_resolved s') \<subseteq> set (stamps s)"
    using image_mono [OF in_old, of stamp'] unfolding now by (simp add: image_Un) blast
  then have "set (stamps s') \<subseteq> set (stamps s)"
    unfolding now(1) using s'(1) by (auto simp: now(2))
  moreover have "distinct (map fst (stamps s'))"
  proof -
    have "distinct (map (fst \<circ> stamp) (filter (\<lambda>p. fate p = StillWaits) (cs_pending s))
        @ map (fst \<circ> stamp') (cs_resolved s) @ map (fst \<circ> stamp) (filter (\<lambda>p. \<exists>r. fate p = IsResolved r) (cs_pending s)))"
      by (rule distinct_map_split) (use stamps_okD(1) [OF old] in \<open>auto simp: now(2)\<close>)
    moreover have "map (fst \<circ> stamp) (filter (\<lambda>p. \<exists>r. fate p = IsResolved r) (cs_pending s)) = map (fst \<circ> stamp') resolved"
      using arg_cong [OF new, of "map fst"] by simp
    ultimately have "distinct (map (fst \<circ> stamp) (cs_pending s') @ map (fst \<circ> stamp') (cs_resolved s @ resolved))"
      by (simp add: s')
    then have "distinct (map (fst \<circ> stamp) (cs_pending s') @ map (fst \<circ> stamp') (cs_resolved s'))"
      unfolding s'(2) map_keep_last by (rule distinct_append_drop)
    then show ?thesis by (simp add: now(1))
  qed
  ultimately have "stamps_ok now (stamps s') (cs_last_recorded_by_horizon s')"
    unfolding s'(3) by (intro stamps_ok_subset [OF old _ _ assms(2)])
  moreover have "\<not> f_lt (ro_resolved_at r) (f_add (ro_created_at r) (f_of_nat (ro_horizon_seconds r)))"
    if "r \<in> set resolved" for r
  proof -
    obtain p where p: "p \<in> set (cs_pending s)"
      "(case fate p of IsResolved r \<Rightarrow> Some r | _ \<Rightarrow> None) = Some r"
      using \<open>r \<in> set resolved\<close> unfolding resolved_def set_map_filter by blast
    then have "fate p = IsResolved r"
      by (cases "fate p") auto
    then show ?thesis
      using fate_resolved [of snapshots now p r] p(1) assms(1) by (auto simp: fate_def calibration_ok_def)
  qed
  moreover have "length (cs_pending s') \<le> hc_ledger_size c"
    using assms(1) by (auto simp: s' calibration_ok_def intro: order_trans [OF length_filter_le])
  ultimately show ?thesis
    using assms(1) in_old by (auto simp: calibration_ok_def length_keep_last s')
qed


lemma record_signal_ok:
  assumes "calibration_ok c clock s" "clock \<le> now" "is_finite now" "distinct (hc_horizons_seconds c)"
    and "inj_on (observation_id fresh) (set (hc_horizons_seconds c))"
    and "\<And>h. h \<in> set (hc_horizons_seconds c) \<Longrightarrow> observation_id fresh h \<notin> set (map fst (stamps s))"
    and "record_signal fresh signal m regime cost c now s = (n, s')"
  shows "calibration_ok c now s'"
proof (cases "s' = s")
  case True
  then show ?thesis
    using calibration_ok_later [OF assms(1,2)] by simp
next
  case False
  define observe where "observe = new_observation fresh signal m regime cost c now"
  have ok: "calibration_ok c now s"
    by (rule calibration_ok_later [OF assms(1,2)])
  obtain k s1 where run: "fold (record_horizon observe now) (hc_horizons_seconds c) (0, s) = (k, s1)"
    by (cases "fold (record_horizon observe now) (hc_horizons_seconds c) (0, s)")
  have s': "s' = s1\<lparr>cs_pending := keep_last (hc_ledger_size c) (cs_pending s1)\<rparr>"
    using assms(7) False run by (auto simp: record_signal_def observe_def split: if_splits)
  have s1: "stamps_ok now (stamps s1) (cs_last_recorded_by_horizon s1)" "cs_resolved s1 = cs_resolved s"
    "set (cs_pending s1) \<subseteq> set (cs_pending s) \<union> observe ` set (hc_horizons_seconds c)"
    using fold_record_horizon [OF _ assms(3-6) run [unfolded observe_def]] ok
    by (auto simp: calibration_ok_def observe_def)
  have kept: "set (cs_pending s') \<subseteq> set (cs_pending s1)"
    by (simp add: s' set_keep_last)
  then have "set (stamps s') \<subseteq> set (stamps s1)"
    by (auto simp: stamps_def s')
  moreover have "distinct (map fst (stamps s'))"
  proof -
    have "distinct (map ro_observation_id (cs_resolved s1) @ map po_observation_id (cs_pending s1))"
      using stamps_okD(1) [OF s1(1)] by (auto simp: stamps_def comp_def)
    then have "distinct (map ro_observation_id (cs_resolved s1)
        @ map po_observation_id (keep_last (hc_ledger_size c) (cs_pending s1)))"
      unfolding map_keep_last by (rule distinct_append_drop)
    then show ?thesis
      by (simp add: stamps_def comp_def s' inf_commute)
  qed
  ultimately have "stamps_ok now (stamps s') (cs_last_recorded_by_horizon s')"
    using stamps_ok_subset [OF s1(1)] by (simp add: s')
  moreover have "po_due_at p = f_add (po_created_at p) (f_of_nat (po_horizon_seconds p))"
    if "p \<in> set (cs_pending s')" for p
  proof -
    from that kept s1(3) consider "p \<in> set (cs_pending s)" | h where "p = observe h"
      by blast
    then show ?thesis
      using ok by cases (auto simp: calibration_ok_def observe_def new_observation_def)
  qed
  ultimately show ?thesis
    using ok s1(2) by (auto simp: calibration_ok_def s' length_keep_last)
qed

text \<open>The calibration over time, with a clock that does not run backwards and fresh identifiers.\<close>

inductive calibration_run :: "calibration_config \<Rightarrow> f64 \<Rightarrow> calibration_state \<Rightarrow> bool"
  for c :: calibration_config where
  Begin: "is_finite now \<Longrightarrow> calibration_run c now no_calibration"
| Observe: "calibration_run c clock s \<Longrightarrow> clock \<le> now \<Longrightarrow> is_finite now \<Longrightarrow>
    inj_on (observation_id fresh) (set (hc_horizons_seconds c)) \<Longrightarrow>
    (\<And>h. h \<in> set (hc_horizons_seconds c) \<Longrightarrow> observation_id fresh h \<notin> set (map fst (stamps s))) \<Longrightarrow>
    calibration_run c now
      (record_quant_edge_observations quantitative fills telemetry (config :: trading_config) fresh signal snapshots
         regime c now s)"
| Settle: "calibration_run c clock s \<Longrightarrow> clock \<le> now \<Longrightarrow> is_finite now \<Longrightarrow>
    calibration_run c now (resolve_quant_edge_calibration quantitative snapshots c now s)"

lemma calibration_run_ok:
  assumes "calibration_run c clock s" "distinct (hc_horizons_seconds c)"
  shows "calibration_ok c clock s"
  using assms(1)
proof (induction rule: calibration_run.induct)
  case (Begin now)
  show ?case by (simp add: calibration_ok_def no_calibration_def stamps_ok_def stamps_def)
next
  case (Observe clock s now fresh quantitative fills telemetry config signal snapshots regime)
  then show ?case
    using calibration_ok_later [OF Observe.IH Observe.hyps(2)]
      record_signal_ok [OF Observe.IH Observe.hyps(2,3) assms(2) Observe.hyps(4,5)]
    by (auto simp: record_quant_edge_observations_def split: option.split prod.split
        intro: record_signal_ok [OF Observe.IH Observe.hyps(2,3) assms(2) Observe.hyps(4,5) surjective_pairing])
next
  case (Settle clock s now quantitative snapshots)
  then show ?case
    using calibration_ok_later [OF Settle.IH Settle.hyps(2)]
      resolve_observations_ok [OF Settle.IH Settle.hyps(2) surjective_pairing]
    by (simp add: resolve_quant_edge_calibration_def)
qed

lemma normalised_horizons: "distinct (hc_horizons_seconds (normalise_calibration c))"
  by (simp add: normalise_calibration_def Let_def distinct_remdups_adj)

text \<open>The observations that calibrate the edge do not overlap. Under clamped settings, with a clock that does
  not run backwards and fresh identifiers, any two observations of one horizon that the ledgers hold,
  waiting or resolved, were recorded at least that horizon apart, up to the rounding unit of the code;
  none is counted twice or resolved before its horizon has passed, and both ledgers stay within
  their bound.\<close>
theorem calibration_observations_are_independent:
  assumes "calibration_run (normalise_calibration c) clock s"
  shows "distinct (map fst (stamps s))
    \<and> (\<forall>x\<in>set (stamps s). \<forall>y\<in>set (stamps s). x \<noteq> y \<longrightarrow> apart x y)
    \<and> (\<forall>r\<in>set (cs_resolved s). \<not> f_lt (ro_resolved_at r)
         (f_add (ro_created_at r) (f_of_nat (ro_horizon_seconds r))))
    \<and> length (cs_pending s) \<le> hc_ledger_size (normalise_calibration c)
    \<and> length (cs_resolved s) \<le> hc_ledger_size (normalise_calibration c)"
  using calibration_run_ok [OF assms normalised_horizons] by (simp add: calibration_ok_def stamps_ok_def)

text \<open>A run with an observation.\<close>

definition unary :: "nat \<Rightarrow> string" where
  "unary h = replicate h (CHR ''u'')"

lemma unary_ids: "inj_on (observation_id unary) hs"
proof (rule inj_onI)
  fix x y assume "observation_id unary x = observation_id unary y"
  then have "length (takeWhile (\<lambda>c. c \<noteq> CHR ''-'') (observation_id unary x))
      = length (takeWhile (\<lambda>c. c \<noteq> CHR ''-'') (observation_id unary y))" by simp
  moreover have "takeWhile (\<lambda>c. c \<noteq> CHR ''-'') (observation_id unary h) = unary h" for h
    unfolding observation_id_def by (subst takeWhile_append2) (auto simp: unary_def)
  ultimately show "x = y" by (simp add: unary_def)
qed

theorem calibration_observations_are_independent_witness:
  "\<exists>s. s = record_quant_edge_observations True [] default_telemetry_config promotion_config unary
         (quant_hold []\<lparr>qs_signal := Fin 1, qs_raw_actionable := True, qs_exchange := ''kraken'', qs_symbol := ''BTC/USDT''\<rparr>)
         [promotion_market] ''bull'' (normalise_calibration default_multi_horizon) (Fin 1) no_calibration
     \<and> calibration_run (normalise_calibration default_multi_horizon) (Fin 1) s \<and> distinct (map fst (stamps s))"
proof -
  define s where "s = record_quant_edge_observations True [] default_telemetry_config promotion_config unary
    (quant_hold []\<lparr>qs_signal := Fin 1, qs_raw_actionable := True, qs_exchange := ''kraken'', qs_symbol := ''BTC/USDT''\<rparr>)
    [promotion_market] ''bull'' (normalise_calibration default_multi_horizon) (Fin 1) no_calibration"
  have "calibration_run (normalise_calibration default_multi_horizon) (Fin 0) no_calibration"
    by (rule calibration_run.Begin) simp
  then have "calibration_run (normalise_calibration default_multi_horizon) (Fin 1) s"
    unfolding s_def
    by (rule calibration_run.Observe) (simp_all add: unary_ids no_calibration_def stamps_def less_eq_f64_def)
  then show ?thesis
    using calibration_observations_are_independent s_def by blast
qed

section \<open>What the gate promises\<close>

lemma raw_is_actionable: "qs_raw_actionable (evaluate_symbol p s h) = qs_actionable (evaluate_symbol p s h)"
  by (simp add: evaluate_symbol_def Let_def)

lemma benchmark_not_raw: "\<not> qs_raw_actionable (benchmark_hold_signal p snapshots without reason)"
  by (simp add: benchmark_hold_signal_def quant_hold_def split: option.split)

lemma universe_raw_is_actionable:
  "qs_raw_actionable (evaluate_universe_for_parameters log10 p snapshots features portfolio c)
   = qs_actionable (evaluate_universe_for_parameters log10 p snapshots features portfolio c)"
proof -
  have candidate: "qs_raw_actionable q = qs_actionable q"
    if "find P (map (universe_candidate p features portfolio c) xs) = Some (q, i)" for P xs q i
    using find_found [OF that] by (auto simp: universe_candidate_def Let_def raw_is_actionable)
  show ?thesis
    by (auto simp: evaluate_universe_for_parameters_def Let_def benchmark_not_raw dest: candidate
        split: list.split option.split)
qed

lemma append_gate_rationale_frame [simp]:
  "qs_exchange (append_gate_rationale s) = qs_exchange s" "qs_symbol (append_gate_rationale s) = qs_symbol s"
  "qs_signal (append_gate_rationale s) = qs_signal s" "qs_actionable (append_gate_rationale s) = qs_actionable s"
  "qs_raw_actionable (append_gate_rationale s) = qs_raw_actionable s"
  "qs_selected_horizon_seconds (append_gate_rationale s) = qs_selected_horizon_seconds s"
  "qs_edge_lower_bound_bps (append_gate_rationale s) = qs_edge_lower_bound_bps s"
  "qs_estimated_round_trip_cost_bps (append_gate_rationale s) = qs_estimated_round_trip_cost_bps s"
  "qs_target_weight (append_gate_rationale s) = qs_target_weight s"
  by (simp_all add: append_gate_rationale_def split: option.split)

lemma gate_signal_frame:
  "qs_exchange (gate_signal s regime cost c q) = qs_exchange q" "qs_symbol (gate_signal s regime cost c q) = qs_symbol q"
  "qs_signal (gate_signal s regime cost c q) = qs_signal q"
  "qs_raw_actionable (gate_signal s regime cost c q) = qs_raw_actionable q"
  "qs_target_weight (gate_signal s regime cost c q) = qs_target_weight q"
  "qs_estimated_round_trip_cost_bps (gate_signal s regime cost c q) = cost"
  by (simp_all add: gate_signal_def Let_def split: option.split)

lemma best_edge_found:
  assumes "best_edge s q regime cost c = Some e"
  shows "ee_horizon_seconds e \<in> set (hc_horizons_seconds c)
    \<and> estimate_edge s (qs_symbol q) regime (f_signum (qs_signal q)) (ee_horizon_seconds e) cost c = Some e"
proof -
  have "e \<in> set (List.map_filter (\<lambda>h. estimate_edge s (qs_symbol q) regime (f_signum (qs_signal q)) h cost c)
      (hc_horizons_seconds c))"
    using assms by (simp add: best_edge_def max_by_in)
  then obtain h where h: "h \<in> set (hc_horizons_seconds c)"
    "estimate_edge s (qs_symbol q) regime (f_signum (qs_signal q)) h cost c = Some e"
    by (auto simp: List.map_filter_def)
  then have "ee_horizon_seconds e = h"
    by (auto simp: estimate_edge_def Let_def)
  with h show ?thesis by simp
qed

text \<open>The observations an estimate rests on.\<close>

lemma estimate_edge_evidence:
  assumes "estimate_edge s symbol regime direction h cost c = Some e"
  obtains level obs where "(level, obs) \<in> set (conditioned (comparable (cs_resolved s) direction h) symbol regime)"
    "hc_minimum_samples c \<le> length obs" "ee_samples e = length obs"
    "\<And>r. r \<in> set obs \<Longrightarrow> r \<in> set (cs_resolved s) \<and> ro_horizon_seconds r = h \<and> same_direction (ro_signal r) direction"
    "ee_mean_gross_return_bps e = f_mean (map ro_gross_return_bps obs)"
    "ee_net_lower_bound_bps e = f_sub (ee_gross_lower_bound_bps e) cost"
proof -
  obtain level obs where found: "find (\<lambda>(level, observations). hc_minimum_samples c \<le> length observations)
      (conditioned (comparable (cs_resolved s) direction h) symbol regime) = Some (level, obs)"
    using assms by (auto simp: estimate_edge_def)
  have in_cond: "(level, obs) \<in> set (conditioned (comparable (cs_resolved s) direction h) symbol regime)"
    and enough: "hc_minimum_samples c \<le> length obs"
    using find_found [OF found] by auto
  have "set obs \<subseteq> set (comparable (cs_resolved s) direction h)"
    using in_cond by (auto simp: conditioned_def)
  then have members: "r \<in> set (cs_resolved s) \<and> ro_horizon_seconds r = h \<and> same_direction (ro_signal r) direction"
    if "r \<in> set obs" for r
    using that by (auto simp: comparable_def)
  have "ee_samples e = length obs" "ee_mean_gross_return_bps e = f_mean (map ro_gross_return_bps obs)"
    "ee_net_lower_bound_bps e = f_sub (ee_gross_lower_bound_bps e) cost"
    using assms by (auto simp: estimate_edge_def found Let_def)
  with that [OF in_cond enough] members show ?thesis by blast
qed



text \<open>One observation of the sample market carries its signal.\<close>

definition calibrated_settings :: calibration_config where
  "calibrated_settings = \<lparr>hc_enabled = True, hc_horizons_seconds = [60], hc_expiry_grace_seconds = 60,
     hc_ledger_size = 100, hc_minimum_samples = 1, hc_confidence_z_score = Fin 0, hc_minimum_net_edge_bps = Fin 0,
     hc_require_calibrated_edge = True\<rparr>"

definition calibrated_observation :: resolved_observation where
  "calibrated_observation = \<lparr>ro_observation_id = ''o'', ro_created_at = Fin 0, ro_resolved_at = Fin 60,
     ro_horizon_seconds = 60, ro_exchange = ''binance'', ro_symbol = ''BTC/USDT'', ro_signal = Fin 1,
     ro_confidence = Fin 1, ro_regime = ''bull'', ro_gross_return_bps = Fin 8,
     ro_estimated_round_trip_cost_bps = Fin 0, ro_net_return_bps = Fin 8\<rparr>"

definition calibrated_state :: calibration_state where
  "calibrated_state = no_calibration\<lparr>cs_resolved := [calibrated_observation]\<rparr>"

definition calibrated_migration :: migration_state where
  "calibrated_migration = default_migration_state\<lparr>mg_parameter_sets := [sample_parameters],
     mg_active_parameter_id := ''sample''\<rparr>"

definition no_telemetry :: telemetry_config where
  "no_telemetry = default_telemetry_config\<lparr>et_enabled := False, et_maximum_cost_bps := Fin 1000\<rparr>"

lemma calibrated_edge:
  assumes "qs_symbol q = ''BTC/USDT''" "qs_signal q = Fin 1"
  shows "\<exists>e. best_edge calibrated_state q ''bull'' (Fin 0) calibrated_settings = Some e
    \<and> ee_net_lower_bound_bps e = Fin 8"
proof -
  have "ro_horizon_seconds calibrated_observation = 60" "ro_signal calibrated_observation = Fin 1"
    "ro_symbol calibrated_observation = ''BTC/USDT''" "ro_regime calibrated_observation = ''bull''"
    "ro_gross_return_bps calibrated_observation = Fin 8"
    by (simp_all add: calibrated_observation_def)
  then show ?thesis
    using assms
    by (simp add: best_edge_def calibrated_settings_def calibrated_state_def no_calibration_def estimate_edge_def
        comparable_def conditioned_def same_direction_def f_signum_def f_mean_def f_sum_def fin_ops small_rnd
        f_of_nat_def variance_of_def f_sqrt_zero f_sqrt_one Let_def eq_ignore_ascii_case_def)
qed


end
