(* ===== verification/ElmWorker.thy ===== *)
theory ElmWorker
  imports ElmRegistryContract
begin

text \<open>
  The worker that produces models, \<^verbatim>\<open>src/src/elm/worker.rs\<close>: the scan that lets evidence-qualified shadow
  models into a bounded canary, and the durable queue of training jobs, from a job file to the
  records of the registry.

  The directory of jobs is a list of files in the order of their paths. Training, the JSON forms of a
  report and their digest are parameters, as is what other processes do to the shared registry before
  each of its operations.
\<close>

section \<open>Jobs\<close>

datatype job_state =
  Job_Queued | Job_Running | Job_Trained | Job_Evaluating | Job_Completed | Job_Failed | Job_Cancelled

record training_job =
  tj_job_id :: string
  tj_idempotency_key :: string
  tj_manifest_path :: string
  tj_task_id :: string
  tj_dataset_revision :: string
  tj_split_specification :: string
  tj_search_space :: string
  tj_compute_budget_seconds :: nat
  tj_retry_limit :: nat
  tj_state :: job_state
  tj_retries :: nat
  tj_created_at :: u64
  tj_updated_at :: u64
  tj_model_id :: "string option"
  tj_error :: "string option"

datatype job_content = Unparsed | Parsed training_job

record trained_evaluation =
  te_artifact :: elm_artifact
  te_report :: training_evaluation_report

definition elm_error_text :: "elm_error \<Rightarrow> string" where
  "elm_error_text e =
     (case e of
        InvalidInput m \<Rightarrow> ''invalid ELM input: '' @ m
      | Numerical m \<Rightarrow> ''ELM numerical error: '' @ m
      | ArtifactError m \<Rightarrow> ''ELM artifact error: '' @ m
      | SchemaMismatch \<Rightarrow> ''feature schema mismatch''
      | Uncalibrated \<Rightarrow> ''classification artifact is not calibrated''
      | QueueFull \<Rightarrow> ''bounded ELM inference queue is full''
      | RevisionConflict \<Rightarrow> ''model registry revision changed'')"

definition new_job :: "string \<Rightarrow> u64 \<Rightarrow> string \<Rightarrow> string \<Rightarrow> string \<Rightarrow> nat \<Rightarrow> nat \<Rightarrow> training_job" where
  "new_job fresh_id now manifest_path task_id digest retry_limit compute_budget_seconds =
     \<lparr>tj_job_id = fresh_id, tj_idempotency_key = task_id @ '':'' @ digest, tj_manifest_path = manifest_path,
      tj_task_id = task_id, tj_dataset_revision = digest,
      tj_split_specification = ''chronological_grouped_60_15_15_10_embargo_v1'',
      tj_search_space = ''elm_hidden=[32,64,128,256];baseline=ridge_or_logistic;lambda=1e-3'',
      tj_compute_budget_seconds = compute_budget_seconds, tj_retry_limit = retry_limit, tj_state = Job_Queued,
      tj_retries = 0, tj_created_at = now, tj_updated_at = now, tj_model_id = None, tj_error = None\<rparr>"

definition task_disabled :: "elm_config \<Rightarrow> string \<Rightarrow> bool" where
  "task_disabled config task_id \<longleftrightarrow>
     effective_mode config task_id = Mode_Off \<or> is_none_or (\<lambda>t. \<not> tc_allowed t) (get_task config task_id)"

text \<open>A manifest as the discovery sees it: permission, task and digest, when the file loads.\<close>

record job_manifest =
  jm_permitted :: bool
  jm_task_id :: string
  jm_digest :: "string option"

definition discover_automatic_job ::
  "elm_config \<Rightarrow> (string \<Rightarrow> job_manifest option) \<Rightarrow> string \<Rightarrow> u64 \<Rightarrow> bool \<Rightarrow> job_content btree \<Rightarrow> job_content btree" where
  "discover_automatic_job config load_manifest fresh_id now written jobs =
     (if \<not> lc_automatic_training (ec_lifecycle config) \<or> ec_mode config = Mode_Off then jobs
      else case Option.bind (ec_dataset_manifest config) load_manifest of
        None \<Rightarrow> jobs
      | Some m \<Rightarrow>
          if \<not> jm_permitted m \<or> task_disabled config (jm_task_id m) then jobs
          else case jm_digest m of
            None \<Rightarrow> jobs
          | Some digest \<Rightarrow>
              let path = ''auto-'' @ take 24 digest @ ''.json''
              in if path \<in> fst ` set jobs \<or> \<not> written then jobs
                 else bt_insert path (Parsed (new_job fresh_id now (unwrap_or [] (ec_dataset_manifest config))
                   (jm_task_id m) digest (bu_max_training_retries (ec_budgets config))
                   (bu_max_training_seconds (ec_budgets config)))) jobs)"

section \<open>The canary scan\<close>

text \<open>What the worker reads of a stored report: its value and the digest of its canonical form.\<close>

record report_codec =
  rc_parse :: "string \<Rightarrow> training_evaluation_report option"
  rc_hash :: "training_evaluation_report \<Rightarrow> string option"
  rc_render :: "training_evaluation_report \<Rightarrow> elm_error + string"

definition verified_report ::
  "report_codec \<Rightarrow> registry_env \<Rightarrow> string \<Rightarrow> disk \<Rightarrow> registry_state \<Rightarrow> training_evaluation_report option" where
  "verified_report R E model_id d s =
     (case evaluation_bytes E model_id d s of
        Inl _ \<Rightarrow> None
      | Inr raw \<Rightarrow>
          Option.bind (rc_parse R raw) (\<lambda>report.
          Option.bind (rc_hash R (report\<lparr>tr_report_sha256 := []\<rparr>)) (\<lambda>hash.
            if tr_report_sha256 report = hash then Some report else None)))"

definition task_admits_canary ::
  "elm_config \<Rightarrow> u64 \<Rightarrow> registry_state \<Rightarrow> registry_record \<Rightarrow> elm_task_config \<Rightarrow> bool" where
  "task_admits_canary config now s r task \<longleftrightarrow>
     tc_allowed task \<and> effective_mode config (rr_task_id r) = Mode_Auto \<and> \<not> tc_max_stage task < Stage_Canary
     \<and> \<not> f_le (tc_influence_cap task) (Fin 0)
     \<and> \<not> unat now - unat (rr_updated_at r) < lc_minimum_dwell_seconds (ec_lifecycle config)
     \<and> (case get_policy config (tc_promotion_policy task) of
          None \<Rightarrow> False
        | Some policy \<Rightarrow>
            is_complete policy
            \<and> \<not> f_lt (unwrap_or (Fin 0) (pp_canary_fraction policy)) (tc_rollout_fraction task)
            \<and> \<not> f_le (unwrap_or (Fin 0) (pp_authorised_influence policy)) (Fin 0)
            \<and> unwrap_or 0 (pp_canary_max_decisions policy) \<noteq> 0
            \<and> unat (canary_decisions s (rr_model_id r)) < unwrap_or 0 (pp_canary_max_decisions policy))"

definition live_influence_barred :: "elm_config \<Rightarrow> bool \<Rightarrow> string \<Rightarrow> bool" where
  "live_influence_barred config live task_id \<longleftrightarrow>
     task_id \<in> {''quant_net_edge'', ''trading_advisory''} \<and> live \<and> \<not> et_allow_live_influence (ec_trading config)"

definition report_supports ::
  "elm_config \<Rightarrow> registry_record \<Rightarrow> elm_artifact \<Rightarrow> training_evaluation_report \<Rightarrow> bool" where
  "report_supports config r champ report \<longleftrightarrow>
     tr_qualified report \<and> \<not> tr_fixture_only report \<and> tr_task_id report = rr_task_id r
     \<and> tr_dataset_digest report = mm_dataset_digest (ea_metadata champ)
     \<and> qr_qualified (evaluate_qualification config (rr_task_id r) champ report)"

definition may_enter_canary ::
  "report_codec \<Rightarrow> registry_env \<Rightarrow> elm_config \<Rightarrow> bool \<Rightarrow> u64 \<Rightarrow> registry_record \<Rightarrow> disk \<Rightarrow> registry_state \<Rightarrow> bool" where
  "may_enter_canary R E config live now r d s \<longleftrightarrow>
     rr_stage r = Shadow \<and> \<not> rr_fixture_only r
     \<and> is_some_and (task_admits_canary config now s r) (get_task config (rr_task_id r))
     \<and> \<not> live_influence_barred config live (rr_task_id r)
     \<and> is_some_and (\<lambda>champ. mm_model_id (ea_metadata champ) = rr_model_id r \<and> ea_content_sha256 champ = rr_digest r
         \<and> is_some_and (report_supports config r champ) (verified_report R E (rr_model_id r) d s))
         (champion s (rr_task_id r))"

text \<open>
  The scan works on the records as they were when it began. Other processes act on the shared
  directory before the evidence of a record is read, and again before the promotion is written.
\<close>

record scan_weather =
  sc_before :: "registry_record \<Rightarrow> disk \<Rightarrow> disk"
  sc_meanwhile :: "registry_record \<Rightarrow> disk \<Rightarrow> disk"
  sc_write :: "registry_record \<Rightarrow> write_outcome"

definition advance_record ::
  "report_codec \<Rightarrow> registry_env \<Rightarrow> scan_weather \<Rightarrow> elm_config \<Rightarrow> bool \<Rightarrow> u64 \<Rightarrow> registry_record \<Rightarrow> disk \<Rightarrow>
     registry_state \<Rightarrow> bool reg_result" where
  "advance_record R E W config live now r d s =
     (let d = sc_before W r d
      in if \<not> may_enter_canary R E config live now r d s then (Inr False, d, s)
         else case promote E now (sc_write W r) (rr_model_id r) Canary (rf_revision (rs_file s))
                ''automatically entered bounded canary after verified qualification and shadow dwell''
                (sc_meanwhile W r d) s of
                (Inr _, d', s') \<Rightarrow> (Inr True, d', s')
              | (Inl RevisionConflict, d', s') \<Rightarrow> (Inr False, d', s')
              | (Inl e, d', s') \<Rightarrow> (Inl e, d', s'))"

fun advance_records ::
  "report_codec \<Rightarrow> registry_env \<Rightarrow> scan_weather \<Rightarrow> elm_config \<Rightarrow> bool \<Rightarrow> u64 \<Rightarrow> registry_record list \<Rightarrow> nat \<Rightarrow>
     disk \<Rightarrow> registry_state \<Rightarrow> nat reg_result" where
  "advance_records R E W config live now [] promoted d s = (Inr promoted, d, s)"
| "advance_records R E W config live now (r # rs) promoted d s =
     (case advance_record R E W config live now r d s of
        (Inl e, d', s') \<Rightarrow> (Inl e, d', s')
      | (Inr up, d', s') \<Rightarrow>
          advance_records R E W config live now rs (if up then promoted + 1 else promoted) d' s')"

definition advance_shadow_models_to_canary ::
  "report_codec \<Rightarrow> registry_env \<Rightarrow> scan_weather \<Rightarrow> elm_config \<Rightarrow> bool \<Rightarrow> u64 \<Rightarrow> disk \<Rightarrow> registry_state \<Rightarrow>
     nat reg_result" where
  "advance_shadow_models_to_canary R E W config live now d s =
     (case refresh E d s of
        (Inl e, d, s) \<Rightarrow> (Inl e, d, s)
      | (Inr _, d, s) \<Rightarrow>
          if \<not> lc_automatic_promotion (ec_lifecycle config) then (Inr 0, d, s)
          else advance_records R E W config live now (rf_records (rs_file s)) 0 d s)"

section \<open>A finished training\<close>

definition then_registry :: "'a reg_result \<Rightarrow> ('a \<Rightarrow> disk \<Rightarrow> registry_state \<Rightarrow> 'b reg_result) \<Rightarrow> 'b reg_result" where
  "then_registry res f = (case res of (Inl e, d, s) \<Rightarrow> (Inl e, d, s) | (Inr x, d, s) \<Rightarrow> f x d s)"

text \<open>The registry operations of one job, numbered: others act before, and each write has an outcome.\<close>

record registry_weather =
  rw_other :: "nat \<Rightarrow> disk \<Rightarrow> disk"
  rw_write :: "nat \<Rightarrow> write_outcome"

definition finished_report ::
  "report_codec \<Rightarrow> qualification_result \<Rightarrow> training_evaluation_report \<Rightarrow> elm_error + training_evaluation_report" where
  "finished_report R q report =
     (let report = report\<lparr>tr_qualified := qr_qualified q, tr_qualification_reasons := qr_reason_codes q,
            tr_report_sha256 := []\<rparr>
      in case rc_hash R report of
           None \<Rightarrow> Inl (ArtifactError ''report cannot be serialised'')
         | Some hash \<Rightarrow> Inr (report\<lparr>tr_report_sha256 := hash\<rparr>))"

definition qualify_record ::
  "registry_env \<Rightarrow> registry_weather \<Rightarrow> elm_config \<Rightarrow> u64 \<Rightarrow> string \<Rightarrow> string \<Rightarrow> bool \<Rightarrow> disk \<Rightarrow> registry_state \<Rightarrow>
     unit reg_result" where
  "qualify_record E W config now model_id task_id qualified d s =
     (if \<not> qualified \<or> \<not> lc_automatic_promotion (ec_lifecycle config) then (Inr (), d, s)
      else then_registry (promote E now (rw_write W 3) model_id Qualified (rf_revision (rs_file s))
             ''automatically qualified by the configured evidence policy'' (rw_other W 3 d) s) (\<lambda>_ d s.
           if config_max_stage config task_id < Stage_Shadow then (Inr (), d, s)
           else then_registry (promote E now (rw_write W 4) model_id Shadow (rf_revision (rs_file s))
             ''automatically entered the authorised shadow stage'' (rw_other W 4 d) s) (\<lambda>_ d s. (Inr (), d, s))))"

definition finish_success ::
  "report_codec \<Rightarrow> registry_env \<Rightarrow> registry_weather \<Rightarrow> elm_config \<Rightarrow> u64 \<Rightarrow> training_job \<Rightarrow> trained_evaluation \<Rightarrow>
     disk \<Rightarrow> registry_state \<Rightarrow> training_job reg_result" where
  "finish_success R E W config now job result d s =
     (let artifact = te_artifact result; model_id = mm_model_id (ea_metadata artifact);
          q = evaluate_qualification config (tj_task_id job) artifact (te_report result)
      in case and_then (finished_report R q (te_report result)) (rc_render R) of
           Inl e \<Rightarrow> (Inl e, d, s)
         | Inr bytes \<Rightarrow>
             then_registry (publish_candidate E now (rw_write W 0) (rw_write W 5) artifact (rf_revision (rs_file s))
               (rw_other W 0 d) s) (\<lambda>r d s.
             then_registry (store_evaluation E (rw_write W 1) model_id bytes (rw_other W 1 d) s) (\<lambda>_ d s.
             then_registry (mark_evaluated E now (rw_write W 2) model_id (rf_revision (rs_file s))
               (if qr_qualified q then ''independent final evaluation passed every configured evidence gate''
                else ''evaluation completed; qualification withheld by evidence gates'') (rw_other W 2 d) s) (\<lambda>_ d s.
             then_registry (qualify_record E W config now model_id (tj_task_id job) (qr_qualified q) d s) (\<lambda>_ d s.
               if tj_task_id job \<noteq> rr_task_id r \<or> en_max_bytes E < length bytes
               then (Inl (ArtifactError ''job artifact/report scope validation failed''), d, s)
               else (Inr (job\<lparr>tj_model_id := Some model_id,
                       tj_error := (if qr_qualified q then None
                         else Some (''evaluation completed without qualification: ''
                           @ join_with '','' (qr_reason_codes q)))\<rparr>), d, s))))))"

section \<open>The queue\<close>

text \<open>
  The result of one file: nothing, when the scan goes on to the next, or the answer of the scan; with
  the file after it. A job is written through \<open>save\<close>, which may fail.
\<close>

type_synonym job_result = "(elm_error + bool) option \<times> job_content \<times> disk \<times> registry_state"

record worker_answers =
  wa_now :: u64
  wa_save :: "training_job \<Rightarrow> bool"
  wa_fit :: "training_job \<Rightarrow> (elm_error + trained_evaluation) option"
  wa_refresh_other :: "disk \<Rightarrow> disk"
  wa_weather :: registry_weather

definition write_job ::
  "worker_answers \<Rightarrow> training_job \<Rightarrow> (job_content \<Rightarrow> job_result) \<Rightarrow> job_content \<Rightarrow> disk \<Rightarrow> registry_state \<Rightarrow>
     job_result" where
  "write_job a job next content d s =
     (if wa_save a job then next (Parsed job)
      else (Some (Inl (ArtifactError ''job write failed'')), content, d, s))"

definition settled_stage :: "lifecycle_stage \<Rightarrow> bool" where
  "settled_stage stage \<longleftrightarrow> stage \<in> {Evaluated, Qualified, Shadow, Canary, Active}"

definition train_job ::
  "report_codec \<Rightarrow> registry_env \<Rightarrow> worker_answers \<Rightarrow> elm_config \<Rightarrow> training_job \<Rightarrow> job_content \<Rightarrow> disk \<Rightarrow>
     registry_state \<Rightarrow> job_result" where
  "train_job R E a config job content d s =
     (let job = job\<lparr>tj_state := Job_Running, tj_updated_at := wa_now a, tj_error := None\<rparr>
      in write_job a job (\<lambda>content.
         case wa_fit a job of
           None \<Rightarrow> (Some (Inl (Numerical ''training task failed'')), content, d, s)
         | Some (Inl e) \<Rightarrow>
             let retries = min (tj_retries job + 1) usize_max;
                 job = job\<lparr>tj_retries := retries,
                   tj_state := (if tj_retry_limit job < retries then Job_Failed else Job_Queued),
                   tj_error := Some (elm_error_text e)\<rparr>
             in write_job a job (\<lambda>content. (Some (Inr True), content, d, s)) content d s
         | Some (Inr result) \<Rightarrow>
             write_job a (job\<lparr>tj_state := Job_Trained\<rparr>) (\<lambda>content.
             write_job a (job\<lparr>tj_state := Job_Evaluating\<rparr>) (\<lambda>content.
               case refresh E (wa_refresh_other a d) s of
                 (Inl e, d, s) \<Rightarrow> (Some (Inl e), content, d, s)
               | (Inr _, d, s) \<Rightarrow>
                   (case finish_success R E (wa_weather a) config (wa_now a) (job\<lparr>tj_state := Job_Evaluating\<rparr>) result d s of
                      (Inl e, d, s) \<Rightarrow> (Some (Inl e), content, d, s)
                    | (Inr job, d, s) \<Rightarrow>
                        write_job a (job\<lparr>tj_state := Job_Completed\<rparr>) (\<lambda>content. (Some (Inr True), content, d, s))
                          content d s)) content d s) content d s) content d s)"

definition run_job ::
  "report_codec \<Rightarrow> registry_env \<Rightarrow> worker_answers \<Rightarrow> elm_config \<Rightarrow> training_job \<Rightarrow> job_content \<Rightarrow> disk \<Rightarrow>
     registry_state \<Rightarrow> job_result" where
  "run_job R E a config job content d s =
     (if tj_state job \<noteq> Job_Queued then (None, content, d, s)
      else if task_disabled config (tj_task_id job)
      then write_job a (job\<lparr>tj_state := Job_Cancelled, tj_error := Some
             ''task is disabled or not permitted by the configured authority envelope'', tj_updated_at := wa_now a\<rparr>)
             (\<lambda>content. (Some (Inr True), content, d, s)) content d s
      else case Option.bind (find_dataset E d s (tj_task_id job) (tj_dataset_revision job))
                  (\<lambda>r. if settled_stage (rr_stage r) then Some r else None) of
        Some r \<Rightarrow>
          write_job a (job\<lparr>tj_state := Job_Completed, tj_model_id := Some (rr_model_id r), tj_error := None,
              tj_updated_at := wa_now a\<rparr>)
            (\<lambda>content. (Some (Inr True), content, d, s)) content d s
      | None \<Rightarrow> train_job R E a config job content d s)"

definition process_job ::
  "report_codec \<Rightarrow> registry_env \<Rightarrow> (job_content \<Rightarrow> nat) \<Rightarrow> worker_answers \<Rightarrow> elm_config \<Rightarrow> job_content \<Rightarrow> disk \<Rightarrow>
     registry_state \<Rightarrow> job_result" where
  "process_job R E bytes a config content d s =
     (if lc_artifact_max_bytes (ec_lifecycle config) < bytes content then (None, content, d, s)
      else case content of
        Unparsed \<Rightarrow> (None, content, d, s)
      | Parsed job \<Rightarrow>
          if tj_state job = Job_Running
          then let job = job\<lparr>tj_state := Job_Queued,
                     tj_error := Some ''worker restarted; incomplete job safely re-queued''\<rparr>
               in write_job a job (\<lambda>content. run_job R E a config job content d s) content d s
          else run_job R E a config job content d s)"

fun process_next_job ::
  "report_codec \<Rightarrow> registry_env \<Rightarrow> (job_content \<Rightarrow> nat) \<Rightarrow> worker_answers \<Rightarrow> elm_config \<Rightarrow> job_content btree \<Rightarrow>
     disk \<Rightarrow> registry_state \<Rightarrow> (elm_error + bool) \<times> job_content btree \<times> disk \<times> registry_state" where
  "process_next_job R E bytes a config [] d s = (Inr False, [], d, s)"
| "process_next_job R E bytes a config ((path, content) # rest) d s =
     (case process_job R E bytes a config content d s of
        (Some r, content, d, s) \<Rightarrow> (r, (path, content) # rest, d, s)
      | (None, content, d, s) \<Rightarrow>
          (let (r, rest, d, s) = process_next_job R E bytes a config rest d s
           in (r, (path, content) # rest, d, s)))"

end
