(* ===== verification/ElmWorkerSafety.thy ===== *)
theory ElmWorkerSafety
  imports ElmWorker ElmGateSafety
begin

text \<open>
  What the worker guarantees: a canary rests on the evidence of the index it is entered into, the
  queue of jobs is worked off in a bounded number of scans, and where a job is left behind.
\<close>

section \<open>The canary scan\<close>

text \<open>A promotion that succeeds from a coherent cache was decided on the index it changes.\<close>

lemma promote_canary:
  assumes "promote E now w m Canary (rf_revision (rs_file s)) reason d s = (Inr rec, d', s')"
    and "coherent d s"
  shows "disk_file d = rs_file s"
    and "\<exists>i. record_index (rs_file s) m = Some i \<and> stage_at (rs_file s) i = Shadow
      \<and> \<not> rr_fixture_only (rf_records (rs_file s) ! i)
      \<and> stage_at (disk_file d') i = Canary
      \<and> (\<forall>k. k < length (rf_records (rs_file s)) \<longrightarrow> k \<noteq> i \<longrightarrow>
           stage_at (disk_file d') k = stage_at (rs_file s) k
           \<or> authority_stage (stage_at (rs_file s) k) \<and> stage_at (disk_file d') k = Shadow)"
proof -
  show disk: "disk_file d = rs_file s"
    using promote_expected(1) [OF assms] assms(2) by (simp add: coherent_def)
  obtain q sR where q: "refresh_locked E d s = (q, sR)" by (cases "refresh_locked E d s")
  with assms(1) have "\<exists>b. q = Inr b"
    by (auto simp: promote_def split: if_splits sum.splits)
  then have sR: "rs_file sR = rs_file s" using q refresh_current assms(2) disk by auto
  obtain i a nxt c where i: "record_index (rs_file sR) m = Some i"
      and tr: "allowed_transition (stage_at (rs_file sR) i) Canary"
      and fx: "\<not> rr_fixture_only (rf_records (rs_file sR) ! i)"
      and nx: "promote_next E now d sR i m a Canary reason = (nxt, c)" "disk_file d' = nxt"
    using assms(1) q
    by (auto simp: promote_def Let_def stage_at_def serving_stage_def split: if_splits sum.splits
        prod.splits option.splits dest!: commit_ok)
  note recs = promote_next_records [OF nx(1) i]
  have dm: "demoted (rs_file s) u m = Some j \<Longrightarrow> j < length (rf_records (rs_file s))
      \<and> authority_stage (stage_at (rs_file s) j)" for u j
    using demoted_Some by blast
  have il: "i < length (rf_records (rs_file s))" using record_index_Some [OF i] sR by simp
  show "\<exists>i. record_index (rs_file s) m = Some i \<and> stage_at (rs_file s) i = Shadow
      \<and> \<not> rr_fixture_only (rf_records (rs_file s) ! i)
      \<and> stage_at (disk_file d') i = Canary
      \<and> (\<forall>k. k < length (rf_records (rs_file s)) \<longrightarrow> k \<noteq> i \<longrightarrow>
           stage_at (disk_file d') k = stage_at (rs_file s) k
           \<or> authority_stage (stage_at (rs_file s) k) \<and> stage_at (disk_file d') k = Shadow)"
    using i tr fx il unfolding sR nx(2)
    by (auto simp: recs [unfolded sR] stage_at_def Let_def nth_list_update set_stage_def
        dest!: transition_into(4) dm split: option.splits if_splits)
qed

text \<open>C11: Only current evidence lets a model into a canary. Whatever other processes do to the shared
  registry while the evidence of a record is read and until the promotion is written, a promotion of
  the scan that succeeds was decided on the very index it changes: the model was there in shadow, no
  fixture, and the champion of its task; its stored report verifies, is of the same data set and
  passes every gate of the policy now; the task runs in automatic mode, may influence what it decides,
  and its durable canary budget is not used up. It enters the canary
  and nothing else of the index is raised.\<close>

theorem canary_rests_on_current_evidence:
  assumes "advance_record R E W config live now r d s = (Inr True, d', s')"
    and "coherent (sc_meanwhile W r (sc_before W r d)) s"
  shows "disk_file (sc_meanwhile W r (sc_before W r d)) = rs_file s
    \<and> (\<exists>champ report task policy. champion s (rr_task_id r) = Some champ
        \<and> mm_model_id (ea_metadata champ) = rr_model_id r \<and> ea_content_sha256 champ = rr_digest r
        \<and> verified_report R E (rr_model_id r) (sc_before W r d) s = Some report
        \<and> tr_dataset_digest report = mm_dataset_digest (ea_metadata champ)
        \<and> qr_qualified (evaluate_qualification config (rr_task_id r) champ report)
        \<and> effective_mode config (rr_task_id r) = Mode_Auto \<and> \<not> live_influence_barred config live (rr_task_id r)
        \<and> get_task config (rr_task_id r) = Some task \<and> tc_allowed task
        \<and> get_policy config (tc_promotion_policy task) = Some policy
        \<and> unat (canary_decisions s (rr_model_id r)) < unwrap_or 0 (pp_canary_max_decisions policy))
    \<and> (\<exists>i. record_index (rs_file s) (rr_model_id r) = Some i \<and> stage_at (rs_file s) i = Shadow
        \<and> \<not> rr_fixture_only (rf_records (rs_file s) ! i) \<and> stage_at (disk_file d') i = Canary
        \<and> (\<forall>k. k < length (rf_records (rs_file s)) \<longrightarrow> k \<noteq> i \<longrightarrow>
             stage_at (disk_file d') k = stage_at (rs_file s) k
             \<or> authority_stage (stage_at (rs_file s) k) \<and> stage_at (disk_file d') k = Shadow))"
proof -
  have may: "may_enter_canary R E config live now r (sc_before W r d) s"
    using assms(1) by (auto simp: advance_record_def Let_def split: if_splits)
  obtain rec where p: "promote E now (sc_write W r) (rr_model_id r) Canary (rf_revision (rs_file s))
      ''automatically entered bounded canary after verified qualification and shadow dwell''
      (sc_meanwhile W r (sc_before W r d)) s = (Inr rec, d', s')"
    using assms(1) may
    by (auto simp: advance_record_def Let_def split: sum.splits prod.splits elm_error.splits)
  show ?thesis
    using may promote_canary [OF p assms(2)]
    by (auto simp: may_enter_canary_def is_some_and_def report_supports_def task_admits_canary_def
        split: option.splits)
qed

subsection \<open>A model in shadow with its evidence\<close>

definition shadow_record :: registry_record where
  "shadow_record = \<lparr>rr_revision = 1, rr_model_id = ''m'', rr_task_id = ''job_duration'', rr_digest = ''ok'',
     rr_stage = Shadow, rr_artifact_file = ''f'', rr_reason = None, rr_updated_at = 0, rr_fixture_only = False\<rparr>"

definition shadow_file :: registry_file where
  "shadow_file = default_registry_file\<lparr>rf_revision := 1, rf_records := [shadow_record],
     rf_champion_by_task := [(''job_duration'', ''m'')]\<rparr>"

definition shadow_state :: registry_state where
  "shadow_state = \<lparr>rs_file = shadow_file, rs_champions = [(''job_duration'', sample_model)]\<rparr>"

definition shadow_disk :: disk where
  "shadow_disk = \<lparr>dk_registry = Contents shadow_file, dk_artifacts = (\<lambda>_. Contents sample_model),
     dk_evaluations = (\<lambda>_. Contents ''r'')\<rparr>"

definition shadow_report :: training_evaluation_report where
  "shadow_report = (sample_report (Fin 0))\<lparr>tr_qualified := True, tr_report_sha256 := ''h''\<rparr>"

definition shadow_codec :: report_codec where
  "shadow_codec = \<lparr>rc_parse = (\<lambda>raw. if raw = ''r'' then Some shadow_report else None),
     rc_hash = (\<lambda>_. Some ''h''), rc_render = (\<lambda>_. Inr ''r'')\<rparr>"

definition alone :: scan_weather where
  "alone = \<lparr>sc_before = (\<lambda>_ d. d), sc_meanwhile = (\<lambda>_ d. d), sc_write = (\<lambda>_. WriteOk)\<rparr>"

lemma gate_qualifies:
  "qr_qualified (evaluate_qualification gate_config ''job_duration'' sample_model shadow_report)"
proof -
  have two: "f_of_nat 2 = Fin 2" using rnd_of_int [of 2] by (simp add: f_of_nat_def)
  show ?thesis
    by (simp add: evaluate_qualification_def Let_def gate_lookups gate_mode gate_task_def
        default_task_config_def less_model_stage_def)
       (simp add: shadow_report_def sample_report_def sample_summary_def gate_policy_def sample_policy_def
        sample_model_def two expected_objective_def expected_baseline_def baseline_name_def
        below_improvement_def f_neg_def calibration_under_limit_def overhead_under_limits_def)
qed

lemma shadow_report_verified:
  "verified_report shadow_codec sample_env ''m'' shadow_disk shadow_state = Some shadow_report"
proof -
  have "record_of shadow_state ''m'' = Some shadow_record" by code_simp
  then have "evaluation_bytes sample_env ''m'' shadow_disk shadow_state = Inr ''r''"
    by (simp add: evaluation_bytes_def shadow_disk_def sample_env_def)
  then show ?thesis
    by (simp add: verified_report_def shadow_codec_def shadow_report_def)
qed

lemma shadow_may_enter:
  "may_enter_canary shadow_codec sample_env gate_config False 1000000 shadow_record shadow_disk shadow_state"
proof -
  have task: "task_admits_canary gate_config 1000000 shadow_state shadow_record gate_task"
  proof -
    have "canary_decisions shadow_state ''m'' = 0" by code_simp
    then show ?thesis
      using gate_mode gate_lookups
      by (simp add: task_admits_canary_def shadow_record_def gate_task_def less_model_stage_def)
         (simp add: gate_config_def default_elm_config_def default_lifecycle_config_def gate_policy_def
           sample_policy_def)
  qed
  have supports: "report_supports gate_config shadow_record sample_model shadow_report"
    using gate_qualifies
    by (simp add: report_supports_def shadow_record_def shadow_report_def sample_report_def sample_model_def)
  have "champion shadow_state ''job_duration'' = Some sample_model" by code_simp
  then show ?thesis
    using task supports shadow_report_verified gate_lookups
    by (simp add: may_enter_canary_def is_some_and_def live_influence_barred_def)
       (simp add: shadow_record_def sample_model_def)
qed

lemma shadow_promoted:
  "\<exists>rec d' s'. promote sample_env 1000000 WriteOk ''m'' Canary 1 reason shadow_disk shadow_state = (Inr rec, d', s')"
proof -
  have "validate_estimator (ea_estimator sample_model) 1 = Inr ()"
    by (simp add: sample_model_def validate_baseline_def validate_matrix_def max_matrix_cells_def usize_max_def)
  moreover have "trim ''f'' \<noteq> []" "trim ''x'' \<noteq> []" by code_simp+
  ultimately have "load_artifact sample_env shadow_disk ''f'' = Inr sample_model"
    by (simp add: load_artifact_def shadow_disk_def sample_env_def verify_def sample_model_def
        schema_validate_def)
  moreover have "refresh_locked sample_env shadow_disk shadow_state = (Inr False, shadow_state)" by code_simp
  moreover have "record_index (rs_file shadow_state) ''m'' = Some 0" by code_simp
  moreover have "rf_records (rs_file shadow_state) ! 0 = shadow_record" "rf_revision (rs_file shadow_state) = 1"
    by (simp_all add: shadow_state_def shadow_file_def)
  ultimately show ?thesis
    by (simp add: promote_def Let_def allowed_transition_def artifact_matches_def shadow_record_def
        sample_model_def commit_def persist_registry_def sample_env_def split: prod.splits)
qed

theorem canary_rests_on_current_evidence_witness:
  "record_index shadow_file ''m'' = Some 0 \<and> stage_at shadow_file 0 = Shadow
     \<and> qr_qualified (evaluate_qualification gate_config ''job_duration'' sample_model shadow_report)"
proof -
  have "\<exists>d' s'. advance_record shadow_codec sample_env alone gate_config False 1000000 shadow_record
      shadow_disk shadow_state = (Inr True, d', s')"
    using shadow_may_enter
      shadow_promoted [of "''automatically entered bounded canary after verified qualification and shadow dwell''"]
    by (auto simp: advance_record_def alone_def) (simp add: shadow_record_def shadow_state_def shadow_file_def)
  then obtain d' s'
    where step: "advance_record shadow_codec sample_env alone gate_config False 1000000
      shadow_record shadow_disk shadow_state = (Inr True, d', s')"
    by blast
  have "coherent shadow_disk shadow_state"
    by (simp add: coherent_def disk_file_def shadow_disk_def shadow_state_def)
  then have "coherent (sc_meanwhile alone shadow_record (sc_before alone shadow_record shadow_disk)) shadow_state"
    by (simp add: alone_def)
  note current = canary_rests_on_current_evidence [OF step this]
  have "rr_model_id shadow_record = ''m''" "rr_task_id shadow_record = ''job_duration''"
    "rs_file shadow_state = shadow_file" "sc_before alone shadow_record shadow_disk = shadow_disk"
    by (simp_all add: shadow_record_def shadow_state_def alone_def)
  moreover have "record_index shadow_file ''m'' = Some 0" "champion shadow_state ''job_duration'' = Some sample_model"
    by code_simp+
  ultimately show ?thesis
    using current shadow_report_verified by auto
qed

section \<open>The queue\<close>

text \<open>How many scans a job may still take: one for each attempt it has left.\<close>

definition job_weight :: "job_content \<Rightarrow> nat" where
  "job_weight content =
     (case content of
        Unparsed \<Rightarrow> 0
      | Parsed job \<Rightarrow> if tj_state job \<in> {Job_Queued, Job_Running}
                      then max 1 (Suc (tj_retry_limit job) - tj_retries job) else 0)"

definition queue_weight :: "job_content btree \<Rightarrow> nat" where
  "queue_weight jobs = sum_list (map (\<lambda>(path, content). job_weight content) jobs)"

definition bounded_retries :: "job_content \<Rightarrow> bool" where
  "bounded_retries content \<longleftrightarrow> (\<forall>job. content = Parsed job \<longrightarrow> tj_retry_limit job < usize_max)"

lemma finish_success_keeps:
  assumes "finish_success R E W config now job result d s = (Inr job', d', s')"
  shows "tj_retry_limit job' = tj_retry_limit job"
  using assms by (auto simp: finish_success_def then_registry_def Let_def split: sum.splits prod.splits if_splits)

lemma train_job_weight:
  assumes "train_job R E a config job content d s = (res, content', d', s')"
    and "tj_state job = Job_Queued" "job_weight content = job_weight (Parsed job)"
    and "bounded_retries (Parsed job)" "bounded_retries content"
  shows "res \<noteq> None" "bounded_retries content'" "res \<noteq> Some (Inr False)"
    "job_weight content' \<le> job_weight content"
    "res = Some (Inr True) \<Longrightarrow> job_weight content' < job_weight content"
  using assms
  by (auto simp: train_job_def write_job_def Let_def job_weight_def bounded_retries_def
      split: if_splits option.splits sum.splits prod.splits dest: finish_success_keeps)

lemma process_job_weight:
  assumes "process_job R E bytes a config content d s = (res, content', d', s')"
    and "bounded_retries content"
  shows "bounded_retries content' \<and> job_weight content' \<le> job_weight content
    \<and> res \<noteq> Some (Inr False) \<and> (res = Some (Inr True) \<longrightarrow> job_weight content' < job_weight content)
    \<and> (res = None \<longrightarrow> content' = content \<and> d' = d \<and> s' = s)"
proof -
  have run: "bounded_retries content' \<and> job_weight content' \<le> job_weight c
      \<and> res \<noteq> Some (Inr False) \<and> (res = Some (Inr True) \<longrightarrow> job_weight content' < job_weight c)
      \<and> (res = None \<longrightarrow> tj_state job \<noteq> Job_Queued \<and> content' = c \<and> d' = d \<and> s' = s)"
    if r: "run_job R E a config job c d s = (res, content', d', s')" and b: "bounded_retries (Parsed job)"
      and c: "c = Parsed job" for job c
  proof (cases "tj_state job = Job_Queued \<and> \<not> task_disabled config (tj_task_id job)
      \<and> Option.bind (find_dataset E d s (tj_task_id job) (tj_dataset_revision job))
          (\<lambda>r. if settled_stage (rr_stage r) then Some r else None) = None")
    case True
    then have "train_job R E a config job c d s = (res, content', d', s')"
      using r by (simp add: run_job_def)
    from train_job_weight [OF this] True b c show ?thesis by auto
  next
    case False
    then show ?thesis
      using r b c
      by (auto simp: run_job_def write_job_def job_weight_def bounded_retries_def
          split: if_splits option.splits)
  qed
  show ?thesis
  proof (cases content)
    case Unparsed
    then show ?thesis using assms by (auto simp: process_job_def split: if_splits)
  next
    case (Parsed job)
    let ?again = "job\<lparr>tj_state := Job_Queued,
      tj_error := Some ''worker restarted; incomplete job safely re-queued''\<rparr>"
    have w: "job_weight (Parsed ?again) = job_weight content" if "tj_state job = Job_Running"
      using that Parsed by (simp add: job_weight_def)
    have b: "bounded_retries (Parsed job)" "bounded_retries (Parsed ?again)"
      using assms(2) Parsed by (auto simp: bounded_retries_def)
    show ?thesis
      using assms Parsed run [of ?again "Parsed ?again"] run [of job "Parsed job"] w b
      by (auto simp: process_job_def write_job_def Let_def split: if_splits)
  qed
qed

text \<open>A scan never adds to the work of the queue, and one that reports progress takes some away.\<close>

lemma scan_weight:
  assumes "process_next_job R E bytes a config jobs d s = (res, jobs', d', s')"
    and "\<forall>(path, content)\<in>set jobs. bounded_retries content"
  shows "(\<forall>(path, content)\<in>set jobs'. bounded_retries content) \<and> map fst jobs' = map fst jobs
    \<and> queue_weight jobs' \<le> queue_weight jobs
    \<and> (res = Inr True \<longrightarrow> queue_weight jobs' < queue_weight jobs)
    \<and> (res = Inr False \<longrightarrow> jobs' = jobs)"
  using assms
proof (induction jobs arbitrary: res jobs' d' s')
  case Nil
  then show ?case by auto
next
  case (Cons entry rest)
  obtain path content where e: "entry = (path, content)" by (cases entry)
  obtain r c d1 s1 where p: "process_job R E bytes a config content d s = (r, c, d1, s1)"
    by (metis prod_cases4)
  note one = process_job_weight [OF p]
  show ?case
  proof (cases r)
    case None
    then have "c = content" "d1 = d" "s1 = s" using one Cons.prems(2) e by auto
    then obtain tl where tl: "process_next_job R E bytes a config rest d s = (res, tl, d', s')"
        "jobs' = (path, content) # tl"
      using Cons.prems(1) None e p by (auto split: prod.splits)
    show ?thesis
      using Cons.IH [OF tl(1)] Cons.prems(2) tl(2) e by (auto simp: queue_weight_def)
  next
    case (Some x)
    then show ?thesis
      using Cons.prems one e p by (auto simp: queue_weight_def)
  qed
qed

text \<open>The busy part of the worker's loop: scans follow one another without a pause while they report
  progress. The answers are what each scan meets; the number of scans that made progress is counted.\<close>

fun busy_scans ::
  "report_codec \<Rightarrow> registry_env \<Rightarrow> (job_content \<Rightarrow> nat) \<Rightarrow> elm_config \<Rightarrow> worker_answers list \<Rightarrow>
     job_content btree \<Rightarrow> disk \<Rightarrow> registry_state \<Rightarrow> nat" where
  "busy_scans R E bytes config [] jobs d s = 0"
| "busy_scans R E bytes config (a # as) jobs d s =
     (case process_next_job R E bytes a config jobs d s of
        (Inr True, jobs', d', s') \<Rightarrow> Suc (busy_scans R E bytes config as jobs' d' s')
      | _ \<Rightarrow> 0)"


definition failing_fit :: worker_answers where
  "failing_fit = \<lparr>wa_now = 7, wa_save = (\<lambda>_. True), wa_fit = (\<lambda>_. Some (Inl (Numerical ''singular''))),
     wa_refresh_other = (\<lambda>d. d), wa_weather = \<lparr>rw_other = (\<lambda>_ d. d), rw_write = (\<lambda>_. WriteOk)\<rparr>\<rparr>"

definition one_job :: "job_content btree" where
  "one_job = [(''auto-d.json'', Parsed (new_job ''j'' 0 ''m.json'' ''job_duration'' ''d'' 2 60))]"


section \<open>Jobs left behind\<close>

text \<open>
  A job is written as trained and as evaluating before the registry is touched. When a registry
  operation then fails (a revision conflict with another process, say), or the process ends there,
  the job keeps that state: no later scan takes it up, and the discovery does not queue its data set
  again, because the file exists.
\<close>

lemma stranded_job_stays:
  assumes "(path, Parsed job) \<in> set jobs" "tj_state job \<in> {Job_Trained, Job_Evaluating}"
    and "process_next_job R E bytes a config jobs d s = (res, jobs', d', s')"
  shows "(path, Parsed job) \<in> set jobs'"
proof -
  have same: "c = Parsed job" if "process_job R E bytes a config (Parsed job) d s = (r, c, d1, s1)"
    for r c d1 d s s1
    using that assms(2) by (auto simp: process_job_def run_job_def split: if_splits)
  show ?thesis
    using assms(1,3)
  proof (induction jobs arbitrary: res jobs' d d' s s')
    case (Cons entry rest)
    then show ?case
      by (cases entry) (auto split: prod.splits option.splits dest: same)
  qed simp
qed

lemma stranded_digest_not_requeued:
  assumes "Option.bind (ec_dataset_manifest config) load_manifest = Some m" "jm_digest m = Some digest"
    and "(''auto-'' @ take 24 digest @ ''.json'', content) \<in> set jobs"
  shows "discover_automatic_job config load_manifest fresh_id now written jobs = jobs"
  using assms by (force simp: discover_automatic_job_def Let_def)

lemma conflict_strands_job:
  assumes "wa_save a = (\<lambda>_. True)" "tj_state job = Job_Queued" "wa_fit a (job
      \<lparr>tj_state := Job_Running, tj_updated_at := wa_now a, tj_error := None\<rparr>) = Some (Inr result)"
    and "train_job R E a config job content d s = (Some (Inl e), content', d', s')"
  shows "\<exists>(job' :: training_job). content' = Parsed job' \<and> tj_state job' = Job_Evaluating"
  using assms
  by (auto simp: train_job_def write_job_def Let_def split: sum.splits prod.splits)

end
