(* ===== verification/Governance.thy ===== *)
theory Governance
  imports Redaction Errors ElmConfig
begin

text \<open>
  Governance of completions by the Aria service, \<^verbatim>\<open>src/src/governance.rs\<close>, with the authorisation of a
  request by \<^verbatim>\<open>orchestration.rs\<close>: the exchange of a governed path, the completions made inside the
  process, and the classifier that Aria calls back.

  The answers of Aria, of the handler behind the guard and of the classifier's model are arguments, as
  are the JSON parser, the URL parser and the digest. A body is text when its bytes are UTF-8.
\<close>

section \<open>Configuration\<close>

datatype governance_mode = Gov_Disabled | Gov_Monitor | Gov_Enforce

record governance_config =
  gc_mode :: governance_mode
  gc_aria_url :: string
  gc_evaluation_token :: string
  gc_assessment_token :: string
  gc_timeout_ms :: nat
  gc_assessment_timeout_ms :: nat
  gc_max_body_bytes :: nat
  gc_max_in_flight :: nat
  gc_fail_open :: bool

definition default_governance :: governance_config where
  "default_governance =
     \<lparr>gc_mode = Gov_Disabled, gc_aria_url = ''http://aria.aria.svc.cluster.local:8091'',
      gc_evaluation_token = [], gc_assessment_token = [], gc_timeout_ms = 20000,
      gc_assessment_timeout_ms = 12000, gc_max_body_bytes = 262144, gc_max_in_flight = 32,
      gc_fail_open = False\<rparr>"

record api_token =
  at_client_id :: string
  at_token :: string
  at_scopes :: "string list"

record service_url =
  su_scheme :: string
  su_host :: "string option"
  su_username :: string
  su_password :: "string option"
  su_query :: "string option"
  su_fragment :: "string option"

definition service_url_ok :: "service_url \<Rightarrow> bool" where
  "service_url_ok url \<longleftrightarrow>
     su_scheme url \<in> {''http'', ''https''} \<and> su_host url \<noteq> None \<and> su_username url = []
     \<and> su_password url = None \<and> su_query url = None \<and> su_fragment url = None"

definition governance_new ::
  "(string \<Rightarrow> service_url option) \<Rightarrow> governance_config \<Rightarrow> api_token list \<Rightarrow> gail_error + unit" where
  "governance_new parse_url c api_tokens =
     and_then
       (if gc_mode c = Gov_Disabled then Inr ()
        else case parse_url (gc_aria_url c) of
          None \<Rightarrow> Inl (InvalidConfig ''invalid Aria URL'')
        | Some url \<Rightarrow>
            if \<not> service_url_ok url \<or> utf8_len (gc_evaluation_token c) < 32
               \<or> utf8_len (gc_assessment_token c) < 32 \<or> gc_evaluation_token c = gc_assessment_token c
            then Inl (InvalidConfig
              ''Aria requires a service URL and distinct credentials of at least 32 characters'')
            else Inr ()) (\<lambda>_.
     if gc_assessment_token c \<noteq> []
        \<and> (utf8_len (gc_assessment_token c) < 32 \<or> gc_assessment_token c \<in> at_token ` set api_tokens)
     then Inl (InvalidConfig
       ''Aria assessment credential must be separate from every ordinary API token'')
     else if \<not> (100 \<le> gc_timeout_ms c \<and> gc_timeout_ms c \<le> 150000)
        \<or> \<not> (100 \<le> gc_assessment_timeout_ms c \<and> gc_assessment_timeout_ms c \<le> 120000)
        \<or> \<not> (1024 \<le> gc_max_body_bytes c \<and> gc_max_body_bytes c \<le> 1048576)
        \<or> \<not> (1 \<le> gc_max_in_flight c \<and> gc_max_in_flight c \<le> 1024)
     then Inl (InvalidConfig ''invalid Aria resource or timeout limits'')
     else Inr ())"

section \<open>Requests and their authorisation\<close>

datatype http_body = Utf8 string | Not_utf8 "8 word list"

fun body_len :: "http_body \<Rightarrow> nat" where
  "body_len (Utf8 text) = utf8_len text"
| "body_len (Not_utf8 bytes) = length bytes"

record http_request =
  hq_path :: string
  hq_authorization :: "string option"
  hq_content_type :: "string option"
  hq_body :: "http_body option"

record http_response =
  hr_status :: nat
  hr_headers :: "string \<Rightarrow> string option"
  hr_body :: "http_body option"

definition bearer_token :: "string option \<Rightarrow> string option" where
  "bearer_token header =
     Option.bind header (\<lambda>h. if starts_with h ''Bearer '' then Some (drop 7 h) else None)"

definition matching_token :: "api_token list \<Rightarrow> string option \<Rightarrow> string \<Rightarrow> api_token option" where
  "matching_token api_tokens header required_scope =
     Option.bind (map_option trim (bearer_token header)) (\<lambda>token.
       if token = [] then None
       else find (\<lambda>c. at_token c = token
              \<and> (at_scopes c = []
                 \<or> (\<exists>scope\<in>set (at_scopes c). scope = ''*'' \<or> eq_ignore_ascii_case scope required_scope)))
            api_tokens)"

definition authorize :: "api_token list \<Rightarrow> string option \<Rightarrow> string \<Rightarrow> gail_error + string" where
  "authorize api_tokens header required_scope =
     (case matching_token api_tokens header required_scope of
        None \<Rightarrow> Inl Unauthorized
      | Some c \<Rightarrow> Inr (at_client_id c))"

definition valid_token :: "(string \<Rightarrow> string) \<Rightarrow> string option \<Rightarrow> string \<Rightarrow> bool" where
  "valid_token digest header expected \<longleftrightarrow>
     (case bearer_token header of None \<Rightarrow> False | Some token \<Rightarrow> digest token = digest expected)"

definition scope_for_path :: "string \<Rightarrow> string option" where
  "scope_for_path path =
     (if path \<in> {''/v1/chat/completions'', ''/v1/responses'', ''/v1/llm/complete'', ''/v1/llm/direct-complete'',
          ''/v1/llm/transcribe'', ''/v1/audio/transcriptions''} then Some ''llm''
      else if path \<in> {''/v1/neuromorphic/analyze'', ''/v1/neuromorphic/predict''} then Some ''neuromorphic''
      else if path \<in> {''/v1/aer/encode'', ''/v1/aer/decode''} then Some ''aer''
      else if path \<in> {''/v1/trading/evaluate'', ''/dashboard/trading/api/pause'',
          ''/dashboard/trading/api/resume'', ''/dashboard/trading/api/evaluate''} then Some ''trading''
      else None)"

section \<open>What Aria is shown\<close>

definition newline :: char where "newline = CHR 10"

definition opaque_member :: "(string \<times> json) list \<Rightarrow> bool" where
  "opaque_member members \<longleftrightarrow> (\<exists>key\<in>fst ` set members. key \<in> {''image_url'', ''input_audio'', ''file_data''})"

function sanitise :: "json \<Rightarrow> bool" where
  "sanitise (JObject members) =
     (\<not> opaque_member members \<and> list_all (\<lambda>(key, child). sanitise child) members)"
| "sanitise (JArray items) = list_all sanitise items"
| "sanitise JNull = True"
| "sanitise (JBool b) = True"
| "sanitise (JNumber n) = True"
| "sanitise (JString s) = True"
  by pat_completeness auto

termination sanitise
  by (relation "measure size") (auto dest: size_member size_element)

function semantic_append :: "json \<Rightarrow> string" where
  "semantic_append (JString text) = text @ [newline]"
| "semantic_append (JArray items) = concat (map semantic_append items)"
| "semantic_append (JObject members) =
     concat (map (\<lambda>(key, item). key @ [newline] @ semantic_append item) members)"
| "semantic_append (JNumber n) = n @ [newline]"
| "semantic_append (JBool b) = (if b then ''true'' else ''false'') @ [newline]"
| "semantic_append JNull = []"
  by pat_completeness auto

termination semantic_append
  by (relation "measure size") (auto dest: size_member size_element)

definition transport_field :: "string \<Rightarrow> bool" where
  "transport_field key \<longleftrightarrow>
     to_ascii_lowercase key \<in> {''api_key'', ''access_token'', ''preferred_api_key'', ''preferred_access_token'',
       ''fallback_api_key'', ''fallback_access_token'', ''authorization''}"

definition without_transport :: "bool \<Rightarrow> json \<Rightarrow> json" where
  "without_transport redact_transport v =
     (case v of
        JObject members \<Rightarrow>
          if redact_transport then JObject (filter (\<lambda>(key, _). \<not> transport_field key) members) else v
      | _ \<Rightarrow> v)"

text \<open>\<open>str::lines\<close>: a carriage return is dropped before a line feed only.\<close>

fun lines_from :: "string \<Rightarrow> string \<Rightarrow> string list" where
  "lines_from acc [] = (if acc = [] then [] else [rev acc])"
| "lines_from acc (c # cs) =
     (if c = newline
      then rev (case acc of [] \<Rightarrow> [] | a # rest \<Rightarrow> if a = CHR 13 then rest else acc) # lines_from [] cs
      else lines_from (c # acc) cs)"

definition data_lines :: "string \<Rightarrow> string list" where
  "data_lines text =
     filter (\<lambda>line. line \<noteq> ''[DONE]'')
       (map (\<lambda>line. trim (drop 5 line)) (filter (\<lambda>line. starts_with line ''data:'') (lines_from [] text)))"

definition array_index :: "string \<Rightarrow> nat option" where
  "array_index token =
     (if starts_with token ''+'' \<or> (starts_with token ''0'' \<and> length token \<noteq> 1) then None
      else case parse_unsigned usize_max token of Inl _ \<Rightarrow> None | Inr n \<Rightarrow> Some n)"

fun json_pointer :: "string list \<Rightarrow> json \<Rightarrow> json option" where
  "json_pointer [] v = Some v"
| "json_pointer (token # path) (JObject members) = Option.bind (map_of members token) (json_pointer path)"
| "json_pointer (token # path) (JArray items) =
     (case array_index token of
        Some i \<Rightarrow> if i < length items then json_pointer path (items ! i) else None
      | None \<Rightarrow> None)"
| "json_pointer (token # path) _ = None"

definition json_str :: "json \<Rightarrow> string option" where
  "json_str v = (case v of JString s \<Rightarrow> Some s | _ \<Rightarrow> None)"

definition event_delta :: "json \<Rightarrow> string option" where
  "event_delta v =
     (case Option.bind (json_pointer [''choices'', ''0'', ''delta'', ''content''] v) json_str of
        Some s \<Rightarrow> Some s
      | None \<Rightarrow>
          (case v of
             JObject members \<Rightarrow> Option.bind (map_of members ''delta'') json_str
           | _ \<Rightarrow> None))"

definition stream_events :: "(string \<Rightarrow> json option) \<Rightarrow> string \<Rightarrow> json list" where
  "stream_events parse_json text = List.map_filter parse_json (data_lines text)"

definition inspectable_content ::
  "(string \<Rightarrow> json option) \<Rightarrow> http_body \<Rightarrow> string \<Rightarrow> bool \<Rightarrow> string \<times> bool" where
  "inspectable_content parse_json body content_type redact_transport =
     (if starts_with content_type ''application/json''
      then case body of
        Not_utf8 _ \<Rightarrow> ([], False)
      | Utf8 text \<Rightarrow>
          (case parse_json text of
             None \<Rightarrow> ([], False)
           | Some v \<Rightarrow>
               let v = without_transport redact_transport v in (semantic_append v, sanitise v))
      else if starts_with content_type ''text/event-stream''
      then case body of
        Not_utf8 _ \<Rightarrow> ([], False)
      | Utf8 text \<Rightarrow>
          let events = stream_events parse_json text
          in (semantic_append (JObject [(''events'', JArray events),
                (''text'', JString (concat (List.map_filter event_delta events)))]),
              list_all (\<lambda>line. parse_json line \<noteq> None) (data_lines text) \<and> list_all sanitise events)
      else ([], False))"

section \<open>Asking Aria\<close>

datatype aria_action = Act_Allow | Act_Alert | Act_Block

record verdict =
  vd_protocol_version :: nat
  vd_id :: string
  vd_request_id :: string
  vd_phase :: string
  vd_action :: aria_action

record evaluation =
  ev_request_id :: string
  ev_phase :: string
  ev_source :: string
  ev_route :: string
  ev_content :: string
  ev_body_bytes :: nat
  ev_inspection_complete :: bool

record governance_counters =
  gv_failures :: u64
  gv_blocked :: u64
  gv_observed :: u64

text \<open>The answer of Aria: nothing, when the call fails or has an error status, or the pieces of its
  body, each of which may fail to arrive.\<close>

record governance_env =
  ge_aria :: "evaluation \<Rightarrow> string option list option"
  ge_verdict :: "string \<Rightarrow> verdict option"
  ge_parse_json :: "string \<Rightarrow> json option"
  ge_digest :: "string \<Rightarrow> string"

fun read_stream :: "string option list \<Rightarrow> string \<Rightarrow> string option" where
  "read_stream [] body = Some body"
| "read_stream (None # chunks) body = None"
| "read_stream (Some chunk # chunks) body =
     (if 65536 < length body + length chunk then None else read_stream chunks (body @ chunk))"

definition evaluate_exchange ::
  "governance_env \<Rightarrow> evaluation \<Rightarrow> governance_counters \<Rightarrow> verdict option \<times> governance_counters" where
  "evaluate_exchange E input g =
     (case Option.bind (Option.bind (ge_aria E input) (\<lambda>chunks. read_stream chunks [])) (ge_verdict E) of
        None \<Rightarrow> (None, g)
      | Some v \<Rightarrow>
          if vd_protocol_version v \<noteq> 1 \<or> vd_request_id v \<noteq> ev_request_id input \<or> vd_phase v \<noteq> ev_phase input
          then (None, g)
          else (Some v, g\<lparr>gv_observed := gv_observed g + 1\<rparr>))"

record rejection =
  rj_status :: nat
  rj_code :: string
  rj_decision_id :: "string option"

definition governance_failure ::
  "governance_config \<Rightarrow> governance_counters \<Rightarrow> rejection option \<times> governance_counters" where
  "governance_failure c g =
     (if gc_mode c = Gov_Enforce \<and> \<not> gc_fail_open c
      then Some \<lparr>rj_status = 503, rj_code = ''governance_unavailable'', rj_decision_id = None\<rparr> else None,
      g\<lparr>gv_failures := gv_failures g + 1\<rparr>)"

datatype check_status = Checked_ok | Would_block | Unavailable

text \<open>Beside its answer a check leaves the verdict it rests on.\<close>

definition check_exchange ::
  "governance_env \<Rightarrow> governance_config \<Rightarrow> evaluation \<Rightarrow> governance_counters \<Rightarrow>
     (rejection + check_status) \<times> verdict option \<times> governance_counters" where
  "check_exchange E c input g =
     (case evaluate_exchange E input g of
        (Some v, g) \<Rightarrow>
          if vd_action v = Act_Block \<and> gc_mode c = Gov_Enforce
          then (Inl \<lparr>rj_status = 403, rj_code = ''governance_blocked'', rj_decision_id = Some (vd_id v)\<rparr>,
                Some v, g\<lparr>gv_blocked := gv_blocked g + 1\<rparr>)
          else (Inr (if vd_action v = Act_Block then Would_block else Checked_ok), Some v, g)
      | (None, g) \<Rightarrow>
          (case governance_failure c g of
             (Some r, g) \<Rightarrow> (Inl r, None, g)
           | (None, g) \<Rightarrow> (Inr Unavailable, None, g)))"

section \<open>The guard of an HTTP exchange\<close>

text \<open>What happens in an exchange: Aria is asked, and the handler runs, marked as governed or not.\<close>

datatype gov_event = Asked evaluation "verdict option" | Ran bool http_request

datatype guard_answer = Deliver http_response | Refuse gail_error | Reject rejection

definition exchange_evaluation ::
  "governance_env \<Rightarrow> string \<Rightarrow> string \<Rightarrow> string \<Rightarrow> string \<Rightarrow> string \<Rightarrow> bool \<Rightarrow> http_body \<Rightarrow> evaluation" where
  "exchange_evaluation E request_id phase source route content_type redact body =
     (let (content, complete) = inspectable_content (ge_parse_json E) body content_type redact
      in \<lparr>ev_request_id = request_id, ev_phase = phase, ev_source = source, ev_route = route,
          ev_content = content, ev_body_bytes = body_len body, ev_inspection_complete = complete\<rparr>)"

definition read_body :: "nat \<Rightarrow> http_body option \<Rightarrow> http_body option" where
  "read_body limit body = Option.bind body (\<lambda>b. if limit < body_len b then None else Some b)"

definition exchange_status :: "check_status \<Rightarrow> check_status \<Rightarrow> string" where
  "exchange_status before after =
     (if before = Unavailable \<or> after = Unavailable then ''unavailable''
      else if before = Would_block \<or> after = Would_block then ''would_block''
      else ''checked'')"

definition release_response ::
  "governance_env \<Rightarrow> governance_config \<Rightarrow> string \<Rightarrow> string \<Rightarrow> string \<Rightarrow> check_status \<Rightarrow> http_response \<Rightarrow>
     governance_counters \<Rightarrow> guard_answer \<times> governance_counters \<times> gov_event list" where
  "release_response E c request_id source path before response g =
     (case read_body (gc_max_body_bytes c) (hr_body response) of
        None \<Rightarrow>
          (Reject \<lparr>rj_status = 502, rj_code = ''governance_response_limit'', rj_decision_id = None\<rparr>, g, [])
      | Some body \<Rightarrow>
          let input = exchange_evaluation E request_id ''response'' source path
                (unwrap_or [] (hr_headers response ''content-type'')) False body
          in case check_exchange E c input g of
               (Inl r, v, g) \<Rightarrow> (Reject r, g, [Asked input v])
             | (Inr after, v, g) \<Rightarrow>
                 (Deliver (response\<lparr>hr_headers := (hr_headers response)
                     (''x-aria-status'' \<mapsto> exchange_status before after, ''x-aria-request-id'' \<mapsto> request_id),
                     hr_body := Some body\<rparr>), g, [Asked input v]))"

definition guard ::
  "governance_env \<Rightarrow> governance_config \<Rightarrow> api_token list \<Rightarrow> (bool \<Rightarrow> http_request \<Rightarrow> http_response) \<Rightarrow> bool \<Rightarrow>
     string \<Rightarrow> http_request \<Rightarrow> governance_counters \<Rightarrow> guard_answer \<times> governance_counters \<times> gov_event list" where
  "guard E c api_tokens handler permit request_id request g =
     (if hq_path request = ''/v1/internal/aria/assess''
         \<and> (gc_assessment_token c = []
            \<or> \<not> valid_token (ge_digest E) (hq_authorization request) (gc_assessment_token c))
      then (Reject \<lparr>rj_status = 401, rj_code = ''assessment_authentication_required'', rj_decision_id = None\<rparr>, g, [])
      else case scope_for_path (hq_path request) of
        None \<Rightarrow> (Deliver (handler False request), g, [Ran False request])
      | Some scope \<Rightarrow>
          if gc_mode c = Gov_Disabled then (Deliver (handler False request), g, [Ran False request])
          else case authorize api_tokens (hq_authorization request) scope of
            Inl e \<Rightarrow> (Refuse e, g, [])
          | Inr source \<Rightarrow>
              if \<not> permit
              then (Reject \<lparr>rj_status = 429, rj_code = ''governance_capacity_exhausted'', rj_decision_id = None\<rparr>,
                g, [])
              else case read_body (gc_max_body_bytes c) (hq_body request) of
                None \<Rightarrow>
                  (Reject \<lparr>rj_status = 413, rj_code = ''governance_body_limit'', rj_decision_id = None\<rparr>, g, [])
              | Some body \<Rightarrow>
                  let input = exchange_evaluation E request_id ''request'' source (hq_path request)
                        (unwrap_or [] (hq_content_type request)) True body
                  in case check_exchange E c input g of
                       (Inl r, v, g) \<Rightarrow> (Reject r, g, [Asked input v])
                     | (Inr before, v, g) \<Rightarrow>
                         let request = request\<lparr>hq_body := Some body\<rparr>;
                             (answer, g, events) = release_response E c request_id source (hq_path request)
                               before (handler True request) g
                         in (answer, g, Asked input v # Ran True request # events))"

section \<open>Completions inside the process\<close>

definition checks_completion :: "governance_config \<Rightarrow> bool \<Rightarrow> bool \<Rightarrow> bool" where
  "checks_completion c is_assessment http_governed \<longleftrightarrow>
     gc_mode c \<noteq> Gov_Disabled \<and> \<not> is_assessment \<and> \<not> http_governed"

definition governance_error :: "rejection \<Rightarrow> gail_error" where
  "governance_error r = upstream ''aria'' (Some (rj_status r)) ''governance did not permit the operation''"

text \<open>The operation is a result, with the JSON text of a response; the events say whether it ran.\<close>

datatype completion_event = Checked_completion evaluation "verdict option" | Ran_completion

definition completion ::
  "governance_env \<Rightarrow> governance_config \<Rightarrow> bool \<Rightarrow> bool \<Rightarrow> bool \<Rightarrow> string \<Rightarrow> string \<Rightarrow> string option \<Rightarrow>
     ('r \<Rightarrow> gail_error + string) \<Rightarrow> (gail_error + 'r) \<Rightarrow> governance_counters \<Rightarrow>
     (gail_error + 'r) \<times> governance_counters \<times> completion_event list" where
  "completion E c is_assessment http_governed permit request_id input source render operation g =
     (if \<not> checks_completion c is_assessment http_governed then (operation, g, [Ran_completion])
      else if \<not> permit then (Inl (upstream ''aria'' (Some 429) ''governance capacity exhausted''), g, [])
      else
        let evaluation_of = (\<lambda>phase redact text. exchange_evaluation E request_id phase
              (unwrap_or ''gail_internal'' source) ''/v1/llm/internal'' ''application/json'' redact (Utf8 text));
            before = evaluation_of ''request'' True input
        in case check_exchange E c before g of
             (Inl r, v, g) \<Rightarrow> (Inl (governance_error r), g, [Checked_completion before v])
           | (Inr _, v, g) \<Rightarrow>
               (case and_then operation (\<lambda>response. and_then (render response) (\<lambda>text. Inr (response, text))) of
                  Inl e \<Rightarrow> (Inl e, g, [Checked_completion before v, Ran_completion])
                | Inr (response, text) \<Rightarrow>
                    let after = evaluation_of ''response'' False text
                    in case check_exchange E c after g of
                         (Inl r, w, g) \<Rightarrow> (Inl (governance_error r), g,
                           [Checked_completion before v, Ran_completion, Checked_completion after w])
                       | (Inr _, w, g) \<Rightarrow> (Inr response, g,
                           [Checked_completion before v, Ran_completion, Checked_completion after w])))"

section \<open>The classifier\<close>

record classification =
  cl_score :: f64
  cl_categories :: "string list"

definition risk_categories :: "string set" where
  "risk_categories =
     {''prompt_injection'', ''credential_exposure'', ''destructive_action'', ''physical_harm'', ''resource_abuse''}"

definition parse_classification :: "(string \<Rightarrow> classification option) \<Rightarrow> string \<Rightarrow> classification option" where
  "parse_classification parse text =
     Option.bind (parse text) (\<lambda>v.
       if \<not> (f_le (Fin 0) (cl_score v) \<and> f_le (cl_score v) (Fin 1))
          \<or> 8 < length (cl_categories v)
          \<or> (f_lt (Fin 0) (cl_score v) \<and> cl_categories v = [])
          \<or> (\<exists>category\<in>set (cl_categories v). category \<notin> risk_categories)
       then None else Some v)"

record assessment_request =
  as_content :: string
  as_phase :: string

record assessed_completion =
  ac_text :: string
  ac_final_source :: "string option"
  ac_provider :: string
  ac_model :: string

text \<open>The model behind the classifier gets the phase and the content only; it answers in time or not.\<close>

definition assess ::
  "governance_env \<Rightarrow> governance_config \<Rightarrow> (string \<Rightarrow> classification option) \<Rightarrow> string option \<Rightarrow> bool \<Rightarrow>
     (string \<Rightarrow> string \<Rightarrow> assessed_completion option) \<Rightarrow> assessment_request \<Rightarrow>
     rejection + (classification \<times> string \<times> string)" where
  "assess E c parse header permit model input =
     (let rejected = (\<lambda>status code. Inl \<lparr>rj_status = status, rj_code = code, rj_decision_id = None\<rparr>)
      in if gc_assessment_token c = [] \<or> \<not> valid_token (ge_digest E) header (gc_assessment_token c)
         then rejected 401 ''assessment_authentication_required''
         else if as_phase input \<notin> {''request'', ''response''} \<or> 1048576 < utf8_len (as_content input)
         then rejected 400 ''invalid_assessment''
         else if \<not> permit then rejected 429 ''assessment_capacity_exhausted''
         else case model (as_phase input) (as_content input) of
           None \<Rightarrow> rejected 503 ''assessment_unavailable''
         | Some response \<Rightarrow>
             if ac_final_source response = Some ''degraded_policy'' then rejected 503 ''assessment_degraded''
             else case parse_classification parse (ac_text response) of
               None \<Rightarrow> rejected 502 ''invalid_assessment_output''
             | Some v \<Rightarrow> Inr (v, ac_provider response, ac_model response))"

end
