(* ===== verification/GovernanceSafety.thy ===== *)
theory GovernanceSafety
  imports Governance
begin

text \<open>
  What governance guarantees: in enforcing mode nothing reaches a handler or leaves it unseen, in
  monitoring mode nothing is withheld, what Aria is shown leaves out no text, and the credential of the
  classifier opens no other door.
\<close>

section \<open>The guard\<close>

text \<open>A verdict clears an evaluation when it answers it and does not block.\<close>

definition clears :: "evaluation \<Rightarrow> verdict \<Rightarrow> bool" where
  "clears input v \<longleftrightarrow>
     vd_protocol_version v = 1 \<and> vd_request_id v = ev_request_id input \<and> vd_phase v = ev_phase input
     \<and> vd_action v \<noteq> Act_Block"

lemma evaluate_answers:
  assumes "evaluate_exchange E input g = (Some v, g')"
  shows "vd_protocol_version v = 1 \<and> vd_request_id v = ev_request_id input \<and> vd_phase v = ev_phase input"
  using assms by (simp add: evaluate_exchange_def split: option.splits if_splits)

lemma check_enforced:
  assumes "check_exchange E c input g = (Inr status, v, g')" "gc_mode c = Gov_Enforce" "\<not> gc_fail_open c"
  shows "status = Checked_ok \<and> (\<exists>w. v = Some w \<and> clears input w)"
proof -
  obtain r g1 where e: "evaluate_exchange E input g = (r, g1)" by (cases "evaluate_exchange E input g")
  show ?thesis
    using assms e evaluate_answers [of E input g]
    by (cases r) (auto simp: check_exchange_def governance_failure_def clears_def split: if_splits)
qed

lemma check_monitored:
  assumes "gc_mode c = Gov_Monitor"
  shows "\<exists>status v g'. check_exchange E c input g = (Inr status, v, g')"
proof -
  obtain r g1 where e: "evaluate_exchange E input g = (r, g1)" by (cases "evaluate_exchange E input g")
  show ?thesis using assms e by (cases r) (auto simp: check_exchange_def governance_failure_def)
qed

lemma read_body_Some: "read_body limit body = Some b \<Longrightarrow> body = Some b \<and> body_len b \<le> limit"
  by (cases body) (auto simp: read_body_def split: if_splits)

lemma scope_not_assess: "scope_for_path path = Some scope \<Longrightarrow> path \<noteq> ''/v1/internal/aria/assess''"
  by (auto simp: scope_for_path_def)


text \<open>In monitoring mode Aria withholds nothing: an authorised exchange within the limits is delivered
  with the status and the body of the handler, whatever Aria answers or fails to answer.\<close>

theorem monitoring_withholds_nothing:
  assumes "gc_mode c = Gov_Monitor" "scope_for_path (hq_path request) = Some scope"
    and "authorize api_tokens (hq_authorization request) scope = Inr source" "permit"
    and "read_body (gc_max_body_bytes c) (hq_body request) = Some body"
    and "read_body (gc_max_body_bytes c) (hr_body (handler True request)) = Some out"
  shows "\<exists>resp g' events. guard E c api_tokens handler permit request_id request g = (Deliver resp, g', events)
    \<and> hr_status resp = hr_status (handler True request) \<and> hr_body resp = Some out
    \<and> (\<forall>h. h \<notin> {''x-aria-status'', ''x-aria-request-id''} \<longrightarrow>
         hr_headers resp h = hr_headers (handler True request) h)"
proof -
  have path: "hq_path request \<noteq> ''/v1/internal/aria/assess''"
    using scope_not_assess assms(2) by blast
  have same: "request\<lparr>hq_body := Some body\<rparr> = request"
    using read_body_Some [OF assms(5)] by auto
  obtain before v g1 where one: "check_exchange E c (exchange_evaluation E request_id ''request'' source
      (hq_path request) (unwrap_or [] (hq_content_type request)) True body) g = (Inr before, v, g1)"
    using check_monitored [OF assms(1)] by blast
  obtain after w g2 where two: "check_exchange E c (exchange_evaluation E request_id ''response'' source
      (hq_path request) (unwrap_or [] (hr_headers (handler True request) ''content-type'')) False out) g1
      = (Inr after, w, g2)"
    using check_monitored [OF assms(1)] by blast
  show ?thesis
    using assms path one two by (simp add: guard_def release_response_def Let_def same)
qed

section \<open>Completions inside the process\<close>

text \<open>A completion made inside the process, for the trading bridge say, is governed like an HTTP
  exchange: in enforcing mode without fail-open it runs, and its response is used, only when Aria cleared
  its text. Only an exchange that HTTP governs already and the classifier itself are exempt.\<close>

theorem enforced_completion_is_inspected:
  assumes "gc_mode c = Gov_Enforce" "\<not> gc_fail_open c" "\<not> is_assessment" "\<not> http_governed"
    and "completion E c is_assessment http_governed permit request_id input source render operation g
      = (answer, g', events)"
  shows "(Ran_completion \<in> set events \<longrightarrow> (\<exists>before v rest.
        events = Checked_completion before (Some v) # Ran_completion # rest \<and> clears before v
        \<and> before = exchange_evaluation E request_id ''request'' (unwrap_or ''gail_internal'' source)
            ''/v1/llm/internal'' ''application/json'' True (Utf8 input)))
    \<and> (\<forall>response. answer = Inr response \<longrightarrow> (\<exists>text before v after w.
        operation = Inr response \<and> render response = Inr text
        \<and> events = [Checked_completion before (Some v), Ran_completion, Checked_completion after (Some w)]
        \<and> after = exchange_evaluation E request_id ''response'' (unwrap_or ''gail_internal'' source)
            ''/v1/llm/internal'' ''application/json'' False (Utf8 text) \<and> clears after w))"
  using assms
  by (auto simp: completion_def checks_completion_def Let_def and_then_def
      split: if_splits sum.splits prod.splits dest!: check_enforced [OF _ assms(1,2)])

section \<open>What Aria is shown\<close>

lemma semantic_part: "x \<in> set xs \<Longrightarrow> sublist (f x) (concat (map f xs))"
  by (metis concat_eq_append_conv concat.simps(2) in_set_conv_decomp list.simps(9) map_append sublist_appendI
      concat_append)

lemma semantic_reaches:
  "reaches path v w \<Longrightarrow> sublist (semantic_append w) (semantic_append v)"
proof (induction rule: reaches.induct)
  case (reaches_member key child members path w)
  have "sublist (key @ [newline] @ semantic_append child) (semantic_append (JObject members))"
    using semantic_part [OF reaches_member(1), of "\<lambda>(key, item). key @ [newline] @ semantic_append item"]
    by simp
  moreover have "sublist (semantic_append child) (key @ [newline] @ semantic_append child)"
    by (simp add: suffix_imp_sublist suffix_def flip: append_assoc)
  ultimately show ?case using reaches_member.IH sublist_order.order_trans by blast
next
  case (reaches_element v "values" path w)
  then show ?case
    using semantic_part [OF reaches_element(1), of semantic_append] sublist_order.order_trans by auto
qed simp

lemma sanitise_reaches:
  "reaches path v w \<Longrightarrow> sanitise v \<Longrightarrow> w = JObject members \<Longrightarrow> \<not> opaque_member members"
proof (induction rule: reaches.induct)
  case (reaches_member key child members' path w)
  then show ?case by (force simp: list_all_iff)
next
  case (reaches_element v "values" path w)
  then show ?case by (auto simp: list_all_iff)
qed simp

text \<open>The value without its transport fields still reaches what does not lie behind one of them.\<close>

lemma without_transport_reaches:
  assumes "reaches path v w" "w = JString s \<or> w = JObject members \<and> path \<noteq> []"
    and "redact \<Longrightarrow> path \<noteq> [] \<Longrightarrow> \<not> transport_field (hd path)"
  shows "reaches path (without_transport redact v) w"
  using assms
proof (cases rule: reaches.cases)
  case (reaches_member key child members' p)
  then have "\<not> (redact \<and> transport_field key)" using assms(3) by auto
  then have "reaches (key # p) (without_transport redact v) w"
    using reaches_member by (auto simp: without_transport_def intro!: reaches.reaches_member)
  then show ?thesis using reaches_member by simp
qed (auto simp: without_transport_def intro: reaches.intros)

lemma stream_text:
  "sublist (text @ [newline]) (semantic_append (JObject [(''events'', events), (''text'', JString text)]))"
  by (simp add: suffix_imp_sublist suffix_def flip: append_assoc)


section \<open>Credentials\<close>

text \<open>The credential of the classifier is its own. In a configuration that is accepted, whoever
  passes the assessment endpoint has no ordinary scope, when the digest tells the credential from other
  strings and the credential has no white space around it.\<close>

theorem assessment_credential_opens_nothing_else:
  assumes "governance_new parse_url c api_tokens = Inr ()"
    and "\<And>x. digest x = digest (gc_assessment_token c) \<Longrightarrow> x = gc_assessment_token c"
    and "trim (gc_assessment_token c) = gc_assessment_token c" "gc_assessment_token c \<noteq> []"
    and "valid_token digest header (gc_assessment_token c)"
  shows "authorize api_tokens header scope = Inl Unauthorized"
proof -
  have bearer: "bearer_token header = Some (gc_assessment_token c)"
    using assms(2,5) by (auto simp: valid_token_def split: option.splits)
  have "\<forall>x\<in>set api_tokens. at_token x \<noteq> gc_assessment_token c"
    using assms(1,4) by (auto simp: governance_new_def and_then_Inr image_iff split: if_splits)
  then have "matching_token api_tokens header scope = None"
    using bearer assms(3,4) by (auto simp: matching_token_def find_None_iff)
  then show ?thesis by (simp add: authorize_def)
qed

section \<open>A concrete exchange\<close>

definition calm_aria :: governance_env where
  "calm_aria = \<lparr>ge_aria = (\<lambda>input. Some [Some (ev_phase input)]),
     ge_verdict = (\<lambda>raw. Some \<lparr>vd_protocol_version = 1, vd_id = ''d'', vd_request_id = ''r'', vd_phase = raw,
       vd_action = Act_Allow\<rparr>),
     ge_parse_json = (\<lambda>raw. Some (JObject [(''messages'', JArray [JString raw])])), ge_digest = (\<lambda>s. s)\<rparr>"

definition governed_request :: http_request where
  "governed_request = \<lparr>hq_path = ''/v1/llm/complete'', hq_authorization = Some ''Bearer key'',
     hq_content_type = Some ''application/json'', hq_body = Some (Utf8 ''ask'')\<rparr>"

definition plain_handler :: "bool \<Rightarrow> http_request \<Rightarrow> http_response" where
  "plain_handler governed request =
     \<lparr>hr_status = 200, hr_headers = [''content-type'' \<mapsto> ''application/json''], hr_body = Some (Utf8 ''answer'')\<rparr>"

definition one_client :: "api_token list" where
  "one_client = [\<lparr>at_client_id = ''c'', at_token = ''key'', at_scopes = [''LLM'']\<rparr>]"

definition governed_config :: "governance_mode \<Rightarrow> governance_config" where
  "governed_config mode = default_governance\<lparr>gc_mode := mode,
     gc_assessment_token := ''aria-assessment-test-token-000000''\<rparr>"

definition no_counters :: governance_counters where
  "no_counters = \<lparr>gv_failures = 0, gv_blocked = 0, gv_observed = 0\<rparr>"

lemma sample_scope: "scope_for_path (hq_path governed_request) = Some ''llm''"
  by code_simp

lemma sample_client: "authorize one_client (hq_authorization governed_request) ''llm'' = Inr ''c''"
  by code_simp

lemma sample_bodies:
  "read_body (gc_max_body_bytes (governed_config mode)) (hq_body governed_request) = Some (Utf8 ''ask'')"
  "read_body (gc_max_body_bytes (governed_config mode)) (hr_body (plain_handler True governed_request))
     = Some (Utf8 ''answer'')"
  by (simp_all add: read_body_def governed_config_def default_governance_def governed_request_def
      plain_handler_def utf8_len_def)

lemma calm_checks:
  "ev_request_id input = ''r'' \<Longrightarrow> length (ev_phase input) \<le> 65536 \<Longrightarrow>
     \<exists>v g'. check_exchange calm_aria c input g = (Inr Checked_ok, v, g')"
  by (simp add: check_exchange_def evaluate_exchange_def calm_aria_def)

lemma evaluation_fields:
  "ev_request_id (exchange_evaluation E i p s r ct red b) = i"
  "ev_phase (exchange_evaluation E i p s r ct red b) = p"
  by (simp_all add: exchange_evaluation_def split: prod.splits)

lemma sample_delivers:
  "\<exists>resp g' events. guard calm_aria (governed_config Gov_Enforce) one_client plain_handler True ''r''
    governed_request no_counters = (Deliver resp, g', events)"
proof -
  let ?c = "governed_config Gov_Enforce"
  have path: "hq_path governed_request \<noteq> ''/v1/internal/aria/assess''"
    using scope_not_assess sample_scope by blast
  have same: "governed_request\<lparr>hq_body := Some (Utf8 ''ask'')\<rparr> = governed_request"
    by (simp add: governed_request_def)
  have mode: "gc_mode ?c = Gov_Enforce" by (simp add: governed_config_def)
  have calm: "\<exists>v g'. check_exchange calm_aria ?c (exchange_evaluation E ''r'' p s r ct red b) g
      = (Inr Checked_ok, v, g')" if "p \<in> {''request'', ''response''}" for E p s r ct red b g
    using calm_checks [of "exchange_evaluation E ''r'' p s r ct red b" ?c g] that by (auto simp: evaluation_fields)
  obtain v g1 where one: "check_exchange calm_aria ?c (exchange_evaluation calm_aria ''r''
      ''request'' ''c'' (hq_path governed_request) (unwrap_or [] (hq_content_type governed_request)) True
      (Utf8 ''ask'')) no_counters = (Inr Checked_ok, v, g1)"
    using calm by blast
  obtain w g2 where two: "check_exchange calm_aria ?c (exchange_evaluation calm_aria ''r''
      ''response'' ''c'' (hq_path governed_request) (unwrap_or [] (hr_headers (plain_handler True governed_request)
      ''content-type'')) False (Utf8 ''answer'')) g1 = (Inr Checked_ok, w, g2)"
    using calm by blast
  show ?thesis
    using one two path mode sample_scope sample_client sample_bodies [of Gov_Enforce]
    by (simp add: guard_def release_response_def Let_def same)
qed


theorem monitoring_withholds_nothing_witness:
  "\<exists>resp g' events. guard calm_aria (governed_config Gov_Monitor) one_client plain_handler True ''r''
      governed_request no_counters = (Deliver resp, g', events) \<and> hr_body resp = Some (Utf8 ''answer'')"
proof -
  have "gc_mode (governed_config Gov_Monitor) = Gov_Monitor" by (simp add: governed_config_def)
  from monitoring_withholds_nothing [where c = "governed_config Gov_Monitor" and request = governed_request
      and handler = plain_handler and permit = True and body = "Utf8 ''ask''" and out = "Utf8 ''answer''"
      and E = calm_aria and request_id = "''r''" and g = no_counters,
      OF this sample_scope sample_client TrueI sample_bodies(1) sample_bodies(2)]
  show ?thesis by (elim exE conjE) (intro exI conjI)
qed

theorem enforced_completion_is_inspected_witness:
  "\<exists>before v rest. snd (snd (completion calm_aria (governed_config Gov_Enforce) False False True ''r'' ''ask''
      None Inr (Inr ''answer'') no_counters)) = Checked_completion before (Some v) # Ran_completion # rest
    \<and> clears before v"
proof -
  let ?c = "governed_config Gov_Enforce"
  have mode: "gc_mode ?c = Gov_Enforce" "\<not> gc_fail_open ?c"
    by (simp_all add: governed_config_def default_governance_def)
  obtain answer g' events where run: "completion calm_aria ?c False False True ''r'' ''ask'' None Inr
      (Inr ''answer'') no_counters = (answer, g', events)"
    by (metis prod_cases3)
  obtain v g1 where "check_exchange calm_aria ?c (exchange_evaluation calm_aria ''r'' ''request'' ''gail_internal''
      ''/v1/llm/internal'' ''application/json'' True (Utf8 ''ask'')) no_counters = (Inr Checked_ok, v, g1)"
    using calm_checks [of "exchange_evaluation calm_aria ''r'' ''request'' ''gail_internal''
      ''/v1/llm/internal'' ''application/json'' True (Utf8 ''ask'')" ?c no_counters]
    by (auto simp: evaluation_fields)
  then have "Ran_completion \<in> set events"
    using run mode by (auto simp: completion_def checks_completion_def Let_def split: sum.splits prod.splits)
  with enforced_completion_is_inspected [OF mode, of False False] run show ?thesis
    by fastforce
qed


theorem assessment_credential_opens_nothing_else_witness:
  "authorize one_client (Some ''Bearer aria-assessment-test-token-000000'') ''llm'' = Inl Unauthorized"
proof -
  let ?c = "governed_config Gov_Disabled"
  have t: "gc_assessment_token ?c = ''aria-assessment-test-token-000000''" by (simp add: governed_config_def)
  have "governance_new (\<lambda>_. None) ?c one_client = Inr ()" by code_simp
  moreover have "trim (gc_assessment_token ?c) = gc_assessment_token ?c" unfolding t by code_simp
  moreover have "valid_token (\<lambda>s. s) (Some ''Bearer aria-assessment-test-token-000000'') (gc_assessment_token ?c)"
    unfolding t by code_simp
  ultimately show ?thesis
    using assessment_credential_opens_nothing_else [of "\<lambda>_. None" ?c one_client "\<lambda>s. s"] by (simp add: t)
qed

end
