(* ===== verification/Vault.thy ===== *)
theory Vault
  imports Prelude "HOL-Library.Countable"
begin

text \<open>
  The encrypted store of provider credentials, \<^verbatim>\<open>src/src/model_credentials.rs\<close>: its file, the operations
  under its lock, and the map of credentials that it stands for.

  The lock makes an operation one step. The cipher, base64, hexadecimal, the JSON form of the credentials
  and the random nonce are arguments; the file is its parsed contents, or what keeps it from being read.
\<close>

section \<open>The file\<close>

record provider_credentials =
  pc_username :: "string option"
  pc_password :: "string option"
  pc_token :: "string option"

record credential_summary =
  cs_provider :: string
  cs_username_configured :: bool
  cs_password_configured :: bool
  cs_token_configured :: bool
  cs_updated_at :: u64

record encrypted_credential =
  ec_nonce :: string
  ec_ciphertext :: string
  ec_username_configured :: bool
  ec_password_configured :: bool
  ec_token_configured :: bool
  ec_updated_at :: u64

record vault_file =
  vf_version :: nat
  vf_entries :: "encrypted_credential btree"

datatype vault_disk = No_vault | Broken_vault string | Stored_vault (vd_mode: nat) (vd_contents: vault_file)

datatype vault_write = Vault_written | Vault_kept | Vault_unsynced

record vault_tools =
  vt_seal :: "string \<Rightarrow> string \<Rightarrow> string \<Rightarrow> string \<Rightarrow> string"
  vt_open :: "string \<Rightarrow> string \<Rightarrow> string \<Rightarrow> string \<Rightarrow> string option"
  vt_encode :: "string \<Rightarrow> string"
  vt_decode :: "string \<Rightarrow> string option"
  vt_render :: "provider_credentials \<Rightarrow> string"
  vt_parse :: "string \<Rightarrow> provider_credentials option"

definition vault_version :: nat where "vault_version = 1"

text \<open>Mode \<open>0600\<close>.\<close>

definition owner_only :: nat where "owner_only = 384"

definition nonce_bytes :: nat where "nonce_bytes = 12"

definition usable :: "string option \<Rightarrow> bool" where
  "usable field = (case field of None \<Rightarrow> False | Some v \<Rightarrow> trim v \<noteq> [])"

definition has_any_value :: "provider_credentials \<Rightarrow> bool" where
  "has_any_value c \<longleftrightarrow> usable (pc_username c) \<or> usable (pc_password c) \<or> usable (pc_token c)"

definition has_token :: "provider_credentials \<Rightarrow> bool" where
  "has_token c = usable (pc_token c)"

definition provider_char :: "char \<Rightarrow> bool" where
  "provider_char b \<longleftrightarrow>
     (let n = code_point b in (97 \<le> n \<and> n \<le> 122) \<or> (48 \<le> n \<and> n \<le> 57) \<or> b = CHR ''-'' \<or> b = CHR ''_'')"

definition normalize_provider :: "string \<Rightarrow> string + string" where
  "normalize_provider provider =
     (let normalized = to_ascii_lowercase (trim provider)
      in if normalized = [] \<or> 64 < utf8_len normalized \<or> \<not> list_all provider_char normalized
         then Inl (''provider must contain only letters, digits, '-' or '_'' @ [CHR 0x27])
         else Inr normalized)"

section \<open>Records\<close>

definition encrypt_record ::
  "vault_tools \<Rightarrow> string \<Rightarrow> string option \<Rightarrow> u64 \<Rightarrow> string \<Rightarrow> provider_credentials \<Rightarrow> string + encrypted_credential" where
  "encrypt_record T key nonce now provider c =
     (case nonce of
        None \<Rightarrow> Inl ''could not generate credential encryption nonce''
      | Some n \<Rightarrow>
          Inr \<lparr>ec_nonce = vt_encode T n, ec_ciphertext = vt_encode T (vt_seal T key n provider (vt_render T c)),
            ec_username_configured = usable (pc_username c), ec_password_configured = usable (pc_password c),
            ec_token_configured = has_token c, ec_updated_at = now\<rparr>)"

definition decrypt_record ::
  "vault_tools \<Rightarrow> string \<Rightarrow> string \<Rightarrow> encrypted_credential \<Rightarrow> string + provider_credentials" where
  "decrypt_record T key provider r =
     (case vt_decode T (ec_nonce r) of
        None \<Rightarrow> Inl ''invalid base64''
      | Some n \<Rightarrow>
          if length n \<noteq> nonce_bytes then Inl ''invalid credential encryption nonce''
          else case vt_decode T (ec_ciphertext r) of
            None \<Rightarrow> Inl ''invalid base64''
          | Some ciphertext \<Rightarrow>
              (case vt_open T key n provider ciphertext of
                 None \<Rightarrow> Inl ''provider credential decryption failed''
               | Some plaintext \<Rightarrow>
                   (case vt_parse T plaintext of None \<Rightarrow> Inl ''invalid credentials'' | Some c \<Rightarrow> Inr c)))"

section \<open>Operations\<close>

definition read_vault :: "vault_disk \<Rightarrow> string + vault_file" where
  "read_vault d =
     (case d of
        No_vault \<Rightarrow> Inr \<lparr>vf_version = vault_version, vf_entries = []\<rparr>
      | Broken_vault e \<Rightarrow> Inl e
      | Stored_vault mode f \<Rightarrow>
          if mode \<noteq> owner_only then Inl ''credential store permissions must be 0600''
          else if vf_version f \<noteq> vault_version then Inl ''unsupported credential store version''
          else Inr f)"

text \<open>
  The file is replaced as a whole. A write that fails before the rename keeps the old file; one that fails
  when the directory is synchronised leaves the new file and an error.
\<close>

definition write_vault_atomic :: "vault_write \<Rightarrow> vault_file \<Rightarrow> vault_disk \<Rightarrow> (string + unit) \<times> vault_disk" where
  "write_vault_atomic w f d =
     (case w of
        Vault_written \<Rightarrow> (Inr (), Stored_vault owner_only f)
      | Vault_kept \<Rightarrow> (Inl ''write failed'', d)
      | Vault_unsynced \<Rightarrow> (Inl ''sync failed'', Stored_vault owner_only f))"

definition open_vault ::
  "vault_tools \<Rightarrow> (string \<Rightarrow> string option) \<Rightarrow> string \<Rightarrow> vault_disk \<Rightarrow> string + string" where
  "open_vault T decode_hex key_hex d =
     (case decode_hex (trim key_hex) of
        None \<Rightarrow> Inl ''invalid hexadecimal''
      | Some key \<Rightarrow>
          if length key \<noteq> 32 then Inl ''credential encryption key must be 64 hexadecimal characters''
          else and_then (read_vault d) (\<lambda>stored.
            case List.find (\<lambda>r. \<not> is_ok r)
                (map (\<lambda>(provider, r). decrypt_record T key provider r) (vf_entries stored)) of
              Some (Inl e) \<Rightarrow> Inl e
            | _ \<Rightarrow> Inr key))"

definition list_vault :: "vault_disk \<Rightarrow> string + credential_summary list" where
  "list_vault d =
     and_then (read_vault d) (\<lambda>stored.
       Inr (map (\<lambda>(provider, r). \<lparr>cs_provider = provider, cs_username_configured = ec_username_configured r,
         cs_password_configured = ec_password_configured r, cs_token_configured = ec_token_configured r,
         cs_updated_at = ec_updated_at r\<rparr>) (vf_entries stored)))"

definition put_vault ::
  "vault_tools \<Rightarrow> string \<Rightarrow> string option \<Rightarrow> u64 \<Rightarrow> vault_write \<Rightarrow> string \<Rightarrow> provider_credentials \<Rightarrow> vault_disk \<Rightarrow>
     (string + unit) \<times> vault_disk" where
  "put_vault T key nonce now w provider c d =
     (case normalize_provider provider of
        Inl e \<Rightarrow> (Inl e, d)
      | Inr provider \<Rightarrow>
          if \<not> has_any_value c then (Inl ''at least one credential field is required'', d)
          else case read_vault d of
            Inl e \<Rightarrow> (Inl e, d)
          | Inr stored \<Rightarrow>
              (case encrypt_record T key nonce now provider c of
                 Inl e \<Rightarrow> (Inl e, d)
               | Inr r \<Rightarrow> write_vault_atomic w \<lparr>vf_version = vault_version,
                     vf_entries = bt_insert provider r (vf_entries stored)\<rparr> d))"

definition delete_vault :: "vault_write \<Rightarrow> string \<Rightarrow> vault_disk \<Rightarrow> (string + bool) \<times> vault_disk" where
  "delete_vault w provider d =
     (case normalize_provider provider of
        Inl e \<Rightarrow> (Inl e, d)
      | Inr provider \<Rightarrow>
          (case read_vault d of
             Inl e \<Rightarrow> (Inl e, d)
           | Inr stored \<Rightarrow>
               if map_of (vf_entries stored) provider = None then (Inr False, d)
               else case write_vault_atomic w (stored\<lparr>vf_entries := bt_remove provider (vf_entries stored)\<rparr>) d of
                 (Inl e, d) \<Rightarrow> (Inl e, d)
               | (Inr _, d) \<Rightarrow> (Inr True, d)))"

definition get_vault ::
  "vault_tools \<Rightarrow> string \<Rightarrow> string \<Rightarrow> vault_disk \<Rightarrow> string + provider_credentials option" where
  "get_vault T key provider d =
     and_then (normalize_provider provider) (\<lambda>provider.
     and_then (read_vault d) (\<lambda>stored.
       case map_of (vf_entries stored) provider of
         None \<Rightarrow> Inr None
       | Some r \<Rightarrow> and_then (decrypt_record T key provider r) (\<lambda>c. Inr (Some c))))"

section \<open>The map of credentials\<close>

text \<open>What is asked of the cipher and the encodings: each undoes its inverse.\<close>

definition faithful_tools :: "vault_tools \<Rightarrow> bool" where
  "faithful_tools T \<longleftrightarrow>
     (\<forall>x. vt_decode T (vt_encode T x) = Some x) \<and> (\<forall>c. vt_parse T (vt_render T c) = Some c)
     \<and> (\<forall>key n aad x. vt_open T key n aad (vt_seal T key n aad x) = Some x)"

datatype vault_op =
    Put_credentials string provider_credentials "string option" u64 vault_write
  | Delete_credentials string vault_write

fun vault_step :: "vault_tools \<Rightarrow> string \<Rightarrow> vault_op \<Rightarrow> vault_disk \<Rightarrow> vault_disk" where
  "vault_step T key (Put_credentials provider c nonce now w) d = snd (put_vault T key nonce now w provider c d)"
| "vault_step T key (Delete_credentials provider w) d = snd (delete_vault w provider d)"

definition vault_after :: "vault_tools \<Rightarrow> string \<Rightarrow> vault_op list \<Rightarrow> vault_disk" where
  "vault_after T key ops = fold (vault_step T key) ops No_vault"

text \<open>A nonce has its twelve bytes when the generator yields it.\<close>

fun op_nonce_ok :: "vault_op \<Rightarrow> bool" where
  "op_nonce_ok (Put_credentials provider c nonce now w) = (\<forall>n. nonce = Some n \<longrightarrow> length n = nonce_bytes)"
| "op_nonce_ok (Delete_credentials provider w) = True"

text \<open>The specification: a map from provider names to credentials.\<close>

fun credentials_step :: "vault_op \<Rightarrow> (string \<Rightarrow> provider_credentials option) \<Rightarrow> string \<Rightarrow> provider_credentials option"
where
  "credentials_step (Put_credentials provider c nonce now w) m =
     (case normalize_provider provider of
        Inl _ \<Rightarrow> m
      | Inr p \<Rightarrow> if has_any_value c \<and> nonce \<noteq> None \<and> w \<noteq> Vault_kept then m(p \<mapsto> c) else m)"
| "credentials_step (Delete_credentials provider w) m =
     (case normalize_provider provider of
        Inl _ \<Rightarrow> m
      | Inr p \<Rightarrow> if w \<noteq> Vault_kept then m(p := None) else m)"

definition credentials_of :: "vault_op list \<Rightarrow> string \<Rightarrow> provider_credentials option" where
  "credentials_of ops = fold credentials_step ops Map.empty"

text \<open>The invariant that relates the two.\<close>

definition entry_of :: "vault_tools \<Rightarrow> string \<Rightarrow> string \<Rightarrow> encrypted_credential \<Rightarrow> provider_credentials \<Rightarrow> bool" where
  "entry_of T key provider r c \<longleftrightarrow>
     decrypt_record T key provider r = Inr c \<and> ec_username_configured r = usable (pc_username c)
     \<and> ec_password_configured r = usable (pc_password c) \<and> ec_token_configured r = has_token c"

definition stands_for ::
  "vault_tools \<Rightarrow> string \<Rightarrow> vault_disk \<Rightarrow> (string \<Rightarrow> provider_credentials option) \<Rightarrow> bool" where
  "stands_for T key d m \<longleftrightarrow>
     (\<exists>f. read_vault d = Inr f \<and> bt_wf (vf_entries f)
        \<and> (\<forall>p. rel_option (entry_of T key p) (map_of (vf_entries f) p) (m p)))"

lemma encrypted_entry:
  assumes "faithful_tools T" "encrypt_record T key (Some n) now p c = Inr r" "length n = nonce_bytes"
  shows "entry_of T key p r c"
  using assms by (auto simp: entry_of_def encrypt_record_def decrypt_record_def faithful_tools_def)

lemma stored_stands_for:
  assumes "bt_wf (vf_entries f)" "vf_version f = vault_version"
    and "\<And>p. rel_option (entry_of T key p) (map_of (vf_entries f) p) (m p)"
  shows "stands_for T key (Stored_vault owner_only f) m"
  using assms by (auto simp: stands_for_def read_vault_def)

lemma read_vault_version: "read_vault d = Inr f \<Longrightarrow> vf_version f = vault_version"
  by (auto simp: read_vault_def split: vault_disk.splits if_splits)

lemma put_stands_for:
  assumes "faithful_tools T" "stands_for T key d m" "\<forall>n. nonce = Some n \<longrightarrow> length n = nonce_bytes"
  shows "stands_for T key (snd (put_vault T key nonce now w provider c d))
    (credentials_step (Put_credentials provider c nonce now w) m)"
proof -
  obtain f where f: "read_vault d = Inr f" "bt_wf (vf_entries f)"
      "\<And>p. rel_option (entry_of T key p) (map_of (vf_entries f) p) (m p)"
    using assms(2) by (auto simp: stands_for_def)
  show ?thesis
  proof (cases "\<exists>p n. normalize_provider provider = Inr p \<and> has_any_value c \<and> nonce = Some n \<and> w \<noteq> Vault_kept")
    case False
    then show ?thesis
      using assms(2) f(1)
      by (auto simp: put_vault_def encrypt_record_def write_vault_atomic_def
          split: sum.splits option.splits vault_write.splits)
  next
    case True
    then obtain p n where p: "normalize_provider provider = Inr p" "has_any_value c" "nonce = Some n"
        "w \<noteq> Vault_kept" by blast
    obtain r where r: "encrypt_record T key nonce now p c = Inr r" using p(3) by (simp add: encrypt_record_def)
    let ?g = "\<lparr>vf_version = vault_version, vf_entries = bt_insert p r (vf_entries f)\<rparr>"
    have "snd (put_vault T key nonce now w provider c d) = Stored_vault owner_only ?g"
      using p f(1) r by (cases w) (auto simp: put_vault_def write_vault_atomic_def)
    moreover have "stands_for T key (Stored_vault owner_only ?g) (m(p \<mapsto> c))"
      using f(2,3) r p(3) encrypted_entry [OF assms(1)] assms(3)
      by (intro stored_stands_for) (auto simp: bt_wf_insert)
    ultimately show ?thesis using p by simp
  qed
qed

lemma delete_stands_for:
  assumes "stands_for T key d m"
  shows "stands_for T key (snd (delete_vault w provider d)) (credentials_step (Delete_credentials provider w) m)"
proof (cases "normalize_provider provider")
  case (Inl e)
  then show ?thesis using assms by (simp add: delete_vault_def)
next
  case (Inr p)
  obtain f where f: "read_vault d = Inr f" "bt_wf (vf_entries f)"
      "\<And>q. rel_option (entry_of T key q) (map_of (vf_entries f) q) (m q)"
    using assms by (auto simp: stands_for_def)
  show ?thesis
  proof (cases "map_of (vf_entries f) p = None \<or> w = Vault_kept")
    case True
    have "m(p := None) = m" if "map_of (vf_entries f) p = None"
      using f(3) [of p] that by (simp add: fun_upd_idem_iff)
    then show ?thesis
      using True Inr f(1) assms
      by (auto simp: delete_vault_def write_vault_atomic_def split: vault_write.splits)
  next
    case False
    let ?g = "f\<lparr>vf_entries := bt_remove p (vf_entries f)\<rparr>"
    have "snd (delete_vault w provider d) = Stored_vault owner_only ?g"
      using False Inr f(1) by (cases w) (auto simp: delete_vault_def write_vault_atomic_def)
    moreover have "stands_for T key (Stored_vault owner_only ?g) (m(p := None))"
      using f(2,3) read_vault_version [OF f(1)] by (intro stored_stands_for) (auto simp: bt_wf_remove)
    ultimately show ?thesis using Inr False by simp
  qed
qed

lemma after_stands_for:
  assumes "faithful_tools T" "\<forall>op\<in>set ops. op_nonce_ok op"
  shows "stands_for T key (vault_after T key ops) (credentials_of ops)"
proof -
  have "stands_for T key (fold (vault_step T key) ops d) (fold credentials_step ops m)"
    if "stands_for T key d m" for d m
    using assms(2) that
  proof (induction ops arbitrary: d m)
    case (Cons op ops)
    have "stands_for T key (vault_step T key op d) (credentials_step op m)"
      using Cons.prems put_stands_for [OF assms(1)] delete_stands_for by (cases op) auto
    then show ?case using Cons by simp
  qed simp
  moreover have "stands_for T key No_vault Map.empty"
    by (simp add: stands_for_def read_vault_def bt_wf_def)
  ultimately show ?thesis by (simp add: vault_after_def credentials_of_def)
qed

text \<open>C24: The encrypted file is a map. After any sequence of saving and deleting, by replicas that share
  the file and the key, with writes that fail before or after the new file is in place, the store opens,
  reading a provider answers exactly the credentials last saved under its name and not deleted since, and
  the summaries name exactly the providers that have credentials, each with the fields that are set.\<close>

theorem vault_is_a_map:
  assumes "faithful_tools T" "\<forall>op\<in>set ops. op_nonce_ok op"
  shows "get_vault T key provider (vault_after T key ops)
      = and_then (normalize_provider provider) (\<lambda>p. Inr (credentials_of ops p))
    \<and> (decode_hex (trim key_hex) = Some key \<and> length key = 32 \<longrightarrow>
        open_vault T decode_hex key_hex (vault_after T key ops) = Inr key)
    \<and> (\<exists>summaries. list_vault (vault_after T key ops) = Inr summaries
        \<and> sorted_wrt (<) (map cs_provider summaries) \<and> cs_provider ` set summaries = dom (credentials_of ops)
        \<and> (\<forall>x\<in>set summaries. \<exists>c. credentials_of ops (cs_provider x) = Some c
             \<and> cs_username_configured x = usable (pc_username c)
             \<and> cs_password_configured x = usable (pc_password c) \<and> cs_token_configured x = has_token c))"
proof -
  obtain f where f: "read_vault (vault_after T key ops) = Inr f" "bt_wf (vf_entries f)"
      "\<And>p. rel_option (entry_of T key p) (map_of (vf_entries f) p) (credentials_of ops p)"
    using after_stands_for [OF assms, of key] by (auto simp: stands_for_def)
  have distinct: "distinct (map fst (vf_entries f))"
    using f(2) by (simp add: bt_wf_def strict_sorted_iff)
  have entry: "\<exists>c. credentials_of ops p = Some c \<and> entry_of T key p r c" if "(p, r) \<in> set (vf_entries f)" for p r
    using f(3) [of p] that distinct by (auto simp: rel_option_iff split: option.splits)
  have "get_vault T key provider (vault_after T key ops)
      = and_then (normalize_provider provider) (\<lambda>p. Inr (credentials_of ops p))"
  proof (cases "normalize_provider provider")
    case (Inr p)
    then show ?thesis
      using f(1) f(3) [of p] by (auto simp: get_vault_def entry_of_def rel_option_iff split: option.splits)
  qed (simp add: get_vault_def)
  moreover have "open_vault T decode_hex key_hex (vault_after T key ops) = Inr key"
    if "decode_hex (trim key_hex) = Some key" "length key = 32"
  proof -
    have "List.find (\<lambda>r. \<not> is_ok r) (map (\<lambda>(p, r). decrypt_record T key p r) (vf_entries f)) = None"
      using entry by (force simp: find_None_iff entry_of_def)
    then show ?thesis using that f(1) by (simp add: open_vault_def)
  qed
  moreover obtain summaries where summaries: "list_vault (vault_after T key ops) = Inr summaries"
      "map cs_provider summaries = map fst (vf_entries f)"
      "\<forall>x\<in>set summaries. \<exists>c. credentials_of ops (cs_provider x) = Some c
         \<and> cs_username_configured x = usable (pc_username c)
         \<and> cs_password_configured x = usable (pc_password c) \<and> cs_token_configured x = has_token c"
    using f(1) entry by (fastforce simp: list_vault_def entry_of_def)
  moreover have "fst ` set (vf_entries f) = dom (credentials_of ops)"
  proof -
    have "dom (map_of (vf_entries f)) = dom (credentials_of ops)"
    proof (rule set_eqI)
      fix p
      show "p \<in> dom (map_of (vf_entries f)) \<longleftrightarrow> p \<in> dom (credentials_of ops)"
        using f(3) [of p] unfolding rel_option_iff domIff by (simp split: option.splits)
    qed
    then show ?thesis by (simp add: dom_map_of_conv_image_fst)
  qed
  moreover have "cs_provider ` set summaries = fst ` set (vf_entries f)"
    using arg_cong [OF summaries(2), of set] by simp
  moreover have "sorted_wrt (<) (map cs_provider summaries)"
    using f(2) summaries(2) by (simp add: bt_wf_def)
  ultimately show ?thesis using summaries by blast
qed

section \<open>A concrete store\<close>

text \<open>A cipher that only marks its text with key, nonce and provider, and a unary form of credentials.\<close>

definition marking_tools :: vault_tools where
  "marking_tools =
     \<lparr>vt_seal = (\<lambda>key n aad x. key @ n @ aad @ x),
      vt_open = (\<lambda>key n aad x. let mark = key @ n @ aad in if prefix mark x then Some (drop (length mark) x) else None),
      vt_encode = (\<lambda>x. x), vt_decode = Some,
      vt_render = (\<lambda>c. replicate (to_nat (pc_username c, pc_password c, pc_token c)) (CHR ''x'')),
      vt_parse = (\<lambda>x. case from_nat (length x) of (u, p, t) \<Rightarrow>
        Some \<lparr>pc_username = u, pc_password = p, pc_token = t\<rparr>)\<rparr>"

lemma marking_faithful: "faithful_tools marking_tools"
  by (simp add: faithful_tools_def marking_tools_def Let_def)

definition hub_credentials :: provider_credentials where
  "hub_credentials = \<lparr>pc_username = Some ''user'', pc_password = None, pc_token = Some ''hf''\<rparr>"

definition vault_run :: "vault_op list" where
  "vault_run =
     [Put_credentials ''HuggingFace'' hub_credentials (Some ''twelve bytes'') 1 Vault_unsynced,
      Delete_credentials ''huggingface'' Vault_kept,
      Put_credentials ''openai'' hub_credentials None 2 Vault_written]"

lemma vault_run_ok: "\<forall>op\<in>set vault_run. op_nonce_ok op"
  by (simp add: vault_run_def nonce_bytes_def)

lemma vault_run_map: "credentials_of vault_run ''huggingface'' = Some hub_credentials"
proof -
  have "normalize_provider ''HuggingFace'' = Inr ''huggingface''" "normalize_provider ''huggingface'' = Inr ''huggingface''"
    "has_any_value hub_credentials"
    by code_simp+
  then show ?thesis
    by (simp add: credentials_of_def vault_run_def split: sum.split)
qed

theorem vault_is_a_map_witness:
  "get_vault marking_tools ''k'' ''HuggingFace'' (vault_after marking_tools ''k'' vault_run) = Inr (Some hub_credentials)"
proof -
  have "normalize_provider ''HuggingFace'' = Inr ''huggingface''" by code_simp
  then show ?thesis
    using vault_is_a_map [OF marking_faithful vault_run_ok, of "''k''" "''HuggingFace''"] vault_run_map by simp
qed

end
