(* ===== verification/Admission.thy ===== *)
theory Admission
  imports Invocation
begin

text \<open>
  Admission of providers by comparison, \<^verbatim>\<open>src/src/provider_admission.rs\<close>: the durable statistics of a
  candidate, the decision that rests on them, the queries of the router, and the scores of a response.

  A row is found by kind, endpoint and model. One observation is two statements on the table, so that two
  workers may interleave; a value of the database is a double, like those of the program.
\<close>

section \<open>Observations and rows\<close>

record admission_settings =
  as_minimum_samples :: nat
  as_minimum_useful_rate :: f64
  as_minimum_candidate_quality :: f64
  as_minimum_similarity :: f64
  as_quality_tolerance :: f64
  as_minimum_quality_improvement :: f64

record admission_observation =
  ao_kind :: string
  ao_endpoint :: string
  ao_model :: string
  ao_model_version :: string
  ao_useful :: bool
  ao_candidate_quality :: f64
  ao_baseline_quality :: f64
  ao_similarity :: f64
  ao_latency_ms :: "nat option"
  ao_error :: "string option"

record admission_row =
  ar_model_version :: string
  ar_sample_count :: nat
  ar_useful_count :: nat
  ar_average_quality :: f64
  ar_average_baseline_quality :: f64
  ar_average_similarity :: f64
  ar_last_latency_ms :: "nat option"
  ar_last_error :: "string option"
  ar_last_sample_at :: int
  ar_admitted :: bool

type_synonym admission_key = "string \<times> string \<times> string"

type_synonym admissions = "admission_key \<Rightarrow> admission_row option"

definition normalize_endpoint :: "string \<Rightarrow> string" where
  "normalize_endpoint endpoint = to_ascii_lowercase (trim_end_by (\<lambda>c. c = CHR ''/'') (trim endpoint))"

definition admission_endpoint_matches :: "string \<Rightarrow> string \<Rightarrow> bool" where
  "admission_endpoint_matches left right \<longleftrightarrow> normalize_endpoint left = normalize_endpoint right"

definition admission_model_matches :: "string \<Rightarrow> string \<Rightarrow> bool" where
  "admission_model_matches left right \<longleftrightarrow> eq_ignore_ascii_case (trim left) (trim right)"

definition observation_key :: "admission_observation \<Rightarrow> admission_key" where
  "observation_key ob = (ao_kind ob, normalize_endpoint (ao_endpoint ob), ao_model ob)"

definition truncate_error :: "string \<Rightarrow> string" where
  "truncate_error error = take 4000 error"

definition running_average :: "f64 \<Rightarrow> nat \<Rightarrow> f64 \<Rightarrow> f64" where
  "running_average average n x = f_div (f_add (f_mul average (f_of_nat n)) x) (f_of_nat (n + 1))"

section \<open>The two statements of an observation\<close>

definition new_admission :: "int \<Rightarrow> admission_observation \<Rightarrow> admission_row" where
  "new_admission now ob =
     \<lparr>ar_model_version = ao_model_version ob, ar_sample_count = 1, ar_useful_count = of_bool (ao_useful ob),
      ar_average_quality = ao_candidate_quality ob, ar_average_baseline_quality = ao_baseline_quality ob,
      ar_average_similarity = ao_similarity ob,
      ar_last_latency_ms = map_option (\<lambda>n. min n (2 ^ 63 - 1)) (ao_latency_ms ob),
      ar_last_error = map_option truncate_error (ao_error ob), ar_last_sample_at = now, ar_admitted = False\<rparr>"

definition merged_admission :: "int \<Rightarrow> admission_observation \<Rightarrow> admission_row \<Rightarrow> admission_row" where
  "merged_admission now ob r =
     (if ar_model_version r \<noteq> ao_model_version ob then new_admission now ob
      else (new_admission now ob)
        \<lparr>ar_sample_count := ar_sample_count r + 1,
         ar_useful_count := ar_useful_count r + of_bool (ao_useful ob),
         ar_average_quality := running_average (ar_average_quality r) (ar_sample_count r) (ao_candidate_quality ob),
         ar_average_baseline_quality :=
           running_average (ar_average_baseline_quality r) (ar_sample_count r) (ao_baseline_quality ob),
         ar_average_similarity :=
           running_average (ar_average_similarity r) (ar_sample_count r) (ao_similarity ob)\<rparr>)"

definition upserted :: "int \<Rightarrow> admission_observation \<Rightarrow> admissions \<Rightarrow> admission_row" where
  "upserted now ob m =
     (case m (observation_key ob) of None \<Rightarrow> new_admission now ob | Some r \<Rightarrow> merged_admission now ob r)"

definition admission_earned :: "admission_settings \<Rightarrow> admission_row \<Rightarrow> bool" where
  "admission_earned c r \<longleftrightarrow>
     (let useful_rate = f_div (f_of_nat (ar_useful_count r)) (f_of_nat (max (ar_sample_count r) 1));
          comparable = f_le (as_minimum_similarity c) (ar_average_similarity r)
            \<and> f_le (ar_average_baseline_quality r) (f_add (ar_average_quality r) (as_quality_tolerance c));
          better = f_le (f_add (ar_average_baseline_quality r) (as_minimum_quality_improvement c))
            (ar_average_quality r)
      in as_minimum_samples c \<le> ar_sample_count r \<and> f_le (as_minimum_useful_rate c) useful_rate
         \<and> f_le (as_minimum_candidate_quality c) (ar_average_quality r) \<and> (comparable \<or> better))"

definition write_admitted :: "admission_key \<Rightarrow> bool \<Rightarrow> admissions \<Rightarrow> admissions" where
  "write_admitted k admitted m =
     (case m k of None \<Rightarrow> m | Some r \<Rightarrow> m(k \<mapsto> r\<lparr>ar_admitted := admitted\<rparr>))"

text \<open>Both statements together. The second may fail, and then the row stays as the first left it.\<close>

definition record_observation ::
  "admission_settings \<Rightarrow> int \<Rightarrow> bool \<Rightarrow> admission_observation \<Rightarrow> admissions \<Rightarrow> admissions" where
  "record_observation c now written ob m =
     (let r = upserted now ob m; m = m(observation_key ob \<mapsto> r)
      in if written then write_admitted (observation_key ob) (admission_earned c r) m else m)"

section \<open>The queries of the router\<close>

definition fresh_admission :: "int \<Rightarrow> nat \<Rightarrow> admission_row \<Rightarrow> bool" where
  "fresh_admission now max_age r \<longleftrightarrow>
     ar_admitted r \<and> now - int (min max_age 2147483647) \<le> ar_last_sample_at r"

definition admitted_for_model :: "int \<Rightarrow> string \<Rightarrow> nat \<Rightarrow> admission_key \<Rightarrow> admissions \<Rightarrow> bool" where
  "admitted_for_model now model_version max_age k m \<longleftrightarrow>
     (case m k of None \<Rightarrow> False | Some r \<Rightarrow> ar_model_version r = model_version \<and> fresh_admission now max_age r)"

definition admitted_for_kind :: "int \<Rightarrow> string \<Rightarrow> string \<Rightarrow> string \<Rightarrow> nat \<Rightarrow> admissions \<Rightarrow> bool" where
  "admitted_for_kind now kind endpoint model max_age m \<longleftrightarrow>
     (case m (kind, normalize_endpoint endpoint, model) of
        None \<Rightarrow> False | Some r \<Rightarrow> fresh_admission now max_age r)"

section \<open>Scores of a response\<close>

definition refusal_markers :: "string list" where
  "refusal_markers =
     [''i can'' @ [CHR 0x27] @ ''t help'', ''i cannot help'', ''i'' @ [CHR 0x27] @ ''m unable'', ''i am unable'',
      ''cannot answer'', ''no answer'', ''service unavailable'', ''model not found'', ''upstream error'',
      ''as an ai language model'', ''<think>'']"

definition expected_json_ok :: "(string \<Rightarrow> json option) \<Rightarrow> string \<Rightarrow> bool" where
  "expected_json_ok parse_json cleaned =
     (let parsed = (case parse_json cleaned of
            Some v \<Rightarrow> Some v
          | None \<Rightarrow>
              if prefix fence cleaned \<and> suffix fence (drop 3 cleaned)
              then let body = take (length cleaned - 6) (drop 3 cleaned)
                   in parse_json (trim (strip_prefix_or ''json'' body (trim body)))
              else None)
      in case parsed of
           Some (JObject members) \<Rightarrow> members \<noteq> []
         | Some (JArray items) \<Rightarrow> items \<noteq> []
         | Some JNull \<Rightarrow> False
         | None \<Rightarrow> False
         | Some _ \<Rightarrow> True)"

definition response_quality :: "(string \<Rightarrow> json option) \<Rightarrow> string \<Rightarrow> bool \<Rightarrow> f64" where
  "response_quality parse_json text json_wanted =
     (let cleaned = trim text; lowered = to_ascii_lowercase cleaned
      in if cleaned = [] then Fin 0
         else if (\<exists>marker\<in>set refusal_markers. str_contains lowered marker)
                 \<or> lowered \<in> {''n/a'', ''null'', ''none'', ''...'', ''-''}
         then Fin 0
         else if json_wanted \<and> \<not> expected_json_ok parse_json cleaned then Fin 0
         else f_min (f_add (rnd (65 / 100)) (if 40 \<le> length cleaned then rnd (25 / 100) else rnd (10 / 100))) (Fin 1))"

text \<open>\<open>char::is_alphanumeric\<close> on the scalar values U+0000 to U+00FF.\<close>

definition is_alphanumeric :: "char \<Rightarrow> bool" where
  "is_alphanumeric c \<longleftrightarrow>
     (let n = code_point c
      in is_ascii_alphanumeric c \<or> n \<in> {170, 178, 179, 181, 185, 186, 188, 189, 190}
         \<or> (192 \<le> n \<and> n \<noteq> 215 \<and> n \<noteq> 247))"

fun alphanumeric_tokens :: "string \<Rightarrow> string \<Rightarrow> string list" where
  "alphanumeric_tokens acc [] = (if acc = [] then [] else [rev acc])"
| "alphanumeric_tokens acc (c # cs) =
     (if is_alphanumeric c then alphanumeric_tokens (c # acc) cs
      else (if acc = [] then [] else [rev acc]) @ alphanumeric_tokens [] cs)"

definition token_set :: "string \<Rightarrow> string set" where
  "token_set text = set (map to_ascii_lowercase (alphanumeric_tokens [] text))"

definition token_similarity :: "string \<Rightarrow> string \<Rightarrow> f64" where
  "token_similarity left right =
     (if token_set left = {} \<or> token_set right = {} then Fin 0
      else f_div (f_of_nat (card (token_set left \<inter> token_set right)))
                 (f_of_nat (card (token_set left \<union> token_set right))))"

section \<open>An admission rests on its own samples\<close>

text \<open>The observations of a key that count: the latest ones, as far back as their model version is that of
  the last; the oldest first.\<close>

definition counted :: "admission_key \<Rightarrow> admission_observation list \<Rightarrow> admission_observation list" where
  "counted k obs =
     (let mine = filter (\<lambda>ob. observation_key ob = k) obs
      in rev (takeWhile (\<lambda>ob. ao_model_version ob = ao_model_version (List.last mine)) (rev mine)))"

fun average_from :: "f64 \<Rightarrow> nat \<Rightarrow> f64 list \<Rightarrow> f64" where
  "average_from average n [] = average"
| "average_from average n (x # xs) = average_from (running_average average n x) (n + 1) xs"

definition average_of :: "f64 list \<Rightarrow> f64" where
  "average_of xs = average_from (hd xs) 1 (tl xs)"

definition row_counts :: "admission_row \<Rightarrow> admission_observation list \<Rightarrow> bool" where
  "row_counts r obs \<longleftrightarrow>
     obs \<noteq> [] \<and> (\<forall>ob\<in>set obs. ao_model_version ob = ar_model_version r)
     \<and> ar_sample_count r = length obs \<and> ar_useful_count r = length (filter ao_useful obs)
     \<and> ar_average_quality r = average_of (map ao_candidate_quality obs)
     \<and> ar_average_baseline_quality r = average_of (map ao_baseline_quality obs)
     \<and> ar_average_similarity r = average_of (map ao_similarity obs)"

lemma average_from_snoc: "average_from a n (xs @ [x]) = running_average (average_from a n xs) (n + length xs) x"
  by (induction a n xs rule: average_from.induct) simp_all

lemma average_of_snoc: "xs \<noteq> [] \<Longrightarrow> average_of (xs @ [x]) = running_average (average_of xs) (length xs) x"
  by (cases xs) (simp_all add: average_of_def average_from_snoc)

lemma counted_other: "observation_key ob \<noteq> k \<Longrightarrow> counted k (obs @ [ob]) = counted k obs"
  by (simp add: counted_def)

lemma counted_snoc:
  fixes obs :: "admission_observation list" and ob :: admission_observation
  defines "k \<equiv> observation_key ob"
  shows "counted k (obs @ [ob]) =
    (if counted k obs \<noteq> [] \<and> ao_model_version (List.last (counted k obs)) = ao_model_version ob
     then counted k obs @ [ob] else [ob])"
proof (cases "filter (\<lambda>x. observation_key x = k) obs" rule: rev_cases)
  case Nil
  then show ?thesis by (simp add: counted_def k_def)
next
  case (snoc ys y)
  then show ?thesis by (simp add: counted_def Let_def k_def)
qed

lemma upserted_counts:
  assumes "(case m (observation_key ob) of None \<Rightarrow> counted (observation_key ob) obs = []
      | Some r \<Rightarrow> row_counts r (counted (observation_key ob) obs))"
  shows "row_counts (upserted now ob m) (counted (observation_key ob) (obs @ [ob]))"
proof (cases "m (observation_key ob)")
  case None
  then show ?thesis
    using assms by (simp add: upserted_def counted_snoc row_counts_def new_admission_def average_of_def)
next
  case (Some r)
  let ?c = "counted (observation_key ob) obs"
  have c: "row_counts r ?c" using assms Some by simp
  then have v: "?c \<noteq> []" "ao_model_version (List.last ?c) = ar_model_version r"
    by (auto simp: row_counts_def)
  show ?thesis
  proof (cases "ar_model_version r = ao_model_version ob")
    case True
    then show ?thesis
      using c v Some
      by (simp add: upserted_def merged_admission_def counted_snoc row_counts_def new_admission_def average_of_snoc)
  next
    case False
    then show ?thesis
      using v Some
      by (simp add: upserted_def merged_admission_def counted_snoc row_counts_def new_admission_def average_of_def)
  qed
qed

definition observe_all ::
  "admission_settings \<Rightarrow> (int \<times> bool \<times> admission_observation) list \<Rightarrow> admissions" where
  "observe_all c obs = fold (\<lambda>(now, written, ob). record_observation c now written ob) obs Map.empty"

definition observations :: "(int \<times> bool \<times> admission_observation) list \<Rightarrow> admission_observation list" where
  "observations obs = map (snd \<circ> snd) obs"

lemma record_observation_row:
  "record_observation c now written ob m =
     m(observation_key ob \<mapsto> (upserted now ob m)
       \<lparr>ar_admitted := written \<and> admission_earned c (upserted now ob m)\<rparr>)"
proof -
  have "\<not> ar_admitted (upserted now ob m)"
    by (auto simp: upserted_def merged_admission_def new_admission_def split: option.splits)
  then have "(upserted now ob m)\<lparr>ar_admitted := False\<rparr> = upserted now ob m" by simp
  then show ?thesis
    by (cases written) (simp_all add: record_observation_def write_admitted_def Let_def)
qed

lemma admitted_irrelevant [simp]:
  "row_counts (r\<lparr>ar_admitted := b\<rparr>) obs = row_counts r obs"
  "admission_earned c (r\<lparr>ar_admitted := b\<rparr>) = admission_earned c r"
  by (simp_all add: row_counts_def admission_earned_def)

lemma observe_all_counts:
  "case observe_all c obs k of
     None \<Rightarrow> counted k (observations obs) = []
   | Some r \<Rightarrow> row_counts r (counted k (observations obs)) \<and> (ar_admitted r \<longrightarrow> admission_earned c r)"
proof (induction obs rule: rev_induct)
  case Nil
  then show ?case by (simp add: observe_all_def observations_def counted_def)
next
  case (snoc x obs)
  obtain now written ob where x: "x = (now, written, ob)" by (cases x) auto
  have step: "observe_all c (obs @ [x]) = record_observation c now written ob (observe_all c obs)"
    "observations (obs @ [x]) = observations obs @ [ob]"
    by (simp_all add: x observe_all_def observations_def)
  show ?case
  proof (cases "observation_key ob = k")
    case True
    have "row_counts (upserted now ob (observe_all c obs)) (counted k (observations obs @ [ob]))"
      using upserted_counts [where m = "observe_all c obs" and ob = ob and obs = "observations obs" and now = now] snoc.IH True
      by (auto split: option.splits)
    then show ?thesis using True by (simp add: step record_observation_row)
  next
    case False
    then show ?thesis
      using snoc.IH unfolding step counted_other [OF False] by (simp add: record_observation_row)
  qed
qed

text \<open>C25: An admission rests on its own samples. After any sequence of observations, one at a time, with
  writes of the verdict that may fail, a provider that the router is told to admit for a model version has
  a run of latest observations of that endpoint, model and version, unbroken by another version, that is
  long enough, with the configured share of useful answers, and whose averages meet the quality and are
  comparable with, or better than, the baseline.\<close>

theorem admission_rests_on_its_samples:
  assumes "admitted_for_model now version max_age k (observe_all c obs)"
  shows "\<exists>run. run = counted k (observations obs) \<and> (\<forall>ob\<in>set run. observation_key ob = k \<and> ao_model_version ob = version)
    \<and> as_minimum_samples c \<le> length run \<and> run \<noteq> []
    \<and> f_le (as_minimum_useful_rate c) (f_div (f_of_nat (length (filter ao_useful run))) (f_of_nat (length run)))
    \<and> f_le (as_minimum_candidate_quality c) (average_of (map ao_candidate_quality run))
    \<and> (f_le (as_minimum_similarity c) (average_of (map ao_similarity run))
        \<and> f_le (average_of (map ao_baseline_quality run))
            (f_add (average_of (map ao_candidate_quality run)) (as_quality_tolerance c))
       \<or> f_le (f_add (average_of (map ao_baseline_quality run)) (as_minimum_quality_improvement c))
            (average_of (map ao_candidate_quality run)))"
proof -
  obtain r where r: "observe_all c obs k = Some r" "ar_model_version r = version" "ar_admitted r"
    using assms by (auto simp: admitted_for_model_def fresh_admission_def split: option.splits)
  then have c: "row_counts r (counted k (observations obs))" "admission_earned c r"
    using observe_all_counts [where c = c and obs = obs and k = k] by auto
  have "observation_key ob = k" if "ob \<in> set (counted k (observations obs))" for ob
    using that set_takeWhileD by (fastforce simp: counted_def Let_def)
  moreover have "max (length (counted k (observations obs))) (Suc 0) = length (counted k (observations obs))"
    using c(1) by (cases "counted k (observations obs)") (simp_all add: row_counts_def)
  ultimately show ?thesis
    using c r(2) by (auto simp: row_counts_def admission_earned_def Let_def)
qed

text \<open>
  With two workers the statements may interleave: the verdict on an old version is then written to the row
  that holds a single observation of a new one.
\<close>

lemma late_verdict_admits_new_version:
  assumes "observation_key ob' = observation_key ob" "ao_model_version ob' \<noteq> ao_model_version ob"
    and "m' = m(observation_key ob \<mapsto> upserted now ob m)" "m'' = m'(observation_key ob \<mapsto> upserted now' ob' m')"
  shows "admitted_for_model now' (ao_model_version ob') max_age (observation_key ob)
      (write_admitted (observation_key ob) True m'')
    \<and> map_option ar_sample_count (m'' (observation_key ob)) = Some 1"
proof -
  have "ar_model_version (upserted now ob m) = ao_model_version ob"
    by (auto simp: upserted_def merged_admission_def new_admission_def split: option.splits)
  then have "upserted now' ob' m' = new_admission now' ob'"
    using assms by (simp add: upserted_def merged_admission_def)
  then show ?thesis
    using assms(4) by (simp add: write_admitted_def admitted_for_model_def fresh_admission_def new_admission_def)
qed

text \<open>Similarity is symmetric.\<close>

lemma similarity_symmetric: "token_similarity left right = token_similarity right left"
  by (auto simp: token_similarity_def Int_commute Un_commute)

definition plain_observation :: admission_observation where
  "plain_observation = \<lparr>ao_kind = ''trained'', ao_endpoint = ''http://h/'', ao_model = ''m'', ao_model_version = ''v'',
     ao_useful = True, ao_candidate_quality = Fin 1, ao_baseline_quality = Fin 0, ao_similarity = Fin 1,
     ao_latency_ms = None, ao_error = None\<rparr>"

definition one_sample :: admission_settings where
  "one_sample = \<lparr>as_minimum_samples = 1, as_minimum_useful_rate = Fin 0, as_minimum_candidate_quality = Fin 0,
     as_minimum_similarity = Fin 0, as_quality_tolerance = Fin 0, as_minimum_quality_improvement = Fin 0\<rparr>"

theorem admission_rests_on_its_samples_witness:
  "counted (observation_key plain_observation) (observations [(0, True, plain_observation)]) \<noteq> []"
proof -
  have "f_le (Fin 0) (f_div (f_of_nat 1) (f_of_nat 1))"
    using rnd_of_int [of 1] by (simp add: f_of_nat_def f_div_def)
  then have "admitted_for_model 0 ''v'' 60 (observation_key plain_observation)
      (observe_all one_sample [(0, True, plain_observation)])"
    using rnd_of_int [of 1]
    by (simp add: observe_all_def record_observation_row upserted_def new_admission_def admitted_for_model_def
        fresh_admission_def admission_earned_def one_sample_def plain_observation_def Let_def)
  from admission_rests_on_its_samples [OF this] show ?thesis by blast
qed

end
