(* ===== verification/Ledger.thy ===== *)
theory Ledger
  imports Prelude "HOL-Library.Word"
begin

text \<open>
  The schedule that the ledger of interactions keeps for its workers: mirroring to AARNN, comparative
  validation and training (the SQL of \<^verbatim>\<open>src/src/llm_ledger.rs\<close>), with the pass of the mirror worker over
  an interaction (\<^verbatim>\<open>src/src/mirror_worker.rs\<close>) and the retries of the trainer (\<^verbatim>\<open>src/src/trainer_worker.rs\<close>).

  The table is a list of rows in the order of their ids. A time is a number of seconds. The answers of the
  bridge and the outcome of a comparison are arguments.
\<close>

section \<open>Rows\<close>

record ledger_row =
  lr_id :: int
  lr_prompt_text :: string
  lr_response_text :: "string option"
  lr_status :: string
  lr_mirror_attempts :: int
  lr_mirror_status :: "string option"
  lr_mirror_error :: "string option"
  lr_next_mirror_at :: "int option"
  lr_mirrored_at :: "int option"
  lr_validation_attempts :: int
  lr_validation_status :: "string option"
  lr_validation_error :: "string option"
  lr_next_validation_at :: "int option"
  lr_validated_at :: "int option"
  lr_train_attempts :: int
  lr_train_status :: "string option"
  lr_train_error :: "string option"
  lr_next_train_at :: "int option"
  lr_trained_at :: "int option"
  lr_training_snapshot :: "string option"

definition fresh_row :: "int \<Rightarrow> string \<Rightarrow> string option \<Rightarrow> string \<Rightarrow> ledger_row" where
  "fresh_row i prompt response status =
     \<lparr>lr_id = i, lr_prompt_text = prompt, lr_response_text = response, lr_status = status, lr_mirror_attempts = 0,
      lr_mirror_status = None, lr_mirror_error = None, lr_next_mirror_at = None, lr_mirrored_at = None,
      lr_validation_attempts = 0, lr_validation_status = None, lr_validation_error = None,
      lr_next_validation_at = None, lr_validated_at = None, lr_train_attempts = 0, lr_train_status = None,
      lr_train_error = None, lr_next_train_at = None, lr_trained_at = None, lr_training_snapshot = None\<rparr>"

definition as_i32 :: "nat \<Rightarrow> int" where
  "as_i32 n = sint (of_nat n :: 32 word)"

definition i32_max :: nat where "i32_max = 2147483647"

definition truncate_chars :: "string \<Rightarrow> nat \<Rightarrow> string" where
  "truncate_chars value limit = take (max limit 1) value"

definition has_response :: "ledger_row \<Rightarrow> bool" where
  "has_response r \<longleftrightarrow> (case lr_response_text r of None \<Rightarrow> False | Some t \<Rightarrow> t \<noteq> [])"

text \<open>A time that is not set, or has come.\<close>

definition due :: "int \<Rightarrow> int option \<Rightarrow> bool" where
  "due now at \<longleftrightarrow> (case at of None \<Rightarrow> True | Some t \<Rightarrow> t \<le> now)"

definition update_row :: "int \<Rightarrow> (ledger_row \<Rightarrow> ledger_row) \<Rightarrow> ledger_row list \<Rightarrow> ledger_row list" where
  "update_row i f rows = map (\<lambda>r. if lr_id r = i then f r else r) rows"

section \<open>Mirroring and validation\<close>

definition mirror_due :: "int \<Rightarrow> ledger_row \<Rightarrow> bool" where
  "mirror_due now r \<longleftrightarrow>
     lr_mirrored_at r = None \<and> due now (lr_next_mirror_at r)
     \<or> has_response r \<and> due now (lr_next_validation_at r)"

definition fetch_pending_mirror :: "int \<Rightarrow> nat \<Rightarrow> ledger_row list \<Rightarrow> ledger_row list" where
  "fetch_pending_mirror now batch_size rows = take batch_size (filter (mirror_due now) rows)"

definition mark_mirror_success :: "int \<Rightarrow> string \<Rightarrow> ledger_row \<Rightarrow> ledger_row" where
  "mark_mirror_success now status r =
     r\<lparr>lr_mirror_attempts := lr_mirror_attempts r + 1, lr_mirror_status := Some status, lr_mirror_error := None,
       lr_next_mirror_at := None, lr_mirrored_at := Some now\<rparr>"

definition mark_mirror_retry :: "int \<Rightarrow> string \<Rightarrow> nat \<Rightarrow> nat \<Rightarrow> ledger_row \<Rightarrow> ledger_row" where
  "mark_mirror_retry now error max_attempts backoff r =
     (let spent = as_i32 max_attempts \<le> lr_mirror_attempts r + 1
      in r\<lparr>lr_mirror_attempts := lr_mirror_attempts r + 1,
           lr_mirror_status := Some (if spent then ''failed'' else ''retry''),
           lr_mirror_error := Some (truncate_chars error 4000),
           lr_next_mirror_at := (if spent then None else Some (now + as_i32 backoff)),
           lr_mirrored_at := (if spent then Some now else None)\<rparr>)"

definition mark_validation :: "int \<Rightarrow> string \<Rightarrow> string option \<Rightarrow> nat \<Rightarrow> ledger_row \<Rightarrow> ledger_row" where
  "mark_validation now status error interval r =
     r\<lparr>lr_validation_attempts := lr_validation_attempts r + 1, lr_validation_status := Some status,
       lr_validation_error := map_option (\<lambda>e. truncate_chars e 4000) error,
       lr_next_validation_at := Some (now + int (min interval i32_max)), lr_validated_at := Some now\<rparr>"

definition schedule_validation_now :: "int \<Rightarrow> ledger_row list \<Rightarrow> ledger_row list" where
  "schedule_validation_now now rows =
     map (\<lambda>r. if has_response r
              then r\<lparr>lr_next_validation_at := Some now, lr_validation_status := Some ''snapshot_changed''\<rparr>
              else r) rows"

section \<open>A pass of the mirror worker\<close>

datatype mirror_direction = Mirror_Input | Mirror_Output

record mirror_candidate =
  mc_usable :: bool
  mc_source :: "string option"
  mc_reply_text :: "string option"

record mirror_trace =
  mt_direction :: mirror_direction
  mt_accepted :: bool
  mt_error :: "string option"
  mt_candidate :: "mirror_candidate option"

definition mirror_semantic_error :: "mirror_trace \<Rightarrow> string option" where
  "mirror_semantic_error t =
     (case mt_error t of
        Some e \<Rightarrow> Some e
      | None \<Rightarrow>
          if \<not> mt_accepted t then Some ''AARNN transport response was not accepted''
          else if mt_direction t = Mirror_Input then None
          else case mt_candidate t of
            None \<Rightarrow> Some ''output candidate missing after accepted transport''
          | Some c \<Rightarrow>
              if \<not> mc_usable c
              then Some (''output candidate unusable: ''
                @ (case mc_source c of None \<Rightarrow> ''network_output_unavailable'' | Some s \<Rightarrow> s))
              else if (case mc_reply_text c of None \<Rightarrow> True | Some reply \<Rightarrow> trim reply = [])
              then Some ''output candidate has no reply text''
              else None)"

record mirror_settings =
  ms_max_attempts :: nat
  ms_retry_backoff_seconds :: nat
  ms_mirror_input :: bool
  ms_mirror_output :: bool
  ms_validation_enabled :: bool
  ms_sample_interval_seconds :: nat

text \<open>What one pass over an interaction meets: the traces of the bridge, the comparison (an error that ends
  it, or whether a sample was taken and the errors of its targets), and whether each update is written.\<close>

record pass_answers =
  pa_now :: int
  pa_input :: mirror_trace
  pa_output :: mirror_trace
  pa_comparison :: "string + (bool \<times> string list)"
  pa_validation_written :: bool
  pa_mirror_written :: bool

definition redacted_prefix :: string where "redacted_prefix = ''<redacted chars=''"

definition validate_and_record :: "mirror_settings \<Rightarrow> pass_answers \<Rightarrow> ledger_row \<Rightarrow> ledger_row \<Rightarrow> ledger_row" where
  "validate_and_record c a entry r =
     (let mark = (\<lambda>status error interval.
            if pa_validation_written a then mark_validation (pa_now a) status error interval r else r)
      in if \<not> ms_validation_enabled c then mark ''disabled'' None (max (ms_sample_interval_seconds c) 60)
         else case lr_response_text entry of
           None \<Rightarrow> r
         | Some baseline \<Rightarrow>
             if trim baseline = [] then r
             else if starts_with baseline redacted_prefix
             then mark ''skipped_no_content''
               (Some ''ledger response content is redacted; enable retain_content_for_validation'')
               (ms_sample_interval_seconds c)
             else if trim (lr_prompt_text entry) = [] \<or> starts_with (trim (lr_prompt_text entry)) redacted_prefix
             then mark ''skipped_no_content'' (Some ''ledger prompt content is redacted or empty'')
               (ms_sample_interval_seconds c)
             else case pa_comparison a of
               Inl _ \<Rightarrow> r
             | Inr (sampled, errors) \<Rightarrow>
                 mark (if sampled then ''sampled'' else ''skipped_no_target'')
                   (if errors = [] then None else Some (join_with '' | '' errors)) (ms_sample_interval_seconds c))"

definition mirror_pending :: "ledger_row \<Rightarrow> bool" where
  "mirror_pending entry \<longleftrightarrow> lr_mirror_status entry \<notin> {Some ''mirrored'', Some ''failed''}"

definition mirror_errors :: "mirror_settings \<Rightarrow> pass_answers \<Rightarrow> ledger_row \<Rightarrow> string list" where
  "mirror_errors c a entry =
     (if mirror_pending entry \<and> ms_mirror_input c \<and> trim (lr_prompt_text entry) \<noteq> []
      then (case mirror_semantic_error (pa_input a) of None \<Rightarrow> [] | Some e \<Rightarrow> [''input mirror: '' @ e])
      else [])
     @ (if ms_mirror_output c \<and> (case lr_response_text entry of None \<Rightarrow> False | Some t \<Rightarrow> trim t \<noteq> [])
           \<and> mirror_pending entry
        then (case mirror_semantic_error (pa_output a) of None \<Rightarrow> [] | Some e \<Rightarrow> [''output mirror: '' @ e])
        else [])"

definition mirror_pass :: "mirror_settings \<Rightarrow> pass_answers \<Rightarrow> ledger_row \<Rightarrow> ledger_row \<Rightarrow> ledger_row" where
  "mirror_pass c a entry r =
     (let errors = mirror_errors c a entry;
          r = validate_and_record c a entry r
      in if \<not> pa_mirror_written a then r
         else if errors = [] then mark_mirror_success (pa_now a) ''mirrored'' r
         else mark_mirror_retry (pa_now a) (join_with '' | '' errors) (ms_max_attempts c)
                (ms_retry_backoff_seconds c) r)"

text \<open>One round: the rows that are due are fetched, ordered by the advisor, and passed over one by one.\<close>

definition mirror_round ::
  "mirror_settings \<Rightarrow> int \<Rightarrow> nat \<Rightarrow> (ledger_row list \<Rightarrow> ledger_row list) \<Rightarrow> (ledger_row \<Rightarrow> pass_answers) \<Rightarrow>
     ledger_row list \<Rightarrow> ledger_row list" where
  "mirror_round c now batch_size order answers rows =
     fold (\<lambda>entry. update_row (lr_id entry) (mirror_pass c (answers entry) entry))
       (order (fetch_pending_mirror now batch_size rows)) rows"

section \<open>Training\<close>

definition training_due :: "int \<Rightarrow> bool \<Rightarrow> ledger_row \<Rightarrow> bool" where
  "training_due now include_degraded r \<longleftrightarrow>
     lr_trained_at r = None \<and> lr_train_status r \<noteq> Some ''failed'' \<and> due now (lr_next_train_at r)
     \<and> has_response r \<and> (lr_status r = ''ok'' \<or> include_degraded \<and> lr_status r = ''degraded'')"

definition fetch_pending_training :: "int \<Rightarrow> nat \<Rightarrow> bool \<Rightarrow> ledger_row list \<Rightarrow> ledger_row list" where
  "fetch_pending_training now batch_size include_degraded rows =
     (let pending = filter (training_due now include_degraded) rows
      in take batch_size (filter (\<lambda>r. lr_train_status r = Some ''retry'') pending
                          @ filter (\<lambda>r. lr_train_status r \<noteq> Some ''retry'') pending))"

definition finished_training :: "string \<Rightarrow> bool" where
  "finished_training status \<longleftrightarrow> status \<in> {''trained'', ''snapshotted''}"

definition mark_training_success :: "int \<Rightarrow> string \<Rightarrow> string \<Rightarrow> ledger_row \<Rightarrow> ledger_row" where
  "mark_training_success now snapshot status r =
     r\<lparr>lr_train_attempts := lr_train_attempts r + 1, lr_train_status := Some status, lr_train_error := None,
       lr_next_train_at := (if finished_training status then None else Some now),
       lr_trained_at := (if finished_training status then Some now else None),
       lr_training_snapshot := Some snapshot\<rparr>"

definition mark_training_retry :: "int \<Rightarrow> string \<Rightarrow> nat \<Rightarrow> nat \<Rightarrow> ledger_row \<Rightarrow> ledger_row" where
  "mark_training_retry now error max_attempts backoff r =
     (let spent = as_i32 max_attempts \<le> lr_train_attempts r + 1
      in r\<lparr>lr_train_attempts := lr_train_attempts r + 1,
           lr_train_status := Some (if spent then ''failed'' else ''retry''),
           lr_train_error := Some (truncate_chars error 4000),
           lr_next_train_at := (if spent then None else Some (now + as_i32 backoff)), lr_trained_at := None\<rparr>)"

definition registration_incomplete :: "ledger_row \<Rightarrow> bool" where
  "registration_incomplete r \<longleftrightarrow>
     lr_train_status r = Some ''trained_registration_pending''
     \<or> lr_train_status r = Some ''retry'' \<and> lr_trained_at r \<noteq> None"

definition recover_registration :: "int \<Rightarrow> ledger_row \<Rightarrow> ledger_row" where
  "recover_registration now r =
     r\<lparr>lr_train_status := Some ''retry'',
       lr_train_error := Some (case lr_train_error r of Some e \<Rightarrow> e
         | None \<Rightarrow> ''serving model registration was not completed''),
       lr_next_train_at := Some now, lr_trained_at := None\<rparr>"

text \<open>The first rows, in the order of their ids, that satisfy a condition, are updated.\<close>

fun update_first :: "nat \<Rightarrow> (ledger_row \<Rightarrow> bool) \<Rightarrow> (ledger_row \<Rightarrow> ledger_row) \<Rightarrow> ledger_row list \<Rightarrow> ledger_row list" where
  "update_first n p f [] = []"
| "update_first n p f (r # rows) =
     (case n of
        0 \<Rightarrow> r # rows
      | Suc m \<Rightarrow> if p r then f r # update_first m p f rows else r # update_first n p f rows)"

definition recover_incomplete_training_registrations :: "int \<Rightarrow> nat \<Rightarrow> ledger_row list \<Rightarrow> ledger_row list" where
  "recover_incomplete_training_registrations now batch_size rows =
     update_first (max 1 (min batch_size 100000)) registration_incomplete (recover_registration now) rows"

definition is_recoverable_training_infrastructure_error :: "string \<Rightarrow> bool" where
  "is_recoverable_training_infrastructure_error error =
     (let e = to_ascii_lowercase error
      in if str_contains e ''unsupported architecture'' \<or> str_contains e ''cannot be registered as safetensors''
         then False
         else if str_contains e ''ollama api /api/create failed'' then True
         else (str_contains e ''not found'' \<or> str_contains e ''no such file'' \<or> str_contains e ''command not found'')
           \<and> (str_contains e ''gail-qlora-sft'' \<or> str_contains e ''failed to spawn trainer command''))"

text \<open>The rows that the query offers, by a match that ignores case.\<close>

definition infrastructure_failure :: "ledger_row \<Rightarrow> bool" where
  "infrastructure_failure r \<longleftrightarrow>
     lr_train_status r = Some ''failed''
     \<and> (case lr_train_error r of
          None \<Rightarrow> False
        | Some error \<Rightarrow>
            \<exists>part\<in>{''gail-qlora-sft'', ''failed to spawn trainer command'', ''ollama api /api/create failed'',
                ''slurm training exited with status'', ''ollama adapter conversion exited'',
                ''unable to inspect safetensors adapter''}. str_contains (to_ascii_lowercase error) part)"

definition recoverable_row :: "ledger_row \<Rightarrow> bool" where
  "recoverable_row r \<longleftrightarrow>
     (case lr_train_error r of None \<Rightarrow> False | Some e \<Rightarrow> is_recoverable_training_infrastructure_error e)"

definition revive_row :: "int \<Rightarrow> ledger_row \<Rightarrow> ledger_row" where
  "revive_row now r =
     r\<lparr>lr_train_attempts := 0, lr_train_status := Some ''retry'', lr_train_error := None,
       lr_next_train_at := Some now, lr_trained_at := None, lr_training_snapshot := None\<rparr>"

definition recover_training_infrastructure_failures :: "int \<Rightarrow> nat \<Rightarrow> ledger_row list \<Rightarrow> ledger_row list" where
  "recover_training_infrastructure_failures now batch_size rows =
     update_first (max 1 (min batch_size 100000)) infrastructure_failure
       (\<lambda>r. if recoverable_row r then revive_row now r else r) rows"

definition is_non_retryable_training_error :: "string \<Rightarrow> bool" where
  "is_non_retryable_training_error error =
     (let e = to_ascii_lowercase error
      in str_contains e ''unsupported architecture'' \<or> str_contains e ''cannot be registered as safetensors''
         \<or> str_contains e ''synthetic bootstrap'' \<or> str_contains e ''not a production'')"

text \<open>The end of a snapshot: every row that it was trained on is marked.\<close>

definition finish_snapshot ::
  "nat \<Rightarrow> nat \<Rightarrow> int \<Rightarrow> string + (string \<times> string) \<Rightarrow> int list \<Rightarrow> ledger_row list \<Rightarrow> ledger_row list" where
  "finish_snapshot max_attempts backoff now outcome ids rows =
     map (\<lambda>r. if lr_id r \<in> set ids
              then (case outcome of
                      Inr (snapshot, status) \<Rightarrow> mark_training_success now snapshot status r
                    | Inl error \<Rightarrow> mark_training_retry now error
                        (if is_non_retryable_training_error error then 1 else max_attempts) backoff r)
              else r) rows"

section \<open>Mirroring ends\<close>

text \<open>A row under the passes that fetch it, each with its answers.\<close>

fun mirror_passes :: "mirror_settings \<Rightarrow> pass_answers list \<Rightarrow> ledger_row \<Rightarrow> ledger_row" where
  "mirror_passes c [] r = r"
| "mirror_passes c (a # as) r = mirror_passes c as (mirror_pass c a r r)"

definition mirror_closed :: "ledger_row \<Rightarrow> bool" where
  "mirror_closed r \<longleftrightarrow>
     lr_mirrored_at r \<noteq> None \<and> lr_next_mirror_at r = None
     \<and> lr_mirror_status r \<in> {Some ''mirrored'', Some ''failed''}"

lemma validation_keeps_mirror [simp]:
  "lr_mirror_attempts (validate_and_record c a e r) = lr_mirror_attempts r"
  "lr_mirror_status (validate_and_record c a e r) = lr_mirror_status r"
  "lr_mirrored_at (validate_and_record c a e r) = lr_mirrored_at r"
  "lr_next_mirror_at (validate_and_record c a e r) = lr_next_mirror_at r"
  by (simp_all add: validate_and_record_def mark_validation_def Let_def split: option.split sum.split prod.split)

lemma as_i32_small: "n < 2147483648 \<Longrightarrow> as_i32 n = int n"
  by (simp add: as_i32_def signed_of_nat signed_take_bit_int_eq_self)

lemma closed_stays: "mirror_closed r \<Longrightarrow> mirror_closed (mirror_pass c a r r)"
  by (auto simp: mirror_pass_def mirror_errors_def mirror_pending_def mirror_closed_def
      mark_mirror_success_def Let_def)

lemma pass_progress:
  assumes "pa_mirror_written a" "ms_max_attempts c \<le> 1000" "lr_mirror_attempts r < int (ms_max_attempts c)"
  shows "mirror_closed (mirror_pass c a r r)
    \<or> lr_mirror_attempts (mirror_pass c a r r) = lr_mirror_attempts r + 1
      \<and> lr_mirror_attempts r + 1 < int (ms_max_attempts c)"
  using assms
  by (auto simp: mirror_pass_def mirror_closed_def mark_mirror_success_def mark_mirror_retry_def Let_def as_i32_small)

text \<open>C26: The replay of an interaction ends. Once the passes over a row, with their results written, are as
  many as the configured attempts, its mirroring is closed, as delivered or as failed, whatever the bridge
  and the comparison answered; and later passes leave it closed.\<close>

theorem mirroring_is_bounded:
  assumes "\<forall>a\<in>set as. pa_mirror_written a" "ms_max_attempts c \<le> 1000"
    and "lr_mirror_attempts r = 0" "1 \<le> ms_max_attempts c" "ms_max_attempts c \<le> length as"
  shows "mirror_closed (mirror_passes c (as @ later) r)"
proof -
  have stays: "mirror_closed r \<Longrightarrow> mirror_closed (mirror_passes c xs r)" for xs r
    by (induction xs arbitrary: r) (auto intro: closed_stays)
  have run: "mirror_closed (mirror_passes c (as @ later) r)"
    if "\<forall>a\<in>set as. pa_mirror_written a" "lr_mirror_attempts r < int (ms_max_attempts c)"
      "int (ms_max_attempts c) \<le> lr_mirror_attempts r + int (length as)" for as r
    using that
  proof (induction as arbitrary: r)
    case Nil
    then show ?case by simp
  next
    case (Cons a as)
    then show ?case
      using pass_progress [of a c r] assms(2) stays Cons.IH [of "mirror_pass c a r r"] by auto
  qed
  show ?thesis by (rule run) (use assms in auto)
qed

definition silent_bridge :: pass_answers where
  "silent_bridge = \<lparr>pa_now = 7,
     pa_input = \<lparr>mt_direction = Mirror_Input, mt_accepted = False, mt_error = None, mt_candidate = None\<rparr>,
     pa_output = \<lparr>mt_direction = Mirror_Output, mt_accepted = False, mt_error = None, mt_candidate = None\<rparr>,
     pa_comparison = Inr (False, []), pa_validation_written = True, pa_mirror_written = True\<rparr>"

definition three_attempts :: mirror_settings where
  "three_attempts = \<lparr>ms_max_attempts = 3, ms_retry_backoff_seconds = 60, ms_mirror_input = True,
     ms_mirror_output = True, ms_validation_enabled = True, ms_sample_interval_seconds = 300\<rparr>"

theorem mirroring_is_bounded_witness:
  "mirror_closed (mirror_passes three_attempts ([silent_bridge, silent_bridge, silent_bridge] @ [])
     (fresh_row 1 ''ask'' (Some ''answer'') ''ok''))"
  by (rule mirroring_is_bounded) (simp_all add: silent_bridge_def three_attempts_def fresh_row_def)

section \<open>Where the schedule departs from what it says\<close>

text \<open>A row whose attempts are used up is fetched again for its validation. Nothing is pending then, so no
  error is found, and the row is marked as mirrored with its error cleared.\<close>

lemma failed_row_is_reported_mirrored:
  assumes "lr_mirror_status r = Some ''failed''" "pa_mirror_written a"
  shows "lr_mirror_status (mirror_pass c a r r) = Some ''mirrored'' \<and> lr_mirror_error (mirror_pass c a r r) = None"
  using assms by (simp add: mirror_pass_def mirror_errors_def mirror_pending_def mark_mirror_success_def Let_def)

lemma failed_row_is_fetched:
  assumes "lr_mirror_status r = Some ''failed''" "has_response r" "due now (lr_next_validation_at r)"
  shows "mirror_due now r"
  using assms by (simp add: mirror_due_def)

text \<open>A response of white space only counts as a response in the query and as none in the worker: its
  validation is never marked, so the row is due in every round.\<close>

lemma blank_response_stays_due:
  assumes "lr_response_text r = Some text" "text \<noteq> []" "trim text = []" "ms_validation_enabled c"
    and "lr_next_validation_at r = None"
  shows "mirror_due now (mirror_pass c a r r)"
  using assms
  by (auto simp: mirror_pass_def mirror_due_def has_response_def due_def validate_and_record_def Let_def
      mark_mirror_success_def mark_mirror_retry_def)

text \<open>A row in its backoff is fetched, and mirrored again, when its validation is due.\<close>

lemma backoff_is_cut_short:
  assumes "lr_mirror_status r = Some ''retry''" "lr_next_mirror_at r = Some later" "now < later" "has_response r"
    and "due now (lr_next_validation_at r)"
  shows "mirror_due now r \<and> mirror_pending r"
  using assms by (simp add: mirror_due_def mirror_pending_def)

section \<open>Training is bounded and fair\<close>

datatype training_op =
    Finish int "string + (string \<times> string)" "int list"
  | Recover_registrations int nat
  | Recover_infrastructure int nat

definition training_op_ok :: "training_op \<Rightarrow> bool" where
  "training_op_ok opn \<longleftrightarrow>
     (\<forall>now snapshot status ids. opn = Finish now (Inr (snapshot, status)) ids \<longrightarrow> finished_training status)"

fun training_step :: "nat \<Rightarrow> nat \<Rightarrow> training_op \<Rightarrow> ledger_row list \<Rightarrow> ledger_row list" where
  "training_step max_attempts backoff (Finish now outcome ids) rows =
     finish_snapshot max_attempts backoff now outcome ids rows"
| "training_step max_attempts backoff (Recover_registrations now n) rows =
     recover_incomplete_training_registrations now n rows"
| "training_step max_attempts backoff (Recover_infrastructure now n) rows =
     recover_training_infrastructure_failures now n rows"

definition training_ok :: "nat \<Rightarrow> ledger_row \<Rightarrow> bool" where
  "training_ok max_attempts r \<longleftrightarrow>
     lr_train_status r \<noteq> Some ''trained_registration_pending''
     \<and> (lr_train_status r = Some ''retry'' \<longrightarrow> lr_trained_at r = None)
     \<and> (lr_trained_at r = None \<and> lr_train_status r \<noteq> Some ''failed'' \<longrightarrow> lr_train_attempts r < int max_attempts)"

lemma update_first_all:
  assumes "\<forall>r\<in>set rows. Q r" "\<And>r. Q r \<Longrightarrow> p r \<Longrightarrow> Q (f r)"
  shows "\<forall>r\<in>set (update_first n p f rows). Q r"
  using assms by (induction n p f rows rule: update_first.induct) (auto split: nat.splits)

lemma training_step_ok:
  assumes "\<forall>r\<in>set rows. training_ok m r" "training_op_ok opn" "1 \<le> m" "m \<le> 1000"
  shows "\<forall>r\<in>set (training_step m backoff opn rows). training_ok m r"
proof (cases opn)
  case (Finish now outcome ids)
  have retry: "training_ok m (mark_training_retry now e k backoff r)" if "k \<le> m" "training_ok m r" for e k r
    using that assms(4)
    by (auto simp: training_ok_def mark_training_retry_def Let_def as_i32_small)
  have success: "training_ok m (mark_training_success now snapshot status r)" if "finished_training status"
    for snapshot status r
    using that by (auto simp: training_ok_def mark_training_success_def finished_training_def)
  have "training_ok m (case outcome of
          Inr (snapshot, status) \<Rightarrow> mark_training_success now snapshot status r
        | Inl error \<Rightarrow> mark_training_retry now error
            (if is_non_retryable_training_error error then 1 else m) backoff r)" if "training_ok m r" for r
    using that retry success assms(2,3) Finish
    by (cases outcome) (auto simp: training_op_ok_def split: prod.splits)
  then have "training_ok m (if lr_id r \<in> set ids then (case outcome of
          Inr (snapshot, status) \<Rightarrow> mark_training_success now snapshot status r
        | Inl error \<Rightarrow> mark_training_retry now error
            (if is_non_retryable_training_error error then 1 else m) backoff r) else r)" if "r \<in> set rows" for r
    using assms(1) that by simp
  then show ?thesis
    unfolding Finish training_step.simps finish_snapshot_def set_map by blast
next
  case (Recover_registrations now n)
  have "training_ok m r \<Longrightarrow> registration_incomplete r \<Longrightarrow> training_ok m (recover_registration now r)" for r
    by (auto simp: training_ok_def registration_incomplete_def)
  with assms(1) have "\<forall>r\<in>set (update_first k registration_incomplete (recover_registration now) rows).
      training_ok m r" for k
    by (rule update_first_all)
  then show ?thesis
    unfolding Recover_registrations training_step.simps recover_incomplete_training_registrations_def .
next
  case (Recover_infrastructure now n)
  have "training_ok m r \<Longrightarrow> infrastructure_failure r \<Longrightarrow>
      training_ok m (if recoverable_row r then revive_row now r else r)" for r
    using assms(3) by (auto simp: training_ok_def revive_row_def)
  with assms(1) have "\<forall>r\<in>set (update_first k infrastructure_failure
      (\<lambda>r. if recoverable_row r then revive_row now r else r) rows). training_ok m r" for k
    by (rule update_first_all)
  then show ?thesis
    unfolding Recover_infrastructure training_step.simps recover_training_infrastructure_failures_def .
qed

definition untrained :: "ledger_row \<Rightarrow> bool" where
  "untrained r \<longleftrightarrow> lr_train_attempts r = 0 \<and> lr_train_status r = None \<and> lr_trained_at r = None"

text \<open>C27: Training is retried a bounded number of times, and retries come first. In every table that
  snapshots, failed or finished, and the recoveries at a start make of new rows, a row that is fetched for
  training has attempts left, is neither trained nor failed; and a row that was never tried is fetched only
  when every retry that is due is fetched too.\<close>

theorem training_is_bounded_and_fair:
  assumes "\<forall>r\<in>set rows. untrained r" "\<forall>opn\<in>set ops. training_op_ok opn" "1 \<le> m" "m \<le> 1000"
    and "table = fold (training_step m backoff) ops rows"
    and "r \<in> set (fetch_pending_training now batch include_degraded table)"
  shows "lr_train_attempts r < int m \<and> lr_trained_at r = None \<and> lr_train_status r \<noteq> Some ''failed''
    \<and> (lr_train_status r \<noteq> Some ''retry'' \<longrightarrow>
         (\<forall>q\<in>set table. training_due now include_degraded q \<and> lr_train_status q = Some ''retry'' \<longrightarrow>
            q \<in> set (fetch_pending_training now batch include_degraded table)))"
proof -
  have "\<forall>r\<in>set (fold (training_step m backoff) ops rows'). training_ok m r"
    if "\<forall>r\<in>set rows'. training_ok m r" for rows'
    using assms(2) that
  proof (induction ops arbitrary: rows')
    case (Cons opn ops)
    have "\<forall>r\<in>set (training_step m backoff opn rows'). training_ok m r"
      by (rule training_step_ok [OF Cons.prems(2) _ assms(3,4)]) (use Cons.prems(1) in simp)
    then show ?case using Cons.IH Cons.prems(1) by simp
  qed simp
  moreover have "\<forall>r\<in>set rows. training_ok m r"
    using assms(1,3) by (auto simp: untrained_def training_ok_def)
  ultimately have ok: "\<forall>r\<in>set table. training_ok m r" using assms(5) by blast
  let ?p = "filter (training_due now include_degraded) table"
  let ?a = "filter (\<lambda>r. lr_train_status r = Some ''retry'') ?p"
  let ?b = "filter (\<lambda>r. lr_train_status r \<noteq> Some ''retry'') ?p"
  have f: "fetch_pending_training now batch include_degraded table = take batch (?a @ ?b)"
    by (simp add: fetch_pending_training_def)
  have mem: "r \<in> set table" "training_due now include_degraded r"
    using assms(6) unfolding f by (auto dest: in_set_takeD)
  have fair: "set ?a \<subseteq> set (take batch (?a @ ?b))" if "lr_train_status r \<noteq> Some ''retry''"
  proof -
    have "r \<notin> set (take batch ?a)" using that by (auto dest: in_set_takeD)
    then have "r \<in> set (take (batch - length ?a) ?b)" using assms(6) unfolding f by simp
    then have "length ?a < batch" by (cases "batch - length ?a") auto
    then show ?thesis by simp
  qed
  show ?thesis
    using ok mem fair unfolding f by (auto simp: training_ok_def training_due_def)
qed

theorem training_is_bounded_and_fair_witness:
  "lr_train_attempts (fresh_row 1 ''ask'' (Some ''answer'') ''ok'') < 3"
proof -
  let ?r = "fresh_row 1 ''ask'' (Some ''answer'') ''ok''"
  let ?rows = "[?r, fresh_row 2 ''ask'' (Some ''answer'') ''ok'']"
  have "?r \<in> set (fetch_pending_training 0 5 False (fold (training_step 3 60) [Finish 0 (Inl ''out of memory'') [2]] ?rows))"
    by (simp add: fetch_pending_training_def finish_snapshot_def training_due_def fresh_row_def due_def
        has_response_def mark_training_retry_def Let_def)
  from training_is_bounded_and_fair [OF _ _ _ _ refl this] show ?thesis
    by (simp add: untrained_def fresh_row_def training_op_ok_def)
qed

end
