(* ===== verification/CandidatePool.thy ===== *)
theory CandidatePool
  imports Invocation Admission
begin

text \<open>
  The pool of candidates of one request (\<^verbatim>\<open>src/src/orchestration.rs\<close>): which provider the request names,
  which configured profiles join it, and which trained profiles the comparative admission keeps out.

  The environment, the routing contract and the answer of the admission query are arguments.
\<close>

section \<open>The request and what it names\<close>

text \<open>The fields of a completion request that choose its candidates.\<close>

record pool_request =
  pr_preferred_provider :: "string option"
  pr_preferred_model :: "string option"
  pr_preferred_api_key :: "string option"
  pr_preferred_access_token :: "string option"
  pr_fallback_provider :: "string option"
  pr_fallback_model :: "string option"
  pr_fallback_api_key :: "string option"
  pr_fallback_access_token :: "string option"
  pr_base_url :: "string option"

definition named_model :: "string option \<Rightarrow> string option" where
  "named_model model =
     option_filter (\<lambda>m. m \<noteq> [] \<and> \<not> eq_ignore_ascii_case m ''default'') (map_option trim model)"

definition should_include_configured_candidates :: "bool \<Rightarrow> pool_request \<Rightarrow> bool \<Rightarrow> bool" where
  "should_include_configured_candidates include_configured request has_request_candidates =
     (if include_configured then True
      else if \<not> has_request_candidates then True
      else pr_preferred_provider request \<noteq> None)"

definition configured_model_matches_request ::
  "provider_profile list \<Rightarrow> string \<Rightarrow> string option \<Rightarrow> bool" where
  "configured_model_matches_request providers provider model =
     (case named_model model of
        None \<Rightarrow> False
      | Some requested_model \<Rightarrow>
          (\<exists>profile\<in>set providers.
             normalize_provider_type (pf_provider_type profile) = normalize_provider_type provider
             \<and> is_some_and (\<lambda>configured. eq_ignore_ascii_case (trim configured) requested_model)
                 (pf_model profile)))"

definition allow_unconfigured_ollama_request_models :: "environment \<Rightarrow> bool" where
  "allow_unconfigured_ollama_request_models env =
     env_bool_any env
       [''GAIL_ALLOW_UNCONFIGURED_OLLAMA_REQUEST_MODELS'', ''GAIL_ALLOW_UNCONFIGURED_OLLAMA_REQUEST_MODEL'',
        ''REFINER_AI_ALLOW_UNCONFIGURED_OLLAMA_REQUEST_MODELS''] False"

definition configured_ollama_models :: "provider_profile list \<Rightarrow> string set" where
  "configured_ollama_models providers =
     set (map to_ascii_lowercase (filter (\<lambda>v. v \<noteq> []) (map trim (List.map_filter pf_model
       (filter (\<lambda>profile. normalize_provider_type (pf_provider_type profile) = ''ollama'') providers)))))"

definition request_candidate_model_allowed_with_policy ::
  "provider_profile list \<Rightarrow> string \<Rightarrow> string option \<Rightarrow> bool \<Rightarrow> bool" where
  "request_candidate_model_allowed_with_policy providers provider model allow_unconfigured =
     (if allow_unconfigured then True
      else if normalize_provider_type provider \<noteq> ''ollama'' then True
      else case named_model model of
        None \<Rightarrow> True
      | Some requested \<Rightarrow>
          let requested_model = to_ascii_lowercase (strip_prefix_or ''ollama/'' requested requested);
              configured = configured_ollama_models providers
          in if configured = {} then True else requested_model \<in> configured)"

definition request_candidate_model_allowed ::
  "environment \<Rightarrow> provider_profile list \<Rightarrow> string \<Rightarrow> string option \<Rightarrow> bool" where
  "request_candidate_model_allowed env providers provider model =
     request_candidate_model_allowed_with_policy providers provider model
       (allow_unconfigured_ollama_request_models env)"

definition request_candidate ::
  "routing_profiles \<Rightarrow> string \<Rightarrow> string option \<Rightarrow> string option \<Rightarrow> string option \<Rightarrow> string option \<Rightarrow> bool
   \<Rightarrow> string \<Rightarrow> provider_candidate" where
  "request_candidate profiles provider model api_key access_token base_url preferred source =
     from_profile profiles (default_provider_profile
       \<lparr>pf_name := trim provider, pf_provider_type := trim provider, pf_model := model,
        pf_api_key := api_key, pf_access_token := access_token, pf_base_url := base_url,
        pf_roles := [], pf_specialties := [], pf_weight := (if preferred then lit (4 / 10) else Fin 0),
        pf_preferred := preferred, pf_source := Some source\<rparr>)"

section \<open>Building the pool\<close>

text \<open>The candidate of the preferred provider, and whether the configured Ollama profiles are left out.\<close>

definition primary_candidates ::
  "environment \<Rightarrow> routing_profiles \<Rightarrow> provider_profile list \<Rightarrow> pool_request \<Rightarrow> bool
   \<Rightarrow> provider_candidate list \<times> bool" where
  "primary_candidates env profiles providers request include_configured =
     (case pr_preferred_provider request of
        None \<Rightarrow> ([], False)
      | Some provider \<Rightarrow>
          let normalized_provider = normalize_provider_type provider;
              has_request_endpoint_override =
                (has_usable_value (pr_preferred_api_key request)
                 \<or> has_usable_value (pr_preferred_access_token request)
                 \<or> has_usable_value (pr_base_url request));
              skip_implicit_configured =
                (should_include_configured_candidates include_configured request True
                 \<and> \<not> has_usable_value (pr_base_url request)
                 \<and> configured_model_matches_request providers provider (pr_preferred_model request));
              skip_implicit_ollama =
                (include_configured \<and> normalized_provider = ''ollama'' \<and> \<not> has_request_endpoint_override);
              allowed = request_candidate_model_allowed env providers provider (pr_preferred_model request)
          in if allowed \<and> \<not> skip_implicit_ollama \<and> \<not> skip_implicit_configured
             then ([request_candidate profiles provider (pr_preferred_model request)
                      (pr_preferred_api_key request) (pr_preferred_access_token request)
                      (pr_base_url request) True ''request_primary''], False)
             else if \<not> allowed
             then ([], include_configured \<and> normalized_provider = ''ollama'' \<and> \<not> has_request_endpoint_override)
             else ([], False))"

definition fallback_candidates ::
  "environment \<Rightarrow> routing_profiles \<Rightarrow> provider_profile list \<Rightarrow> pool_request \<Rightarrow> provider_candidate list" where
  "fallback_candidates env profiles providers request =
     (case pr_fallback_provider request of
        None \<Rightarrow> []
      | Some provider \<Rightarrow>
          if request_candidate_model_allowed env providers provider (pr_fallback_model request)
          then [request_candidate profiles provider (pr_fallback_model request) (pr_fallback_api_key request)
                  (pr_fallback_access_token request) (pr_base_url request) False ''request_fallback'']
          else [])"

definition profile_joins :: "pool_request \<Rightarrow> bool \<Rightarrow> provider_profile \<Rightarrow> bool" where
  "profile_joins request skip_ollama profile =
     (let requested_provider = map_option normalize_provider_type (pr_preferred_provider request);
          exact = is_some_and (\<lambda>p. p = ''openai'') requested_provider;
          provider_matches = (\<not> exact
            \<or> is_none_or (\<lambda>p. normalize_provider_type (pf_provider_type profile) = p) requested_provider);
          model_matches = (\<not> exact
            \<or> is_none_or (\<lambda>model. is_some_and (\<lambda>configured. eq_ignore_ascii_case configured model)
                (pf_model profile)) (named_model (pr_preferred_model request)))
      in \<not> (skip_ollama \<and> normalize_provider_type (pf_provider_type profile) = ''ollama'')
         \<and> provider_matches \<and> model_matches)"

definition add_configured ::
  "environment \<Rightarrow> routing_profiles \<Rightarrow> provider_profile list \<Rightarrow> pool_request \<Rightarrow> bool
   \<Rightarrow> provider_candidate list \<Rightarrow> provider_candidate list" where
  "add_configured env profiles providers request skip_ollama cs =
     (let candidates = cs @ map (from_profile profiles) (filter (profile_joins request skip_ollama) providers);
          prefer_ollama = is_some_and (\<lambda>p. normalize_provider_type p = ''ollama'') (pr_preferred_provider request)
      in if pr_preferred_provider request = None \<or> prefer_ollama \<and> candidates = []
         then append_local_ollama_fallback_candidate env profiles candidates else candidates)"

definition build_candidates ::
  "environment \<Rightarrow> routing_profiles \<Rightarrow> provider_profile list \<Rightarrow> pool_request \<Rightarrow> bool
   \<Rightarrow> provider_candidate list" where
  "build_candidates env profiles providers request include_configured =
     (let (primary, skip_ollama) = primary_candidates env profiles providers request include_configured;
          named = primary @ fallback_candidates env profiles providers request;
          candidates = (if should_include_configured_candidates include_configured request (named \<noteq> [])
            then add_configured env profiles providers request skip_ollama named else named)
      in filter (\<lambda>c. provider_profile_is_usable env (pc_profile c)) (dedupe_candidates candidates))"

section \<open>Admission of trained profiles\<close>

definition is_trained_llamacpp_profile :: "provider_profile \<Rightarrow> bool" where
  "is_trained_llamacpp_profile profile =
     is_some_and (\<lambda>source. eq_ignore_ascii_case source ''ansible_llamacpp_trained'') (pf_source profile)"

definition trained :: "provider_candidate \<Rightarrow> bool" where
  "trained c = is_trained_llamacpp_profile (pc_profile c)"

definition explicit_trained_request :: "pool_request \<Rightarrow> provider_candidate list \<Rightarrow> bool" where
  "explicit_trained_request request candidates =
     is_some_and (\<lambda>model. \<exists>c\<in>set candidates. trained c
         \<and> is_some_and (\<lambda>configured. eq_ignore_ascii_case configured model) (pf_model (pc_profile c)))
       (pr_preferred_model request)"

definition admission_covers :: "provider_candidate \<Rightarrow> admission_key \<Rightarrow> bool" where
  "admission_covers c key =
     (case key of (kind, endpoint, model) \<Rightarrow>
        kind = ''trained''
        \<and> admission_model_matches model (unwrap_or [] (pf_model (pc_profile c)))
        \<and> is_some_and (admission_endpoint_matches endpoint) (pf_base_url (pc_profile c)))"

text \<open>
  \<open>has_dsn\<close> says whether a database is configured, \<open>snapshot\<close> is the active snapshot, and \<open>lookup\<close> the
  keys of the rows that the query returns for a version, \<open>None\<close> when it fails.
\<close>

definition retain_admitted_dynamic_candidates ::
  "bool \<Rightarrow> bool \<Rightarrow> string option \<Rightarrow> (string \<Rightarrow> admission_key list option) \<Rightarrow> pool_request
   \<Rightarrow> provider_candidate list \<Rightarrow> provider_candidate list" where
  "retain_admitted_dynamic_candidates comparative has_dsn snapshot lookup request candidates =
     (let explicit = explicit_trained_request request candidates;
          without_trained = filter (\<lambda>c. \<not> trained c) candidates
      in if \<not> comparative \<or> pr_preferred_model request \<noteq> None \<and> \<not> explicit then candidates
         else if \<not> has_dsn then (if explicit then candidates else without_trained)
         else case snapshot of
           None \<Rightarrow> if explicit then candidates else without_trained
         | Some model_version \<Rightarrow>
             (case lookup model_version of
                None \<Rightarrow> without_trained
              | Some admissions \<Rightarrow>
                  filter (\<lambda>c. \<not> trained c \<or> (\<exists>key\<in>set admissions. admission_covers c key)) candidates))"

section \<open>The pool of a completion\<close>

text \<open>The two messages of the bad request that an empty pool is answered with.\<close>

datatype pool_error = No_Provider_Above_Floor f64 | No_Provider

definition effective_floor :: "f64 option \<Rightarrow> f64 option" where
  "effective_floor model_floor = option_filter (\<lambda>v. f_lt (Fin 0) v) model_floor"

definition eligible_candidates :: "f64 option \<Rightarrow> string \<Rightarrow> provider_candidate list \<Rightarrow> provider_candidate list" where
  "eligible_candidates model_floor role candidates =
     filter (\<lambda>c. candidate_supports_role c role)
       (case effective_floor model_floor of
          None \<Rightarrow> candidates
        | Some min_size \<Rightarrow> filter (\<lambda>c. candidate_meets_model_floor c min_size) candidates)"

definition candidate_pool ::
  "environment \<Rightarrow> routing_profiles \<Rightarrow> provider_profile list \<Rightarrow> bool \<Rightarrow> bool \<Rightarrow> string option
   \<Rightarrow> (string \<Rightarrow> admission_key list option) \<Rightarrow> pool_request \<Rightarrow> bool \<Rightarrow> f64 option \<Rightarrow> string
   \<Rightarrow> pool_error + provider_candidate list" where
  "candidate_pool env profiles providers comparative has_dsn snapshot lookup request include_configured
      model_floor role =
     (let candidates = eligible_candidates model_floor role
            (retain_admitted_dynamic_candidates comparative has_dsn snapshot lookup request
              (build_candidates env profiles providers request include_configured))
      in if candidates = []
         then Inl (case effective_floor model_floor of
                     None \<Rightarrow> No_Provider | Some v \<Rightarrow> No_Provider_Above_Floor v)
         else Inr candidates)"

section \<open>Lemmas\<close>

lemma from_profile_fields [simp]:
  "pc_provider_type (from_profile profiles p) = normalize_provider_type (pf_provider_type p)"
  "pf_provider_type (pc_profile (from_profile profiles p)) = pf_provider_type p"
  "pf_model (pc_profile (from_profile profiles p)) = pf_model p"
  "pf_api_key (pc_profile (from_profile profiles p)) = pf_api_key p"
  "pf_access_token (pc_profile (from_profile profiles p)) = pf_access_token p"
  "pf_base_url (pc_profile (from_profile profiles p)) = pf_base_url p"
  "pf_source (pc_profile (from_profile profiles p)) = pf_source p"
  "pc_configured_model (from_profile profiles p) = unwrap_or [] (pf_model p)"
  by (simp_all add: from_profile_def Let_def)

lemma request_candidate_fields [simp]:
  "pc_provider_type (request_candidate profiles p m k t u pref src) = normalize_provider_type (trim p)"
  "pf_model (pc_profile (request_candidate profiles p m k t u pref src)) = m"
  "pf_base_url (pc_profile (request_candidate profiles p m k t u pref src)) = u"
  "pf_source (pc_profile (request_candidate profiles p m k t u pref src)) = Some src"
  by (simp_all add: request_candidate_def)

lemma set_dedupe_loop: "set (dedupe_loop seen cs) \<subseteq> set cs"
  by (induction seen cs rule: dedupe_loop.induct) (auto simp: Let_def)

lemma set_dedupe_candidates: "c \<in> set (dedupe_candidates cs) \<Longrightarrow> c \<in> set cs"
  using set_dedupe_loop [of "{}" cs] by (auto simp: dedupe_candidates_def)

text \<open>Every candidate of the pool is built from a profile, and none is new after deduplication.\<close>

lemma normalize_ollama: "normalize_provider_type ''ollama'' = ''ollama''"
  by code_simp

lemma normalize_trim [simp]: "normalize_provider_type (trim p) = normalize_provider_type p"
  by (simp add: normalize_provider_type_def)

text \<open>Where a candidate of the pool can come from.\<close>

lemma pool_origin:
  assumes "c \<in> set (build_candidates env profiles providers request include_configured)"
  shows "c \<in> set (fst (primary_candidates env profiles providers request include_configured))
    \<or> c \<in> set (fallback_candidates env profiles providers request)
    \<or> (\<exists>profile\<in>set providers. c = from_profile profiles profile
         \<and> profile_joins request (snd (primary_candidates env profiles providers request include_configured)) profile)
    \<or> pf_source (pc_profile c) = Some ''auto_local_fallback'' \<and> pc_provider_type c = ''ollama''
      \<and> is_none_or (\<lambda>p. normalize_provider_type p = ''ollama'') (pr_preferred_provider request)"
proof -
  have fallback: "c \<in> set cs \<or> pf_source (pc_profile c) = Some ''auto_local_fallback'' \<and> pc_provider_type c = ''ollama''"
    if "c \<in> set (append_local_ollama_fallback_candidate env profiles cs)" for cs
    using that by (auto simp: append_local_ollama_fallback_candidate_def normalize_ollama
        simp del: env_string_any.simps env_bool_any.simps split: if_splits)
  define primary where "primary = primary_candidates env profiles providers request include_configured"
  define named where "named = fst primary @ fallback_candidates env profiles providers request"
  have "c \<in> set named \<or> c \<in> set (add_configured env profiles providers request (snd primary) named)"
    using assms
    by (auto simp: build_candidates_def case_prod_beta Let_def primary_def [symmetric] named_def [symmetric]
        dest!: set_dedupe_candidates split: if_splits)
  moreover have "c \<in> set named \<or> (\<exists>profile\<in>set providers. c = from_profile profiles profile
        \<and> profile_joins request (snd primary) profile)
      \<or> pf_source (pc_profile c) = Some ''auto_local_fallback'' \<and> pc_provider_type c = ''ollama''
        \<and> is_none_or (\<lambda>p. normalize_provider_type p = ''ollama'') (pr_preferred_provider request)"
    if "c \<in> set (add_configured env profiles providers request (snd primary) named)"
    using that fallback unfolding add_configured_def Let_def
    by (cases "pr_preferred_provider request") (fastforce split: if_splits)+
  ultimately show ?thesis
    by (auto simp: primary_def [symmetric] named_def)
qed

lemma build_candidates_sound:
  "distinct (map candidate_attempt_key (build_candidates env profiles providers request include_configured))"
  "c \<in> set (build_candidates env profiles providers request include_configured) \<Longrightarrow>
     provider_profile_is_usable env (pc_profile c)"
  by (auto simp: build_candidates_def case_prod_beta Let_def intro!: distinct_map_filter dedupe_candidates_facts(1))

lemma retained_subset:
  "\<exists>keep. retain_admitted_dynamic_candidates comparative has_dsn snapshot lookup request cs = filter keep cs"
  by (auto simp: retain_admitted_dynamic_candidates_def Let_def filter_True intro: exI [of _ "\<lambda>_. True"]
      split: option.splits)

lemma retained_trained:
  assumes "c \<in> set (retain_admitted_dynamic_candidates comparative has_dsn snapshot lookup request cs)"
    and "trained c" "comparative" "pr_preferred_model request = None"
  shows "\<exists>version keys key. has_dsn \<and> snapshot = Some version \<and> lookup version = Some keys
    \<and> key \<in> set keys \<and> admission_covers c key"
  using assms
  by (auto simp: retain_admitted_dynamic_candidates_def explicit_trained_request_def is_some_and_def Let_def
      split: if_splits option.splits)

text \<open>C13: The pool of a completion is sound. When a pool is returned it is not empty, no candidate is in it
  twice, and each one has the credentials its provider needs, serves the role and meets the floor on model
  sizes; and with comparative validation on, a request that names no model gets a trained profile only when
  the database lists an admission of that endpoint and model for the active snapshot.\<close>

theorem pool_is_sound:
  assumes "candidate_pool env profiles providers comparative has_dsn snapshot lookup request include_configured
      model_floor role = Inr pool"
  shows "pool \<noteq> [] \<and> distinct (map candidate_attempt_key pool)
    \<and> (\<forall>c\<in>set pool. provider_profile_is_usable env (pc_profile c) \<and> candidate_supports_role c role
        \<and> (\<forall>v. effective_floor model_floor = Some v \<longrightarrow> candidate_meets_model_floor c v)
        \<and> (trained c \<and> comparative \<and> pr_preferred_model request = None \<longrightarrow>
             (\<exists>version keys key. has_dsn \<and> snapshot = Some version \<and> lookup version = Some keys
                \<and> key \<in> set keys \<and> admission_covers c key)))"
proof -
  let ?built = "build_candidates env profiles providers request include_configured"
  let ?kept = "retain_admitted_dynamic_candidates comparative has_dsn snapshot lookup request ?built"
  have pool: "pool = eligible_candidates model_floor role ?kept" "pool \<noteq> []"
    using assms by (auto simp: candidate_pool_def Let_def split: if_splits)
  obtain keep where kept: "?kept = filter keep ?built"
    using retained_subset by blast
  have "distinct (map candidate_attempt_key pool)"
    using pool(1) build_candidates_sound(1)
    by (auto simp: eligible_candidates_def kept intro!: distinct_map_filter split: option.splits)
  moreover have "provider_profile_is_usable env (pc_profile c) \<and> candidate_supports_role c role
      \<and> (\<forall>v. effective_floor model_floor = Some v \<longrightarrow> candidate_meets_model_floor c v) \<and> c \<in> set ?kept"
    if "c \<in> set pool" for c
    using that pool(1) build_candidates_sound(2) [of c]
    by (auto simp: eligible_candidates_def kept split: option.splits)
  ultimately show ?thesis
    using pool(2) retained_trained by blast
qed

text \<open>C14: An explicit route to OpenAI keeps its model. When the request prefers a provider that is OpenAI under
  any of its names, and names a model, every candidate that is built is an OpenAI one with exactly that model,
  up to case or surrounding blanks, apart from the fallback that the request names itself.\<close>

theorem openai_route_keeps_its_model:
  assumes "pr_preferred_provider request = Some provider" "normalize_provider_type provider = ''openai''"
    and "named_model (pr_preferred_model request) = Some m"
    and "c \<in> set (build_candidates env profiles providers request include_configured)"
  shows "c \<in> set (fallback_candidates env profiles providers request)
    \<or> pc_provider_type c = ''openai''
      \<and> is_some_and (\<lambda>model. trim model = m \<or> eq_ignore_ascii_case model m) (pf_model (pc_profile c))"
proof -
  have trim: "trim model = m" if "pr_preferred_model request = Some model" for model
    using assms(3) that by (auto simp: named_model_def option_filter_def split: if_splits)
  have "\<exists>model. pr_preferred_model request = Some model"
    using assms(3) by (auto simp: named_model_def option_filter_def split: option.splits)
  then show ?thesis
    using pool_origin [OF assms(4)] assms(1-3) trim
    by (auto simp: primary_candidates_def profile_joins_def is_some_and_def is_none_or_def Let_def
        split: if_splits option.splits)
qed

lemma lowercase_names:
  "to_ascii_lowercase ''openai'' = ''openai''" "to_ascii_lowercase ''gemini'' = ''gemini''"
  "to_ascii_lowercase ''nvidia'' = ''nvidia''" "to_ascii_lowercase ''ollama'' = ''ollama''"
  by code_simp+

lemma normalize_lower: "to_ascii_lowercase (normalize_provider_type p) = normalize_provider_type p"
  by (auto simp: normalize_provider_type_def Let_def lowercase_names lowercase_idem)

text \<open>A candidate whose key is that of an Ollama candidate needs no credentials.\<close>

lemma ollama_key_is_usable:
  assumes "candidate_attempt_key c = ''ollama::'' @ rest"
    and "pc_provider_type c = normalize_provider_type (pf_provider_type (pc_profile c))"
  shows "provider_profile_is_usable env (pc_profile c)"
proof -
  obtain tail where key: "pc_provider_type c @ tail = ''ollama::'' @ rest" "\<exists>t. tail = ''::'' @ t"
    using assms(1) by (auto simp: candidate_attempt_key_def)
  then obtain t where start: "pc_provider_type c = CHR ''o'' # t"
    by (cases "pc_provider_type c") auto
  then have "pc_provider_type c \<notin> {''openai'', ''nvidia'', ''gemini''}"
    using key by auto
  moreover have "trim (pc_provider_type c) \<noteq> []"
    by (simp add: trim_Nil_iff start is_whitespace_def code_point_def)
  ultimately show ?thesis
    using assms(2) by (simp add: provider_profile_is_usable_def Let_def)
qed

lemma add_configured_has_ollama:
  assumes "pr_preferred_provider request = None"
    and "\<not> env_bool_any env [''GAIL_DISABLE_OLLAMA_FALLBACK'', ''REFINER_AI_DISABLE_OLLAMA_FALLBACK''] False"
  shows "\<exists>c\<in>set (add_configured env profiles providers request skip cs).
    eq_ignore_ascii_case (pc_provider_type c) ''ollama''"
  using assms
  by (auto simp: add_configured_def append_local_ollama_fallback_candidate_def normalize_ollama Let_def
      simp del: env_bool_any.simps env_string_any.simps)

lemma add_configured_provider_types:
  assumes "c \<in> set (add_configured env profiles providers request skip cs)"
    and "\<forall>c\<in>set cs. pc_provider_type c = normalize_provider_type (pf_provider_type (pc_profile c))"
  shows "pc_provider_type c = normalize_provider_type (pf_provider_type (pc_profile c))"
  using assms
  by (auto simp: add_configured_def append_local_ollama_fallback_candidate_def Let_def
      simp del: env_bool_any.simps env_string_any.simps split: if_splits)

lemma fallback_provider_types:
  "c \<in> set (fallback_candidates env profiles providers request) \<Longrightarrow>
     pc_provider_type c = normalize_provider_type (pf_provider_type (pc_profile c))"
  by (auto simp: fallback_candidates_def request_candidate_def split: option.splits if_splits)

text \<open>A request that names no provider always has a candidate. Unless the local fallback is switched off
  in the environment, and when the configured pool is included or the request names no fallback either, the
  candidates that are built are not empty, whatever profiles and credentials are configured.\<close>

theorem generic_request_has_a_candidate:
  assumes "pr_preferred_provider request = None"
    and "include_configured \<or> pr_fallback_provider request = None"
    and "\<not> env_bool_any env [''GAIL_DISABLE_OLLAMA_FALLBACK'', ''REFINER_AI_DISABLE_OLLAMA_FALLBACK''] False"
  shows "build_candidates env profiles providers request include_configured \<noteq> []"
proof -
  define named where "named = fallback_candidates env profiles providers request"
  define cs where "cs = add_configured env profiles providers request False named"
  have "named = [] \<or> include_configured"
    using assms(2) by (auto simp: named_def fallback_candidates_def)
  then have built: "build_candidates env profiles providers request include_configured
      = filter (\<lambda>c. provider_profile_is_usable env (pc_profile c)) (dedupe_candidates cs)"
    using assms(1)
    by (auto simp: build_candidates_def primary_candidates_def should_include_configured_candidates_def
        named_def cs_def)
  have types: "pc_provider_type c = normalize_provider_type (pf_provider_type (pc_profile c))" if "c \<in> set cs" for c
    using add_configured_provider_types fallback_provider_types that unfolding cs_def named_def by blast
  obtain c where c: "c \<in> set cs" "eq_ignore_ascii_case (pc_provider_type c) ''ollama''"
    using add_configured_has_ollama [OF assms(1,3)] unfolding cs_def by blast
  then have "pc_provider_type c = ''ollama''"
    using types [OF c(1)] normalize_lower
    by (simp add: eq_ignore_ascii_case_def lowercase_names)
  moreover obtain c' where c': "c' \<in> set (dedupe_candidates cs)" "candidate_attempt_key c' = candidate_attempt_key c"
    using c(1) dedupe_candidates_facts(2) [of cs] by (metis image_eqI image_iff)
  ultimately have "provider_profile_is_usable env (pc_profile c')"
    using types [OF set_dedupe_candidates [OF c'(1)]]
    by (intro ollama_key_is_usable) (auto simp: candidate_attempt_key_def)
  then show ?thesis
    using c'(1) by (auto simp: built filter_empty_conv)
qed

section \<open>Concrete pools\<close>

definition plain_routing :: routing_profiles where
  "plain_routing = \<lparr>rp_version = 1, rp_workflow_profiles = [], rp_keyword_tags = [], rp_provider_specialties = []\<rparr>"

definition pool_profile :: "string \<Rightarrow> string \<Rightarrow> provider_profile" where
  "pool_profile provider model = default_provider_profile
     \<lparr>pf_provider_type := provider, pf_model := Some model, pf_api_key := Some ''key''\<rparr>"

definition trained_profile :: provider_profile where
  "trained_profile = default_provider_profile
     \<lparr>pf_provider_type := ''llamacpp'', pf_model := Some ''m'', pf_base_url := Some ''http://h'',
      pf_source := Some ''ansible_llamacpp_trained''\<rparr>"

definition open_request :: pool_request where
  "open_request = \<lparr>pr_preferred_provider = None, pr_preferred_model = None, pr_preferred_api_key = None,
     pr_preferred_access_token = None, pr_fallback_provider = None, pr_fallback_model = None,
     pr_fallback_api_key = None, pr_fallback_access_token = None, pr_base_url = None\<rparr>"

definition route_to :: "string \<Rightarrow> string \<Rightarrow> pool_request" where
  "route_to provider model = open_request\<lparr>pr_preferred_provider := Some provider, pr_preferred_model := Some model\<rparr>"

definition models_of :: "provider_candidate list \<Rightarrow> (string \<times> string) list" where
  "models_of cs = map (\<lambda>c. (pc_provider_type c, pc_configured_model c)) cs"

lemma pool_names:
  "normalize_provider_type ''openai'' = ''openai''" "normalize_provider_type ''gemini'' = ''gemini''"
  "normalize_provider_type ''llamacpp'' = ''llamacpp''"
  "trim ''ollama'' = ''ollama''" "trim ''openai'' = ''openai''" "trim ''gemini'' = ''gemini''"
  "trim ''llamacpp'' = ''llamacpp''" "trim [] = []" "trim ''m'' = ''m''" "trim '' m'' = ''m''" "trim ''n'' = ''n''"
  "eq_ignore_ascii_case ''m'' ''m''" "\<not> eq_ignore_ascii_case '' m'' ''m''" "\<not> eq_ignore_ascii_case ''n'' ''m''"
  "\<not> eq_ignore_ascii_case ''llamacpp'' ''ollama''" "\<not> eq_ignore_ascii_case ''m'' ''default''"
  "has_usable_value (Some ''key'')" "\<not> has_usable_value None"
  "trim ''llama3.2'' = ''llama3.2''"
  by code_simp+

lemmas pool_evaluation = build_candidates_def primary_candidates_def fallback_candidates_def add_configured_def
  should_include_configured_candidates_def configured_model_matches_request_def named_model_def option_filter_def
  request_candidate_model_allowed_def request_candidate_model_allowed_with_policy_def profile_joins_def
  append_local_ollama_fallback_candidate_def dedupe_candidates_def candidate_attempt_key_def
  provider_profile_is_usable_def is_some_and_def is_none_or_def Let_def models_of_def
  plain_routing_def pool_profile_def trained_profile_def open_request_def route_to_def default_provider_profile_def
  allow_unconfigured_ollama_request_models_def pool_names normalize_ollama

lemma trained_pool:
  "models_of (build_candidates (\<lambda>_. None) plain_routing [trained_profile] open_request True)
     = [(''llamacpp'', ''m''), (''ollama'', ''llama3.2'')]"
  by (simp add: pool_evaluation)

lemma padded_model_loses_its_route:
  "build_candidates (\<lambda>_. None) plain_routing [pool_profile ''openai'' '' m''] (route_to ''openai'' ''m'') True = []
   \<and> models_of (build_candidates (\<lambda>_. None) plain_routing [pool_profile ''openai'' ''m''] (route_to ''openai'' ''m'') True)
     = [(''openai'', ''m'')]"
  by (simp add: pool_evaluation)

lemma gemini_route_admits_other_models:
  "models_of (build_candidates (\<lambda>_. None) plain_routing [pool_profile ''gemini'' ''m'', pool_profile ''openai'' ''n'']
     (route_to ''gemini'' ''m'') True) = [(''gemini'', ''m''), (''openai'', ''n'')]"
  by (simp add: pool_evaluation)

text \<open>While the admissions cannot be read, a route to a trained model is answered as if nothing were configured.\<close>

lemma outage_empties_a_trained_route:
  "candidate_pool (\<lambda>_. None) plain_routing [trained_profile] True True (Some ''v'') (\<lambda>_. None)
     (route_to ''llamacpp'' ''m'') True None ''general'' = Inl No_Provider"
  by (simp add: candidate_pool_def retain_admitted_dynamic_candidates_def explicit_trained_request_def trained_def
      is_trained_llamacpp_profile_def eligible_candidates_def effective_floor_def pool_evaluation)

definition admitted_key :: admission_key where
  "admitted_key = (''trained'', ''http://h/'', ''M'')"

lemma trained_candidate:
  "trained (from_profile plain_routing trained_profile)"
  "candidate_supports_role (from_profile plain_routing trained_profile) ''general''"
  "admission_covers (from_profile plain_routing trained_profile) admitted_key"
proof -
  have "eq_ignore_ascii_case ''ansible_llamacpp_trained'' ''ansible_llamacpp_trained''"
    "admission_model_matches ''M'' ''m''" "admission_endpoint_matches ''http://h/'' ''http://h''"
    by code_simp+
  then show "trained (from_profile plain_routing trained_profile)"
    "admission_covers (from_profile plain_routing trained_profile) admitted_key"
    by (simp_all add: trained_def is_trained_llamacpp_profile_def is_some_and_def trained_profile_def
        admission_covers_def admitted_key_def)
  show "candidate_supports_role (from_profile plain_routing trained_profile) ''general''"
    by (simp add: candidate_supports_role_def from_profile_def trained_profile_def default_provider_profile_def Let_def)
qed

lemma trained_is_built:
  "from_profile plain_routing trained_profile
     \<in> set (build_candidates (\<lambda>_. None) plain_routing [trained_profile] open_request True)"
  by (simp add: pool_evaluation)

theorem pool_is_sound_witness:
  "\<exists>pool. candidate_pool (\<lambda>_. None) plain_routing [trained_profile] True True (Some ''v'')
       (\<lambda>_. Some [admitted_key]) open_request True None ''general'' = Inr pool
     \<and> from_profile plain_routing trained_profile \<in> set pool \<and> distinct (map candidate_attempt_key pool)"
proof -
  let ?pool = "eligible_candidates None ''general''
    (retain_admitted_dynamic_candidates True True (Some ''v'') (\<lambda>_. Some [admitted_key]) open_request
      (build_candidates (\<lambda>_. None) plain_routing [trained_profile] open_request True))"
  have c: "from_profile plain_routing trained_profile \<in> set ?pool"
    using trained_is_built trained_candidate
    by (auto simp: retain_admitted_dynamic_candidates_def eligible_candidates_def effective_floor_def option_filter_def
        explicit_trained_request_def is_some_and_def Let_def open_request_def)
  then have "candidate_pool (\<lambda>_. None) plain_routing [trained_profile] True True (Some ''v'')
      (\<lambda>_. Some [admitted_key]) open_request True None ''general'' = Inr ?pool"
    by (auto simp: candidate_pool_def Let_def)
  from pool_is_sound [OF this] this c show ?thesis by blast
qed

theorem openai_route_keeps_its_model_witness:
  "from_profile plain_routing (pool_profile ''openai'' ''m'')
     \<in> set (build_candidates (\<lambda>_. None) plain_routing [pool_profile ''openai'' ''m'', pool_profile ''gemini'' ''m'']
         (route_to ''openai'' ''m'') True)
   \<and> pc_provider_type (from_profile plain_routing (pool_profile ''openai'' ''m'')) = ''openai''"
proof -
  let ?c = "from_profile plain_routing (pool_profile ''openai'' ''m'')"
  have c: "?c \<in> set (build_candidates (\<lambda>_. None) plain_routing [pool_profile ''openai'' ''m'', pool_profile ''gemini'' ''m'']
      (route_to ''openai'' ''m'') True)"
    by (simp add: pool_evaluation)
  have "named_model (pr_preferred_model (route_to ''openai'' ''m'')) = Some ''m''"
    "pr_preferred_provider (route_to ''openai'' ''m'') = Some ''openai''" "normalize_provider_type ''openai'' = ''openai''"
    by (simp_all add: pool_evaluation)
  from openai_route_keeps_its_model [OF this(2,3,1) c] c show ?thesis
    by (auto simp: fallback_candidates_def route_to_def open_request_def)
qed

theorem generic_request_has_a_candidate_witness:
  "build_candidates (\<lambda>_. None) plain_routing [pool_profile ''gemini'' ''m''] open_request False \<noteq> []"
  by (rule generic_request_has_a_candidate) (simp_all add: open_request_def)

end
