(* ===== verification/FloatRange.thy ===== *)
theory FloatRange
  imports FloatLaws Selection
begin

text \<open>
  Ranges of floats: a value that is a number between two rationals. When the ends of the range can be
  represented, rounding does not leave it, so the ranges of the operations follow those of the rationals.
\<close>

definition in_range :: "rat \<Rightarrow> rat \<Rightarrow> f64 \<Rightarrow> bool" where
  "in_range a b x \<longleftrightarrow> (case x of Fin q \<Rightarrow> (a \<le> q \<and> q \<le> b) | _ \<Rightarrow> False)"

definition grid :: "rat \<Rightarrow> bool" where
  "grid q \<longleftrightarrow> q * 1024 = of_int \<lfloor>q * 1024\<rfloor> \<and> \<bar>q\<bar> \<le> 2 ^ 40"

lemma grid_rnd:
  assumes "grid q"
  shows "rnd q = Fin q"
proof -
  define m where "m = \<lfloor>q * 1024\<rfloor>"
  have q: "q = of_int m * pow2 (- 10)"
    using assms by (simp add: grid_def m_def pow2_def)
  have "\<bar>q * 1024\<bar> \<le> 2 ^ 50"
    using assms by (simp add: grid_def abs_mult)
  then have "\<bar>m\<bar> \<le> 2 ^ 50"
    using assms by (simp add: grid_def m_def abs_le_iff)
  moreover have "\<bar>q\<bar> < pow2 1024"
  proof -
    have "(2::rat) ^ 40 = pow2 (int 40)" by (rule pow2_of_nat [symmetric])
    also have "\<dots> < pow2 1024" by (simp only: pow2_less_iff)
    finally have "(2::rat) ^ 40 < pow2 1024" .
    then show ?thesis using assms by (simp add: grid_def)
  qed
  ultimately show ?thesis
    by (intro rnd_exact [OF q]) auto
qed

lemma range_Fin [simp]: "in_range a b (Fin q) \<longleftrightarrow> a \<le> q \<and> q \<le> b" by (simp add: in_range_def)

lemma in_rangeE: "in_range a b x \<Longrightarrow> (\<And>q. x = Fin q \<Longrightarrow> a \<le> q \<Longrightarrow> q \<le> b \<Longrightarrow> P) \<Longrightarrow> P"
  by (cases x) (auto simp: in_range_def)

lemma range_finite: "in_range a b x \<Longrightarrow> is_finite x" "in_range a b x \<Longrightarrow> x \<noteq> NaN"
  by (auto elim: in_rangeE)

lemma range_mono: "in_range a b x \<Longrightarrow> c \<le> a \<Longrightarrow> b \<le> d \<Longrightarrow> in_range c d x"
  by (auto elim!: in_rangeE)

lemma rnd_in_range:
  assumes "a \<le> q" "q \<le> b" "grid a" "grid b"
  shows "in_range a b (rnd q)"
proof -
  have "Fin a \<le> rnd q" "rnd q \<le> Fin b"
    using rnd_mono [OF assms(1)] rnd_mono [OF assms(2)] grid_rnd assms(3,4) by simp_all
  then show ?thesis by (cases "rnd q") (auto simp: less_eq_f64_def in_range_def)
qed

lemma range_add: "in_range a b x \<Longrightarrow> in_range c d y \<Longrightarrow> grid (a + c) \<Longrightarrow> grid (b + d) \<Longrightarrow> in_range (a + c) (b + d) (f_add x y)"
  by (auto elim!: in_rangeE intro!: rnd_in_range)

lemma range_sub: "in_range a b x \<Longrightarrow> in_range c d y \<Longrightarrow> grid (a - d) \<Longrightarrow> grid (b - c) \<Longrightarrow> in_range (a - d) (b - c) (f_sub x y)"
  by (auto elim!: in_rangeE intro!: rnd_in_range simp: f_sub_def f_neg_def)

lemma range_scale:
  "in_range a b x \<Longrightarrow> 0 \<le> k \<Longrightarrow> grid (a * k) \<Longrightarrow> grid (b * k) \<Longrightarrow> in_range (a * k) (b * k) (f_mul x (Fin k))"
  by (auto elim!: in_rangeE intro!: rnd_in_range mult_right_mono simp: f_mul_def)

lemma range_mul_unit:
  "in_range 0 1 x \<Longrightarrow> in_range 0 1 y \<Longrightarrow> in_range 0 1 (f_mul x y)"
  by (auto elim!: in_rangeE intro!: rnd_in_range simp: f_mul_def grid_def mult_le_one)

lemma range_div:
  "in_range a b x \<Longrightarrow> 0 < k \<Longrightarrow> grid (a / k) \<Longrightarrow> grid (b / k) \<Longrightarrow> in_range (a / k) (b / k) (f_div x (Fin k))"
  by (auto elim!: in_rangeE intro!: rnd_in_range divide_right_mono simp: f_div_def)

lemma range_clamp: "x \<noteq> NaN \<Longrightarrow> a \<le> b \<Longrightarrow> in_range a b (f_clamp x (Fin a) (Fin b))"
  by (cases x) (auto simp: f_clamp_def)

lemma range_clamp_lit:
  assumes "x \<noteq> NaN" "in_range c d lo" "in_range e f hi" "f_le lo hi"
  shows "in_range c f (f_clamp x lo hi)"
  using assms by (cases x) (auto simp: f_clamp_def elim!: in_rangeE)

lemma range_round:
  assumes "in_range (of_int a) (of_int b) x"
  shows "in_range (of_int a) (of_int b) (f_round x)"
proof -
  obtain q where q: "x = Fin q" "of_int a \<le> q" "q \<le> of_int b"
    using assms by (rule in_rangeE)
  show ?thesis
  proof (cases "0 \<le> q")
    case True
    have "a \<le> \<lfloor>q + 1 / 2\<rfloor>" "\<lfloor>q + 1 / 2\<rfloor> \<le> b"
      using q by linarith+
    then show ?thesis using True q by (cases "q = 0") (auto simp: sgn_if)
  next
    case False
    have "\<lfloor>1 / 2 - q\<rfloor> \<le> - a" "- b \<le> \<lfloor>1 / 2 - q\<rfloor>"
      using q by linarith+
    then show ?thesis using False q by (auto simp: sgn_if simp flip: of_int_minus)
  qed
qed

text \<open>Values that are not negative, infinity included.\<close>

definition nonneg :: "f64 \<Rightarrow> bool" where
  "nonneg x \<longleftrightarrow> x \<noteq> NaN \<and> Fin 0 \<le> x"

lemma nonneg_simps [simp]: "nonneg (Fin q) \<longleftrightarrow> 0 \<le> q" "nonneg PInf" "\<not> nonneg NInf" "\<not> nonneg NaN"
  by (auto simp: nonneg_def less_eq_f64_def)

lemma nonnegE: "nonneg x \<Longrightarrow> (\<And>q. x = Fin q \<Longrightarrow> 0 \<le> q \<Longrightarrow> P) \<Longrightarrow> (x = PInf \<Longrightarrow> P) \<Longrightarrow> P"
  by (cases x) auto

lemma nonneg_rnd: "0 \<le> q \<Longrightarrow> nonneg (rnd q)"
  by (simp add: nonneg_def rnd_nonneg)

lemma nonneg_add: "nonneg x \<Longrightarrow> nonneg y \<Longrightarrow> nonneg (f_add x y)"
  by (auto elim!: nonnegE intro!: nonneg_rnd)

lemma nonneg_scale: "nonneg x \<Longrightarrow> 0 < k \<Longrightarrow> nonneg (f_mul x (Fin k))"
  by (auto elim!: nonnegE intro!: nonneg_rnd simp: f_mul_def f_inf_def)

lemma nonneg_div: "nonneg x \<Longrightarrow> 0 < k \<Longrightarrow> nonneg (f_div x (Fin k))"
  by (auto elim!: nonnegE intro!: nonneg_rnd simp: f_div_def f_inf_def)

lemma nonneg_of_nat: "nonneg (f_of_nat n)"
  by (simp add: f_of_nat_def nonneg_rnd)

lemma range_nonneg: "in_range a b x \<Longrightarrow> 0 \<le> a \<Longrightarrow> nonneg x"
  by (auto elim!: in_rangeE)

text \<open>A rounded value is a fixed point of rounding.\<close>

lemma rnd_fixed:
  assumes "rnd q = Fin v" "0 < q"
  shows "rnd v = Fin v"
proof -
  define k where "k = round_half_even (q / pow2 (mag_exp q))"
  have v: "v = of_int k * pow2 (mag_exp q)" "v < pow2 1024"
    using assms by (auto simp: rnd_mag mag_def k_def split: if_splits)
  have e: "- 1074 \<le> mag_exp q" by (simp add: mag_exp_def)
  have "q < pow2 (ilog2 q + 1)" using assms(2) by (simp add: ilog2_bounds)
  also have "\<dots> \<le> pow2 (53 + mag_exp q)" by (simp add: mag_exp_def)
  finally have "q / pow2 (mag_exp q) \<le> of_int (2 ^ 53)"
    by (simp add: pow2_add divide_le_eq) (simp add: pow2_def)
  then have k: "k \<le> 2 ^ 53"
    unfolding k_def using round_half_even_mono round_half_even_of_int by metis
  have "(of_int 0 :: rat) \<le> q / pow2 (mag_exp q)" using assms(2) by (simp add: less_imp_le)
  then have "0 \<le> k"
    unfolding k_def using round_half_even_mono round_half_even_of_int by metis
  then have v0: "\<bar>v\<bar> < pow2 1024" using v by (simp add: abs_mult abs_of_pos [OF pow2_pos])
  show ?thesis
  proof (cases "k = 2 ^ 53")
    case True
    have "v = of_int (2 ^ 52) * pow2 (mag_exp q + 1)"
      by (simp add: v(1) True pow2_add) (simp add: pow2_def)
    then show ?thesis by (rule rnd_exact) (use e v0 in simp_all)
  next
    case False
    then show ?thesis using k \<open>0 \<le> k\<close> by (intro rnd_exact [OF v(1)]) (use e v0 in simp_all)
  qed
qed

end
