(* ===== verification/RoutingMetrics.thy ===== *)
theory RoutingMetrics
  imports FloatRange Invocation
begin

text \<open>
  The metrics that routing rests on (\<^verbatim>\<open>src/src/metrics.rs\<close>): the statistics of a candidate and of its
  request profiles, health probes and backoff, the score bonus, the capacity estimate, the usage penalty,
  and the counters of responses and requests.

  The clock is an argument. A counter is a natural number, with the saturation of \<open>u64\<close> where the code has
  it; a hash map is the list of its entries. The file that a snapshot of the store is written to is not
  modelled, only the order of the writes.
\<close>

section \<open>Statistics\<close>

definition u64_max :: nat where "u64_max = 18446744073709551615"

definition u64_sat_add :: "nat \<Rightarrow> nat \<Rightarrow> nat" where
  "u64_sat_add a b = min (a + b) u64_max"

text \<open>The five fields that the code keeps once for successful and once for failed attempts, with their count.\<close>

record latency_stats =
  la_samples :: nat
  la_total_ms :: nat
  la_average_ms :: "f64 option"
  la_min_ms :: "nat option"
  la_max_ms :: "nat option"
  la_ewma_ms :: "f64 option"

definition no_latency :: latency_stats where
  "no_latency = \<lparr>la_samples = 0, la_total_ms = 0, la_average_ms = None, la_min_ms = None, la_max_ms = None,
     la_ewma_ms = None\<rparr>"

text \<open>The generated-token throughput of the successful attempts.\<close>

record throughput_stats =
  th_samples :: nat
  th_total :: f64
  th_average :: "f64 option"
  th_min :: "f64 option"
  th_max :: "f64 option"
  th_ewma :: "f64 option"

definition no_throughput :: throughput_stats where
  "no_throughput = \<lparr>th_samples = 0, th_total = Fin 0, th_average = None, th_min = None, th_max = None, th_ewma = None\<rparr>"

record stats_bucket =
  sb_successes :: nat
  sb_failures :: nat
  sb_total :: nat
  sb_total_latency_ms :: nat
  sb_average_latency_ms :: "f64 option"
  sb_min_latency_ms :: "nat option"
  sb_max_latency_ms :: "nat option"
  sb_ewma_latency_ms :: "f64 option"
  sb_successful :: latency_stats
  sb_failed :: latency_stats
  sb_stale_failures :: nat
  sb_queue_wait :: latency_stats
  sb_ewma_inference_ms :: "f64 option"
  sb_ewma_prompt_tokens :: "f64 option"
  sb_ewma_tokens_estimate :: "f64 option"
  sb_ewma_completion_tokens :: "f64 option"
  sb_throughput :: throughput_stats
  sb_ewma_quality :: f64
  sb_last_status :: "string option"
  sb_last_error :: "string option"
  sb_updated_at :: "f64 option"

definition no_stats :: stats_bucket where
  "no_stats = \<lparr>sb_successes = 0, sb_failures = 0, sb_total = 0, sb_total_latency_ms = 0,
     sb_average_latency_ms = None, sb_min_latency_ms = None, sb_max_latency_ms = None, sb_ewma_latency_ms = None,
     sb_successful = no_latency, sb_failed = no_latency, sb_stale_failures = 0, sb_queue_wait = no_latency,
     sb_ewma_inference_ms = None, sb_ewma_prompt_tokens = None, sb_ewma_tokens_estimate = None,
     sb_ewma_completion_tokens = None, sb_throughput = no_throughput, sb_ewma_quality = Fin 0,
     sb_last_status = None, sb_last_error = None, sb_updated_at = None\<rparr>"

record local_usage_telemetry =
  lt_prompt_tokens_estimate :: "nat option"
  lt_queue_wait_ms :: "nat option"
  lt_inference_ms :: "nat option"
  lt_total_tokens_estimate :: "nat option"
  lt_completion_tokens_estimate :: "nat option"

definition ewma :: "f64 option \<Rightarrow> f64 \<Rightarrow> f64 option" where
  "ewma previous value =
     Some (case previous of
             None \<Rightarrow> value
           | Some p \<Rightarrow> f_add (f_mul p (Fin (3 / 4))) (f_mul value (Fin (1 / 4))))"

definition least :: "nat option \<Rightarrow> nat \<Rightarrow> nat option" where
  "least m v = Some (case m of None \<Rightarrow> v | Some value \<Rightarrow> min value v)"

definition greatest :: "nat option \<Rightarrow> nat \<Rightarrow> nat option" where
  "greatest m v = Some (case m of None \<Rightarrow> v | Some value \<Rightarrow> max value v)"

definition add_latency :: "nat \<Rightarrow> latency_stats \<Rightarrow> latency_stats" where
  "add_latency ms l =
     (let samples = u64_sat_add (la_samples l) 1; total = u64_sat_add (la_total_ms l) ms
      in \<lparr>la_samples = samples, la_total_ms = total,
          la_average_ms = Some (f_div (f_of_nat total) (f_of_nat samples)),
          la_min_ms = least (la_min_ms l) ms, la_max_ms = greatest (la_max_ms l) ms,
          la_ewma_ms = ewma (la_ewma_ms l) (f_of_nat ms)\<rparr>)"

definition merge_latency :: "bool \<Rightarrow> nat \<Rightarrow> stats_bucket \<Rightarrow> stats_bucket" where
  "merge_latency success ms b =
     (if success
      then let l = add_latency ms (sb_successful b)
           in b\<lparr>sb_successful := l, sb_total_latency_ms := la_total_ms l, sb_average_latency_ms := la_average_ms l,
                sb_min_latency_ms := la_min_ms l, sb_max_latency_ms := la_max_ms l,
                sb_ewma_latency_ms := la_ewma_ms l\<rparr>
      else b\<lparr>sb_failed := add_latency ms (sb_failed b)\<rparr>)"

definition add_throughput :: "f64 \<Rightarrow> throughput_stats \<Rightarrow> throughput_stats" where
  "add_throughput rate t =
     (let samples = u64_sat_add (th_samples t) 1; total = f_add (th_total t) rate
      in \<lparr>th_samples = samples, th_total = total,
          th_average = Some (f_div total (f_of_nat (max samples 1))),
          th_min = Some (case th_min t of None \<Rightarrow> rate | Some v \<Rightarrow> f_min v rate),
          th_max = Some (case th_max t of None \<Rightarrow> rate | Some v \<Rightarrow> f_max v rate),
          th_ewma = ewma (th_ewma t) rate\<rparr>)"

text \<open>The duration that the throughput of an attempt is measured over.\<close>

definition generation_rate :: "nat option \<Rightarrow> local_usage_telemetry \<Rightarrow> f64 option" where
  "generation_rate latency_ms t =
     (case (lt_completion_tokens_estimate t,
            if lt_inference_ms t \<noteq> None then lt_inference_ms t else latency_ms) of
        (Some tokens, Some duration) \<Rightarrow>
          if 0 < tokens \<and> 0 < duration
          then Some (f_div (f_mul (f_of_nat tokens) (Fin 1000)) (f_of_nat duration)) else None
      | _ \<Rightarrow> None)"

definition merge_some :: "('a \<Rightarrow> 's \<Rightarrow> 's) \<Rightarrow> 'a option \<Rightarrow> 's \<Rightarrow> 's" where
  "merge_some f x s = (case x of None \<Rightarrow> s | Some a \<Rightarrow> f a s)"

definition merge_telemetry :: "bool \<Rightarrow> nat option \<Rightarrow> local_usage_telemetry \<Rightarrow> stats_bucket \<Rightarrow> stats_bucket" where
  "merge_telemetry success latency_ms t b0 =
     (let b1 = merge_some (\<lambda>v b. b\<lparr>sb_ewma_prompt_tokens := ewma (sb_ewma_prompt_tokens b) (f_of_nat v)\<rparr>)
                 (lt_prompt_tokens_estimate t) b0;
          b2 = merge_some (\<lambda>v b. b\<lparr>sb_queue_wait := add_latency v (sb_queue_wait b)\<rparr>) (lt_queue_wait_ms t) b1;
          b3 = merge_some (\<lambda>v b. b\<lparr>sb_ewma_inference_ms := ewma (sb_ewma_inference_ms b) (f_of_nat v)\<rparr>)
                 (lt_inference_ms t) b2;
          b4 = merge_some (\<lambda>v b. b\<lparr>sb_ewma_tokens_estimate := ewma (sb_ewma_tokens_estimate b) (f_of_nat v)\<rparr>)
                 (lt_total_tokens_estimate t) b3;
          b5 = merge_some (\<lambda>v b. b\<lparr>sb_ewma_completion_tokens := ewma (sb_ewma_completion_tokens b) (f_of_nat v)\<rparr>)
                 (lt_completion_tokens_estimate t) b4
      in if success
         then merge_some (\<lambda>rate b. b\<lparr>sb_throughput := add_throughput rate (sb_throughput b)\<rparr>)
                (generation_rate latency_ms t) b5
         else b5)"

text \<open>One attempt is merged into a bucket. The sums of attempts are below \<open>u64\<close> in any reachable store.\<close>

definition merge_stats ::
  "f64 \<Rightarrow> bool \<Rightarrow> nat option \<Rightarrow> local_usage_telemetry option \<Rightarrow> f64 \<Rightarrow> string option
   \<Rightarrow> stats_bucket \<Rightarrow> stats_bucket" where
  "merge_stats now success latency_ms telemetry quality error b0 =
     (let b1 = (if success then b0\<lparr>sb_successes := sb_successes b0 + 1\<rparr>
                else b0\<lparr>sb_failures := sb_failures b0 + 1\<rparr>);
          b2 = b1\<lparr>sb_total := sb_successes b1 + sb_failures b1\<rparr>;
          b3 = merge_some (merge_latency success) latency_ms b2;
          b4 = merge_some (merge_telemetry success latency_ms) telemetry b3
      in b4\<lparr>sb_ewma_quality := f_add (f_mul (sb_ewma_quality b4) (Fin (3 / 4))) (f_mul quality (Fin (1 / 4))),
            sb_last_status := Some (if success then ''success'' else ''failure''),
            sb_last_error := error, sb_updated_at := Some now\<rparr>)"

definition stale_model_error :: "string \<Rightarrow> bool" where
  "stale_model_error error0 =
     (let error = to_ascii_lowercase error0;
          named = (\<lambda>q. str_contains error (''model '' @ [q]) \<and> str_contains error (q # '' not found''))
      in str_contains error ''model not found'' \<or> named (CHR 0x27) \<or> named (CHR 0x22)
         \<or> str_contains error ''no such model'')"

definition decay_stale_model_failures :: "stats_bucket \<Rightarrow> stats_bucket" where
  "decay_stale_model_failures b =
     (case sb_last_error b of
        None \<Rightarrow> b
      | Some error \<Rightarrow>
          if stale_model_error error
          then b\<lparr>sb_stale_failures := u64_sat_add (sb_stale_failures b) (sb_failures b), sb_failures := 0,
                 sb_total := sb_successes b, sb_last_error := None, sb_last_status := Some ''health_recovered''\<rparr>
          else b)"

definition normalize_split_latency_fields :: "stats_bucket \<Rightarrow> stats_bucket" where
  "normalize_split_latency_fields b =
     b\<lparr>sb_successful := (if la_samples (sb_successful b) = 0 then no_latency else sb_successful b),
       sb_failed := (if la_samples (sb_failed b) = 0 then no_latency else sb_failed b)\<rparr>"

section \<open>The store\<close>

record candidate_bucket =
  cb_provider :: "string option"
  cb_model :: "string option"
  cb_configured_model :: "string option"
  cb_resolved_model :: "string option"
  cb_host_id :: "string option"
  cb_specialties :: "string list"
  cb_stats :: stats_bucket
  cb_roles :: "stats_bucket btree"
  cb_health :: health_bucket

definition no_health :: health_bucket where
  "no_health = \<lparr>hb_ok = None, hb_mode = None, hb_checked_at = None, hb_latency_ms = None, hb_message = None\<rparr>"

definition no_bucket :: candidate_bucket where
  "no_bucket = \<lparr>cb_provider = None, cb_model = None, cb_configured_model = None, cb_resolved_model = None,
     cb_host_id = None, cb_specialties = [], cb_stats = no_stats, cb_roles = [], cb_health = no_health\<rparr>"

type_synonym candidate_metrics = "candidate_bucket btree"

definition profile_char :: "char \<Rightarrow> char" where
  "profile_char c =
     (if is_ascii_alphanumeric c \<or> c = CHR ''-'' \<or> c = CHR ''_'' \<or> c = CHR ''.'' then ascii_lower c else CHR ''_'')"

definition clean :: "string \<Rightarrow> string" where
  "clean value = take 96 (trim_end_by (\<lambda>c. c = CHR ''_'')
     (dropWhile (\<lambda>c. c = CHR ''_'') (map profile_char (trim value))))"

definition routing_profile_key :: "string \<Rightarrow> string \<Rightarrow> string \<Rightarrow> string \<Rightarrow> string option \<Rightarrow> string" where
  "routing_profile_key source request_profile workflow role request_category =
     ''source='' @ clean source @ '';profile='' @ clean request_profile @ '';workflow='' @ clean workflow
     @ '';role='' @ clean role @ '';category='' @ clean (unwrap_or [] request_category)"

definition legacy_key :: "string \<Rightarrow> string \<Rightarrow> string" where
  "legacy_key workflow role = workflow @ '':'' @ role"

definition bucket_entry :: "string \<Rightarrow> candidate_metrics \<Rightarrow> candidate_bucket" where
  "bucket_entry cid m = unwrap_or no_bucket (map_of m cid)"

definition describe :: "candidate_summary \<Rightarrow> candidate_bucket \<Rightarrow> candidate_bucket" where
  "describe s b =
     b\<lparr>cb_provider := Some (cs_provider s), cb_model := Some (cs_model s),
       cb_configured_model := Some (cs_configured_model s), cb_resolved_model := Some (cs_resolved_model s),
       cb_host_id := cs_host_id s, cb_specialties := cs_specialties s\<rparr>"

definition record_result_with_context ::
  "f64 \<Rightarrow> candidate_summary \<Rightarrow> string \<Rightarrow> string \<Rightarrow> string \<Rightarrow> string \<Rightarrow> string option \<Rightarrow> bool \<Rightarrow> nat option
   \<Rightarrow> local_usage_telemetry option \<Rightarrow> f64 \<Rightarrow> string option \<Rightarrow> candidate_metrics \<Rightarrow> candidate_metrics" where
  "record_result_with_context now s source request_profile workflow role request_category success latency_ms
      telemetry quality error m =
     (let b = describe s (bucket_entry (cs_candidate_id s) m);
          merge = merge_stats now success latency_ms telemetry quality error;
          key = routing_profile_key source request_profile workflow role request_category
      in bt_insert (cs_candidate_id s)
           (b\<lparr>cb_stats := merge (cb_stats b),
              cb_roles := bt_insert key (merge (unwrap_or no_stats (map_of (cb_roles b) key))) (cb_roles b)\<rparr>) m)"

definition record_result ::
  "f64 \<Rightarrow> candidate_summary \<Rightarrow> string \<Rightarrow> string \<Rightarrow> bool \<Rightarrow> nat option \<Rightarrow> local_usage_telemetry option \<Rightarrow> f64
   \<Rightarrow> string option \<Rightarrow> candidate_metrics \<Rightarrow> candidate_metrics" where
  "record_result now s workflow role success latency_ms telemetry quality error m =
     record_result_with_context now s ''unknown'' ''unclassified'' workflow role None success latency_ms
       telemetry quality error m"

definition record_health :: "f64 \<Rightarrow> candidate_summary \<Rightarrow> health_bucket \<Rightarrow> candidate_metrics \<Rightarrow> candidate_metrics" where
  "record_health now s health m =
     (let b = describe s (bucket_entry (cs_candidate_id s) m);
          b1 = (if hb_ok health = Some True
                then b\<lparr>cb_stats := decay_stale_model_failures (cb_stats b),
                       cb_roles := map (\<lambda>(k, v). (k, decay_stale_model_failures v)) (cb_roles b)\<rparr>
                else b)
      in bt_insert (cs_candidate_id s) (b1\<lparr>cb_health := health\<lparr>hb_checked_at := Some now\<rparr>\<rparr>) m)"

section \<open>Probes and backoff\<close>

definition should_probe :: "f64 \<Rightarrow> string \<Rightarrow> f64 \<Rightarrow> candidate_metrics \<Rightarrow> bool" where
  "should_probe now cid ttl m =
     (let checked_at = unwrap_or (Fin 0) (case map_of m cid of
            None \<Rightarrow> None | Some b \<Rightarrow> hb_checked_at (cb_health b))
      in f_le checked_at (Fin 0) \<or> f_le ttl (f_sub now checked_at))"

definition health_snapshot :: "string \<Rightarrow> candidate_metrics \<Rightarrow> health_bucket" where
  "health_snapshot cid m = unwrap_or no_health (map_option cb_health (map_of m cid))"

definition in_backoff :: "f64 \<Rightarrow> string list \<Rightarrow> f64 \<Rightarrow> health_bucket \<Rightarrow> bool" where
  "in_backoff now modes ttl h \<longleftrightarrow>
     is_some_and (\<lambda>mode. \<exists>item\<in>set modes. eq_ignore_ascii_case mode item) (hb_mode h)
     \<and> is_some_and (\<lambda>checked_at. f_lt (f_sub now checked_at) ttl) (hb_checked_at h)"

definition candidate_in_health_backoff :: "f64 \<Rightarrow> string \<Rightarrow> string list \<Rightarrow> f64 \<Rightarrow> candidate_metrics \<Rightarrow> bool" where
  "candidate_in_health_backoff now cid modes ttl m =
     is_some_and (\<lambda>b. in_backoff now modes ttl (cb_health b)) (map_of m cid)"

text \<open>\<open>str::split_once\<close>, of which only the first half is read.\<close>

definition before_slash :: "string \<Rightarrow> string option" where
  "before_slash s = (if CHR ''/'' \<in> set s then Some (takeWhile (\<lambda>c. c \<noteq> CHR ''/'') s) else None)"

definition provider_in_health_backoff :: "f64 \<Rightarrow> string \<Rightarrow> string list \<Rightarrow> f64 \<Rightarrow> candidate_metrics \<Rightarrow> bool" where
  "provider_in_health_backoff now provider0 modes ttl m =
     (let provider = trim provider0
      in provider \<noteq> []
         \<and> (\<exists>(cid, b)\<in>set m.
              (is_some_and (\<lambda>item. eq_ignore_ascii_case item provider) (cb_provider b)
               \<or> is_some_and (\<lambda>item. eq_ignore_ascii_case item provider) (before_slash cid))
              \<and> in_backoff now modes ttl (cb_health b)))"

definition provider_in_quota_backoff :: "f64 \<Rightarrow> string \<Rightarrow> f64 \<Rightarrow> candidate_metrics \<Rightarrow> bool" where
  "provider_in_quota_backoff now provider ttl m = provider_in_health_backoff now provider [''quota''] ttl m"

section \<open>What routing reads\<close>

definition round_to :: "f64 \<Rightarrow> f64" where
  "round_to x = f_div (f_round (f_mul x (Fin 1000000))) (Fin 1000000)"

definition used :: "stats_bucket option \<Rightarrow> stats_bucket option" where
  "used s = option_filter (\<lambda>b. 0 < sb_total b) s"

text \<open>The bucket of the request profile, else that of its workflow and role, else that of the candidate.\<close>

definition profile_stats :: "string \<Rightarrow> string \<Rightarrow> candidate_bucket \<Rightarrow> stats_bucket" where
  "profile_stats role_key legacy b =
     unwrap_or (cb_stats b)
       (used (option_or (used (map_of (cb_roles b) role_key)) (map_of (cb_roles b) legacy)))"

definition score_of_stats :: "stats_bucket \<Rightarrow> f64" where
  "score_of_stats s =
     (if sb_total s = 0 then Fin 0
      else let success_rate = f_div (f_of_nat (sb_successes s)) (f_of_nat (sb_total s));
               latency_bonus = (case la_ewma_ms (sb_successful s) of
                   None \<Rightarrow> Fin 0
                 | Some latency \<Rightarrow> f_clamp (f_div (f_sub (Fin 1500) latency) (Fin 3000)) (f_neg (lit (35 / 100))) (lit (35 / 100)));
               range_penalty = (case (la_max_ms (sb_successful s), la_min_ms (sb_successful s)) of
                   (Some mx, Some mn) \<Rightarrow> f_clamp (f_div (f_of_nat (mx - mn)) (Fin 20000)) (Fin 0) (Fin (1 / 4))
                 | _ \<Rightarrow> Fin 0);
               queue_wait_penalty = (case la_ewma_ms (sb_queue_wait s) of
                   None \<Rightarrow> Fin 0 | Some q \<Rightarrow> f_clamp (f_div q (Fin 1600)) (Fin 0) (lit (45 / 100)));
               inference_penalty = (case sb_ewma_inference_ms s of
                   None \<Rightarrow> Fin 0 | Some i \<Rightarrow> f_clamp (f_div i (Fin 8000)) (Fin 0) (lit (45 / 100)));
               token_pressure_penalty = (case sb_ewma_tokens_estimate s of
                   None \<Rightarrow> Fin 0
                 | Some tokens \<Rightarrow> f_clamp (f_div (f_max (f_sub tokens (Fin 1200)) (Fin 0)) (Fin 8000)) (Fin 0) (lit (2 / 10)))
           in round_to (f_sub (f_sub (f_sub (f_sub (f_add (f_add (f_sub success_rate (Fin (1 / 2))) (sb_ewma_quality s))
                latency_bonus) queue_wait_penalty) inference_penalty) token_pressure_penalty) range_penalty))"

definition score_bonus_for_context ::
  "string \<Rightarrow> string \<Rightarrow> string \<Rightarrow> string \<Rightarrow> string \<Rightarrow> string option \<Rightarrow> candidate_metrics \<Rightarrow> f64" where
  "score_bonus_for_context cid source request_profile workflow role request_category m =
     (case map_of m cid of
        None \<Rightarrow> Fin 0
      | Some b \<Rightarrow> score_of_stats (profile_stats
          (routing_profile_key source request_profile workflow role request_category) (legacy_key workflow role) b))"

definition score_bonus :: "string \<Rightarrow> string \<Rightarrow> string \<Rightarrow> candidate_metrics \<Rightarrow> f64" where
  "score_bonus cid workflow role m =
     score_bonus_for_context cid ''unknown'' ''unclassified'' workflow role None m"

definition generation_tokens_per_second_for_context ::
  "string \<Rightarrow> string \<Rightarrow> string \<Rightarrow> string \<Rightarrow> string \<Rightarrow> string option \<Rightarrow> candidate_metrics \<Rightarrow> f64 option" where
  "generation_tokens_per_second_for_context cid source request_profile workflow role request_category m =
     (case map_of m cid of
        None \<Rightarrow> None
      | Some b \<Rightarrow>
          let stats = option_or (map_of (cb_roles b)
                (routing_profile_key source request_profile workflow role request_category))
                (map_of (cb_roles b) (legacy_key workflow role))
          in option_or (case stats of None \<Rightarrow> None | Some v \<Rightarrow> th_ewma (sb_throughput v))
               (th_ewma (sb_throughput (cb_stats b))))"

record capacity_estimate =
  ce_samples :: nat
  ce_success_rate :: f64
  ce_quality :: f64
  ce_useful_rate :: f64
  ce_generation_tokens_per_second :: "f64 option"
  ce_service_time_ms :: "f64 option"
  ce_queue_wait_ms :: "f64 option"
  ce_completion_tokens :: "f64 option"

definition no_capacity :: capacity_estimate where
  "no_capacity = \<lparr>ce_samples = 0, ce_success_rate = Fin 0, ce_quality = Fin 0, ce_useful_rate = Fin 0,
     ce_generation_tokens_per_second = None, ce_service_time_ms = None, ce_queue_wait_ms = None,
     ce_completion_tokens = None\<rparr>"

definition finite_positive :: "f64 \<Rightarrow> bool" where
  "finite_positive v \<longleftrightarrow> is_finite v \<and> f_lt (Fin 0) v"

definition performance_stats :: "stats_bucket \<Rightarrow> stats_bucket \<Rightarrow> stats_bucket" where
  "performance_stats stats candidate_wide =
     (if sb_successes stats = 0 \<and> 0 < sb_successes candidate_wide then candidate_wide else stats)"

definition service_time :: "f64 option \<Rightarrow> f64 option \<Rightarrow> f64 option \<Rightarrow> nat \<Rightarrow> f64 option" where
  "service_time service_base_ms tokens_per_second completion_tokens requested_output_tokens0 =
     (let requested_output_tokens = f_of_nat (max requested_output_tokens0 1)
      in case (service_base_ms, tokens_per_second) of
        (Some base, Some rate) \<Rightarrow>
          let generated_ms = f_div (f_mul requested_output_tokens (Fin 1000)) rate;
              historical_generated_ms = (case completion_tokens of
                  None \<Rightarrow> Fin 0 | Some tokens \<Rightarrow> f_div (f_mul tokens (Fin 1000)) rate)
          in Some (f_add (f_max (f_sub base historical_generated_ms) (Fin 0)) generated_ms)
      | (None, Some rate) \<Rightarrow> Some (f_div (f_mul requested_output_tokens (Fin 1000)) rate)
      | (Some base, None) \<Rightarrow> Some (f_max base (Fin 1))
      | (None, None) \<Rightarrow> None)"

definition capacity_of_stats :: "stats_bucket \<Rightarrow> stats_bucket \<Rightarrow> nat \<Rightarrow> capacity_estimate" where
  "capacity_of_stats stats candidate_wide requested_output_tokens =
     (let perf = performance_stats stats candidate_wide;
          samples = sb_total stats;
          success_rate = (if samples = 0 then Fin (3 / 4) else f_div (f_of_nat (sb_successes stats)) (f_of_nat samples));
          quality = (if samples = 0 then lit (7 / 10) else sb_ewma_quality stats);
          quality_factor = f_clamp (f_div (f_add quality (Fin 1)) (Fin 2)) (lit (1 / 10)) (Fin 1);
          queue_wait_ms = option_filter is_finite (la_ewma_ms (sb_queue_wait perf));
          inference_ms = option_filter is_finite (sb_ewma_inference_ms perf);
          observed_latency_ms = option_filter is_finite
            (option_or (la_ewma_ms (sb_successful perf)) (sb_ewma_latency_ms perf));
          service_base_ms = option_or inference_ms
            (map_option (\<lambda>latency. f_max (f_sub latency (unwrap_or (Fin 0) queue_wait_ms)) (Fin 0)) observed_latency_ms);
          tokens_per_second = option_filter finite_positive (th_ewma (sb_throughput perf));
          completion_tokens = option_filter finite_positive (sb_ewma_completion_tokens perf)
      in \<lparr>ce_samples = samples, ce_success_rate = success_rate, ce_quality = quality,
          ce_useful_rate = f_clamp (f_mul success_rate quality_factor) (Fin 0) (Fin 1),
          ce_generation_tokens_per_second = tokens_per_second,
          ce_service_time_ms = service_time service_base_ms tokens_per_second completion_tokens requested_output_tokens,
          ce_queue_wait_ms = queue_wait_ms, ce_completion_tokens = completion_tokens\<rparr>)"

definition candidate_capacity_estimate_for_context ::
  "string \<Rightarrow> string \<Rightarrow> string \<Rightarrow> string \<Rightarrow> string \<Rightarrow> string option \<Rightarrow> nat \<Rightarrow> candidate_metrics
   \<Rightarrow> capacity_estimate" where
  "candidate_capacity_estimate_for_context cid source request_profile workflow role request_category
      requested_output_tokens m =
     (case map_of m cid of
        None \<Rightarrow> no_capacity
      | Some b \<Rightarrow> capacity_of_stats (profile_stats
          (routing_profile_key source request_profile workflow role request_category) (legacy_key workflow role) b)
          (cb_stats b) requested_output_tokens)"

text \<open>\<open>exp\<close> and \<open>ln_1p\<close> of the standard library are arguments.\<close>

definition recent_usage_penalty ::
  "(f64 \<Rightarrow> f64) \<Rightarrow> (f64 \<Rightarrow> f64) \<Rightarrow> f64 \<Rightarrow> string \<Rightarrow> string \<Rightarrow> string \<Rightarrow> f64 \<Rightarrow> candidate_metrics \<Rightarrow> f64" where
  "recent_usage_penalty exp_fn ln_1p_fn now cid workflow role decay_seconds0 m =
     (let decay_seconds = f_max decay_seconds0 (Fin 30)
      in case map_of m cid of
        None \<Rightarrow> Fin 0
      | Some b \<Rightarrow>
          let stats = unwrap_or (cb_stats b) (map_of (cb_roles b) (legacy_key workflow role));
              updated_at = unwrap_or (Fin 0) (sb_updated_at stats);
              age_seconds = f_max (f_sub now updated_at) (Fin 0)
          in if sb_total stats = 0 \<or> f_le updated_at (Fin 0)
                \<or> f_lt (f_mul decay_seconds (Fin 8)) age_seconds
             then Fin 0
             else round_to (f_mul
               (f_clamp (f_div (ln_1p_fn (f_of_nat (sb_total stats))) (Fin 6)) (Fin 0) (Fin (3 / 2)))
               (exp_fn (f_neg (f_div age_seconds decay_seconds)))))"

section \<open>Histories\<close>

text \<open>What happens to the store of a process: results of attempts and health probes.\<close>

record attempt_result =
  at_now :: f64
  at_summary :: candidate_summary
  at_source :: string
  at_request_profile :: string
  at_workflow :: string
  at_role :: string
  at_request_category :: "string option"
  at_success :: bool
  at_latency_ms :: "nat option"
  at_telemetry :: "local_usage_telemetry option"
  at_quality :: f64
  at_error :: "string option"

datatype metric_event = Attempt attempt_result | Probed f64 candidate_summary health_bucket

fun metric_step :: "metric_event \<Rightarrow> candidate_metrics \<Rightarrow> candidate_metrics" where
  "metric_step (Attempt r) m =
     record_result_with_context (at_now r) (at_summary r) (at_source r) (at_request_profile r) (at_workflow r)
       (at_role r) (at_request_category r) (at_success r) (at_latency_ms r) (at_telemetry r) (at_quality r)
       (at_error r) m"
| "metric_step (Probed now s health) m = record_health now s health m"

definition metrics_after :: "metric_event list \<Rightarrow> candidate_metrics" where
  "metrics_after es = fold metric_step es []"

definition attempt_key :: "attempt_result \<Rightarrow> string" where
  "attempt_key r = routing_profile_key (at_source r) (at_request_profile r) (at_workflow r) (at_role r)
     (at_request_category r)"

text \<open>The attempts on a candidate, and those of one request profile.\<close>

fun attempts_on :: "string \<Rightarrow> metric_event \<Rightarrow> attempt_result list" where
  "attempts_on cid (Attempt r) = (if cs_candidate_id (at_summary r) = cid then [r] else [])"
| "attempts_on cid (Probed now s health) = []"

definition attempts :: "string \<Rightarrow> metric_event list \<Rightarrow> attempt_result list" where
  "attempts cid es = concat (map (attempts_on cid) es)"

definition profile_attempts :: "string \<Rightarrow> string \<Rightarrow> metric_event list \<Rightarrow> attempt_result list" where
  "profile_attempts cid key es = filter (\<lambda>r. attempt_key r = key) (attempts cid es)"

lemma attempts_simps [simp]:
  "attempts cid [] = []" "attempts cid (es @ [e]) = attempts cid es @ attempts_on cid e"
  "profile_attempts cid key [] = []"
  "profile_attempts cid key (es @ [e]) = profile_attempts cid key es @ filter (\<lambda>r. attempt_key r = key) (attempts_on cid e)"
  by (simp_all add: attempts_def profile_attempts_def)

lemma metrics_after_snoc [simp]:
  "metrics_after [] = []" "metrics_after (es @ [e]) = metric_step e (metrics_after es)"
  by (simp_all add: metrics_after_def)

lemma sum_attempts: "length (attempts cid es) \<le> length es"
proof (induction es rule: rev_induct)
  case (snoc e es)
  then show ?case by (cases e) auto
qed simp

section \<open>Counts\<close>

text \<open>A bucket counts a list of attempts: its failures are those that a later probe has not forgiven.\<close>

definition counts :: "stats_bucket \<Rightarrow> attempt_result list \<Rightarrow> bool" where
  "counts b rs \<longleftrightarrow>
     sb_successes b = length (filter at_success rs)
     \<and> sb_failures b + sb_stale_failures b = length (filter (\<lambda>r. \<not> at_success r) rs)
     \<and> sb_total b = sb_successes b + sb_failures b"

lemma counts_none: "counts no_stats []"
  by (simp add: counts_def no_stats_def)

lemma merge_frames [simp]:
  "sb_successes (merge_some (merge_latency success) ms b) = sb_successes b"
  "sb_failures (merge_some (merge_latency success) ms b) = sb_failures b"
  "sb_total (merge_some (merge_latency success) ms b) = sb_total b"
  "sb_stale_failures (merge_some (merge_latency success) ms b) = sb_stale_failures b"
  "sb_successes (merge_some (merge_telemetry success ms) t b) = sb_successes b"
  "sb_failures (merge_some (merge_telemetry success ms) t b) = sb_failures b"
  "sb_total (merge_some (merge_telemetry success ms) t b) = sb_total b"
  "sb_stale_failures (merge_some (merge_telemetry success ms) t b) = sb_stale_failures b"
  by (auto simp: merge_some_def merge_latency_def merge_telemetry_def Let_def split: option.splits)

lemma counts_merge:
  assumes "counts b rs" "at_success r = success"
  shows "counts (merge_stats now success ms t q err b) (rs @ [r])"
  using assms by (auto simp: counts_def merge_stats_def Let_def)

lemma counts_decay:
  assumes "counts b rs" "length rs \<le> u64_max"
  shows "counts (decay_stale_model_failures b) rs"
proof -
  have "length (filter (\<lambda>r. \<not> at_success r) rs) \<le> u64_max"
    using assms(2) length_filter_le order_trans by blast
  then show ?thesis
    using assms(1)
    by (auto simp: counts_def decay_stale_model_failures_def u64_sat_add_def split: option.splits)
qed

definition profile_bucket :: "candidate_bucket \<Rightarrow> string \<Rightarrow> stats_bucket" where
  "profile_bucket b key = unwrap_or no_stats (map_of (cb_roles b) key)"

lemma bucket_entry_insert: "bucket_entry cid (bt_insert k b m) = (if cid = k then b else bucket_entry cid m)"
  by (simp add: bucket_entry_def unwrap_or_def)

lemma describe_fields [simp]:
  "cb_stats (describe s b) = cb_stats b" "cb_roles (describe s b) = cb_roles b" "cb_health (describe s b) = cb_health b"
  by (simp_all add: describe_def)

lemma profile_bucket_insert:
  "cb_roles b' = bt_insert k v (cb_roles b) \<Longrightarrow> profile_bucket b' key = (if key = k then v else profile_bucket b key)"
  by (simp add: profile_bucket_def unwrap_or_def)

lemma decay_none [simp]: "decay_stale_model_failures no_stats = no_stats"
  by (simp add: decay_stale_model_failures_def no_stats_def)

lemma map_of_map_value: "map_of (map (\<lambda>(k, v). (k, f v)) m) key = map_option f (map_of m key)"
  by (induction m) auto

lemma every_bucket_counts:
  assumes "length es \<le> u64_max"
  shows "counts (cb_stats (bucket_entry cid (metrics_after es))) (attempts cid es)
    \<and> counts (profile_bucket (bucket_entry cid (metrics_after es)) key) (profile_attempts cid key es)"
  using assms
proof (induction es rule: rev_induct)
  case Nil
  then show ?case
    by (simp add: bucket_entry_def unwrap_or_def no_bucket_def profile_bucket_def counts_none)
next
  case (snoc e es)
  then have IH: "counts (cb_stats (bucket_entry cid (metrics_after es))) (attempts cid es)"
    "counts (profile_bucket (bucket_entry cid (metrics_after es)) key) (profile_attempts cid key es)"
    by auto
  have small: "length (attempts cid es) \<le> u64_max" "length (profile_attempts cid key es) \<le> u64_max"
    using snoc.prems sum_attempts [of cid es] by (auto simp: profile_attempts_def intro: order_trans [OF length_filter_le])
  show ?case
  proof (cases e)
    case (Attempt r)
    then show ?thesis
      using IH
      by (simp add: record_result_with_context_def Let_def bucket_entry_insert profile_bucket_def
          unwrap_or_def counts_merge attempt_key_def [symmetric])
  next
    case (Probed now s health)
    then show ?thesis
      using IH counts_decay [OF IH(1) small(1)] counts_decay [OF IH(2) small(2)]
      by (auto simp: record_health_def Let_def bucket_entry_insert profile_bucket_def unwrap_or_def map_of_map_value
          split: option.splits)
  qed
qed

text \<open>C17: Every attempt is counted once. After any history of attempts and probes, the statistics of a candidate,
  and those of each of its request profiles, have exactly the successes of its attempts, and its failures are
  those of its attempts less the ones a successful probe has forgiven; the total is their sum.\<close>

theorem every_attempt_is_counted:
  assumes "length es \<le> u64_max"
    and "b = cb_stats (bucket_entry cid (metrics_after es)) \<and> rs = attempts cid es
      \<or> b = profile_bucket (bucket_entry cid (metrics_after es)) key \<and> rs = profile_attempts cid key es"
  shows "sb_successes b = length (filter at_success rs)
    \<and> sb_failures b + sb_stale_failures b = length (filter (\<lambda>r. \<not> at_success r) rs)
    \<and> sb_total b = sb_successes b + sb_failures b"
  using every_bucket_counts [OF assms(1), of cid key] assms(2) by (auto simp: counts_def)

section \<open>The usage penalty\<close>

definition no_colon :: "string \<Rightarrow> bool" where
  "no_colon s \<longleftrightarrow> CHR '':'' \<notin> set s"

lemma ascii_lower_colon: "ascii_lower c = CHR '':'' \<Longrightarrow> c = CHR '':''"
proof (cases "65 \<le> code_point c \<and> code_point c \<le> 90")
  case True
  assume "ascii_lower c = CHR '':''"
  then have "of_char (char_of (code_point c + 32) :: char) = (of_char CHR '':'' :: nat)"
    using True by (simp add: ascii_lower_def Let_def)
  then show ?thesis using True by (simp add: code_point_def)
qed (simp add: ascii_lower_def Let_def)

lemma profile_char_colon: "profile_char c \<noteq> CHR '':''"
  using ascii_lower_colon [of c] by (auto simp: profile_char_def is_ascii_alphanumeric_def code_point_def Let_def)

lemma clean_no_colon: "no_colon (clean value)"
proof -
  have "c \<in> profile_char ` set (trim value)" if "c \<in> set (clean value)" for c
    using that by (auto simp: clean_def trim_end_by_def dest!: in_set_takeD set_dropWhileD)
  then show ?thesis using profile_char_colon unfolding no_colon_def by (metis imageE)
qed

lemma routing_profile_key_no_colon: "no_colon (routing_profile_key source request_profile workflow role category)"
  using clean_no_colon by (auto simp: routing_profile_key_def no_colon_def)

lemma bt_insert_keys: "(k', v') \<in> set (bt_insert k v m) \<Longrightarrow> k' = k \<or> k' \<in> fst ` set m"
  using set_fst_bt_insert [of k v m] by (metis fst_conv image_eqI insert_iff)

lemma role_keys:
  "\<forall>key\<in>fst ` set (cb_roles (bucket_entry cid (metrics_after es))). no_colon key"
proof (induction es arbitrary: cid rule: rev_induct)
  case Nil
  then show ?case by (simp add: bucket_entry_def unwrap_or_def no_bucket_def)
next
  case (snoc e es)
  show ?case
  proof (cases e)
    case (Attempt r)
    then show ?thesis
      using snoc.IH by (auto simp: record_result_with_context_def Let_def bucket_entry_insert
          routing_profile_key_no_colon dest!: bt_insert_keys) fastforce
  next
    case (Probed now s health)
    then show ?thesis
      using snoc.IH by (auto simp: record_health_def Let_def bucket_entry_insert image_image case_prod_beta)
  qed
qed

text \<open>The usage penalty does not see the role it is asked for. Results are stored under the key of a request
  profile, and the penalty looks for the older key of workflow and role, which no result ever has: after any
  history of a process it is the same for every workflow and role.\<close>

theorem usage_penalty_ignores_the_role:
  "recent_usage_penalty exp_fn ln_1p_fn now cid workflow role decay (metrics_after es)
     = recent_usage_penalty exp_fn ln_1p_fn now cid workflow' role' decay (metrics_after es)"
proof -
  have "map_of (cb_roles b) (legacy_key w r) = None" if "map_of (metrics_after es) cid = Some b" for b w r
  proof (rule ccontr)
    assume "map_of (cb_roles b) (legacy_key w r) \<noteq> None"
    then have "no_colon (legacy_key w r)"
      using role_keys [of cid es] that
      by (metis bucket_entry_def unwrap_or_def map_of_eq_None_iff option.simps(5))
    then show False by (simp add: legacy_key_def no_colon_def)
  qed
  then show ?thesis by (simp add: recent_usage_penalty_def Let_def split: option.splits)
qed

section \<open>Ranges\<close>

lemma f_of_nat_range:
  assumes "n \<le> u64_max"
  shows "\<exists>x. f_of_nat n = Fin x \<and> 0 \<le> x \<and> (1 \<le> n \<longrightarrow> 1 \<le> x)"
proof -
  have top: "rnd (2 ^ 64) = Fin (2 ^ 64)"
    by (rule rnd_exact [where m = 1 and e = 64]) (simp_all add: pow2_of_nat [of 64, simplified] pow2_of_nat [of 1024, simplified])
  have "(of_nat n :: rat) \<le> of_nat u64_max"
    using assms by (simp only: of_nat_le_iff)
  then have "(of_nat n :: rat) \<le> 2 ^ 64" by (simp add: u64_max_def)
  from rnd_mono [OF this] have "f_of_nat n \<le> Fin (2 ^ 64)" unfolding f_of_nat_def top .
  moreover have "Fin 0 \<le> f_of_nat n" using rnd_nonneg [of "of_nat n"] by (simp add: f_of_nat_def)
  moreover have "Fin 1 \<le> f_of_nat n" if "1 \<le> n"
    using rnd_mono [of 1 "of_nat n"] rnd_of_int [of 1] that by (simp add: f_of_nat_def)
  ultimately show ?thesis by (cases "f_of_nat n") (auto simp: less_eq_f64_def)
qed

lemma success_rate_range:
  assumes "s \<le> t" "t \<le> u64_max" "0 < t"
  shows "in_range 0 1 (f_div (f_of_nat s) (f_of_nat t))"
proof -
  obtain x where x: "f_of_nat s = Fin x" "0 \<le> x" using f_of_nat_range [of s] assms by auto
  obtain y where y: "f_of_nat t = Fin y" "1 \<le> y" using f_of_nat_range [of t] assms by auto
  have "x \<le> y" using rnd_mono [of "of_nat s" "of_nat t"] x y assms by (simp add: f_of_nat_def)
  then show ?thesis using x y by (auto simp: f_div_def grid_def intro!: rnd_in_range)
qed

definition nonneg_opt :: "f64 option \<Rightarrow> bool" where
  "nonneg_opt x \<longleftrightarrow> (case x of None \<Rightarrow> True | Some v \<Rightarrow> nonneg v)"

lemma nonneg_opt_simps [simp]: "nonneg_opt None" "nonneg_opt (Some v) \<longleftrightarrow> nonneg v"
  by (simp_all add: nonneg_opt_def)

lemma nonneg_ewma: "nonneg_opt p \<Longrightarrow> nonneg v \<Longrightarrow> nonneg_opt (ewma p v)"
  by (cases p) (auto simp: ewma_def intro!: nonneg_add nonneg_scale)

text \<open>What a bucket keeps besides its counts: averages that are not negative, and a quality between -4 and 4.\<close>

definition stats_range :: "stats_bucket \<Rightarrow> bool" where
  "stats_range b \<longleftrightarrow>
     nonneg_opt (la_ewma_ms (sb_successful b)) \<and> nonneg_opt (la_ewma_ms (sb_queue_wait b))
     \<and> nonneg_opt (sb_ewma_latency_ms b)
     \<and> nonneg_opt (sb_ewma_inference_ms b) \<and> nonneg_opt (sb_ewma_tokens_estimate b)
     \<and> in_range (- 4) 4 (sb_ewma_quality b)"

lemma stats_range_none: "stats_range no_stats"
  by (simp add: stats_range_def no_stats_def no_latency_def)

lemma clamped_penalty:
  assumes "nonneg v" "0 < k" "in_range 0 c limit"
  shows "in_range 0 c (f_clamp (f_div v (Fin k)) (Fin 0) limit)"
proof -
  have "f_div v (Fin k) \<noteq> NaN" using nonneg_div [OF assms(1,2)] by auto
  then show ?thesis
    using assms(3) range_clamp_lit [where c = 0 and d = 0 and e = 0 and f = c] by (auto elim!: in_rangeE)
qed

lemma lit_limits:
  "in_range 0 (1 / 2) (lit (35 / 100))" "in_range (- 1 / 2) 0 (f_neg (lit (35 / 100)))"
  "in_range 0 (1 / 2) (lit (45 / 100))" "in_range 0 (1 / 4) (lit (2 / 10))"
proof -
  show a: "in_range 0 (1 / 2) (lit (35 / 100))" by (rule rnd_in_range) (simp_all add: grid_def)
  then show "in_range (- 1 / 2) 0 (f_neg (lit (35 / 100)))" by (auto elim!: in_rangeE simp: f_neg_def)
  show "in_range 0 (1 / 2) (lit (45 / 100))" "in_range 0 (1 / 4) (lit (2 / 10))"
    by (rule rnd_in_range; simp add: grid_def)+
qed

lemma latency_bonus_range:
  assumes "nonneg latency"
  shows "in_range (- 1 / 2) (1 / 2) (f_clamp (f_div (f_sub (Fin 1500) latency) (Fin 3000)) (f_neg (lit (35 / 100))) (lit (35 / 100)))"
proof -
  have "f_div (f_sub (Fin 1500) latency) (Fin 3000) \<noteq> NaN"
    using assms by (cases "f_sub (Fin 1500) latency") (auto elim!: nonnegE simp: f_sub_def f_neg_def f_div_def f_inf_def rnd_not_nan)
  then show ?thesis
    using lit_limits(1,2) by (intro range_clamp_lit [where d = 0 and e = 0]) (auto elim!: in_rangeE)
qed

lemma round_to_range:
  assumes "in_range (- 13 / 2) 5 x"
  shows "in_range (- 13 / 2) 5 (round_to x)"
proof -
  have "in_range (- 13 / 2 * 1000000) (5 * 1000000) (f_mul x (Fin 1000000))"
    using assms by (rule range_scale) (simp_all add: grid_def)
  then have "in_range (of_int (- 6500000)) (of_int 5000000) (f_mul x (Fin 1000000))" by simp
  from range_round [OF this] have "in_range (- 6500000 / 1000000) (5000000 / 1000000) (round_to x)"
    unfolding round_to_def by (intro range_div) (simp_all add: grid_def)
  then show ?thesis by simp
qed

lemma range_of_option:
  "(\<And>v. x = Some v \<Longrightarrow> in_range a b (f v)) \<Longrightarrow> a \<le> 0 \<Longrightarrow> 0 \<le> b \<Longrightarrow> in_range a b (case x of None \<Rightarrow> Fin 0 | Some v \<Rightarrow> f v)"
  by (cases x) auto

lemma score_of_stats_range:
  assumes "stats_range b" "sb_successes b \<le> sb_total b" "sb_total b \<le> u64_max"
  shows "in_range (- 13 / 2) 5 (score_of_stats b)"
proof (cases "sb_total b = 0")
  case False
  define success where "success = f_div (f_of_nat (sb_successes b)) (f_of_nat (sb_total b))"
  define latency where "latency = (case la_ewma_ms (sb_successful b) of None \<Rightarrow> Fin 0
    | Some l \<Rightarrow> f_clamp (f_div (f_sub (Fin 1500) l) (Fin 3000)) (f_neg (lit (35 / 100))) (lit (35 / 100)))"
  define queue where "queue = (case la_ewma_ms (sb_queue_wait b) of None \<Rightarrow> Fin 0
    | Some q \<Rightarrow> f_clamp (f_div q (Fin 1600)) (Fin 0) (lit (45 / 100)))"
  define inference where "inference = (case sb_ewma_inference_ms b of None \<Rightarrow> Fin 0
    | Some i \<Rightarrow> f_clamp (f_div i (Fin 8000)) (Fin 0) (lit (45 / 100)))"
  define pressure where "pressure = (case sb_ewma_tokens_estimate b of None \<Rightarrow> Fin 0
    | Some t \<Rightarrow> f_clamp (f_div (f_max (f_sub t (Fin 1200)) (Fin 0)) (Fin 8000)) (Fin 0) (lit (2 / 10)))"
  define spread where "spread = (case (la_max_ms (sb_successful b), la_min_ms (sb_successful b)) of
      (Some mx, Some mn) \<Rightarrow> f_clamp (f_div (f_of_nat (mx - mn)) (Fin 20000)) (Fin 0) (Fin (1 / 4)) | _ \<Rightarrow> Fin 0)"
  have "in_range 0 1 success"
    using assms False by (simp add: success_def success_rate_range)
  then have s: "in_range (0 - 1 / 2) (1 - 1 / 2) (f_sub success (Fin (1 / 2)))"
    by (rule range_sub) (simp_all add: grid_def)
  have q: "in_range (- 4) 4 (sb_ewma_quality b)"
    using assms(1) by (simp add: stats_range_def)
  have l: "in_range (- 1 / 2) (1 / 2) latency"
    using assms(1) unfolding latency_def by (intro range_of_option latency_bonus_range) (auto simp: stats_range_def)
  have w: "in_range 0 (1 / 2) queue" "in_range 0 (1 / 2) inference"
    using assms(1) lit_limits(3) unfolding queue_def inference_def
    by (auto intro!: range_of_option clamped_penalty simp: stats_range_def)
  have "nonneg (f_max (f_sub t (Fin 1200)) (Fin 0))" for t
    using f_max_nonneg by (simp add: nonneg_def)
  then have p: "in_range 0 (1 / 4) pressure"
    using lit_limits(4) unfolding pressure_def by (auto intro!: range_of_option clamped_penalty)
  have d: "in_range 0 (1 / 4) spread"
    unfolding spread_def by (auto intro!: clamped_penalty nonneg_of_nat split: option.splits)
  note a = range_add [OF range_add [OF s q] l]
  note b = range_sub [OF range_sub [OF range_sub [OF range_sub [OF a w(1)] w(2)] p] d]
  have "in_range (- 13 / 2) 5 (f_sub (f_sub (f_sub (f_sub (f_add (f_add (f_sub success (Fin (1 / 2))) (sb_ewma_quality b))
      latency) queue) inference) pressure) spread)"
    by (rule range_mono [OF b]) (simp_all add: grid_def)
  from round_to_range [OF this] show ?thesis
    using False by (simp add: score_of_stats_def Let_def success_def latency_def queue_def inference_def pressure_def spread_def)
qed (simp add: score_of_stats_def)

lemma quality_range:
  assumes "in_range (- 4) 4 old" "in_range (- 4) 4 new"
  shows "in_range (- 4) 4 (f_add (f_mul old (Fin (3 / 4))) (f_mul new (Fin (1 / 4))))"
proof -
  have a: "in_range (- 4 * (3 / 4)) (4 * (3 / 4)) (f_mul old (Fin (3 / 4)))"
    using assms(1) by (rule range_scale) (simp_all add: grid_def)
  have b: "in_range (- 4 * (1 / 4)) (4 * (1 / 4)) (f_mul new (Fin (1 / 4)))"
    using assms(2) by (rule range_scale) (simp_all add: grid_def)
  show ?thesis
    using range_add [OF a b] by (simp add: grid_def)
qed

lemma merge_latency_range:
  "stats_range b \<Longrightarrow> stats_range (merge_some (merge_latency success) ms b)"
  by (auto simp: merge_some_def merge_latency_def stats_range_def add_latency_def Let_def
      intro!: nonneg_ewma nonneg_of_nat split: option.splits)

lemma merge_telemetry_range:
  "stats_range b \<Longrightarrow> stats_range (merge_some (merge_telemetry success ms) t b)"
  by (auto simp: merge_some_def merge_telemetry_def stats_range_def add_latency_def Let_def
      intro!: nonneg_ewma nonneg_of_nat split: option.splits)

lemma merge_stats_range:
  assumes "stats_range b" "in_range (- 4) 4 quality"
  shows "stats_range (merge_stats now success ms t quality err b)"
proof -
  define b' where "b' = merge_some (merge_telemetry success ms) t (merge_some (merge_latency success) ms
    ((if success then b\<lparr>sb_successes := sb_successes b + 1\<rparr> else b\<lparr>sb_failures := sb_failures b + 1\<rparr>)
      \<lparr>sb_total := sb_successes (if success then b\<lparr>sb_successes := sb_successes b + 1\<rparr> else b\<lparr>sb_failures := sb_failures b + 1\<rparr>)
         + sb_failures (if success then b\<lparr>sb_successes := sb_successes b + 1\<rparr> else b\<lparr>sb_failures := sb_failures b + 1\<rparr>)\<rparr>))"
  have "stats_range b'"
    unfolding b'_def using assms(1)
    by (intro merge_telemetry_range merge_latency_range) (simp add: stats_range_def)
  then show ?thesis
    using quality_range assms(2)
    by (simp add: merge_stats_def Let_def b'_def [symmetric] stats_range_def)
qed

lemma decay_range: "stats_range b \<Longrightarrow> stats_range (decay_stale_model_failures b)"
  by (simp add: decay_stale_model_failures_def stats_range_def split: option.splits)

lemma quality_score_range: "in_range (- 4) 4 (quality_score parse_json text json)"
proof -
  have base: "in_range (1 / 2) (3 / 4) (lit (6 / 10))" "in_range (1 / 4) (1 / 2) (lit (35 / 100))" "in_range 0 (1 / 2) (lit (4 / 10))"
    by (rule rnd_in_range; simp add: grid_def)+
  have "in_range (1 / 2) (5 / 4) (if 40 \<le> utf8_len (trim text) then f_add (lit (6 / 10)) (lit (35 / 100)) else lit (6 / 10))"
    (is "in_range _ _ ?score")
    using range_mono [OF range_add [OF base(1,2)], of "1 / 2" "5 / 4"] range_mono [OF base(1), of "1 / 2" "5 / 4"]
    by (simp add: grid_def)
  moreover have "in_range (- 2) (5 / 2) bonus" if "json_bonus parsed = Some bonus" for parsed bonus
  proof -
    have "in_range (- 2) (5 / 2) (lit (245 / 100))" "in_range (- 2) (5 / 2) (lit (235 / 100))" "in_range (- 2) (5 / 2) (lit (22 / 10))"
      by (rule rnd_in_range; simp add: grid_def)+
    then show ?thesis
      using that by (auto simp: json_bonus_def split: option.splits json.splits if_splits)
  qed
  ultimately have sum: "in_range (- 3 / 2) (15 / 4) (f_add ?score bonus)" if "json_bonus parsed = Some bonus" for parsed bonus
    using range_mono [OF range_add, of "1 / 2" "5 / 4" ?score "- 2" "5 / 2" bonus "- 3 / 2" "15 / 4"] that
    by (simp add: grid_def)
  have fenced: "in_range (- 2) (15 / 4) (f_sub (f_add ?score bonus) (lit (4 / 10)))" if "json_bonus parsed = Some bonus" for parsed bonus
    using range_mono [OF range_sub [OF sum [OF that] base(3)], of "- 2" "15 / 4"] by (simp add: grid_def)
  have plain: "in_range (- 4) 4 ?score"
    using \<open>in_range (1 / 2) (5 / 4) ?score\<close> by (rule range_mono) simp_all
  show ?thesis
    using plain range_mono [OF sum, of _ _ "- 4" 4] range_mono [OF fenced, of _ _ "- 4" 4]
    by (auto simp: quality_score_def Let_def split: option.splits)
qed

text \<open>The qualities that the orchestration records: that of an answer, or -1 for a failure.\<close>

definition recorded_quality :: "f64 \<Rightarrow> bool" where
  "recorded_quality q \<longleftrightarrow> q = Fin (- 1) \<or> (\<exists>parse_json text json. q = quality_score parse_json text json)"

definition recorded :: "metric_event list \<Rightarrow> bool" where
  "recorded es \<longleftrightarrow> (\<forall>r. Attempt r \<in> set es \<longrightarrow> recorded_quality (at_quality r))"

lemma recorded_range: "recorded_quality q \<Longrightarrow> in_range (- 4) 4 q"
  using quality_score_range by (auto simp: recorded_quality_def)

lemma buckets_range:
  assumes "recorded es"
  shows "stats_range (cb_stats (bucket_entry cid (metrics_after es)))
    \<and> stats_range (profile_bucket (bucket_entry cid (metrics_after es)) key)"
  using assms
proof (induction es rule: rev_induct)
  case Nil
  then show ?case
    by (simp add: bucket_entry_def unwrap_or_def no_bucket_def profile_bucket_def stats_range_none)
next
  case (snoc e es)
  then have IH: "stats_range (cb_stats (bucket_entry cid (metrics_after es)))"
    "stats_range (profile_bucket (bucket_entry cid (metrics_after es)) key)"
    by (auto simp: recorded_def)
  show ?case
  proof (cases e)
    case (Attempt r)
    then have "in_range (- 4) 4 (at_quality r)"
      using snoc.prems recorded_range by (auto simp: recorded_def)
    then show ?thesis
      using IH Attempt
      by (auto simp: record_result_with_context_def Let_def bucket_entry_insert profile_bucket_def
          unwrap_or_def intro!: merge_stats_range)
  next
    case (Probed now s health)
    then show ?thesis
      using IH decay_range [OF IH(1)] decay_range [OF IH(2)]
      by (auto simp: record_health_def Let_def bucket_entry_insert profile_bucket_def unwrap_or_def map_of_map_value
          split: option.splits)
  qed
qed

lemma profile_stats_cases:
  "profile_stats key legacy b = cb_stats b \<or> (\<exists>k. map_of (cb_roles b) k = Some (profile_stats key legacy b))"
  by (auto simp: profile_stats_def used_def option_filter_def option_or_def unwrap_or_def split: option.splits if_splits)

lemma profile_stats_ok:
  assumes "recorded es" "length es \<le> u64_max"
  shows "stats_range (profile_stats key legacy (bucket_entry cid (metrics_after es)))
    \<and> sb_successes (profile_stats key legacy (bucket_entry cid (metrics_after es)))
        \<le> sb_total (profile_stats key legacy (bucket_entry cid (metrics_after es)))
    \<and> sb_total (profile_stats key legacy (bucket_entry cid (metrics_after es))) \<le> u64_max"
proof -
  have total: "sb_total s \<le> u64_max" "sb_successes s \<le> sb_total s" if "counts s rs" "length rs \<le> u64_max" for s rs
    using that sum_length_filter_compl [of at_success rs] by (auto simp: counts_def)
  have "length (attempts cid es) \<le> u64_max" "length (profile_attempts cid k es) \<le> u64_max" for k
    using assms(2) sum_attempts [of cid es] by (auto simp: profile_attempts_def intro: order_trans [OF length_filter_le])
  then show ?thesis
    using profile_stats_cases [of key legacy "bucket_entry cid (metrics_after es)"]
      every_bucket_counts [OF assms(2), of cid] buckets_range [OF assms(1), of cid] total
    by (auto simp: profile_bucket_def unwrap_or_def) (metis option.simps(5))+
qed

text \<open>History moves a score only so far. After any history of attempts with the qualities that the orchestration
  records, and of probes, the bonus that the metrics add to the score of a candidate, whatever it is asked for,
  is a number between -6.5 and 5: latencies and waits of any size cannot push it further.\<close>

theorem score_bonus_is_bounded:
  assumes "recorded es" "length es \<le> u64_max"
  shows "in_range (- 13 / 2) 5 (score_bonus_for_context cid source profile workflow role category (metrics_after es))"
proof (cases "map_of (metrics_after es) cid")
  case (Some b)
  then have "bucket_entry cid (metrics_after es) = b" by (simp add: bucket_entry_def unwrap_or_def)
  moreover have "in_range (- 13 / 2) 5 (score_of_stats (profile_stats key legacy (bucket_entry cid (metrics_after es))))"
    for key legacy
    using profile_stats_ok [OF assms, of key legacy cid] score_of_stats_range by blast
  ultimately show ?thesis using Some by (simp add: score_bonus_for_context_def)
qed (simp add: score_bonus_for_context_def)

section \<open>Departures\<close>

text \<open>
  A probe that finds a model again forgives every failure of the bucket, not only those of the missing model:
  nine timeouts and a missing model leave no failure behind.
\<close>

definition failed_attempt :: "string \<Rightarrow> stats_bucket \<Rightarrow> stats_bucket" where
  "failed_attempt error = merge_stats (Fin 1) False None None (Fin (- 1)) (Some error)"

lemma probe_forgives_every_failure:
  "sb_failures ((failed_attempt ''model not found: m'' \<circ> failed_attempt ''timed out'' ^^ 9) no_stats) = 10
   \<and> sb_failures (decay_stale_model_failures
       ((failed_attempt ''model not found: m'' \<circ> failed_attempt ''timed out'' ^^ 9) no_stats)) = 0"
proof -
  have failures: "sb_failures ((failed_attempt ''timed out'' ^^ n) b) = sb_failures b + n" for n b
    by (induction n) (auto simp: failed_attempt_def merge_stats_def merge_some_def Let_def)
  have "stale_model_error ''model not found: m''" by code_simp
  then show ?thesis
    using failures [of 9 no_stats]
    by (simp add: failed_attempt_def [of "''model not found: m''"] merge_stats_def merge_some_def Let_def
        decay_stale_model_failures_def no_stats_def)
qed

section \<open>A concrete history\<close>

definition probe_summary :: candidate_summary where
  "probe_summary = \<lparr>cs_candidate_id = ''ollama/m'', cs_provider = ''ollama'', cs_model = ''m'',
     cs_configured_model = ''m'', cs_resolved_model = ''m'', cs_source = ''config'', cs_host_id = None,
     cs_specialties = [], cs_roles = []\<rparr>"

definition sample_attempt :: attempt_result where
  "sample_attempt = \<lparr>at_now = Fin 1, at_summary = probe_summary, at_source = ''api'', at_request_profile = ''p'',
     at_workflow = ''w'', at_role = ''r'', at_request_category = None, at_success = False, at_latency_ms = None,
     at_telemetry = None, at_quality = Fin (- 1), at_error = Some ''timed out''\<rparr>"

lemma sample_attempts: "attempts ''ollama/m'' [Attempt sample_attempt] = [sample_attempt]" "\<not> at_success sample_attempt"
  by (simp_all add: attempts_def sample_attempt_def probe_summary_def)

theorem every_attempt_is_counted_witness:
  "sb_failures (cb_stats (bucket_entry ''ollama/m'' (metrics_after [Attempt sample_attempt])))
     + sb_stale_failures (cb_stats (bucket_entry ''ollama/m'' (metrics_after [Attempt sample_attempt]))) = 1"
proof -
  have small: "length [Attempt sample_attempt] \<le> u64_max" by (simp add: u64_max_def)
  have "cb_stats (bucket_entry ''ollama/m'' (metrics_after [Attempt sample_attempt]))
      = cb_stats (bucket_entry ''ollama/m'' (metrics_after [Attempt sample_attempt]))
    \<and> [sample_attempt] = attempts ''ollama/m'' [Attempt sample_attempt]"
    by (simp add: sample_attempts(1))
  from every_attempt_is_counted [OF small disjI1 [OF this]] show ?thesis
    by (simp only: filter.simps list.size sample_attempts(2) simp_thms if_True add_0_right One_nat_def)
qed

theorem score_bonus_is_bounded_witness:
  "in_range (- 13 / 2) 5 (score_bonus_for_context ''ollama/m'' ''api'' ''p'' ''w'' ''r'' None
     (metrics_after [Attempt sample_attempt]))"
  by (rule score_bonus_is_bounded) (simp_all add: recorded_def recorded_quality_def sample_attempt_def u64_max_def)

end
