(* ===== verification/Ranking.thy ===== *)
theory Ranking
  imports RoutingMetrics LoadTracking ElmGates ElmPolicies
begin

text \<open>
  The rank of a candidate (\<^verbatim>\<open>src/src/orchestration.rs\<close>): its health and the probe behind it, its score, the
  learned correction that the gates of the ELM let through, the failures that take a learned model back, and
  the estimates of the dispatch.

  The clock, the adapter of a provider, the signal of the NMC, the inference of a model and the logarithm
  are arguments.
\<close>

section \<open>Health\<close>

record provider_health =
  ph_ok :: bool
  ph_status_code :: "nat option"
  ph_latency_ms :: "nat option"
  ph_message :: "string option"
  ph_mode :: "string option"

definition ollama_saturation_backoff_seconds :: "environment \<Rightarrow> f64" where
  "ollama_saturation_backoff_seconds env =
     f_max (env_float_any env [''GAIL_OLLAMA_SATURATION_BACKOFF_SECONDS''] (Fin 20)) (Fin 1)"

definition ollama_transient_health_ttl_seconds :: "environment \<Rightarrow> f64" where
  "ollama_transient_health_ttl_seconds env =
     f_max (env_float_any env [''GAIL_OLLAMA_TRANSIENT_HEALTH_TTL_SECONDS''] (Fin 30)) (Fin 1)"

definition local_llamacpp_health_ttl_seconds :: "environment \<Rightarrow> f64" where
  "local_llamacpp_health_ttl_seconds env = f_max (env_float_any env [''GAIL_LOCAL_HEALTH_TTL_SECONDS''] (Fin 30)) (Fin 5)"

definition is_local_llamacpp_candidate :: "provider_candidate \<Rightarrow> bool" where
  "is_local_llamacpp_candidate c = starts_with (to_ascii_lowercase (pc_source c)) ''ansible_llamacpp''"

definition cached_health_ttl_seconds :: "environment \<Rightarrow> bool \<Rightarrow> bool \<Rightarrow> string option \<Rightarrow> f64 \<Rightarrow> f64" where
  "cached_health_ttl_seconds env is_ollama is_local_llamacpp mode0 default_ttl =
     (if is_local_llamacpp then local_llamacpp_health_ttl_seconds env
      else if \<not> is_ollama then default_ttl
      else case map_option (\<lambda>value. to_ascii_lowercase (trim value)) mode0 of
        None \<Rightarrow> default_ttl
      | Some mode \<Rightarrow>
          if mode = ''ollama_saturated'' then ollama_saturation_backoff_seconds env
          else if mode \<in> {''timeout'', ''upstream'', ''resource_saturated'', ''runtime_error'', ''error''}
          then ollama_transient_health_ttl_seconds env
          else default_ttl)"

text \<open>The adapter of a profile, or the error that it cannot be built; its probe answers or fails with a message.\<close>

type_synonym adapter_probe = "string + (string + provider_health)"

definition probe_health ::
  "environment \<Rightarrow> (string \<Rightarrow> parsed_url option) \<Rightarrow> f64 \<Rightarrow> f64 \<Rightarrow> adapter_probe \<Rightarrow> provider_candidate
   \<Rightarrow> candidate_metrics \<Rightarrow> provider_health \<times> candidate_metrics" where
  "probe_health env parse_url now default_ttl adapter c m =
     (let cid = candidate_id parse_url c;
          cached = health_snapshot cid m;
          ttl = cached_health_ttl_seconds env (is_ollama_candidate c) (is_local_llamacpp_candidate c)
                  (hb_mode cached) default_ttl
      in if \<not> should_probe now cid ttl m
         then (\<lparr>ph_ok = unwrap_or False (hb_ok cached), ph_status_code = None, ph_latency_ms = hb_latency_ms cached,
                ph_message = hb_message cached, ph_mode = hb_mode cached\<rparr>, m)
         else let failed = (\<lambda>message mode. \<lparr>ph_ok = False, ph_status_code = None, ph_latency_ms = None,
                    ph_message = Some message, ph_mode = Some mode\<rparr>);
                  health = (case adapter of
                      Inl error \<Rightarrow> failed error ''unconfigured''
                    | Inr (Inl error) \<Rightarrow> failed error ''error''
                    | Inr (Inr h) \<Rightarrow> h)
              in (health, record_health now (candidate_summary_of parse_url c None)
                    \<lparr>hb_ok = Some (ph_ok health), hb_mode = ph_mode health, hb_checked_at = None,
                     hb_latency_ms = ph_latency_ms health, hb_message = ph_message health\<rparr> m))"

definition ranked_health ::
  "environment \<Rightarrow> (string \<Rightarrow> parsed_url option) \<Rightarrow> f64 \<Rightarrow> f64 \<Rightarrow> adapter_probe \<Rightarrow> provider_candidate
   \<Rightarrow> candidate_metrics \<Rightarrow> provider_health \<times> candidate_metrics" where
  "ranked_health env parse_url now default_ttl adapter c m =
     (if is_ollama_candidate c
         \<and> candidate_in_health_backoff now (candidate_id parse_url c) [''ollama_saturated'']
             (ollama_saturation_backoff_seconds env) m
      then (\<lparr>ph_ok = False, ph_status_code = None, ph_latency_ms = None,
             ph_message = Some ''local Ollama is saturated; waiting before retry'',
             ph_mode = Some ''ollama_saturated''\<rparr>, m)
      else if candidate_uses_provider_family_backoff c
         \<and> provider_in_health_backoff now (pc_provider_type c) [''quota'', ''upstream'', ''timeout''] default_ttl m
      then (\<lparr>ph_ok = False, ph_status_code = None, ph_latency_ms = None,
             ph_message = Some ''provider family is in cached runtime backoff'',
             ph_mode = Some ''provider_backoff''\<rparr>, m)
      else probe_health env parse_url now default_ttl adapter c m)"

section \<open>The score\<close>

text \<open>What the NMC says of the host of a candidate, as far as the score reads it.\<close>

record nmc_view =
  nv_constrained :: bool
  nv_pressure_ratio :: f64

record rank_terms =
  rt_overlap :: f64
  rt_role_score :: f64
  rt_health_ok :: bool
  rt_health_mode :: "string option"
  rt_health_score :: f64
  rt_preferred_score :: f64
  rt_metrics_bonus :: f64
  rt_model_size_bonus :: f64
  rt_usage_penalty :: f64
  rt_resource_penalty :: f64
  rt_hard_limit_penalty :: f64
  rt_nmc_pressure_penalty :: f64
  rt_nmc_constrained :: bool
  rt_base_score :: f64

definition rank_terms_of ::
  "(f64 \<Rightarrow> f64) \<Rightarrow> provider_candidate \<Rightarrow> string \<Rightarrow> string set \<Rightarrow> provider_health \<Rightarrow> nmc_view option
   \<Rightarrow> load_snapshot \<Rightarrow> f64 \<Rightarrow> f64 \<Rightarrow> rank_terms" where
  "rank_terms_of ln_1p_fn c role task_tags health nmc load usage_penalty metrics_bonus =
     (let overlap = f_of_nat (card (task_tags \<inter> pc_specialties c));
          role_score = (if pc_roles c = {} then Fin 0 else if role \<in> pc_roles c then lit (6 / 10) else lit (- 9 / 10));
          nmc_constrained = is_some_and nv_constrained nmc;
          nmc_pressure_penalty = (case nmc of None \<Rightarrow> Fin 0
            | Some s \<Rightarrow> f_mul (f_clamp (nv_pressure_ratio s) (Fin 0) (Fin (5 / 2))) (lit (135 / 100)));
          nmc_hard_limit_penalty = (if nmc_constrained then lit (28 / 10) else Fin 0);
          resource_penalty = f_add (f_mul (ls_limit_ratio load) (lit (11 / 10)))
            (f_mul (f_clamp (ls_host_budget_ratio load) (Fin 0) (Fin 2)) (lit (12 / 10)));
          limited = (ls_limit_reached load \<or> ls_host_budget_reached load);
          hard_limit_penalty = (if limited then lit (24 / 10) else Fin 0);
          health_ok = (ph_ok health \<and> \<not> ls_limit_reached load \<and> \<not> ls_host_budget_reached load \<and> \<not> nmc_constrained);
          health_mode = (if nmc_constrained then Some ''nmc_constrained''
            else if \<not> health_ok \<and> ph_ok health then Some ''resource_saturated'' else ph_mode health);
          health_score = (if health_ok then lit (4 / 10) else lit (- 14 / 10));
          preferred_score = (if pc_preferred c then lit (7 / 10) else Fin 0);
          model_size_bonus = (case parse_model_size_billions (pc_configured_model c) of None \<Rightarrow> Fin 0
            | Some billions \<Rightarrow> f_mul (f_clamp (f_div (ln_1p_fn billions) (lit (36 / 10))) (Fin 0) (Fin 1)) (lit (65 / 100)));
          gain = f_add (f_add (f_add (f_add (f_add (f_add (f_add (pc_weight c) (pc_priority_bias c))
            (f_mul overlap (lit (85 / 100)))) role_score) health_score) preferred_score) metrics_bonus) model_size_bonus
      in \<lparr>rt_overlap = overlap, rt_role_score = role_score, rt_health_ok = health_ok, rt_health_mode = health_mode,
          rt_health_score = health_score, rt_preferred_score = preferred_score, rt_metrics_bonus = metrics_bonus,
          rt_model_size_bonus = model_size_bonus, rt_usage_penalty = usage_penalty,
          rt_resource_penalty = resource_penalty, rt_hard_limit_penalty = hard_limit_penalty,
          rt_nmc_pressure_penalty = nmc_pressure_penalty, rt_nmc_constrained = nmc_constrained,
          rt_base_score = f_sub (f_sub (f_sub (f_sub (f_sub gain usage_penalty) resource_penalty) hard_limit_penalty)
            nmc_pressure_penalty) nmc_hard_limit_penalty\<rparr>)"

section \<open>The learned correction\<close>

definition routing_task :: string where
  "routing_task = ''routing_candidate_utility''"

definition routing_elm_feature_schema :: feature_schema where
  "routing_elm_feature_schema =
     \<lparr>fs_id = ''gail-routing-candidate-utility:v1'', fs_version = 1,
      fs_names = [''baseline_score'', ''configured_weight'', ''priority_bias'', ''specialty_overlap'', ''role_fit'',
        ''health_score'', ''preferred'', ''metrics_bonus'', ''model_size_bonus'', ''model_size_billions'',
        ''usage_penalty'', ''resource_penalty'', ''nmc_pressure'', ''candidate_pressure'', ''host_pressure'',
        ''queue_depth'', ''latency_seconds'', ''health_ok'', ''tokens_per_second'', ''throughput_missing'',
        ''provider_openai'', ''provider_gemini'', ''provider_ollama'', ''provider_nvidia'', ''provider_other'',
        ''nmc_constrained''],
      fs_units = [''score'', ''score'', ''score'', ''count'', ''score'', ''score'', ''boolean'', ''score'', ''score'',
        ''billions_of_parameters'', ''score'', ''score'', ''ratio'', ''ratio'', ''ratio'', ''requests'', ''seconds'',
        ''boolean'', ''tokens_per_second'', ''boolean'', ''boolean'', ''boolean'', ''boolean'', ''boolean'', ''boolean'',
        ''boolean'']\<rparr>"

definition f_of_bool :: "bool \<Rightarrow> f64" where
  "f_of_bool b = (if b then Fin 1 else Fin 0)"

definition known_providers :: "string list" where
  "known_providers = [''openai'', ''gemini'', ''ollama'', ''nvidia'']"

definition routing_values ::
  "provider_candidate \<Rightarrow> rank_terms \<Rightarrow> load_snapshot \<Rightarrow> nat option \<Rightarrow> f64 option \<Rightarrow> f64 list" where
  "routing_values c t load latency_ms throughput =
     (let provider = to_ascii_lowercase (pc_provider_type c)
      in [rt_base_score t, pc_weight c, pc_priority_bias c, rt_overlap t, rt_role_score t, rt_health_score t,
          rt_preferred_score t, rt_metrics_bonus t, rt_model_size_bonus t,
          unwrap_or (Fin 0) (parse_model_size_billions (pc_configured_model c)), rt_usage_penalty t,
          rt_resource_penalty t, rt_nmc_pressure_penalty t, ls_limit_ratio load, ls_host_budget_ratio load,
          f_of_nat (usize_sat_add (ls_in_flight load) (ls_waiting load)),
          f_div (f_of_nat (unwrap_or 0 latency_ms)) (Fin 1000), f_of_bool (rt_health_ok t),
          unwrap_or (Fin 0) throughput, f_of_bool (throughput = None), f_of_bool (provider = ''openai''),
          f_of_bool (provider = ''gemini''), f_of_bool (provider = ''ollama''), f_of_bool (provider = ''nvidia''),
          f_of_bool (provider \<notin> set known_providers), f_of_bool (rt_nmc_constrained t)])"

definition routing_context ::
  "elm_config \<Rightarrow> string \<Rightarrow> string \<Rightarrow> f64 list \<Rightarrow> bool \<Rightarrow> u64 \<Rightarrow> (string \<Rightarrow> u64) \<Rightarrow> decision_context" where
  "routing_context config request_id cid values health_ok now rollout =
     \<lparr>cx_decision_id = request_id, cx_task_id = routing_task, cx_tenant_scope = ''local'',
      cx_feature_schema = routing_elm_feature_schema, cx_feature_values = values, cx_feature_timestamp = now,
      cx_now = now, cx_remaining_deadline_ms = of_nat (bu_inference_deadline_ms (ec_budgets config)),
      cx_baseline_decision = Some cid, cx_hard_policy_eligible = health_ok, cx_resource_available = health_ok,
      cx_rollout_bucket = rollout (request_id @ '':'' @ cid)\<rparr>"

definition claim_elm_canary_decision ::
  "elm_config \<Rightarrow> registry_env \<Rightarrow> u64 \<Rightarrow> write_outcome \<Rightarrow> elm_artifact \<Rightarrow> disk \<Rightarrow> registry_state
   \<Rightarrow> bool \<times> disk \<times> registry_state" where
  "claim_elm_canary_decision config E now w artifact d s =
     (let model_id = mm_model_id (ea_metadata artifact)
      in case record_of s model_id of
        None \<Rightarrow> (False, d, s)
      | Some r \<Rightarrow>
          if rr_stage r \<noteq> Canary then (True, d, s)
          else let maximum = (case get_task config (rr_task_id r) of
                     None \<Rightarrow> 0
                   | Some task \<Rightarrow> (case get_policy config (tc_promotion_policy task) of
                       None \<Rightarrow> 0 | Some policy \<Rightarrow> unwrap_or 0 (pp_canary_max_decisions policy)))
               in (case claim_canary_decision E now w model_id (of_nat maximum) d s of
                     (Inl _, d', s') \<Rightarrow> (False, d', s')
                   | (Inr claimed, d', s') \<Rightarrow> (claimed, d', s')))"

text \<open>Why a prediction is not used. The time is in seconds, the limit in milliseconds.\<close>

definition prediction_reason ::
  "elm_config \<Rightarrow> elm_artifact \<Rightarrow> f64 \<Rightarrow> f64 \<Rightarrow> gate_reason option" where
  "prediction_reason config artifact proposal elapsed =
     (let radius = (case ea_calibration artifact of None \<Rightarrow> PInf
            | Some item \<Rightarrow> unwrap_or PInf (cal_residual_radius item));
          policy = (case get_task config routing_task of None \<Rightarrow> None
            | Some task \<Rightarrow> get_policy config (tc_promotion_policy task));
          overhead_limit = (case policy of None \<Rightarrow> Fin 0
            | Some v \<Rightarrow> unwrap_or (Fin 0) (pp_maximum_p95_overhead_ms v))
      in if \<not> is_finite proposal \<or> \<not> is_finite radius then Some InferenceError
         else if f_lt (Fin 1) (f_abs proposal) then Some OutOfDomain
         else if f_le (f_abs proposal) radius then Some InsufficientMargin
         else if f_lt overhead_limit (f_mul elapsed (Fin 1000)) then Some Deadline
         else None)"

text \<open>
  The outcome of the scoring: the score, the report to the failure counter (valid, counted) if there is one,
  and the registry afterwards.
\<close>

record routing_verdict =
  rv_score :: f64
  rv_report :: "(string \<times> bool \<times> bool) option"
  rv_disk :: disk
  rv_state :: registry_state

definition routing_elm_score ::
  "bool \<Rightarrow> elm_config \<Rightarrow> bool \<Rightarrow> registry_env \<Rightarrow> u64 \<Rightarrow> write_outcome \<Rightarrow> (string \<Rightarrow> u64)
   \<Rightarrow> (elm_artifact \<Rightarrow> f64 list \<Rightarrow> elm_error + f64 list \<times> f64) \<Rightarrow> string \<Rightarrow> string \<Rightarrow> bool \<Rightarrow> provider_candidate
   \<Rightarrow> rank_terms \<Rightarrow> f64 list \<Rightarrow> disk \<Rightarrow> registry_state \<Rightarrow> routing_verdict" where
  "routing_elm_score available config live E now w rollout predict request_id cid trading_context c t values d s =
     (let base = rt_base_score t;
          kept = (\<lambda>report d s. \<lparr>rv_score = base, rv_report = report, rv_disk = d, rv_state = s\<rparr>)
      in if \<not> available \<or> effective_mode config routing_task = Mode_Off then kept None d s
         else let gated = admit True config s (routing_context config request_id cid values (rt_health_ok t) now rollout);
                  cap = (if trading_context
                         then effective_influence_cap (ec_trading config) (gm_influence_cap gated) live
                         else gm_influence_cap gated)
              in case gm_artifact gated of
                   None \<Rightarrow> kept None d s
                 | Some artifact \<Rightarrow>
                     if to_ascii_lowercase (pc_provider_type c) \<notin> set known_providers then kept None d s
                     else case claim_elm_canary_decision config E now w artifact d s of
                       (False, d', s') \<Rightarrow> kept None d' s'
                     | (True, d', s') \<Rightarrow>
                         let digest = ea_content_sha256 artifact
                         in case predict artifact values of
                              Inl error \<Rightarrow> kept (Some (digest, False, error \<noteq> QueueFull)) d' s'
                            | Inr ([], _) \<Rightarrow> kept None d' s'
                            | Inr (proposal # _, elapsed) \<Rightarrow>
                                let reason0 = prediction_reason config artifact proposal elapsed;
                                    reason = (if reason0 = None \<and> trading_context \<and> f_lt (Fin 0) (gm_influence_cap gated)
                                                 \<and> f_eq cap (Fin 0)
                                              then Some TradingInfluenceDisabled else reason0);
                                    report = (if reason = None then Some (digest, True, True)
                                              else if reason = Some InferenceError \<or> reason = Some Deadline
                                              then Some (digest, False, True) else None);
                                    applied = (reason = None \<and> \<not> gm_shadow gated \<and> gm_mode gated = Mode_Auto
                                               \<and> f_lt (Fin 0) cap)
                                in if applied then (kept report d' s')\<lparr>rv_score := f_add base (f_mul proposal cap)\<rparr>
                                   else kept report d' s')"

section \<open>Failures of a learned model\<close>

text \<open>A report on a task: whether the prediction was valid, and whether its failure counts.\<close>

definition record_elm_inference_result ::
  "bool \<Rightarrow> string \<Rightarrow> bool \<Rightarrow> bool \<Rightarrow> nat btree \<Rightarrow> nat btree \<times> bool" where
  "record_elm_inference_result automatic_rollback task valid_result count_failure failures =
     (if valid_result then (bt_remove task failures, False)
      else if \<not> count_failure \<or> \<not> automatic_rollback then (failures, False)
      else let count = unwrap_or 0 (map_of failures task) + 1
           in if 3 \<le> count then (bt_insert task 0 failures, True) else (bt_insert task count failures, False))"

text \<open>The rollback that follows the third failure, if the model that failed is still in authority.\<close>

definition roll_back_failing ::
  "registry_env \<Rightarrow> u64 \<Rightarrow> write_outcome \<Rightarrow> string \<Rightarrow> string \<Rightarrow> disk \<Rightarrow> registry_state
   \<Rightarrow> (rollback_event reg_result) option" where
  "roll_back_failing E now w task digest d s =
     (case champion s task of
        None \<Rightarrow> None
      | Some artifact \<Rightarrow>
          if ea_content_sha256 artifact \<noteq> digest then None
          else case record_of s (mm_model_id (ea_metadata artifact)) of
            None \<Rightarrow> None
          | Some r \<Rightarrow>
              if rr_stage r \<notin> {Active, Canary} then None
              else Some (rollback_champion E now w task (''inference-failure:'' @ task @ '':'' @ digest)
                (rf_revision (rs_file s)) ''three consecutive bounded inference failures'' d s))"

section \<open>The rank\<close>

definition rank_candidate ::
  "environment \<Rightarrow> (string \<Rightarrow> parsed_url option) \<Rightarrow> (f64 \<Rightarrow> f64) \<Rightarrow> (f64 \<Rightarrow> f64) \<Rightarrow> f64 \<Rightarrow> f64 \<Rightarrow> adapter_probe
   \<Rightarrow> nmc_view option \<Rightarrow> load_snapshot \<Rightarrow> string \<Rightarrow> string \<Rightarrow> string \<Rightarrow> string \<Rightarrow> string option \<Rightarrow> string set
   \<Rightarrow> (rank_terms \<Rightarrow> f64 list \<Rightarrow> bool \<Rightarrow> routing_verdict) option \<Rightarrow> provider_candidate \<Rightarrow> candidate_metrics
   \<Rightarrow> ranked_candidate \<times> candidate_metrics" where
  "rank_candidate env parse_url exp_fn ln_1p_fn now default_ttl adapter nmc load source request_profile workflow role
      request_category task_tags elm c m0 =
     (let cid = candidate_id parse_url c;
          (health, m) = ranked_health env parse_url now default_ttl adapter c m0;
          usage_penalty = recent_usage_penalty exp_fn ln_1p_fn now cid workflow role (pc_usage_penalty_decay_seconds c) m;
          metrics_bonus = score_bonus_for_context cid source request_profile workflow role request_category m;
          throughput = generation_tokens_per_second_for_context cid source request_profile workflow role
            request_category m;
          t = rank_terms_of ln_1p_fn c role task_tags health nmc load usage_penalty metrics_bonus;
          trading_context = (eq_ignore_ascii_case workflow ''trading'' \<or> eq_ignore_ascii_case request_profile ''trading''
            \<or> eq_ignore_ascii_case source ''gail_trading''
            \<or> is_some_and (\<lambda>category. eq_ignore_ascii_case category ''trading_advisory'') request_category);
          score = (case elm of None \<Rightarrow> rt_base_score t
            | Some learned \<Rightarrow> rv_score (learned t (routing_values c t load (ph_latency_ms health) throughput) trading_context))
      in (\<lparr>rk_candidate = c, rk_score = score, rk_health_ok = rt_health_ok t, rk_health_mode = rt_health_mode t,
           rk_generation_tokens_per_second = throughput\<rparr>, m))"

section \<open>Estimates of the dispatch\<close>

definition adaptive_provider_parallelism :: "environment \<Rightarrow> capacity_estimate \<Rightarrow> nat" where
  "adaptive_provider_parallelism env capacity =
     (let seed = default_provider_concurrency_seed env
      in if ce_samples capacity < 4 then seed
         else case option_filter (\<lambda>v. f_lt (Fin 0) v) (ce_service_time_ms capacity) of
           None \<Rightarrow> seed
         | Some service_time_ms \<Rightarrow>
             let queue_ratio = f_div (f_max (unwrap_or (Fin 0) (ce_queue_wait_ms capacity)) (Fin 0)) service_time_ms;
                 lanes = (if f_lt (ce_useful_rate capacity) (Fin (1 / 2)) \<or> f_lt (Fin (3 / 4)) queue_ratio
                     then int seed - 1
                   else if f_lt (lit (85 / 100)) (ce_useful_rate capacity) \<and> f_lt queue_ratio (lit (15 / 100))
                     then int seed + 1
                       + (if 20 \<le> ce_samples capacity \<and> f_lt queue_ratio (lit (5 / 100)) then 1 else 0)
                   else int seed)
             in nat (min (max lanes 1) 64))"

fun f_ceil :: "f64 \<Rightarrow> f64" where
  "f_ceil (Fin q) = Fin (of_int \<lceil>q\<rceil>)"
| "f_ceil x = x"

definition dispatch_estimate_of ::
  "environment \<Rightarrow> provider_candidate \<Rightarrow> capacity_estimate \<Rightarrow> load_snapshot \<Rightarrow> dispatch_estimate" where
  "dispatch_estimate_of env c capacity load =
     (let service_time_ms = f_clamp (unwrap_or (Fin 5000) (option_filter finite_positive (ce_service_time_ms capacity)))
            (Fin 1) (Fin 3600000);
          parallelism = max (case pc_max_concurrent_requests c of
              Some n \<Rightarrow> n | None \<Rightarrow> adaptive_provider_parallelism env capacity) 1;
          queue_depth = usize_sat_add (ls_in_flight load) (ls_waiting load);
          occupied_lanes = f_ceil (f_div (f_of_nat queue_depth) (f_of_nat parallelism));
          historical_queue_wait_ms = f_min (unwrap_or (Fin 0)
            (option_filter finite_positive (ce_queue_wait_ms capacity))) (Fin 3600000);
          estimated = f_add historical_queue_wait_ms (f_mul (f_add occupied_lanes (Fin 1)) service_time_ms);
          useful_rate = f_clamp (ce_useful_rate capacity) (lit (1 / 10)) (Fin 1)
      in \<lparr>de_samples = ce_samples capacity, de_useful_rate = useful_rate, de_service_time_ms = service_time_ms,
          de_queue_depth = queue_depth, de_candidate_parallelism = parallelism, de_estimated_completion_ms = estimated,
          de_estimated_useful_completion_ms = f_div estimated useful_rate\<rparr>)"

definition dispatch_estimates ::
  "environment \<Rightarrow> (string \<Rightarrow> parsed_url option) \<Rightarrow> (provider_candidate \<Rightarrow> load_snapshot) \<Rightarrow> string \<Rightarrow> string \<Rightarrow> string
   \<Rightarrow> string \<Rightarrow> string option \<Rightarrow> nat \<Rightarrow> candidate_metrics \<Rightarrow> ranked_candidate list \<Rightarrow> dispatch_estimate btree" where
  "dispatch_estimates env parse_url load source request_profile workflow role request_category requested_output_tokens
      m ranked =
     fold (\<lambda>item. let c = rk_candidate item
        in bt_insert (candidate_id parse_url c) (dispatch_estimate_of env c
          (candidate_capacity_estimate_for_context (candidate_id parse_url c) source request_profile workflow role
            request_category requested_output_tokens m) (load c))) ranked []"

section \<open>The estimates are usable\<close>

lemma exact_power: "n < 1024 \<Longrightarrow> rnd (2 ^ n) = Fin (2 ^ n)"
  by (rule rnd_exact [where m = 1 and e = "int n"]) (simp_all add: abs_of_pos [OF pow2_pos] flip: pow2_of_nat)

lemma rnd_in_power:
  assumes "a \<le> q" "q \<le> 2 ^ n" "grid a" "n < 1024"
  shows "in_range a (2 ^ n) (rnd q)"
proof -
  have "Fin a \<le> rnd q" "rnd q \<le> Fin (2 ^ n)"
    using rnd_mono [OF assms(1)] rnd_mono [OF assms(2)] grid_rnd [OF assms(3)] exact_power [OF assms(4)] by simp_all
  then show ?thesis by (cases "rnd q") (auto simp: less_eq_f64_def in_range_def)
qed

lemma occupied_lanes_range:
  assumes "depth \<le> usize_max" "1 \<le> parallelism"
  shows "in_range 0 (2 ^ 64) (f_ceil (f_div (f_of_nat depth) (f_of_nat parallelism)))"
proof -
  have "(of_nat depth :: rat) \<le> of_nat usize_max" using assms(1) by (simp only: of_nat_le_iff)
  then have "in_range 0 (2 ^ 64) (f_of_nat depth)"
    unfolding f_of_nat_def by (intro rnd_in_power) (simp_all add: usize_max_def grid_def)
  then obtain x where x: "f_of_nat depth = Fin x" "0 \<le> x" "x \<le> 2 ^ 64" by (rule in_rangeE)
  have p: "Fin 1 \<le> f_of_nat parallelism"
    using rnd_mono [of 1 "of_nat parallelism"] rnd_of_int [of 1] assms(2) by (simp add: f_of_nat_def)
  have "in_range 0 (2 ^ 64) (f_div (f_of_nat depth) (f_of_nat parallelism))"
  proof (cases "f_of_nat parallelism")
    case (Fin y)
    then have "1 \<le> y" using p by simp
    then have "x / y \<le> 2 ^ 64" "0 \<le> x / y"
      using x by (simp_all add: divide_le_eq)
    then have "in_range 0 (2 ^ 64) (rnd (x / y))"
      by (intro rnd_in_power) (simp_all add: grid_def)
    then show ?thesis using x(1) Fin \<open>1 \<le> y\<close> by (simp add: f_div_def)
  qed (use x p in \<open>auto simp: f_div_def f_of_nat_def\<close>)
  then obtain q where q: "f_div (f_of_nat depth) (f_of_nat parallelism) = Fin q" "0 \<le> q" "q \<le> 2 ^ 64"
    by (rule in_rangeE)
  have "\<lceil>q\<rceil> \<le> 2 ^ 64" using q(3) by (simp add: ceiling_le_iff)
  then have "(of_int \<lceil>q\<rceil> :: rat) \<le> 2 ^ 64" by (metis of_int_le_iff of_int_numeral of_int_power)
  moreover have "0 \<le> \<lceil>q\<rceil>" using q(2) by linarith
  ultimately show ?thesis using q(1) by simp
qed

text \<open>What the selection relies on.\<close>

definition usable_estimate :: "dispatch_estimate \<Rightarrow> bool" where
  "usable_estimate e \<longleftrightarrow>
     in_range 1 3600000 (de_service_time_ms e) \<and> in_range (1 / 16) 1 (de_useful_rate e)
     \<and> 1 \<le> de_candidate_parallelism e \<and> in_range 1 (2 ^ 90) (de_estimated_completion_ms e)
     \<and> in_range 1 (2 ^ 95) (de_estimated_useful_completion_ms e)
     \<and> f_le (de_estimated_completion_ms e) (de_estimated_useful_completion_ms e)"

lemma dispatch_estimate_usable:
  assumes "ce_useful_rate capacity \<noteq> NaN"
  shows "usable_estimate (dispatch_estimate_of env c capacity load)"
proof -
  define e where "e = dispatch_estimate_of env c capacity load"
  define parallelism where "parallelism = de_candidate_parallelism e"
  define depth where "depth = de_queue_depth e"
  define wait where "wait = f_min (unwrap_or (Fin 0) (option_filter finite_positive (ce_queue_wait_ms capacity))) (Fin 3600000)"
  have parallelism: "1 \<le> parallelism" by (simp add: parallelism_def e_def dispatch_estimate_of_def Let_def)
  have depth: "depth \<le> usize_max" by (simp add: depth_def e_def dispatch_estimate_of_def Let_def usize_sat_add_def)
  have fin: "\<exists>q. unwrap_or d (option_filter finite_positive x) = Fin q \<and> 0 \<le> q" if "\<exists>q. d = Fin q \<and> 0 \<le> q" for d x
    using that by (auto simp: unwrap_or_def option_filter_def finite_positive_def is_finite_iff f_lt_iff split: option.splits)
  have service: "in_range 1 3600000 (de_service_time_ms e)"
    using fin [of "Fin 5000" "ce_service_time_ms capacity"]
    by (auto simp: e_def dispatch_estimate_of_def Let_def intro!: range_clamp)
  have wait: "in_range 0 3600000 wait"
    using fin [of "Fin 0" "ce_queue_wait_ms capacity"] by (auto simp: wait_def f_min_def min_def)
  have "in_range (1 / 16) (1 / 8) (lit (1 / 10))" by (rule rnd_in_range) (simp_all add: grid_def)
  then have rate: "in_range (1 / 16) 1 (de_useful_rate e)"
    using assms range_clamp_lit [OF assms, of "1 / 16" "1 / 8" "lit (1 / 10)" 1 1 "Fin 1"]
    by (auto simp: e_def dispatch_estimate_of_def Let_def elim!: in_rangeE)
  obtain s where s: "de_service_time_ms e = Fin s" "1 \<le> s" "s \<le> 3600000" using service by (rule in_rangeE)
  obtain lanes where lanes: "f_ceil (f_div (f_of_nat depth) (f_of_nat parallelism)) = Fin lanes" "0 \<le> lanes" "lanes \<le> 2 ^ 64"
    using occupied_lanes_range [OF depth parallelism] by (rule in_rangeE)
  obtain v where v: "wait = Fin v" "0 \<le> v" "v \<le> 3600000" using wait by (rule in_rangeE)
  have "in_range 1 (2 ^ 65) (rnd (lanes + 1))"
    using lanes by (intro rnd_in_power) (simp_all add: grid_def)
  then obtain n where n: "f_add (Fin lanes) (Fin 1) = Fin n" "1 \<le> n" "n \<le> 2 ^ 65" by (auto elim: in_rangeE)
  have "1 \<le> n * s" "n * s \<le> 2 ^ 65 * 3600000"
    using n s mult_mono [of 1 n 1 s] mult_mono [of n "2 ^ 65" s 3600000] by simp_all
  then have "in_range 1 (2 ^ 87) (rnd (n * s))"
    by (intro rnd_in_power) (simp_all add: grid_def)
  then obtain p where p: "f_mul (Fin n) (Fin s) = Fin p" "1 \<le> p" "p \<le> 2 ^ 87" by (auto simp: f_mul_def elim: in_rangeE)
  have "in_range 1 (2 ^ 90) (rnd (v + p))"
    using v p by (intro rnd_in_power) (simp_all add: grid_def)
  moreover have "de_estimated_completion_ms e = f_add wait (f_mul (f_add (Fin lanes) (Fin 1)) (Fin s))"
    using lanes(1) s(1)
    by (simp add: e_def dispatch_estimate_of_def Let_def wait_def depth_def parallelism_def)
  ultimately have estimated: "in_range 1 (2 ^ 90) (de_estimated_completion_ms e)"
    and sum: "de_estimated_completion_ms e = rnd (v + p)"
    using v(1) n(1) p(1) by simp_all
  then obtain q where q: "de_estimated_completion_ms e = Fin q" "1 \<le> q" "q \<le> 2 ^ 90" by (auto elim: in_rangeE)
  have rounded: "rnd q = Fin q"
    using rnd_fixed [of "v + p" q] sum q(1) v p by simp
  obtain r where r: "de_useful_rate e = Fin r" "1 / 16 \<le> r" "r \<le> 1" using rate by (rule in_rangeE)
  have "q \<le> q / r" "q / r \<le> q * 16"
    using q r by (simp_all add: field_simps)
  then have "in_range 1 (2 ^ 95) (rnd (q / r))"
    using q by (intro rnd_in_power) (simp_all add: grid_def)
  moreover have "Fin q \<le> rnd (q / r)"
    using rnd_mono [OF \<open>q \<le> q / r\<close>] rounded by simp
  moreover have "de_estimated_useful_completion_ms e = rnd (q / r)"
    using q(1) r by (simp add: e_def dispatch_estimate_of_def Let_def f_div_def)
  ultimately show ?thesis
    using service rate estimated parallelism q
    by (auto simp: usable_estimate_def e_def [symmetric] parallelism_def f_le_iff)
qed

lemma useful_rate_range:
  assumes "stats_range s" "sb_successes s \<le> sb_total s" "sb_total s \<le> u64_max"
  shows "in_range 0 1 (ce_useful_rate (capacity_of_stats s wide n))"
proof -
  define rate where "rate = (if sb_total s = 0 then Fin (3 / 4) else f_div (f_of_nat (sb_successes s)) (f_of_nat (sb_total s)))"
  define quality where "quality = (if sb_total s = 0 then lit (7 / 10) else sb_ewma_quality s)"
  have rate: "in_range 0 1 rate"
    using success_rate_range [OF assms(2,3)] by (auto simp: rate_def)
  have "in_range (- 4) 4 (lit (7 / 10))" by (rule rnd_in_range) (simp_all add: grid_def)
  then have "in_range (- 4) 4 quality"
    using assms(1) by (auto simp: quality_def stats_range_def)
  then have "in_range ((- 4 + 1) / 2) ((4 + 1) / 2) (f_div (f_add quality (Fin 1)) (Fin 2))"
    by (intro range_div range_add) (simp_all add: grid_def)
  then have "f_div (f_add quality (Fin 1)) (Fin 2) \<noteq> NaN" by (rule range_finite)
  moreover have "in_range 0 1 (lit (1 / 10))" by (rule rnd_in_range) (simp_all add: grid_def)
  ultimately have "in_range 0 1 (f_clamp (f_div (f_add quality (Fin 1)) (Fin 2)) (lit (1 / 10)) (Fin 1))"
    by (intro range_clamp_lit [where d = 1 and e = 1]) (auto elim!: in_rangeE)
  from range_mul_unit [OF rate this] show ?thesis
    unfolding capacity_of_stats_def Let_def rate_def quality_def
    by (auto intro!: range_clamp dest: range_finite)
qed

text \<open>C18: The estimates that the dispatch ranks by can always be compared. After any history, every ranked candidate
  has an estimate; its service time is between one millisecond and one hour, its useful rate is positive, it has
  a lane, and both its completion times are finite, at least one millisecond, and in order.\<close>

theorem dispatch_estimates_are_usable:
  assumes "recorded es" "length es \<le> u64_max" "item \<in> set ranked"
  shows "\<exists>e. map_of (dispatch_estimates env parse_url load source profile workflow role category tokens
        (metrics_after es) ranked) (candidate_id parse_url (rk_candidate item)) = Some e \<and> usable_estimate e"
proof -
  have rate: "ce_useful_rate (candidate_capacity_estimate_for_context cid source profile workflow role category tokens
      (metrics_after es)) \<noteq> NaN" for cid
  proof (cases "map_of (metrics_after es) cid")
    case (Some b)
    then have "bucket_entry cid (metrics_after es) = b" by (simp add: bucket_entry_def unwrap_or_def)
    then show ?thesis
      using profile_stats_ok [OF assms(1,2), of _ _ cid] useful_rate_range Some range_finite(2)
      by (simp add: candidate_capacity_estimate_for_context_def) blast
  qed (simp add: candidate_capacity_estimate_for_context_def no_capacity_def)
  define step where "step (item :: ranked_candidate) = (let c = rk_candidate item
        in bt_insert (candidate_id parse_url c) (dispatch_estimate_of env c
          (candidate_capacity_estimate_for_context (candidate_id parse_url c) source profile workflow role
            category tokens (metrics_after es)) (load c)))" for item
  have "(\<forall>item\<in>set done. \<exists>e. map_of (fold step done []) (candidate_id parse_url (rk_candidate item)) = Some e)
      \<and> (\<forall>k e. map_of (fold step done []) k = Some e \<longrightarrow> usable_estimate e)" for "done"
  proof (induction "done" rule: rev_induct)
    case (snoc x xs)
    then show ?case
      using dispatch_estimate_usable [OF rate] by (auto simp: step_def Let_def)
  qed simp
  moreover have "dispatch_estimates env parse_url load source profile workflow role category tokens (metrics_after es)
      ranked = fold step ranked []"
    unfolding dispatch_estimates_def step_def [abs_def] ..
  ultimately show ?thesis
    using assms(3) by metis
qed

section \<open>Rollbacks\<close>

text \<open>A sequence of reports on one task, each valid or not and counted or not, with the rollbacks it asks for.\<close>

fun run_reports :: "bool \<Rightarrow> string \<Rightarrow> (bool \<times> bool) list \<Rightarrow> nat btree \<Rightarrow> bool list" where
  "run_reports automatic task [] failures = []"
| "run_reports automatic task ((valid, counted) # rs) failures =
     (case record_elm_inference_result automatic task valid counted failures of
        (failures', asked) \<Rightarrow> asked # run_reports automatic task rs failures')"

definition counted_failures :: "(bool \<times> bool) list \<Rightarrow> nat" where
  "counted_failures rs = length (filter (\<lambda>(valid, counted). \<not> valid \<and> counted) rs)"

fun failures_after :: "bool \<Rightarrow> string \<Rightarrow> (bool \<times> bool) list \<Rightarrow> nat btree \<Rightarrow> nat btree" where
  "failures_after automatic task [] failures = failures"
| "failures_after automatic task ((valid, counted) # rs) failures =
     failures_after automatic task rs (fst (record_elm_inference_result automatic task valid counted failures))"

lemma failures_after_snoc:
  "failures_after automatic task (rs @ [(v, c)]) failures =
     fst (record_elm_inference_result automatic task v c (failures_after automatic task rs failures))"
  by (induction rs arbitrary: failures) auto

lemma run_reports_nth:
  "n < length rs \<Longrightarrow> run_reports automatic task rs failures ! n =
     snd (record_elm_inference_result automatic task (fst (rs ! n)) (snd (rs ! n))
       (failures_after automatic task (take n rs) failures))"
  by (induction automatic task rs failures arbitrary: n rule: run_reports.induct)
    (auto simp: nth_Cons' take_Cons' split: prod.splits nat.splits)

lemma pending_failures:
  "\<exists>pre post. rs = pre @ post \<and> (\<forall>r\<in>set post. \<not> fst r)
     \<and> unwrap_or 0 (map_of (failures_after automatic task rs []) task) \<le> counted_failures post"
proof (induction rs rule: rev_induct)
  case (snoc r rs)
  obtain v c where r: "r = (v, c)" by (cases r)
  obtain pre post where IH: "rs = pre @ post" "\<forall>r\<in>set post. \<not> fst r"
    "unwrap_or 0 (map_of (failures_after automatic task rs []) task) \<le> counted_failures post"
    using snoc.IH by blast
  show ?case
  proof (cases v)
    case True
    then show ?thesis
      by (intro exI [of _ "rs @ [r]"] exI [of _ "[]"])
        (simp add: r failures_after_snoc record_elm_inference_result_def unwrap_or_def counted_failures_def)
  next
    case False
    then have "unwrap_or 0 (map_of (failures_after automatic task (rs @ [r]) []) task) \<le> counted_failures (post @ [r])"
      using IH(3) by (auto simp: r failures_after_snoc record_elm_inference_result_def unwrap_or_def counted_failures_def Let_def)
    moreover have "rs @ [r] = pre @ (post @ [r])" "\<forall>x\<in>set (post @ [r]). \<not> fst x"
      using IH(1,2) False r by auto
    ultimately show ?thesis by blast
  qed
qed (simp add: unwrap_or_def counted_failures_def)

text \<open>C16: A rollback needs three failures. Whatever the reports on a task, one of them asks for an automatic rollback
  only when rollbacks are enabled, it is itself a counted failure, and with it at least three counted failures
  stand in a row of reports without a valid prediction.\<close>

theorem rollback_needs_three_failures:
  assumes "n < length rs" "run_reports automatic task rs [] ! n"
  shows "automatic \<and> rs ! n = (False, True)
    \<and> (\<exists>pre post. take (Suc n) rs = pre @ post \<and> (\<forall>r\<in>set post. \<not> fst r) \<and> 3 \<le> counted_failures post)"
proof -
  have asked: "snd (record_elm_inference_result automatic task (fst (rs ! n)) (snd (rs ! n))
      (failures_after automatic task (take n rs) []))"
    using assms by (simp add: run_reports_nth)
  then have r: "automatic" "rs ! n = (False, True)"
    "3 \<le> unwrap_or 0 (map_of (failures_after automatic task (take n rs) []) task) + 1"
    by (auto simp: record_elm_inference_result_def Let_def prod_eq_iff split: if_splits)
  obtain pre post where post: "take n rs = pre @ post" "\<forall>r\<in>set post. \<not> fst r"
    "unwrap_or 0 (map_of (failures_after automatic task (take n rs) []) task) \<le> counted_failures post"
    using pending_failures by blast
  have "take (Suc n) rs = pre @ (post @ [rs ! n])"
    using assms(1) post(1) by (simp add: take_Suc_conv_app_nth)
  moreover have "3 \<le> counted_failures (post @ [rs ! n])"
    using r(2,3) post(3) by (simp add: counted_failures_def)
  ultimately show ?thesis
    using r(1,2) post(2) by (intro conjI exI [of _ pre] exI [of _ "post @ [rs ! n]"]) auto
qed

section \<open>What a learned model may change\<close>

lemma admit_artifact:
  assumes "gm_artifact (admit True config s cx) = Some a"
  shows "cx_hard_policy_eligible cx \<and> champion s (cx_task_id cx) = Some a
    \<and> (\<exists>task r policy. get_task config (cx_task_id cx) = Some task \<and> record_of s (mm_model_id (ea_metadata a)) = Some r
         \<and> get_policy config (tc_promotion_policy task) = Some policy
         \<and> \<not> mm_fixture_only (ea_metadata a) \<and> ea_feature_schema a = cx_feature_schema cx
         \<and> (\<not> gm_shadow (admit True config s cx) \<longrightarrow> stage_authorised task (rr_stage r)
              \<and> effective_mode config (cx_task_id cx) = Mode_Auto)
         \<and> gm_influence_cap (admit True config s cx) \<in>
             {Fin 0, f_min (f_clamp (tc_influence_cap task) (Fin 0) (Fin 1)) (unwrap_or (Fin 0) (pp_authorised_influence policy))})"
proof -
  have gate: "request_gate True config cx = None"
    using assms by (cases "request_gate True config cx") (auto simp: admit_def Let_def)
  then obtain task where task: "get_task config (cx_task_id cx) = Some task" "cx_hard_policy_eligible cx"
    by (rule request_gate_None)
  have champ: "champion s (cx_task_id cx) = Some a"
    using assms gate by (auto simp: admit_def Let_def split: option.splits sum.splits prod.splits)
  obtain r policy where m: "model_gate config s cx task a = Inr (r, policy)"
    using assms gate champ task(1)
    by (cases "model_gate config s cx task a") (auto simp: admit_def Let_def unwrap_or_def)
  note facts = model_gate_Inr [OF m]
  show ?thesis
    using gate champ task m facts
    by (auto simp: admit_def Let_def unwrap_or_def intro!: exI [of _ task] exI [of _ r] exI [of _ policy])
qed

lemma claim_positive: "claim_canary_decision E now w model_id maximum d s = (Inr True, d', s') \<Longrightarrow> 0 < maximum"
  by (auto simp: claim_canary_decision_def word_neq_0_conv split: if_splits)

lemma claimed_record:
  assumes "claim_elm_canary_decision config E now w artifact d s = (True, d', s')"
  shows "\<exists>r. record_of s (mm_model_id (ea_metadata artifact)) = Some r
    \<and> (rr_stage r = Canary \<longrightarrow> (\<exists>maximum. 0 < maximum
         \<and> claim_canary_decision E now w (mm_model_id (ea_metadata artifact)) maximum d s = (Inr True, d', s')))"
  using assms
  by (auto simp: claim_elm_canary_decision_def Let_def split: option.splits if_splits prod.splits sum.splits
      dest: claim_positive)

text \<open>C15: A learned model moves a score only through every gate. When the score of a candidate is not its base score,
  the candidate is healthy and of a known provider, the model is the champion of the task in a stage that the
  configuration lets act automatically, a canary has paid for the decision out of its budget, and the correction
  is a finite prediction of at most one, beyond its own uncertainty and within its time, scaled by a positive
  cap: that of the gates, and for trading never above the trading limits, which live trading has to allow.\<close>

theorem learned_score_is_gated:
  assumes "rv_score (routing_elm_score available config live E now w rollout predict request_id cid trading c t values d s)
      \<noteq> rt_base_score t"
  shows "\<exists>a task r policy proposal rest elapsed radius cap. rt_health_ok t
    \<and> to_ascii_lowercase (pc_provider_type c) \<in> set known_providers
    \<and> champion s routing_task = Some a \<and> ea_feature_schema a = routing_elm_feature_schema
    \<and> get_task config routing_task = Some task \<and> effective_mode config routing_task = Mode_Auto
    \<and> record_of s (mm_model_id (ea_metadata a)) = Some r \<and> stage_authorised task (rr_stage r)
    \<and> (rr_stage r = Canary \<longrightarrow> (\<exists>maximum d' s'. 0 < maximum
         \<and> claim_canary_decision E now w (mm_model_id (ea_metadata a)) maximum d s = (Inr True, d', s')))
    \<and> get_policy config (tc_promotion_policy task) = Some policy
    \<and> predict a values = Inr (proposal # rest, elapsed) \<and> is_finite proposal
    \<and> Option.bind (ea_calibration a) cal_residual_radius = Some radius
    \<and> f_le (f_abs proposal) (Fin 1) \<and> f_lt radius (f_abs proposal)
    \<and> f_lt (Fin 0) cap
    \<and> cap = (let gates = f_min (f_clamp (tc_influence_cap task) (Fin 0) (Fin 1)) (unwrap_or (Fin 0) (pp_authorised_influence policy))
             in if trading then effective_influence_cap (ec_trading config) gates live else gates)
    \<and> rv_score (routing_elm_score available config live E now w rollout predict request_id cid trading c t values d s)
        = f_add (rt_base_score t) (f_mul proposal cap)"
proof -
  define gated where "gated = admit True config s
    (routing_context config request_id cid values (rt_health_ok t) now rollout)"
  define cap where "cap = (if trading then effective_influence_cap (ec_trading config) (gm_influence_cap gated) live
    else gm_influence_cap gated)"
  obtain a d' s' proposal rest elapsed where a: "gm_artifact gated = Some a"
    and known: "to_ascii_lowercase (pc_provider_type c) \<in> set known_providers"
    and claimed: "claim_elm_canary_decision config E now w a d s = (True, d', s')"
    and predicted: "predict a values = Inr (proposal # rest, elapsed)"
    and reason: "prediction_reason config a proposal elapsed = None"
    and open_: "\<not> gm_shadow gated" "f_lt (Fin 0) cap"
    and score: "rv_score (routing_elm_score available config live E now w rollout predict request_id cid trading c t values d s)
        = f_add (rt_base_score t) (f_mul proposal cap)"
    using assms unfolding routing_elm_score_def Let_def gated_def [symmetric] cap_def [symmetric]
    by (auto split: option.splits if_splits prod.splits sum.splits list.splits bool.splits)
  have p: "is_finite proposal" "f_le (f_abs proposal) (Fin 1)"
    "\<exists>radius. Option.bind (ea_calibration a) cal_residual_radius = Some radius \<and> f_lt radius (f_abs proposal)"
    using reason
    by (auto simp: prediction_reason_def Let_def unwrap_or_def f_le_iff f_lt_iff is_finite_iff f_abs_def
        split: if_splits option.splits)
  have "gm_influence_cap gated \<noteq> Fin 0"
    using open_(2) by (auto simp: cap_def effective_influence_cap_def f_lt_iff split: if_splits)
  then obtain task r policy where gates: "rt_health_ok t" "champion s routing_task = Some a"
    "get_task config routing_task = Some task" "record_of s (mm_model_id (ea_metadata a)) = Some r"
    "get_policy config (tc_promotion_policy task) = Some policy" "ea_feature_schema a = routing_elm_feature_schema"
    "stage_authorised task (rr_stage r)" "effective_mode config routing_task = Mode_Auto"
    "gm_influence_cap gated = f_min (f_clamp (tc_influence_cap task) (Fin 0) (Fin 1)) (unwrap_or (Fin 0) (pp_authorised_influence policy))"
    using admit_artifact [OF a [unfolded gated_def]] open_(1) unfolding gated_def [symmetric]
    by (auto simp: routing_context_def)
  have "rr_stage r = Canary \<longrightarrow> (\<exists>maximum d' s'. 0 < maximum
      \<and> claim_canary_decision E now w (mm_model_id (ea_metadata a)) maximum d s = (Inr True, d', s'))"
    using claimed_record [OF claimed] gates(4) by auto
  moreover have "cap = (let gates = f_min (f_clamp (tc_influence_cap task) (Fin 0) (Fin 1)) (unwrap_or (Fin 0) (pp_authorised_influence policy))
      in if trading then effective_influence_cap (ec_trading config) gates live else gates)"
    by (simp add: cap_def gates(9) Let_def)
  ultimately show ?thesis
    using gates known predicted p score open_(2) by (intro exI [of _ a] exI [of _ task] exI [of _ r] exI [of _ policy]
      exI [of _ proposal] exI [of _ rest] exI [of _ elapsed] exI [of _ "the (Option.bind (ea_calibration a) cal_residual_radius)"]
      exI [of _ cap]) auto
qed

section \<open>Departures\<close>

text \<open>
  The failures of a task are counted whatever model made them, and an abstention is not reported, so it ends no
  row: two failures of a model that was replaced and one of its successor take the successor back.
\<close>

lemma successor_inherits_failures:
  assumes "champion s task = Some successor" "record_of s (mm_model_id (ea_metadata successor)) = Some r"
    and "rr_stage r = Active"
  shows "snd (record_elm_inference_result True task False True
      (failures_after True task [(False, True), (False, True)] []))
    \<and> roll_back_failing E now w task (ea_content_sha256 successor) d s \<noteq> None"
  using assms by (simp add: record_elm_inference_result_def roll_back_failing_def unwrap_or_def)

lemma abstention_is_not_reported:
  assumes "gm_artifact (admit True config s (routing_context config request_id cid values (rt_health_ok t) now rollout)) = Some a"
    and "predict a values = Inr (proposal # rest, elapsed)"
    and "prediction_reason config a proposal elapsed \<in> {Some InsufficientMargin, Some OutOfDomain}"
  shows "rv_report (routing_elm_score available config live E now w rollout predict request_id cid trading c t values d s) = None"
  using assms by (auto simp: routing_elm_score_def Let_def split: bool.splits prod.splits)

section \<open>A concrete correction\<close>

definition routing_gate_config :: elm_config where
  "routing_gate_config = default_elm_config\<lparr>ec_mode := Mode_Auto,
     ec_tasks := [(routing_task, default_task_config\<lparr>tc_max_stage := Stage_Active, tc_promotion_policy := ''p'',
       tc_allowed := True, tc_rollout_fraction := Fin 1, tc_influence_cap := Fin (1 / 2)\<rparr>)],
     ec_promotion_policies := [(''p'', sample_policy\<lparr>pp_authorised_influence := Some (Fin (1 / 4))\<rparr>)]\<rparr>"

definition routing_model :: elm_artifact where
  "routing_model = sample_model\<lparr>ea_feature_schema := routing_elm_feature_schema,
     ea_metadata := (ea_metadata sample_model)\<lparr>mm_task_id := routing_task, mm_tenant_scope := ''local''\<rparr>,
     ea_preprocessor := \<lparr>pre_means = replicate 26 (Fin 0), pre_scales = replicate 26 (Fin 1), pre_fit_partition = ''p''\<rparr>,
     ea_calibration := Some \<lparr>cal_identity = ''c'', cal_temperature = Fin 1, cal_residual_radius = Some (Fin (1 / 4)),
       cal_fitted_on = ''q''\<rparr>\<rparr>"

definition routing_record :: registry_record where
  "routing_record = \<lparr>rr_revision = 1, rr_model_id = ''m'', rr_task_id = routing_task, rr_digest = ''ok'',
     rr_stage = Active, rr_artifact_file = ''f'', rr_reason = None, rr_updated_at = 0, rr_fixture_only = False\<rparr>"

definition routing_state :: registry_state where
  "routing_state = \<lparr>rs_file = default_registry_file\<lparr>rf_records := [routing_record]\<rparr>,
     rs_champions = [(routing_task, routing_model)]\<rparr>"

definition routing_terms :: rank_terms where
  "routing_terms = \<lparr>rt_overlap = Fin 0, rt_role_score = Fin 0, rt_health_ok = True, rt_health_mode = None,
     rt_health_score = Fin 0, rt_preferred_score = Fin 0, rt_metrics_bonus = Fin 0, rt_model_size_bonus = Fin 0,
     rt_usage_penalty = Fin 0, rt_resource_penalty = Fin 0, rt_hard_limit_penalty = Fin 0,
     rt_nmc_pressure_penalty = Fin 0, rt_nmc_constrained = False, rt_base_score = Fin 0\<rparr>"

lemma routing_distance: "domain_distance routing_model (replicate 26 (Fin 0)) = Some (Fin 0)"
proof -
  have zero: "f_div (f_sub (Fin 0) (Fin 0)) (Fin 1) = Fin 0"
    by (simp add: f_div_def f_sub_def f_neg_def rnd_def)
  have "fold (\<lambda>v acc. f_max acc v) (map f_abs (map (\<lambda>i. f_div (f_sub (replicate 26 (Fin 0) ! i)
      (replicate 26 (Fin 0) ! i)) (replicate 26 (Fin 1) ! i)) [0..<n])) (Fin 0) = Fin 0" if "n \<le> 26" for n
    using that by (induction n) (auto simp: zero f_max_def f_abs_def)
  from this [of 26] show ?thesis
    by (simp add: domain_distance_def routing_model_def transform_def validate_matrix_def max_matrix_cells_def
        usize_max_def del: upt_rec_numeral)
qed

lemma routing_lookups:
  "get_task routing_gate_config routing_task = Some (default_task_config\<lparr>tc_max_stage := Stage_Active,
     tc_promotion_policy := ''p'', tc_allowed := True, tc_rollout_fraction := Fin 1, tc_influence_cap := Fin (1 / 2)\<rparr>)"
  "get_policy routing_gate_config ''p'' = Some (sample_policy\<lparr>pp_authorised_influence := Some (Fin (1 / 4))\<rparr>)"
  "champion routing_state routing_task = Some routing_model"
  "is_complete (sample_policy\<lparr>pp_authorised_influence := Some (Fin (1 / 4))\<rparr>)"
  "record_of routing_state ''m'' = Some routing_record"
  "canary_decisions routing_state ''m'' = 0"
  by code_simp+

lemma routing_mode: "effective_mode routing_gate_config routing_task = Mode_Auto"
  by (simp add: effective_mode_def routing_lookups) (simp add: routing_gate_config_def default_task_config_def)


lemma routing_admits:
  defines "gated \<equiv> admit True routing_gate_config routing_state
    (routing_context routing_gate_config ''i'' ''ollama/m'' (replicate 26 (Fin 0)) True 6 (\<lambda>_. 0))"
  shows "gm_artifact gated = Some routing_model" "gm_influence_cap gated = Fin (1 / 4)" "\<not> gm_shadow gated"
    "gm_mode gated = Mode_Auto"
proof -
  let ?cx = "routing_context routing_gate_config ''i'' ''ollama/m'' (replicate 26 (Fin 0)) True 6 (\<lambda>_. 0)"
  let ?task = "default_task_config\<lparr>tc_max_stage := Stage_Active, tc_promotion_policy := ''p'',
     tc_allowed := True, tc_rollout_fraction := Fin 1, tc_influence_cap := Fin (1 / 2)\<rparr>"
  let ?policy = "sample_policy\<lparr>pp_authorised_influence := Some (Fin (1 / 4))\<rparr>"
  have request: "request_gate True routing_gate_config ?cx = None"
    using routing_mode routing_lookups
    by (simp add: request_gate_def routing_context_def sat_sub_def)
       (simp add: routing_gate_config_def default_elm_config_def default_data_config_def default_budgets_def)
  have fields: "ea_metadata routing_model = (ea_metadata sample_model)\<lparr>mm_task_id := routing_task, mm_tenant_scope := ''local''\<rparr>"
    "ea_feature_schema routing_model = routing_elm_feature_schema"
    by (simp_all add: routing_model_def)
  have "\<not> rollout_excluded ?task 0" by (simp add: rollout_excluded_def)
  moreover have "\<not> uncalibrated routing_model"
    by (simp add: uncalibrated_def routing_model_def sample_model_def)
  moreover have "length (fs_names routing_elm_feature_schema) = 26" by (simp add: routing_elm_feature_schema_def)
  ultimately have model: "model_gate routing_gate_config routing_state ?cx ?task routing_model = Inr (routing_record, ?policy)"
    using routing_lookups routing_distance
    by (simp add: model_gate_def fields routing_context_def sample_model_def routing_record_def sample_policy_def)
  have task: "cx_task_id ?cx = routing_task" by (simp add: routing_context_def)
  have "stage_authorised ?task (rr_stage routing_record)" by (simp add: stage_authorised_def routing_record_def)
  moreover have "f_clamp (Fin (1 / 2)) (Fin 0) (Fin 1) = Fin (1 / 2)" by (simp add: f_clamp_def)
  ultimately show "gm_artifact gated = Some routing_model" "gm_influence_cap gated = Fin (1 / 4)" "\<not> gm_shadow gated"
    "gm_mode gated = Mode_Auto"
    using request model task routing_mode routing_lookups
    by (simp_all add: gated_def admit_def f_min_def min_def less_eq_f64_def)
qed

definition llama_candidate :: provider_candidate where
  "llama_candidate = from_profile \<lparr>rp_version = 1, rp_workflow_profiles = [], rp_keyword_tags = [],
     rp_provider_specialties = []\<rparr> (default_provider_profile\<lparr>pf_provider_type := ''ollama''\<rparr>)"

lemma routing_score:
  "rv_score (routing_elm_score True routing_gate_config False E 6 w (\<lambda>_. 0) (\<lambda>_ _. Inr ([Fin (1 / 2)], Fin 0)) ''i'' ''ollama/m''
     False llama_candidate routing_terms (replicate 26 (Fin 0)) d routing_state) = Fin (1 / 8)"
proof -
  have provider: "to_ascii_lowercase (pc_provider_type llama_candidate) \<in> set known_providers"
    unfolding llama_candidate_def by code_simp
  have claimed: "claim_elm_canary_decision routing_gate_config E 6 w routing_model d routing_state = (True, d, routing_state)"
    using routing_lookups(5)
    by (simp add: claim_elm_canary_decision_def routing_model_def sample_model_def routing_record_def)
  have reason: "prediction_reason routing_gate_config routing_model (Fin (1 / 2)) (Fin 0) = None"
    using routing_lookups(1,2)
    by (simp add: prediction_reason_def routing_model_def sample_policy_def f_abs_def f_mul_def unwrap_or_def rnd_def)
  have "rnd (1 / 8) = Fin (1 / 8)" by (rule grid_rnd) (simp add: grid_def)
  then show ?thesis
    using provider claimed reason routing_admits routing_mode
    by (simp add: routing_elm_score_def routing_terms_def Let_def f_mul_def)
qed

theorem learned_score_is_gated_witness:
  "\<exists>a cap. champion routing_state routing_task = Some a \<and> f_lt (Fin 0) cap
     \<and> Fin (1 / 8) = f_add (Fin 0) (f_mul (Fin (1 / 2)) cap)"
proof -
  let ?v = "routing_elm_score True routing_gate_config False undefined 6 Written (\<lambda>_. 0) (\<lambda>_ _. Inr ([Fin (1 / 2)], Fin 0)) ''i''
     ''ollama/m'' False llama_candidate routing_terms (replicate 26 (Fin 0)) undefined routing_state"
  have "rv_score ?v \<noteq> rt_base_score routing_terms"
    unfolding routing_score by (simp add: routing_terms_def)
  from learned_score_is_gated [OF this] show ?thesis
    unfolding routing_score by (auto simp: routing_terms_def)
qed

theorem rollback_needs_three_failures_witness:
  "run_reports True ''t'' [(False, True), (False, True), (False, True)] [] ! 2
     \<and> [(False, True), (False, True), (False, True)] ! 2 = (False, True)"
proof -
  have n: "2 < length [(False, True), (False, True), (False, True)]" by simp
  have asked: "run_reports True ''t'' [(False, True), (False, True), (False, True)] [] ! 2" by code_simp
  from rollback_needs_three_failures [OF n asked] asked show ?thesis by blast
qed

definition llama_ranked :: ranked_candidate where
  "llama_ranked = \<lparr>rk_candidate = llama_candidate, rk_score = Fin 0, rk_health_ok = True, rk_health_mode = None,
     rk_generation_tokens_per_second = None\<rparr>"

definition idle_load :: load_snapshot where
  "idle_load = \<lparr>ls_in_flight = 0, ls_waiting = 0, ls_limit_ratio = Fin 0, ls_limit_reached = False,
     ls_host_budget_ratio = Fin 0, ls_host_budget_reached = False\<rparr>"

theorem dispatch_estimates_are_usable_witness:
  "\<exists>e. map_of (dispatch_estimates (\<lambda>_. None) (\<lambda>_. None) (\<lambda>_. idle_load) ''api'' ''p'' ''w'' ''r'' None 100
        (metrics_after [Attempt sample_attempt]) [llama_ranked])
        (candidate_id (\<lambda>_. None) (rk_candidate llama_ranked)) = Some e
     \<and> usable_estimate e"
  by (rule dispatch_estimates_are_usable)
    (simp_all add: recorded_def recorded_quality_def sample_attempt_def u64_max_def)

end
