(* ===== verification/Spec2Isabelle.thy ===== *)
theory Spec2Isabelle
  imports Prelude Errors Aer Float64 ElmConfig ElmArtifact ElmLifecycle ElmRegistry ElmRegistryEffects ElmRegistryInvariants ElmRegistryContract ElmRegistryRuns ElmRegistryHistory ElmRegistryReplies ElmRegistrySafety ElmPolicies ElmGates ElmGateSafety ElmData PromptBudget Redaction Routing Environment Candidates HealthClass LoadTracking StableSort Selection Workload Invocation Dispatch FloatLaws Market TradingConfig TradeEconomics TradeOutcomes PaperQualification TradingState Balances OrderSubmission Decision Execution ExecutionSafety TradingRuns TradingFindings Allocator QuantSignals QuantMigration QuantMigrationSafety Calibration ElmWorker ElmWorkerSafety Governance GovernanceSafety Vault Admission Ledger CandidatePool FloatRange RoutingMetrics Ranking
begin

text \<open>
  Gail is a service that routes requests for language-model completions over providers, keeps a
  registry of small learned models (ELM), and runs a trading bridge to OctoBot. This library models
  its decision logic, written in Rust under \<^verbatim>\<open>src/src\<close>, as functions on records and datatypes that keep
  the names of the source, and proves what makes each part correct.

  The parts and how they interact. A request enters the orchestration: its workload class fixes the
  policy, the prompt is cut to the budget of the model, the ranked candidates are selected, admitted by
  the load tracker and invoked in waves until one answers usefully; failures become health states that
  the next selection reads. The ELM registry holds learned models with their evidence; the gates let a
  model influence a decision only in the stages, modes and limits of the configuration. The trading
  bridge imports trades and markets, lets a decision engine blend fuzzy, language-model or quantitative
  advice, and executes what passes; the quantitative controller measures its signals against the
  language models and takes over, or gives back, the advisory stage.

  Foundations.
  \<^item> \<^theory_text>\<open>Prelude\<close>: fixed-width integers and saturating operations, string functions of Rust, results, the
    locale \<open>prefix_codec\<close>. \<^theory_text>\<open>Float64\<close> and \<^theory_text>\<open>FloatLaws\<close>: \<open>f64\<close> as not-a-number, infinities and exact
    rationals, each operation rounded to nearest, ties to even; the sign of zero is not kept, and no
    code that is modelled tells the zeros apart. \<^theory_text>\<open>StableSort\<close>: comparators, the stable sort, \<open>max_by\<close>
    and the locale \<open>consistent_comparator\<close>, under which a stable sort is a sorted permutation.
  \<^item> \<^theory_text>\<open>Errors\<close>: the errors of the service and their responses (\<^verbatim>\<open>errors.rs\<close>). \<^theory_text>\<open>Redaction\<close>: removal of
    credentials from JSON (\<^verbatim>\<open>redaction.rs\<close>). \<^theory_text>\<open>Aer\<close>: the spike-event codec (\<^verbatim>\<open>aer.rs\<close>); the varint and the
    event codec are interpretations of \<open>prefix_codec\<close>, from which the round trip follows.
  \<^item> \<^theory_text>\<open>Governance\<close> (\<^verbatim>\<open>governance.rs\<close>, the authorisation of \<^verbatim>\<open>orchestration.rs\<close>): the guard that shows every
    governed exchange to the Aria service, completions inside the process, and the classifier that Aria
    calls back. \<^theory_text>\<open>GovernanceSafety\<close>: nothing passes unseen in enforcing mode, nothing is withheld in
    monitoring mode, no text is left out of what is shown, and the credentials are separate.
  \<^item> \<^theory_text>\<open>Vault\<close> (\<^verbatim>\<open>model_credentials.rs\<close>): the encrypted file of credentials refines a map. \<^theory_text>\<open>Admission\<close>
    (\<^verbatim>\<open>provider_admission.rs\<close>): a provider is admitted on an unbroken run of samples of its version.
    \<^theory_text>\<open>Ledger\<close> (\<^verbatim>\<open>llm_ledger.rs\<close>, \<^verbatim>\<open>mirror_worker.rs\<close>, \<^verbatim>\<open>trainer_worker.rs\<close>): the schedule of mirroring,
    validation and training ends, and what it leaves open. The tables of the database are functions and
    lists of rows, each statement a function on them.

  The ELM registry.
  \<^item> \<^theory_text>\<open>ElmConfig\<close> (\<^verbatim>\<open>elm_config.rs\<close>), \<^theory_text>\<open>ElmArtifact\<close> (\<^verbatim>\<open>elm/model.rs\<close>, \<^verbatim>\<open>elm/math.rs\<close>), \<^theory_text>\<open>ElmLifecycle\<close>
    (\<^verbatim>\<open>elm/lifecycle.rs\<close>), \<^theory_text>\<open>ElmData\<close> (\<^verbatim>\<open>elm/data.rs\<close>), \<^theory_text>\<open>ElmGates\<close> (\<^verbatim>\<open>elm/gates.rs\<close>): configuration,
    artifacts, stages with the evidence gate, datasets with their split, admission of decisions.
    \<^theory_text>\<open>ElmPolicies\<close> and \<^theory_text>\<open>ElmGateSafety\<close> state what they guarantee.
  \<^item> \<^theory_text>\<open>ElmRegistry\<close> (\<^verbatim>\<open>elm/mod.rs\<close>): a registry directory is a map of files, every write has an outcome
    (written, failed before or after its rename), every process has a cache. \<^theory_text>\<open>ElmRegistryEffects\<close> brings
    the operations to one shape, \<^theory_text>\<open>ElmRegistryInvariants\<close> and \<^theory_text>\<open>ElmRegistryContract\<close> give their
    invariants and the contract \<open>registry_operation\<close>, interpreted for every operation;
    \<^theory_text>\<open>ElmRegistryRuns\<close>, \<^theory_text>\<open>ElmRegistryHistory\<close> and \<^theory_text>\<open>ElmRegistryReplies\<close> follow runs of several processes
    over the shared directory, and \<^theory_text>\<open>ElmRegistrySafety\<close> concludes.
  \<^item> \<^theory_text>\<open>ElmWorker\<close> (\<^verbatim>\<open>elm/worker.rs\<close>): the scan that lets shadow models into a canary and the durable queue
    of training jobs, with what other processes do to the registry before each of its operations as an
    argument. \<^theory_text>\<open>ElmWorkerSafety\<close> shows that a canary rests on the evidence of the index it is entered
    into, that the busy loop of the worker ends, and where a job is left behind.

  The orchestration, \<^verbatim>\<open>orchestration.rs\<close> with \<^verbatim>\<open>models.rs\<close>, \<^verbatim>\<open>config.rs\<close>, \<^verbatim>\<open>providers/mod.rs\<close>, \<^verbatim>\<open>routing.rs\<close>,
  \<^verbatim>\<open>prompt_budget.rs\<close> and \<^verbatim>\<open>metrics.rs\<close>.
  \<^item> \<^theory_text>\<open>Routing\<close>, \<^theory_text>\<open>PromptBudget\<close>, \<^theory_text>\<open>Environment\<close>, \<^theory_text>\<open>Candidates\<close>, \<^theory_text>\<open>HealthClass\<close>, \<^theory_text>\<open>Workload\<close>: the contract of
    paths, the compaction of a request, environment readers, candidates and their identity, the
    classification of failures, the policy of a request.
  \<^item> \<^theory_text>\<open>LoadTracking\<close>: the counters of requests in flight refine a multiset of leases; the locale
    \<open>lease_store\<close> is interpreted for a table of counts and for the whole tracker.
  \<^item> \<^theory_text>\<open>CandidatePool\<close>: which configured profiles join the provider that a request names, the trained profiles
    that comparative admission keeps out, and the pool that is left; with three routes that lose it.
  \<^item> \<^theory_text>\<open>RoutingMetrics\<close> (\<^verbatim>\<open>metrics.rs\<close>): the statistics of the attempts, health and backoff, and what routing
    reads of them; every attempt is counted once, and \<^theory_text>\<open>FloatRange\<close> bounds what history can do to a score.
    \<^theory_text>\<open>Ranking\<close>: the health and score of a candidate, the correction of a learned model and its automatic
    rollback, and the estimates of the dispatch, which can always be compared.
  \<^item> \<^theory_text>\<open>Selection\<close>: the ranked, adaptive and round-robin selections. \<^theory_text>\<open>Invocation\<close>: the attempts of one
    invocation. \<^theory_text>\<open>Dispatch\<close>: the waves of \<^verbatim>\<open>complete_inner\<close>, with the answers of the invocations and
    the state of health and load at each wave as functions of the environment.

  The trading bridge, \<^verbatim>\<open>trading/\<close>.
  \<^item> \<^theory_text>\<open>TradingConfig\<close> (\<^verbatim>\<open>config.rs\<close>), \<^theory_text>\<open>TradingState\<close> (\<^verbatim>\<open>state.rs\<close>), \<^theory_text>\<open>Market\<close> (the data and the breaker of
    \<^verbatim>\<open>octobot.rs\<close>), \<^theory_text>\<open>TradeEconomics\<close> (\<^verbatim>\<open>economics.rs\<close>, \<^verbatim>\<open>quantitative/telemetry.rs\<close>), \<^theory_text>\<open>TradeOutcomes\<close>
    (\<^verbatim>\<open>outcomes.rs\<close>), \<^theory_text>\<open>PaperQualification\<close> (\<^verbatim>\<open>qualification.rs\<close>).
  \<^item> \<^theory_text>\<open>Decision\<close> (\<^verbatim>\<open>decision.rs\<close>), \<^theory_text>\<open>Balances\<close> (balances and rerouting in \<^verbatim>\<open>mod.rs\<close>), \<^theory_text>\<open>OrderSubmission\<close>
    (\<^verbatim>\<open>place_order\<close> of \<^verbatim>\<open>octobot.rs\<close>), \<^theory_text>\<open>Execution\<close> (\<^verbatim>\<open>execute_if_warranted\<close> of \<^verbatim>\<open>mod.rs\<close>): one decision, from
    its gates to the order. An execution is a list of events (writes, lease, order, release) with the
    state after each, so that a crash is a prefix. \<^theory_text>\<open>ExecutionSafety\<close>, \<^theory_text>\<open>TradingRuns\<close> and
    \<^theory_text>\<open>TradingFindings\<close> state what holds of an execution, of every run with crashes and restarts, and
    where the code departs from its documentation.
  \<^item> \<^theory_text>\<open>Allocator\<close> (\<^verbatim>\<open>quantitative/portfolio.rs\<close>), \<^theory_text>\<open>QuantSignals\<close> and \<^theory_text>\<open>QuantMigration\<close> (\<^verbatim>\<open>quant.rs\<close>,
    \<^verbatim>\<open>quantitative/selection.rs\<close>): the weights, the signals and the guarded migration;
    \<^theory_text>\<open>QuantMigrationSafety\<close> follows the controller over rounds, failed writes and restarts.
    \<^theory_text>\<open>Calibration\<close> (\<^verbatim>\<open>quantitative/calibration.rs\<close> and its calls in \<^verbatim>\<open>mod.rs\<close>): the observations of past
    signals, the conservative estimate of an edge and the gate that a signal passes before it is traded.

  Bounds and fuel. Recursions end by structure or by a measure that is proved. Counters saturate at the
  width of \<open>usize\<close> on a 64-bit target. The one function with fuel, the ceiling of a square root in
  \<^theory_text>\<open>Selection\<close>, searches upwards from zero with the number itself as fuel, which its lemma shows to be
  enough. Sequences of requests and retries carry the attempts of the code (at most 21 requests of one
  order, the retries of the policy plus two for one invocation).

  Parameters. What is not under \<^verbatim>\<open>src\<close>, or is drawn from the world, is an argument: clocks, identifiers and
  digests, environment variables, the logarithm and the exponential, parsing of URLs and YAML, the answers of providers and of
  OctoBot, the outcome of each write. Fresh identifiers are a hypothesis where the code draws a UUID.

  Not modelled: HTTP handlers and clients, wiring and rendering (\<^verbatim>\<open>app.rs\<close>, \<^verbatim>\<open>client.rs\<close>, \<^verbatim>\<open>providers/*.rs\<close>,
  the readers of \<^verbatim>\<open>octobot.rs\<close>), threads and channels (\<^verbatim>\<open>elm/executor.rs\<close>), numerical
  training and evaluation (\<^verbatim>\<open>elm/math.rs\<close>, strategy sleeves and the native backtest), external
  training processes (the pipeline of \<^verbatim>\<open>trainer_worker.rs\<close>), bridges to other services (\<^verbatim>\<open>aarnn_bridge.rs\<close>, \<^verbatim>\<open>specialists.rs\<close>), telemetry and dashboards: they are I/O, or numerics whose results the modelled code
  takes as data. Of the orchestration, the parallel race inside a wave, mirroring and
  audit logging are left out; of the bridge, its loops, token discovery and the choice of the market. Locks are
  taken for granted: an operation that holds its lock throughout is one step, and where the code releases
  it between steps (the write of a round, the lease of an order) the steps are separate.
\<close>

end
